(* ===== verification/Prelude.thy ===== *)
theory Prelude
  imports Main "HOL-Library.Word" "HOL-Library.Multiset" "HOL-Library.List_Lexorder" "HOL-Library.Char_ord"
begin

text \<open>
  Shared vocabulary of the development: the error values of the Go code, computations that
  thread a store and may return an error, the key-value store under the modules, Go maps as
  lists in iteration order, and the generic lemmas on them.
\<close>

section \<open>Errors and results\<close>

text \<open>
  One datatype for every error value the modelled code returns. The constructors are the error
  types the code tests for (\<open>errors.Is\<close>, \<open>errors.As\<close>) or names; \<open>Errorf\<close> is an anonymous
  \<open>fmt.Errorf\<close>, \<open>Wrapf\<close> one with a wrapped cause. A Go panic is the value \<open>Panic\<close>, which no
  modelled code catches unless it has a \<open>recover\<close>.
\<close>

datatype go_error =
    ErrNotFound
  | ErrConflict
  | CurrencyPairNotExistError string
  | QuotePriceNotExistError string
  | CurrencyPairAlreadyExistsError string
  | MarketAlreadyExistsError string
  | MarketDoesNotExistsError string
  | NilRequestError string
  | WrappedHandlerError string go_error
  | CodecError go_error
  | MissingCommitInfoError
  | PriceAggregationError go_error
  | InvalidExtendedCommitInfoError go_error
  | PreBlockError go_error
  | OracleClientError go_error
  | TransformPricesError go_error
  | ValidateVoteExtensionError go_error
  | ErrPanic go_error
  | Errorf string
  | Wrapf string go_error
  | Panic string

type_synonym 'a res = "go_error + 'a"
type_synonym u64 = "64 word"
type_synonym i64 = "64 word"
type_synonym bytes = "8 word list"

named_theorems comp_simps \<open>evaluation of computations\<close>
named_theorems keeps_rules \<open>invariants kept by computations\<close>

definition is_ok :: "'e + 'a \<Rightarrow> bool" where
  "is_ok r = (case r of Inl _ \<Rightarrow> False | Inr _ \<Rightarrow> True)"

lemma is_ok_simps [simp]: "is_ok (Inr a)" "\<not> is_ok (Inl e)"
  by (simp_all add: is_ok_def)

lemma is_ok_iff: "is_ok r \<longleftrightarrow> (\<exists>a. r = Inr a)"
  by (cases r) simp_all

definition bind_res :: "'e + 'a \<Rightarrow> ('a \<Rightarrow> 'e + 'b) \<Rightarrow> 'e + 'b" where
  "bind_res r f = (case r of Inl e \<Rightarrow> Inl e | Inr a \<Rightarrow> f a)"

lemma bind_res_simps [simp]:
  "bind_res (Inl e) f = Inl e" "bind_res (Inr a) f = f a"
  by (simp_all add: bind_res_def)

lemma bind_res_Inr_iff: "bind_res r f = Inr b \<longleftrightarrow> (\<exists>a. r = Inr a \<and> f a = Inr b)"
  by (cases r) simp_all

lemma bind_res_Inl_iff:
  "bind_res r f = Inl e \<longleftrightarrow> r = Inl e \<or> (\<exists>a. r = Inr a \<and> f a = Inl e)"
  by (cases r) simp_all

lemma is_ok_bind_res [simp]: "is_ok (bind_res r f) \<longleftrightarrow> (\<exists>a. r = Inr a \<and> is_ok (f a))"
  by (cases r) simp_all

text \<open>A \<open>for\<close> loop whose body returns early on an error.\<close>

fun each_ok :: "('a \<Rightarrow> unit res) \<Rightarrow> 'a list \<Rightarrow> unit res" where
  "each_ok f [] = Inr ()"
| "each_ok f (x # xs) = bind_res (f x) (\<lambda>_. each_ok f xs)"

lemma each_ok_iff: "is_ok (each_ok f xs) \<longleftrightarrow> (\<forall>x \<in> set xs. is_ok (f x))"
proof (induction xs)
  case (Cons x xs)
  then show ?case by (cases "f x") simp_all
qed simp

lemma unit_res_ok: "(r :: unit res) = Inr () \<longleftrightarrow> is_ok r"
  by (cases r) simp_all

section \<open>Computations over a store\<close>

text \<open>
  A function that takes a context reads and writes the store and returns a value or an error:
  the new store is returned on both outcomes, since the code may fail after it has written.
\<close>

type_synonym ('s, 'a) comp = "'s \<Rightarrow> 'a res \<times> 's"

definition returnC :: "'a \<Rightarrow> ('s, 'a) comp" where
  "returnC a = (\<lambda>s. (Inr a, s))"

definition throwC :: "go_error \<Rightarrow> ('s, 'a) comp" where
  "throwC e = (\<lambda>s. (Inl e, s))"

definition liftC :: "'a res \<Rightarrow> ('s, 'a) comp" where
  "liftC r = (\<lambda>s. (r, s))"

definition readC :: "('s \<Rightarrow> 'a res) \<Rightarrow> ('s, 'a) comp" where
  "readC f = (\<lambda>s. (f s, s))"

definition modifyC :: "('s \<Rightarrow> 's) \<Rightarrow> ('s, unit) comp" where
  "modifyC f = (\<lambda>s. (Inr (), f s))"

definition bindC :: "('s, 'a) comp \<Rightarrow> ('a \<Rightarrow> ('s, 'b) comp) \<Rightarrow> ('s, 'b) comp" where
  "bindC m f = (\<lambda>s. case m s of (Inl e, t) \<Rightarrow> (Inl e, t) | (Inr a, t) \<Rightarrow> f a t)"

text \<open>\<open>if err := m; err != nil { return wrap(err) }\<close>: an error is wrapped, a panic passes through.\<close>

definition wrap_err :: "(go_error \<Rightarrow> go_error) \<Rightarrow> go_error \<Rightarrow> go_error" where
  "wrap_err w e = (case e of Panic s \<Rightarrow> Panic s | _ \<Rightarrow> w e)"

definition mapErrC :: "(go_error \<Rightarrow> go_error) \<Rightarrow> ('s, 'a) comp \<Rightarrow> ('s, 'a) comp" where
  "mapErrC w m = (\<lambda>s. case m s of (Inl e, t) \<Rightarrow> (Inl (wrap_err w e), t) | (Inr a, t) \<Rightarrow> (Inr a, t))"

definition mapErr :: "(go_error \<Rightarrow> go_error) \<Rightarrow> 'a res \<Rightarrow> 'a res" where
  "mapErr w r = (case r of Inl e \<Rightarrow> Inl (wrap_err w e) | Inr a \<Rightarrow> Inr a)"

fun forC :: "'a list \<Rightarrow> ('a \<Rightarrow> ('s, unit) comp) \<Rightarrow> ('s, unit) comp" where
  "forC [] f = returnC ()"
| "forC (x # xs) f = bindC (f x) (\<lambda>_. forC xs f)"

lemma wrap_err_simps [simp]:
  "wrap_err w (Panic s) = Panic s" "wrap_err w ErrNotFound = w ErrNotFound" "wrap_err w (Errorf s) = w (Errorf s)"
  "wrap_err w (CurrencyPairNotExistError s) = w (CurrencyPairNotExistError s)"
  by (simp_all add: wrap_err_def)

lemma mapErr_simps [simp]:
  "mapErr w (Inl e) = Inl (wrap_err w e)" "mapErr w (Inr a) = Inr a"
  by (simp_all add: mapErr_def)

lemma mapErr_Inr_iff [simp]: "mapErr w r = Inr a \<longleftrightarrow> r = Inr a"
  by (cases r) simp_all

lemma is_ok_mapErr [simp]: "is_ok (mapErr w r) = is_ok r"
  by (cases r) simp_all

lemma comp_eval [comp_simps]:
  "returnC a s = (Inr a, s)" "throwC e s = (Inl e, s)" "liftC r s = (r, s)"
  "readC g s = (g s, s)" "modifyC h s = (Inr (), h s)"
  by (simp_all add: returnC_def throwC_def liftC_def readC_def modifyC_def)

lemma bindC_eval [comp_simps]:
  "m s = (Inr a, t) \<Longrightarrow> bindC m f s = f a t"
  "m s = (Inl e, t) \<Longrightarrow> bindC m f s = (Inl e, t)"
  by (simp_all add: bindC_def)

lemma mapErrC_eval [comp_simps]:
  "m s = (Inr a, t) \<Longrightarrow> mapErrC w m s = (Inr a, t)"
  "m s = (Inl e, t) \<Longrightarrow> mapErrC w m s = (Inl (wrap_err w e), t)"
  by (simp_all add: mapErrC_def)

lemma bindC_Inr_iff:
  "bindC m f s = (Inr b, t) \<longleftrightarrow> (\<exists>a u. m s = (Inr a, u) \<and> f a u = (Inr b, t))"
  by (auto simp: bindC_def split: prod.splits sum.splits)

lemma bindC_Inl_iff:
  "bindC m f s = (Inl e, t) \<longleftrightarrow>
     m s = (Inl e, t) \<or> (\<exists>a u. m s = (Inr a, u) \<and> f a u = (Inl e, t))"
  by (auto simp: bindC_def split: prod.splits sum.splits)

lemma mapErrC_Inr_iff [simp]: "mapErrC w m s = (Inr a, t) \<longleftrightarrow> m s = (Inr a, t)"
  by (auto simp: mapErrC_def split: prod.splits sum.splits)

lemma returnC_Inr: "returnC a s = (Inr b, t) \<longleftrightarrow> b = a \<and> t = s"
  by (auto simp: comp_simps)

lemma throwC_Inr: "throwC e s = (Inr b, t) \<longleftrightarrow> False"
  by (simp add: comp_simps)

lemma liftC_Inr: "liftC r s = (Inr b, t) \<longleftrightarrow> r = Inr b \<and> t = s"
  by (auto simp: comp_simps)

lemma readC_Inr: "readC g s = (Inr b, t) \<longleftrightarrow> g s = Inr b \<and> t = s"
  by (auto simp: comp_simps)

lemma modifyC_Inr: "modifyC h s = (Inr b, t) \<longleftrightarrow> t = h s"
  by (auto simp: comp_simps)

lemmas comp_Inr_iffs = returnC_Inr throwC_Inr liftC_Inr readC_Inr modifyC_Inr

lemmas comp_Inr = bindC_Inr_iff comp_Inr_iffs

subsection \<open>Invariants of computations\<close>

text \<open>\<open>keeps I m\<close>: \<open>m\<close> keeps \<open>I\<close> whether it returns a value or an error; \<open>keeps_ok\<close>: when
  it returns a value.\<close>

definition keeps :: "('s \<Rightarrow> bool) \<Rightarrow> ('s, 'a) comp \<Rightarrow> bool" where
  "keeps I m \<longleftrightarrow> (\<forall>s. I s \<longrightarrow> I (snd (m s)))"

definition keeps_ok :: "('s \<Rightarrow> bool) \<Rightarrow> ('s, 'a) comp \<Rightarrow> bool" where
  "keeps_ok I m \<longleftrightarrow> (\<forall>s a t. I s \<longrightarrow> m s = (Inr a, t) \<longrightarrow> I t)"

lemma keepsI: "(\<And>s. I s \<Longrightarrow> I (snd (m s))) \<Longrightarrow> keeps I m"
  by (simp add: keeps_def)

lemma keepsD: "keeps I m \<Longrightarrow> I s \<Longrightarrow> m s = (r, t) \<Longrightarrow> I t"
  unfolding keeps_def by (metis snd_conv)

lemma keeps_okI: "(\<And>s a t. I s \<Longrightarrow> m s = (Inr a, t) \<Longrightarrow> I t) \<Longrightarrow> keeps_ok I m"
  by (auto simp: keeps_ok_def)

lemma keeps_okD: "keeps_ok I m \<Longrightarrow> I s \<Longrightarrow> m s = (Inr a, t) \<Longrightarrow> I t"
  by (auto simp: keeps_ok_def)

lemma keeps_imp_ok: "keeps I m \<Longrightarrow> keeps_ok I m"
  by (auto simp: keeps_ok_def dest: keepsD)

lemma keeps_basic [keeps_rules, simp, intro]:
  "keeps I (returnC a)" "keeps I (throwC e)" "keeps I (liftC r)" "keeps I (readC g)"
  by (simp_all add: keeps_def comp_simps)

lemma keeps_bindC [keeps_rules]:
  assumes "keeps I m" and "\<And>a. keeps I (f a)"
  shows "keeps I (bindC m f)"
proof (rule keepsI)
  fix s assume I: "I s"
  obtain r t where m: "m s = (r, t)" by (cases "m s")
  with assms(1) I have t: "I t" by (auto dest: keepsD)
  show "I (snd (bindC m f s))"
  proof (cases r)
    case (Inl e)
    with m t show ?thesis by (simp add: bindC_def)
  next
    case (Inr a)
    with m t assms(2) [of a] show ?thesis by (simp add: bindC_def keeps_def)
  qed
qed

lemma keeps_ok_bindC:
  assumes "keeps_ok I m" and "\<And>a. keeps_ok I (f a)"
  shows "keeps_ok I (bindC m f)"
  by (rule keeps_okI) (auto simp: bindC_Inr_iff dest: keeps_okD [OF assms(1)] keeps_okD [OF assms(2)])

lemma keeps_mapErrC [keeps_rules]: "keeps I m \<Longrightarrow> keeps I (mapErrC w m)"
  by (auto simp: keeps_def mapErrC_def split: prod.splits sum.splits)

lemma keeps_modifyC: "(\<And>s. I s \<Longrightarrow> I (h s)) \<Longrightarrow> keeps I (modifyC h)"
  by (simp add: keeps_def comp_simps)

lemma keeps_forC [keeps_rules]: "(\<And>x. x \<in> set xs \<Longrightarrow> keeps I (f x)) \<Longrightarrow> keeps I (forC xs f)"
  by (induction xs) (auto intro: keeps_bindC)

lemma keeps_ok_forC: "(\<And>x. x \<in> set xs \<Longrightarrow> keeps_ok I (f x)) \<Longrightarrow> keeps_ok I (forC xs f)"
  by (induction xs) (auto intro: keeps_ok_bindC keeps_imp_ok)

lemma keeps_if [keeps_rules]: "keeps I m \<Longrightarrow> keeps I n \<Longrightarrow> keeps I (if b then m else n)"
  by simp

lemma keeps_conj: "keeps I m \<Longrightarrow> keeps J m \<Longrightarrow> keeps (\<lambda>s. I s \<and> J s) m"
  by (simp add: keeps_def)

end
