(* ===== verification/Kv_Store.thy ===== *)
theory Kv_Store
  imports Prelude "HOL-Library.AList"
begin

text \<open>
  The state the modules keep, and the Go maps they build.

  A \<open>collections.Map\<close> over the module's store is the list of its entries in ascending key
  order, which is the order \<open>Iterate\<close> walks; a \<open>collections.Item\<close> is an optional value. The
  contract the keepers rely on (what a lookup returns after a write or a removal, that iteration
  is ordered and complete, that the contents determine the state) is the locale \<open>kv_map\<close>.

  A Go \<open>map[K]V\<close> is the list of its entries in the order one \<open>range\<close> loop visits them. The
  language leaves that order open, so a statement about a loop over a map is a statement about
  every such list.
\<close>

section \<open>The contract of a key-value collection\<close>

locale kv_map =
  fixes emp :: "'m"
    and get :: "'m \<Rightarrow> 'k::linorder \<Rightarrow> 'v option"
    and put :: "'k \<Rightarrow> 'v \<Rightarrow> 'm \<Rightarrow> 'm"
    and del :: "'k \<Rightarrow> 'm \<Rightarrow> 'm"
    and entries :: "'m \<Rightarrow> ('k \<times> 'v) list"
    and wf :: "'m \<Rightarrow> bool"
  assumes wf_emp: "wf emp"
    and wf_put: "wf m \<Longrightarrow> wf (put k v m)"
    and wf_del: "wf m \<Longrightarrow> wf (del k m)"
    and get_emp: "get emp k = None"
    and get_put: "wf m \<Longrightarrow> get (put k v m) k' = (if k' = k then Some v else get m k')"
    and get_del: "wf m \<Longrightarrow> get (del k m) k' = (if k' = k then None else get m k')"
    and get_entries: "wf m \<Longrightarrow> get m k = map_of (entries m) k"
    and entries_sorted: "wf m \<Longrightarrow> sorted_wrt (<) (map fst (entries m))"
    and entries_inj: "wf m \<Longrightarrow> wf n \<Longrightarrow> entries m = entries n \<Longrightarrow> m = n"
begin

lemma distinct_keys: "wf m \<Longrightarrow> distinct (map fst (entries m))"
  using entries_sorted by (simp add: strict_sorted_iff)

lemma entries_iff: "wf m \<Longrightarrow> (k, v) \<in> set (entries m) \<longleftrightarrow> get m k = Some v"
  by (simp add: get_entries distinct_keys)

lemma keys_iff: "wf m \<Longrightarrow> k \<in> fst ` set (entries m) \<longleftrightarrow> get m k \<noteq> None"
  by (simp add: get_entries map_of_eq_None_iff)

lemma ext_eq:
  assumes "wf m" "wf n" "\<And>k. get m k = get n k"
  shows "m = n"
proof (rule entries_inj [OF assms(1,2)])
  have mo: "map_of (entries m) = map_of (entries n)"
    using assms by (auto simp: get_entries fun_eq_iff)
  have "set (entries m) = set (entries n)"
    using mo distinct_keys [OF assms(1)] distinct_keys [OF assms(2)]
    by (metis map_of_inject_set)
  moreover have "sorted (map fst (entries m))" "sorted (map fst (entries n))"
    using entries_sorted [OF assms(1)] entries_sorted [OF assms(2)]
    by (simp_all add: strict_sorted_iff)
  ultimately show "entries m = entries n"
    using distinct_keys [OF assms(1)] distinct_keys [OF assms(2)]
    by (intro map_sorted_distinct_set_unique [where f = fst])
       (auto simp: distinct_map inj_on_def)
qed

lemma put_put: "wf m \<Longrightarrow> put k v (put k w m) = put k v m"
  by (rule ext_eq) (simp_all add: wf_put get_put)

lemma put_same: "wf m \<Longrightarrow> get m k = Some v \<Longrightarrow> put k v m = m"
  by (rule ext_eq) (simp_all add: wf_put get_put)

lemma put_commute: "wf m \<Longrightarrow> k \<noteq> l \<Longrightarrow> put k v (put l w m) = put l w (put k v m)"
  by (rule ext_eq) (simp_all add: wf_put get_put)

lemma del_put: "wf m \<Longrightarrow> get m k = None \<Longrightarrow> del k (put k v m) = m"
  by (rule ext_eq) (simp_all add: wf_put wf_del get_put get_del)

lemma wf_fold_put: "wf m \<Longrightarrow> wf (fold (\<lambda>(k, v). put k v) xs m)"
  by (induction xs arbitrary: m) (auto simp: wf_put)

lemma get_fold_put:
  "wf m \<Longrightarrow> distinct (map fst xs) \<Longrightarrow>
     get (fold (\<lambda>(k, v). put k v) xs m) k = (case map_of xs k of Some v \<Rightarrow> Some v | None \<Rightarrow> get m k)"
  by (induction xs arbitrary: m)
     (auto simp: wf_put get_put split: option.splits dest: map_of_SomeD
           intro: rev_image_eqI simp flip: map_of_eq_None_iff)

lemma keys_eq: "wf m \<Longrightarrow> fst ` set (entries m) = {k. get m k \<noteq> None}"
  using keys_iff by blast

lemma length_card: "wf m \<Longrightarrow> length (entries m) = card {k. get m k \<noteq> None}"
  using distinct_card [OF distinct_keys, of m] keys_eq [of m] by simp

lemma finite_keys: "wf m \<Longrightarrow> finite {k. get m k \<noteq> None}"
  using keys_eq [of m] by (metis finite_imageI finite_set)

lemma rebuild:
  assumes "wf m"
  shows "fold (\<lambda>(k, v). put k v) (entries m) emp = m"
proof (rule ext_eq)
  fix k
  have "get (fold (\<lambda>(k, v). put k v) (entries m) emp) k =
    (case map_of (entries m) k of Some v \<Rightarrow> Some v | None \<Rightarrow> get emp k)"
    by (rule get_fold_put [OF wf_emp distinct_keys [OF assms]])
  then show "get (fold (\<lambda>(k, v). put k v) (entries m) emp) k = get m k"
    by (simp add: get_emp get_entries [OF assms] split: option.splits)
qed (simp_all add: assms wf_fold_put wf_emp)

lemma get_put_same: "wf m \<Longrightarrow> get (put k v m) k = Some v"
  by (simp add: get_put)

lemma length_put:
  assumes "wf m"
  shows "length (entries (put k v m)) =
    (if get m k = None then Suc (length (entries m)) else length (entries m))"
proof -
  have "{l. get (put k v m) l \<noteq> None} = insert k {l. get m l \<noteq> None}"
    using assms by (auto simp: get_put)
  then show ?thesis
    using assms finite_keys [OF assms]
    by (simp add: length_card wf_put card_insert_if del: not_None_eq)
qed

lemma length_del:
  assumes "wf m" "get m k \<noteq> None"
  shows "Suc (length (entries (del k m))) = length (entries m)"
proof -
  have "{l. get (del k m) l \<noteq> None} = {l. get m l \<noteq> None} - {k}"
    using assms(1) by (auto simp: get_del)
  then show ?thesis
    using assms finite_keys [OF assms(1)]
    using card_Suc_Diff1 [OF finite_keys [OF assms(1)], of k]
    by (simp add: length_card wf_del del: not_None_eq)
qed

end

section \<open>The store's implementation: a sorted list of entries\<close>

type_synonym ('k, 'v) kv = "('k \<times> 'v) list"

definition kv_get :: "('k, 'v) kv \<Rightarrow> 'k \<Rightarrow> 'v option" where
  "kv_get m k = map_of m k"

fun kv_set :: "'k::linorder \<Rightarrow> 'v \<Rightarrow> ('k, 'v) kv \<Rightarrow> ('k, 'v) kv" where
  "kv_set k v [] = [(k, v)]"
| "kv_set k v ((l, w) # m) =
     (if k < l then (k, v) # (l, w) # m
      else if k = l then (k, v) # m
      else (l, w) # kv_set k v m)"

definition kv_del :: "'k \<Rightarrow> ('k, 'v) kv \<Rightarrow> ('k, 'v) kv" where
  "kv_del k m = filter (\<lambda>e. fst e \<noteq> k) m"

definition kv_wf :: "('k::linorder, 'v) kv \<Rightarrow> bool" where
  "kv_wf m = sorted_wrt (<) (map fst m)"

lemma map_of_kv_set: "sorted_wrt (<) (map fst m) \<Longrightarrow>
  map_of (kv_set k v m) k' = (if k' = k then Some v else map_of m k')"
  by (induction m) auto

lemma set_keys_kv_set: "set (map fst (kv_set k v m)) = insert k (set (map fst m))"
proof (induction m)
  case (Cons e m)
  then show ?case by (cases e) (auto simp del: set_map)
qed simp

lemma sorted_kv_set: "sorted_wrt (<) (map fst m) \<Longrightarrow> sorted_wrt (<) (map fst (kv_set k v m))"
proof (induction m)
  case (Cons e m)
  obtain l w where e: "e = (l, w)" by (cases e)
  show ?case
  proof (cases "l < k")
    case True
    with Cons e show ?thesis
      using set_keys_kv_set [of k v m] by auto
  next
    case False
    with Cons.prems e show ?thesis by auto
  qed
qed simp

lemma sorted_kv_del: "sorted_wrt (<) (map fst m) \<Longrightarrow> sorted_wrt (<) (map fst (kv_del k m))"
  by (induction m) (auto simp: kv_del_def)

lemma map_of_kv_del: "map_of (kv_del k m) k' = (if k' = k then None else map_of m k')"
  by (induction m) (auto simp: kv_del_def)

interpretation kv: kv_map "[]" kv_get kv_set kv_del "\<lambda>m. m" kv_wf
  by unfold_locales
    (auto simp: kv_wf_def kv_get_def map_of_kv_set sorted_kv_set sorted_kv_del map_of_kv_del)

lemmas kv_simps = kv.wf_emp kv.wf_put kv.wf_del kv.get_emp kv.get_put kv.get_del

declare kv_simps [simp]

section \<open>Go maps in iteration order\<close>

type_synonym ('k, 'v) gomap = "('k \<times> 'v) list"

definition gm_get :: "('k, 'v) gomap \<Rightarrow> 'k \<Rightarrow> 'v option" where
  "gm_get m k = map_of m k"

definition gm_set :: "'k \<Rightarrow> 'v \<Rightarrow> ('k, 'v) gomap \<Rightarrow> ('k, 'v) gomap" where
  "gm_set k v m = AList.update k v m"

definition gm_del :: "'k \<Rightarrow> ('k, 'v) gomap \<Rightarrow> ('k, 'v) gomap" where
  "gm_del k m = AList.delete k m"

definition gm_wf :: "('k, 'v) gomap \<Rightarrow> bool" where
  "gm_wf m = distinct (map fst m)"

lemma gm_get_map_of: "gm_get m = map_of m"
  by (simp add: fun_eq_iff gm_get_def)

lemma finite_dom_gm_get [simp]: "finite (dom (gm_get m))"
  by (simp add: gm_get_map_of finite_dom_map_of)

lemma gm_get_set [simp]: "gm_get (gm_set k v m) k' = (if k' = k then Some v else gm_get m k')"
  by (simp add: gm_get_def gm_set_def update_conv')

lemma gm_get_del [simp]: "gm_get (gm_del k m) k' = (if k' = k then None else gm_get m k')"
  by (simp add: gm_get_def gm_del_def delete_conv')

lemma gm_get_Nil [simp]: "gm_get [] k = None"
  by (simp add: gm_get_def)

lemma gm_wf_set [simp]: "gm_wf m \<Longrightarrow> gm_wf (gm_set k v m)"
  by (simp add: gm_wf_def gm_set_def distinct_update)

lemma gm_wf_del [simp]: "gm_wf m \<Longrightarrow> gm_wf (gm_del k m)"
  by (simp add: gm_wf_def gm_del_def distinct_delete)

lemma gm_wf_Nil [simp]: "gm_wf []"
  by (simp add: gm_wf_def)

lemma gm_get_iff: "gm_wf m \<Longrightarrow> gm_get m k = Some v \<longleftrightarrow> (k, v) \<in> set m"
  by (simp add: gm_get_def gm_wf_def)

lemma gm_get_mem: "gm_get m k = Some v \<Longrightarrow> (k, v) \<in> set m"
  by (simp add: gm_get_def map_of_SomeD)

lemma gm_wf_perm: "gm_wf m \<Longrightarrow> mset m = mset n \<Longrightarrow> gm_wf n"
  unfolding gm_wf_def by (metis mset_eq_imp_distinct_iff mset_map)

lemma gm_get_perm: "gm_wf m \<Longrightarrow> mset m = mset n \<Longrightarrow> gm_get n = gm_get m"
  using gm_wf_perm [of m n] mset_eq_setD [of m n]
  by (metis gm_get_def gm_wf_def map_of_inject_set ext)

lemma gm_set_values: "\<forall>x \<in> snd ` set m. P x \<Longrightarrow> P v \<Longrightarrow> \<forall>x \<in> snd ` set (gm_set k v m). P x"
  unfolding gm_set_def by (induction m) (auto split: if_splits)

end
