(* ===== verification/Currency_Pair.thy ===== *)
theory Currency_Pair
  imports Go_Strings
begin

text \<open>
  \<open>pkg/types/currency_pair.go\<close>: a currency pair, its validation, its string form and the parser
  of that form, with the round trip between them.
\<close>

section \<open>The type\<close>

record currency_pair =
  cp_base :: string
  cp_quote :: string

definition MaxCPFieldLength :: nat where "MaxCPFieldLength = 256"
definition fieldSeparator :: char where "fieldSeparator = CHR '',''"
definition expectedSplitLength :: nat where "expectedSplitLength = 3"
definition ethereum :: string where "ethereum = ''ETHEREUM''"

definition NewCurrencyPair :: "string \<Rightarrow> string \<Rightarrow> currency_pair" where
  "NewCurrencyPair base quote = \<lparr>cp_base = base, cp_quote = quote\<rparr>"

section \<open>Validation\<close>

definition IsLegacyAssetString :: "string \<Rightarrow> bool" where
  "IsLegacyAssetString asset = (fieldSeparator \<notin> set asset)"

definition coreValidate :: "currency_pair \<Rightarrow> unit res" where
  "coreValidate cp =
     (if cp_base cp = [] then Inl (Errorf ''base asset cannot be empty'')
      else if cp_quote cp = [] then Inl (Errorf ''quote asset cannot be empty'')
      else if MaxCPFieldLength < length (cp_base cp) then Inl (Errorf ''base asset exceeds max length'')
      else if MaxCPFieldLength < length (cp_quote cp) then Inl (Errorf ''quote asset exceeds max length'')
      else Inr ())"

definition ValidateLegacyAssetString :: "string \<Rightarrow> unit res" where
  "ValidateLegacyAssetString asset =
     (if ToUpper asset \<noteq> asset then Inl (Errorf ''incorrectly formatted asset string'')
      else if \<not> IsLegacyAssetString asset
        then Inl (Errorf ''incorrectly formatted asset string, should not contain the separator'')
      else Inr ())"

definition SplitDefiAssetString :: "string \<Rightarrow> (string \<times> string \<times> string) res" where
  "SplitDefiAssetString defiString =
     (let split = split_on fieldSeparator defiString in
      if length split \<noteq> expectedSplitLength then Inl (Errorf ''asset fields have wrong length'')
      else Inr (split ! 0, split ! 1, split ! 2))"

definition ValidateDefiAssetString :: "string \<Rightarrow> unit res" where
  "ValidateDefiAssetString asset =
     bind_res (SplitDefiAssetString asset) (\<lambda>(token, _, _).
     bind_res (mapErr (Wrapf ''token field is invalid'') (ValidateLegacyAssetString token)) (\<lambda>_.
     if ToUpper asset \<noteq> asset then Inl (Errorf ''incorrectly formatted asset string'')
     else Inr ()))"

definition ValidateBasic :: "currency_pair \<Rightarrow> unit res" where
  "ValidateBasic cp =
     bind_res (coreValidate cp) (\<lambda>_.
     bind_res
       (if IsLegacyAssetString (cp_base cp)
        then mapErr (Wrapf ''base asset is invalid'') (ValidateLegacyAssetString (cp_base cp))
        else mapErr (Wrapf ''base defi asset is invalid'') (ValidateDefiAssetString (cp_base cp))) (\<lambda>_.
     if IsLegacyAssetString (cp_quote cp)
     then mapErr (Wrapf ''quote asset is invalid'') (ValidateLegacyAssetString (cp_quote cp))
     else mapErr (Wrapf ''quote defi asset is invalid'') (ValidateDefiAssetString (cp_quote cp))))"

definition LegacyValidateBasic :: "currency_pair \<Rightarrow> unit res" where
  "LegacyValidateBasic cp =
     (if cp_base cp = [] \<or> cp_quote cp = [] then Inl (Errorf ''empty quote or base string'')
      else if ToUpper (cp_base cp) \<noteq> cp_base cp then Inl (Errorf ''incorrectly formatted base string'')
      else if ToUpper (cp_quote cp) \<noteq> cp_quote cp then Inl (Errorf ''incorrectly formatted quote string'')
      else if MaxCPFieldLength < length (cp_base cp) \<or> MaxCPFieldLength < length (cp_quote cp)
        then Inl (Errorf ''string field exceeds maximum length'')
      else Inr ())"

section \<open>Operations\<close>

definition Invert :: "currency_pair \<Rightarrow> currency_pair" where
  "Invert cp = \<lparr>cp_base = cp_quote cp, cp_quote = cp_base cp\<rparr>"

definition CurrencyPair_String :: "currency_pair \<Rightarrow> string" where
  "CurrencyPair_String cp = cp_base cp @ CHR ''/'' # cp_quote cp"

definition CurrencyPairString :: "string \<Rightarrow> string \<Rightarrow> string" where
  "CurrencyPairString base quote = CurrencyPair_String (NewCurrencyPair base quote)"

definition sanitizeAssetString :: "string \<Rightarrow> string res" where
  "sanitizeAssetString s = Inr (ToUpper s)"

text \<open>
  The Go function returns the pair beside a non-nil validation error; every caller drops it then.
\<close>

definition CurrencyPairFromString :: "string \<Rightarrow> currency_pair res" where
  "CurrencyPairFromString s =
     (case split_on (CHR ''/'') s of
        [a, b] \<Rightarrow>
          bind_res (sanitizeAssetString a) (\<lambda>base.
          bind_res (sanitizeAssetString b) (\<lambda>quote.
          let cp = \<lparr>cp_base = base, cp_quote = quote\<rparr> in
          bind_res (ValidateBasic cp) (\<lambda>_. Inr cp)))
      | _ \<Rightarrow> Inl (Errorf ''incorrectly formatted CurrencyPair''))"

definition LegacyDecimals :: "currency_pair \<Rightarrow> int" where
  "LegacyDecimals cp = (if ToUpper (cp_quote cp) = ethereum then 18 else 8)"

definition CurrencyPair_Equal :: "currency_pair \<Rightarrow> currency_pair \<Rightarrow> bool" where
  "CurrencyPair_Equal cp other \<longleftrightarrow> cp_base cp = cp_base other \<and> cp_quote cp = cp_quote other"

section \<open>Facts\<close>

lemma CurrencyPair_Equal_iff [simp]: "CurrencyPair_Equal cp other \<longleftrightarrow> cp = other"
  by (cases cp; cases other) (simp add: CurrencyPair_Equal_def)

lemma Invert_invol [simp]: "Invert (Invert cp) = cp"
  by (cases cp) (simp add: Invert_def)

lemma asset_upper:
  "is_ok (ValidateLegacyAssetString s) \<Longrightarrow> ToUpper s = s"
  "is_ok (ValidateDefiAssetString s) \<Longrightarrow> ToUpper s = s"
  by (auto simp: ValidateLegacyAssetString_def ValidateDefiAssetString_def split: if_splits)

lemma ValidateBasic_upper:
  assumes "ValidateBasic cp = Inr ()"
  shows "ToUpper (cp_base cp) = cp_base cp" and "ToUpper (cp_quote cp) = cp_quote cp"
  using assms asset_upper unfolding ValidateBasic_def
  by (auto simp: bind_res_Inr_iff unit_res_ok split: if_splits)

lemma ValidateBasic_nonempty:
  assumes "ValidateBasic cp = Inr ()"
  shows "cp_base cp \<noteq> []" and "cp_quote cp \<noteq> []"
  using assms by (auto simp: ValidateBasic_def coreValidate_def split: if_splits)

text \<open>Validation does not look for the \<open>/\<close> of the string form inside an asset.\<close>

definition slash_free :: "currency_pair \<Rightarrow> bool" where
  "slash_free cp \<longleftrightarrow> CHR ''/'' \<notin> set (cp_base cp) \<and> CHR ''/'' \<notin> set (cp_quote cp)"

lemma CurrencyPairFromString_iff:
  "CurrencyPairFromString s = Inr cp \<longleftrightarrow>
     (\<exists>a b. s = a @ CHR ''/'' # b \<and> CHR ''/'' \<notin> set a \<and> CHR ''/'' \<notin> set b \<and>
        cp = \<lparr>cp_base = ToUpper a, cp_quote = ToUpper b\<rparr> \<and> ValidateBasic cp = Inr ())"
proof (cases "\<exists>a b. split_on (CHR ''/'') s = [a, b]")
  case True
  then obtain a b where ab: "split_on (CHR ''/'') s = [a, b]" by blast
  have "CurrencyPairFromString s = Inr cp \<longleftrightarrow>
    cp = \<lparr>cp_base = ToUpper a, cp_quote = ToUpper b\<rparr> \<and> ValidateBasic cp = Inr ()"
    by (auto simp: CurrencyPairFromString_def ab sanitizeAssetString_def bind_res_Inr_iff Let_def)
  also have "\<dots> \<longleftrightarrow> (\<exists>a b. split_on (CHR ''/'') s = [a, b] \<and>
      cp = \<lparr>cp_base = ToUpper a, cp_quote = ToUpper b\<rparr> \<and> ValidateBasic cp = Inr ())"
    by (simp add: ab)
  finally show ?thesis by (auto simp: split_on_two)
next
  case False
  then have "CurrencyPairFromString s \<noteq> Inr cp"
    by (auto simp: CurrencyPairFromString_def split: list.splits)
  with False show ?thesis by (auto simp: split_on_two)
qed

lemma FromString_valid: "CurrencyPairFromString s = Inr cp \<Longrightarrow> ValidateBasic cp = Inr ()"
  by (auto simp: CurrencyPairFromString_iff)

lemma upper_char_slash [simp]: "upper_char c = CHR ''/'' \<longleftrightarrow> c = CHR ''/''"
proof -
  have "upper_char c = CHR ''/'' \<longleftrightarrow> (of_char (upper_char c) :: nat) = 47"
    using of_char_eq_iff [of "upper_char c" "CHR ''/''", where ?'a = nat] by simp
  also have "\<dots> \<longleftrightarrow> (of_char c :: nat) = 47"
    by (auto simp: of_char_upper)
  also have "\<dots> \<longleftrightarrow> c = CHR ''/''"
    using of_char_eq_iff [of c "CHR ''/''", where ?'a = nat] by simp
  finally show ?thesis .
qed

lemma slash_upper_char [simp]: "CHR ''/'' = upper_char c \<longleftrightarrow> c = CHR ''/''"
  using upper_char_slash [of c] by (metis (full_types))

lemma slash_ToUpper [simp]: "CHR ''/'' \<in> set (ToUpper s) \<longleftrightarrow> CHR ''/'' \<in> set s"
  by (auto simp: ToUpper_def image_iff)

lemma FromString_slash_free: "CurrencyPairFromString s = Inr cp \<Longrightarrow> slash_free cp"
  by (auto simp: CurrencyPairFromString_iff slash_free_def)

lemma FromString_String_upper: "CurrencyPairFromString s = Inr cp \<Longrightarrow> CurrencyPair_String cp = ToUpper s"
  by (auto simp: CurrencyPairFromString_iff CurrencyPair_String_def ToUpper_append)
    (simp add: ToUpper_def)

lemma String_FromString_aux:
  assumes "ValidateBasic cp = Inr ()" "slash_free cp"
  shows "CurrencyPairFromString (CurrencyPair_String cp) = Inr cp"
  unfolding CurrencyPairFromString_iff
  using assms ValidateBasic_upper [OF assms(1)]
  by (intro exI [of _ "cp_base cp"] exI [of _ "cp_quote cp"])
     (simp add: slash_free_def CurrencyPair_String_def)

lemma String_inj:
  assumes "slash_free cp" "slash_free cq" "CurrencyPair_String cp = CurrencyPair_String cq"
  shows "cp = cq"
proof -
  have "split_on (CHR ''/'') (CurrencyPair_String c) = [cp_base c, cp_quote c]" if "slash_free c" for c
    using that by (simp add: split_on_two slash_free_def CurrencyPair_String_def)
  with assms have "cp_base cp = cp_base cq" "cp_quote cp = cp_quote cq"
    by (metis list.inject)+
  then show ?thesis by simp
qed

end
