(* ===== verification/Go_Json.thy ===== *)
theory Go_Json
  imports Go_Strings
begin

text \<open>
  \<open>pkg/json/json.go\<close>: a byte string is accepted when it is empty or when \<open>encoding/json\<close>
  unmarshals it into a \<open>map[string]interface{}\<close>. The standard library's check is its scanner, a
  state machine with a stack of open objects and arrays, which is modelled step by step; the
  unmarshalling then refuses a top-level value that is neither an object nor \<open>null\<close>, and a
  number beyond the range of \<open>float64\<close>.
\<close>

datatype jstep =
    BeginValueOrEmpty | BeginValue | BeginStringOrEmpty | BeginString | EndValue | EndTop
  | InString | InStringEsc | EscU nat
  | NumNeg | Num1 | Num0 | NumDot | NumDot0 | NumE | NumESign | NumE0
  | Lit string | JError

datatype jparse = ParseObjectKey | ParseObjectValue | ParseArrayValue

type_synonym jstate = "jstep \<times> jparse list"

definition maxNestingDepth :: int where "maxNestingDepth = 10000"

definition is_space :: "char \<Rightarrow> bool" where
  "is_space c = (c \<in> {CHR '' '', CHR 0x09, CHR 0x0D, CHR 0x0A})"

definition is_digit :: "char \<Rightarrow> bool" where
  "is_digit c = (CHR ''0'' \<le> c \<and> c \<le> CHR ''9'')"

definition is_hex :: "char \<Rightarrow> bool" where
  "is_hex c = (is_digit c \<or> (CHR ''a'' \<le> c \<and> c \<le> CHR ''f'') \<or> (CHR ''A'' \<le> c \<and> c \<le> CHR ''F''))"

definition push :: "jstep \<Rightarrow> jparse \<Rightarrow> jparse list \<Rightarrow> jstate" where
  "push st p ps = (if int (length ps) < maxNestingDepth then (st, p # ps) else (JError, p # ps))"

definition pop :: "jparse list \<Rightarrow> jstate" where
  "pop ps = (case tl ps of [] \<Rightarrow> (EndTop, []) | qs \<Rightarrow> (EndValue, qs))"

fun endValue :: "char \<Rightarrow> jparse list \<Rightarrow> jstate" where
  "endValue c [] = (if is_space c then (EndTop, []) else (JError, []))"
| "endValue c (p # ps) =
     (if is_space c then (EndValue, p # ps)
      else case p of
        ParseObjectKey \<Rightarrow>
          if c = CHR '':'' then (BeginValue, ParseObjectValue # ps) else (JError, p # ps)
      | ParseObjectValue \<Rightarrow>
          if c = CHR '','' then (BeginString, ParseObjectKey # ps)
          else if c = CHR ''}'' then pop (p # ps)
          else (JError, p # ps)
      | ParseArrayValue \<Rightarrow>
          if c = CHR '','' then (BeginValue, p # ps)
          else if c = CHR '']'' then pop (p # ps)
          else (JError, p # ps))"

definition beginValue :: "char \<Rightarrow> jparse list \<Rightarrow> jstate" where
  "beginValue c ps =
     (if is_space c then (BeginValue, ps)
      else if c = CHR ''{'' then push BeginStringOrEmpty ParseObjectKey ps
      else if c = CHR ''['' then push BeginValueOrEmpty ParseArrayValue ps
      else if c = CHR 0x22 then (InString, ps)
      else if c = CHR ''-'' then (NumNeg, ps)
      else if c = CHR ''0'' then (Num0, ps)
      else if c = CHR ''t'' then (Lit ''rue'', ps)
      else if c = CHR ''f'' then (Lit ''alse'', ps)
      else if c = CHR ''n'' then (Lit ''ull'', ps)
      else if is_digit c then (Num1, ps)
      else (JError, ps))"

definition beginString :: "char \<Rightarrow> jparse list \<Rightarrow> jstate" where
  "beginString c ps =
     (if is_space c then (BeginString, ps) else if c = CHR 0x22 then (InString, ps) else (JError, ps))"

definition num0 :: "char \<Rightarrow> jparse list \<Rightarrow> jstate" where
  "num0 c ps =
     (if c = CHR ''.'' then (NumDot, ps)
      else if c = CHR ''e'' \<or> c = CHR ''E'' then (NumE, ps)
      else endValue c ps)"

definition eSign :: "char \<Rightarrow> jparse list \<Rightarrow> jstate" where
  "eSign c ps = (if is_digit c then (NumE0, ps) else (JError, ps))"

fun json_step :: "jstate \<Rightarrow> char \<Rightarrow> jstate" where
  "json_step (BeginValueOrEmpty, ps) c =
     (if is_space c then (BeginValueOrEmpty, ps)
      else if c = CHR '']'' then endValue c ps else beginValue c ps)"
| "json_step (BeginValue, ps) c = beginValue c ps"
| "json_step (BeginStringOrEmpty, ps) c =
     (if is_space c then (BeginStringOrEmpty, ps)
      else if c = CHR ''}'' then endValue c (ParseObjectValue # tl ps)
      else beginString c ps)"
| "json_step (BeginString, ps) c = beginString c ps"
| "json_step (EndValue, ps) c = endValue c ps"
| "json_step (EndTop, ps) c = (if is_space c then (EndTop, ps) else (JError, ps))"
| "json_step (InString, ps) c =
     (if c = CHR 0x22 then (EndValue, ps)
      else if c = CHR 0x5C then (InStringEsc, ps)
      else if c < CHR '' '' then (JError, ps)
      else (InString, ps))"
| "json_step (InStringEsc, ps) c =
     (if c \<in> {CHR ''b'', CHR ''f'', CHR ''n'', CHR ''r'', CHR ''t'', CHR 0x5C, CHR ''/'', CHR 0x22}
      then (InString, ps)
      else if c = CHR ''u'' then (EscU 0, ps) else (JError, ps))"
| "json_step (EscU n, ps) c =
     (if is_hex c then (if n = 3 then (InString, ps) else (EscU (Suc n), ps)) else (JError, ps))"
| "json_step (NumNeg, ps) c =
     (if c = CHR ''0'' then (Num0, ps) else if is_digit c then (Num1, ps) else (JError, ps))"
| "json_step (Num1, ps) c = (if is_digit c then (Num1, ps) else num0 c ps)"
| "json_step (Num0, ps) c = num0 c ps"
| "json_step (NumDot, ps) c = (if is_digit c then (NumDot0, ps) else (JError, ps))"
| "json_step (NumDot0, ps) c =
     (if is_digit c then (NumDot0, ps)
      else if c = CHR ''e'' \<or> c = CHR ''E'' then (NumE, ps) else endValue c ps)"
| "json_step (NumE, ps) c =
     (if c = CHR ''+'' \<or> c = CHR ''-'' then (NumESign, ps) else eSign c ps)"
| "json_step (NumESign, ps) c = eSign c ps"
| "json_step (NumE0, ps) c = (if is_digit c then (NumE0, ps) else endValue c ps)"
| "json_step (Lit w, ps) c =
     (case w of [] \<Rightarrow> endValue c ps
      | x # xs \<Rightarrow> if c = x then (if xs = [] then (EndValue, ps) else (Lit xs, ps)) else (JError, ps))"
| "json_step (JError, ps) c = (JError, ps)"

text \<open>End of input: one more space must bring the scanner to the end of the top-level value.\<close>

definition json_scan :: "string \<Rightarrow> bool" where
  "json_scan s = (fst (json_step (foldl json_step (BeginValue, []) s) (CHR '' '')) = EndTop)"

subsection \<open>Numbers beyond float64\<close>

definition digit_val :: "char \<Rightarrow> int" where
  "digit_val c = of_char c - 48"

definition read_digits :: "string \<Rightarrow> int" where
  "read_digits s = foldl (\<lambda>n c. 10 * n + digit_val c) 0 s"

text \<open>A number token \<open>[-] int [. frac] [e [sign] exp]\<close> overflows when its magnitude rounds to
  \<open>2 ^ 1024\<close> or more, that is from \<open>2 ^ 1024 - 2 ^ 970\<close> on.\<close>

definition float_overflows :: "string \<Rightarrow> bool" where
  "float_overflows tok =
     (let t = (if take 1 tok = ''-'' then drop 1 tok else tok);
          ip = takeWhile is_digit t; r1 = dropWhile is_digit t;
          fp = (if take 1 r1 = ''.'' then takeWhile is_digit (drop 1 r1) else []);
          r2 = (if take 1 r1 = ''.'' then dropWhile is_digit (drop 1 r1) else r1);
          r3 = drop 1 r2;
          neg = (take 1 r3 = ''-'');
          ex = nat (read_digits (filter is_digit r3));
          m = read_digits (ip @ fp);
          bound = 2 ^ 1024 - 2 ^ 970
      in if neg then bound * 10 ^ (ex + length fp) \<le> m
         else bound * 10 ^ length fp \<le> m * 10 ^ ex)"

definition num_char :: "char \<Rightarrow> bool" where
  "num_char c = (is_digit c \<or> c \<in> set ''-+.eE'')"

text \<open>The number tokens outside string literals of a text the scanner accepts.\<close>

fun num_tokens :: "bool \<Rightarrow> string \<Rightarrow> string \<Rightarrow> string list" where
  "num_tokens instr buf [] = (if buf = [] then [] else [rev buf])"
| "num_tokens True buf (c # cs) =
     (if c = CHR 0x5C then num_tokens True buf (drop 1 cs)
      else num_tokens (c \<noteq> CHR 0x22) buf cs)"
| "num_tokens False buf (c # cs) =
     (if num_char c \<and> (buf \<noteq> [] \<or> is_digit c \<or> c = CHR ''-'') then num_tokens False (c # buf) cs
      else (if buf = [] then [] else [rev buf]) @ num_tokens (c = CHR 0x22) [] cs)"

definition unmarshal_map :: "string \<Rightarrow> bool" where
  "unmarshal_map s =
     (json_scan s \<and>
      (let body = dropWhile is_space s in take 1 body = ''{'' \<or> take 1 body = ''n'') \<and>
      list_all (\<lambda>t. \<not> float_overflows t) (num_tokens False [] s))"

definition json_IsValid :: "string \<Rightarrow> unit res" where
  "json_IsValid jsonBz =
     (if jsonBz = [] then Inr ()
      else if unmarshal_map jsonBz then Inr ()
      else Inl (Errorf ''unable to unmarshal string to json''))"

lemma json_IsValid_Nil [simp]: "json_IsValid [] = Inr ()"
  by (simp add: json_IsValid_def)

end
