(* ===== verification/Marketmap_Types.thy ===== *)
theory Marketmap_Types
  imports Currency_Pair Go_Json Kv_Store
begin

text \<open>
  \<open>x/marketmap/types\<close>: tickers, provider configurations, markets, the market map, the module's
  parameters, messages and genesis, with their stateless validation, and the largest valid part
  of a market map (\<open>GetValidSubset\<close>).

  \<open>sdk.AccAddressFromBech32\<close> is not code of the repository: the functions that call it take its
  verdict on a string as the argument \<open>acc_address\<close>.
\<close>

section \<open>Data\<close>

record ticker =
  tk_currency_pair :: currency_pair
  tk_decimals :: u64
  tk_min_provider_count :: u64
  tk_enabled :: bool
  tk_metadata_json :: string

record provider_config =
  pc_name :: string
  pc_off_chain_ticker :: string
  pc_normalize_by_pair :: "currency_pair option"
  pc_invert :: bool
  pc_metadata_json :: string

record market =
  mk_ticker :: ticker
  mk_provider_configs :: "provider_config list"

type_synonym market_map = "(string, market) gomap"

text \<open>\<open>None\<close> is Go's nil slice, which \<open>Params.ValidateBasic\<close> tells from an empty one.\<close>

record params =
  pr_market_authorities :: "string list option"
  pr_admin :: string

definition DefaultMaxDecimals :: u64 where "DefaultMaxDecimals = 36"
definition DefaultMinProviderCount :: u64 where "DefaultMinProviderCount = 1"
definition MaxMetadataJSONFieldLength :: int where "MaxMetadataJSONFieldLength = 16384"

section \<open>Tickers and provider configurations\<close>

definition NewTicker :: "string \<Rightarrow> string \<Rightarrow> u64 \<Rightarrow> u64 \<Rightarrow> bool \<Rightarrow> ticker" where
  "NewTicker base quote decimals minProviderCount enabled =
     \<lparr>tk_currency_pair = \<lparr>cp_base = ToUpper base, cp_quote = ToUpper quote\<rparr>,
      tk_decimals = decimals, tk_min_provider_count = minProviderCount,
      tk_enabled = enabled, tk_metadata_json = []\<rparr>"

definition Ticker_String :: "ticker \<Rightarrow> string" where
  "Ticker_String t = CurrencyPair_String (tk_currency_pair t)"

definition Ticker_ValidateBasic :: "ticker \<Rightarrow> unit res" where
  "Ticker_ValidateBasic t =
     (if DefaultMaxDecimals < tk_decimals t \<or> tk_decimals t = 0
        then Inl (Errorf ''decimals must be between 1 and the maximum'')
      else if tk_min_provider_count t < DefaultMinProviderCount
        then Inl (Errorf ''min provider count must be at least the default'')
      else bind_res (ValidateBasic (tk_currency_pair t)) (\<lambda>_.
        if MaxMetadataJSONFieldLength < int (length (tk_metadata_json t))
          then Inl (Errorf ''metadata json field is longer than maximum length'')
        else mapErr (Wrapf ''invalid ticker metadata json'') (json_IsValid (tk_metadata_json t))))"

definition Ticker_Equal :: "ticker \<Rightarrow> ticker \<Rightarrow> bool" where
  "Ticker_Equal t other \<longleftrightarrow>
     CurrencyPair_Equal (tk_currency_pair t) (tk_currency_pair other) \<and>
     tk_decimals t = tk_decimals other \<and>
     tk_min_provider_count t = tk_min_provider_count other \<and>
     tk_metadata_json t = tk_metadata_json other \<and>
     tk_enabled t = tk_enabled other"

definition ProviderConfig_ValidateBasic :: "provider_config \<Rightarrow> unit res" where
  "ProviderConfig_ValidateBasic pc =
     (if pc_name pc = [] then Inl (Errorf ''provider name must not be empty'')
      else if pc_off_chain_ticker pc = [] then Inl (Errorf ''provider offchain ticker must not be empty'')
      else bind_res (case pc_normalize_by_pair pc of None \<Rightarrow> Inr () | Some p \<Rightarrow> ValidateBasic p) (\<lambda>_.
        if MaxMetadataJSONFieldLength < int (length (pc_metadata_json pc))
          then Inl (Errorf ''metadata json field is longer than maximum length'')
        else mapErr (Wrapf ''invalid provider config metadata json'')
               (json_IsValid (pc_metadata_json pc))))"

definition ProviderConfig_Equal :: "provider_config \<Rightarrow> provider_config \<Rightarrow> bool" where
  "ProviderConfig_Equal pc other \<longleftrightarrow>
     pc_name pc = pc_name other \<and>
     pc_off_chain_ticker pc = pc_off_chain_ticker other \<and>
     pc_invert pc = pc_invert other \<and>
     (case pc_normalize_by_pair pc of
        None \<Rightarrow> pc_normalize_by_pair other = None
      | Some p \<Rightarrow>
          (case pc_normalize_by_pair other of None \<Rightarrow> False | Some q \<Rightarrow> CurrencyPair_Equal p q)) \<and>
     pc_metadata_json pc = pc_metadata_json other"

section \<open>Markets\<close>

text \<open>The duplicate check concatenates the provider's name and its ticker into one key.\<close>

definition provider_key :: "provider_config \<Rightarrow> string" where
  "provider_key pc = pc_name pc @ pc_off_chain_ticker pc"

fun validate_providers :: "string list \<Rightarrow> provider_config list \<Rightarrow> unit res" where
  "validate_providers seenProviders [] = Inr ()"
| "validate_providers seenProviders (pc # pcs) =
     bind_res (ProviderConfig_ValidateBasic pc) (\<lambda>_.
     if provider_key pc \<in> set seenProviders
       then Inl (Errorf ''duplicate (provider, off-chain-ticker) found'')
     else validate_providers (provider_key pc # seenProviders) pcs)"

definition Market_ValidateBasic :: "market \<Rightarrow> unit res" where
  "Market_ValidateBasic m =
     bind_res (Ticker_ValidateBasic (mk_ticker m)) (\<lambda>_.
     if of_nat (length (mk_provider_configs m)) < tk_min_provider_count (mk_ticker m)
       then Inl (Errorf ''ticker must have at least the minimum number of providers'')
     else validate_providers [] (mk_provider_configs m))"

definition Market_Equal :: "market \<Rightarrow> market \<Rightarrow> bool" where
  "Market_Equal m other \<longleftrightarrow>
     Ticker_Equal (mk_ticker m) (mk_ticker other) \<and>
     length (mk_provider_configs m) = length (mk_provider_configs other) \<and>
     list_all2 ProviderConfig_Equal (mk_provider_configs m) (mk_provider_configs other)"

section \<open>The market map\<close>

definition check_normalize :: "market_map \<Rightarrow> market \<Rightarrow> provider_config \<Rightarrow> unit res" where
  "check_normalize mm m pc =
     (case pc_normalize_by_pair pc of
        None \<Rightarrow> Inr ()
      | Some p \<Rightarrow>
          (case gm_get mm (CurrencyPair_String p) of
             None \<Rightarrow> Inl (Errorf ''pair for normalization was not found in the marketmap'')
           | Some n \<Rightarrow>
               if \<not> tk_enabled (mk_ticker n) \<and> tk_enabled (mk_ticker m)
               then Inl (Errorf ''enabled market cannot use a disabled normalization market'')
               else Inr ()))"

definition check_market :: "market_map \<Rightarrow> string \<times> market \<Rightarrow> unit res" where
  "check_market mm = (\<lambda>(tickr, m).
     bind_res (Market_ValidateBasic m) (\<lambda>_.
     if tickr \<noteq> Ticker_String (mk_ticker m)
       then Inl (Errorf ''ticker does not match market.Ticker.String()'')
     else each_ok (check_normalize mm m) (mk_provider_configs m)))"

definition MarketMap_ValidateBasic :: "market_map \<Rightarrow> unit res" where
  "MarketMap_ValidateBasic mm = each_ok (check_market mm) mm"

definition prune_configs :: "market_map \<Rightarrow> market \<Rightarrow> market" where
  "prune_configs mm m =
     m\<lparr>mk_provider_configs := filter (\<lambda>pc. is_ok (check_normalize mm m pc)) (mk_provider_configs m)\<rparr>"

text \<open>
  Pass 1 drops the provider configurations without a usable normalization market; pass 2 drops
  the markets that fail their own validation, each iteration deleting only the entry it visits.
  The result is returned beside the verdict on it.
\<close>

definition GetValidSubset :: "market_map \<Rightarrow> market_map \<times> unit res" where
  "GetValidSubset mm =
     (let pass1 = map (\<lambda>(tickr, m). (tickr, prune_configs mm m)) mm;
          pass2 = filter (\<lambda>(tickr, m). is_ok (Market_ValidateBasic m) \<and>
                                       tickr = Ticker_String (mk_ticker m)) pass1
      in (pass2, MarketMap_ValidateBasic pass2))"

definition MarketMap_Equal :: "market_map \<Rightarrow> market_map \<Rightarrow> bool" where
  "MarketMap_Equal mm other \<longleftrightarrow>
     length mm = length other \<and>
     list_all (\<lambda>(tickr, m). case gm_get other tickr of None \<Rightarrow> False | Some n \<Rightarrow> Market_Equal m n) mm"

section \<open>Parameters, genesis and messages\<close>

fun all_fresh :: "(string \<Rightarrow> unit res) \<Rightarrow> string list \<Rightarrow> string list \<Rightarrow> unit res" where
  "all_fresh chk seen [] = Inr ()"
| "all_fresh chk seen (a # as) =
     (if a \<in> set seen then Inl (Errorf ''duplicate found'')
      else bind_res (chk a) (\<lambda>_. all_fresh chk (a # seen) as))"

definition DefaultParams :: "string \<Rightarrow> params" where
  "DefaultParams gov_address =
     \<lparr>pr_market_authorities = Some [gov_address], pr_admin = gov_address\<rparr>"

definition NewParams :: "string list option \<Rightarrow> string \<Rightarrow> params res" where
  "NewParams authorities admin =
     (case authorities of
        None \<Rightarrow> Inl (Errorf ''cannot create Params with nil authority'')
      | Some as \<Rightarrow> Inr \<lparr>pr_market_authorities = Some as, pr_admin = admin\<rparr>)"

definition Params_ValidateBasic :: "(string \<Rightarrow> unit res) \<Rightarrow> params \<Rightarrow> unit res" where
  "Params_ValidateBasic acc_address p =
     (case pr_market_authorities p of
        None \<Rightarrow> Inl (Errorf ''cannot create Params with empty market authorities'')
      | Some as \<Rightarrow>
          bind_res (all_fresh (\<lambda>a. mapErr (Wrapf ''invalid market authority string'') (acc_address a)) [] as)
            (\<lambda>_. mapErr (Wrapf ''invalid marketmap admin string'') (acc_address (pr_admin p))))"

record mm_genesis =
  mg_market_map :: market_map
  mg_last_updated :: u64
  mg_params :: params

definition NewGenesisState :: "market_map \<Rightarrow> u64 \<Rightarrow> params \<Rightarrow> mm_genesis" where
  "NewGenesisState marketMap lastUpdated prs =
     \<lparr>mg_market_map = marketMap, mg_last_updated = lastUpdated, mg_params = prs\<rparr>"

definition mm_GenesisState_ValidateBasic :: "(string \<Rightarrow> unit res) \<Rightarrow> mm_genesis \<Rightarrow> unit res" where
  "mm_GenesisState_ValidateBasic acc_address gs =
     bind_res (MarketMap_ValidateBasic (mg_market_map gs)) (\<lambda>_.
     Params_ValidateBasic acc_address (mg_params gs))"

definition mm_DefaultGenesisState :: "string \<Rightarrow> mm_genesis" where
  "mm_DefaultGenesisState gov_address =
     \<lparr>mg_market_map = [], mg_last_updated = 0, mg_params = DefaultParams gov_address\<rparr>"

text \<open>\<open>MsgUpsertMarkets\<close>, \<open>MsgCreateMarkets\<close> and \<open>MsgUpdateMarkets\<close> carry the same two fields.\<close>

record msg_markets =
  mm_authority :: string
  mm_markets :: "market list"

record msg_params =
  mp_params :: params
  mp_authority :: string

record msg_remove_authorities =
  ra_remove_addresses :: "string list"
  ra_admin :: string

record msg_remove_markets =
  rm_authority :: string
  rm_markets :: "string list"

fun validate_upserts :: "string list \<Rightarrow> market list \<Rightarrow> unit res" where
  "validate_upserts seenTickers [] = Inr ()"
| "validate_upserts seenTickers (m # ms) =
     (let tickr = CurrencyPair_String (tk_currency_pair (mk_ticker m)) in
      if tickr \<in> set seenTickers then Inl (Errorf ''duplicate ticker'')
      else bind_res (Market_ValidateBasic m) (\<lambda>_. validate_upserts (tickr # seenTickers) ms))"

definition MsgUpsertMarkets_ValidateBasic :: "(string \<Rightarrow> unit res) \<Rightarrow> msg_markets \<Rightarrow> unit res" where
  "MsgUpsertMarkets_ValidateBasic acc_address m =
     bind_res (acc_address (mm_authority m)) (\<lambda>_.
     if mm_markets m = [] then Inl (Errorf ''no markets to upsert'')
     else validate_upserts [] (mm_markets m))"

definition MsgCreateMarkets_ValidateBasic :: "(string \<Rightarrow> unit res) \<Rightarrow> msg_markets \<Rightarrow> unit res" where
  "MsgCreateMarkets_ValidateBasic acc_address m =
     bind_res (acc_address (mm_authority m)) (\<lambda>_.
     if mm_markets m = [] then Inl (Errorf ''no markets to create'')
     else each_ok Market_ValidateBasic (mm_markets m))"

definition MsgUpdateMarkets_ValidateBasic :: "(string \<Rightarrow> unit res) \<Rightarrow> msg_markets \<Rightarrow> unit res" where
  "MsgUpdateMarkets_ValidateBasic acc_address m =
     bind_res (acc_address (mm_authority m)) (\<lambda>_.
     if mm_markets m = [] then Inl (Errorf ''no markets to update'')
     else each_ok Market_ValidateBasic (mm_markets m))"

definition MsgParams_ValidateBasic :: "(string \<Rightarrow> unit res) \<Rightarrow> msg_params \<Rightarrow> unit res" where
  "MsgParams_ValidateBasic acc_address m =
     bind_res (acc_address (mp_authority m)) (\<lambda>_. Params_ValidateBasic acc_address (mp_params m))"

definition MsgRemoveMarketAuthorities_ValidateBasic ::
    "(string \<Rightarrow> unit res) \<Rightarrow> msg_remove_authorities \<Rightarrow> unit res" where
  "MsgRemoveMarketAuthorities_ValidateBasic acc_address m =
     bind_res (acc_address (ra_admin m)) (\<lambda>_.
     if ra_remove_addresses m = [] then Inl (Errorf ''addresses to remove cannot be nil'')
     else all_fresh (\<lambda>a. mapErr (Wrapf ''invalid market authority string'') (acc_address a)) []
            (ra_remove_addresses m))"

definition MsgRemoveMarkets_ValidateBasic ::
    "(string \<Rightarrow> unit res) \<Rightarrow> msg_remove_markets \<Rightarrow> unit res" where
  "MsgRemoveMarkets_ValidateBasic acc_address m =
     bind_res (acc_address (rm_authority m)) (\<lambda>_.
     if rm_markets m = [] then Inl (Errorf ''markets to remove cannot be nil'')
     else all_fresh (\<lambda>k. bind_res (mapErr (Wrapf ''invalid market pair string'') (CurrencyPairFromString k))
                           (\<lambda>_. Inr ())) [] (rm_markets m))"

end
