(* ===== verification/Marketmap_Facts.thy ===== *)
theory Marketmap_Facts
  imports Marketmap_Types
begin

text \<open>
  What the stateless validation of \<open>x/marketmap/types\<close> establishes: the meaning of the loops, the
  independence from the order a map is visited in, the equality tests, and exactly when
  \<open>GetValidSubset\<close> succeeds.
\<close>

section \<open>Equality tests\<close>

lemma Ticker_Equal_iff [simp]: "Ticker_Equal t other \<longleftrightarrow> t = other"
  by (cases t; cases other) (auto simp: Ticker_Equal_def)

lemma ProviderConfig_Equal_iff [simp]: "ProviderConfig_Equal pc other \<longleftrightarrow> pc = other"
  by (cases pc; cases other) (auto simp: ProviderConfig_Equal_def split: option.splits)

lemma Market_Equal_iff [simp]: "Market_Equal m other \<longleftrightarrow> m = other"
proof -
  have "ProviderConfig_Equal = (=)" by (simp add: fun_eq_iff)
  then show ?thesis by (cases m; cases other) (auto simp: Market_Equal_def list.rel_eq)
qed

lemma gm_dom_card: "gm_wf m \<Longrightarrow> length m = card (dom (gm_get m))"
  unfolding gm_wf_def gm_get_def by (simp add: dom_map_of_conv_image_fst distinct_card flip: set_map)

lemma MarketMap_Equal_get:
  assumes "gm_wf mm" "gm_wf other"
  shows "MarketMap_Equal mm other \<longleftrightarrow> gm_get mm = gm_get other"
proof
  assume eq: "MarketMap_Equal mm other"
  then have len: "length mm = length other" by (simp add: MarketMap_Equal_def)
  have sub: "gm_get other t = Some m" if "gm_get mm t = Some m" for t m
  proof -
    from eq gm_get_mem [OF that]
    have "case gm_get other t of None \<Rightarrow> False | Some n \<Rightarrow> Market_Equal m n"
      unfolding MarketMap_Equal_def list_all_iff by fast
    then show ?thesis by (simp split: option.splits)
  qed
  have "dom (gm_get mm) \<subseteq> dom (gm_get other)"
    using sub by (auto simp: dom_def)
  then have "dom (gm_get mm) = dom (gm_get other)"
    using len gm_dom_card [OF assms(1)] gm_dom_card [OF assms(2)] by (intro card_subset_eq) simp_all
  then show "gm_get mm = gm_get other"
    using sub by (intro ext) (metis domIff option.exhaust)
next
  assume eq: "gm_get mm = gm_get other"
  then have "length mm = length other"
    using gm_dom_card [OF assms(1)] gm_dom_card [OF assms(2)] by simp
  moreover have "gm_get other t = Some m" if "(t, m) \<in> set mm" for t m
    using that eq assms(1) by (simp add: gm_get_iff flip: eq)
  ultimately show "MarketMap_Equal mm other"
    by (auto simp: MarketMap_Equal_def list_all_iff split: option.splits)
qed

section \<open>What validation means\<close>

definition norm_ok :: "(string \<Rightarrow> market option) \<Rightarrow> market \<Rightarrow> bool" where
  "norm_ok look m \<longleftrightarrow>
     (\<forall>pc \<in> set (mk_provider_configs m). \<forall>p. pc_normalize_by_pair pc = Some p \<longrightarrow>
        (\<exists>n. look (CurrencyPair_String p) = Some n \<and>
             (tk_enabled (mk_ticker m) \<longrightarrow> tk_enabled (mk_ticker n))))"

lemma check_normalize_iff:
  "is_ok (check_normalize mm m pc) \<longleftrightarrow>
     (\<forall>p. pc_normalize_by_pair pc = Some p \<longrightarrow>
        (\<exists>n. gm_get mm (CurrencyPair_String p) = Some n \<and>
             (tk_enabled (mk_ticker m) \<longrightarrow> tk_enabled (mk_ticker n))))"
  by (auto simp: check_normalize_def split: option.splits)

lemma each_normalize_iff:
  "is_ok (each_ok (check_normalize mm m) (mk_provider_configs m)) \<longleftrightarrow> norm_ok (gm_get mm) m"
  by (simp add: each_ok_iff check_normalize_iff norm_ok_def)

lemma check_market_iff:
  "is_ok (check_market mm (t, m)) \<longleftrightarrow>
     is_ok (Market_ValidateBasic m) \<and> t = Ticker_String (mk_ticker m) \<and> norm_ok (gm_get mm) m"
  by (auto simp: check_market_def each_normalize_iff unit_res_ok)

lemma validate_providers_iff:
  "is_ok (validate_providers seen pcs) \<longleftrightarrow>
     (\<forall>pc \<in> set pcs. is_ok (ProviderConfig_ValidateBasic pc)) \<and>
     distinct (map provider_key pcs) \<and> set seen \<inter> provider_key ` set pcs = {}"
  by (induction pcs arbitrary: seen) (auto simp: unit_res_ok)

lemma Market_ValidateBasic_iff:
  "is_ok (Market_ValidateBasic m) \<longleftrightarrow>
     is_ok (Ticker_ValidateBasic (mk_ticker m)) \<and>
     tk_min_provider_count (mk_ticker m) \<le> of_nat (length (mk_provider_configs m)) \<and>
     (\<forall>pc \<in> set (mk_provider_configs m). is_ok (ProviderConfig_ValidateBasic pc)) \<and>
     distinct (map provider_key (mk_provider_configs m))"
  by (auto simp: Market_ValidateBasic_def validate_providers_iff not_less unit_res_ok)

lemma Market_valid_pair:
  "is_ok (Market_ValidateBasic m) \<Longrightarrow> ValidateBasic (tk_currency_pair (mk_ticker m)) = Inr ()"
  by (auto simp: Market_ValidateBasic_def Ticker_ValidateBasic_def unit_res_ok split: if_splits)

lemma all_fresh_iff:
  "is_ok (all_fresh chk seen as) \<longleftrightarrow>
     (\<forall>a \<in> set as. is_ok (chk a)) \<and> distinct as \<and> set seen \<inter> set as = {}"
  by (induction as arbitrary: seen) (auto simp: unit_res_ok)

lemma MarketMap_ok_iff:
  "is_ok (MarketMap_ValidateBasic mm) \<longleftrightarrow>
     (\<forall>(t, m) \<in> set mm. is_ok (Market_ValidateBasic m) \<and> t = Ticker_String (mk_ticker m) \<and>
        norm_ok (gm_get mm) m)"
  by (auto simp: MarketMap_ValidateBasic_def each_ok_iff check_market_iff)

lemma MarketMap_ok_perm:
  "gm_wf mm \<Longrightarrow> mset mm = mset nn \<Longrightarrow>
     is_ok (MarketMap_ValidateBasic nn) = is_ok (MarketMap_ValidateBasic mm)"
  using gm_get_perm [of mm nn] mset_eq_setD [of mm nn] by (simp add: MarketMap_ok_iff)

section \<open>The valid subset\<close>

lemma prune_configs_simps [simp]:
  "mk_ticker (prune_configs mm m) = mk_ticker m"
  "set (mk_provider_configs (prune_configs mm m)) =
     {pc \<in> set (mk_provider_configs m). is_ok (check_normalize mm m pc)}"
  by (auto simp: prune_configs_def)

lemma prune_configs_same: "norm_ok (gm_get mm) m \<Longrightarrow> prune_configs mm m = m"
  unfolding each_normalize_iff [symmetric] each_ok_iff prune_configs_def
  by (cases m) (simp add: filter_id_conv)

lemma valid_subset_entry:
  "(t, m) \<in> set (fst (GetValidSubset mm)) \<longleftrightarrow>
     (\<exists>m0. (t, m0) \<in> set mm \<and> m = prune_configs mm m0) \<and>
     is_ok (Market_ValidateBasic m) \<and> t = Ticker_String (mk_ticker m)"
  by (auto simp: GetValidSubset_def Let_def)

lemma valid_subset_wf: "gm_wf mm \<Longrightarrow> gm_wf (fst (GetValidSubset mm))"
proof -
  assume wf: "gm_wf mm"
  have "map fst (map (\<lambda>(t, m). (t, prune_configs mm m)) mm) = map fst mm"
    by (induction mm) auto
  then have "distinct (map fst (map (\<lambda>(t, m). (t, prune_configs mm m)) mm))"
    using wf unfolding gm_wf_def by metis
  then show ?thesis
    by (simp only: GetValidSubset_def Let_def gm_wf_def distinct_map_filter fst_conv)
qed

text \<open>The subset is refused exactly when pass 2 dropped a market that a kept market still
  normalizes by.\<close>

lemma valid_subset_ok_iff:
  assumes "gm_wf mm"
  shows "is_ok (snd (GetValidSubset mm)) \<longleftrightarrow>
    (\<forall>(t, m) \<in> set (fst (GetValidSubset mm)). \<forall>pc \<in> set (mk_provider_configs m).
       \<forall>p. pc_normalize_by_pair pc = Some p \<longrightarrow>
         gm_get (fst (GetValidSubset mm)) (CurrencyPair_String p) \<noteq> None)"
    (is "_ \<longleftrightarrow> ?closed")
proof -
  let ?sub = "fst (GetValidSubset mm)"
  have snd: "snd (GetValidSubset mm) = MarketMap_ValidateBasic ?sub"
    by (simp add: GetValidSubset_def Let_def)
  have enabled: "tk_enabled (mk_ticker m) \<Longrightarrow> tk_enabled (mk_ticker n)"
    if m: "(t, m) \<in> set ?sub" and pc: "pc \<in> set (mk_provider_configs m)"
      "pc_normalize_by_pair pc = Some p" and n: "gm_get ?sub (CurrencyPair_String p) = Some n"
    for t m pc p n
  proof -
    obtain m0 where m0: "m = prune_configs mm m0" using m by (auto simp: valid_subset_entry)
    obtain n0 where n0: "(CurrencyPair_String p, n0) \<in> set mm" "n = prune_configs mm n0"
      using gm_get_mem [OF n] by (auto simp: valid_subset_entry)
    then have "gm_get mm (CurrencyPair_String p) = Some n0"
      using assms by (simp add: gm_get_iff)
    with pc m0 n0(2) show "tk_enabled (mk_ticker m) \<Longrightarrow> tk_enabled (mk_ticker n)"
      by (auto simp: check_normalize_iff)
  qed
  have "is_ok (MarketMap_ValidateBasic ?sub) \<longleftrightarrow> (\<forall>(t, m) \<in> set ?sub. norm_ok (gm_get ?sub) m)"
    by (auto simp: MarketMap_ok_iff valid_subset_entry)
  also have "\<dots> \<longleftrightarrow> ?closed"
    using enabled unfolding norm_ok_def by fast
  finally show ?thesis by (simp add: snd)
qed

lemma valid_subset_of_valid:
  assumes "is_ok (MarketMap_ValidateBasic mm)"
  shows "GetValidSubset mm = (mm, Inr ())"
proof -
  have ok: "\<And>t m. (t, m) \<in> set mm \<Longrightarrow> is_ok (Market_ValidateBasic m) \<and>
      t = Ticker_String (mk_ticker m) \<and> norm_ok (gm_get mm) m"
    using assms by (auto simp: MarketMap_ok_iff)
  then have "map (\<lambda>(t, m). (t, prune_configs mm m)) mm = mm"
    by (intro map_idI) (auto simp: prune_configs_same)
  moreover have "filter (\<lambda>(t, m). is_ok (Market_ValidateBasic m) \<and> t = Ticker_String (mk_ticker m)) mm = mm"
    using ok by (auto simp: filter_id_conv)
  ultimately show ?thesis
    using assms by (simp add: GetValidSubset_def Let_def unit_res_ok)
qed

end
