(* ===== verification/Oracle_Keeper.thy ===== *)
theory Oracle_Keeper
  imports Marketmap_Types "HOL-Library.Product_Lexorder"
begin

text \<open>
  \<open>x/oracle\<close>: the store of the module (\<open>keeper.go\<close>), the operations of its keeper, its genesis,
  messages, hooks and queries, each translated with the order of its reads, writes and returns.
\<close>

section \<open>State\<close>

record quote_price =
  qp_price :: int
  qp_block_timestamp :: int
  qp_block_height :: u64

record cp_state =
  cs_price :: "quote_price option"
  cs_nonce :: u64
  cs_id :: u64

text \<open>
  \<open>currencyPairs\<close> is an indexed map: the pairs' states under their string form, a unique index
  from an id to the string form and a multi index of (id, string form). \<open>nextCurrencyPairID\<close> is a
  sequence, whose value is 0 until it is set; the two counters are items, unset before genesis.
\<close>

record oracle_store =
  os_currency_pairs :: "(string, cp_state) kv"
  os_id_unique :: "(u64, string) kv"
  os_id_multi :: "(u64 \<times> string, unit) kv"
  os_next_id :: u64
  os_num_removes :: "u64 option"
  os_num_cps :: "u64 option"

definition empty_oracle_store :: oracle_store where
  "empty_oracle_store = \<lparr>os_currency_pairs = [], os_id_unique = [], os_id_multi = [],
     os_next_id = 0, os_num_removes = None, os_num_cps = None\<rparr>"

definition NewCurrencyPairState :: "u64 \<Rightarrow> u64 \<Rightarrow> quote_price option \<Rightarrow> cp_state" where
  "NewCurrencyPairState i nonce quotePrice = \<lparr>cs_price = quotePrice, cs_nonce = nonce, cs_id = i\<rparr>"

definition CurrencyPairState_ValidateBasic :: "cp_state \<Rightarrow> unit res" where
  "CurrencyPairState_ValidateBasic cps =
     (if cs_price cps = None \<and> cs_nonce cps \<noteq> 0
        then Inl (Errorf ''invalid nonce, no price update but non-zero nonce'')
      else if cs_price cps \<noteq> None \<and> cs_nonce cps = 0
        then Inl (Errorf ''invalid nonce, price update but zero nonce'')
      else Inr ())"

definition QuotePrice_ValidateBasic :: "quote_price \<Rightarrow> unit res" where
  "QuotePrice_ValidateBasic qp =
     (if qp_price qp < 0 then Inl (Errorf ''price cannot be negative'') else Inr ())"

subsection \<open>The indexed map\<close>

text \<open>
  \<open>collections.IndexedMap\<close>, \<open>Unique\<close>, \<open>Multi\<close>, \<open>Sequence\<close> and \<open>Item\<close> are a library of the SDK. They are taken at
  their documented behaviour on the two indexes \<open>newOracleIndices\<close> declares, both by the id of the state:
  \<open>Set\<close> and \<open>Remove\<close> drop the references of the former value, \<open>Set\<close> adds those of the new one and fails with a
  conflict when the unique index has the id already; \<open>Next\<close> returns the value of the sequence and stores its successor.
  What the keeper itself is responsible for is which id it passes, and that it never meets a conflict.
\<close>

definition unindex :: "string \<Rightarrow> oracle_store \<Rightarrow> oracle_store" where
  "unindex pk s =
     (case kv_get (os_currency_pairs s) pk of
        None \<Rightarrow> s
      | Some old \<Rightarrow> s\<lparr>os_id_unique := kv_del (cs_id old) (os_id_unique s),
                       os_id_multi := kv_del (cs_id old, pk) (os_id_multi s)\<rparr>)"

definition pairs_Set :: "string \<Rightarrow> cp_state \<Rightarrow> (oracle_store, unit) comp" where
  "pairs_Set pk v s =
     (let s1 = unindex pk s in
      if kv_get (os_id_unique s1) (cs_id v) \<noteq> None then (Inl ErrConflict, s)
      else (Inr (), s1\<lparr>os_currency_pairs := kv_set pk v (os_currency_pairs s),
                       os_id_unique := kv_set (cs_id v) pk (os_id_unique s1),
                       os_id_multi := kv_set (cs_id v, pk) () (os_id_multi s1)\<rparr>))"

definition pairs_Remove :: "string \<Rightarrow> (oracle_store, unit) comp" where
  "pairs_Remove pk s =
     (case kv_get (os_currency_pairs s) pk of
        None \<Rightarrow> (Inl ErrNotFound, s)
      | Some _ \<Rightarrow>
          (Inr (), (unindex pk s)\<lparr>os_currency_pairs := kv_del pk (os_currency_pairs s)\<rparr>))"

definition pairs_Get :: "string \<Rightarrow> oracle_store \<Rightarrow> cp_state res" where
  "pairs_Get pk s =
     (case kv_get (os_currency_pairs s) pk of None \<Rightarrow> Inl ErrNotFound | Some v \<Rightarrow> Inr v)"

definition id_MatchExact :: "u64 \<Rightarrow> oracle_store \<Rightarrow> string list" where
  "id_MatchExact i s = map (snd \<circ> fst) (filter (\<lambda>e. fst (fst e) = i) (os_id_multi s))"

definition nextID_Next :: "(oracle_store, u64) comp" where
  "nextID_Next s = (Inr (os_next_id s), s\<lparr>os_next_id := os_next_id s + 1\<rparr>)"

definition item_Get :: "'a option \<Rightarrow> 'a res" where
  "item_Get i = (case i of None \<Rightarrow> Inl ErrNotFound | Some a \<Rightarrow> Inr a)"

section \<open>Keeper\<close>

text \<open>\<open>mmKeeper\<close> is \<open>None\<close> when the module runs without \<open>x/marketmap\<close>.\<close>

record oracle_keeper =
  ok_authority :: string
  ok_mmKeeper :: "(string \<Rightarrow> market res) option"

subsection \<open>Counters\<close>

definition incrementRemovedCPCounter :: "(oracle_store, unit) comp" where
  "incrementRemovedCPCounter =
     bindC (readC (\<lambda>s. item_Get (os_num_removes s))) (\<lambda>val.
     modifyC (\<lambda>s. s\<lparr>os_num_removes := Some (val + 1)\<rparr>))"

definition GetNumRemovedCurrencyPairs :: "oracle_store \<Rightarrow> u64 res" where
  "GetNumRemovedCurrencyPairs s = item_Get (os_num_removes s)"

definition incrementCPCounter :: "(oracle_store, unit) comp" where
  "incrementCPCounter =
     bindC (readC (\<lambda>s. item_Get (os_num_cps s))) (\<lambda>val.
     modifyC (\<lambda>s. s\<lparr>os_num_cps := Some (val + 1)\<rparr>))"

definition decrementCPCounter :: "(oracle_store, unit) comp" where
  "decrementCPCounter =
     bindC (readC (\<lambda>s. item_Get (os_num_cps s))) (\<lambda>val.
     modifyC (\<lambda>s. s\<lparr>os_num_cps := Some (val - 1)\<rparr>))"

definition GetNumCurrencyPairs :: "oracle_store \<Rightarrow> u64 res" where
  "GetNumCurrencyPairs s = item_Get (os_num_cps s)"

subsection \<open>Pairs\<close>

definition HasCurrencyPair :: "currency_pair \<Rightarrow> oracle_store \<Rightarrow> bool" where
  "HasCurrencyPair cp s = (kv_get (os_currency_pairs s) (CurrencyPair_String cp) \<noteq> None)"

definition RemoveCurrencyPair :: "currency_pair \<Rightarrow> (oracle_store, unit) comp" where
  "RemoveCurrencyPair cp s =
     (if \<not> HasCurrencyPair cp s
        then (Inl (CurrencyPairNotExistError (CurrencyPair_String cp)), s)
      else bindC (pairs_Remove (CurrencyPair_String cp)) (\<lambda>_.
           bindC incrementRemovedCPCounter (\<lambda>_.
           decrementCPCounter)) s)"

definition NextCurrencyPairID :: "oracle_store \<Rightarrow> u64 res" where
  "NextCurrencyPairID s = Inr (os_next_id s)"

definition GetNonceForCurrencyPair :: "currency_pair \<Rightarrow> oracle_store \<Rightarrow> u64 res" where
  "GetNonceForCurrencyPair cp s =
     bind_res (pairs_Get (CurrencyPair_String cp) s) (\<lambda>cps. Inr (cs_nonce cps))"

definition GetPriceForCurrencyPair :: "currency_pair \<Rightarrow> oracle_store \<Rightarrow> quote_price res" where
  "GetPriceForCurrencyPair cp s =
     bind_res (pairs_Get (CurrencyPair_String cp) s) (\<lambda>cps.
     case cs_price cps of
       None \<Rightarrow> Inl (QuotePriceNotExistError (CurrencyPair_String cp))
     | Some qp \<Rightarrow> Inr qp)"

text \<open>A pair without a price is answered with the zero \<open>QuotePrice\<close> of Go: \<open>None\<close> here.\<close>

definition GetPriceWithNonceForCurrencyPair ::
    "currency_pair \<Rightarrow> oracle_store \<Rightarrow> (quote_price option \<times> u64) res" where
  "GetPriceWithNonceForCurrencyPair cp s =
     bind_res
       (case GetPriceForCurrencyPair cp s of
          Inr qp \<Rightarrow> Inr (Some qp)
        | Inl (QuotePriceNotExistError k) \<Rightarrow> Inr None
        | Inl e \<Rightarrow> Inl e) (\<lambda>qp.
     bind_res (GetNonceForCurrencyPair cp s) (\<lambda>nonce. Inr (qp, nonce)))"

definition SetPriceForCurrencyPair :: "currency_pair \<Rightarrow> quote_price \<Rightarrow> (oracle_store, unit) comp" where
  "SetPriceForCurrencyPair cp qp s =
     (case pairs_Get (CurrencyPair_String cp) s of
        Inl _ \<Rightarrow>
          bindC nextID_Next (\<lambda>id.
          pairs_Set (CurrencyPair_String cp) (NewCurrencyPairState id 0 (Some qp))) s
      | Inr cps \<Rightarrow>
          pairs_Set (CurrencyPair_String cp)
            (cps\<lparr>cs_nonce := cs_nonce cps + 1, cs_price := Some qp\<rparr>) s)"

definition CreateCurrencyPair :: "currency_pair \<Rightarrow> (oracle_store, unit) comp" where
  "CreateCurrencyPair cp s =
     (if HasCurrencyPair cp s
        then (Inl (CurrencyPairAlreadyExistsError (CurrencyPair_String cp)), s)
      else bindC nextID_Next (\<lambda>id.
           bindC (pairs_Set (CurrencyPair_String cp) (NewCurrencyPairState id 0 None)) (\<lambda>_.
           incrementCPCounter)) s)"

definition GetIDForCurrencyPair :: "currency_pair \<Rightarrow> oracle_store \<Rightarrow> u64 option" where
  "GetIDForCurrencyPair cp s =
     (case pairs_Get (CurrencyPair_String cp) s of Inl _ \<Rightarrow> None | Inr cps \<Rightarrow> Some (cs_id cps))"

definition GetCurrencyPairFromID :: "u64 \<Rightarrow> oracle_store \<Rightarrow> currency_pair option" where
  "GetCurrencyPairFromID i s =
     (case id_MatchExact i s of
        [] \<Rightarrow> None
      | cps # _ \<Rightarrow> (case CurrencyPairFromString cps of Inl _ \<Rightarrow> None | Inr cp \<Rightarrow> Some cp))"

subsection \<open>Iteration\<close>

text \<open>The loop stops at the first key that does not parse, after the callbacks before it ran.\<close>

fun iterate_pairs ::
    "(currency_pair \<Rightarrow> cp_state \<Rightarrow> 'a \<Rightarrow> 'a) \<Rightarrow> (string \<times> cp_state) list \<Rightarrow> 'a \<Rightarrow> unit res \<times> 'a" where
  "iterate_pairs cb [] acc = (Inr (), acc)"
| "iterate_pairs cb ((k, cps) # es) acc =
     (case CurrencyPairFromString k of
        Inl e \<Rightarrow> (Inl e, acc)
      | Inr cp \<Rightarrow> iterate_pairs cb es (cb cp cps acc))"

definition IterateCurrencyPairs ::
    "(currency_pair \<Rightarrow> cp_state \<Rightarrow> 'a \<Rightarrow> 'a) \<Rightarrow> oracle_store \<Rightarrow> 'a \<Rightarrow> unit res \<times> 'a" where
  "IterateCurrencyPairs cb s = iterate_pairs cb (os_currency_pairs s)"

definition GetAllCurrencyPairs :: "oracle_store \<Rightarrow> currency_pair list" where
  "GetAllCurrencyPairs s = snd (IterateCurrencyPairs (\<lambda>cp _ cps. cps @ [cp]) s [])"

definition GetCurrencyPairMapping :: "oracle_store \<Rightarrow> (u64, currency_pair) gomap res" where
  "GetCurrencyPairMapping s =
     bind_res (item_Get (os_num_cps s)) (\<lambda>_.
     Inr (snd (IterateCurrencyPairs (\<lambda>cp cps. gm_set (cs_id cps) cp) s [])))"

definition GetCurrencyPairMappingList :: "oracle_store \<Rightarrow> (u64 \<times> currency_pair) list res" where
  "GetCurrencyPairMappingList s =
     (case IterateCurrencyPairs (\<lambda>cp cps pairs. pairs @ [(cs_id cps, cp)]) s [] of
        (Inl e, _) \<Rightarrow> Inl e
      | (Inr _, pairs) \<Rightarrow> Inr pairs)"

definition GetDecimalsForCurrencyPair :: "oracle_keeper \<Rightarrow> currency_pair \<Rightarrow> u64 res" where
  "GetDecimalsForCurrencyPair k cp =
     (case ok_mmKeeper k of
        None \<Rightarrow> Inr (of_int (LegacyDecimals cp))
      | Some GetMarket \<Rightarrow>
          (case GetMarket (CurrencyPair_String cp) of
             Inl e \<Rightarrow> if e = ErrNotFound then Inr (of_int (LegacyDecimals cp)) else Inl e
           | Inr m \<Rightarrow> Inr (tk_decimals (mk_ticker m))))"

section \<open>Genesis, blocks\<close>

record cp_genesis =
  cg_currency_pair :: currency_pair
  cg_currency_pair_price :: "quote_price option"
  cg_nonce :: u64
  cg_id :: u64

record oracle_genesis =
  og_currency_pair_genesis :: "cp_genesis list"
  og_next_id :: u64

definition CurrencyPairGenesis_ValidateBasic :: "cp_genesis \<Rightarrow> unit res" where
  "CurrencyPairGenesis_ValidateBasic cpg =
     bind_res (ValidateBasic (cg_currency_pair cpg)) (\<lambda>_.
     if cg_currency_pair_price cpg = None \<and> cg_nonce cpg \<noteq> 0
       then Inl (Errorf ''invalid nonce, no price update but non-zero nonce'')
     else Inr ())"

fun validate_geneses :: "u64 \<Rightarrow> u64 list \<Rightarrow> string list \<Rightarrow> cp_genesis list \<Rightarrow> unit res" where
  "validate_geneses nextId ids cps [] = Inr ()"
| "validate_geneses nextId ids cps (cpg # cpgs) =
     bind_res (CurrencyPairGenesis_ValidateBasic cpg) (\<lambda>_.
     if nextId \<le> cg_id cpg then Inl (Errorf ''invalid id, must be less than next id'')
     else if cg_id cpg \<in> set ids then Inl (Errorf ''repeated id'')
     else if CurrencyPair_String (cg_currency_pair cpg) \<in> set cps
       then Inl (Errorf ''repeated currency-pair'')
     else validate_geneses nextId (cg_id cpg # ids)
            (CurrencyPair_String (cg_currency_pair cpg) # cps) cpgs)"

definition GenesisState_Validate :: "oracle_genesis \<Rightarrow> unit res" where
  "GenesisState_Validate gs = validate_geneses (og_next_id gs) [] [] (og_currency_pair_genesis gs)"

definition DefaultGenesisState :: oracle_genesis where
  "DefaultGenesisState = \<lparr>og_currency_pair_genesis = [], og_next_id = 0\<rparr>"

definition to_panic :: "go_error \<Rightarrow> go_error" where
  "to_panic e = Panic ''error in genesis''"

definition InitGenesis :: "oracle_genesis \<Rightarrow> (oracle_store, unit) comp" where
  "InitGenesis gs =
     bindC (mapErrC to_panic (liftC (GenesisState_Validate gs))) (\<lambda>_.
     bindC (forC (og_currency_pair_genesis gs) (\<lambda>cpg.
       mapErrC to_panic
         (pairs_Set (CurrencyPair_String (cg_currency_pair cpg))
            (NewCurrencyPairState (cg_id cpg) (cg_nonce cpg) (cg_currency_pair_price cpg))))) (\<lambda>_.
     bindC (modifyC (\<lambda>s. s\<lparr>os_next_id := og_next_id gs\<rparr>)) (\<lambda>_.
     bindC (modifyC (\<lambda>s. s\<lparr>os_num_cps := Some (of_nat (length (og_currency_pair_genesis gs)))\<rparr>)) (\<lambda>_.
     modifyC (\<lambda>s. s\<lparr>os_num_removes := Some 0\<rparr>)))))"

definition ExportGenesis :: "oracle_store \<Rightarrow> oracle_genesis res" where
  "ExportGenesis s =
     (case IterateCurrencyPairs (\<lambda>cp cps gs. gs @
             [\<lparr>cg_currency_pair = cp, cg_currency_pair_price = cs_price cps,
               cg_nonce = cs_nonce cps, cg_id = cs_id cps\<rparr>]) s [] of
        (Inl e, _) \<Rightarrow> Inl (to_panic e)
      | (Inr _, gs) \<Rightarrow> Inr \<lparr>og_currency_pair_genesis = gs, og_next_id = os_next_id s\<rparr>)"

definition BeginBlocker :: "(oracle_store, unit) comp" where
  "BeginBlocker = modifyC (\<lambda>s. s\<lparr>os_num_removes := Some 0\<rparr>)"

section \<open>Messages\<close>

record msg_add_pairs =
  ap_authority :: string
  ap_currency_pairs :: "currency_pair list"

record msg_remove_pairs =
  rp_authority :: string
  rp_currency_pair_ids :: "string list"

definition MsgAddCurrencyPairs_ValidateBasic :: "(string \<Rightarrow> unit res) \<Rightarrow> msg_add_pairs \<Rightarrow> unit res" where
  "MsgAddCurrencyPairs_ValidateBasic acc_address m =
     bind_res (acc_address (ap_authority m)) (\<lambda>_. each_ok ValidateBasic (ap_currency_pairs m))"

definition MsgRemoveCurrencyPairs_ValidateBasic ::
    "(string \<Rightarrow> unit res) \<Rightarrow> msg_remove_pairs \<Rightarrow> unit res" where
  "MsgRemoveCurrencyPairs_ValidateBasic acc_address m =
     bind_res (acc_address (rp_authority m)) (\<lambda>_.
     each_ok (\<lambda>id. bind_res (CurrencyPairFromString id) (\<lambda>_. Inr ())) (rp_currency_pair_ids m))"

definition AddCurrencyPairs :: "oracle_keeper \<Rightarrow> msg_add_pairs option \<Rightarrow> (oracle_store, unit) comp" where
  "AddCurrencyPairs k req =
     (case req of
        None \<Rightarrow> throwC (Errorf ''message cannot be empty'')
      | Some m \<Rightarrow>
          if ok_mmKeeper k \<noteq> None
            then throwC (Errorf ''x/oracle message server is disabled when using x/marketmap'')
          else if ap_authority m \<noteq> ok_authority k
            then throwC (Errorf ''message validation failed: authority is not module authority'')
          else forC (ap_currency_pairs m) (\<lambda>cp s.
            if \<not> HasCurrencyPair cp s
            then mapErrC (Wrapf ''error creating currency pair state'') (CreateCurrencyPair cp) s
            else (Inr (), s)))"

definition RemoveCurrencyPairs ::
    "oracle_keeper \<Rightarrow> msg_remove_pairs option \<Rightarrow> (oracle_store, unit) comp" where
  "RemoveCurrencyPairs k req =
     (case req of
        None \<Rightarrow> throwC (Errorf ''message cannot be empty'')
      | Some m \<Rightarrow>
          if ok_mmKeeper k \<noteq> None
            then throwC (Errorf ''x/oracle message server is disabled when using x/marketmap'')
          else if rp_authority m \<noteq> ok_authority k
            then throwC (Errorf ''message validation failed: authority is not module authority'')
          else forC (rp_currency_pair_ids m) (\<lambda>id.
            bindC (mapErrC (Wrapf ''error retrieving CurrencyPair from request'')
                    (liftC (CurrencyPairFromString id))) (\<lambda>cp.
            mapErrC (Wrapf ''error removing currency pair from state'') (RemoveCurrencyPair cp))))"

section \<open>Hooks called by x/marketmap\<close>

definition oracle_AfterMarketCreated :: "market \<Rightarrow> (oracle_store, unit) comp" where
  "oracle_AfterMarketCreated m = CreateCurrencyPair (tk_currency_pair (mk_ticker m))"

definition oracle_AfterMarketUpdated :: "market \<Rightarrow> (oracle_store, unit) comp" where
  "oracle_AfterMarketUpdated m = returnC ()"

definition oracle_AfterMarketGenesis :: "market_map \<Rightarrow> (oracle_store, unit) comp" where
  "oracle_AfterMarketGenesis markets =
     forC markets (\<lambda>(_, m) s.
       if \<not> HasCurrencyPair (tk_currency_pair (mk_ticker m)) s
       then (Inl (Errorf ''currency pair is registered in x/marketmap but not in x/oracle''), s)
       else (Inr (), s))"

definition oracle_AfterMarketRemoved :: "string \<Rightarrow> (oracle_store, unit) comp" where
  "oracle_AfterMarketRemoved key = returnC ()"

section \<open>Queries\<close>

record price_response =
  pr_price :: "quote_price option"
  pr_nonce :: u64
  pr_decimals :: u64
  pr_id :: u64

definition price_entry :: "oracle_keeper \<Rightarrow> currency_pair \<Rightarrow> oracle_store \<Rightarrow> price_response res" where
  "price_entry k cp s =
     bind_res (mapErr (\<lambda>_. Errorf ''no price / nonce reported for CurrencyPair, the module is not tracking it'')
                (GetPriceWithNonceForCurrencyPair cp s)) (\<lambda>(qp, nonce).
     case GetIDForCurrencyPair cp s of
       None \<Rightarrow> Inl (Errorf ''no ID found for CurrencyPair'')
     | Some i \<Rightarrow>
         bind_res (GetDecimalsForCurrencyPair k cp) (\<lambda>decimals.
         Inr \<lparr>pr_price = qp, pr_nonce = nonce, pr_decimals = decimals, pr_id = i\<rparr>))"

definition query_GetPrice ::
    "oracle_keeper \<Rightarrow> currency_pair option \<Rightarrow> oracle_store \<Rightarrow> price_response res" where
  "query_GetPrice k req s =
     (case req of
        None \<Rightarrow> Inl (Errorf ''request cannot be nil'')
      | Some cp \<Rightarrow>
          bind_res (mapErr (Wrapf ''invalid currency pair'') (ValidateBasic cp)) (\<lambda>_.
          price_entry k cp s))"

fun collect_prices ::
    "oracle_keeper \<Rightarrow> string list \<Rightarrow> oracle_store \<Rightarrow> price_response list \<Rightarrow> price_response list res" where
  "collect_prices k [] s prices = Inr prices"
| "collect_prices k (cid # cids) s prices =
     bind_res (mapErr (Wrapf ''error unmarshalling CurrencyPairID'') (CurrencyPairFromString cid)) (\<lambda>cp.
     bind_res (price_entry k cp s) (\<lambda>p.
     collect_prices k cids s (prices @ [p])))"

definition query_GetPrices ::
    "oracle_keeper \<Rightarrow> string list option \<Rightarrow> oracle_store \<Rightarrow> price_response list res" where
  "query_GetPrices k req s =
     (case req of
        None \<Rightarrow> Inl (Errorf ''request cannot be nil'')
      | Some cids \<Rightarrow> collect_prices k cids s [])"

definition query_GetAllCurrencyPairs :: "oracle_store \<Rightarrow> currency_pair list res" where
  "query_GetAllCurrencyPairs s = Inr (GetAllCurrencyPairs s)"

definition query_GetCurrencyPairMapping :: "oracle_store \<Rightarrow> (u64, currency_pair) gomap res" where
  "query_GetCurrencyPairMapping s = GetCurrencyPairMapping s"

definition query_GetCurrencyPairMappingList :: "oracle_store \<Rightarrow> (u64 \<times> currency_pair) list res" where
  "query_GetCurrencyPairMappingList s = GetCurrencyPairMappingList s"

end
