(* ===== verification/Oracle_Facts.thy ===== *)
theory Oracle_Facts
  imports Oracle_Keeper
begin

text \<open>
  The invariant of the \<open>x/oracle\<close> store and the behaviour of its keeper. \<open>pair_of s k\<close> reads the
  state kept under the string form \<open>k\<close>; the invariant says that both indexes agree with it, so
  that no two pairs share an id, and that a pair without a price has nonce 0.
\<close>

section \<open>Invariant\<close>

abbreviation pair_of :: "oracle_store \<Rightarrow> string \<Rightarrow> cp_state option" where
  "pair_of s \<equiv> kv_get (os_currency_pairs s)"

definition index_inv :: "oracle_store \<Rightarrow> bool" where
  "index_inv s \<longleftrightarrow>
     kv_wf (os_currency_pairs s) \<and> kv_wf (os_id_unique s) \<and> kv_wf (os_id_multi s) \<and>
     (\<forall>i k. kv_get (os_id_unique s) i = Some k \<longleftrightarrow> (\<exists>v. pair_of s k = Some v \<and> cs_id v = i)) \<and>
     (\<forall>i k. kv_get (os_id_multi s) (i, k) = Some () \<longleftrightarrow> (\<exists>v. pair_of s k = Some v \<and> cs_id v = i))"

definition price_inv :: "oracle_store \<Rightarrow> bool" where
  "price_inv s \<longleftrightarrow> (\<forall>k v. pair_of s k = Some v \<longrightarrow> cs_price v = None \<longrightarrow> cs_nonce v = 0)"

definition oracle_inv :: "oracle_store \<Rightarrow> bool" where
  "oracle_inv s \<longleftrightarrow> index_inv s \<and> price_inv s"

text \<open>Every id in use is below the next one: kept while the sequence does not wrap around.\<close>

definition ids_below :: "oracle_store \<Rightarrow> bool" where
  "ids_below s \<longleftrightarrow> (\<forall>k v. pair_of s k = Some v \<longrightarrow> cs_id v < os_next_id s)"

text \<open>Every key is the string form of a pair the parser accepts.\<close>

definition canonical_key :: "string \<Rightarrow> bool" where
  "canonical_key k \<longleftrightarrow> (\<exists>cp. CurrencyPairFromString k = Inr cp \<and> CurrencyPair_String cp = k)"

definition keys_canonical :: "oracle_store \<Rightarrow> bool" where
  "keys_canonical s \<longleftrightarrow> (\<forall>k. pair_of s k \<noteq> None \<longrightarrow> canonical_key k)"

definition count_ok :: "oracle_store \<Rightarrow> bool" where
  "count_ok s \<longleftrightarrow> os_num_cps s = Some (of_nat (length (os_currency_pairs s)))"

lemma index_wf:
  "index_inv s \<Longrightarrow> kv_wf (os_currency_pairs s)"
  "index_inv s \<Longrightarrow> kv_wf (os_id_unique s)"
  "index_inv s \<Longrightarrow> kv_wf (os_id_multi s)"
  by (simp_all add: index_inv_def)

lemma index_unique: "index_inv s \<Longrightarrow>
  kv_get (os_id_unique s) i = Some k \<longleftrightarrow> (\<exists>v. pair_of s k = Some v \<and> cs_id v = i)"
  by (simp add: index_inv_def)

lemma ids_distinct:
  "index_inv s \<Longrightarrow> pair_of s k = Some v \<Longrightarrow> pair_of s l = Some w \<Longrightarrow> cs_id v = cs_id w \<Longrightarrow> k = l"
  unfolding index_inv_def by (metis option.inject)

lemma index_empty: "index_inv s \<Longrightarrow> pair_of s k = None \<Longrightarrow> unindex k s = s"
  by (simp add: unindex_def)

subsection \<open>The indexed map keeps its indexes\<close>

lemma unindex_fields [simp]:
  "os_currency_pairs (unindex k s) = os_currency_pairs s"
  "os_next_id (unindex k s) = os_next_id s"
  "os_num_removes (unindex k s) = os_num_removes s"
  "os_num_cps (unindex k s) = os_num_cps s"
  by (simp_all add: unindex_def split: option.split)

lemma unindex_get:
  assumes "index_inv s"
  shows "kv_wf (os_id_unique (unindex k s))" "kv_wf (os_id_multi (unindex k s))"
    and "kv_get (os_id_unique (unindex k s)) i = Some l \<longleftrightarrow>
           l \<noteq> k \<and> (\<exists>v. pair_of s l = Some v \<and> cs_id v = i)"
    and "kv_get (os_id_multi (unindex k s)) (i, l) = Some () \<longleftrightarrow>
           l \<noteq> k \<and> (\<exists>v. pair_of s l = Some v \<and> cs_id v = i)"
proof -
  note wf = index_wf [OF assms]
  show "kv_wf (os_id_unique (unindex k s))" "kv_wf (os_id_multi (unindex k s))"
    using wf by (simp_all add: unindex_def split: option.split)
  show "kv_get (os_id_unique (unindex k s)) i = Some l \<longleftrightarrow>
      l \<noteq> k \<and> (\<exists>v. pair_of s l = Some v \<and> cs_id v = i)"
    using assms wf ids_distinct [OF assms]
    by (auto simp: unindex_def index_unique [OF assms] split: option.splits)
  show "kv_get (os_id_multi (unindex k s)) (i, l) = Some () \<longleftrightarrow>
      l \<noteq> k \<and> (\<exists>v. pair_of s l = Some v \<and> cs_id v = i)"
    using assms wf unfolding index_inv_def
    by (auto simp: unindex_def split: option.splits)
qed

lemma pairs_Set_error: "pairs_Set k v s = (Inl e, t) \<Longrightarrow> t = s \<and> e = ErrConflict"
  by (auto simp: pairs_Set_def Let_def split: if_splits)

lemma pairs_Set_fields:
  assumes "pairs_Set k v s = (Inr (), t)"
  shows "os_currency_pairs t = kv_set k v (os_currency_pairs s)" "os_next_id t = os_next_id s"
    "os_num_removes t = os_num_removes s" "os_num_cps t = os_num_cps s"
  using assms by (auto simp: pairs_Set_def Let_def split: if_splits)

lemma pairs_Set_pair_of:
  "index_inv s \<Longrightarrow> pairs_Set k v s = (Inr (), t) \<Longrightarrow> pair_of t l = (if l = k then Some v else pair_of s l)"
  by (simp add: pairs_Set_fields index_wf)

lemma pairs_Set_index:
  assumes "index_inv s" "pairs_Set k v s = (Inr (), t)"
  shows "index_inv t"
proof -
  note wf = index_wf [OF assms(1)] unindex_get [OF assms(1), of k]
  have free: "kv_get (os_id_unique (unindex k s)) (cs_id v) = None"
    using assms(2) by (auto simp: pairs_Set_def Let_def split: if_splits)
  have t: "t = (unindex k s)\<lparr>os_currency_pairs := kv_set k v (os_currency_pairs s),
      os_id_unique := kv_set (cs_id v) k (os_id_unique (unindex k s)),
      os_id_multi := kv_set (cs_id v, k) () (os_id_multi (unindex k s))\<rparr>"
    using assms(2) by (auto simp: pairs_Set_def Let_def split: if_splits)
  have other: "cs_id w \<noteq> cs_id v" if "l \<noteq> k" "pair_of s l = Some w" for l w
    using free wf(6) [of "cs_id v" l] that by auto
  show ?thesis
    unfolding index_inv_def using wf other by (auto simp: t)
qed

lemma pairs_Set_total:
  assumes "index_inv s" "\<And>l w. l \<noteq> k \<Longrightarrow> pair_of s l = Some w \<Longrightarrow> cs_id w \<noteq> cs_id v"
  shows "\<exists>t. pairs_Set k v s = (Inr (), t)"
proof -
  have "kv_get (os_id_unique (unindex k s)) (cs_id v) = None"
    using assms(2) unindex_get(3) [OF assms(1), of k "cs_id v"]
    by (metis not_Some_eq)
  then show ?thesis by (simp add: pairs_Set_def Let_def)
qed

lemma pairs_Remove_pair_of:
  assumes "index_inv s" "pairs_Remove k s = (Inr (), t)"
  shows "pair_of t l = (if l = k then None else pair_of s l)"
    "os_currency_pairs t = kv_del k (os_currency_pairs s)" "os_next_id t = os_next_id s"
    "os_num_removes t = os_num_removes s" "os_num_cps t = os_num_cps s"
  using assms by (auto simp: pairs_Remove_def index_wf split: option.splits)

lemma pairs_Remove_index:
  assumes "index_inv s" "pairs_Remove k s = (Inr (), t)"
  shows "index_inv t"
proof -
  note wf = index_wf [OF assms(1)] unindex_get [OF assms(1), of k]
  have t: "t = (unindex k s)\<lparr>os_currency_pairs := kv_del k (os_currency_pairs s)\<rparr>"
    using assms(2) by (auto simp: pairs_Remove_def split: option.splits)
  show ?thesis unfolding index_inv_def using wf by (auto simp: t)
qed

lemma pairs_Remove_error: "pairs_Remove k s = (Inl e, t) \<Longrightarrow> t = s"
  by (auto simp: pairs_Remove_def split: option.splits)

lemma index_inv_frame [simp]:
  "index_inv (s\<lparr>os_next_id := n\<rparr>) = index_inv s"
  "index_inv (s\<lparr>os_num_removes := a\<rparr>) = index_inv s"
  "index_inv (s\<lparr>os_num_cps := a\<rparr>) = index_inv s"
  by (simp_all add: index_inv_def)

lemma price_inv_frame [simp]:
  "price_inv (s\<lparr>os_next_id := n\<rparr>) = price_inv s"
  "price_inv (s\<lparr>os_num_removes := a\<rparr>) = price_inv s"
  "price_inv (s\<lparr>os_num_cps := a\<rparr>) = price_inv s"
  by (simp_all add: price_inv_def)

lemma oracle_inv_frame [simp]:
  "oracle_inv (s\<lparr>os_next_id := n\<rparr>) = oracle_inv s"
  "oracle_inv (s\<lparr>os_num_removes := a\<rparr>) = oracle_inv s"
  "oracle_inv (s\<lparr>os_num_cps := a\<rparr>) = oracle_inv s"
  by (simp_all add: oracle_inv_def)

lemma pairs_Set_keeps:
  assumes "cs_price v = None \<Longrightarrow> cs_nonce v = 0"
  shows "keeps oracle_inv (pairs_Set k v)"
proof (rule keepsI)
  fix s assume inv: "oracle_inv s"
  obtain r t where rt: "pairs_Set k v s = (r, t)" by (cases "pairs_Set k v s")
  show "oracle_inv (snd (pairs_Set k v s))"
  proof (cases r)
    case (Inl e)
    then show ?thesis using inv rt pairs_Set_error [of k v s] by simp
  next
    case (Inr u)
    then have set: "pairs_Set k v s = (Inr (), t)" using rt by simp
    then show ?thesis
      using inv assms pairs_Set_index [OF _ set] pairs_Set_pair_of [OF _ set]
      by (auto simp: oracle_inv_def price_inv_def)
  qed
qed

lemma pairs_Remove_keeps: "keeps oracle_inv (pairs_Remove k)"
proof (rule keepsI)
  fix s assume inv: "oracle_inv s"
  obtain r t where rt: "pairs_Remove k s = (r, t)" by (cases "pairs_Remove k s")
  show "oracle_inv (snd (pairs_Remove k s))"
  proof (cases r)
    case (Inl e)
    then show ?thesis using inv rt pairs_Remove_error [of k s] by simp
  next
    case (Inr u)
    then have rem: "pairs_Remove k s = (Inr (), t)" using rt by simp
    then show ?thesis
      using inv pairs_Remove_index [OF _ rem] pairs_Remove_pair_of(1) [OF _ rem]
      by (auto simp: oracle_inv_def price_inv_def split: if_splits)
  qed
qed

section \<open>Every operation keeps the invariant\<close>

lemma nextID_keeps: "keeps oracle_inv nextID_Next"
  by (rule keepsI) (simp add: nextID_Next_def)

lemma counters_keep:
  "keeps oracle_inv incrementRemovedCPCounter" "keeps oracle_inv incrementCPCounter"
  "keeps oracle_inv decrementCPCounter"
  unfolding incrementRemovedCPCounter_def incrementCPCounter_def decrementCPCounter_def
  by (auto intro!: keeps_bindC keeps_modifyC)

lemma RemoveCurrencyPair_keeps: "keeps oracle_inv (RemoveCurrencyPair cp)"
proof -
  have "keeps oracle_inv (bindC (pairs_Remove (CurrencyPair_String cp)) (\<lambda>_.
      bindC incrementRemovedCPCounter (\<lambda>_. decrementCPCounter)))"
    by (intro keeps_bindC pairs_Remove_keeps counters_keep)
  then show ?thesis by (auto simp: keeps_def RemoveCurrencyPair_def)
qed

lemma CreateCurrencyPair_keeps: "keeps oracle_inv (CreateCurrencyPair cp)"
proof -
  have "keeps oracle_inv (bindC nextID_Next (\<lambda>id.
      bindC (pairs_Set (CurrencyPair_String cp) (NewCurrencyPairState id 0 None)) (\<lambda>_. incrementCPCounter)))"
    by (intro keeps_bindC nextID_keeps counters_keep pairs_Set_keeps) (simp add: NewCurrencyPairState_def)
  then show ?thesis by (auto simp: keeps_def CreateCurrencyPair_def)
qed

lemma SetPriceForCurrencyPair_keeps: "keeps oracle_inv (SetPriceForCurrencyPair cp qp)"
proof (rule keepsI)
  fix s assume inv: "oracle_inv s"
  have "keeps oracle_inv (bindC nextID_Next (\<lambda>id.
      pairs_Set (CurrencyPair_String cp) (NewCurrencyPairState id 0 (Some qp))))"
    by (intro keeps_bindC nextID_keeps pairs_Set_keeps) (simp add: NewCurrencyPairState_def)
  moreover have "keeps oracle_inv (pairs_Set (CurrencyPair_String cp)
      (cps\<lparr>cs_nonce := cs_nonce cps + 1, cs_price := Some qp\<rparr>))" for cps
    by (rule pairs_Set_keeps) simp
  ultimately show "oracle_inv (snd (SetPriceForCurrencyPair cp qp s))"
    using inv by (auto simp: SetPriceForCurrencyPair_def keeps_def split: sum.splits)
qed

lemma BeginBlocker_keeps: "keeps oracle_inv BeginBlocker"
  unfolding BeginBlocker_def by (rule keeps_modifyC) simp

lemma AddCurrencyPairs_keeps: "keeps oracle_inv (AddCurrencyPairs k req)"
proof -
  have "keeps oracle_inv (\<lambda>s. if \<not> HasCurrencyPair cp s
      then mapErrC (Wrapf ''error creating currency pair state'') (CreateCurrencyPair cp) s
      else (Inr (), s))" for cp
    using keeps_mapErrC [OF CreateCurrencyPair_keeps] by (auto simp: keeps_def)
  then show ?thesis
    by (auto simp: AddCurrencyPairs_def intro!: keeps_forC split: option.split)
qed

lemma RemoveCurrencyPairs_keeps: "keeps oracle_inv (RemoveCurrencyPairs k req)"
  by (auto simp: RemoveCurrencyPairs_def split: option.split
      intro!: keeps_forC keeps_bindC keeps_mapErrC RemoveCurrencyPair_keeps)

end
