(* ===== verification/Oracle_Behaviour.thy ===== *)
theory Oracle_Behaviour
  imports Oracle_Facts
begin

text \<open>
  The \<open>x/oracle\<close> keeper operation by operation: what each returns and writes on every branch,
  iteration over the store, the states the module can reach, and the genesis round trip.
\<close>

section \<open>Operations, branch by branch\<close>

lemma HasCurrencyPair_iff:
  "HasCurrencyPair cp s \<longleftrightarrow> (\<exists>v. pair_of s (CurrencyPair_String cp) = Some v)"
  by (simp add: HasCurrencyPair_def)

lemma GetID_iff:
  "GetIDForCurrencyPair cp s = Some i \<longleftrightarrow>
     (\<exists>v. pair_of s (CurrencyPair_String cp) = Some v \<and> cs_id v = i)"
  by (auto simp: GetIDForCurrencyPair_def pairs_Get_def split: option.splits)

lemma GetPrice_eq:
  "GetPriceForCurrencyPair cp s =
     (case pair_of s (CurrencyPair_String cp) of
        None \<Rightarrow> Inl ErrNotFound
      | Some v \<Rightarrow> (case cs_price v of
          None \<Rightarrow> Inl (QuotePriceNotExistError (CurrencyPair_String cp)) | Some qp \<Rightarrow> Inr qp))"
  by (simp add: GetPriceForCurrencyPair_def pairs_Get_def split: option.split)

lemma set_price_tracked:
  assumes "index_inv s" "pair_of s (CurrencyPair_String cp) = Some cps"
  obtains t where "SetPriceForCurrencyPair cp qp s = (Inr (), t)"
    "index_inv t"
    "os_next_id t = os_next_id s" "os_num_cps t = os_num_cps s" "os_num_removes t = os_num_removes s"
    "\<And>l. pair_of t l =
       (if l = CurrencyPair_String cp then Some (cps\<lparr>cs_nonce := cs_nonce cps + 1, cs_price := Some qp\<rparr>)
        else pair_of s l)"
proof -
  let ?k = "CurrencyPair_String cp"
  let ?v = "cps\<lparr>cs_nonce := cs_nonce cps + 1, cs_price := Some qp\<rparr>"
  have "\<exists>t. pairs_Set ?k ?v s = (Inr (), t)"
    using ids_distinct [OF assms(1) assms(2)] by (intro pairs_Set_total [OF assms(1)]) auto
  then obtain t where t: "pairs_Set ?k ?v s = (Inr (), t)" by blast
  moreover have "SetPriceForCurrencyPair cp qp s = pairs_Set ?k ?v s"
    using assms(2) by (simp add: SetPriceForCurrencyPair_def pairs_Get_def)
  ultimately show ?thesis
    using that pairs_Set_fields [OF t] pairs_Set_index [OF assms(1) t] pairs_Set_pair_of [OF assms(1) t]
    by simp
qed

lemma below_fresh:
  "ids_below s \<Longrightarrow> pair_of s l = Some w \<Longrightarrow> cs_id w \<noteq> os_next_id s"
  unfolding ids_below_def by (metis less_irrefl)

lemma new_pair:
  assumes "index_inv s" "ids_below s" "pair_of s k = None"
  obtains t where
    "pairs_Set k (NewCurrencyPairState (os_next_id s) 0 p) (s\<lparr>os_next_id := os_next_id s + 1\<rparr>) = (Inr (), t)"
    "index_inv t" "os_next_id t = os_next_id s + 1"
    "os_num_cps t = os_num_cps s" "os_num_removes t = os_num_removes s"
    "\<And>l. pair_of t l = (if l = k then Some (NewCurrencyPairState (os_next_id s) 0 p) else pair_of s l)"
    "os_currency_pairs t = kv_set k (NewCurrencyPairState (os_next_id s) 0 p) (os_currency_pairs s)"
proof -
  let ?s = "s\<lparr>os_next_id := os_next_id s + 1\<rparr>"
  let ?v = "NewCurrencyPairState (os_next_id s) 0 p"
  have inv: "index_inv ?s" using assms(1) by simp
  have "\<exists>t. pairs_Set k ?v ?s = (Inr (), t)"
    using below_fresh [OF assms(2)]
    by (intro pairs_Set_total [OF inv]) (simp add: NewCurrencyPairState_def)
  then obtain t where t: "pairs_Set k ?v ?s = (Inr (), t)" by blast
  show ?thesis
    using that [OF t] pairs_Set_fields [OF t] pairs_Set_index [OF inv t] pairs_Set_pair_of [OF inv t]
    by simp
qed

lemma set_price_untracked:
  assumes "index_inv s" "ids_below s" "pair_of s (CurrencyPair_String cp) = None"
  obtains t where "SetPriceForCurrencyPair cp qp s = (Inr (), t)"
    "index_inv t" "os_next_id t = os_next_id s + 1" "os_num_cps t = os_num_cps s"
    "os_num_removes t = os_num_removes s"
    "\<And>l. pair_of t l =
       (if l = CurrencyPair_String cp then Some (NewCurrencyPairState (os_next_id s) 0 (Some qp))
        else pair_of s l)"
proof -
  obtain t where t: "pairs_Set (CurrencyPair_String cp) (NewCurrencyPairState (os_next_id s) 0 (Some qp))
      (s\<lparr>os_next_id := os_next_id s + 1\<rparr>) = (Inr (), t)"
    and rest: "index_inv t" "os_next_id t = os_next_id s + 1" "os_num_cps t = os_num_cps s"
      "os_num_removes t = os_num_removes s"
      "\<And>l. pair_of t l = (if l = CurrencyPair_String cp
         then Some (NewCurrencyPairState (os_next_id s) 0 (Some qp)) else pair_of s l)"
    using new_pair [OF assms, of "Some qp"] by metis
  have "SetPriceForCurrencyPair cp qp s = (Inr (), t)"
    using assms(3) t
    by (simp add: SetPriceForCurrencyPair_def pairs_Get_def bindC_def nextID_Next_def)
  then show ?thesis using that rest by blast
qed

lemma create_tracked:
  "HasCurrencyPair cp s \<Longrightarrow>
     CreateCurrencyPair cp s = (Inl (CurrencyPairAlreadyExistsError (CurrencyPair_String cp)), s)"
  by (simp add: CreateCurrencyPair_def)

lemma create_untracked:
  assumes "index_inv s" "ids_below s" "\<not> HasCurrencyPair cp s" "os_num_cps s = Some n"
  obtains t where "CreateCurrencyPair cp s = (Inr (), t)"
    "index_inv t" "os_next_id t = os_next_id s + 1" "os_num_cps t = Some (n + 1)"
    "os_num_removes t = os_num_removes s"
    "\<And>l. pair_of t l =
       (if l = CurrencyPair_String cp then Some (NewCurrencyPairState (os_next_id s) 0 None)
        else pair_of s l)"
proof -
  have none: "pair_of s (CurrencyPair_String cp) = None"
    using assms(3) by (simp add: HasCurrencyPair_def)
  obtain t where t: "pairs_Set (CurrencyPair_String cp) (NewCurrencyPairState (os_next_id s) 0 None)
      (s\<lparr>os_next_id := os_next_id s + 1\<rparr>) = (Inr (), t)"
    and rest: "index_inv t" "os_next_id t = os_next_id s + 1" "os_num_cps t = os_num_cps s"
      "os_num_removes t = os_num_removes s"
      "\<And>l. pair_of t l = (if l = CurrencyPair_String cp
         then Some (NewCurrencyPairState (os_next_id s) 0 None) else pair_of s l)"
    using new_pair [OF assms(1,2) none, of None] by metis
  have "CreateCurrencyPair cp s = (Inr (), t\<lparr>os_num_cps := Some (n + 1)\<rparr>)"
    using assms(3,4) t rest(3)
    by (simp add: CreateCurrencyPair_def bindC_def nextID_Next_def incrementCPCounter_def
        readC_def modifyC_def item_Get_def)
  then show ?thesis using that rest by simp
qed

lemma create_result:
  assumes "CreateCurrencyPair cp s = (Inr (), t)" "index_inv s"
  shows "\<not> HasCurrencyPair cp s" "index_inv t" "os_next_id t = os_next_id s + 1"
    "\<exists>n. os_num_cps s = Some n \<and> os_num_cps t = Some (n + 1)"
    "os_num_removes t = os_num_removes s"
    "pair_of t l = (if l = CurrencyPair_String cp
       then Some (NewCurrencyPairState (os_next_id s) 0 None) else pair_of s l)"
    "length (os_currency_pairs t) = Suc (length (os_currency_pairs s))"
proof -
  let ?s = "s\<lparr>os_next_id := os_next_id s + 1\<rparr>"
  let ?v = "NewCurrencyPairState (os_next_id s) 0 None"
  show has: "\<not> HasCurrencyPair cp s"
    using assms(1) by (auto simp: CreateCurrencyPair_def)
  obtain u n where u: "pairs_Set (CurrencyPair_String cp) ?v ?s = (Inr (), u)"
    and n: "os_num_cps u = Some n" and t: "t = u\<lparr>os_num_cps := Some (n + 1)\<rparr>"
    using assms(1) has
    by (auto simp: CreateCurrencyPair_def comp_Inr nextID_Next_def incrementCPCounter_def item_Get_def
        split: option.splits)
  have inv: "index_inv ?s" using assms(2) by simp
  note f = pairs_Set_fields [OF u] pairs_Set_index [OF inv u] pairs_Set_pair_of [OF inv u]
  show "index_inv t" "os_next_id t = os_next_id s + 1"
    "\<exists>n. os_num_cps s = Some n \<and> os_num_cps t = Some (n + 1)" "os_num_removes t = os_num_removes s"
    "pair_of t l = (if l = CurrencyPair_String cp then Some ?v else pair_of s l)"
    using f n by (simp_all add: t)
  show "length (os_currency_pairs t) = Suc (length (os_currency_pairs s))"
    using f(1) kv.length_put [OF index_wf(1) [OF assms(2)], of "CurrencyPair_String cp" ?v] has
    by (simp add: t HasCurrencyPair_def)
qed

lemma remove_untracked:
  "\<not> HasCurrencyPair cp s \<Longrightarrow>
     RemoveCurrencyPair cp s = (Inl (CurrencyPairNotExistError (CurrencyPair_String cp)), s)"
  by (simp add: RemoveCurrencyPair_def)

lemma remove_result:
  assumes "RemoveCurrencyPair cp s = (Inr (), t)" "index_inv s"
  shows "HasCurrencyPair cp s" "index_inv t" "os_next_id t = os_next_id s"
    "\<exists>n. os_num_cps s = Some n \<and> os_num_cps t = Some (n - 1)"
    "\<exists>n. os_num_removes s = Some n \<and> os_num_removes t = Some (n + 1)"
    "pair_of t l = (if l = CurrencyPair_String cp then None else pair_of s l)"
    "Suc (length (os_currency_pairs t)) = length (os_currency_pairs s)"
proof -
  show has: "HasCurrencyPair cp s"
    using assms(1) by (auto simp: RemoveCurrencyPair_def split: if_splits)
  obtain u n r where u: "pairs_Remove (CurrencyPair_String cp) s = (Inr (), u)"
    and n: "os_num_removes u = Some r" "os_num_cps u = Some n"
    and t: "t = u\<lparr>os_num_removes := Some (r + 1), os_num_cps := Some (n - 1)\<rparr>"
    using assms(1) has
    by (auto simp: RemoveCurrencyPair_def comp_Inr incrementRemovedCPCounter_def decrementCPCounter_def
        item_Get_def split: option.splits)
  note f = pairs_Remove_pair_of [OF assms(2) u] pairs_Remove_index [OF assms(2) u]
  show "index_inv t" "os_next_id t = os_next_id s"
    "\<exists>n. os_num_cps s = Some n \<and> os_num_cps t = Some (n - 1)"
    "\<exists>n. os_num_removes s = Some n \<and> os_num_removes t = Some (n + 1)"
    "pair_of t l = (if l = CurrencyPair_String cp then None else pair_of s l)"
    using f n by (simp_all add: t)
  show "Suc (length (os_currency_pairs t)) = length (os_currency_pairs s)"
    using f(2) kv.length_del [OF index_wf(1) [OF assms(2)], of "CurrencyPair_String cp"] has
    by (simp add: t HasCurrencyPair_def)
qed

subsection \<open>Lookups by id\<close>

lemma id_MatchExact_iff:
  assumes "index_inv s"
  shows "k \<in> set (id_MatchExact i s) \<longleftrightarrow> (\<exists>v. pair_of s k = Some v \<and> cs_id v = i)"
proof -
  have "k \<in> set (id_MatchExact i s) \<longleftrightarrow> ((i, k), ()) \<in> set (os_id_multi s)"
    by (auto simp: id_MatchExact_def image_iff)
  also have "\<dots> \<longleftrightarrow> kv_get (os_id_multi s) (i, k) = Some ()"
    by (rule kv.entries_iff [OF index_wf(3) [OF assms]])
  finally show ?thesis using assms by (simp add: index_inv_def)
qed

lemma from_id_iff:
  assumes "index_inv s"
  shows "GetCurrencyPairFromID i s = Some cp \<longleftrightarrow>
    (\<exists>k v. pair_of s k = Some v \<and> cs_id v = i \<and> CurrencyPairFromString k = Inr cp)"
proof (cases "id_MatchExact i s")
  case Nil
  then have "\<not> (\<exists>k v. pair_of s k = Some v \<and> cs_id v = i)"
    using id_MatchExact_iff [OF assms, of _ i] by auto
  with Nil show ?thesis by (auto simp: GetCurrencyPairFromID_def)
next
  case (Cons k ks)
  then obtain v where v: "pair_of s k = Some v" "cs_id v = i"
    using id_MatchExact_iff [OF assms, of k i] by auto
  then have "l = k" if "pair_of s l = Some w" "cs_id w = i" for l w
    using ids_distinct [OF assms that(1) v(1)] that v by simp
  with v have "(\<exists>l w. pair_of s l = Some w \<and> cs_id w = i \<and> CurrencyPairFromString l = Inr cp) \<longleftrightarrow>
      CurrencyPairFromString k = Inr cp"
    by metis
  with Cons show ?thesis by (simp add: GetCurrencyPairFromID_def split: sum.split)
qed

section \<open>Iteration\<close>

definition key_pair :: "string \<Rightarrow> currency_pair" where
  "key_pair k = (case CurrencyPairFromString k of Inr cp \<Rightarrow> cp | Inl _ \<Rightarrow> NewCurrencyPair [] [])"

lemma key_pair_canonical:
  "canonical_key k \<Longrightarrow> CurrencyPairFromString k = Inr (key_pair k)"
  "canonical_key k \<Longrightarrow> CurrencyPair_String (key_pair k) = k"
  by (auto simp: canonical_key_def key_pair_def)

lemma iterate_pairs_canonical:
  "\<forall>e \<in> set es. canonical_key (fst e) \<Longrightarrow>
     iterate_pairs cb es acc = (Inr (), fold (\<lambda>(k, v). cb (key_pair k) v) es acc)"
  by (induction es arbitrary: acc) (auto simp: key_pair_canonical(1))

lemma canonical_entries:
  "index_inv s \<Longrightarrow> keys_canonical s \<Longrightarrow> (k, v) \<in> set (os_currency_pairs s) \<Longrightarrow> canonical_key k"
  using kv.entries_iff [OF index_wf(1), of s k v] by (simp add: keys_canonical_def)

lemma Iterate_canonical:
  "index_inv s \<Longrightarrow> keys_canonical s \<Longrightarrow>
     IterateCurrencyPairs cb s acc = (Inr (), fold (\<lambda>(k, v). cb (key_pair k) v) (os_currency_pairs s) acc)"
  unfolding IterateCurrencyPairs_def
  by (rule iterate_pairs_canonical) (auto intro: canonical_entries)

lemma fold_snoc: "fold (\<lambda>(k, v) acc. acc @ [f k v]) es acc = acc @ map (\<lambda>(k, v). f k v) es"
  by (induction es arbitrary: acc) auto

lemma GetAll_canonical:
  "index_inv s \<Longrightarrow> keys_canonical s \<Longrightarrow>
     GetAllCurrencyPairs s = map (\<lambda>(k, v). key_pair k) (os_currency_pairs s)"
  using fold_snoc [of "\<lambda>k v. key_pair k" "os_currency_pairs s" "[]"]
  by (simp add: GetAllCurrencyPairs_def Iterate_canonical)

lemma iterate_pairs_stops:
  "(k, v) \<in> set es \<Longrightarrow> CurrencyPairFromString k = Inl e \<Longrightarrow>
     \<exists>e'. fst (iterate_pairs cb es acc) = Inl e'"
proof (induction es arbitrary: acc)
  case (Cons x es)
  obtain l w where "x = (l, w)" by (cases x)
  with Cons show ?case by (cases "CurrencyPairFromString l") auto
qed simp

section \<open>Canonical keys\<close>

lemma canonical_String:
  "ValidateBasic cp = Inr () \<Longrightarrow> slash_free cp \<Longrightarrow> canonical_key (CurrencyPair_String cp)"
  using String_FromString_aux by (auto simp: canonical_key_def)

lemma slash_not_canonical:
  assumes "\<not> slash_free cp"
  shows "\<exists>e. CurrencyPairFromString (CurrencyPair_String cp) = Inl e"
proof (cases "CurrencyPairFromString (CurrencyPair_String cp)")
  case (Inr cq)
  then obtain a b where ab: "CurrencyPair_String cp = a @ CHR ''/'' # b"
      "CHR ''/'' \<notin> set a" "CHR ''/'' \<notin> set b"
    by (auto simp: CurrencyPairFromString_iff)
  have "count_list (CurrencyPair_String cp) (CHR ''/'') = 1"
    using ab by (simp add: count_list_append)
  then have "count_list (cp_base cp) (CHR ''/'') = 0" "count_list (cp_quote cp) (CHR ''/'') = 0"
    by (simp_all add: CurrencyPair_String_def count_list_append)
  with assms show ?thesis by (simp add: slash_free_def count_list_0_iff)
qed blast

end
