(* ===== verification/Oracle_Properties.thy ===== *)
theory Oracle_Properties
  imports Oracle_Behaviour
begin

text \<open>
  The properties of \<open>pkg/types\<close> and \<open>x/oracle\<close>: the string form of a pair, the states the module
  reaches, ids, prices and nonces, and the counter of tracked pairs.
\<close>

section \<open>Currency pairs\<close>

text \<open>The string form of a valid pair without a slash in its assets parses back to the pair,
  and every string the parser accepts is, up to letter case, the string form of its result.\<close>

theorem pair_string_roundtrip:
  "(ValidateBasic cp = Inr () \<and> slash_free cp \<longrightarrow>
      CurrencyPairFromString (CurrencyPair_String cp) = Inr cp) \<and>
   (CurrencyPairFromString s = Inr cp \<longrightarrow>
      CurrencyPair_String cp = ToUpper s \<and> ValidateBasic cp = Inr () \<and> slash_free cp)"
  using String_FromString_aux FromString_String_upper FromString_valid FromString_slash_free by blast

theorem pair_string_roundtrip_witness:
  "CurrencyPairFromString (CurrencyPair_String (NewCurrencyPair ''BTC'' ''USD'')) =
     Inr (NewCurrencyPair ''BTC'' ''USD'')"
proof -
  have "ValidateBasic (NewCurrencyPair ''BTC'' ''USD'') = Inr ()" by code_simp
  moreover have "slash_free (NewCurrencyPair ''BTC'' ''USD'')" by code_simp
  ultimately show ?thesis using pair_string_roundtrip [of "NewCurrencyPair ''BTC'' ''USD''"] by blast
qed

section \<open>The states of the module\<close>

lemma keeps_ok_mapErrC: "keeps_ok I m \<Longrightarrow> keeps_ok I (mapErrC w m)"
  by (auto simp: keeps_ok_def)

text \<open>
  A committed step: a message, the begin blocker, the pre-block price write or a hook of
  \<open>x/marketmap\<close> that returned without error (the state of a failed one is discarded by the SDK).
\<close>

inductive oracle_step :: "oracle_keeper \<Rightarrow> oracle_store \<Rightarrow> oracle_store \<Rightarrow> bool" for k where
  add: "AddCurrencyPairs k req s = (Inr (), t) \<Longrightarrow> oracle_step k s t"
| remove: "RemoveCurrencyPairs k rreq s = (Inr (), t) \<Longrightarrow> oracle_step k s t"
| price: "SetPriceForCurrencyPair cp qp s = (Inr (), t) \<Longrightarrow> oracle_step k s t"
| begin_block: "BeginBlocker s = (Inr (), t) \<Longrightarrow> oracle_step k s t"
| market_created: "oracle_AfterMarketCreated m s = (Inr (), t) \<Longrightarrow> oracle_step k s t"

inductive oracle_reachable :: "oracle_keeper \<Rightarrow> oracle_store \<Rightarrow> bool" for k where
  genesis: "InitGenesis gs empty_oracle_store = (Inr (), s) \<Longrightarrow> oracle_reachable k s"
| step: "oracle_reachable k s \<Longrightarrow> oracle_step k s t \<Longrightarrow> oracle_reachable k t"

lemma oracle_inv_empty: "oracle_inv empty_oracle_store"
  by (simp add: oracle_inv_def index_inv_def price_inv_def empty_oracle_store_def kv_get_def kv_wf_def)

lemma validate_geneses_iff:
  "is_ok (validate_geneses n ids cps gs) \<longleftrightarrow>
     (\<forall>g \<in> set gs. is_ok (CurrencyPairGenesis_ValidateBasic g) \<and> cg_id g < n) \<and>
     distinct (map cg_id gs) \<and> set ids \<inter> cg_id ` set gs = {} \<and>
     distinct (map (CurrencyPair_String \<circ> cg_currency_pair) gs) \<and>
     set cps \<inter> (CurrencyPair_String \<circ> cg_currency_pair) ` set gs = {}"
  by (induction gs arbitrary: ids cps) (auto simp: unit_res_ok not_le)

lemma genesis_entry_ok:
  "is_ok (CurrencyPairGenesis_ValidateBasic g) \<longleftrightarrow>
     is_ok (ValidateBasic (cg_currency_pair g)) \<and>
     (cg_currency_pair_price g = None \<longrightarrow> cg_nonce g = 0)"
  by (auto simp: CurrencyPairGenesis_ValidateBasic_def unit_res_ok)

lemma InitGenesis_inv: "InitGenesis gs s = (Inr (), t) \<Longrightarrow> oracle_inv s \<Longrightarrow> oracle_inv t"
proof -
  assume init: "InitGenesis gs s = (Inr (), t)" and inv: "oracle_inv s"
  let ?loop = "forC (og_currency_pair_genesis gs) (\<lambda>cpg. mapErrC to_panic
    (pairs_Set (CurrencyPair_String (cg_currency_pair cpg))
      (NewCurrencyPairState (cg_id cpg) (cg_nonce cpg) (cg_currency_pair_price cpg))))"
  obtain u where ok: "is_ok (GenesisState_Validate gs)" and u: "?loop s = (Inr (), u)"
    and t: "t = u\<lparr>os_next_id := og_next_id gs,
      os_num_cps := Some (of_nat (length (og_currency_pair_genesis gs))), os_num_removes := Some 0\<rparr>"
    using init by (auto simp: InitGenesis_def comp_Inr unit_res_ok)
  have "keeps oracle_inv ?loop"
    using ok
    by (intro keeps_forC keeps_mapErrC pairs_Set_keeps)
       (auto simp: GenesisState_Validate_def validate_geneses_iff genesis_entry_ok NewCurrencyPairState_def)
  then have "oracle_inv u" using inv u by (rule keepsD)
  then show "oracle_inv t" by (simp add: t)
qed

lemma oracle_step_inv: "oracle_step k s t \<Longrightarrow> oracle_inv s \<Longrightarrow> oracle_inv t"
  by (induction rule: oracle_step.induct)
    (auto simp: oracle_AfterMarketCreated_def
      dest: keepsD [OF AddCurrencyPairs_keeps] keepsD [OF RemoveCurrencyPairs_keeps]
        keepsD [OF SetPriceForCurrencyPair_keeps] keepsD [OF BeginBlocker_keeps]
        keepsD [OF CreateCurrencyPair_keeps])

lemma reachable_inv: "oracle_reachable k s \<Longrightarrow> oracle_inv s"
  by (induction rule: oracle_reachable.induct)
    (auto intro: InitGenesis_inv oracle_inv_empty oracle_step_inv)

lemma reachable_index: "oracle_reachable k s \<Longrightarrow> index_inv s"
  using reachable_inv by (auto simp: oracle_inv_def)

subsection \<open>A reachable example\<close>

definition btc_usd :: currency_pair where "btc_usd = NewCurrencyPair ''BTC'' ''USD''"

definition keeper0 :: oracle_keeper where
  "keeper0 = \<lparr>ok_authority = ''gov'', ok_mmKeeper = None\<rparr>"

definition genesis0 :: oracle_genesis where
  "genesis0 = \<lparr>og_currency_pair_genesis =
     [\<lparr>cg_currency_pair = btc_usd, cg_currency_pair_price = None, cg_nonce = 0, cg_id = 0\<rparr>],
     og_next_id = 1\<rparr>"

definition store0 :: oracle_store where
  "store0 = \<lparr>os_currency_pairs = [(''BTC/USD'', NewCurrencyPairState 0 0 None)],
     os_id_unique = [(0, ''BTC/USD'')], os_id_multi = [((0, ''BTC/USD''), ())],
     os_next_id = 1, os_num_removes = Some 0, os_num_cps = Some 1\<rparr>"

lemma btc_usd_valid: "ValidateBasic btc_usd = Inr ()" "slash_free btc_usd"
  "CurrencyPair_String btc_usd = ''BTC/USD''"
  by code_simp+

lemma init_store0: "InitGenesis genesis0 empty_oracle_store = (Inr (), store0)"
proof -
  have "GenesisState_Validate genesis0 = Inr ()"
    by (simp add: GenesisState_Validate_def genesis0_def CurrencyPairGenesis_ValidateBasic_def
        btc_usd_valid)
  then show ?thesis
    by (simp add: InitGenesis_def comp_simps bindC_def mapErrC_def genesis0_def btc_usd_valid
        pairs_Set_def unindex_def empty_oracle_store_def kv_get_def store0_def NewCurrencyPairState_def)
qed

lemma store0_reachable: "oracle_reachable keeper0 store0"
  by (rule oracle_reachable.genesis [OF init_store0])

section \<open>Ids\<close>

text \<open>
  \<open>new_pairs s t\<close> counts the pairs tracked in \<open>t\<close> and not in \<open>s\<close>; \<open>oracle_run k s j t\<close> is a run
  of committed steps from \<open>s\<close> to \<open>t\<close> whose steps started to track \<open>j\<close> pairs in all, a pair that
  was removed and tracked again included each time. \<open>hands_out j s t\<close>: the sequence went forward
  by \<open>j\<close>, and a pair of \<open>t\<close> has the id it had in \<open>s\<close> or one of the \<open>j\<close> values handed out since.
\<close>

definition new_pairs :: "oracle_store \<Rightarrow> oracle_store \<Rightarrow> nat" where
  "new_pairs s t = card (dom (pair_of t) - dom (pair_of s))"

inductive oracle_run :: "oracle_keeper \<Rightarrow> oracle_store \<Rightarrow> nat \<Rightarrow> oracle_store \<Rightarrow> bool" for k where
  here: "oracle_run k s 0 s"
| more: "oracle_run k s j t \<Longrightarrow> oracle_step k t u \<Longrightarrow> oracle_run k s (j + new_pairs t u) u"

definition hands_out :: "nat \<Rightarrow> oracle_store \<Rightarrow> oracle_store \<Rightarrow> bool" where
  "hands_out j s t \<longleftrightarrow> index_inv t \<and> (os_num_cps t = None \<longleftrightarrow> os_num_cps s = None) \<and>
     os_next_id t = os_next_id s + of_nat j \<and>
     (\<forall>l v. pair_of t l = Some v \<longrightarrow>
        (\<exists>w. pair_of s l = Some w \<and> cs_id w = cs_id v) \<or>
        (\<exists>i < j. cs_id v = os_next_id s + of_nat i))"

lemma hands_outD: "hands_out j s t \<Longrightarrow> pair_of t l = Some v \<Longrightarrow>
    (\<exists>w. pair_of s l = Some w \<and> cs_id w = cs_id v) \<or> (\<exists>i < j. cs_id v = os_next_id s + of_nat i)"
  by (simp add: hands_out_def)

lemma new_pairs_sub: "dom (pair_of t) \<subseteq> dom (pair_of s) \<Longrightarrow> new_pairs s t = 0"
  unfolding new_pairs_def by (metis Diff_eq_empty_iff card.empty)

lemma hands_out_refl: "index_inv s \<Longrightarrow> hands_out 0 s s"
  by (simp add: hands_out_def)

lemma hands_out_trans: "hands_out i s t \<Longrightarrow> hands_out j t u \<Longrightarrow> hands_out (i + j) s u"
proof -
  assume st: "hands_out i s t" and tu: "hands_out j t u"
  have "(\<exists>w. pair_of s l = Some w \<and> cs_id w = cs_id v) \<or> (\<exists>m < i + j. cs_id v = os_next_id s + of_nat m)"
    if at: "pair_of u l = Some v" for l v
  proof -
    consider w where "pair_of t l = Some w" "cs_id w = cs_id v"
      | m where "m < j" "cs_id v = os_next_id t + of_nat m"
      using hands_outD [OF tu at] by blast
    then show ?thesis
    proof cases
      case 1
      show ?thesis
        using hands_outD [OF st 1(1)] unfolding 1(2) by (meson trans_less_add1)
    next
      case 2
      then have "i + m < i + j" "cs_id v = os_next_id s + of_nat (i + m)"
        using st by (simp_all add: hands_out_def)
      then show ?thesis by blast
    qed
  qed
  with st tu show "hands_out (i + j) s u" by (simp add: hands_out_def)
qed

lemma hands_out_new:
  assumes "index_inv t" "os_next_id t = os_next_id s + 1" "os_num_cps t = None \<longleftrightarrow> os_num_cps s = None"
    "pair_of s key = None" "cs_id v = os_next_id s"
    "\<And>l. pair_of t l = (if l = key then Some v else pair_of s l)"
  shows "hands_out (new_pairs s t) s t \<and> new_pairs s t = 1"
proof -
  have "dom (pair_of t) - dom (pair_of s) = {key}"
    using assms(4,6) by (auto split: if_splits)
  then have one: "new_pairs s t = 1" by (simp add: new_pairs_def)
  then show ?thesis
    using assms by (auto simp: hands_out_def)
qed

lemma hands_out_same:
  assumes "index_inv t" "os_next_id t = os_next_id s" "os_num_cps t = None \<longleftrightarrow> os_num_cps s = None"
    "\<And>l v. pair_of t l = Some v \<Longrightarrow> \<exists>w. pair_of s l = Some w \<and> cs_id w = cs_id v"
  shows "hands_out (new_pairs s t) s t"
proof -
  have "dom (pair_of t) \<subseteq> dom (pair_of s)" using assms(4) by fastforce
  then have "new_pairs s t = 0" by (rule new_pairs_sub)
  then show ?thesis using assms by (simp add: hands_out_def)
qed

lemma create_hands_out:
  assumes "CreateCurrencyPair cp s = (Inr (), t)" "index_inv s"
  shows "hands_out (new_pairs s t) s t"
  using hands_out_new [of t s "CurrencyPair_String cp" "NewCurrencyPairState (os_next_id s) 0 None"]
    create_result(1-4) [OF assms] create_result(6) [OF assms]
  by (auto simp: HasCurrencyPair_def NewCurrencyPairState_def)

lemma remove_hands_out:
  assumes "RemoveCurrencyPair cp s = (Inr (), t)" "index_inv s"
  shows "hands_out (new_pairs s t) s t"
  using remove_result(2-4) [OF assms] remove_result(6) [OF assms]
  by (intro hands_out_same) (auto split: if_splits)

lemma set_price_hands_out:
  assumes set: "SetPriceForCurrencyPair cp qp s = (Inr (), t)" and inv: "index_inv s"
  shows "hands_out (new_pairs s t) s t"
proof (cases "pair_of s (CurrencyPair_String cp)")
  case None
  let ?v = "NewCurrencyPairState (os_next_id s) 0 (Some qp)" and ?s = "s\<lparr>os_next_id := os_next_id s + 1\<rparr>"
  have inv': "index_inv ?s" using inv by simp
  have t: "pairs_Set (CurrencyPair_String cp) ?v ?s = (Inr (), t)"
    using set None by (simp add: SetPriceForCurrencyPair_def pairs_Get_def bindC_def nextID_Next_def)
  have "pair_of t l = (if l = CurrencyPair_String cp then Some ?v else pair_of s l)" for l
    using pairs_Set_pair_of [OF inv' t, of l] by simp
  then have "hands_out (new_pairs s t) s t \<and> new_pairs s t = 1"
    using None pairs_Set_fields [OF t] pairs_Set_index [OF inv' t]
    by (intro hands_out_new) (simp_all add: NewCurrencyPairState_def)
  then show ?thesis by blast
next
  case (Some v)
  then have t: "pairs_Set (CurrencyPair_String cp) (v\<lparr>cs_nonce := cs_nonce v + 1, cs_price := Some qp\<rparr>) s =
      (Inr (), t)"
    using set by (simp add: SetPriceForCurrencyPair_def pairs_Get_def)
  show ?thesis
    using Some pairs_Set_fields [OF t] pairs_Set_index [OF inv t] pairs_Set_pair_of [OF inv t]
    by (intro hands_out_same) (auto split: if_splits)
qed

text \<open>A loop of operations, each of which hands out one id for each pair it tracks and keeps
  every pair, or tracks none, does so as a whole.\<close>

lemma new_pairs_trans:
  assumes "dom (pair_of s) \<subseteq> dom (pair_of t)" "dom (pair_of t) \<subseteq> dom (pair_of u)"
  shows "new_pairs s u = new_pairs s t + new_pairs t u"
proof -
  have "finite (dom (pair_of u))"
    unfolding kv_get_def by (rule finite_dom_map_of)
  then have "card ((dom (pair_of t) - dom (pair_of s)) \<union> (dom (pair_of u) - dom (pair_of t))) =
      card (dom (pair_of t) - dom (pair_of s)) + card (dom (pair_of u) - dom (pair_of t))"
    using assms by (intro card_Un_disjoint) (auto intro: finite_subset)
  moreover have "(dom (pair_of t) - dom (pair_of s)) \<union> (dom (pair_of u) - dom (pair_of t)) =
      dom (pair_of u) - dom (pair_of s)"
    using assms by blast
  ultimately show ?thesis by (simp add: new_pairs_def)
qed

lemma hands_out_index: "hands_out j s t \<Longrightarrow> index_inv t"
  by (simp add: hands_out_def)

lemma add_hands_out:
  assumes "AddCurrencyPairs k req s = (Inr (), t)" "index_inv s"
  shows "hands_out (new_pairs s t) s t"
proof -
  let ?f = "\<lambda>cp s. if \<not> HasCurrencyPair cp s
      then mapErrC (Wrapf ''error creating currency pair state'') (CreateCurrencyPair cp) s
      else (Inr (), s)"
  have "hands_out (new_pairs s t) s t \<and> dom (pair_of s) \<subseteq> dom (pair_of t)"
    if "forC cps ?f s = (Inr (), t)" "index_inv s" for cps s
    using that
  proof (induction cps arbitrary: s)
    case Nil
    then show ?case by (simp add: hands_out_refl new_pairs_def returnC_def)
  next
    case (Cons cp cps)
    then obtain u where u: "?f cp s = (Inr (), u)" and rest: "forC cps ?f u = (Inr (), t)"
      by (auto simp: comp_Inr)
    have step: "hands_out (new_pairs s u) s u \<and> dom (pair_of s) \<subseteq> dom (pair_of u)"
    proof (cases "HasCurrencyPair cp s")
      case True
      with u \<open>index_inv s\<close> show ?thesis by (simp add: hands_out_refl new_pairs_def)
    next
      case False
      then have c: "CreateCurrencyPair cp s = (Inr (), u)" using u by (simp add: comp_Inr)
      show ?thesis
        using create_hands_out [OF c \<open>index_inv s\<close>] create_result(6) [OF c \<open>index_inv s\<close>]
        by (auto split: if_splits)
    qed
    with Cons.IH [OF rest] have more: "hands_out (new_pairs u t) u t" "dom (pair_of u) \<subseteq> dom (pair_of t)"
      using hands_out_index by blast+
    then show ?case
      using step hands_out_trans [of "new_pairs s u" s u "new_pairs u t" t] new_pairs_trans [of s u t]
      by (metis subset_trans)
  qed
  with assms show ?thesis
    by (auto simp: AddCurrencyPairs_def throwC_def split: option.splits if_splits)
qed

lemma remove_msg_hands_out:
  assumes "RemoveCurrencyPairs k req s = (Inr (), t)" "index_inv s"
  shows "hands_out (new_pairs s t) s t"
proof -
  let ?f = "\<lambda>x. bindC (mapErrC (Wrapf ''error retrieving CurrencyPair from request'')
      (liftC (CurrencyPairFromString x)))
    (\<lambda>cp. mapErrC (Wrapf ''error removing currency pair from state'') (RemoveCurrencyPair cp))"
  have "hands_out 0 s t \<and> dom (pair_of t) \<subseteq> dom (pair_of s)"
    if "forC xs ?f s = (Inr (), t)" "index_inv s" for xs s
    using that
  proof (induction xs arbitrary: s)
    case Nil
    then show ?case by (simp add: hands_out_refl returnC_def)
  next
    case (Cons x xs)
    then obtain cp u where u: "RemoveCurrencyPair cp s = (Inr (), u)" and rest: "forC xs ?f u = (Inr (), t)"
      by (auto simp: comp_Inr)
    have sub: "dom (pair_of u) \<subseteq> dom (pair_of s)"
      using remove_result(6) [OF u \<open>index_inv s\<close>] by (auto split: if_splits)
    then have "new_pairs s u = 0" by (rule new_pairs_sub)
    then have "hands_out 0 s u" using remove_hands_out [OF u \<open>index_inv s\<close>] by simp
    then show ?case
      using Cons.IH [OF rest] sub hands_out_trans [of 0 s u 0 t] hands_out_index
      by (metis add_0 subset_trans)
  qed
  then show ?thesis
    using assms new_pairs_sub by (fastforce simp: RemoveCurrencyPairs_def throwC_def split: option.splits if_splits)
qed

lemma step_hands_out: "oracle_step k s t \<Longrightarrow> index_inv s \<Longrightarrow> hands_out (new_pairs s t) s t"
proof (induction rule: oracle_step.induct)
  case (begin_block s t)
  then show ?case
    by (intro hands_out_same) (auto simp: BeginBlocker_def comp_simps)
qed (simp_all add: add_hands_out remove_msg_hands_out set_price_hands_out create_hands_out
    oracle_AfterMarketCreated_def)

lemma run_hands_out: "oracle_run k s j t \<Longrightarrow> index_inv s \<Longrightarrow> hands_out j s t"
proof (induction rule: oracle_run.induct)
  case (more s j t u)
  then show ?case
    using hands_out_trans [of j s t "new_pairs t u" u] step_hands_out hands_out_index by blast
qed (rule hands_out_refl)

lemma run_inv: "oracle_run k s j t \<Longrightarrow> oracle_inv s \<Longrightarrow> oracle_inv t"
  by (induction rule: oracle_run.induct) (auto intro: oracle_step_inv)

lemma InitGenesis_ids:
  assumes "InitGenesis gs empty_oracle_store = (Inr (), s)"
  shows "oracle_inv s" "ids_below s" "os_num_cps s \<noteq> None" "os_next_id s = og_next_id gs"
proof -
  let ?loop = "forC (og_currency_pair_genesis gs) (\<lambda>cpg. mapErrC to_panic
    (pairs_Set (CurrencyPair_String (cg_currency_pair cpg))
      (NewCurrencyPairState (cg_id cpg) (cg_nonce cpg) (cg_currency_pair_price cpg))))"
  let ?I = "\<lambda>s. index_inv s \<and> (\<forall>l v. pair_of s l = Some v \<longrightarrow> cs_id v < og_next_id gs)"
  obtain u where ok: "is_ok (GenesisState_Validate gs)" and u: "?loop empty_oracle_store = (Inr (), u)"
    and t: "s = u\<lparr>os_next_id := og_next_id gs,
      os_num_cps := Some (of_nat (length (og_currency_pair_genesis gs))), os_num_removes := Some 0\<rparr>"
    using assms by (auto simp: InitGenesis_def comp_Inr unit_res_ok)
  have "keeps_ok ?I (pairs_Set key v)" if "cs_id v < og_next_id gs" for key v
    using that pairs_Set_index pairs_Set_pair_of by (intro keeps_okI) (auto split: if_splits)
  then have "keeps_ok ?I ?loop"
    using ok by (intro keeps_ok_forC keeps_ok_mapErrC)
      (auto simp: GenesisState_Validate_def validate_geneses_iff NewCurrencyPairState_def)
  moreover have "?I empty_oracle_store"
    using oracle_inv_empty by (simp add: oracle_inv_def empty_oracle_store_def kv_get_def)
  ultimately have "?I u" using u by (auto dest: keeps_okD)
  then show "oracle_inv s" "ids_below s" "os_num_cps s \<noteq> None" "os_next_id s = og_next_id gs"
    using InitGenesis_inv [OF assms oracle_inv_empty] by (simp_all add: t ids_below_def)
qed

lemma word_offset:
  fixes n :: u64
  assumes "unat n + m < 2 ^ 64"
  shows "unat (n + of_nat m) = unat n + m"
proof -
  have m: "unat (of_nat m :: u64) = m" using assms by (simp add: unat_of_nat)
  then show ?thesis using assms by (subst unat_add_lem [THEN iffD1]) simp_all
qed

lemma hands_out_below:
  assumes "hands_out j s t" "ids_below s" "unat (os_next_id s) + j < 2 ^ 64"
  shows "ids_below t"
  unfolding ids_below_def
proof (intro allI impI)
  fix l v assume v: "pair_of t l = Some v"
  have up: "os_next_id t = os_next_id s + of_nat j" using assms(1) by (simp add: hands_out_def)
  have t: "unat (os_next_id t) = unat (os_next_id s) + j"
    by (simp only: up word_offset [OF assms(3)])
  consider w where "pair_of s l = Some w" "cs_id w = cs_id v"
    | i where "i < j" "cs_id v = os_next_id s + of_nat i"
    using hands_outD [OF assms(1) v] by blast
  then show "cs_id v < os_next_id t"
  proof cases
    case 1
    then have "cs_id v < os_next_id s" using assms(2) by (fastforce simp: ids_below_def)
    then show ?thesis using t by (simp add: word_less_nat_alt)
  next
    case 2
    then have "unat (cs_id v) = unat (os_next_id s) + i" using assms(3) by (simp add: word_offset)
    then show ?thesis using t 2 by (simp add: word_less_nat_alt)
  qed
qed

lemma hands_out_kept:
  assumes "hands_out j s t" "unat (os_next_id s) + j < 2 ^ 64"
    "pair_of t l = Some v" "cs_id v < os_next_id s"
  shows "\<exists>w. pair_of s l = Some w \<and> cs_id w = cs_id v"
proof (rule ccontr)
  assume "\<not> ?thesis"
  then obtain i where i: "i < j" "cs_id v = os_next_id s + of_nat i"
    using hands_outD [OF assms(1,3)] by blast
  then have "unat (cs_id v) = unat (os_next_id s) + i" using assms(2) by (simp add: word_offset)
  with assms(4) show False by (simp add: word_less_nat_alt)
qed

text \<open>(C19) The ids the keeper gives to its pairs. From genesis, as long as fewer than
  \<open>2 ^ 64\<close> ids have been used, after any run of committed steps, whatever was added, priced and
  removed: the next id is the one of genesis plus the number of times a pair started to be
  tracked; every id in use is below it; both indexes agree with the pairs and no two pairs share an
  id; a pair that has an id handed out before a point \<open>s\<close> of the run had that id at \<open>s\<close>, so that
  the id of a removed pair is never given to another one; and creating a pair that is not tracked
  succeeds and gives it exactly the next id.\<close>

theorem reachable_store_inv:
  assumes "InitGenesis gs empty_oracle_store = (Inr (), g)"
    and "oracle_run k g i s" "oracle_run k s j t" "unat (og_next_id gs) + i + j < 2 ^ 64"
  shows "os_next_id t = og_next_id gs + of_nat (i + j) \<and> ids_below t \<and> oracle_inv t \<and>
    (\<forall>cp cq n. GetIDForCurrencyPair cp t = Some n \<and> GetIDForCurrencyPair cq t = Some n \<longrightarrow>
       CurrencyPair_String cp = CurrencyPair_String cq) \<and>
    (\<forall>cp n. GetIDForCurrencyPair cp t = Some n \<and> n < os_next_id s \<longrightarrow>
       GetIDForCurrencyPair cp s = Some n) \<and>
    (\<forall>cp. \<not> HasCurrencyPair cp t \<longrightarrow>
       (\<exists>u. CreateCurrencyPair cp t = (Inr (), u) \<and>
          GetIDForCurrencyPair cp u = Some (os_next_id t)))"
proof -
  note g = InitGenesis_ids [OF assms(1)]
  have inv: "oracle_inv s" "oracle_inv t"
    using run_inv [OF assms(2) g(1)] run_inv [OF assms(3)] by blast+
  have idx: "index_inv g" "index_inv s" "index_inv t" using g(1) inv by (simp_all add: oracle_inv_def)
  have gs: "hands_out i g s" and st: "hands_out j s t" and gt: "hands_out (i + j) g t"
    using run_hands_out [OF assms(2) idx(1)] run_hands_out [OF assms(3) idx(2)] hands_out_trans by blast+
  have next_s: "unat (os_next_id s) + j < 2 ^ 64"
    using gs assms(4) word_offset [of "og_next_id gs" i] by (simp add: hands_out_def g(4))
  have below: "ids_below t" using hands_out_below [OF gt g(2)] assms(4) by (simp add: g(4))
  have "\<exists>u. CreateCurrencyPair cp t = (Inr (), u) \<and> GetIDForCurrencyPair cp u = Some (os_next_id t)"
    if new: "\<not> HasCurrencyPair cp t" for cp
  proof -
    obtain n where "os_num_cps t = Some n" using gt g(3) by (auto simp: hands_out_def)
    then show ?thesis
      by (rule create_untracked [OF idx(3) below new]) (auto simp: GetID_iff NewCurrencyPairState_def)
  qed
  moreover have "GetIDForCurrencyPair cp s = Some n"
    if "GetIDForCurrencyPair cp t = Some n" "n < os_next_id s" for cp n
    using that hands_out_kept [OF st next_s] by (auto simp: GetID_iff)
  moreover have "CurrencyPair_String cp = CurrencyPair_String cq"
    if "GetIDForCurrencyPair cp t = Some n" "GetIDForCurrencyPair cq t = Some n" for cp cq n
    using that ids_distinct [OF idx(3)] by (auto simp: GetID_iff)
  moreover have "os_next_id t = og_next_id gs + of_nat (i + j)" using gt by (simp add: hands_out_def g(4))
  ultimately show ?thesis using below inv(2) by blast
qed

text \<open>BTC/USD is removed and ETH/USD, then BTC/USD again, are added: they get the ids 1 and 2.\<close>

definition eth_usd :: currency_pair where "eth_usd = NewCurrencyPair ''ETH'' ''USD''"

definition store1 :: oracle_store where
  "store1 = empty_oracle_store\<lparr>os_next_id := 1, os_num_cps := Some 0, os_num_removes := Some 1\<rparr>"

definition store2 :: oracle_store where
  "store2 = \<lparr>os_currency_pairs = [(''BTC/USD'', NewCurrencyPairState 2 0 None),
       (''ETH/USD'', NewCurrencyPairState 1 0 None)],
     os_id_unique = [(1, ''ETH/USD''), (2, ''BTC/USD'')],
     os_id_multi = [((1, ''ETH/USD''), ()), ((2, ''BTC/USD''), ())],
     os_next_id = 3, os_num_removes = Some 1, os_num_cps = Some 2\<rparr>"

lemma no_pairs: "kv_get [] = (\<lambda>_. None)"
  by (rule ext) (simp add: kv_get_def)

lemma example_run:
  "oracle_run keeper0 store0 0 store1" "oracle_run keeper0 store1 2 store2"
proof -
  let ?rm = "\<lparr>rp_authority = ''gov'', rp_currency_pair_ids = [''BTC/USD'']\<rparr>"
  let ?add = "\<lparr>ap_authority = ''gov'', ap_currency_pairs = [eth_usd, btc_usd]\<rparr>"
  have "RemoveCurrencyPairs keeper0 (Some ?rm) store0 = (Inr (), store1)"
    by (simp add: RemoveCurrencyPairs_def keeper0_def del: forC.simps) code_simp
  then have "oracle_run keeper0 store0 (0 + new_pairs store0 store1) store1"
    by (intro oracle_run.more oracle_run.here oracle_step.remove)
  moreover have "new_pairs store0 store1 = 0"
    by (simp add: new_pairs_def store1_def empty_oracle_store_def no_pairs)
  ultimately show "oracle_run keeper0 store0 0 store1" by simp
  have "AddCurrencyPairs keeper0 (Some ?add) store1 = (Inr (), store2)"
    by (simp add: AddCurrencyPairs_def keeper0_def del: forC.simps) code_simp
  then have "oracle_run keeper0 store1 (0 + new_pairs store1 store2) store2"
    by (intro oracle_run.more oracle_run.here oracle_step.add)
  moreover have "dom (pair_of store2) = {''BTC/USD'', ''ETH/USD''}"
    by (auto simp: store2_def kv_get_def split: if_splits)
  then have "new_pairs store1 store2 = 2"
    by (simp add: new_pairs_def store1_def empty_oracle_store_def no_pairs)
  ultimately show "oracle_run keeper0 store1 2 store2" by (metis add_0)
qed

theorem reachable_store_inv_witness:
  "GetIDForCurrencyPair btc_usd store1 = None \<and> GetIDForCurrencyPair btc_usd store2 = Some 2 \<and>
   GetIDForCurrencyPair eth_usd store2 = Some 1 \<and> os_next_id store2 = 1 + 2 \<and>
   (\<exists>u. CreateCurrencyPair (NewCurrencyPair ''SOL'' ''USD'') store2 = (Inr (), u) \<and>
      GetIDForCurrencyPair (NewCurrencyPair ''SOL'' ''USD'') u = Some 3)"
proof -
  have "\<not> HasCurrencyPair (NewCurrencyPair ''SOL'' ''USD'') store2"
    "GetIDForCurrencyPair btc_usd store1 = None" "GetIDForCurrencyPair btc_usd store2 = Some 2"
    "GetIDForCurrencyPair eth_usd store2 = Some 1" "os_next_id store2 = 3"
    by code_simp+
  moreover have "unat (og_next_id genesis0) + 0 + 2 < 2 ^ 64" by (simp add: genesis0_def)
  ultimately show ?thesis
    using reachable_store_inv [OF init_store0 example_run] by simp
qed

text \<open>\<open>GetCurrencyPairFromID\<close> inverts \<open>GetIDForCurrencyPair\<close> on valid pairs without a slash,
  and where every key of the store is canonical the two lookups are inverse to each other.\<close>

theorem id_roundtrip:
  assumes "oracle_reachable k s" "ValidateBasic cp = Inr ()" "slash_free cp"
  shows "(GetIDForCurrencyPair cp s = Some i \<longrightarrow> GetCurrencyPairFromID i s = Some cp) \<and>
    (keys_canonical s \<longrightarrow>
       (GetCurrencyPairFromID i s = Some cp \<longleftrightarrow> GetIDForCurrencyPair cp s = Some i))"
proof -
  note inv = reachable_index [OF assms(1)]
  have canon: "CurrencyPairFromString (CurrencyPair_String cp) = Inr cp"
    using assms(2,3) by (rule String_FromString_aux)
  have fwd: "GetIDForCurrencyPair cp s = Some i \<longrightarrow> GetCurrencyPairFromID i s = Some cp"
    using canon by (auto simp: GetID_iff from_id_iff [OF inv])
  have "GetIDForCurrencyPair cp s = Some i"
    if "keys_canonical s" "GetCurrencyPairFromID i s = Some cp"
  proof -
    obtain l v where l: "pair_of s l = Some v" "cs_id v = i" "CurrencyPairFromString l = Inr cp"
      using \<open>GetCurrencyPairFromID i s = Some cp\<close> by (auto simp: from_id_iff [OF inv])
    then have "canonical_key l"
      using \<open>keys_canonical s\<close> by (simp add: keys_canonical_def)
    then have "CurrencyPair_String cp = l"
      using l(3) by (auto simp: canonical_key_def)
    with l show ?thesis by (simp add: GetID_iff)
  qed
  with fwd show ?thesis by blast
qed

theorem id_roundtrip_witness:
  "GetIDForCurrencyPair btc_usd store0 = Some 0 \<and> GetCurrencyPairFromID 0 store0 = Some btc_usd"
proof -
  have id0: "GetIDForCurrencyPair btc_usd store0 = Some 0"
    by (simp add: GetID_iff store0_def btc_usd_valid kv_get_def NewCurrencyPairState_def)
  then show ?thesis
    using id_roundtrip [OF store0_reachable btc_usd_valid(1,2), of 0] by blast
qed

section \<open>Prices and nonces\<close>

text \<open>Writing a price: a tracked pair keeps its id, its nonce goes up by one and the price is
  what \<open>GetPriceForCurrencyPair\<close> then returns; an untracked pair is created under the next id
  with nonce 0; every other pair and the counter of tracked pairs are left as they were.\<close>

theorem set_price_spec:
  assumes "oracle_inv s" "ids_below s"
  shows "\<exists>t. SetPriceForCurrencyPair cp qp s = (Inr (), t) \<and>
     GetPriceForCurrencyPair cp t = Inr qp \<and>
     GetNonceForCurrencyPair cp t =
       (case GetNonceForCurrencyPair cp s of Inr n \<Rightarrow> Inr (n + 1) | Inl _ \<Rightarrow> Inr 0) \<and>
     GetIDForCurrencyPair cp t =
       (case GetIDForCurrencyPair cp s of Some i \<Rightarrow> Some i | None \<Rightarrow> Some (os_next_id s)) \<and>
     (\<forall>k. k \<noteq> CurrencyPair_String cp \<longrightarrow> pair_of t k = pair_of s k) \<and>
     GetNumCurrencyPairs t = GetNumCurrencyPairs s"
proof -
  have inv: "index_inv s" using assms(1) by (simp add: oracle_inv_def)
  note reads = GetPrice_eq GetNonceForCurrencyPair_def GetIDForCurrencyPair_def pairs_Get_def
    GetNumCurrencyPairs_def NewCurrencyPairState_def
  show ?thesis
  proof (cases "pair_of s (CurrencyPair_String cp)")
    case None
    then show ?thesis
      by (rule set_price_untracked [OF inv assms(2), of cp qp]) (rule exI, rule conjI, assumption, simp add: reads None)
  next
    case (Some v)
    then show ?thesis
      by (rule set_price_tracked [OF inv, of cp v qp]) (rule exI, rule conjI, assumption, simp add: reads Some)
  qed
qed

lemma store0_below: "ids_below store0"
  by (simp add: ids_below_def store0_def kv_get_def NewCurrencyPairState_def)

definition price0 :: quote_price where
  "price0 = \<lparr>qp_price = 100, qp_block_timestamp = 5, qp_block_height = 3\<rparr>"

theorem set_price_spec_witness:
  "\<exists>t. SetPriceForCurrencyPair btc_usd price0 store0 = (Inr (), t) \<and>
     GetPriceForCurrencyPair btc_usd t = Inr price0 \<and> GetNonceForCurrencyPair btc_usd t = Inr 1"
proof -
  have "GetNonceForCurrencyPair btc_usd store0 = Inr 0"
    by (simp add: GetNonceForCurrencyPair_def pairs_Get_def btc_usd_valid store0_def kv_get_def
        NewCurrencyPairState_def)
  then show ?thesis
    using set_price_spec [OF reachable_inv [OF store0_reachable] store0_below, of btc_usd price0]
    by fastforce
qed

section \<open>The counter of tracked pairs\<close>

lemma create_count: "CreateCurrencyPair cp s = (Inr (), t) \<Longrightarrow> index_inv s \<Longrightarrow> count_ok s \<Longrightarrow> count_ok t"
  using create_result(4,7) [of cp s t] by (auto simp: count_ok_def)

lemma remove_count:
  assumes "RemoveCurrencyPair cp s = (Inr (), t)" "index_inv s" "count_ok s"
  shows "count_ok t"
proof -
  have len: "length (os_currency_pairs s) = Suc (length (os_currency_pairs t))"
    using remove_result(7) [OF assms(1,2)] by simp
  then show ?thesis
    using remove_result(4) [OF assms(1,2)] assms(3) by (auto simp: count_ok_def)
qed

definition counted :: "oracle_store \<Rightarrow> bool" where
  "counted s \<longleftrightarrow> index_inv s \<and> count_ok s"

lemma create_counted: "keeps_ok counted (CreateCurrencyPair cp)"
  by (rule keeps_okI) (auto simp: counted_def intro: create_count dest: create_result(2))

lemma remove_counted: "keeps_ok counted (RemoveCurrencyPair cp)"
  by (rule keeps_okI) (auto simp: counted_def intro: remove_count dest: remove_result(2))

lemma add_counted: "keeps_ok counted (AddCurrencyPairs k req)"
proof -
  have "keeps_ok counted (\<lambda>s. if \<not> HasCurrencyPair cp s
      then mapErrC (Wrapf ''error creating currency pair state'') (CreateCurrencyPair cp) s
      else (Inr (), s))" for cp
    using keeps_ok_mapErrC [OF create_counted] by (auto simp: keeps_ok_def)
  then show ?thesis
    by (auto simp: AddCurrencyPairs_def keeps_imp_ok intro!: keeps_ok_forC split: option.split)
qed

lemma remove_msg_counted: "keeps_ok counted (RemoveCurrencyPairs k req)"
proof -
  have "keeps_ok counted (bindC (mapErrC w (liftC r)) (\<lambda>cp. mapErrC w' (RemoveCurrencyPair cp)))"
    for w w' and r :: "currency_pair res"
    by (intro keeps_ok_bindC keeps_ok_mapErrC remove_counted) (auto simp: keeps_ok_def liftC_def)
  moreover have "keeps_ok counted (throwC e)" for e
    by (simp add: keeps_ok_def throwC_def)
  ultimately show ?thesis
    by (auto simp: RemoveCurrencyPairs_def intro: keeps_ok_forC split: option.split)
qed

lemma set_price_tracked_counted:
  assumes "counted s" "HasCurrencyPair cp s" "SetPriceForCurrencyPair cp qp s = (Inr (), t)"
  shows "counted t"
proof -
  obtain v where v: "pair_of s (CurrencyPair_String cp) = Some v"
    using assms(2) by (auto simp: HasCurrencyPair_iff)
  have inv: "index_inv s" using assms(1) by (simp add: counted_def)
  have set: "pairs_Set (CurrencyPair_String cp) (v\<lparr>cs_nonce := cs_nonce v + 1, cs_price := Some qp\<rparr>) s =
      (Inr (), t)"
    using assms(3) v by (simp add: SetPriceForCurrencyPair_def pairs_Get_def)
  show ?thesis
    using assms(1) v pairs_Set_fields [OF set] pairs_Set_index [OF inv set]
      kv.length_put [OF index_wf(1) [OF inv], of "CurrencyPair_String cp"]
    by (simp add: counted_def count_ok_def)
qed

text \<open>The counter of tracked pairs equals their number, modulo \<open>2 ^ 64\<close>, after every message
  and every price write to a tracked pair: genesis establishes it and they keep it.\<close>

theorem counter_counts:
  assumes "counted s"
  shows "(AddCurrencyPairs k req s = (Inr (), t) \<longrightarrow> counted t) \<and>
    (RemoveCurrencyPairs k rreq s = (Inr (), t) \<longrightarrow> counted t) \<and>
    (CreateCurrencyPair cp s = (Inr (), t) \<longrightarrow> counted t) \<and>
    (HasCurrencyPair cp s \<and> SetPriceForCurrencyPair cp qp s = (Inr (), t) \<longrightarrow> counted t)"
  using assms keeps_okD [OF add_counted] keeps_okD [OF remove_msg_counted] keeps_okD [OF create_counted]
    set_price_tracked_counted by blast

lemma store0_counted: "counted store0"
  using reachable_index [OF store0_reachable] by (simp add: counted_def count_ok_def store0_def)

theorem counter_counts_witness:
  "\<exists>t. CreateCurrencyPair (NewCurrencyPair ''ETH'' ''USD'') store0 = (Inr (), t) \<and> counted t"
proof -
  let ?eth = "NewCurrencyPair ''ETH'' ''USD''"
  have str: "CurrencyPair_String ?eth = ''ETH/USD''" by code_simp
  have "\<not> HasCurrencyPair ?eth store0"
    by (simp add: HasCurrencyPair_def str store0_def kv_get_def)
  then obtain t where t: "CreateCurrencyPair ?eth store0 = (Inr (), t)"
    using create_untracked [OF reachable_index [OF store0_reachable] store0_below, of ?eth 1]
    by (auto simp: store0_def)
  then show ?thesis
    using counter_counts [OF store0_counted, of keeper0 None t None ?eth price0] by blast
qed

text \<open>A price write to an untracked pair tracks it without counting it. From the empty genesis,
  writing one price and removing that pair again leaves the counter at \<open>2 ^ 64 - 1\<close>.\<close>

theorem uncounted_price_underflows:
  "\<exists>s0 s1 s2. InitGenesis DefaultGenesisState empty_oracle_store = (Inr (), s0) \<and>
     SetPriceForCurrencyPair btc_usd price0 s0 = (Inr (), s1) \<and>
     GetNumCurrencyPairs s1 = Inr 0 \<and> HasCurrencyPair btc_usd s1 \<and>
     RemoveCurrencyPair btc_usd s1 = (Inr (), s2) \<and>
     GetNumCurrencyPairs s2 = Inr (2 ^ 64 - 1)"
proof -
  let ?s0 = "empty_oracle_store\<lparr>os_num_cps := Some 0, os_num_removes := Some 0\<rparr>"
  let ?v = "NewCurrencyPairState 0 0 (Some price0)"
  let ?s1 = "?s0\<lparr>os_next_id := 1, os_currency_pairs := [(''BTC/USD'', ?v)],
    os_id_unique := [(0, ''BTC/USD'')], os_id_multi := [((0, ''BTC/USD''), ())]\<rparr>"
  have "InitGenesis DefaultGenesisState empty_oracle_store = (Inr (), ?s0)"
    by (simp add: InitGenesis_def DefaultGenesisState_def GenesisState_Validate_def bindC_def comp_simps
        mapErrC_def empty_oracle_store_def)
  moreover have "SetPriceForCurrencyPair btc_usd price0 ?s0 = (Inr (), ?s1)"
    by (simp add: SetPriceForCurrencyPair_def pairs_Get_def btc_usd_valid empty_oracle_store_def
        kv_get_def bindC_def nextID_Next_def pairs_Set_def unindex_def NewCurrencyPairState_def)
  moreover have "RemoveCurrencyPair btc_usd ?s1 = (Inr (), ?s0\<lparr>os_next_id := 1,
      os_num_removes := Some 1, os_num_cps := Some (2 ^ 64 - 1)\<rparr>)"
    by (simp add: RemoveCurrencyPair_def HasCurrencyPair_def btc_usd_valid kv_get_def bindC_def
        pairs_Remove_def unindex_def kv_del_def incrementRemovedCPCounter_def decrementCPCounter_def
        readC_def modifyC_def item_Get_def NewCurrencyPairState_def empty_oracle_store_def)
  ultimately show ?thesis
    by (intro exI [of _ ?s0] exI [of _ ?s1] exI [of _ "?s0\<lparr>os_next_id := 1,
          os_num_removes := Some 1, os_num_cps := Some (2 ^ 64 - 1)\<rparr>"])
       (simp add: GetNumCurrencyPairs_def item_Get_def HasCurrencyPair_def btc_usd_valid kv_get_def)
qed

section \<open>Messages\<close>

lemma forC_Inl:
  "fst (f x s) = Inl e \<Longrightarrow> fst (forC (x # xs) f s) = Inl e"
  by (cases "f x s") (simp add: bindC_def)

text \<open>\<open>RemoveCurrencyPairs\<close> does not skip a pair that is not tracked: the first such id of the
  message makes the handler fail.\<close>

theorem remove_untracked_fails:
  assumes "rp_authority m = ok_authority k" "ok_mmKeeper k = None"
    "rp_currency_pair_ids m = x # ids" "CurrencyPairFromString x = Inr cp" "\<not> HasCurrencyPair cp s"
  shows "RemoveCurrencyPairs k (Some m) s =
    (Inl (Wrapf ''error removing currency pair from state''
       (CurrencyPairNotExistError (CurrencyPair_String cp))), s)"
  using assms
  by (simp add: RemoveCurrencyPairs_def bindC_def mapErrC_def liftC_def remove_untracked)

theorem remove_untracked_fails_witness:
  "RemoveCurrencyPairs keeper0 (Some \<lparr>rp_authority = ''gov'', rp_currency_pair_ids = [''BTC/USD'']\<rparr>)
     empty_oracle_store =
   (Inl (Wrapf ''error removing currency pair from state'' (CurrencyPairNotExistError ''BTC/USD'')),
    empty_oracle_store)"
proof -
  have "CurrencyPairFromString ''BTC/USD'' = Inr btc_usd"
    using String_FromString_aux [OF btc_usd_valid(1,2)] by (simp add: btc_usd_valid)
  moreover have "\<not> HasCurrencyPair btc_usd empty_oracle_store"
    by (simp add: HasCurrencyPair_def empty_oracle_store_def kv_get_def)
  ultimately show ?thesis
    using remove_untracked_fails [of "\<lparr>rp_authority = ''gov'', rp_currency_pair_ids = [''BTC/USD'']\<rparr>"
        keeper0 "''BTC/USD''" "[]" btc_usd empty_oracle_store]
    by (simp add: keeper0_def btc_usd_valid)
qed

end
