(* ===== verification/Oracle_Genesis.thy ===== *)
theory Oracle_Genesis
  imports Oracle_Properties
begin

text \<open>
  Genesis of \<open>x/oracle\<close>: what \<open>ExportGenesis\<close> writes, that \<open>InitGenesis\<close> restores it, and what a pair
  with a slash in an asset, which the messages accept, does to iteration and to the export.
\<close>

section \<open>Export\<close>

text \<open>A store whose keys the parser reads back and whose ids the sequence has handed out.\<close>

definition exportable :: "oracle_store \<Rightarrow> bool" where
  "exportable s \<longleftrightarrow> oracle_inv s \<and> keys_canonical s \<and> ids_below s"

definition genesis_of :: "string \<times> cp_state \<Rightarrow> cp_genesis" where
  "genesis_of = (\<lambda>(k, v). \<lparr>cg_currency_pair = key_pair k, cg_currency_pair_price = cs_price v,
     cg_nonce = cs_nonce v, cg_id = cs_id v\<rparr>)"

lemma export_eq:
  "exportable s \<Longrightarrow> ExportGenesis s =
     Inr \<lparr>og_currency_pair_genesis = map genesis_of (os_currency_pairs s), og_next_id = os_next_id s\<rparr>"
  using fold_snoc [of "\<lambda>k v. genesis_of (k, v)" "os_currency_pairs s" "[]"]
  by (simp add: ExportGenesis_def Iterate_canonical exportable_def oracle_inv_def genesis_of_def
      case_prod_unfold)

lemma exportable_entry:
  assumes "exportable s" "(k, v) \<in> set (os_currency_pairs s)"
  shows "pair_of s k = Some v" "canonical_key k" "cs_id v < os_next_id s"
    "cs_price v = None \<Longrightarrow> cs_nonce v = 0"
  using assms kv.entries_iff [OF index_wf(1), of s k v] canonical_entries [of s k v]
  by (auto simp: exportable_def oracle_inv_def ids_below_def price_inv_def)

lemma distinct_entry_ids:
  assumes "index_inv s"
  shows "distinct (map (cs_id \<circ> snd) (os_currency_pairs s))"
proof -
  have d: "distinct (map fst (os_currency_pairs s))"
    by (rule kv.distinct_keys [OF index_wf(1) [OF assms]])
  have "inj_on (cs_id \<circ> snd) (set (os_currency_pairs s))"
  proof (rule inj_onI, clarsimp)
    fix k v l w
    assume kv: "(k, v) \<in> set (os_currency_pairs s)" "(l, w) \<in> set (os_currency_pairs s)"
      and id: "cs_id v = cs_id w"
    have v: "pair_of s k = Some v" and w: "pair_of s l = Some w"
      using kv kv.entries_iff [OF index_wf(1) [OF assms]] by auto
    have "k = l" by (rule ids_distinct [OF assms v w id])
    with v w show "k = l \<and> v = w" by simp
  qed
  then show ?thesis using d by (simp add: distinct_map)
qed

lemma export_valid:
  assumes "exportable s"
  shows "GenesisState_Validate
     \<lparr>og_currency_pair_genesis = map genesis_of (os_currency_pairs s), og_next_id = os_next_id s\<rparr> = Inr ()"
proof -
  have inv: "index_inv s" using assms by (simp add: exportable_def oracle_inv_def)
  have keys: "map (CurrencyPair_String \<circ> (cg_currency_pair \<circ> genesis_of)) (os_currency_pairs s) =
      map fst (os_currency_pairs s)"
    using exportable_entry(2) [OF assms] by (auto simp: genesis_of_def key_pair_canonical)
  have ids: "cg_id \<circ> genesis_of = cs_id \<circ> snd" by (auto simp: genesis_of_def)
  have "is_ok (ValidateBasic (key_pair k))" if "(k, v) \<in> set (os_currency_pairs s)" for k v
    using FromString_valid [OF key_pair_canonical(1)] exportable_entry(2) [OF assms that] by simp
  then show ?thesis
    using exportable_entry [OF assms] distinct_entry_ids [OF inv] kv.distinct_keys [OF index_wf(1) [OF inv]]
    by (auto simp: GenesisState_Validate_def unit_res_ok validate_geneses_iff genesis_entry_ok keys ids
        comp_assoc) (simp_all add: genesis_of_def)
qed

section \<open>Import\<close>

lemma load_pairs:
  assumes "index_inv s" "distinct (map fst es)" "distinct (map (cs_id \<circ> snd) es)"
    "\<And>k v. (k, v) \<in> set es \<Longrightarrow> pair_of s k = None \<and> (\<forall>l w. pair_of s l = Some w \<longrightarrow> cs_id w \<noteq> cs_id v)"
  shows "\<exists>t. forC es (\<lambda>(k, v). mapErrC to_panic (pairs_Set k v)) s = (Inr (), t) \<and> index_inv t \<and>
     os_currency_pairs t = fold (\<lambda>(k, v). kv_set k v) es (os_currency_pairs s) \<and>
     os_next_id t = os_next_id s \<and> os_num_cps t = os_num_cps s \<and> os_num_removes t = os_num_removes s"
  using assms
proof (induction es arbitrary: s)
  case Nil
  then show ?case by (simp add: comp_simps)
next
  case (Cons e es)
  obtain k v where e: "e = (k, v)" by (cases e)
  have "\<exists>t. pairs_Set k v s = (Inr (), t)"
    using Cons.prems(4) [of k v] by (intro pairs_Set_total [OF Cons.prems(1)]) (auto simp: e)
  then obtain u where u: "pairs_Set k v s = (Inr (), u)" by blast
  note fields = pairs_Set_fields [OF u]
  have uinv: "index_inv u" by (rule pairs_Set_index [OF Cons.prems(1) u])
  have upair: "pair_of u l = (if l = k then Some v else pair_of s l)" for l
    using index_wf(1) [OF Cons.prems(1)] by (simp add: fields)
  have fresh: "pair_of u l = None \<and> (\<forall>m w. pair_of u m = Some w \<longrightarrow> cs_id w \<noteq> cs_id x)"
    if "(l, x) \<in> set es" for l x
    using Cons.prems(2,3) Cons.prems(4) [of l x] that by (force simp: upair e image_iff)
  obtain t where "forC es (\<lambda>(k, v). mapErrC to_panic (pairs_Set k v)) u = (Inr (), t)" "index_inv t"
    "os_currency_pairs t = fold (\<lambda>(k, v). kv_set k v) es (os_currency_pairs u)"
    "os_next_id t = os_next_id u" "os_num_cps t = os_num_cps u" "os_num_removes t = os_num_removes u"
    using Cons.IH [OF uinv _ _ fresh] Cons.prems(2,3) by auto
  then show ?case
    by (intro exI [of _ t]) (simp add: e bindC_def mapErrC_def u fields)
qed

lemma forC_map: "forC (map g xs) f = forC xs (f \<circ> g)"
  by (induction xs) simp_all

lemma forC_cong: "(\<And>x. x \<in> set xs \<Longrightarrow> f x = g x) \<Longrightarrow> forC xs f = forC xs g"
  by (induction xs) simp_all

lemma same_indexes:
  assumes "index_inv s" "index_inv t" "os_currency_pairs s = os_currency_pairs t"
  shows "os_id_unique s = os_id_unique t" "os_id_multi s = os_id_multi t"
proof -
  show "os_id_unique s = os_id_unique t"
  proof (rule kv.ext_eq [OF index_wf(2) [OF assms(1)] index_wf(2) [OF assms(2)]])
    fix i
    have "kv_get (os_id_unique s) i = Some k \<longleftrightarrow> kv_get (os_id_unique t) i = Some k" for k
      by (simp add: index_unique assms)
    then show "kv_get (os_id_unique s) i = kv_get (os_id_unique t) i"
      by (metis option.exhaust)
  qed
  show "os_id_multi s = os_id_multi t"
  proof (rule kv.ext_eq [OF index_wf(3) [OF assms(1)] index_wf(3) [OF assms(2)]])
    fix ik :: "u64 \<times> string"
    obtain i k where ik: "ik = (i, k)" by (cases ik)
    have "kv_get (os_id_multi s) (i, k) = Some () \<longleftrightarrow> kv_get (os_id_multi t) (i, k) = Some ()"
      using assms by (simp add: index_inv_def)
    then show "kv_get (os_id_multi s) ik = kv_get (os_id_multi t) ik"
      unfolding ik by (metis (full_types) old.unit.exhaust option.exhaust)
  qed
qed

text \<open>(C35) A genesis round trip. For an exportable store (its indexes agree with the pairs, prices and nonces fit
  together, its keys parse back and its ids are below the next one), \<open>InitGenesis\<close> of what \<open>ExportGenesis\<close> wrote, on an empty store,
  restores the pairs with their prices, nonces and ids, both indexes and the next id; the counter of
  tracked pairs becomes their number and the removals of the block start at 0.\<close>

theorem genesis_roundtrip:
  assumes "exportable s"
  shows "\<exists>gs. ExportGenesis s = Inr gs \<and>
     InitGenesis gs empty_oracle_store =
       (Inr (), s\<lparr>os_num_cps := Some (of_nat (length (os_currency_pairs s))), os_num_removes := Some 0\<rparr>)"
proof -
  let ?es = "os_currency_pairs s"
  let ?gs = "\<lparr>og_currency_pair_genesis = map genesis_of ?es, og_next_id = os_next_id s\<rparr>"
  have inv: "index_inv s" using assms by (simp add: exportable_def oracle_inv_def)
  obtain t where t: "forC ?es (\<lambda>(k, v). mapErrC to_panic (pairs_Set k v)) empty_oracle_store = (Inr (), t)"
    "index_inv t" "os_currency_pairs t = fold (\<lambda>(k, v). kv_set k v) ?es (os_currency_pairs empty_oracle_store)"
    using load_pairs [of empty_oracle_store ?es] oracle_inv_empty distinct_entry_ids [OF inv]
      kv.distinct_keys [OF index_wf(1) [OF inv]]
    by (auto simp: oracle_inv_def empty_oracle_store_def kv_get_def)
  have pairs: "os_currency_pairs t = ?es"
    using t(3) kv.rebuild [OF index_wf(1) [OF inv]] by (simp add: empty_oracle_store_def)
  note same = same_indexes [OF t(2) inv pairs]
  let ?step = "\<lambda>cpg. mapErrC to_panic (pairs_Set (CurrencyPair_String (cg_currency_pair cpg))
      (NewCurrencyPairState (cg_id cpg) (cg_nonce cpg) (cg_currency_pair_price cpg)))"
  have "forC (map genesis_of ?es) ?step = forC ?es (\<lambda>(k, v). mapErrC to_panic (pairs_Set k v))"
    unfolding forC_map
    using exportable_entry(2) [OF assms]
    by (intro forC_cong)
       (auto simp: genesis_of_def key_pair_canonical NewCurrencyPairState_def cp_state.equality
         intro!: arg_cong [where f = "mapErrC to_panic"] arg_cong [where f = "pairs_Set _"])
  then have "InitGenesis ?gs empty_oracle_store =
      (Inr (), t\<lparr>os_next_id := os_next_id s, os_num_cps := Some (of_nat (length ?es)), os_num_removes := Some 0\<rparr>)"
    using t(1) export_valid [OF assms]
    by (simp add: InitGenesis_def bindC_def mapErrC_def comp_simps)
  moreover have "t\<lparr>os_next_id := os_next_id s, os_num_cps := Some (of_nat (length ?es)), os_num_removes := Some 0\<rparr> =
      s\<lparr>os_num_cps := Some (of_nat (length ?es)), os_num_removes := Some 0\<rparr>"
    using pairs same by (cases s; cases t) simp
  ultimately show ?thesis using export_eq [OF assms] by auto
qed

lemma store0_exportable: "exportable store0"
  using reachable_inv [OF store0_reachable] store0_below canonical_String [OF btc_usd_valid(1,2)]
  by (simp add: exportable_def keys_canonical_def btc_usd_valid) (simp add: store0_def kv_get_def)

theorem genesis_roundtrip_witness:
  "\<exists>gs. ExportGenesis store0 = Inr gs \<and> InitGenesis gs empty_oracle_store = (Inr (), store0)"
  using genesis_roundtrip [OF store0_exportable] by (simp add: store0_def)

section \<open>A slash in an asset\<close>

lemma fst_Inl_case: "\<exists>e. fst p = Inl e \<Longrightarrow> (\<And>e a. f (Inl e) a = x) \<Longrightarrow> (case p of (r, a) \<Rightarrow> f r a) = x"
  by (cases p) auto

lemma iterate_collects_parsed:
  "c \<in> set (snd (iterate_pairs (\<lambda>cp _ cps. cps @ [cp]) es acc)) \<Longrightarrow> c \<in> set acc \<or> slash_free c"
proof (induction es arbitrary: acc)
  case (Cons e es)
  obtain k v where e: "e = (k, v)" by (cases e)
  show ?case
  proof (cases "CurrencyPairFromString k")
    case (Inr cp)
    then show ?thesis
      using Cons.IH [of "acc @ [cp]"] Cons.prems FromString_slash_free [OF Inr] by (auto simp: e)
  qed (use Cons.prems in \<open>simp add: e\<close>)
qed simp

text \<open>\<open>ValidateBasic\<close> accepts a slash in an asset, and a valid pair with one is then tracked by
  \<open>AddCurrencyPairs\<close>. Its key does not parse, so from then on \<open>ExportGenesis\<close> panics, the mapping
  list query fails, and \<open>GetAllCurrencyPairs\<close> silently stops before it.\<close>

theorem slash_pair_breaks_iteration:
  assumes "ap_authority m = ok_authority k" "ok_mmKeeper k = None" "ap_currency_pairs m = [cp]"
    "\<not> slash_free cp" "oracle_inv s" "ids_below s" "os_num_cps s = Some n" "\<not> HasCurrencyPair cp s"
  shows "\<exists>t. AddCurrencyPairs k (Some m) s = (Inr (), t) \<and> HasCurrencyPair cp t \<and>
     ExportGenesis t = Inl (Panic ''error in genesis'') \<and>
     (\<exists>e. GetCurrencyPairMappingList t = Inl e) \<and> cp \<notin> set (GetAllCurrencyPairs t)"
proof -
  have inv: "index_inv s" using assms(5) by (simp add: oracle_inv_def)
  obtain t where t: "CreateCurrencyPair cp s = (Inr (), t)"
    using create_untracked [OF inv assms(6,8,7)] by blast
  note res = create_result [OF t inv]
  have has: "HasCurrencyPair cp t" using res by (simp add: HasCurrencyPair_iff)
  then obtain v where v: "pair_of t (CurrencyPair_String cp) = Some v"
    by (auto simp: HasCurrencyPair_iff)
  obtain e where e: "CurrencyPairFromString (CurrencyPair_String cp) = Inl e"
    using slash_not_canonical [OF assms(4)] by blast
  have stop: "\<exists>e'. fst (IterateCurrencyPairs cb t acc) = Inl e'"
    for cb :: "currency_pair \<Rightarrow> cp_state \<Rightarrow> 'b \<Rightarrow> 'b" and acc
    unfolding IterateCurrencyPairs_def
    using v kv.entries_iff [OF index_wf(1) [OF res(2)]] e by (intro iterate_pairs_stops) auto
  have "AddCurrencyPairs k (Some m) s = (Inr (), t)"
    using assms(1-3,8) t by (simp add: AddCurrencyPairs_def bindC_def mapErrC_def returnC_def)
  moreover have "ExportGenesis t = Inl (Panic ''error in genesis'')"
    unfolding ExportGenesis_def by (rule fst_Inl_case) (rule stop, simp add: to_panic_def)
  moreover have "\<exists>e. GetCurrencyPairMappingList t = Inl e"
    using stop [of "\<lambda>cp cps pairs. pairs @ [(cs_id cps, cp)]" "[]"]
    by (auto simp: GetCurrencyPairMappingList_def split: prod.split)
  moreover have "cp \<notin> set (GetAllCurrencyPairs t)"
    using iterate_collects_parsed [of _ "os_currency_pairs t" "[]"] assms(4)
    by (auto simp: GetAllCurrencyPairs_def IterateCurrencyPairs_def)
  ultimately show ?thesis using has by blast
qed

definition slash_pair :: currency_pair where "slash_pair = NewCurrencyPair ''A/B'' ''C''"

theorem slash_pair_breaks_iteration_witness:
  "ValidateBasic slash_pair = Inr () \<and>
   (\<exists>t. AddCurrencyPairs keeper0 (Some \<lparr>ap_authority = ''gov'', ap_currency_pairs = [slash_pair]\<rparr>) store0 =
      (Inr (), t) \<and> ExportGenesis t = Inl (Panic ''error in genesis''))"
proof
  show "ValidateBasic slash_pair = Inr ()" by code_simp
  have "\<not> slash_free slash_pair" by code_simp
  moreover have "CurrencyPair_String slash_pair = ''A/B/C''" by code_simp
  then have "\<not> HasCurrencyPair slash_pair store0"
    by (simp add: HasCurrencyPair_iff store0_def kv_get_def)
  ultimately show "\<exists>t. AddCurrencyPairs keeper0 (Some \<lparr>ap_authority = ''gov'', ap_currency_pairs = [slash_pair]\<rparr>) store0 =
      (Inr (), t) \<and> ExportGenesis t = Inl (Panic ''error in genesis'')"
    using slash_pair_breaks_iteration [of "\<lparr>ap_authority = ''gov'', ap_currency_pairs = [slash_pair]\<rparr>"
        keeper0 slash_pair store0 1] reachable_inv [OF store0_reachable] store0_below
    by (simp add: keeper0_def store0_def) blast
qed

end
