(* ===== verification/Marketmap_Keeper.thy ===== *)
theory Marketmap_Keeper
  imports Marketmap_Facts Oracle_Behaviour
begin

text \<open>
  \<open>x/marketmap/keeper\<close>: the store of the module, its keeper, the hooks other modules register and
  the validation hooks of a deletion, the message server, genesis and queries. The hooks write other
  modules' stores, so messages run on a chain state that holds both the store of \<open>x/marketmap\<close> and
  that of \<open>x/oracle\<close>. A keeper is the part of Go's \<open>Keeper\<close> that is not the store.
\<close>

section \<open>State\<close>

record mm_store =
  ms_markets :: "(string, market) kv"
  ms_last_updated :: "u64 option"
  ms_params :: "params option"

definition empty_mm_store :: mm_store where
  "empty_mm_store = \<lparr>ms_markets = [], ms_last_updated = None, ms_params = None\<rparr>"

record chain =
  ch_oracle :: oracle_store
  ch_mm :: mm_store

definition onOracle :: "(oracle_store, 'a) comp \<Rightarrow> (chain, 'a) comp" where
  "onOracle m c = (case m (ch_oracle c) of (r, s) \<Rightarrow> (r, c\<lparr>ch_oracle := s\<rparr>))"

definition onMM :: "(mm_store, 'a) comp \<Rightarrow> (chain, 'a) comp" where
  "onMM m c = (case m (ch_mm c) of (r, s) \<Rightarrow> (r, c\<lparr>ch_mm := s\<rparr>))"

section \<open>Hooks\<close>

text \<open>The implementations of \<open>MarketMapHooks\<close> in the repository; \<open>Hooks\<close> is that of \<open>x/oracle\<close>.\<close>

datatype hooks = NoopMarketMapHooks | OracleHooks | MultiMarketMapHooks "hooks list"

fun hooks_AfterMarketCreated :: "hooks \<Rightarrow> market \<Rightarrow> (chain, unit) comp"
and multi_AfterMarketCreated :: "hooks list \<Rightarrow> market \<Rightarrow> (chain, unit) comp" where
  "hooks_AfterMarketCreated NoopMarketMapHooks m = returnC ()"
| "hooks_AfterMarketCreated OracleHooks m = onOracle (oracle_AfterMarketCreated m)"
| "hooks_AfterMarketCreated (MultiMarketMapHooks mh) m = multi_AfterMarketCreated mh m"
| "multi_AfterMarketCreated [] m = returnC ()"
| "multi_AfterMarketCreated (h # mh) m =
     bindC (hooks_AfterMarketCreated h m) (\<lambda>_. multi_AfterMarketCreated mh m)"

fun hooks_AfterMarketUpdated :: "hooks \<Rightarrow> market \<Rightarrow> (chain, unit) comp"
and multi_AfterMarketUpdated :: "hooks list \<Rightarrow> market \<Rightarrow> (chain, unit) comp" where
  "hooks_AfterMarketUpdated NoopMarketMapHooks m = returnC ()"
| "hooks_AfterMarketUpdated OracleHooks m = onOracle (oracle_AfterMarketUpdated m)"
| "hooks_AfterMarketUpdated (MultiMarketMapHooks mh) m = multi_AfterMarketUpdated mh m"
| "multi_AfterMarketUpdated [] m = returnC ()"
| "multi_AfterMarketUpdated (h # mh) m =
     bindC (hooks_AfterMarketUpdated h m) (\<lambda>_. multi_AfterMarketUpdated mh m)"

fun hooks_AfterMarketGenesis :: "hooks \<Rightarrow> market_map \<Rightarrow> (chain, unit) comp"
and multi_AfterMarketGenesis :: "hooks list \<Rightarrow> market_map \<Rightarrow> (chain, unit) comp" where
  "hooks_AfterMarketGenesis NoopMarketMapHooks mm = returnC ()"
| "hooks_AfterMarketGenesis OracleHooks mm = onOracle (oracle_AfterMarketGenesis mm)"
| "hooks_AfterMarketGenesis (MultiMarketMapHooks mh) mm = multi_AfterMarketGenesis mh mm"
| "multi_AfterMarketGenesis [] mm = returnC ()"
| "multi_AfterMarketGenesis (h # mh) mm =
     bindC (hooks_AfterMarketGenesis h mm) (\<lambda>_. multi_AfterMarketGenesis mh mm)"

fun hooks_AfterMarketRemoved :: "hooks \<Rightarrow> string \<Rightarrow> (chain, unit) comp"
and multi_AfterMarketRemoved :: "hooks list \<Rightarrow> string \<Rightarrow> (chain, unit) comp" where
  "hooks_AfterMarketRemoved NoopMarketMapHooks key = returnC ()"
| "hooks_AfterMarketRemoved OracleHooks key = onOracle (oracle_AfterMarketRemoved key)"
| "hooks_AfterMarketRemoved (MultiMarketMapHooks mh) key = multi_AfterMarketRemoved mh key"
| "multi_AfterMarketRemoved [] key = returnC ()"
| "multi_AfterMarketRemoved (h # mh) key =
     bindC (hooks_AfterMarketRemoved h key) (\<lambda>_. multi_AfterMarketRemoved mh key)"

section \<open>Deletion hooks\<close>

type_synonym market_validation_hook = "market \<Rightarrow> unit res"

definition DefaultDeleteMarketValidationHook :: market_validation_hook where
  "DefaultDeleteMarketValidationHook m =
     (if tk_enabled (mk_ticker m) then Inl (Errorf ''market is enabled - cannot be deleted'') else Inr ())"

definition DefaultDeleteMarketValidationHooks :: "market_validation_hook list" where
  "DefaultDeleteMarketValidationHooks = [DefaultDeleteMarketValidationHook]"

definition ValidateMarket :: "market_validation_hook list \<Rightarrow> market \<Rightarrow> unit res" where
  "ValidateMarket hs m = each_ok (\<lambda>hook. mapErr (Wrapf ''failed validation hooks for market'') (hook m)) hs"

section \<open>Keeper\<close>

text \<open>\<open>kp_hooks\<close> is \<open>None\<close> for a nil interface, which \<open>SetHooks\<close> may store.\<close>

record mm_keeper =
  kp_authority :: string
  kp_hooks :: "hooks option"
  kp_delete_hooks :: "market_validation_hook list"

type_synonym keeper_option = "mm_keeper \<Rightarrow> mm_keeper"

definition NewKeeper :: "string \<Rightarrow> keeper_option list \<Rightarrow> mm_keeper" where
  "NewKeeper authority opts =
     fold (\<lambda>opt k. opt k) opts
       \<lparr>kp_authority = authority, kp_hooks = Some NoopMarketMapHooks,
        kp_delete_hooks = DefaultDeleteMarketValidationHooks\<rparr>"

definition WithHooks :: "hooks option \<Rightarrow> keeper_option" where
  "WithHooks h k = k\<lparr>kp_hooks := h\<rparr>"

definition WithDeleteValidationHooks :: "market_validation_hook list \<Rightarrow> keeper_option" where
  "WithDeleteValidationHooks hs k = k\<lparr>kp_delete_hooks := hs\<rparr>"

definition SetHooks :: "hooks option \<Rightarrow> mm_keeper \<Rightarrow> mm_keeper" where
  "SetHooks mmh k = k\<lparr>kp_hooks := mmh\<rparr>"

definition SetDeleteMarketValidationHooks :: "market_validation_hook list \<Rightarrow> mm_keeper \<Rightarrow> mm_keeper" where
  "SetDeleteMarketValidationHooks hs k = k\<lparr>kp_delete_hooks := hs\<rparr>"

definition mm_Hooks :: "mm_keeper \<Rightarrow> hooks" where
  "mm_Hooks k = (case kp_hooks k of None \<Rightarrow> NoopMarketMapHooks | Some h \<Rightarrow> h)"

definition SetLastUpdated :: "u64 \<Rightarrow> (mm_store, unit) comp" where
  "SetLastUpdated height = modifyC (\<lambda>s. s\<lparr>ms_last_updated := Some height\<rparr>)"

definition GetLastUpdated :: "mm_store \<Rightarrow> u64 res" where
  "GetLastUpdated s = item_Get (ms_last_updated s)"

definition markets_Has :: "string \<Rightarrow> mm_store \<Rightarrow> bool" where
  "markets_Has tickerStr s = (kv_get (ms_markets s) tickerStr \<noteq> None)"

definition GetMarket :: "string \<Rightarrow> mm_store \<Rightarrow> market res" where
  "GetMarket tickerStr s = item_Get (kv_get (ms_markets s) tickerStr)"

definition setMarket :: "market \<Rightarrow> (mm_store, unit) comp" where
  "setMarket m = modifyC (\<lambda>s. s\<lparr>ms_markets := kv_set (Ticker_String (mk_ticker m)) m (ms_markets s)\<rparr>)"

definition set_enabled :: "bool \<Rightarrow> market \<Rightarrow> market" where
  "set_enabled b m = m\<lparr>mk_ticker := (mk_ticker m)\<lparr>tk_enabled := b\<rparr>\<rparr>"

definition EnableMarket :: "string \<Rightarrow> (mm_store, unit) comp" where
  "EnableMarket tickerStr =
     bindC (readC (GetMarket tickerStr)) (\<lambda>m. setMarket (set_enabled True m))"

definition DisableMarket :: "string \<Rightarrow> (mm_store, unit) comp" where
  "DisableMarket tickerStr =
     bindC (readC (GetMarket tickerStr)) (\<lambda>m. setMarket (set_enabled False m))"

definition GetAllMarkets :: "mm_store \<Rightarrow> market_map" where
  "GetAllMarkets s = fold (\<lambda>(k, v). gm_set k v) (ms_markets s) []"

definition GetAllMarketsList :: "mm_store \<Rightarrow> market list" where
  "GetAllMarketsList s = map snd (ms_markets s)"

definition CreateMarket :: "market \<Rightarrow> (mm_store, unit) comp" where
  "CreateMarket m s =
     (if markets_Has (Ticker_String (mk_ticker m)) s
        then (Inl (MarketAlreadyExistsError (Ticker_String (mk_ticker m))), s)
      else setMarket m s)"

definition UpdateMarket :: "market \<Rightarrow> (mm_store, unit) comp" where
  "UpdateMarket m s =
     (if \<not> markets_Has (Ticker_String (mk_ticker m)) s
        then (Inl (MarketDoesNotExistsError (Ticker_String (mk_ticker m))), s)
      else setMarket m s)"

definition DeleteMarket :: "mm_keeper \<Rightarrow> string \<Rightarrow> (mm_store, bool) comp" where
  "DeleteMarket k tickerStr s =
     (case GetMarket tickerStr s of
        Inl e \<Rightarrow> (if e = ErrNotFound then (Inr False, s)
                 else (Inl (Wrapf ''failed to get market for ticker'' e), s))
      | Inr m \<Rightarrow>
          bindC (liftC (ValidateMarket (kp_delete_hooks k) m)) (\<lambda>_.
          bindC (modifyC (\<lambda>s. s\<lparr>ms_markets := kv_del (Ticker_String (mk_ticker m)) (ms_markets s)\<rparr>)) (\<lambda>_.
          returnC True)) s)"

definition HasMarket :: "string \<Rightarrow> mm_store \<Rightarrow> bool" where
  "HasMarket tickerStr s = markets_Has tickerStr s"

text \<open>The parameters are kept as protobuf, which does not tell an empty list from a nil one.\<close>

definition params_codec :: "params \<Rightarrow> params" where
  "params_codec p = (if pr_market_authorities p = Some [] then p\<lparr>pr_market_authorities := None\<rparr> else p)"

definition SetParams :: "params \<Rightarrow> (mm_store, unit) comp" where
  "SetParams p = modifyC (\<lambda>s. s\<lparr>ms_params := Some (params_codec p)\<rparr>)"

definition GetParams :: "mm_store \<Rightarrow> params res" where
  "GetParams s = item_Get (ms_params s)"

definition check_stored_normalize :: "mm_store \<Rightarrow> market \<Rightarrow> provider_config \<Rightarrow> unit res" where
  "check_stored_normalize s m pc =
     (case pc_normalize_by_pair pc of
        None \<Rightarrow> Inr ()
      | Some p \<Rightarrow>
          bind_res (mapErr (Wrapf ''unable to get normalize market for market'')
                     (GetMarket (CurrencyPair_String p) s)) (\<lambda>norm.
          if tk_enabled (mk_ticker m) \<and> \<not> tk_enabled (mk_ticker norm)
            then Inl (Errorf ''needed normalize market for market is not enabled'')
          else Inr ()))"

definition IsMarketValid :: "market \<Rightarrow> mm_store \<Rightarrow> unit res" where
  "IsMarketValid m s = each_ok (check_stored_normalize s m) (mk_provider_configs m)"

definition ValidateState :: "market list \<Rightarrow> mm_store \<Rightarrow> unit res" where
  "ValidateState updates s = each_ok (\<lambda>m. IsMarketValid m s) updates"

end
