(* ===== verification/Marketmap_Msg.thy ===== *)
theory Marketmap_Msg
  imports Marketmap_Keeper
begin

text \<open>
  The message server (\<open>msg_server.go\<close>), genesis (\<open>genesis.go\<close>) and query server (\<open>query.go\<close>) of
  \<open>x/marketmap\<close>. Every handler is the whole handler on the chain state; the events it emits are not
  part of the state. A request is \<open>None\<close> for a nil pointer. \<open>height\<close> is the height of the block.
\<close>

section \<open>Authorities\<close>

definition checkMarketAuthority :: "string \<Rightarrow> params \<Rightarrow> bool" where
  "checkMarketAuthority authority p =
     (case pr_market_authorities p of None \<Rightarrow> False | Some as \<Rightarrow> authority \<in> set as)"

text \<open>The argument is what \<open>msg.GetAuthority()\<close> returns: the empty string for a nil message.\<close>

definition verifyMarketAuthorities :: "string \<Rightarrow> mm_store \<Rightarrow> unit res" where
  "verifyMarketAuthorities authority s =
     bind_res (mapErr (Wrapf ''unable to get marketmap params'') (GetParams s)) (\<lambda>p.
     if checkMarketAuthority authority p then Inr ()
     else Inl (Errorf ''request signer does not match module market authorities''))"

definition verifyMsg :: "string \<Rightarrow> (chain, unit) comp" where
  "verifyMsg authority =
     mapErrC (Wrapf ''unable to verify market authorities'')
       (onMM (readC (verifyMarketAuthorities authority)))"

definition GetAuthority :: "msg_markets option \<Rightarrow> string" where
  "GetAuthority msg = (case msg of None \<Rightarrow> [] | Some m \<Rightarrow> mm_authority m)"

text \<open>\<open>msg.Markets\<close>: a nil message that passed the authority check is dereferenced.\<close>

definition marketsOf :: "msg_markets option \<Rightarrow> (chain, market list) comp" where
  "marketsOf msg = (case msg of None \<Rightarrow> throwC (Panic ''nil pointer dereference'')
                              | Some m \<Rightarrow> returnC (mm_markets m))"

definition call_hooks :: "mm_keeper \<Rightarrow> (hooks \<Rightarrow> (chain, unit) comp) \<Rightarrow> (chain, unit) comp" where
  "call_hooks k f = (case kp_hooks k of None \<Rightarrow> throwC (Panic ''nil pointer dereference'') | Some h \<Rightarrow> f h)"

section \<open>Creating and updating markets\<close>

definition upsert_one :: "mm_keeper \<Rightarrow> market \<Rightarrow> (chain, unit) comp" where
  "upsert_one k m c =
     (if \<not> HasMarket (Ticker_String (mk_ticker m)) (ch_mm c)
      then bindC (onMM (CreateMarket m)) (\<lambda>_. call_hooks k (\<lambda>h. hooks_AfterMarketCreated h m)) c
      else bindC (onMM (UpdateMarket m)) (\<lambda>_. call_hooks k (\<lambda>h. hooks_AfterMarketUpdated h m)) c)"

definition UpsertMarkets :: "mm_keeper \<Rightarrow> u64 \<Rightarrow> msg_markets option \<Rightarrow> (chain, unit) comp" where
  "UpsertMarkets k height msg =
     bindC (verifyMsg (GetAuthority msg)) (\<lambda>_.
     bindC (marketsOf msg) (\<lambda>markets.
     bindC (forC markets (upsert_one k)) (\<lambda>_.
     bindC (onMM (readC (ValidateState markets))) (\<lambda>_.
     onMM (SetLastUpdated height)))))"

definition create_one :: "mm_keeper \<Rightarrow> market \<Rightarrow> (chain, unit) comp" where
  "create_one k m =
     bindC (onMM (CreateMarket m)) (\<lambda>_.
     mapErrC (Wrapf ''unable to run create market hook'')
       (call_hooks k (\<lambda>h. hooks_AfterMarketCreated h m)))"

definition CreateMarkets :: "mm_keeper \<Rightarrow> u64 \<Rightarrow> msg_markets option \<Rightarrow> (chain, unit) comp" where
  "CreateMarkets k height msg =
     bindC (verifyMsg (GetAuthority msg)) (\<lambda>_.
     bindC (marketsOf msg) (\<lambda>markets.
     bindC (forC markets (create_one k)) (\<lambda>_.
     bindC (mapErrC (Wrapf ''invalid state resulting from update'')
              (onMM (readC (ValidateState markets)))) (\<lambda>_.
     onMM (SetLastUpdated height)))))"

definition update_one :: "mm_keeper \<Rightarrow> market \<Rightarrow> (chain, unit) comp" where
  "update_one k m =
     bindC (mapErrC (Wrapf ''unable to update market'') (onMM (UpdateMarket m))) (\<lambda>_.
     mapErrC (Wrapf ''unable to run update market hook'')
       (call_hooks k (\<lambda>h. hooks_AfterMarketUpdated h m)))"

definition UpdateMarkets :: "mm_keeper \<Rightarrow> u64 \<Rightarrow> msg_markets option \<Rightarrow> (chain, unit) comp" where
  "UpdateMarkets k height msg =
     bindC (verifyMsg (GetAuthority msg)) (\<lambda>_.
     bindC (marketsOf msg) (\<lambda>markets.
     bindC (forC markets (update_one k)) (\<lambda>_.
     bindC (mapErrC (Wrapf ''invalid state resulting from update'')
              (onMM (readC (ValidateState markets)))) (\<lambda>_.
     onMM (SetLastUpdated height)))))"

section \<open>Parameters\<close>

definition UpdateParams :: "mm_keeper \<Rightarrow> msg_params option \<Rightarrow> (chain, unit) comp" where
  "UpdateParams k msg =
     (case msg of
        None \<Rightarrow> throwC (Errorf ''unable to process nil msg'')
      | Some m \<Rightarrow>
          if mp_authority m \<noteq> kp_authority k
            then throwC (Errorf ''request authority does not match module keeper authority'')
          else onMM (SetParams (mp_params m)))"

text \<open>
  \<open>for i, address := range params.MarketAuthorities\<close> evaluates the slice once: it runs over the
  original length \<open>n\<close> of the backing array, while \<open>slices.Delete\<close> shifts the array's live part, of
  length \<open>len\<close>, left by one and clears the element behind it. \<open>s[i:i+1]\<close> beyond \<open>len\<close> panics.
\<close>

definition slices_Delete1 :: "nat \<Rightarrow> string list \<times> nat \<Rightarrow> (string list \<times> nat) res" where
  "slices_Delete1 i = (\<lambda>(arr, len).
     if len < i + 1 then Inl (Panic ''slice bounds out of range'')
     else Inr (take i arr @ drop (i + 1) (take len arr) @ [[]] @ drop len arr, len - 1))"

fun remove_authorities_loop ::
    "string set \<Rightarrow> nat list \<Rightarrow> string list \<times> nat \<Rightarrow> (string list \<times> nat) res" where
  "remove_authorities_loop removeAddresses [] st = Inr st"
| "remove_authorities_loop removeAddresses (i # is) st =
     (if fst st ! i \<in> removeAddresses
      then bind_res (slices_Delete1 i st) (remove_authorities_loop removeAddresses is)
      else remove_authorities_loop removeAddresses is st)"

definition remove_authorities :: "string set \<Rightarrow> string list \<Rightarrow> string list res" where
  "remove_authorities removeAddresses as =
     bind_res (remove_authorities_loop removeAddresses [0..<length as] (as, length as))
       (\<lambda>(arr, len). Inr (take len arr))"

definition RemoveMarketAuthorities :: "msg_remove_authorities option \<Rightarrow> (chain, unit) comp" where
  "RemoveMarketAuthorities msg =
     (case msg of
        None \<Rightarrow> throwC (Errorf ''unable to process nil msg'')
      | Some m \<Rightarrow>
          bindC (onMM (readC GetParams)) (\<lambda>p.
          if ra_admin m \<noteq> pr_admin p
            then throwC (Errorf ''request admin does not match module admin'')
          else
            let authorities = (case pr_market_authorities p of None \<Rightarrow> [] | Some as \<Rightarrow> as) in
            if length authorities < length (ra_remove_addresses m)
              then throwC (Errorf ''remove addresses must be a subset of the current market authorities'')
            else
              bindC (liftC (remove_authorities (set (ra_remove_addresses m)) authorities)) (\<lambda>as.
              onMM (SetParams (p\<lparr>pr_market_authorities :=
                (case pr_market_authorities p of None \<Rightarrow> None | Some _ \<Rightarrow> Some as)\<rparr>)))))"

section \<open>Removing markets\<close>

definition remove_one :: "mm_keeper \<Rightarrow> string \<Rightarrow> (chain, bool) comp" where
  "remove_one k tickerStr =
     bindC (mapErrC (Wrapf ''unable to delete market'') (onMM (DeleteMarket k tickerStr))) (\<lambda>deleted.
     bindC (mapErrC (Wrapf ''unable to run market removal hook'')
              (call_hooks k (\<lambda>h. hooks_AfterMarketRemoved h tickerStr))) (\<lambda>_.
     returnC deleted))"

fun remove_all :: "mm_keeper \<Rightarrow> string list \<Rightarrow> string list \<Rightarrow> (chain, string list) comp" where
  "remove_all k [] deletedMarkets = returnC deletedMarkets"
| "remove_all k (t # ts) deletedMarkets =
     bindC (remove_one k t) (\<lambda>deleted.
     remove_all k ts (if deleted then deletedMarkets @ [t] else deletedMarkets))"

definition RemoveMarkets :: "mm_keeper \<Rightarrow> msg_remove_markets option \<Rightarrow> (chain, string list) comp" where
  "RemoveMarkets k msg =
     (case msg of
        None \<Rightarrow> throwC (Errorf ''unable to process nil msg'')
      | Some m \<Rightarrow>
          bindC (verifyMsg (rm_authority m)) (\<lambda>_.
          bindC (remove_all k (rm_markets m) []) (\<lambda>deletedMarkets.
          bindC (mapErrC (Wrapf ''invalid state resulting from removals'')
                   (onMM (readC (\<lambda>s. MarketMap_ValidateBasic (GetAllMarkets s))))) (\<lambda>_.
          returnC deletedMarkets))))"

section \<open>Genesis\<close>

definition mm_InitGenesis :: "(string \<Rightarrow> unit res) \<Rightarrow> mm_keeper \<Rightarrow> mm_genesis \<Rightarrow> (chain, unit) comp" where
  "mm_InitGenesis acc_address k gs =
     bindC (mapErrC to_panic (liftC (mm_GenesisState_ValidateBasic acc_address gs))) (\<lambda>_.
     bindC (forC (mg_market_map gs) (\<lambda>(_, m). mapErrC to_panic (onMM (CreateMarket m)))) (\<lambda>_.
     bindC (onMM (SetLastUpdated (mg_last_updated gs))) (\<lambda>_.
     bindC (onMM (SetParams (mg_params gs))) (\<lambda>_.
     case kp_hooks k of
       None \<Rightarrow> returnC ()
     | Some h \<Rightarrow> mapErrC to_panic (hooks_AfterMarketGenesis h (mg_market_map gs))))))"

definition mm_ExportGenesis :: "mm_store \<Rightarrow> mm_genesis res" where
  "mm_ExportGenesis s =
     bind_res (mapErr to_panic (GetLastUpdated s)) (\<lambda>lastUpdated.
     bind_res (mapErr to_panic (GetParams s)) (\<lambda>p.
     Inr \<lparr>mg_market_map = GetAllMarkets s, mg_last_updated = lastUpdated, mg_params = p\<rparr>))"

section \<open>Queries\<close>

record market_map_response =
  mr_market_map :: market_map
  mr_last_updated :: u64
  mr_chain_id :: string

definition query_MarketMap :: "string \<Rightarrow> unit option \<Rightarrow> mm_store \<Rightarrow> market_map_response res" where
  "query_MarketMap chainId req s =
     (case req of
        None \<Rightarrow> Inl (Errorf ''request cannot be nil'')
      | Some _ \<Rightarrow>
          bind_res (GetLastUpdated s) (\<lambda>lastUpdated.
          Inr \<lparr>mr_market_map = GetAllMarkets s, mr_last_updated = lastUpdated, mr_chain_id = chainId\<rparr>))"

definition query_Markets :: "unit option \<Rightarrow> mm_store \<Rightarrow> market list res" where
  "query_Markets req s =
     (case req of None \<Rightarrow> Inl (Errorf ''request cannot be nil'') | Some _ \<Rightarrow> Inr (GetAllMarketsList s))"

definition query_Market :: "currency_pair option \<Rightarrow> mm_store \<Rightarrow> market res" where
  "query_Market req s =
     (case req of
        None \<Rightarrow> Inl (Errorf ''request cannot be nil'')
      | Some cp \<Rightarrow> bind_res (ValidateBasic cp) (\<lambda>_. GetMarket (CurrencyPair_String cp) s))"

definition query_LastUpdated :: "unit option \<Rightarrow> mm_store \<Rightarrow> u64 res" where
  "query_LastUpdated req s =
     (case req of None \<Rightarrow> Inl (Errorf ''request cannot be nil'') | Some _ \<Rightarrow> GetLastUpdated s)"

definition query_Params :: "unit option \<Rightarrow> mm_store \<Rightarrow> params res" where
  "query_Params req s =
     (case req of None \<Rightarrow> Inl (Errorf ''request cannot be nil'') | Some _ \<Rightarrow> GetParams s)"

end
