(* ===== verification/Marketmap_Behaviour.thy ===== *)
theory Marketmap_Behaviour
  imports Marketmap_Msg
begin

text \<open>
  The behaviour of the keeper and the message server of \<open>x/marketmap\<close>: what a handler that returns
  without error wrote, that the hooks never touch the markets, the invariant of the store, and when
  the whole market map stays valid.
\<close>

section \<open>Running a module's computation on the chain state\<close>

lemma onMM_Inr [simp]:
  "onMM m c = (Inr a, d) \<longleftrightarrow> (\<exists>s. m (ch_mm c) = (Inr a, s) \<and> d = c\<lparr>ch_mm := s\<rparr>)"
  by (auto simp: onMM_def split: prod.splits)

lemma onOracle_Inr [simp]:
  "onOracle m c = (Inr a, d) \<longleftrightarrow> (\<exists>s. m (ch_oracle c) = (Inr a, s) \<and> d = c\<lparr>ch_oracle := s\<rparr>)"
  by (auto simp: onOracle_def split: prod.splits)

lemma onMM_read: "onMM (readC f) c = (f (ch_mm c), c)"
  by (simp add: onMM_def comp_simps)

lemma chain_same [simp]: "c\<lparr>ch_mm := ch_mm c\<rparr> = c" "c\<lparr>ch_oracle := ch_oracle c\<rparr> = c"
  by simp_all

section \<open>Hooks leave the markets alone\<close>

lemma hooks_frame:
  "hooks_AfterMarketCreated h m c = (Inr (), d) \<Longrightarrow> ch_mm d = ch_mm c"
  "multi_AfterMarketCreated hs m c = (Inr (), d) \<Longrightarrow> ch_mm d = ch_mm c"
  by (induction h m and hs m arbitrary: c d and c d
        rule: hooks_AfterMarketCreated_multi_AfterMarketCreated.induct)
     (auto simp: comp_Inr)

lemma updated_frame:
  "hooks_AfterMarketUpdated h m c = (Inr (), d) \<Longrightarrow> d = c"
  "multi_AfterMarketUpdated hs m c = (Inr (), d) \<Longrightarrow> d = c"
  by (induction h m and hs m arbitrary: c d and c d
        rule: hooks_AfterMarketUpdated_multi_AfterMarketUpdated.induct)
     (auto simp: comp_Inr oracle_AfterMarketUpdated_def)

lemma removed_frame:
  "hooks_AfterMarketRemoved h t c = (Inr (), d) \<Longrightarrow> d = c"
  "multi_AfterMarketRemoved hs t c = (Inr (), d) \<Longrightarrow> d = c"
  by (induction h t and hs t arbitrary: c d and c d
        rule: hooks_AfterMarketRemoved_multi_AfterMarketRemoved.induct)
     (auto simp: comp_Inr oracle_AfterMarketRemoved_def)

lemma check_loop_frame:
  "forC mm (\<lambda>(_, m) s. if \<not> P m s then (Inl e, s) else (Inr (), s)) s = (Inr (), t) \<Longrightarrow>
     t = s \<and> (\<forall>(k, m) \<in> set mm. P m s)"
  by (induction mm) (auto simp: comp_Inr split: if_splits)

lemma genesis_frame:
  "hooks_AfterMarketGenesis h mm c = (Inr (), d) \<Longrightarrow> d = c"
  "multi_AfterMarketGenesis hs mm c = (Inr (), d) \<Longrightarrow> d = c"
  by (induction h mm and hs mm arbitrary: c d and c d
        rule: hooks_AfterMarketGenesis_multi_AfterMarketGenesis.induct)
     (auto simp: comp_Inr oracle_AfterMarketGenesis_def dest: check_loop_frame)

lemma call_hooks_Inr:
  "call_hooks k f c = (Inr (), d) \<longleftrightarrow> (\<exists>h. kp_hooks k = Some h \<and> f h c = (Inr (), d))"
  by (auto simp: call_hooks_def comp_Inr split: option.split)

section \<open>The store's invariant\<close>

abbreviation market_of :: "chain \<Rightarrow> string \<Rightarrow> market option" where
  "market_of c \<equiv> kv_get (ms_markets (ch_mm c))"

abbreviation ticker_of :: "market \<Rightarrow> string" where
  "ticker_of m \<equiv> Ticker_String (mk_ticker m)"

abbreviation enabled :: "market \<Rightarrow> bool" where
  "enabled m \<equiv> tk_enabled (mk_ticker m)"

definition mm_inv :: "mm_store \<Rightarrow> bool" where
  "mm_inv s \<longleftrightarrow> kv_wf (ms_markets s) \<and>
     (\<forall>t m. kv_get (ms_markets s) t = Some m \<longrightarrow> ticker_of m = t \<and> is_ok (Market_ValidateBasic m))"

text \<open>The stored market map passes \<open>MarketMap.ValidateBasic\<close>.\<close>

definition map_valid :: "mm_store \<Rightarrow> bool" where
  "map_valid s \<longleftrightarrow> is_ok (MarketMap_ValidateBasic (GetAllMarkets s))"

lemma fold_gm_set:
  "distinct (map fst es) \<Longrightarrow> fst ` set es \<inter> fst ` set acc = {} \<Longrightarrow>
     fold (\<lambda>(k, v). gm_set k v) es acc = acc @ es"
proof (induction es arbitrary: acc)
  case (Cons e es)
  obtain k v where e: "e = (k, v)" by (cases e)
  have "gm_set k v acc = acc @ [(k, v)]"
    using Cons.prems(2) by (induction acc) (auto simp: gm_set_def e)
  with Cons show ?case by (auto simp: e)
qed simp

lemma GetAllMarkets_eq: "mm_inv s \<Longrightarrow> GetAllMarkets s = ms_markets s"
  using fold_gm_set [of "ms_markets s" "[]"] kv.distinct_keys [of "ms_markets s"]
  by (simp add: GetAllMarkets_def mm_inv_def)

lemma kv_gm: "gm_get m = kv_get m"
  by (simp add: fun_eq_iff gm_get_def kv_get_def)

lemma map_valid_iff:
  assumes "mm_inv s"
  shows "map_valid s \<longleftrightarrow> (\<forall>t m. kv_get (ms_markets s) t = Some m \<longrightarrow> norm_ok (kv_get (ms_markets s)) m)"
proof -
  have "(t, m) \<in> set (ms_markets s) \<longleftrightarrow> kv_get (ms_markets s) t = Some m" for t m
    using assms kv.entries_iff [of "ms_markets s"] by (simp add: mm_inv_def)
  then show ?thesis
    using assms by (auto simp: map_valid_def GetAllMarkets_eq MarketMap_ok_iff kv_gm mm_inv_def Ball_def)
qed

section \<open>Writing markets\<close>

definition put_markets :: "market list \<Rightarrow> (string, market) kv \<Rightarrow> (string, market) kv" where
  "put_markets ms mk = fold (\<lambda>m. kv_set (ticker_of m) m) ms mk"

lemma put_markets_simps [simp]:
  "put_markets [] mk = mk"
  "put_markets (m # ms) mk = put_markets ms (kv_set (ticker_of m) m mk)"
  by (simp_all add: put_markets_def)

lemma put_markets_wf: "kv_wf mk \<Longrightarrow> kv_wf (put_markets ms mk)"
  by (induction ms arbitrary: mk) auto

lemma put_markets_get:
  "kv_wf mk \<Longrightarrow> kv_get (put_markets ms mk) t =
     (case find (\<lambda>m. ticker_of m = t) (rev ms) of Some m \<Rightarrow> Some m | None \<Rightarrow> kv_get mk t)"
proof (induction ms arbitrary: mk)
  case (Cons m ms)
  have "find P (xs @ [x]) = (case find P xs of Some y \<Rightarrow> Some y | None \<Rightarrow> if P x then Some x else None)"
    for P :: "market \<Rightarrow> bool" and xs x
    by (induction xs) auto
  with Cons show ?case by (auto split: option.split)
qed simp

lemma find_SomeD: "find P xs = Some x \<Longrightarrow> x \<in> set xs \<and> P x"
  by (induction xs) (auto split: if_splits)

lemma put_markets_cases:
  assumes "kv_wf mk" "kv_get (put_markets ms mk) t = Some m"
  shows "m \<in> set ms \<and> ticker_of m = t \<or> t \<notin> ticker_of ` set ms \<and> kv_get mk t = Some m"
  using assms(2) unfolding put_markets_get [OF assms(1)]
  by (auto split: option.splits simp: find_None_iff dest: find_SomeD)

lemma put_markets_dom:
  "kv_wf mk \<Longrightarrow> kv_get (put_markets ms mk) t = None \<longleftrightarrow> kv_get mk t = None \<and> t \<notin> ticker_of ` set ms"
  by (auto simp: put_markets_get find_None_iff split: option.splits dest: find_SomeD)

lemma setMarket_Inr [simp]:
  "setMarket m s = (Inr (), t) \<longleftrightarrow> t = s\<lparr>ms_markets := kv_set (ticker_of m) m (ms_markets s)\<rparr>"
  by (simp add: setMarket_def modifyC_Inr)

lemma CreateMarket_Inr:
  "CreateMarket m s = (Inr (), t) \<longleftrightarrow> kv_get (ms_markets s) (ticker_of m) = None \<and>
     t = s\<lparr>ms_markets := kv_set (ticker_of m) m (ms_markets s)\<rparr>"
  by (auto simp: CreateMarket_def markets_Has_def)

lemma UpdateMarket_Inr:
  "UpdateMarket m s = (Inr (), t) \<longleftrightarrow> kv_get (ms_markets s) (ticker_of m) \<noteq> None \<and>
     t = s\<lparr>ms_markets := kv_set (ticker_of m) m (ms_markets s)\<rparr>"
  by (auto simp: UpdateMarket_def markets_Has_def)

text \<open>\<open>wrote ms c d\<close>: \<open>d\<close>'s market store is \<open>c\<close>'s with the markets \<open>ms\<close> put in order.\<close>

definition wrote :: "market list \<Rightarrow> chain \<Rightarrow> chain \<Rightarrow> bool" where
  "wrote ms c d \<longleftrightarrow> ch_mm d = (ch_mm c)\<lparr>ms_markets := put_markets ms (ms_markets (ch_mm c))\<rparr>"

lemma wrote_Nil [simp]: "wrote [] c c"
  by (simp add: wrote_def)

lemma wrote_Cons: "wrote [m] c d \<Longrightarrow> wrote ms d e \<Longrightarrow> wrote (m # ms) c e"
  by (simp add: wrote_def)

lemma create_one_wrote:
  "create_one k m c = (Inr (), d) \<Longrightarrow> market_of c (ticker_of m) = None \<and> wrote [m] c d"
  by (auto simp: create_one_def comp_Inr CreateMarket_Inr call_hooks_Inr wrote_def dest: hooks_frame)

lemma update_one_wrote:
  "update_one k m c = (Inr (), d) \<Longrightarrow>
     market_of c (ticker_of m) \<noteq> None \<and> wrote [m] c d \<and> ch_oracle d = ch_oracle c"
  by (auto simp: update_one_def comp_Inr UpdateMarket_Inr call_hooks_Inr wrote_def dest!: updated_frame)

lemma upsert_one_wrote: "upsert_one k m c = (Inr (), d) \<Longrightarrow> wrote [m] c d"
  by (auto simp: upsert_one_def comp_Inr UpdateMarket_Inr CreateMarket_Inr call_hooks_Inr wrote_def
      split: if_splits dest: hooks_frame updated_frame)

lemma loop_wrote:
  assumes "\<And>m c d. f m c = (Inr (), d) \<Longrightarrow> wrote [m] c d"
  shows "forC ms f c = (Inr (), d) \<Longrightarrow> wrote ms c d"
proof (induction ms arbitrary: c)
  case (Cons m ms)
  then show ?case by (auto simp: comp_Inr intro: wrote_Cons assms)
qed (simp add: comp_Inr)


section \<open>The handlers\<close>

definition authorised :: "string \<Rightarrow> chain \<Rightarrow> bool" where
  "authorised signer c \<longleftrightarrow> (\<exists>p as. ms_params (ch_mm c) = Some p \<and> pr_market_authorities p = Some as \<and> signer \<in> set as)"

lemma verifyMarketAuthorities_iff:
  "verifyMarketAuthorities signer (ch_mm c) = Inr () \<longleftrightarrow> authorised signer c"
  by (auto simp: verifyMarketAuthorities_def GetParams_def item_Get_def checkMarketAuthority_def
      authorised_def split: option.splits)

lemma verifyMsg_Inr: "verifyMsg signer c = (Inr (), d) \<longleftrightarrow> authorised signer c \<and> d = c"
  by (auto simp: verifyMsg_def readC_Inr verifyMarketAuthorities_iff)

lemma verifyMsg_denied:
  assumes "\<not> authorised signer c"
  shows "\<exists>e. verifyMsg signer c = (Inl e, c)"
proof (cases "verifyMarketAuthorities signer (ch_mm c)")
  case (Inl e)
  then show ?thesis by (simp add: verifyMsg_def mapErrC_def onMM_read)
next
  case (Inr u)
  then show ?thesis using assms verifyMarketAuthorities_iff [of signer c] by simp
qed

lemma ValidateState_iff:
  "ValidateState ms s = Inr () \<longleftrightarrow> (\<forall>m \<in> set ms. norm_ok (kv_get (ms_markets s)) m)"
proof -
  have "is_ok (check_stored_normalize s m pc) \<longleftrightarrow>
      (\<forall>p. pc_normalize_by_pair pc = Some p \<longrightarrow>
         (\<exists>n. kv_get (ms_markets s) (CurrencyPair_String p) = Some n \<and> (enabled m \<longrightarrow> enabled n)))" for m pc
    by (auto simp: check_stored_normalize_def GetMarket_def item_Get_def split: option.splits)
  then show ?thesis
    by (simp add: ValidateState_def IsMarketValid_def unit_res_ok each_ok_iff norm_ok_def)
qed

text \<open>\<open>stamped h ms c d\<close>: the markets are written, every one of them normalizes by stored markets,
  and the height is recorded.\<close>

definition stamped :: "u64 \<Rightarrow> market list \<Rightarrow> chain \<Rightarrow> chain \<Rightarrow> bool" where
  "stamped h ms c d \<longleftrightarrow>
     ch_mm d = (ch_mm c)\<lparr>ms_markets := put_markets ms (ms_markets (ch_mm c)), ms_last_updated := Some h\<rparr> \<and>
     (\<forall>m \<in> set ms. norm_ok (market_of d) m)"

lemma handler_tail:
  assumes "bindC (forC ms f) (\<lambda>_. bindC (onMM (readC (ValidateState ms))) (\<lambda>_. onMM (SetLastUpdated h))) c =
      (Inr (), d)"
    "\<And>m c d. f m c = (Inr (), d) \<Longrightarrow> wrote [m] c d"
  shows "stamped h ms c d"
  using assms(1) loop_wrote [of f ms c, OF assms(2)]
  by (auto simp: comp_Inr stamped_def wrote_def ValidateState_iff SetLastUpdated_def)

lemma UpsertMarkets_stamped:
  "UpsertMarkets k h (Some msg) c = (Inr (), d) \<Longrightarrow>
     authorised (mm_authority msg) c \<and> stamped h (mm_markets msg) c d"
  using handler_tail [of "mm_markets msg" "upsert_one k" h c d] upsert_one_wrote
  by (auto simp: UpsertMarkets_def GetAuthority_def marketsOf_def comp_Inr verifyMsg_Inr)

lemma CreateMarkets_stamped:
  "CreateMarkets k h (Some msg) c = (Inr (), d) \<Longrightarrow>
     authorised (mm_authority msg) c \<and> stamped h (mm_markets msg) c d"
  using handler_tail [of "mm_markets msg" "create_one k" h c d] create_one_wrote
  by (auto simp: CreateMarkets_def GetAuthority_def marketsOf_def comp_Inr verifyMsg_Inr)

lemma UpdateMarkets_stamped:
  "UpdateMarkets k h (Some msg) c = (Inr (), d) \<Longrightarrow>
     authorised (mm_authority msg) c \<and> stamped h (mm_markets msg) c d"
  using handler_tail [of "mm_markets msg" "update_one k" h c d] update_one_wrote
  by (auto simp: UpdateMarkets_def GetAuthority_def marketsOf_def comp_Inr verifyMsg_Inr)

lemma create_loop_new:
  "forC ms (create_one k) c = (Inr (), d) \<Longrightarrow> kv_wf (ms_markets (ch_mm c)) \<Longrightarrow> m \<in> set ms \<Longrightarrow>
     market_of c (ticker_of m) = None"
proof (induction ms arbitrary: c)
  case (Cons x ms)
  then obtain e where e: "create_one k x c = (Inr (), e)" "forC ms (create_one k) e = (Inr (), d)"
    by (auto simp: comp_Inr)
  note w = create_one_wrote [OF e(1)]
  then have "kv_wf (ms_markets (ch_mm e))" using Cons.prems(2) by (simp add: wrote_def)
  then show ?case
    using Cons.IH [OF e(2)] Cons.prems w by (cases "m = x") (auto simp: wrote_def split: if_splits)
qed simp

lemma update_loop_old:
  "forC ms (update_one k) c = (Inr (), d) \<Longrightarrow> kv_wf (ms_markets (ch_mm c)) \<Longrightarrow>
     ch_oracle d = ch_oracle c \<and> (\<forall>m \<in> set ms. market_of c (ticker_of m) \<noteq> None)"
proof (induction ms arbitrary: c)
  case (Cons x ms)
  then obtain e where e: "update_one k x c = (Inr (), e)" "forC ms (update_one k) e = (Inr (), d)"
    by (auto simp: comp_Inr)
  note w = update_one_wrote [OF e(1)]
  then have wf: "kv_wf (ms_markets (ch_mm e))" using Cons.prems(2) by (simp add: wrote_def)
  have "market_of e t \<noteq> None \<longleftrightarrow> market_of c t \<noteq> None" for t
    using w Cons.prems(2) by (auto simp: wrote_def)
  then show ?case using Cons.IH [OF e(2) wf] w by simp
qed (simp add: comp_Inr)

section \<open>Validity of the whole map\<close>

lemma stamped_inv:
  assumes "mm_inv (ch_mm c)" "stamped h ms c d" "\<forall>m \<in> set ms. is_ok (Market_ValidateBasic m)"
  shows "mm_inv (ch_mm d)"
  using assms put_markets_wf put_markets_cases unfolding mm_inv_def stamped_def by fastforce

lemma norm_ok_mono:
  assumes "norm_ok look m"
    "\<And>t n. look t = Some n \<Longrightarrow> \<exists>n'. look' t = Some n' \<and> (enabled n \<longrightarrow> enabled n')"
  shows "norm_ok look' m"
  using assms unfolding norm_ok_def by blast

text \<open>A message keeps the map valid when it disables no market that was enabled before.\<close>

lemma stamped_valid:
  assumes "mm_inv (ch_mm c)" "map_valid (ch_mm c)" "stamped h ms c d"
    "\<forall>m \<in> set ms. is_ok (Market_ValidateBasic m)"
    "\<forall>m \<in> set ms. \<forall>old. market_of c (ticker_of m) = Some old \<and> enabled old \<longrightarrow> enabled m"
  shows "map_valid (ch_mm d)"
  unfolding map_valid_iff [OF stamped_inv [OF assms(1,3,4)]]
proof (intro allI impI)
  fix t m assume m: "market_of d t = Some m"
  have wf: "kv_wf (ms_markets (ch_mm c))" using assms(1) by (simp add: mm_inv_def)
  have get: "market_of d = kv_get (put_markets ms (ms_markets (ch_mm c)))"
    using assms(3) by (simp add: stamped_def)
  show "norm_ok (market_of d) m"
  proof (cases "m \<in> set ms")
    case True
    then show ?thesis using assms(3) unfolding stamped_def by blast
  next
    case False
    then have "market_of c t = Some m"
      using m put_markets_cases [OF wf, of ms t m] unfolding get by blast
    then have old: "norm_ok (market_of c) m" using assms(2) map_valid_iff [OF assms(1)] by blast
    show ?thesis
    proof (rule norm_ok_mono [OF old])
      fix u n assume n: "market_of c u = Some n"
      then have "market_of d u \<noteq> None" using put_markets_dom [OF wf, of ms u] unfolding get by simp
      then obtain n' where n': "market_of d u = Some n'" by blast
      then show "\<exists>n'. market_of d u = Some n' \<and> (enabled n \<longrightarrow> enabled n')"
        using put_markets_cases [OF wf, of ms u n'] assms(5) n unfolding get by auto
    qed
  qed
qed

end
