(* ===== verification/Marketmap_Chain.thy ===== *)
theory Marketmap_Chain
  imports Marketmap_Behaviour Oracle_Properties
begin

text \<open>
  \<open>x/marketmap\<close> and \<open>x/oracle\<close> on one chain: removals, the removal of authorities, and the states the
  two modules reach together when the hooks of \<open>x/oracle\<close> are registered.
\<close>

section \<open>Removing markets\<close>

lemma DeleteMarket_Inr:
  assumes "DeleteMarket k t s = (Inr b, s')" "mm_inv s"
  shows "b \<longleftrightarrow> kv_get (ms_markets s) t \<noteq> None" "mm_inv s'"
    "s' = s\<lparr>ms_markets := kv_del t (ms_markets s)\<rparr>"
    "kv_get (ms_markets s) t = Some m \<Longrightarrow> ValidateMarket (kp_delete_hooks k) m = Inr ()"
proof -
  have "(b \<longleftrightarrow> kv_get (ms_markets s) t \<noteq> None) \<and> s' = s\<lparr>ms_markets := kv_del t (ms_markets s)\<rparr> \<and>
      (\<forall>m. kv_get (ms_markets s) t = Some m \<longrightarrow> ValidateMarket (kp_delete_hooks k) m = Inr ())"
  proof (cases "kv_get (ms_markets s) t")
    case None
    then have "kv_del t (ms_markets s) = ms_markets s"
      using assms(2) by (intro kv.ext_eq) (auto simp: mm_inv_def)
    then show ?thesis using assms None by (auto simp: DeleteMarket_def GetMarket_def item_Get_def)
  next
    case (Some m)
    then have "ticker_of m = t" using assms(2) by (simp add: mm_inv_def)
    then show ?thesis
      using assms Some by (auto simp: DeleteMarket_def GetMarket_def item_Get_def comp_Inr)
  qed
  then show "b \<longleftrightarrow> kv_get (ms_markets s) t \<noteq> None" "s' = s\<lparr>ms_markets := kv_del t (ms_markets s)\<rparr>"
    "kv_get (ms_markets s) t = Some m \<Longrightarrow> ValidateMarket (kp_delete_hooks k) m = Inr ()"
    by blast+
  then show "mm_inv s'" using assms(2) by (auto simp: mm_inv_def)
qed

lemma remove_one_Inr:
  "remove_one k t c = (Inr b, d) \<Longrightarrow>
     \<exists>s. DeleteMarket k t (ch_mm c) = (Inr b, s) \<and> d = c\<lparr>ch_mm := s\<rparr>"
  by (auto simp: remove_one_def comp_Inr call_hooks_Inr dest!: removed_frame)

text \<open>\<open>removed k ts c ds d\<close>: what removing the tickers \<open>ts\<close> did, and which it deleted.\<close>

definition removed :: "mm_keeper \<Rightarrow> string list \<Rightarrow> chain \<Rightarrow> string list \<Rightarrow> chain \<Rightarrow> bool" where
  "removed k ts c ds d \<longleftrightarrow>
     (\<forall>t. market_of d t = (if t \<in> set ts then None else market_of c t)) \<and>
     set ds = {t \<in> set ts. market_of c t \<noteq> None} \<and> distinct ds \<and>
     (\<forall>t \<in> set ts. \<forall>m. market_of c t = Some m \<longrightarrow> ValidateMarket (kp_delete_hooks k) m = Inr ()) \<and>
     ch_oracle d = ch_oracle c \<and> ms_last_updated (ch_mm d) = ms_last_updated (ch_mm c) \<and>
     ms_params (ch_mm d) = ms_params (ch_mm c)"

lemma remove_all_removed:
  "remove_all k ts acc c = (Inr r, d) \<Longrightarrow> mm_inv (ch_mm c) \<Longrightarrow>
     mm_inv (ch_mm d) \<and> (\<exists>ds. r = acc @ ds \<and> removed k ts c ds d)"
proof (induction ts arbitrary: acc c)
  case Nil
  then show ?case by (auto simp: comp_Inr removed_def)
next
  case (Cons t ts)
  then obtain b s where del: "DeleteMarket k t (ch_mm c) = (Inr b, s)"
    and rest: "remove_all k ts (if b then acc @ [t] else acc) (c\<lparr>ch_mm := s\<rparr>) = (Inr r, d)"
    by (auto simp: comp_Inr dest!: remove_one_Inr)
  note D = DeleteMarket_Inr [OF del Cons.prems(2)]
  obtain ds where inv: "mm_inv (ch_mm d)" and ds: "r = (if b then acc @ [t] else acc) @ ds"
    and rem: "removed k ts (c\<lparr>ch_mm := s\<rparr>) ds d"
    using Cons.IH [OF rest] D(2) by auto
  have wf: "kv_wf (ms_markets (ch_mm c))" using Cons.prems(2) by (simp add: mm_inv_def)
  have get: "kv_get (ms_markets s) u = (if u = t then None else market_of c u)" for u
    using wf by (simp add: D(3))
  have fields: "ms_last_updated s = ms_last_updated (ch_mm c)" "ms_params s = ms_params (ch_mm c)"
    by (simp_all add: D(3))
  have "\<forall>m. market_of c t = Some m \<longrightarrow> ValidateMarket (kp_delete_hooks k) m = Inr ()"
    using D(4) by blast
  then have "removed k (t # ts) c (if b then t # ds else ds) d"
    using rem D(1) by (cases b) (auto simp: removed_def get fields split: if_splits)
  then show ?case using inv ds by (auto split: if_splits)
qed

lemma RemoveMarkets_removed:
  assumes "RemoveMarkets k (Some msg) c = (Inr ds, d)" "mm_inv (ch_mm c)"
  shows "authorised (rm_authority msg) c \<and> removed k (rm_markets msg) c ds d \<and> mm_inv (ch_mm d) \<and>
     map_valid (ch_mm d)"
  using assms remove_all_removed [OF _ assms(2), of k "rm_markets msg" "[]"]
  by (auto simp: RemoveMarkets_def comp_Inr verifyMsg_Inr map_valid_def dest: remove_all_removed)

section \<open>Removing authorities\<close>

text \<open>What the loop computes: an address to remove shields the one behind it.\<close>

fun delete_skipping :: "string set \<Rightarrow> string list \<Rightarrow> string list" where
  "delete_skipping R [] = []"
| "delete_skipping R (x # xs) =
     (if x \<in> R then (case xs of [] \<Rightarrow> [] | y # ys \<Rightarrow> y # delete_skipping R ys)
      else x # delete_skipping R xs)"

lemma loop_pad: "\<forall>i \<in> set is. fst st ! i \<notin> R \<Longrightarrow> remove_authorities_loop R is st = Inr st"
  by (induction "is") auto

lemma loop_skips:
  "[] \<notin> R \<Longrightarrow>
   remove_authorities_loop R [length done..<length done + length rest + p]
     (done @ rest @ replicate p [], length done + length rest) =
   Inr (done @ delete_skipping R rest @
          replicate (p + (length rest - length (delete_skipping R rest))) [],
        length done + length (delete_skipping R rest))"
proof (induction R rest arbitrary: "done" p rule: delete_skipping.induct)
  case (1 R)
  then show ?case by simp (rule loop_pad, auto simp: nth_append)
next
  case (2 R x xs)
  have upt: "[length done..<Suc (length done + length xs + p)] =
      length done # [Suc (length done)..<Suc (length done + length xs + p)]"
    by (rule upt_conv_Cons) simp
  show ?case
  proof (cases "x \<in> R")
    case False
    have "length (delete_skipping R xs) \<le> length xs" for R xs
      by (induction R xs rule: delete_skipping.induct) (auto split: list.split)
    then show ?thesis
      using "2.IH"(2) [OF False "2.prems", of "done @ [x]" p] False
      by (simp add: upt nth_append Suc_diff_le del: upt_Suc)
  next
    case True
    have shift: "slices_Delete1 (length done) (done @ (x # xs) @ replicate p [], length done + length (x # xs)) =
        Inr (done @ xs @ replicate (Suc p) [], length done + length xs)"
      by (simp add: slices_Delete1_def replicate_append_same)
    show ?thesis
    proof (cases xs)
      case Nil
      have "remove_authorities_loop R [Suc (length done)..<Suc (length done + p)]
          (done @ [] # replicate p [], length done) = Inr (done @ [] # replicate p [], length done)"
      proof (rule loop_pad, rule ballI)
        fix i assume "i \<in> set [Suc (length done)..<Suc (length done + p)]"
        then have "(done @ replicate (Suc p) []) ! i = ([] :: string)"
          by (auto simp: nth_append simp del: replicate_Suc)
        then show "fst (done @ [] # replicate p [], length done) ! i \<notin> R"
          using "2.prems" by simp
      qed
      then show ?thesis
        using True shift upt Nil by (simp add: nth_append del: upt_Suc)
    next
      case (Cons y ys)
      have "length (delete_skipping R ys) \<le> length ys" for R ys
        by (induction R ys rule: delete_skipping.induct) (auto split: list.split)
      then show ?thesis
        using True shift upt "2.IH"(1) [OF True Cons "2.prems", of "done @ [y]" "Suc p"]
        by (simp add: upt nth_append Cons Suc_diff_le del: upt_Suc)
    qed
  qed
qed

lemma remove_authorities_eq:
  "[] \<notin> R \<Longrightarrow> remove_authorities R as = Inr (delete_skipping R as)"
  using loop_skips [of R "[]" as 0] by (simp add: remove_authorities_def)

text \<open>Without two neighbours to remove, this is the list without the addresses.\<close>

lemma delete_skipping_filter:
  "(\<forall>i. Suc i < length as \<longrightarrow> \<not> (as ! i \<in> R \<and> as ! Suc i \<in> R)) \<Longrightarrow>
     delete_skipping R as = filter (\<lambda>a. a \<notin> R) as"
proof (induction R as rule: delete_skipping.induct)
  case (2 R x xs)
  have tl: "\<forall>i. Suc i < length xs \<longrightarrow> \<not> (xs ! i \<in> R \<and> xs ! Suc i \<in> R)"
    using "2.prems" by (metis Suc_less_eq length_Cons nth_Cons_Suc)
  show ?case
  proof (cases "x \<in> R")
    case True
    show ?thesis
    proof (cases xs)
      case (Cons y ys)
      have y: "y \<notin> R" using "2.prems" [rule_format, of 0] True by (simp add: Cons)
      have "\<forall>i. Suc i < length ys \<longrightarrow> \<not> (ys ! i \<in> R \<and> ys ! Suc i \<in> R)"
        using tl unfolding Cons by (metis Suc_less_eq length_Cons nth_Cons_Suc)
      then show ?thesis using "2.IH"(1) [OF True Cons] True y by (simp add: Cons)
    qed (simp add: True)
  qed (use "2.IH"(2) tl in simp)
qed simp

end
