(* ===== verification/Marketmap_Reach.thy ===== *)
theory Marketmap_Reach
  imports Marketmap_Chain
begin

text \<open>
  The states \<open>x/marketmap\<close> and \<open>x/oracle\<close> reach together: a step relation over their messages, the
  price writes and the begin blocker, and the invariant that every stored market is valid, is kept
  under its ticker and is tracked by \<open>x/oracle\<close>.
\<close>

section \<open>The hooks of x/oracle track new markets\<close>

fun calls_oracle :: "hooks \<Rightarrow> bool" where
  "calls_oracle NoopMarketMapHooks = False"
| "calls_oracle OracleHooks = True"
| "calls_oracle (MultiMarketMapHooks hs) = (\<exists>h \<in> set hs. calls_oracle h)"

abbreviation tracked :: "chain \<Rightarrow> string \<Rightarrow> bool" where
  "tracked c t \<equiv> pair_of (ch_oracle c) t \<noteq> None"

definition tracks_more :: "chain \<Rightarrow> chain \<Rightarrow> bool" where
  "tracks_more c d \<longleftrightarrow> (oracle_inv (ch_oracle c) \<longrightarrow> oracle_inv (ch_oracle d) \<and> (\<forall>t. tracked c t \<longrightarrow> tracked d t))"

lemma tracks_more_refl [simp]: "tracks_more c c"
  by (simp add: tracks_more_def)

lemma tracks_more_trans: "tracks_more c d \<Longrightarrow> tracks_more d e \<Longrightarrow> tracks_more c e"
  by (simp add: tracks_more_def)

lemma create_tracks:
  assumes "CreateCurrencyPair cp (ch_oracle c) = (Inr (), s)"
  shows "tracks_more c (c\<lparr>ch_oracle := s\<rparr>)"
    "oracle_inv (ch_oracle c) \<Longrightarrow> kv_get (os_currency_pairs s) (CurrencyPair_String cp) \<noteq> None"
  using create_result(6) [OF assms] keepsD [OF CreateCurrencyPair_keeps _ assms]
  by (auto simp: tracks_more_def oracle_inv_def)

lemma created_tracks:
  "hooks_AfterMarketCreated h m c = (Inr (), d) \<Longrightarrow>
     tracks_more c d \<and> (oracle_inv (ch_oracle c) \<and> calls_oracle h \<longrightarrow> tracked d (ticker_of m))"
  "multi_AfterMarketCreated hs m c = (Inr (), d) \<Longrightarrow>
     tracks_more c d \<and> (oracle_inv (ch_oracle c) \<and> (\<exists>h \<in> set hs. calls_oracle h) \<longrightarrow> tracked d (ticker_of m))"
proof (induction h m and hs m arbitrary: c d and c d
    rule: hooks_AfterMarketCreated_multi_AfterMarketCreated.induct)
  case (2 m)
  then show ?case
    using create_tracks by (auto simp: oracle_AfterMarketCreated_def Ticker_String_def)
next
  case (5 h mh m)
  then obtain e where e: "hooks_AfterMarketCreated h m c = (Inr (), e)"
    "multi_AfterMarketCreated mh m e = (Inr (), d)"
    by (auto simp: comp_Inr)
  then show ?case
    using 5(1) [OF e(1)] 5(2) [OF e(2)] unfolding tracks_more_def by auto
qed (auto simp: comp_Inr)

lemma oracle_genesis_checked:
  "oracle_AfterMarketGenesis mm s = (Inr (), t) \<Longrightarrow>
     t = s \<and> (\<forall>(k, m) \<in> set mm. HasCurrencyPair (tk_currency_pair (mk_ticker m)) s)"
  unfolding oracle_AfterMarketGenesis_def by (rule check_loop_frame)

lemma genesis_tracks:
  "hooks_AfterMarketGenesis h mm c = (Inr (), d) \<Longrightarrow> calls_oracle h \<Longrightarrow> (t, m) \<in> set mm \<Longrightarrow> tracked c (ticker_of m)"
  "multi_AfterMarketGenesis hs mm c = (Inr (), d) \<Longrightarrow> \<exists>h \<in> set hs. calls_oracle h \<Longrightarrow> (t, m) \<in> set mm \<Longrightarrow>
     tracked c (ticker_of m)"
proof (induction h mm and hs mm arbitrary: c d and c d
    rule: hooks_AfterMarketGenesis_multi_AfterMarketGenesis.induct)
  case (2 mm)
  then show ?case
    using oracle_genesis_checked [of mm "ch_oracle c"]
    by (auto simp: HasCurrencyPair_def Ticker_String_def)
next
  case (5 h mh mm)
  then obtain e where e: "hooks_AfterMarketGenesis h mm c = (Inr (), e)"
    "multi_AfterMarketGenesis mh mm e = (Inr (), d)"
    by (auto simp: comp_Inr)
  have "e = c" using genesis_frame e(1) by blast
  then show ?case
    using 5(1) [OF e(1)] 5(2) [OF e(2)] "5.prems"(2,3) by (cases "calls_oracle h") auto
qed auto

section \<open>The invariant of the two modules\<close>

definition chain_inv :: "chain \<Rightarrow> bool" where
  "chain_inv c \<longleftrightarrow> mm_inv (ch_mm c) \<and> oracle_inv (ch_oracle c) \<and>
     (\<forall>t. market_of c t \<noteq> None \<longrightarrow> tracked c t)"

text \<open>One market created or updated keeps it, if the market passes its own validation.\<close>

lemma put_one_inv:
  assumes "chain_inv c" "wrote [m] c d" "is_ok (Market_ValidateBasic m)" "tracks_more c d"
    "tracked d (ticker_of m)"
  shows "chain_inv d"
  using assms by (auto simp: chain_inv_def wrote_def mm_inv_def tracks_more_def)

lemma create_one_inv:
  assumes "create_one k m c = (Inr (), d)" "kp_hooks k = Some h" "calls_oracle h"
    "chain_inv c" "is_ok (Market_ValidateBasic m)"
  shows "chain_inv d"
proof -
  obtain s where s: "hooks_AfterMarketCreated h m (c\<lparr>ch_mm := s\<rparr>) = (Inr (), d)"
    using assms(1,2) by (auto simp: create_one_def comp_Inr call_hooks_Inr)
  show ?thesis
    using created_tracks(1) [OF s] assms(3,4)
    by (intro put_one_inv [OF assms(4) conjunct2 [OF create_one_wrote [OF assms(1)]] assms(5)])
       (auto simp: tracks_more_def chain_inv_def)
qed

lemma upsert_one_inv:
  assumes "upsert_one k m c = (Inr (), d)" "kp_hooks k = Some h" "calls_oracle h"
    "chain_inv c" "is_ok (Market_ValidateBasic m)"
  shows "chain_inv d"
proof (cases "market_of c (ticker_of m)")
  case None
  then obtain s where s: "hooks_AfterMarketCreated h m (c\<lparr>ch_mm := s\<rparr>) = (Inr (), d)"
    using assms(1,2) by (auto simp: upsert_one_def comp_Inr call_hooks_Inr HasMarket_def markets_Has_def)
  show ?thesis
    using created_tracks(1) [OF s] assms(3,4)
    by (intro put_one_inv [OF assms(4) upsert_one_wrote [OF assms(1)] assms(5)])
       (auto simp: tracks_more_def chain_inv_def)
next
  case (Some old)
  then have "ch_oracle d = ch_oracle c"
    using assms(1) by (auto simp: upsert_one_def comp_Inr call_hooks_Inr HasMarket_def markets_Has_def
        dest!: updated_frame)
  then show ?thesis
    using Some assms(4)
    by (intro put_one_inv [OF assms(4) upsert_one_wrote [OF assms(1)] assms(5)])
       (auto simp: tracks_more_def chain_inv_def)
qed

lemma update_one_inv:
  assumes "update_one k m c = (Inr (), d)" "chain_inv c" "is_ok (Market_ValidateBasic m)"
  shows "chain_inv d"
  using update_one_wrote [OF assms(1)] assms(2,3)
  by (intro put_one_inv [of c m d]) (auto simp: tracks_more_def chain_inv_def)

lemma loop_inv:
  assumes "forC ms f c = (Inr (), d)" "chain_inv c" "\<forall>m \<in> set ms. is_ok (Market_ValidateBasic m)"
    "\<And>m c d. f m c = (Inr (), d) \<Longrightarrow> chain_inv c \<Longrightarrow> is_ok (Market_ValidateBasic m) \<Longrightarrow> chain_inv d"
  shows "chain_inv d"
proof -
  have "keeps_ok chain_inv (forC ms f)"
    using assms(3,4) by (intro keeps_ok_forC keeps_okI) auto
  then show ?thesis using assms(2,1) by (rule keeps_okD)
qed

lemma chain_inv_frame:
  "chain_inv c \<Longrightarrow> ch_oracle d = ch_oracle c \<Longrightarrow> ms_markets (ch_mm d) = ms_markets (ch_mm c) \<Longrightarrow> chain_inv d"
  by (simp add: chain_inv_def mm_inv_def)

lemma oracle_only_inv:
  assumes "chain_inv c" "oracle_inv s" "\<forall>t. tracked c t \<longrightarrow> pair_of s t \<noteq> None"
  shows "chain_inv (c\<lparr>ch_oracle := s\<rparr>)"
  using assms by (simp add: chain_inv_def)

lemma set_price_tracks:
  assumes "SetPriceForCurrencyPair cp qp s = (Inr (), t)" "oracle_inv s"
  shows "oracle_inv t" "pair_of s l \<noteq> None \<Longrightarrow> pair_of t l \<noteq> None"
proof -
  show "oracle_inv t" using keepsD [OF SetPriceForCurrencyPair_keeps assms(2,1)] .
  have wf: "kv_wf (os_currency_pairs s)" using assms(2) index_wf by (simp add: oracle_inv_def)
  obtain v where "os_currency_pairs t = kv_set (CurrencyPair_String cp) v (os_currency_pairs s)"
    using assms(1)
    by (auto simp: SetPriceForCurrencyPair_def comp_Inr nextID_Next_def split: sum.splits
        dest!: pairs_Set_fields(1))
  then show "pair_of s l \<noteq> None \<Longrightarrow> pair_of t l \<noteq> None" using wf by simp
qed


section \<open>Steps\<close>

text \<open>
  \<open>x/oracle\<close>'s keeper when it is wired to \<open>x/marketmap\<close>: its \<open>mmKeeper\<close> reads the markets of the
  chain. The messages of \<open>x/oracle\<close> are then disabled, and their steps never happen.
\<close>

definition wired_oracle :: "string \<Rightarrow> chain \<Rightarrow> oracle_keeper" where
  "wired_oracle authority c = \<lparr>ok_authority = authority, ok_mmKeeper = Some (\<lambda>t. GetMarket t (ch_mm c))\<rparr>"

inductive chain_step :: "(string \<Rightarrow> unit res) \<Rightarrow> mm_keeper \<Rightarrow> string \<Rightarrow> chain \<Rightarrow> chain \<Rightarrow> bool"
  for acc k authority where
  create: "MsgCreateMarkets_ValidateBasic acc msg = Inr () \<Longrightarrow>
     CreateMarkets k h (Some msg) c = (Inr (), d) \<Longrightarrow> chain_step acc k authority c d"
| update: "MsgUpdateMarkets_ValidateBasic acc msg = Inr () \<Longrightarrow>
     UpdateMarkets k h (Some msg) c = (Inr (), d) \<Longrightarrow> chain_step acc k authority c d"
| upsert: "MsgUpsertMarkets_ValidateBasic acc msg = Inr () \<Longrightarrow>
     UpsertMarkets k h (Some msg) c = (Inr (), d) \<Longrightarrow> chain_step acc k authority c d"
| remove: "MsgRemoveMarkets_ValidateBasic acc rmsg = Inr () \<Longrightarrow>
     RemoveMarkets k (Some rmsg) c = (Inr ds, d) \<Longrightarrow> chain_step acc k authority c d"
| authorities: "MsgRemoveMarketAuthorities_ValidateBasic acc amsg = Inr () \<Longrightarrow>
     RemoveMarketAuthorities (Some amsg) c = (Inr (), d) \<Longrightarrow> chain_step acc k authority c d"
| params: "MsgParams_ValidateBasic acc pmsg = Inr () \<Longrightarrow>
     UpdateParams k (Some pmsg) c = (Inr (), d) \<Longrightarrow> chain_step acc k authority c d"
| price: "onOracle (SetPriceForCurrencyPair cp qp) c = (Inr (), d) \<Longrightarrow> chain_step acc k authority c d"
| begin_block: "onOracle BeginBlocker c = (Inr (), d) \<Longrightarrow> chain_step acc k authority c d"
| oracle_add: "onOracle (AddCurrencyPairs (wired_oracle authority c) areq) c = (Inr (), d) \<Longrightarrow>
     chain_step acc k authority c d"
| oracle_remove: "onOracle (RemoveCurrencyPairs (wired_oracle authority c) rreq) c = (Inr (), d) \<Longrightarrow>
     chain_step acc k authority c d"

inductive chain_reachable :: "(string \<Rightarrow> unit res) \<Rightarrow> mm_keeper \<Rightarrow> string \<Rightarrow> chain \<Rightarrow> bool"
  for acc k authority where
  genesis: "InitGenesis og empty_oracle_store = (Inr (), s) \<Longrightarrow>
     mm_InitGenesis acc k mg \<lparr>ch_oracle = s, ch_mm = empty_mm_store\<rparr> = (Inr (), c) \<Longrightarrow>
     chain_reachable acc k authority c"
| step: "chain_reachable acc k authority c \<Longrightarrow> chain_step acc k authority c d \<Longrightarrow>
     chain_reachable acc k authority d"

lemma wired_disabled:
  "AddCurrencyPairs (wired_oracle authority c) areq s \<noteq> (Inr (), t)"
  "RemoveCurrencyPairs (wired_oracle authority c) rreq s \<noteq> (Inr (), t)"
  by (auto simp: AddCurrencyPairs_def RemoveCurrencyPairs_def wired_oracle_def comp_Inr
      split: option.splits)

lemma validate_upserts_ok:
  "validate_upserts seen ms = Inr () \<Longrightarrow> m \<in> set ms \<Longrightarrow> is_ok (Market_ValidateBasic m)"
  by (induction seen ms rule: validate_upserts.induct)
    (auto simp: Let_def bind_res_Inr_iff split: if_splits)

lemma msg_markets_ok:
  "MsgCreateMarkets_ValidateBasic acc msg = Inr () \<Longrightarrow> \<forall>m \<in> set (mm_markets msg). is_ok (Market_ValidateBasic m)"
  "MsgUpdateMarkets_ValidateBasic acc msg = Inr () \<Longrightarrow> \<forall>m \<in> set (mm_markets msg). is_ok (Market_ValidateBasic m)"
  "MsgUpsertMarkets_ValidateBasic acc msg = Inr () \<Longrightarrow> \<forall>m \<in> set (mm_markets msg). is_ok (Market_ValidateBasic m)"
  by (auto simp: MsgCreateMarkets_ValidateBasic_def MsgUpdateMarkets_ValidateBasic_def
      MsgUpsertMarkets_ValidateBasic_def bind_res_Inr_iff unit_res_ok each_ok_iff split: if_splits)
     (auto simp: validate_upserts_ok unit_res_ok dest!: validate_upserts_ok)

lemma UpsertMarkets_inv:
  assumes "UpsertMarkets k n (Some msg) c = (Inr (), d)" "kp_hooks k = Some h" "calls_oracle h"
    "chain_inv c" "\<forall>m \<in> set (mm_markets msg). is_ok (Market_ValidateBasic m)"
  shows "chain_inv d"
proof -
  obtain e where e: "forC (mm_markets msg) (upsert_one k) c = (Inr (), e)"
    and d: "ch_oracle d = ch_oracle e" "ms_markets (ch_mm d) = ms_markets (ch_mm e)"
    using assms(1) by (auto simp: UpsertMarkets_def GetAuthority_def marketsOf_def comp_Inr verifyMsg_Inr SetLastUpdated_def)
  have "chain_inv e" by (rule loop_inv [OF e assms(4,5)]) (rule upsert_one_inv [OF _ assms(2,3)])
  then show ?thesis by (rule chain_inv_frame [OF _ d])
qed

lemma CreateMarkets_inv:
  assumes "CreateMarkets k n (Some msg) c = (Inr (), d)" "kp_hooks k = Some h" "calls_oracle h"
    "chain_inv c" "\<forall>m \<in> set (mm_markets msg). is_ok (Market_ValidateBasic m)"
  shows "chain_inv d"
proof -
  obtain e where e: "forC (mm_markets msg) (create_one k) c = (Inr (), e)"
    and d: "ch_oracle d = ch_oracle e" "ms_markets (ch_mm d) = ms_markets (ch_mm e)"
    using assms(1) by (auto simp: CreateMarkets_def GetAuthority_def marketsOf_def comp_Inr verifyMsg_Inr SetLastUpdated_def)
  have "chain_inv e" by (rule loop_inv [OF e assms(4,5)]) (rule create_one_inv [OF _ assms(2,3)])
  then show ?thesis by (rule chain_inv_frame [OF _ d])
qed

lemma UpdateMarkets_inv:
  assumes "UpdateMarkets k n (Some msg) c = (Inr (), d)"
    "chain_inv c" "\<forall>m \<in> set (mm_markets msg). is_ok (Market_ValidateBasic m)"
  shows "chain_inv d"
proof -
  obtain e where e: "forC (mm_markets msg) (update_one k) c = (Inr (), e)"
    and d: "ch_oracle d = ch_oracle e" "ms_markets (ch_mm d) = ms_markets (ch_mm e)"
    using assms(1) by (auto simp: UpdateMarkets_def GetAuthority_def marketsOf_def comp_Inr verifyMsg_Inr SetLastUpdated_def)
  have "chain_inv e" by (rule loop_inv [OF e assms(2,3)]) (rule update_one_inv)
  then show ?thesis by (rule chain_inv_frame [OF _ d])
qed

lemma RemoveMarkets_inv:
  assumes "RemoveMarkets k (Some msg) c = (Inr ds, d)" "chain_inv c"
  shows "chain_inv d"
  using RemoveMarkets_removed [OF assms(1)] assms(2) by (auto simp: chain_inv_def removed_def split: if_splits)

lemma params_frame:
  "RemoveMarketAuthorities amsg c = (Inr (), d) \<Longrightarrow>
     ch_oracle d = ch_oracle c \<and> ms_markets (ch_mm d) = ms_markets (ch_mm c)"
  "UpdateParams k pmsg c = (Inr (), d) \<Longrightarrow>
     ch_oracle d = ch_oracle c \<and> ms_markets (ch_mm d) = ms_markets (ch_mm c)"
  by (auto simp: RemoveMarketAuthorities_def UpdateParams_def SetParams_def comp_Inr Let_def
      split: option.splits if_splits)

lemma chain_step_inv:
  assumes "chain_step acc k authority c d" "kp_hooks k = Some h" "calls_oracle h" "chain_inv c"
  shows "chain_inv d"
  using assms(1)
proof (cases rule: chain_step.cases)
  case (create msg n)
  show ?thesis by (rule CreateMarkets_inv [OF create(2) assms(2-4) msg_markets_ok(1) [OF create(1)]])
next
  case (update msg n)
  show ?thesis by (rule UpdateMarkets_inv [OF update(2) assms(4) msg_markets_ok(2) [OF update(1)]])
next
  case (upsert msg n)
  show ?thesis by (rule UpsertMarkets_inv [OF upsert(2) assms(2-4) msg_markets_ok(3) [OF upsert(1)]])
next
  case (remove rmsg ds)
  show ?thesis by (rule RemoveMarkets_inv [OF remove(2) assms(4)])
next
  case (authorities amsg)
  show ?thesis using params_frame(1) [OF authorities(2)] chain_inv_frame [OF assms(4)] by blast
next
  case (params pmsg)
  show ?thesis using params_frame(2) [OF params(2)] chain_inv_frame [OF assms(4)] by blast
next
  case (price cp qp)
  have "oracle_inv (ch_oracle c)" using assms(4) by (simp add: chain_inv_def)
  then show ?thesis
    using price set_price_tracks by (auto intro!: oracle_only_inv [OF assms(4)])
next
  case begin_block
  have "oracle_inv (ch_oracle c)" using assms(4) by (simp add: chain_inv_def)
  then show ?thesis
    using begin_block by (auto intro!: oracle_only_inv [OF assms(4)] simp: BeginBlocker_def comp_Inr)
next
  case (oracle_add areq)
  then show ?thesis by (simp add: wired_disabled)
next
  case (oracle_remove rreq)
  then show ?thesis by (simp add: wired_disabled)
qed

end
