(* ===== verification/Marketmap_Properties.thy ===== *)
theory Marketmap_Properties
  imports Marketmap_Reach
begin

text \<open>
  The properties of \<open>x/marketmap\<close>: who may change it, what its messages write, when the map stays
  valid and when it does not, that \<open>x/oracle\<close> tracks every market, and how maps are compared,
  validated and cut down to a valid part.
\<close>

section \<open>Authorisation\<close>

text \<open>(C21) Each message of \<open>x/marketmap\<close> is reserved to its signer. Unless its authority is a
  market authority of the stored parameters, each of the four market messages returns an
  error; unless its authority is the keeper's module authority, which the parameters need not
  list, \<open>UpdateParams\<close> does; unless its sender is the admin of the parameters,
  \<open>RemoveMarketAuthorities\<close> does. The error leaves both modules as they were.\<close>

theorem unauthorised_changes_nothing:
  "(\<not> authorised (mm_authority msg) c \<longrightarrow>
      (\<exists>e. CreateMarkets k h (Some msg) c = (Inl e, c)) \<and>
      (\<exists>e. UpdateMarkets k h (Some msg) c = (Inl e, c)) \<and>
      (\<exists>e. UpsertMarkets k h (Some msg) c = (Inl e, c))) \<and>
   (\<not> authorised (rm_authority rmsg) c \<longrightarrow> (\<exists>e. RemoveMarkets k (Some rmsg) c = (Inl e, c))) \<and>
   (mp_authority pmsg \<noteq> kp_authority k \<longrightarrow> (\<exists>e. UpdateParams k (Some pmsg) c = (Inl e, c))) \<and>
   ((\<forall>p. ms_params (ch_mm c) = Some p \<longrightarrow> pr_admin p \<noteq> ra_admin amsg) \<longrightarrow>
      (\<exists>e. RemoveMarketAuthorities (Some amsg) c = (Inl e, c)))"
proof -
  have deny: "\<exists>e. bindC (verifyMsg signer) f c = (Inl e, c)" if "\<not> authorised signer c"
    for signer and f :: "unit \<Rightarrow> (chain, 'r) comp"
    using verifyMsg_denied [OF that] by (auto simp: bindC_def)
  have "\<exists>e. RemoveMarketAuthorities (Some amsg) c = (Inl e, c)"
    if "\<forall>p. ms_params (ch_mm c) = Some p \<longrightarrow> pr_admin p \<noteq> ra_admin amsg"
    using that
    by (cases "ms_params (ch_mm c)")
      (auto simp: RemoveMarketAuthorities_def bindC_def onMM_read GetParams_def item_Get_def throwC_def)
  moreover have "\<exists>e. UpdateParams k (Some pmsg) c = (Inl e, c)" if "mp_authority pmsg \<noteq> kp_authority k"
    using that by (simp add: UpdateParams_def throwC_def)
  ultimately show ?thesis
    using deny [of "mm_authority msg"] deny [of "rm_authority rmsg"]
    unfolding CreateMarkets_def UpdateMarkets_def UpsertMarkets_def RemoveMarkets_def GetAuthority_def
      option.case by blast
qed

definition chain0 :: chain where
  "chain0 = \<lparr>ch_oracle = empty_oracle_store, ch_mm = \<lparr>ms_markets = [], ms_last_updated = Some 0,
     ms_params = Some \<lparr>pr_market_authorities = Some [''alice''], pr_admin = ''gov''\<rparr>\<rparr>\<rparr>"

theorem unauthorised_changes_nothing_witness:
  "\<exists>e. CreateMarkets (NewKeeper ''gov'' []) 7 (Some \<lparr>mm_authority = ''bob'', mm_markets = []\<rparr>) chain0 =
     (Inl e, chain0)"
proof -
  have "\<not> authorised ''bob'' chain0" by (simp add: authorised_def chain0_def)
  then show ?thesis
    using unauthorised_changes_nothing
      [of "\<lparr>mm_authority = ''bob'', mm_markets = []\<rparr>" chain0 "NewKeeper ''gov'' []" 7] by simp
qed

section \<open>Reachable states\<close>

lemma genesis_wrote:
  "forC mm (\<lambda>(_, m). mapErrC to_panic (onMM (CreateMarket m))) c = (Inr (), d) \<Longrightarrow>
     wrote (map snd mm) c d \<and> ch_oracle d = ch_oracle c"
proof (induction mm arbitrary: c)
  case (Cons e mm)
  then obtain u where "onMM (CreateMarket (snd e)) c = (Inr (), u)"
    and u: "forC mm (\<lambda>(_, m). mapErrC to_panic (onMM (CreateMarket m))) u = (Inr (), d)"
    by (auto simp: comp_Inr case_prod_unfold)
  then have "wrote [snd e] c u" "ch_oracle u = ch_oracle c"
    by (auto simp: wrote_def CreateMarket_Inr)
  with Cons.IH [OF u] show ?case by (auto intro: wrote_Cons)
qed (simp add: comp_Inr)

lemma genesis_markets_ok:
  "is_ok (mm_GenesisState_ValidateBasic acc gs) \<Longrightarrow>
     \<forall>(t, m) \<in> set (mg_market_map gs). is_ok (Market_ValidateBasic m) \<and> ticker_of m = t"
  by (auto simp: mm_GenesisState_ValidateBasic_def MarketMap_ok_iff unit_res_ok)

lemma mm_InitGenesis_inv:
  assumes "mm_InitGenesis acc k gs c = (Inr (), d)" "ch_mm c = empty_mm_store" "oracle_inv (ch_oracle c)"
    "kp_hooks k = Some h" "calls_oracle h"
  shows "chain_inv d"
proof -
  let ?mm = "mg_market_map gs"
  obtain e where ok: "is_ok (mm_GenesisState_ValidateBasic acc gs)"
    and e: "forC ?mm (\<lambda>(_, m). mapErrC to_panic (onMM (CreateMarket m))) c = (Inr (), e)"
    and run: "hooks_AfterMarketGenesis h ?mm (e\<lparr>ch_mm := (ch_mm e)\<lparr>
        ms_last_updated := Some (mg_last_updated gs), ms_params := Some (params_codec (mg_params gs))\<rparr>\<rparr>) =
        (Inr (), d)"
    using assms(1,4) by (auto simp: mm_InitGenesis_def comp_Inr unit_res_ok SetLastUpdated_def SetParams_def)
  define f where "f = e\<lparr>ch_mm := (ch_mm e)\<lparr>
    ms_last_updated := Some (mg_last_updated gs), ms_params := Some (params_codec (mg_params gs))\<rparr>\<rparr>"
  have hook: "hooks_AfterMarketGenesis h ?mm f = (Inr (), d)" using run by (simp add: f_def)
  have f: "ch_oracle f = ch_oracle e" "ms_markets (ch_mm f) = ms_markets (ch_mm e)"
    by (simp_all add: f_def)
  have d: "d = f" using genesis_frame hook by blast
  have markets: "ms_markets (ch_mm e) = put_markets (map snd ?mm) []" "ch_oracle e = ch_oracle c"
    using genesis_wrote [OF e] assms(2) by (simp_all add: wrote_def empty_mm_store_def)
  have stored: "m \<in> snd ` set ?mm \<and> ticker_of m = t" if "market_of f t = Some m" for t m
    using put_markets_cases [of "[]" "map snd ?mm" t m] that by (auto simp: f markets)
  have "chain_inv f"
    unfolding chain_inv_def mm_inv_def
  proof (intro conjI allI impI)
    show "kv_wf (ms_markets (ch_mm f))" by (simp add: f markets put_markets_wf)
    show "oracle_inv (ch_oracle f)" using assms(3) by (simp add: f markets)
    fix t
    show "tracked f t" if "market_of f t \<noteq> None"
      using that stored genesis_tracks(1) [OF hook assms(5)] by fastforce
  next
    fix t m assume "market_of f t = Some m"
    then show "ticker_of m = t" "is_ok (Market_ValidateBasic m)"
      using stored genesis_markets_ok [OF ok] by fastforce+
  qed
  then show ?thesis by (simp add: d)
qed

lemma chain_reachable_inv:
  assumes "chain_reachable acc k authority c" "kp_hooks k = Some h" "calls_oracle h"
  shows "chain_inv c"
  using assms(1)
proof induction
  case (genesis og s mg c)
  have "oracle_inv s" using InitGenesis_inv [OF genesis(1) oracle_inv_empty] .
  then show ?case by (intro mm_InitGenesis_inv [OF genesis(2) _ _ assms(2,3)]) simp_all
next
  case (step c d)
  then show ?case using chain_step_inv [OF _ assms(2,3)] by blast
qed

text \<open>(C20) In every state the two modules reach with the hooks of \<open>x/oracle\<close> registered, every stored
  market is kept under its own ticker, passes its validation, and \<open>x/oracle\<close> tracks its pair; the
  indexes of \<open>x/oracle\<close> are consistent.\<close>

theorem reachable_markets_tracked:
  assumes "chain_reachable acc k authority c" "kp_hooks k = Some h" "calls_oracle h"
  shows "oracle_inv (ch_oracle c) \<and>
    (\<forall>t m. GetMarket t (ch_mm c) = Inr m \<longrightarrow>
       ticker_of m = t \<and> is_ok (Market_ValidateBasic m) \<and>
       HasCurrencyPair (tk_currency_pair (mk_ticker m)) (ch_oracle c))"
  using chain_reachable_inv [OF assms]
  by (fastforce simp: chain_inv_def mm_inv_def GetMarket_def item_Get_def HasCurrencyPair_iff Ticker_String_def
      split: option.splits)

definition oracle_hooked :: mm_keeper where
  "oracle_hooked = NewKeeper ''gov'' [WithHooks (Some (MultiMarketMapHooks [OracleHooks]))]"

definition btc_market :: market where
  "btc_market = \<lparr>mk_ticker = NewTicker ''BTC'' ''USD'' 8 1 False,
     mk_provider_configs = [\<lparr>pc_name = ''a'', pc_off_chain_ticker = ''b'', pc_normalize_by_pair = None,
       pc_invert = False, pc_metadata_json = []\<rparr>]\<rparr>"

definition mm_genesis0 :: mm_genesis where
  "mm_genesis0 = \<lparr>mg_market_map = [(''BTC/USD'', btc_market)], mg_last_updated = 0,
     mg_params = \<lparr>pr_market_authorities = Some [''alice''], pr_admin = ''gov''\<rparr>\<rparr>"

definition chain1 :: chain where
  "chain1 = \<lparr>ch_oracle = store0, ch_mm = \<lparr>ms_markets = [(''BTC/USD'', btc_market)],
     ms_last_updated = Some 0, ms_params = Some (mg_params mm_genesis0)\<rparr>\<rparr>"

lemma btc_market_valid: "Market_ValidateBasic btc_market = Inr ()" "ticker_of btc_market = ''BTC/USD''"
proof -
  have t: "mk_ticker btc_market = \<lparr>tk_currency_pair = btc_usd, tk_decimals = 8, tk_min_provider_count = 1,
      tk_enabled = False, tk_metadata_json = []\<rparr>"
    by code_simp
  have "Ticker_ValidateBasic (mk_ticker btc_market) = Inr ()"
    by (simp add: t Ticker_ValidateBasic_def DefaultMaxDecimals_def DefaultMinProviderCount_def
        MaxMetadataJSONFieldLength_def btc_usd_valid)
  then show "Market_ValidateBasic btc_market = Inr ()"
    by (simp add: Market_ValidateBasic_def t)
      (simp add: btc_market_def ProviderConfig_ValidateBasic_def MaxMetadataJSONFieldLength_def)
  show "ticker_of btc_market = ''BTC/USD''" by (simp add: t Ticker_String_def btc_usd_valid)
qed

lemma chain1_reachable: "chain_reachable (\<lambda>_. Inr ()) oracle_hooked ''gov'' chain1"
proof (rule chain_reachable.genesis [OF init_store0])
  have cp: "tk_currency_pair (mk_ticker btc_market) = btc_usd" by code_simp
  have h: "kp_hooks oracle_hooked = Some (MultiMarketMapHooks [OracleHooks])" by code_simp
  have "HasCurrencyPair btc_usd store0"
    by (simp add: HasCurrencyPair_def btc_usd_valid store0_def kv_get_def)
  moreover have "is_ok (mm_GenesisState_ValidateBasic (\<lambda>_. Inr ()) mm_genesis0)"
    by (simp add: mm_GenesisState_ValidateBasic_def mm_genesis0_def MarketMap_ok_iff
        btc_market_valid Params_ValidateBasic_def norm_ok_def unit_res_ok)
      (simp add: btc_market_def)
  ultimately show "mm_InitGenesis (\<lambda>_. Inr ()) oracle_hooked mm_genesis0
      \<lparr>ch_oracle = store0, ch_mm = empty_mm_store\<rparr> = (Inr (), chain1)"
    by (simp add: mm_InitGenesis_def h comp_simps bindC_def mapErrC_def onMM_def onOracle_def unit_res_ok [symmetric]
        CreateMarket_def markets_Has_def empty_mm_store_def setMarket_def SetLastUpdated_def SetParams_def
        params_codec_def oracle_AfterMarketGenesis_def cp chain1_def mm_genesis0_def btc_market_valid)
qed

theorem reachable_markets_tracked_witness:
  "GetMarket ''BTC/USD'' (ch_mm chain1) = Inr btc_market \<and> HasCurrencyPair btc_usd (ch_oracle chain1)"
proof -
  have m: "GetMarket ''BTC/USD'' (ch_mm chain1) = Inr btc_market"
    by (simp add: GetMarket_def chain1_def item_Get_def kv_get_def)
  have cp: "tk_currency_pair (mk_ticker btc_market) = btc_usd" by code_simp
  have h: "kp_hooks oracle_hooked = Some (MultiMarketMapHooks [OracleHooks])" by code_simp
  show ?thesis
    using reachable_markets_tracked [OF chain1_reachable h] m cp by fastforce
qed

end
