(* ===== verification/Marketmap_Validity.thy ===== *)
theory Marketmap_Validity
  imports Marketmap_Properties
begin

text \<open>
  When the messages of \<open>x/marketmap\<close> keep the whole map valid and when they do not, what a removal
  does and what it makes impossible, and the operations on market maps.
\<close>

section \<open>Messages that keep the map valid\<close>

lemma CreateMarkets_new:
  assumes "CreateMarkets k h (Some msg) c = (Inr (), d)" "mm_inv (ch_mm c)" "m \<in> set (mm_markets msg)"
  shows "market_of c (ticker_of m) = None"
  using assms create_loop_new [of "mm_markets msg" k c _ m]
  by (auto simp: CreateMarkets_def GetAuthority_def marketsOf_def comp_Inr verifyMsg_Inr mm_inv_def)

text \<open>(C22) On a valid map, \<open>CreateMarkets\<close> of valid markets leads to a valid map, and so do
  \<open>UpdateMarkets\<close> and \<open>UpsertMarkets\<close> provided that no market of the message is disabled that
  was enabled (\<open>update_can_break_map\<close> below shows that this is needed); the message's markets
  are then the stored ones and the block height is recorded. \<open>RemoveMarkets\<close>, which validates what is
  left, always leads to a valid map, without the markets of the message and with the others as they were.\<close>

theorem market_messages_keep_valid:
  assumes "mm_inv (ch_mm c)" "map_valid (ch_mm c)"
    "\<forall>m \<in> set (mm_markets msg). is_ok (Market_ValidateBasic m)"
  shows "(CreateMarkets k h (Some msg) c = (Inr (), d) \<longrightarrow>
      map_valid (ch_mm d) \<and> ms_last_updated (ch_mm d) = Some h \<and>
      ms_markets (ch_mm d) = put_markets (mm_markets msg) (ms_markets (ch_mm c))) \<and>
    ((\<forall>m \<in> set (mm_markets msg). \<forall>old. market_of c (ticker_of m) = Some old \<and> enabled old \<longrightarrow> enabled m) \<longrightarrow>
      (UpdateMarkets k h (Some msg) c = (Inr (), d) \<or> UpsertMarkets k h (Some msg) c = (Inr (), d)) \<longrightarrow>
      map_valid (ch_mm d) \<and> ms_last_updated (ch_mm d) = Some h \<and>
      ms_markets (ch_mm d) = put_markets (mm_markets msg) (ms_markets (ch_mm c))) \<and>
    (RemoveMarkets k (Some rmsg) c = (Inr ds, e) \<longrightarrow>
      map_valid (ch_mm e) \<and>
      (\<forall>t. market_of e t = (if t \<in> set (rm_markets rmsg) then None else market_of c t)))"
proof -
  have valid: "map_valid (ch_mm d) \<and> ms_last_updated (ch_mm d) = Some h \<and>
      ms_markets (ch_mm d) = put_markets (mm_markets msg) (ms_markets (ch_mm c))"
    if "stamped h (mm_markets msg) c d"
      "\<forall>m \<in> set (mm_markets msg). \<forall>old. market_of c (ticker_of m) = Some old \<and> enabled old \<longrightarrow> enabled m"
    using stamped_valid [OF assms(1,2) that(1) assms(3) that(2)] that(1) by (simp add: stamped_def)
  have "map_valid (ch_mm e) \<and>
      (\<forall>t. market_of e t = (if t \<in> set (rm_markets rmsg) then None else market_of c t))"
    if "RemoveMarkets k (Some rmsg) c = (Inr ds, e)"
    using RemoveMarkets_removed [OF that assms(1)] by (simp add: removed_def)
  moreover have "CreateMarkets k h (Some msg) c = (Inr (), d) \<longrightarrow>
      map_valid (ch_mm d) \<and> ms_last_updated (ch_mm d) = Some h \<and>
      ms_markets (ch_mm d) = put_markets (mm_markets msg) (ms_markets (ch_mm c))"
    using valid CreateMarkets_stamped CreateMarkets_new [OF _ assms(1)]
    by (metis (no_types, lifting) option.distinct(1))
  ultimately show ?thesis
    using valid UpdateMarkets_stamped UpsertMarkets_stamped by blast
qed

lemma chain0_valid: "mm_inv (ch_mm chain0)" "map_valid (ch_mm chain0)"
  by (simp_all add: mm_inv_def map_valid_def GetAllMarkets_def chain0_def kv_get_def kv_wf_def
      MarketMap_ok_iff)

lemma noop_hooks: "kp_hooks (NewKeeper ''gov'' []) = Some NoopMarketMapHooks"
  "kp_delete_hooks (NewKeeper ''gov'' []) = DefaultDeleteMarketValidationHooks"
  by (simp_all add: NewKeeper_def)

lemma alice_chain0: "verifyMarketAuthorities ''alice'' (ch_mm chain0) = Inr ()"
  by (simp add: verifyMarketAuthorities_iff authorised_def) (simp add: chain0_def)

theorem market_messages_keep_valid_witness:
  "\<exists>d. CreateMarkets (NewKeeper ''gov'' []) 7 (Some \<lparr>mm_authority = ''alice'', mm_markets = [btc_market]\<rparr>) chain0 =
     (Inr (), d) \<and> map_valid (ch_mm d) \<and> ms_last_updated (ch_mm d) = Some 7"
proof -
  let ?msg = "\<lparr>mm_authority = ''alice'', mm_markets = [btc_market]\<rparr>"
  have pcs: "\<forall>pc \<in> set (mk_provider_configs btc_market). pc_normalize_by_pair pc = None"
    by (simp add: btc_market_def)
  have "ValidateState [btc_market] s = Inr ()" for s
    using pcs by (simp add: ValidateState_iff norm_ok_def)
  then have "\<exists>d. CreateMarkets (NewKeeper ''gov'' []) 7 (Some ?msg) chain0 = (Inr (), d)"
    by (simp add: CreateMarkets_def verifyMsg_def GetAuthority_def onMM_def bindC_def mapErrC_def readC_def
        alice_chain0 marketsOf_def create_one_def CreateMarket_def markets_Has_def call_hooks_def noop_hooks
        setMarket_def modifyC_def returnC_def SetLastUpdated_def)
      (simp add: chain0_def kv_get_def)
  then obtain d where d: "CreateMarkets (NewKeeper ''gov'' []) 7 (Some ?msg) chain0 = (Inr (), d)" by blast
  have ok: "\<forall>m \<in> set (mm_markets ?msg). is_ok (Market_ValidateBasic m)"
    by (simp add: btc_market_valid)
  show ?thesis
    using conjunct1 [OF market_messages_keep_valid [OF chain0_valid ok], rule_format, OF d] d by blast
qed

section \<open>An update that leaves the map invalid\<close>

definition usdt_usd :: currency_pair where "usdt_usd = NewCurrencyPair ''USDT'' ''USD''"

definition plain_config :: "currency_pair option \<Rightarrow> provider_config" where
  "plain_config norm = \<lparr>pc_name = ''a'', pc_off_chain_ticker = ''b'', pc_normalize_by_pair = norm,
     pc_invert = False, pc_metadata_json = []\<rparr>"

definition usdt_market :: "bool \<Rightarrow> market" where
  "usdt_market on = \<lparr>mk_ticker = \<lparr>tk_currency_pair = usdt_usd, tk_decimals = 8, tk_min_provider_count = 1,
     tk_enabled = on, tk_metadata_json = []\<rparr>, mk_provider_configs = [plain_config None]\<rparr>"

definition normalized_market :: market where
  "normalized_market = \<lparr>mk_ticker = \<lparr>tk_currency_pair = btc_usd, tk_decimals = 8, tk_min_provider_count = 1,
     tk_enabled = True, tk_metadata_json = []\<rparr>, mk_provider_configs = [plain_config (Some usdt_usd)]\<rparr>"

definition chain2 :: chain where
  "chain2 = \<lparr>ch_oracle = empty_oracle_store, ch_mm = \<lparr>
     ms_markets = [(''BTC/USD'', normalized_market), (''USDT/USD'', usdt_market True)],
     ms_last_updated = Some 0,
     ms_params = Some \<lparr>pr_market_authorities = Some [''alice''], pr_admin = ''gov''\<rparr>\<rparr>\<rparr>"

definition disable_usdt :: msg_markets where
  "disable_usdt = \<lparr>mm_authority = ''alice'', mm_markets = [usdt_market False]\<rparr>"

definition chain3 :: chain where
  "chain3 = chain2\<lparr>ch_mm := (ch_mm chain2)\<lparr>ms_last_updated := Some 7,
     ms_markets := [(''BTC/USD'', normalized_market), (''USDT/USD'', usdt_market False)]\<rparr>\<rparr>"

lemma usdt_usd_facts: "ValidateBasic usdt_usd = Inr ()" "CurrencyPair_String usdt_usd = ''USDT/USD''"
  by code_simp+

lemma example_markets:
  "Market_ValidateBasic (usdt_market on) = Inr ()" "Market_ValidateBasic normalized_market = Inr ()"
  "ticker_of (usdt_market on) = ''USDT/USD''" "ticker_of normalized_market = ''BTC/USD''"
  by (simp_all add: Market_ValidateBasic_def usdt_market_def normalized_market_def Ticker_ValidateBasic_def
      plain_config_def ProviderConfig_ValidateBasic_def DefaultMaxDecimals_def DefaultMinProviderCount_def
      MaxMetadataJSONFieldLength_def usdt_usd_facts btc_usd_valid Ticker_String_def)

lemma chain2_inv: "mm_inv (ch_mm chain2)" "mm_inv (ch_mm chain3)"
  by (auto simp: mm_inv_def chain2_def chain3_def kv_wf_def kv_get_def example_markets split: if_splits)

lemma example_norm:
  "norm_ok look (usdt_market on)"
  "norm_ok look normalized_market \<longleftrightarrow> (\<exists>n. look ''USDT/USD'' = Some n \<and> enabled n)"
  by (simp_all add: norm_ok_def usdt_market_def normalized_market_def plain_config_def usdt_usd_facts)

lemma usdt_enabled [simp]: "enabled (usdt_market on) = on"
  by (simp add: usdt_market_def)

lemma chain2_valid: "map_valid (ch_mm chain2)"
  unfolding map_valid_iff [OF chain2_inv(1)]
  by (auto simp: chain2_def kv_get_def example_norm split: if_splits)

lemma chain3_invalid: "\<not> map_valid (ch_mm chain3)"
proof -
  have "kv_get (ms_markets (ch_mm chain3)) ''BTC/USD'' = Some normalized_market"
    by (simp add: chain3_def kv_get_def)
  moreover have "\<not> norm_ok (kv_get (ms_markets (ch_mm chain3))) normalized_market"
    by (simp add: example_norm) (simp add: chain3_def kv_get_def)
  ultimately show ?thesis unfolding map_valid_iff [OF chain2_inv(2)] by blast
qed

lemma disable_runs: "UpdateMarkets (NewKeeper ''gov'' []) 7 (Some disable_usdt) chain2 = (Inr (), chain3)"
proof -
  have "verifyMarketAuthorities ''alice'' (ch_mm chain2) = Inr ()"
    by (simp add: verifyMarketAuthorities_iff authorised_def) (simp add: chain2_def)
  moreover have "ValidateState [usdt_market False] s = Inr ()" for s
    by (simp add: ValidateState_iff example_norm)
  ultimately show ?thesis
    by (simp add: UpdateMarkets_def verifyMsg_def GetAuthority_def disable_usdt_def onMM_def bindC_def mapErrC_def
        readC_def marketsOf_def update_one_def UpdateMarket_def markets_Has_def call_hooks_def noop_hooks
        setMarket_def modifyC_def returnC_def SetLastUpdated_def example_markets)
      (simp add: chain2_def chain3_def kv_get_def)
qed

text \<open>\<open>UpdateMarkets\<close> checks the markets of its message only: on a valid map with an enabled
  market that normalizes by another one, a valid message that disables the other one succeeds, the
  stored map no longer passes \<open>ValidateBasic\<close>, and from then on \<open>RemoveMarkets\<close> of any other market
  fails.\<close>

theorem update_can_break_map:
  assumes ts: "''BTC/USD'' \<notin> set ts"
  shows "map_valid (ch_mm chain2) \<and> MsgUpdateMarkets_ValidateBasic (\<lambda>_. Inr ()) disable_usdt = Inr () \<and>
   UpdateMarkets (NewKeeper ''gov'' []) 7 (Some disable_usdt) chain2 = (Inr (), chain3) \<and>
   \<not> map_valid (ch_mm chain3) \<and>
   RemoveMarkets (NewKeeper ''gov'' []) (Some \<lparr>rm_authority = ''alice'', rm_markets = ts\<rparr>) chain3 \<noteq> (Inr ds, d)"
proof (intro conjI chain2_valid disable_runs chain3_invalid)
  show "MsgUpdateMarkets_ValidateBasic (\<lambda>_. Inr ()) disable_usdt = Inr ()"
    by (simp add: MsgUpdateMarkets_ValidateBasic_def disable_usdt_def example_markets)
  show "RemoveMarkets (NewKeeper ''gov'' []) (Some \<lparr>rm_authority = ''alice'', rm_markets = ts\<rparr>) chain3 \<noteq> (Inr ds, d)"
  proof
    assume r: "RemoveMarkets (NewKeeper ''gov'' []) (Some \<lparr>rm_authority = ''alice'', rm_markets = ts\<rparr>) chain3 = (Inr ds, d)"
    have rem: "removed (NewKeeper ''gov'' []) ts chain3 ds d" and inv: "mm_inv (ch_mm d)"
      and ok: "map_valid (ch_mm d)"
      using RemoveMarkets_removed [OF r chain2_inv(2)] by simp_all
    have get: "market_of d t = (if t \<in> set ts then None else market_of chain3 t)" for t
      using rem by (simp add: removed_def)
    have "market_of d ''BTC/USD'' = Some normalized_market"
      using ts by (simp add: get) (simp add: chain3_def kv_get_def)
    then have "norm_ok (market_of d) normalized_market"
      using ok map_valid_iff [OF inv] by blast
    then show False
      by (auto simp: example_norm get split: if_splits) (auto simp: chain3_def kv_get_def)
  qed
qed

theorem update_can_break_map_witness:
  "\<not> map_valid (ch_mm chain3) \<and>
   fst (RemoveMarkets (NewKeeper ''gov'' []) (Some \<lparr>rm_authority = ''alice'', rm_markets = [''ETH/USD'']\<rparr>) chain3)
     \<noteq> Inr []"
  using update_can_break_map [of "[''ETH/USD'']" "[]"] by (auto simp: prod_eq_iff)


section \<open>Removals\<close>

lemma default_delete_hooks:
  "ValidateMarket DefaultDeleteMarketValidationHooks m = Inr () \<longleftrightarrow> \<not> enabled m"
  by (simp add: ValidateMarket_def DefaultDeleteMarketValidationHooks_def
      DefaultDeleteMarketValidationHook_def)

text \<open>A successful \<open>RemoveMarkets\<close> deletes exactly the stored markets it names, each once in its
  answer; with the default hooks none of them was enabled; every other market, the recorded height,
  the parameters and \<open>x/oracle\<close> are left alone, and the whole remaining map is valid.\<close>

theorem remove_markets_spec:
  assumes "RemoveMarkets k (Some msg) c = (Inr ds, d)" "mm_inv (ch_mm c)"
  shows "authorised (rm_authority msg) c \<and>
    set ds = {t \<in> set (rm_markets msg). market_of c t \<noteq> None} \<and> distinct ds \<and>
    (\<forall>t. market_of d t = (if t \<in> set (rm_markets msg) then None else market_of c t)) \<and>
    (kp_delete_hooks k = DefaultDeleteMarketValidationHooks \<longrightarrow>
       (\<forall>t \<in> set ds. \<forall>m. market_of c t = Some m \<longrightarrow> \<not> enabled m)) \<and>
    ch_oracle d = ch_oracle c \<and> ms_last_updated (ch_mm d) = ms_last_updated (ch_mm c) \<and>
    ms_params (ch_mm d) = ms_params (ch_mm c) \<and> map_valid (ch_mm d)"
  using RemoveMarkets_removed [OF assms] by (auto simp: removed_def default_delete_hooks)

definition chain1_removed :: chain where
  "chain1_removed = chain1\<lparr>ch_mm := (ch_mm chain1)\<lparr>ms_markets := []\<rparr>\<rparr>"

definition remove_btc :: msg_remove_markets where
  "remove_btc = \<lparr>rm_authority = ''alice'', rm_markets = [''BTC/USD'']\<rparr>"

lemma hooked: "kp_hooks oracle_hooked = Some (MultiMarketMapHooks [OracleHooks])"
  "kp_delete_hooks oracle_hooked = DefaultDeleteMarketValidationHooks"
  by (simp_all add: oracle_hooked_def NewKeeper_def WithHooks_def)

lemma remove_btc_runs: "RemoveMarkets oracle_hooked (Some remove_btc) chain1 = (Inr [''BTC/USD''], chain1_removed)"
proof -
  have "verifyMarketAuthorities ''alice'' (ch_mm chain1) = Inr ()"
    by (simp add: verifyMarketAuthorities_iff authorised_def) (simp add: chain1_def mm_genesis0_def)
  moreover have "\<not> enabled btc_market" by code_simp
  then have "ValidateMarket DefaultDeleteMarketValidationHooks btc_market = Inr ()"
    by (simp add: default_delete_hooks)
  moreover have get: "kv_get (ms_markets (ch_mm chain1)) ''BTC/USD'' = Some btc_market"
    "kv_del ''BTC/USD'' (ms_markets (ch_mm chain1)) = []"
    by (simp_all add: chain1_def kv_get_def kv_del_def)
  ultimately show ?thesis
    by (simp add: RemoveMarkets_def remove_btc_def verifyMsg_def onMM_def bindC_def mapErrC_def readC_def
        remove_one_def DeleteMarket_def GetMarket_def item_Get_def liftC_def modifyC_def returnC_def hooked
        call_hooks_def onOracle_def oracle_AfterMarketRemoved_def btc_market_valid
        GetAllMarkets_def MarketMap_ValidateBasic_def)
      (simp add: chain1_removed_def)
qed

lemma chain1_inv: "chain_inv chain1"
  by (rule chain_reachable_inv [OF chain1_reachable hooked(1)]) simp

theorem remove_markets_spec_witness:
  "RemoveMarkets oracle_hooked (Some remove_btc) chain1 = (Inr [''BTC/USD''], chain1_removed) \<and>
   map_valid (ch_mm chain1_removed) \<and> authorised ''alice'' chain1"
proof -
  have "mm_inv (ch_mm chain1)" using chain1_inv by (simp add: chain_inv_def)
  from remove_markets_spec [OF remove_btc_runs this] show ?thesis
    using remove_btc_runs by (simp add: remove_btc_def)
qed

lemma created_was_untracked:
  "hooks_AfterMarketCreated h m c = (Inr (), d) \<Longrightarrow> calls_oracle h \<Longrightarrow> oracle_inv (ch_oracle c) \<Longrightarrow>
     \<not> tracked c (ticker_of m)"
  "multi_AfterMarketCreated hs m c = (Inr (), d) \<Longrightarrow> \<exists>h \<in> set hs. calls_oracle h \<Longrightarrow> oracle_inv (ch_oracle c) \<Longrightarrow>
     \<not> tracked c (ticker_of m)"
proof (induction h m and hs m arbitrary: c d and c d
    rule: hooks_AfterMarketCreated_multi_AfterMarketCreated.induct)
  case (2 m)
  then show ?case
    by (auto simp: oracle_AfterMarketCreated_def CreateCurrencyPair_def HasCurrencyPair_def Ticker_String_def
        split: if_splits)
next
  case (5 h mh m)
  then obtain e where e: "hooks_AfterMarketCreated h m c = (Inr (), e)"
    "multi_AfterMarketCreated mh m e = (Inr (), d)"
    by (auto simp: comp_Inr)
  have more: "tracks_more c e" using created_tracks(1) [OF e(1)] by blast
  show ?case
  proof (cases "calls_oracle h")
    case True
    then show ?thesis using 5(1) [OF e(1)] "5.prems"(3) by blast
  next
    case False
    then have "\<not> tracked e (ticker_of m)"
      using 5(2) [OF e(2)] "5.prems"(2,3) more by (auto simp: tracks_more_def)
    then show ?thesis using more "5.prems"(3) by (auto simp: tracks_more_def)
  qed
qed auto

lemma upsert_tracks:
  assumes "upsert_one k m c = (Inr (), d)" "kp_hooks k = Some h" "calls_oracle h" "oracle_inv (ch_oracle c)"
  shows "tracks_more c d" "market_of c (ticker_of m) = None \<Longrightarrow> \<not> tracked c (ticker_of m)"
proof -
  show "tracks_more c d"
  proof (cases "market_of c (ticker_of m)")
    case None
    then obtain s where s: "hooks_AfterMarketCreated h m (c\<lparr>ch_mm := s\<rparr>) = (Inr (), d)"
      using assms(1,2) by (auto simp: upsert_one_def comp_Inr call_hooks_Inr HasMarket_def markets_Has_def)
    then show ?thesis using created_tracks(1) [OF s] by (simp add: tracks_more_def)
  next
    case (Some old)
    then have "ch_oracle d = ch_oracle c"
      using assms(1) by (auto simp: upsert_one_def comp_Inr call_hooks_Inr HasMarket_def markets_Has_def
          dest!: updated_frame)
    then show ?thesis by (simp add: tracks_more_def)
  qed
  assume "market_of c (ticker_of m) = None"
  then obtain s where s: "hooks_AfterMarketCreated h m (c\<lparr>ch_mm := s\<rparr>) = (Inr (), d)"
    using assms(1,2) by (auto simp: upsert_one_def comp_Inr call_hooks_Inr HasMarket_def markets_Has_def)
  show "\<not> tracked c (ticker_of m)"
    using created_was_untracked(1) [OF s assms(3)] assms(4) by simp
qed

lemma create_upsert: "create_one k m c = (Inr (), d) \<Longrightarrow> upsert_one k m c = (Inr (), d)"
  by (auto simp: create_one_def upsert_one_def comp_Inr CreateMarket_Inr HasMarket_def markets_Has_def)

lemma upsert_loop_untracked:
  "forC ms (upsert_one k) c = (Inr (), d) \<Longrightarrow> kp_hooks k = Some h \<Longrightarrow> calls_oracle h \<Longrightarrow>
     oracle_inv (ch_oracle c) \<Longrightarrow> kv_wf (ms_markets (ch_mm c)) \<Longrightarrow> t \<in> ticker_of ` set ms \<Longrightarrow>
     market_of c t = None \<Longrightarrow> \<not> tracked c t"
proof (induction ms arbitrary: c)
  case (Cons m ms)
  then obtain e where e: "upsert_one k m c = (Inr (), e)" "forC ms (upsert_one k) e = (Inr (), d)"
    by (auto simp: comp_Inr)
  note up = upsert_tracks [OF e(1) Cons.prems(2-4)]
  have w: "wrote [m] c e" by (rule upsert_one_wrote [OF e(1)])
  show ?case
  proof (cases "ticker_of m = t")
    case True
    then show ?thesis using up(2) Cons.prems(7) by blast
  next
    case False
    then have "market_of e t = None" "kv_wf (ms_markets (ch_mm e))"
      using w Cons.prems(5,7) by (auto simp: wrote_def)
    then have "\<not> tracked e t"
      using Cons.IH [OF e(2) Cons.prems(2,3)] up(1) Cons.prems(4,6) False by (auto simp: tracks_more_def)
    then show ?thesis using up(1) Cons.prems(4) by (auto simp: tracks_more_def)
  qed
qed simp

lemma create_loop_upserts: "forC ms (create_one k) c = (Inr (), d) \<Longrightarrow> forC ms (upsert_one k) c = (Inr (), d)"
  by (induction ms arbitrary: c) (auto simp: comp_Inr dest!: create_upsert)

text \<open>A removed market cannot come back: \<open>x/oracle\<close> keeps its pair, \<open>AfterMarketCreated\<close> of its
  hooks fails on a tracked pair, and so \<open>CreateMarkets\<close> and \<open>UpsertMarkets\<close> of that ticker fail.\<close>

theorem removed_market_cannot_return:
  assumes "chain_inv c" "RemoveMarkets k (Some rmsg) c = (Inr ds, d)" "t \<in> set ds"
    "kp_hooks k = Some h" "calls_oracle h" "t \<in> ticker_of ` set (mm_markets msg)"
  shows "CreateMarkets k n (Some msg) d \<noteq> (Inr (), e) \<and> UpsertMarkets k n (Some msg) d \<noteq> (Inr (), e)"
proof -
  have "mm_inv (ch_mm c)" using assms(1) by (simp add: chain_inv_def)
  note rem = remove_all_removed RemoveMarkets_removed [OF assms(2) this]
  have gone: "market_of d t = None" and kept: "tracked d t"
    using rem assms(1,3) by (auto simp: removed_def chain_inv_def)
  have inv: "oracle_inv (ch_oracle d)" "kv_wf (ms_markets (ch_mm d))"
    using RemoveMarkets_inv [OF assms(2,1)] by (simp_all add: chain_inv_def mm_inv_def)
  have fails: "forC (mm_markets msg) (upsert_one k) d \<noteq> (Inr (), u)" for u
    using upsert_loop_untracked [OF _ assms(4,5) inv assms(6) gone] kept by blast
  then have "forC (mm_markets msg) (create_one k) d \<noteq> (Inr (), u)" for u
    using create_loop_upserts by blast
  with fails show ?thesis
    by (auto simp: CreateMarkets_def UpsertMarkets_def GetAuthority_def marketsOf_def comp_Inr verifyMsg_Inr)
qed

theorem removed_market_cannot_return_witness:
  "\<forall>e. CreateMarkets oracle_hooked 9 (Some \<lparr>mm_authority = ''alice'', mm_markets = [btc_market]\<rparr>)
     chain1_removed \<noteq> (Inr (), e)"
  using removed_market_cannot_return [OF chain1_inv remove_btc_runs _ hooked(1),
      of "''BTC/USD''" "\<lparr>mm_authority = ''alice'', mm_markets = [btc_market]\<rparr>" 9]
  by (simp add: btc_market_valid)

end
