(* ===== verification/Marketmap_Maps.thy ===== *)
theory Marketmap_Maps
  imports Marketmap_Validity
begin

text \<open>
  The removal of authorities, the export and import of the module's state, and the pure operations on
  market maps: the valid subset, equality, and independence of Go's map iteration order.
\<close>

section \<open>Authorities\<close>

text \<open>\<open>RemoveMarketAuthorities\<close> by the admin leaves \<open>delete_skipping\<close>: an authority to remove is
  kept when it directly follows one that was removed, so the message does what it says only if no two
  neighbours are to be removed.\<close>

theorem remove_authorities_spec:
  assumes "ms_params (ch_mm c) = Some p" "pr_admin p = ra_admin msg" "pr_market_authorities p = Some as"
    "length (ra_remove_addresses msg) \<le> length as" "[] \<notin> set (ra_remove_addresses msg)"
  shows "RemoveMarketAuthorities (Some msg) c =
      onMM (SetParams (p\<lparr>pr_market_authorities := Some (delete_skipping (set (ra_remove_addresses msg)) as)\<rparr>)) c \<and>
    ((\<forall>i. Suc i < length as \<longrightarrow>
        \<not> (as ! i \<in> set (ra_remove_addresses msg) \<and> as ! Suc i \<in> set (ra_remove_addresses msg))) \<longrightarrow>
      delete_skipping (set (ra_remove_addresses msg)) as =
        filter (\<lambda>a. a \<notin> set (ra_remove_addresses msg)) as)"
  using assms delete_skipping_filter [of as "set (ra_remove_addresses msg)"]
  by (simp add: RemoveMarketAuthorities_def bindC_def onMM_read GetParams_def item_Get_def liftC_def
      remove_authorities_eq)

definition chain4 :: chain where
  "chain4 = \<lparr>ch_oracle = empty_oracle_store, ch_mm = empty_mm_store\<lparr>ms_params :=
     Some \<lparr>pr_market_authorities = Some [''alice'', ''bob'', ''carol''], pr_admin = ''gov''\<rparr>\<rparr>\<rparr>"

theorem remove_authorities_spec_witness:
  "\<exists>d. RemoveMarketAuthorities (Some \<lparr>ra_remove_addresses = [''alice'', ''bob''], ra_admin = ''gov''\<rparr>) chain4 =
     (Inr (), d) \<and> authorised ''bob'' d"
proof -
  let ?msg = "\<lparr>ra_remove_addresses = [''alice'', ''bob''], ra_admin = ''gov''\<rparr>"
  let ?p = "\<lparr>pr_market_authorities = Some [''alice'', ''bob'', ''carol''], pr_admin = ''gov''\<rparr>"
  have "ms_params (ch_mm chain4) = Some ?p" by (simp add: chain4_def)
  from conjunct1 [OF remove_authorities_spec [OF this, of ?msg "[''alice'', ''bob'', ''carol'']"]]
  show ?thesis
    by (simp add: SetParams_def onMM_def modifyC_def authorised_def params_codec_def)
qed

section \<open>Genesis\<close>

lemma mset_entries_put:
  assumes "kv_wf mk" "gm_wf mm" "mset mm = mset mk" "\<forall>(t, m) \<in> set mm. ticker_of m = t"
  shows "put_markets (map snd mm) [] = mk"
proof (rule kv.ext_eq)
  show "kv_wf (put_markets (map snd mm) [])" by (simp add: put_markets_wf)
  show "kv_wf mk" by (rule assms(1))
  fix t
  have mem: "(u, m) \<in> set mm \<longleftrightarrow> kv_get mk u = Some m" for u m
    using mset_eq_setD [OF assms(3)] kv.entries_iff [OF assms(1)] by simp
  show "kv_get (put_markets (map snd mm) []) t = kv_get mk t"
  proof (cases "kv_get (put_markets (map snd mm) []) t")
    case None
    then have "t \<notin> ticker_of ` set (map snd mm)" using put_markets_dom [of "[]" "map snd mm" t] by simp
    have "kv_get mk t \<noteq> Some m" for m
    proof
      assume "kv_get mk t = Some m"
      then have "(t, m) \<in> set mm" using mem by blast
      then have "ticker_of m = t" "m \<in> set (map snd mm)" using assms(4) by force+
      with \<open>t \<notin> _\<close> show False by blast
    qed
    then show ?thesis using None by (cases "kv_get mk t") auto
  next
    case (Some m)
    then obtain u where u: "(u, m) \<in> set mm" and t: "ticker_of m = t"
      using put_markets_cases [of "[]" "map snd mm" t m] by auto
    then have "u = t" using assms(4) by auto
    with u show ?thesis using Some mem by simp
  qed
qed


text \<open>\<open>ExportGenesis\<close> of a consistent, valid state is a genesis that \<open>InitGenesis\<close> accepts, and
  whatever order Go iterates the exported map in, loading it restores the markets, the recorded
  height and the parameters, when the hooks accept the markets.\<close>

theorem mm_genesis_roundtrip:
  assumes "mm_inv (ch_mm c)" "map_valid (ch_mm c)" "ms_last_updated (ch_mm c) = Some n"
    "ms_params (ch_mm c) = Some p" "Params_ValidateBasic acc p = Inr ()" "params_codec p = p"
    "kp_hooks k = Some NoopMarketMapHooks"
  shows "\<exists>gs. mm_ExportGenesis (ch_mm c) = Inr gs \<and> mm_GenesisState_ValidateBasic acc gs = Inr () \<and>
    (\<forall>mm. mset mm = mset (mg_market_map gs) \<longrightarrow>
      mm_InitGenesis acc k (gs\<lparr>mg_market_map := mm\<rparr>) (c\<lparr>ch_mm := empty_mm_store\<rparr>) = (Inr (), c))"
proof -
  let ?mk = "ms_markets (ch_mm c)"
  let ?gs = "\<lparr>mg_market_map = ?mk, mg_last_updated = n, mg_params = p\<rparr>"
  have wf: "kv_wf ?mk" using assms(1) by (simp add: mm_inv_def)
  have gwf: "gm_wf ?mk" using kv.distinct_keys [OF wf] by (simp add: gm_wf_def)
  have ok: "is_ok (MarketMap_ValidateBasic mm)" if "mset mm = mset ?mk" for mm
    using assms(1,2) MarketMap_ok_perm [OF gwf that [symmetric]] by (simp add: map_valid_def GetAllMarkets_eq)
  have "mm_InitGenesis acc k (?gs\<lparr>mg_market_map := mm\<rparr>) (c\<lparr>ch_mm := empty_mm_store\<rparr>) = (Inr (), c)"
    if mm: "mset mm = mset ?mk" for mm
  proof -
    have keys: "\<forall>(t, m) \<in> set mm. ticker_of m = t" using ok [OF mm] by (auto simp: MarketMap_ok_iff)
    have gmm: "gm_wf mm" by (rule gm_wf_perm [OF gwf mm [symmetric]])
    have run: "forC es (\<lambda>(_, m). mapErrC to_panic (onMM (CreateMarket m))) d =
        (Inr (), d\<lparr>ch_mm := (ch_mm d)\<lparr>ms_markets := put_markets (map snd es) (ms_markets (ch_mm d))\<rparr>\<rparr>)"
      if "\<forall>(t, m) \<in> set es. ticker_of m = t \<and> market_of d t = None" "gm_wf es" "kv_wf (ms_markets (ch_mm d))"
      for es d
      using that
    proof (induction es arbitrary: d)
      case (Cons e es)
      obtain t m where e: "e = (t, m)" by (cases e)
      let ?d = "d\<lparr>ch_mm := (ch_mm d)\<lparr>ms_markets := kv_set t m (ms_markets (ch_mm d))\<rparr>\<rparr>"
      have "onMM (CreateMarket m) d = (Inr (), ?d)"
        using Cons.prems(1) by (auto simp: e CreateMarket_Inr)
      moreover have "\<forall>(u, x) \<in> set es. ticker_of x = u \<and> market_of ?d u = None"
      proof (clarify)
        fix u x assume ux: "(u, x) \<in> set es"
        then have "u \<noteq> t" using Cons.prems(2) by (force simp: e gm_wf_def)
        then show "ticker_of x = u \<and> market_of ?d u = None"
          using Cons.prems(1,3) ux by auto
      qed
      then have "forC es (\<lambda>(_, m). mapErrC to_panic (onMM (CreateMarket m))) ?d =
        (Inr (), ?d\<lparr>ch_mm := (ch_mm ?d)\<lparr>ms_markets := put_markets (map snd es) (ms_markets (ch_mm ?d))\<rparr>\<rparr>)"
        using Cons.prems(2,3) by (intro Cons.IH) (simp_all add: e gm_wf_def)
      ultimately show ?case
        using Cons.prems(1) by (simp add: e bindC_def mapErrC_def del: onMM_Inr)
    qed (simp add: returnC_def)
    have "put_markets (map snd mm) [] = ?mk" by (rule mset_entries_put [OF wf gmm mm keys])
    then show ?thesis
      using run [of mm "c\<lparr>ch_mm := empty_mm_store\<rparr>"] keys gmm ok [OF mm] assms(3-7)
      by (simp add: mm_InitGenesis_def bindC_def mapErrC_def liftC_def mm_GenesisState_ValidateBasic_def
          empty_mm_store_def unit_res_ok [symmetric] onMM_def SetLastUpdated_def SetParams_def modifyC_def returnC_def)
  qed
  moreover have "mm_ExportGenesis (ch_mm c) = Inr ?gs"
    using assms(1,3,4) by (simp add: mm_ExportGenesis_def GetLastUpdated_def GetParams_def item_Get_def GetAllMarkets_eq)
  moreover have "mm_GenesisState_ValidateBasic acc ?gs = Inr ()"
    using ok [of ?mk] assms(5) by (simp add: mm_GenesisState_ValidateBasic_def unit_res_ok [symmetric])
  ultimately show ?thesis by auto
qed


theorem mm_genesis_roundtrip_witness:
  "\<exists>gs. mm_ExportGenesis (ch_mm chain2) = Inr gs \<and>
     (\<forall>mm. mset mm = mset (mg_market_map gs) \<longrightarrow>
       mm_InitGenesis (\<lambda>_. Inr ()) (NewKeeper ''gov'' []) (gs\<lparr>mg_market_map := mm\<rparr>)
         (chain2\<lparr>ch_mm := empty_mm_store\<rparr>) = (Inr (), chain2))"
proof -
  let ?p = "\<lparr>pr_market_authorities = Some [''alice''], pr_admin = ''gov''\<rparr>"
  have "ms_last_updated (ch_mm chain2) = Some 0" "ms_params (ch_mm chain2) = Some ?p"
    by (simp_all add: chain2_def)
  moreover have "Params_ValidateBasic (\<lambda>_. Inr ()) ?p = Inr ()" "params_codec ?p = ?p"
    by (simp_all add: Params_ValidateBasic_def params_codec_def)
  ultimately show ?thesis
    using mm_genesis_roundtrip [OF chain2_inv(1) chain2_valid _ _ _ _ noop_hooks(1)] by blast
qed

section \<open>Market maps\<close>

text \<open>On Go maps, whatever order they are iterated in: \<open>MarketMap.Equal\<close> holds exactly when both
  maps have the same entries, and the verdict of \<open>MarketMap.ValidateBasic\<close> depends on the entries
  only.\<close>

theorem market_map_order_independent:
  assumes "gm_wf mm" "gm_wf other"
  shows "(MarketMap_Equal mm other \<longleftrightarrow> gm_get mm = gm_get other) \<and>
    (MarketMap_Equal mm other \<longrightarrow>
       is_ok (MarketMap_ValidateBasic mm) = is_ok (MarketMap_ValidateBasic other))"
proof -
  have "set mm = set other" if "gm_get mm = gm_get other"
    using that assms by (auto simp: set_eq_iff split_paired_all simp flip: gm_get_iff)
  then have "is_ok (MarketMap_ValidateBasic mm) = is_ok (MarketMap_ValidateBasic other)"
    if "gm_get mm = gm_get other"
    using that by (simp add: MarketMap_ok_iff)
  then show ?thesis using MarketMap_Equal_get [OF assms] by blast
qed

theorem market_map_order_independent_witness:
  "MarketMap_Equal [(''BTC/USD'', normalized_market), (''USDT/USD'', usdt_market True)]
     [(''USDT/USD'', usdt_market True), (''BTC/USD'', normalized_market)]"
proof -
  let ?a = "[(''BTC/USD'', normalized_market), (''USDT/USD'', usdt_market True)]"
  let ?b = "[(''USDT/USD'', usdt_market True), (''BTC/USD'', normalized_market)]"
  have wf: "gm_wf ?a" "gm_wf ?b" by (simp_all add: gm_wf_def)
  have "gm_get ?a = gm_get ?b" by (auto simp: gm_get_def fun_eq_iff)
  with market_map_order_independent [OF wf] show ?thesis by blast
qed

text \<open>\<open>GetValidSubset\<close> keeps valid maps as they are, drops only configurations without a usable
  normalization market and then the markets that are invalid by themselves, and its own final check
  passes exactly when no kept configuration normalizes by a market that was dropped.\<close>

theorem valid_subset_spec:
  assumes "gm_wf mm"
  shows "(is_ok (MarketMap_ValidateBasic mm) \<longrightarrow> GetValidSubset mm = (mm, Inr ())) \<and>
    (\<forall>t m. (t, m) \<in> set (fst (GetValidSubset mm)) \<longrightarrow>
       is_ok (Market_ValidateBasic m) \<and> t = ticker_of m \<and>
       (\<exists>m0. (t, m0) \<in> set mm \<and> m = prune_configs mm m0)) \<and>
    (is_ok (snd (GetValidSubset mm)) \<longleftrightarrow>
       (\<forall>(t, m) \<in> set (fst (GetValidSubset mm)). \<forall>pc \<in> set (mk_provider_configs m).
          \<forall>p. pc_normalize_by_pair pc = Some p \<longrightarrow>
            gm_get (fst (GetValidSubset mm)) (CurrencyPair_String p) \<noteq> None))"
  using valid_subset_of_valid valid_subset_entry [of _ _ mm] valid_subset_ok_iff [OF assms] by blast

text \<open>A normalization market that is enabled but has too few providers: pass 1 keeps the
  configuration that uses it, pass 2 drops the market itself.\<close>

definition starved_market :: market where
  "starved_market = (usdt_market True)\<lparr>mk_provider_configs := []\<rparr>"

theorem valid_subset_spec_witness:
  "\<not> is_ok (snd (GetValidSubset [(''BTC/USD'', normalized_market), (''USDT/USD'', starved_market)]))"
proof -
  let ?mm = "[(''BTC/USD'', normalized_market), (''USDT/USD'', starved_market)]"
  have wf: "gm_wf ?mm" by (simp add: gm_wf_def)
  have "prune_configs ?mm normalized_market = normalized_market"
    by (rule prune_configs_same)
      (simp add: example_norm gm_get_def starved_market_def)
  moreover have "prune_configs ?mm starved_market = starved_market"
    by (rule prune_configs_same) (simp add: norm_ok_def starved_market_def)
  moreover have "\<not> is_ok (Market_ValidateBasic starved_market)"
    by (simp add: Market_ValidateBasic_iff starved_market_def usdt_market_def)
  ultimately have sub: "fst (GetValidSubset ?mm) = [(''BTC/USD'', normalized_market)]"
    by (simp add: GetValidSubset_def Let_def example_markets)
  have "\<not> (\<forall>pc \<in> set (mk_provider_configs normalized_market). \<forall>p. pc_normalize_by_pair pc = Some p \<longrightarrow>
      gm_get [(''BTC/USD'', normalized_market)] (CurrencyPair_String p) \<noteq> None)"
    by (simp add: normalized_market_def plain_config_def gm_get_def usdt_usd_facts)
  then show ?thesis
    using conjunct2 [OF conjunct2 [OF valid_subset_spec [OF wf]]] unfolding sub by simp
qed

end
