(* ===== verification/Vote_Weighted.thy ===== *)
theory Vote_Weighted
  imports Currency_Pair Kv_Store
begin

text \<open>
  \<open>aggregator/aggregator.go\<close> (the data aggregator and its options) and
  \<open>pkg/math/voteweighted/voteweighted.go\<close> (the stake-weighted median). A price is \<open>None\<close> for a nil
  \<open>*big.Int\<close>. Not code of the repository, and so arguments of the definitions: the parser of a
  consensus address, the validator store and the quotient of two \<open>LegacyDec\<close>s.
\<close>

section \<open>The data aggregator\<close>

text \<open>The mutex guards single reads and writes; the aggregate functions are \<open>None\<close> until an option
  sets them. \<open>'c\<close> is the context type.\<close>

record ('c, 'k, 'v) data_aggregator =
  da_aggregateFn :: "(('k, 'v) gomap \<Rightarrow> 'v res) option"
  da_aggregateFnFromContext :: "('c \<Rightarrow> ('k, 'v) gomap \<Rightarrow> 'v res) option"
  da_providerData :: "('k, 'v) gomap"
  da_aggregatedData :: "'v"

definition NewDataAggregator ::
    "'v \<Rightarrow> (('c, 'k, 'v) data_aggregator \<Rightarrow> ('c, 'k, 'v) data_aggregator) list \<Rightarrow> ('c, 'k, 'v) data_aggregator" where
  "NewDataAggregator zero opts =
     fold (\<lambda>opt agg. opt agg) opts
       \<lparr>da_aggregateFn = None, da_aggregateFnFromContext = None, da_providerData = [],
        da_aggregatedData = zero\<rparr>"

definition WithAggregateFn ::
    "(('k, 'v) gomap \<Rightarrow> 'v res) \<Rightarrow> ('c, 'k, 'v) data_aggregator \<Rightarrow> ('c, 'k, 'v) data_aggregator" where
  "WithAggregateFn fn agg = agg\<lparr>da_aggregateFn := Some fn\<rparr>"

definition WithAggregateFnFromContext ::
    "('c \<Rightarrow> ('k, 'v) gomap \<Rightarrow> 'v res) \<Rightarrow> ('c, 'k, 'v) data_aggregator \<Rightarrow> ('c, 'k, 'v) data_aggregator" where
  "WithAggregateFnFromContext fn agg = agg\<lparr>da_aggregateFnFromContext := Some fn\<rparr>"

definition GetProviderData :: "('c, 'k, 'v) data_aggregator \<Rightarrow> ('k, 'v) gomap" where
  "GetProviderData p = da_providerData p"

definition GetDataByProvider :: "'v \<Rightarrow> 'k \<Rightarrow> ('c, 'k, 'v) data_aggregator \<Rightarrow> 'v" where
  "GetDataByProvider zero provider p =
     (case gm_get (da_providerData p) provider of None \<Rightarrow> zero | Some v \<Rightarrow> v)"

definition SetProviderData :: "'k \<Rightarrow> 'v \<Rightarrow> ('c, 'k, 'v) data_aggregator \<Rightarrow> ('c, 'k, 'v) data_aggregator" where
  "SetProviderData provider d p = p\<lparr>da_providerData := gm_set provider d (da_providerData p)\<rparr>"

definition ResetProviderData :: "('c, 'k, 'v) data_aggregator \<Rightarrow> ('c, 'k, 'v) data_aggregator" where
  "ResetProviderData p = p\<lparr>da_providerData := []\<rparr>"

definition GetAggregatedData :: "('c, 'k, 'v) data_aggregator \<Rightarrow> 'v" where
  "GetAggregatedData p = da_aggregatedData p"

definition SetAggregatedData :: "'v \<Rightarrow> ('c, 'k, 'v) data_aggregator \<Rightarrow> ('c, 'k, 'v) data_aggregator" where
  "SetAggregatedData d p = p\<lparr>da_aggregatedData := d\<rparr>"

text \<open>An aggregate function may panic: that is its error.\<close>

definition AggregateData :: "(('c, 'k, 'v) data_aggregator, unit) comp" where
  "AggregateData p =
     (case da_aggregateFn p of
        None \<Rightarrow> (Inl (Panic ''aggregateFn cannot be nil''), p)
      | Some fn \<Rightarrow>
          (case fn (GetProviderData p) of
             Inl e \<Rightarrow> (Inl e, p) | Inr d \<Rightarrow> (Inr (), SetAggregatedData d p)))"

definition AggregateDataFromContext :: "'c \<Rightarrow> (('c, 'k, 'v) data_aggregator, unit) comp" where
  "AggregateDataFromContext ctx p =
     (case da_aggregateFnFromContext p of
        None \<Rightarrow> (Inl (Panic ''aggregateFnFromContext cannot be nil''), p)
      | Some fn \<Rightarrow>
          (case fn ctx (GetProviderData p) of
             Inl e \<Rightarrow> (Inl e, p) | Inr d \<Rightarrow> (Inr (), SetAggregatedData d p)))"

section \<open>The stake-weighted median\<close>

type_synonym price_map = "(currency_pair, int option) gomap"

record price_per_validator =
  pv_vote_weight :: int
  pv_price :: int

record price_info =
  pi_prices :: "price_per_validator list"
  pi_total_weight :: int

text \<open>\<open>DefaultPowerThreshold\<close>: 0.667 as a \<open>LegacyDec\<close>, an integer scaled by \<open>10 ^ 18\<close>.\<close>

definition dec_one :: int where "dec_one = 10 ^ 18"

definition DefaultPowerThreshold :: int where "DefaultPowerThreshold = 667 * 10 ^ 15"

text \<open>
  \<open>sort.SliceStable\<close> with a \<open>less\<close> that also answers true on equal prices, as insertion sort: an
  element moves left past every element it is \<open>less\<close> than. Only the order of equal prices depends
  on the algorithm, and no result below depends on that order.
\<close>

definition price_less :: "price_per_validator \<Rightarrow> price_per_validator \<Rightarrow> bool" where
  "price_less a b \<longleftrightarrow> \<not> pv_price b < pv_price a"

fun insert_left :: "price_per_validator \<Rightarrow> price_per_validator list \<Rightarrow> price_per_validator list" where
  "insert_left x [] = [x]"
| "insert_left x (y # ys) = (if price_less x y then y # insert_left x ys else x # y # ys)"

text \<open>The sorted prefix is kept reversed: its last element comes first.\<close>

definition sort_prices :: "price_per_validator list \<Rightarrow> price_per_validator list" where
  "sort_prices xs = rev (fold insert_left xs [])"

fun median_scan :: "int \<Rightarrow> int \<Rightarrow> price_per_validator list \<Rightarrow> int option" where
  "median_scan middle acc [] = None"
| "median_scan middle acc (p # ps) =
     (let acc' = acc + pv_vote_weight p in
      if middle \<le> acc' then Some (pv_price p)
      else if ps = [] then Some (pv_price p)
      else median_scan middle acc' ps)"

text \<open>\<open>TotalWeight.QuoRaw(2)\<close> truncates towards zero.\<close>

definition quo_raw2 :: "int \<Rightarrow> int" where
  "quo_raw2 n = (if 0 \<le> n then n div 2 else - ((- n) div 2))"

definition ComputeMedian :: "price_info \<Rightarrow> int option" where
  "ComputeMedian info = median_scan (quo_raw2 (pi_total_weight info)) 0 (sort_prices (pi_prices info))"

definition add_price ::
    "int \<Rightarrow> currency_pair \<times> int option \<Rightarrow> (currency_pair, price_info) gomap \<Rightarrow> (currency_pair, price_info) gomap" where
  "add_price voteWeight = (\<lambda>(cp, price) infos.
     case price of
       None \<Rightarrow> infos
     | Some p \<Rightarrow>
         let infos0 = (case gm_get infos cp of
                         None \<Rightarrow> gm_set cp \<lparr>pi_prices = [], pi_total_weight = 0\<rparr> infos
                       | Some _ \<Rightarrow> infos);
             cpInfo = (case gm_get infos0 cp of None \<Rightarrow> \<lparr>pi_prices = [], pi_total_weight = 0\<rparr> | Some i \<Rightarrow> i)
         in gm_set cp \<lparr>pi_prices = pi_prices cpInfo @ [\<lparr>pv_vote_weight = voteWeight, pv_price = p\<rparr>],
                       pi_total_weight = pi_total_weight cpInfo + voteWeight\<rparr> infos0)"

text \<open>What the validator store answers: the bonded tokens of the validator at an address.\<close>

record validator_set =
  vs_address :: "string \<Rightarrow> bytes res"
  vs_bonded_tokens :: "bytes \<Rightarrow> int res"
  vs_total_bonded_tokens :: "int res"

definition vote_weight :: "validator_set \<Rightarrow> string \<Rightarrow> int res" where
  "vote_weight vals valAddress = bind_res (vs_address vals valAddress) (vs_bonded_tokens vals)"

definition add_provider ::
    "validator_set \<Rightarrow> string \<times> price_map \<Rightarrow> (currency_pair, price_info) gomap \<Rightarrow>
     (currency_pair, price_info) gomap" where
  "add_provider vals = (\<lambda>(valAddress, validatorPrices) infos.
     case vote_weight vals valAddress of
       Inl _ \<Rightarrow> infos
     | Inr w \<Rightarrow> fold (add_price w) validatorPrices infos)"

definition collect_infos ::
    "validator_set \<Rightarrow> (string, price_map) gomap \<Rightarrow> (currency_pair, price_info) gomap" where
  "collect_infos vals providers = fold (add_provider vals) providers []"

text \<open>\<open>quo\<close> is \<open>LegacyDec.Quo\<close>, which panics on a zero divisor.\<close>

fun select_prices ::
    "(int \<Rightarrow> int \<Rightarrow> int res) \<Rightarrow> int \<Rightarrow> int \<Rightarrow> (currency_pair \<times> price_info) list \<Rightarrow> price_map \<Rightarrow> price_map res" where
  "select_prices quo threshold totalBonded [] prices = Inr prices"
| "select_prices quo threshold totalBonded ((cp, info) # infos) prices =
     bind_res (quo (pi_total_weight info * dec_one) (totalBonded * dec_one)) (\<lambda>percentSubmitted.
     select_prices quo threshold totalBonded infos
       (if threshold \<le> percentSubmitted then gm_set cp (ComputeMedian info) prices else prices))"

definition Median ::
    "(int \<Rightarrow> int \<Rightarrow> int res) \<Rightarrow> validator_set \<Rightarrow> int \<Rightarrow> (string, price_map) gomap \<Rightarrow> price_map res" where
  "Median quo vals threshold providers =
     (let infos = collect_infos vals providers in
      bind_res (mapErr (\<lambda>_. Panic ''total bonded tokens'') (vs_total_bonded_tokens vals)) (\<lambda>totalBonded.
      select_prices quo threshold totalBonded infos []))"

definition MedianFromContext ::
    "(int \<Rightarrow> int \<Rightarrow> int res) \<Rightarrow> ('c \<Rightarrow> validator_set) \<Rightarrow> int \<Rightarrow> 'c \<Rightarrow> (string, price_map) gomap \<Rightarrow> price_map res" where
  "MedianFromContext quo vals threshold ctx = Median quo (vals ctx) threshold"

section \<open>The consumer chain's validators\<close>

text \<open>\<open>ccv_compat.go\<close>: the consumer keeper, which is not code of the repository, answers a lookup by
  address and lists its validators with their powers.\<close>

record cc_validator =
  cc_address :: bytes
  cc_power :: int

definition ccv_ValidatorByConsAddr :: "(bytes \<Rightarrow> cc_validator option) \<Rightarrow> bytes \<Rightarrow> int res" where
  "ccv_ValidatorByConsAddr getCC addr =
     (case getCC addr of
        None \<Rightarrow> Inl (Errorf ''could not find validator'') | Some v \<Rightarrow> Inr (cc_power v))"

definition ccv_TotalBondedTokens :: "cc_validator list \<Rightarrow> int res" where
  "ccv_TotalBondedTokens ccs = Inr (fold (\<lambda>v acc. acc + cc_power v) ccs 0)"

end
