(* ===== verification/Median_Facts.thy ===== *)
theory Median_Facts
  imports Vote_Weighted
begin

text \<open>
  The stake-weighted median. \<open>weighted_median\<close> is a reference definition that reads only the multiset
  of reports: the least reported price such that the reports up to it weigh at least half. The
  scan of \<open>ComputeMedian\<close> over the sorted reports computes it, and \<open>Median\<close> computes it for every pair.
\<close>

section \<open>Sorting\<close>

lemma insert_left_mset [simp]: "mset (insert_left x ys) = add_mset x (mset ys)"
  by (induction ys) simp_all

lemma insert_left_sorted:
  "sorted_wrt (\<lambda>a b. pv_price b \<le> pv_price a) ys \<Longrightarrow> sorted_wrt (\<lambda>a b. pv_price b \<le> pv_price a) (insert_left x ys)"
proof (induction ys)
  case (Cons y ys)
  have "set (insert_left x ys) = insert x (set ys)"
    by (metis insert_left_mset set_mset_add_mset_insert set_mset_mset)
  with Cons show ?case by (auto simp: price_less_def)
qed simp

lemma sort_prices_mset [simp]: "mset (sort_prices xs) = mset xs"
proof -
  have "mset (fold insert_left xs acc) = mset xs + mset acc" for acc
    by (induction xs arbitrary: acc) simp_all
  then show ?thesis by (simp add: sort_prices_def)
qed

lemma sort_prices_set [simp]: "set (sort_prices xs) = set xs"
  by (metis sort_prices_mset mset_eq_setD)

lemma sort_prices_sorted: "sorted_wrt (\<lambda>a b. pv_price a \<le> pv_price b) (sort_prices xs)"
proof -
  have "sorted_wrt (\<lambda>a b. pv_price b \<le> pv_price a) acc \<Longrightarrow>
      sorted_wrt (\<lambda>a b. pv_price b \<le> pv_price a) (fold insert_left xs acc)" for acc
    by (induction xs arbitrary: acc) (simp_all add: insert_left_sorted)
  then show ?thesis by (simp add: sort_prices_def sorted_wrt_rev)
qed

section \<open>The reference median\<close>

definition weight :: "price_per_validator list \<Rightarrow> int" where
  "weight ps = sum_list (map pv_vote_weight ps)"

definition weight_le :: "price_per_validator list \<Rightarrow> int \<Rightarrow> int" where
  "weight_le ps r = weight (filter (\<lambda>p. pv_price p \<le> r) ps)"

definition weighted_median :: "price_per_validator list \<Rightarrow> int" where
  "weighted_median ps = Min {r \<in> set (map pv_price ps). weight ps div 2 \<le> weight_le ps r}"

lemma weight_simps [simp]:
  "weight [] = 0" "weight (p # ps) = pv_vote_weight p + weight ps" "weight (ps @ qs) = weight ps + weight qs"
  by (simp_all add: weight_def)

lemma weight_nonneg: "\<forall>p \<in> set ps. 0 \<le> pv_vote_weight p \<Longrightarrow> 0 \<le> weight ps"
  by (induction ps) auto

lemma weight_le_simps [simp]:
  "weight_le [] r = 0"
  "weight_le (p # ps) r = (if pv_price p \<le> r then pv_vote_weight p else 0) + weight_le ps r"
  by (simp_all add: weight_le_def)

lemma weight_le_nonneg: "\<forall>p \<in> set ps. 0 \<le> pv_vote_weight p \<Longrightarrow> 0 \<le> weight_le ps r"
  by (simp add: weight_le_def weight_nonneg)

lemma weight_le_all: "\<forall>p \<in> set ps. pv_price p \<le> r \<Longrightarrow> weight_le ps r = weight ps"
  by (simp add: weight_le_def)

lemma weight_le_none: "\<forall>p \<in> set ps. r < pv_price p \<Longrightarrow> weight_le ps r = 0"
  by (induction ps) auto

lemma weight_le_mono:
  "\<forall>p \<in> set ps. 0 \<le> pv_vote_weight p \<Longrightarrow> r \<le> r' \<Longrightarrow> weight_le ps r \<le> weight_le ps r'"
  by (induction ps) auto

lemma weight_filter_le:
  "\<forall>p \<in> set ps. P p \<longrightarrow> Q p \<Longrightarrow> \<forall>p \<in> set ps. 0 \<le> pv_vote_weight p \<Longrightarrow>
     weight (filter P ps) \<le> weight (filter Q ps)"
  by (induction ps) auto

lemma weight_mset: "mset ps = mset qs \<Longrightarrow> weight ps = weight qs"
  unfolding weight_def by (metis mset_map sum_mset_sum_list)

lemma weight_le_mset: "mset ps = mset qs \<Longrightarrow> weight_le ps r = weight_le qs r"
  unfolding weight_le_def by (rule weight_mset) (metis mset_filter)

lemma weighted_median_mset: "mset ps = mset qs \<Longrightarrow> weighted_median ps = weighted_median qs"
  unfolding weighted_median_def
  using weight_mset [of ps qs] weight_le_mset [of ps qs] mset_eq_setD [of ps qs] by simp

lemma median_candidates:
  assumes "ps \<noteq> []" "\<forall>p \<in> set ps. 0 \<le> pv_vote_weight p"
  shows "{r \<in> set (map pv_price ps). weight ps div 2 \<le> weight_le ps r} \<noteq> {}"
proof -
  let ?r = "Max (set (map pv_price ps))"
  have "weight_le ps ?r = weight ps" by (rule weight_le_all) simp
  moreover have "weight ps div 2 \<le> weight ps" using weight_nonneg [OF assms(2)] by simp
  moreover have "?r \<in> set (map pv_price ps)" using assms(1) by (intro Max_in) simp_all
  ultimately show ?thesis by (smt (verit) empty_iff mem_Collect_eq)
qed

section \<open>The scan\<close>

lemma scan_min:
  "ps \<noteq> [] \<Longrightarrow> sorted_wrt (\<lambda>a b. pv_price a \<le> pv_price b) ps \<Longrightarrow> \<forall>p \<in> set ps. 0 \<le> pv_vote_weight p \<Longrightarrow>
     middle \<le> acc + weight ps \<Longrightarrow>
     median_scan middle acc ps = Some (Min {r \<in> pv_price ` set ps. middle \<le> acc + weight_le ps r})"
proof (induction ps arbitrary: acc)
  case (Cons p ps)
  let ?acc = "acc + pv_vote_weight p"
  let ?S = "{r \<in> pv_price ` set (p # ps). middle \<le> acc + weight_le (p # ps) r}"
  have first: "\<forall>q \<in> set ps. pv_price p \<le> pv_price q" using Cons.prems(2) by simp
  have nonneg: "\<forall>q \<in> set ps. 0 \<le> pv_vote_weight q" using Cons.prems(3) by simp
  show ?case
  proof (cases "middle \<le> ?acc")
    case True
    have "pv_price p \<in> ?S"
      using True weight_le_nonneg [OF nonneg, of "pv_price p"] by simp
    then have "Min ?S = pv_price p"
      using first by (intro Min_eqI) auto
    with True show ?thesis by (simp add: Let_def)
  next
    case False
    then have ne: "ps \<noteq> []" using Cons.prems(4) by auto
    have "?S = {r \<in> pv_price ` set ps. middle \<le> ?acc + weight_le ps r}"
    proof (intro set_eqI iffI)
      fix r assume r: "r \<in> ?S"
      show "r \<in> {r \<in> pv_price ` set ps. middle \<le> ?acc + weight_le ps r}"
      proof (cases "r \<in> pv_price ` set ps")
        case True
        then show ?thesis using r by (simp split: if_splits) (use first in force)
      next
        case notin: False
        then have rp: "r = pv_price p" using r by simp
        have "weight_le ps r = 0"
          using first notin by (intro weight_le_none) (force simp: rp less_le)
        then show ?thesis using r False by (simp add: rp)
      qed
    next
      fix r assume r: "r \<in> {r \<in> pv_price ` set ps. middle \<le> ?acc + weight_le ps r}"
      then have "pv_price p \<le> r" using first by auto
      with r show "r \<in> ?S" by auto
    qed
    then show ?thesis
      using False ne Cons.IH [OF ne, of ?acc] Cons.prems(2-4) by (simp add: Let_def add.assoc)
  qed
qed simp

lemma ComputeMedian_eq:
  assumes "pi_prices info \<noteq> []" "\<forall>p \<in> set (pi_prices info). 0 \<le> pv_vote_weight p"
    "pi_total_weight info = weight (pi_prices info)"
  shows "ComputeMedian info = Some (weighted_median (pi_prices info))"
proof -
  let ?ps = "pi_prices info" and ?qs = "sort_prices (pi_prices info)"
  have w: "weight ?qs = weight ?ps" "\<And>r. weight_le ?qs r = weight_le ?ps r"
    by (auto intro: weight_mset weight_le_mset)
  have nonneg: "0 \<le> weight ?ps" by (rule weight_nonneg [OF assms(2)])
  have ne: "?qs \<noteq> []" using assms(1) by (metis sort_prices_set set_empty)
  have "median_scan (weight ?ps div 2) 0 ?qs =
      Some (Min {r \<in> pv_price ` set ?qs. weight ?ps div 2 \<le> 0 + weight_le ?qs r})"
    using assms(2) nonneg by (intro scan_min [OF ne sort_prices_sorted]) (simp_all add: w)
  then show ?thesis
    using nonneg by (simp add: ComputeMedian_def quo_raw2_def assms(3) weighted_median_def w)
qed

lemma weighted_median_in:
  assumes "ps \<noteq> []" "\<forall>p \<in> set ps. 0 \<le> pv_vote_weight p"
  shows "weighted_median ps \<in> pv_price ` set ps" "weight ps div 2 \<le> weight_le ps (weighted_median ps)"
  using Min_in [OF _ median_candidates [OF assms]] unfolding weighted_median_def by auto

lemma weighted_median_least:
  "r \<in> pv_price ` set ps \<Longrightarrow> weight ps div 2 \<le> weight_le ps r \<Longrightarrow> weighted_median ps \<le> r"
  unfolding weighted_median_def by (intro Min_le) auto

end
