(* ===== verification/Median_Properties.thy ===== *)
theory Median_Properties
  imports Median_Facts
begin

text \<open>
  What \<open>Median\<close> returns for every pair, that Go's map iteration order does not change it, and how
  much weight it takes to move a price.
\<close>

section \<open>Collecting the reports\<close>

text \<open>The reports a provider contributes to a pair, and those of all of them.\<close>

definition report :: "validator_set \<Rightarrow> currency_pair \<Rightarrow> string \<Rightarrow> int option option \<Rightarrow> price_per_validator list" where
  "report vals cp valAddress price =
     (case vote_weight vals valAddress of
        Inl _ \<Rightarrow> []
      | Inr w \<Rightarrow> (case price of Some (Some p) \<Rightarrow> [\<lparr>pv_vote_weight = w, pv_price = p\<rparr>] | _ \<Rightarrow> []))"

definition reports :: "validator_set \<Rightarrow> currency_pair \<Rightarrow> (string, price_map) gomap \<Rightarrow> price_per_validator list" where
  "reports vals cp providers = concat (map (\<lambda>(a, ps). report vals cp a (gm_get ps cp)) providers)"

definition extend :: "price_info option \<Rightarrow> price_per_validator list \<Rightarrow> price_info option" where
  "extend i es = (if es = [] then i else
     let j = (case i of None \<Rightarrow> \<lparr>pi_prices = [], pi_total_weight = 0\<rparr> | Some j \<Rightarrow> j) in
     Some \<lparr>pi_prices = pi_prices j @ es, pi_total_weight = pi_total_weight j + weight es\<rparr>)"

lemma extend_Nil [simp]: "extend i [] = i"
  by (simp add: extend_def)

lemma extend_extend [simp]: "extend (extend i es) fs = extend i (es @ fs)"
  by (cases i) (simp_all add: extend_def Let_def)

lemma add_price_get:
  "gm_get (add_price w (cq, price) infos) cp =
     extend (gm_get infos cp) (if cq = cp then (case price of Some p \<Rightarrow> [\<lparr>pv_vote_weight = w, pv_price = p\<rparr>] | None \<Rightarrow> []) else [])"
  by (cases price) (auto simp: add_price_def extend_def Let_def split: option.split)

lemma add_price_wf: "gm_wf infos \<Longrightarrow> gm_wf (add_price w e infos)"
  by (cases e) (auto simp: add_price_def Let_def split: option.split)

lemma add_prices_get:
  "gm_wf ps \<Longrightarrow> gm_get (fold (add_price w) ps infos) cp =
     extend (gm_get infos cp) (case gm_get ps cp of Some (Some p) \<Rightarrow> [\<lparr>pv_vote_weight = w, pv_price = p\<rparr>] | _ \<Rightarrow> [])"
proof (induction ps arbitrary: infos)
  case (Cons e ps)
  obtain cq price where e: "e = (cq, price)" by (cases e)
  have wf: "gm_wf ps" "cq \<notin> fst ` set ps" using Cons.prems by (simp_all add: e gm_wf_def)
  then have none: "cq = cp \<Longrightarrow> gm_get ps cp = None" by (simp add: gm_get_def map_of_eq_None_iff)
  have get: "gm_get ((cq, price) # ps) cp = (if cp = cq then Some price else gm_get ps cp)"
    by (simp add: gm_get_def)
  show ?case
    unfolding e fold_simps Cons.IH [OF wf(1)] add_price_get get using none
    by (auto split: option.split)
qed simp

lemma add_provider_get:
  "gm_wf ps \<Longrightarrow> gm_get (add_provider vals (a, ps) infos) cp =
     extend (gm_get infos cp) (report vals cp a (gm_get ps cp))"
  by (auto simp: add_provider_def report_def add_prices_get split: sum.split)

lemma add_provider_wf: "gm_wf infos \<Longrightarrow> gm_wf (add_provider vals e infos)"
proof -
  have "gm_wf infos \<Longrightarrow> gm_wf (fold (add_price w) ps infos)" for w ps
    by (induction ps arbitrary: infos) (simp_all add: add_price_wf)
  then show "gm_wf infos \<Longrightarrow> gm_wf (add_provider vals e infos)"
    by (cases e) (auto simp: add_provider_def split: sum.split)
qed

definition providers_wf :: "(string, price_map) gomap \<Rightarrow> bool" where
  "providers_wf providers \<longleftrightarrow> gm_wf providers \<and> (\<forall>(a, ps) \<in> set providers. gm_wf ps)"

lemma collect_get:
  assumes "\<forall>(a, ps) \<in> set providers. gm_wf ps"
  shows "gm_get (collect_infos vals providers) cp = extend None (reports vals cp providers)"
proof -
  have "gm_get (fold (add_provider vals) providers infos) cp =
      extend (gm_get infos cp) (reports vals cp providers)" for infos
    using assms
  proof (induction providers arbitrary: infos)
    case (Cons e providers)
    then show ?case by (cases e) (simp add: add_provider_get reports_def)
  qed (simp add: reports_def)
  then show ?thesis by (simp add: collect_infos_def)
qed

lemma collect_wf: "gm_wf (collect_infos vals providers)"
proof -
  have "gm_wf infos \<Longrightarrow> gm_wf (fold (add_provider vals) providers infos)" for infos
    by (induction providers arbitrary: infos) (simp_all add: add_provider_wf)
  then show ?thesis by (simp add: collect_infos_def)
qed

section \<open>Selecting the prices\<close>

lemma select_get:
  assumes "\<forall>a. quo a (bonded * dec_one) = Inr (q a)"
  shows "gm_wf infos \<Longrightarrow> \<exists>res. select_prices quo threshold bonded infos prices = Inr res \<and>
     (\<forall>cp. gm_get res cp = (case gm_get infos cp of
        Some info \<Rightarrow> if threshold \<le> q (pi_total_weight info * dec_one) then Some (ComputeMedian info)
                     else gm_get prices cp
      | None \<Rightarrow> gm_get prices cp))"
proof (induction infos arbitrary: prices)
  case (Cons e infos)
  obtain cq info where e: "e = (cq, info)" by (cases e)
  have wf: "gm_wf infos" "cq \<notin> fst ` set infos" using Cons.prems by (simp_all add: e gm_wf_def)
  then have none: "gm_get infos cq = None" by (simp add: gm_get_def map_of_eq_None_iff)
  have get: "gm_get ((cq, info) # infos) cp = (if cp = cq then Some info else gm_get infos cp)" for cp
    by (simp add: gm_get_def)
  let ?p = "if threshold \<le> q (pi_total_weight info * dec_one) then gm_set cq (ComputeMedian info) prices else prices"
  obtain res where res: "select_prices quo threshold bonded infos ?p = Inr res"
    and look: "\<forall>cp. gm_get res cp = (case gm_get infos cp of
        Some info \<Rightarrow> if threshold \<le> q (pi_total_weight info * dec_one) then Some (ComputeMedian info)
                     else gm_get ?p cp
      | None \<Rightarrow> gm_get ?p cp)"
    using Cons.IH [OF wf(1), of ?p] by blast
  show ?case
  proof (intro exI conjI allI)
    show "select_prices quo threshold bonded (e # infos) prices = Inr res"
      using res assms by (simp add: e)
    fix cp
    show "gm_get res cp = (case gm_get (e # infos) cp of
        Some info \<Rightarrow> if threshold \<le> q (pi_total_weight info * dec_one) then Some (ComputeMedian info)
                     else gm_get prices cp
      | None \<Rightarrow> gm_get prices cp)"
      using look none unfolding e get by (cases "cp = cq") (auto split: option.split)
  qed
qed (simp add: gm_get_def)

lemma reports_weights:
  "\<forall>a w. vote_weight vals a = Inr w \<longrightarrow> 0 \<le> w \<Longrightarrow> p \<in> set (reports vals cp providers) \<Longrightarrow> 0 \<le> pv_vote_weight p"
  by (auto simp: reports_def report_def split: sum.splits option.splits)

lemma Median_get:
  assumes "providers_wf providers" "vs_total_bonded_tokens vals = Inr bonded"
    "\<forall>a. quo a (bonded * dec_one) = Inr (q a)" "\<forall>a w. vote_weight vals a = Inr w \<longrightarrow> 0 \<le> w"
  shows "\<exists>res. Median quo vals threshold providers = Inr res \<and>
    (\<forall>cp. gm_get res cp =
       (let es = reports vals cp providers in
        if es \<noteq> [] \<and> threshold \<le> q (weight es * dec_one) then Some (Some (weighted_median es)) else None))"
proof -
  obtain res where res: "select_prices quo threshold bonded (collect_infos vals providers) [] = Inr res"
    and look: "\<forall>cp. gm_get res cp = (case gm_get (collect_infos vals providers) cp of
        Some info \<Rightarrow> if threshold \<le> q (pi_total_weight info * dec_one) then Some (ComputeMedian info)
                     else gm_get [] cp
      | None \<Rightarrow> gm_get [] cp)"
    using select_get [where quo = quo and q = q and bonded = bonded and threshold = threshold
        and infos = "collect_infos vals providers" and prices = "[]", OF assms(3) collect_wf] by blast
  have "gm_get res cp = (let es = reports vals cp providers in
      if es \<noteq> [] \<and> threshold \<le> q (weight es * dec_one) then Some (Some (weighted_median es)) else None)" for cp
  proof -
    have get: "gm_get (collect_infos vals providers) cp = extend None (reports vals cp providers)"
      using assms(1) by (intro collect_get) (simp add: providers_wf_def)
    show ?thesis
      using look [rule_format, of cp] reports_weights [OF assms(4), of _ cp providers]
      unfolding get by (auto simp: extend_def Let_def ComputeMedian_eq)
  qed
  with res show ?thesis using assms(2) by (auto simp: Median_def Let_def)
qed

section \<open>Properties\<close>

text \<open>(C8) For every pair, \<open>Median\<close> returns the weighted median of the prices reported by validators
  of the store, exactly when some validator reported it and the reporting weight reaches the
  threshold; validators the store does not know and nil prices do not count.\<close>

theorem median_spec:
  assumes "providers_wf providers" "vs_total_bonded_tokens vals = Inr bonded"
    "\<forall>a. quo a (bonded * dec_one) = Inr (q a)" "\<forall>a w. vote_weight vals a = Inr w \<longrightarrow> 0 \<le> w"
  shows "\<exists>res. Median quo vals threshold providers = Inr res \<and>
    (\<forall>cp. gm_get res cp =
       (let es = reports vals cp providers in
        if es \<noteq> [] \<and> threshold \<le> q (weight es * dec_one) then Some (Some (weighted_median es)) else None))"
  by (rule Median_get [where quo = quo and q = q and bonded = bonded, OF assms])

definition dec_quo :: "int \<Rightarrow> int \<Rightarrow> int res" where
  "dec_quo a b = (if b = 0 then Inl (Panic ''division by zero'') else Inr (a * dec_one div b))"

definition vals0 :: validator_set where
  "vals0 = \<lparr>vs_address = (\<lambda>s. if s = ''v1'' then Inr [1] else if s = ''v2'' then Inr [2] else Inl (Errorf ''bech32'')),
     vs_bonded_tokens = (\<lambda>a. if a = [1] then Inr 70 else Inr 30), vs_total_bonded_tokens = Inr 100\<rparr>"

definition pair0 :: currency_pair where "pair0 = NewCurrencyPair ''BTC'' ''USD''"

definition providers0 :: "(string, price_map) gomap" where
  "providers0 = [(''v1'', [(pair0, Some 5)]), (''v2'', [(pair0, Some 9)]), (''v3'', [(pair0, Some 1)])]"

lemma vals0_facts:
  "providers_wf providers0" "vs_total_bonded_tokens vals0 = Inr 100"
  "\<forall>a. dec_quo a (100 * dec_one) = Inr (a div 100)" "\<forall>a w. vote_weight vals0 a = Inr w \<longrightarrow> 0 \<le> w"
  "reports vals0 pair0 providers0 = [\<lparr>pv_vote_weight = 70, pv_price = 5\<rparr>, \<lparr>pv_vote_weight = 30, pv_price = 9\<rparr>]"
  by (auto simp: providers_wf_def gm_wf_def providers0_def vals0_def dec_quo_def dec_one_def vote_weight_def
      reports_def report_def gm_get_def bind_res_Inr_iff split: if_splits)

lemma median0: "weighted_median [\<lparr>pv_vote_weight = 70, pv_price = 5\<rparr>, \<lparr>pv_vote_weight = 30, pv_price = 9\<rparr>] = 5"
proof -
  have "{r \<in> {5, 9}. 50 \<le> weight_le [\<lparr>pv_vote_weight = 70, pv_price = 5\<rparr>, \<lparr>pv_vote_weight = 30, pv_price = 9\<rparr>] r} = {5, 9}"
    by auto
  then show ?thesis unfolding weighted_median_def by simp
qed

theorem median_spec_witness:
  "\<exists>res. Median dec_quo vals0 DefaultPowerThreshold providers0 = Inr res \<and> gm_get res pair0 = Some (Some 5)"
proof -
  obtain res where res: "Median dec_quo vals0 DefaultPowerThreshold providers0 = Inr res"
    and look: "\<forall>cp. gm_get res cp =
       (let es = reports vals0 cp providers0 in
        if es \<noteq> [] \<and> DefaultPowerThreshold \<le> weight es * dec_one div 100 then Some (Some (weighted_median es)) else None)"
    using median_spec [where quo = dec_quo and q = "\<lambda>a. a div 100" and bonded = 100
        and threshold = DefaultPowerThreshold, OF vals0_facts(1-4)] by blast
  have "gm_get res pair0 = Some (Some 5)"
    using look [rule_format, of pair0]
    by (simp add: vals0_facts(5) Let_def median0 DefaultPowerThreshold_def dec_one_def)
  with res show ?thesis by blast
qed

lemma report_mset:
  assumes "providers_wf providers"
  shows "mset (reports vals cp providers) =
    (\<Sum>a \<in> dom (gm_get providers). mset (report vals cp a (gm_get (the (gm_get providers a)) cp)))"
proof -
  have d: "distinct (map fst providers)" using assms by (simp add: providers_wf_def gm_wf_def)
  have "mset (reports vals cp providers) =
      sum_list (map (\<lambda>(a, ps). mset (report vals cp a (gm_get ps cp))) providers)"
    by (simp add: reports_def mset_concat case_prod_unfold comp_def)
  also have "\<dots> = (\<Sum>e \<in> set providers. case e of (a, ps) \<Rightarrow> mset (report vals cp a (gm_get ps cp)))"
    using d by (intro sum_list_distinct_conv_sum_set) (simp add: distinct_map)
  also have "\<dots> = (\<Sum>a \<in> fst ` set providers. mset (report vals cp a (gm_get (the (gm_get providers a)) cp)))"
    using d by (subst sum.reindex)
      (auto simp: distinct_map gm_get_def intro!: sum.cong)
  finally show ?thesis by (simp add: gm_get_map_of dom_map_of_conv_image_fst)
qed

text \<open>(C18) The result does not depend on the order in which Go iterates the providers or the prices
  of a provider: providers with the same prices give the same price for every pair.\<close>

theorem median_order_independent:
  assumes "providers_wf providers" "providers_wf providers'" "vs_total_bonded_tokens vals = Inr bonded"
    "\<forall>a. quo a (bonded * dec_one) = Inr (q a)" "\<forall>a w. vote_weight vals a = Inr w \<longrightarrow> 0 \<le> w"
    "\<forall>a. map_option gm_get (gm_get providers a) = map_option gm_get (gm_get providers' a)"
  shows "\<exists>res res'. Median quo vals threshold providers = Inr res \<and>
    Median quo vals threshold providers' = Inr res' \<and> gm_get res = gm_get res'"
proof -
  have dom: "dom (gm_get providers) = dom (gm_get providers')"
    using assms(6) by (auto simp: dom_def) (metis map_option_is_None option.exhaust)+
  have same: "mset (reports vals cp providers) = mset (reports vals cp providers')" for cp
    unfolding report_mset [OF assms(1)] report_mset [OF assms(2)] dom
  proof (rule sum.cong [OF refl])
    fix a assume "a \<in> dom (gm_get providers')"
    then obtain ps ps' where "gm_get providers a = Some ps" "gm_get providers' a = Some ps'"
      using dom by blast
    moreover from this have "gm_get ps = gm_get ps'" using assms(6) [rule_format, of a] by simp
    ultimately show "mset (report vals cp a (gm_get (the (gm_get providers a)) cp)) =
        mset (report vals cp a (gm_get (the (gm_get providers' a)) cp))" by simp
  qed
  have "reports vals cp providers = [] \<longleftrightarrow> reports vals cp providers' = []" for cp
    using same [of cp] by (metis mset_zero_iff)
  moreover note weight_mset [OF same] weighted_median_mset [OF same]
  ultimately show ?thesis
    using Median_get [where quo = quo and q = q and bonded = bonded and threshold = threshold, OF assms(1,3,4,5)]
      Median_get [where quo = quo and q = q and bonded = bonded and threshold = threshold, OF assms(2,3,4,5)]
    by (fastforce simp: Let_def fun_eq_iff)
qed

theorem median_order_independent_witness:
  "\<exists>res res'. Median dec_quo vals0 DefaultPowerThreshold providers0 = Inr res \<and>
     Median dec_quo vals0 DefaultPowerThreshold (rev providers0) = Inr res' \<and> gm_get res = gm_get res'"
proof -
  have "providers_wf (rev providers0)" "gm_get (rev providers0) = gm_get providers0"
    by (auto simp: providers_wf_def gm_wf_def providers0_def gm_get_def fun_eq_iff)
  then show ?thesis
    using median_order_independent [where quo = dec_quo and q = "\<lambda>a. a div 100" and bonded = 100
        and threshold = DefaultPowerThreshold, OF vals0_facts(1) _ vals0_facts(2-4), of "rev providers0"]
    by simp
qed

text \<open>If the reports in an interval weigh more than half of all reports, by more than half a
  token, the price \<open>ComputeMedian\<close> returns is in that interval, and it is one of the reports.\<close>

theorem median_majority:
  assumes "pi_prices info \<noteq> []" "\<forall>p \<in> set (pi_prices info). 0 \<le> pv_vote_weight p"
    "pi_total_weight info = weight (pi_prices info)"
    "weight (pi_prices info) + 1 < 2 * weight (filter (\<lambda>p. lo \<le> pv_price p \<and> pv_price p \<le> hi) (pi_prices info))"
  shows "\<exists>r. ComputeMedian info = Some r \<and> r \<in> pv_price ` set (pi_prices info) \<and> lo \<le> r \<and> r \<le> hi"
proof -
  let ?ps = "pi_prices info" and ?in = "\<lambda>p. lo \<le> pv_price p \<and> pv_price p \<le> hi"
  let ?r = "weighted_median ?ps"
  note med = weighted_median_in [OF assms(1,2)]
  have split: "weight ps = weight (filter P ps) + weight (filter (\<lambda>p. \<not> P p) ps)" for P ps
    by (induction ps) auto
  have lower: "lo \<le> ?r"
  proof (rule ccontr)
    assume "\<not> lo \<le> ?r"
    then have "weight_le ?ps ?r \<le> weight (filter (\<lambda>p. \<not> ?in p) ?ps)"
      unfolding weight_le_def by (intro weight_filter_le) (use assms(2) in auto)
    then show False using med(2) assms(4) split [of ?ps ?in] by linarith
  qed
  have "\<exists>p \<in> set ?ps. ?in p"
  proof (rule ccontr)
    assume "\<not> ?thesis"
    then have "filter ?in ?ps = []" by (auto simp: filter_empty_conv)
    then have "weight (filter ?in ?ps) = 0" by simp
    then show False using assms(4) weight_nonneg [OF assms(2)] by linarith
  qed
  let ?c = "Max (pv_price ` {p \<in> set ?ps. ?in p})"
  have c: "?c \<in> pv_price ` {p \<in> set ?ps. ?in p}" using \<open>\<exists>p \<in> set ?ps. ?in p\<close> by (intro Max_in) auto
  have "weight (filter ?in ?ps) \<le> weight_le ?ps ?c"
    unfolding weight_le_def using assms(2)
    by (intro weight_filter_le) (auto intro: Max_ge)
  then have "?r \<le> ?c"
    using c assms(4) by (intro weighted_median_least) auto
  then have "?r \<le> hi" using c by auto
  then show ?thesis using ComputeMedian_eq [OF assms(1-3)] med(1) lower by blast
qed

theorem median_majority_witness:
  "\<exists>r. ComputeMedian \<lparr>pi_prices = reports vals0 pair0 providers0, pi_total_weight = 100\<rparr> = Some r \<and> 4 \<le> r \<and> r \<le> 6"
  using median_majority [of "\<lparr>pi_prices = reports vals0 pair0 providers0, pi_total_weight = 100\<rparr>" 4 6]
  by (auto simp: vals0_facts(5))

section \<open>The examples of the documents\<close>

text \<open>The second example of the package's README, prices 100, 200 and 300 with powers 10, 20 and 30, has the
  median 200, the price of the second validator, and not 250; and a reporting weight that equals the threshold
  is enough for a price.\<close>

theorem readme_example_is_200:
  "ComputeMedian \<lparr>pi_prices = [\<lparr>pv_vote_weight = 10, pv_price = 100\<rparr>, \<lparr>pv_vote_weight = 20, pv_price = 200\<rparr>,
     \<lparr>pv_vote_weight = 30, pv_price = 300\<rparr>], pi_total_weight = 60\<rparr> = Some 200"
  by code_simp

theorem threshold_is_enough:
  "vote_weight vals0 ''v1'' = Inr 70 \<and> vs_total_bonded_tokens vals0 = Inr 100 \<and>
   Median dec_quo vals0 (70 * dec_one div 100) [(''v1'', [(pair0, Some 5)])] = Inr [(pair0, Some 5)]"
  by code_simp

end
