(* ===== verification/Abci_Types.thy ===== *)
theory Abci_Types
  imports Currency_Pair
begin

text \<open>
  What the handlers of \<open>abci/\<close> share: the parts of \<open>sdk.Context\<close> and of CometBFT's messages they read,
  the constants of \<open>abci/types/constants.go\<close>, and the gob encoding of \<open>math/big.Int\<close>.
\<close>

section \<open>Contexts and messages\<close>

datatype exec_mode = ExecModeCheck | ExecModeReCheck | ExecModeSimulate | ExecModePrepareProposal
  | ExecModeProcessProposal | ExecModeVoteExtension | ExecModeVerifyVoteExtension | ExecModeFinalize

text \<open>The last commit as \<open>comet.CommitInfo\<close> shows it.\<close>

record commit_vote =
  cv_address :: bytes
  cv_power :: i64
  cv_block_id_flag :: int

record last_commit =
  lc_round :: int
  lc_votes :: "commit_vote list"

text \<open>\<open>cx_ve_enable_height\<close> is \<open>None\<close> when the consensus parameters carry no ABCI part. Heights are not
  computed with, except for one predecessor, and are plain integers.\<close>

record abci_ctx =
  cx_height :: int
  cx_time :: int
  cx_exec_mode :: exec_mode
  cx_ve_enable_height :: "int option"
  cx_header_height :: int
  cx_header_chain_id :: string
  cx_last_commit :: last_commit

text \<open>\<open>None\<close> is a nil byte slice: the handlers tell it from an empty one.\<close>

record vote_info =
  vi_address :: bytes
  vi_power :: i64
  vi_vote_extension :: "bytes option"
  vi_extension_signature :: "bytes option"
  vi_block_id_flag :: int

record extended_commit =
  ec_round :: int
  ec_votes :: "vote_info list"

definition BlockIDFlagAbsent :: int where "BlockIDFlagAbsent = 1"
definition BlockIDFlagCommit :: int where "BlockIDFlagCommit = 2"

text \<open>A slice read as bytes: nil reads as empty.\<close>

definition slice :: "bytes option \<Rightarrow> bytes" where
  "slice b = (case b of None \<Rightarrow> [] | Some bs \<Rightarrow> bs)"

lemma slice_simps [simp]: "slice None = []" "slice (Some bs) = bs"
  by (simp_all add: slice_def)

section \<open>Constants\<close>

definition MaximumPriceSize :: nat where "MaximumPriceSize = 33"
definition NumInjectedTxs :: nat where "NumInjectedTxs = 1"
definition OracleInfoIndex :: nat where "OracleInfoIndex = 0"

section \<open>The vote extension\<close>

text \<open>\<open>OracleVoteExtension\<close>: the encoded prices under their pairs' ids, in iteration order.\<close>

type_synonym vote_extension = "(u64 \<times> bytes) list"

section \<open>Integers as bytes\<close>

text \<open>The magnitude without leading zeros, most significant byte first; zero is empty.\<close>

fun be_bytes :: "nat \<Rightarrow> bytes" where
  "be_bytes n = (if n = 0 then [] else be_bytes (n div 256) @ [of_nat (n mod 256)])"

declare be_bytes.simps [simp del]

definition be_nat :: "bytes \<Rightarrow> nat" where
  "be_nat bs = fold (\<lambda>b acc. acc * 256 + unat b) bs 0"

text \<open>\<open>GobEncode\<close>: a byte with the version (1) and the sign, then the magnitude. \<open>GobDecode\<close> takes
  no bytes as zero.\<close>

definition gob_encode :: "int \<Rightarrow> bytes" where
  "gob_encode x = (if x < 0 then 3 else 2) # be_bytes (nat \<bar>x\<bar>)"

definition gob_decode :: "bytes \<Rightarrow> int res" where
  "gob_decode bs =
     (case bs of
        [] \<Rightarrow> Inr 0
      | b # mag \<Rightarrow>
          if drop_bit 1 b \<noteq> 1 then Inl (Errorf ''Int.GobDecode: encoding version not supported'')
          else Inr ((if bit b 0 then -1 else 1) * int (be_nat mag)))"

lemma be_nat_snoc: "be_nat (bs @ [b]) = be_nat bs * 256 + unat b"
  by (simp add: be_nat_def)

lemma be_nat_bytes [simp]: "be_nat (be_bytes n) = n"
proof (induction n rule: be_bytes.induct)
  case (1 n)
  show ?case
  proof (cases "n = 0")
    case False
    have "unat (of_nat (n mod 256) :: 8 word) = n mod 256"
      by (simp add: unat_of_nat)
    then show ?thesis
      using False 1 by (subst be_bytes.simps) (simp add: be_nat_snoc)
  qed (simp add: be_bytes.simps be_nat_def)
qed

lemma be_bytes_length: "length (be_bytes n) \<le> k \<longleftrightarrow> n < 256 ^ k"
proof (induction n arbitrary: k rule: be_bytes.induct)
  case (1 n)
  show ?case
  proof (cases "n = 0")
    case False
    then show ?thesis
      using 1 [OF False] by (cases k) (simp_all add: be_bytes.simps [of n] div_less_iff_less_mult mult.commute)
  qed (simp add: be_bytes.simps)
qed

lemma gob_roundtrip [simp]: "gob_decode (gob_encode x) = Inr x"
proof -
  have "drop_bit 1 (3 :: 8 word) = 1" "drop_bit 1 (2 :: 8 word) = 1" "bit (3 :: 8 word) 0" "\<not> bit (2 :: 8 word) 0"
    by (simp_all add: drop_bit_eq_div bit_0)
  then show ?thesis by (simp add: gob_decode_def gob_encode_def)
qed

lemma gob_length: "length (gob_encode x) \<le> Suc k \<longleftrightarrow> \<bar>x\<bar> < 256 ^ k"
proof -
  have "nat \<bar>x\<bar> < 256 ^ k \<longleftrightarrow> \<bar>x\<bar> < 256 ^ k"
    using nat_less_iff [of "\<bar>x\<bar>" "256 ^ k"] by simp
  then show ?thesis by (simp add: gob_encode_def be_bytes_length)
qed

end
