(* ===== verification/Strategy.thy ===== *)
theory Strategy
  imports Abci_Types Oracle_Genesis
begin

text \<open>
  \<open>abci/strategies/currencypair\<close>: how a pair and its price are represented in a vote extension. A
  strategy keeps a cache per block height; its operations read the store of \<open>x/oracle\<close>, which is
  their \<open>OracleKeeper\<close>, and update the strategy.
\<close>

section \<open>The default strategy\<close>

record default_strategy =
  ds_idCache :: "(u64, currency_pair) gomap"
  ds_previousHeight :: int

definition NewDefaultCurrencyPairStrategy :: default_strategy where
  "NewDefaultCurrencyPairStrategy = \<lparr>ds_idCache = [], ds_previousHeight = 0\<rparr>"

definition default_reset :: "abci_ctx \<Rightarrow> default_strategy \<Rightarrow> default_strategy" where
  "default_reset ctx s =
     (if cx_height ctx \<noteq> ds_previousHeight s
      then s\<lparr>ds_idCache := [], ds_previousHeight := cx_height ctx\<rparr> else s)"

definition cache_pair :: "u64 \<Rightarrow> currency_pair \<Rightarrow> default_strategy \<Rightarrow> default_strategy" where
  "cache_pair i cp s = s\<lparr>ds_idCache := gm_set i cp (ds_idCache s)\<rparr>"

definition default_ID :: "abci_ctx \<Rightarrow> oracle_store \<Rightarrow> currency_pair \<Rightarrow> (default_strategy, u64) comp" where
  "default_ID ctx os cp s0 =
     (let s = default_reset ctx s0 in
      case GetIDForCurrencyPair cp os of
        None \<Rightarrow> (Inl (Errorf ''currency pair not found in x/oracle state''), s)
      | Some i \<Rightarrow> (Inr i, cache_pair i cp s))"

definition default_FromID :: "abci_ctx \<Rightarrow> oracle_store \<Rightarrow> u64 \<Rightarrow> (default_strategy, currency_pair) comp" where
  "default_FromID ctx os i s0 =
     (let s = default_reset ctx s0 in
      case gm_get (ds_idCache s) i of
        Some cp \<Rightarrow> (Inr cp, s)
      | None \<Rightarrow>
          (case GetCurrencyPairFromID i os of
             None \<Rightarrow> (Inl (Errorf ''id not found''), s)
           | Some cp \<Rightarrow> (Inr cp, cache_pair i cp s)))"

definition default_GetEncodedPrice :: "int \<Rightarrow> bytes res" where
  "default_GetEncodedPrice price =
     (if price < 0 then Inl (Errorf ''price cannot be negative'') else Inr (gob_encode price))"

definition default_GetDecodedPrice :: "bytes \<Rightarrow> int res" where
  "default_GetDecodedPrice priceBytes =
     bind_res (gob_decode priceBytes) (\<lambda>price.
     if price < 0 then Inl (Errorf ''price cannot be negative'') else Inr price)"

definition default_GetMaxNumCP :: "abci_ctx \<Rightarrow> oracle_store \<Rightarrow> u64 res" where
  "default_GetMaxNumCP ctx os =
     bind_res (GetNumCurrencyPairs os) (\<lambda>current.
     if cx_exec_mode ctx = ExecModePrepareProposal \<or> cx_exec_mode ctx = ExecModeProcessProposal
     then bind_res (GetNumRemovedCurrencyPairs os) (\<lambda>removed. Inr (current + removed))
     else Inr current)"

section \<open>The delta strategy\<close>

text \<open>It embeds a default strategy and has a \<open>previousHeight\<close> of its own for the price cache.\<close>

record delta_strategy =
  dl_default :: default_strategy
  dl_cache :: "(currency_pair, int) gomap"
  dl_previousHeight :: int

definition NewDeltaCurrencyPairStrategy :: delta_strategy where
  "NewDeltaCurrencyPairStrategy =
     \<lparr>dl_default = NewDefaultCurrencyPairStrategy, dl_cache = [], dl_previousHeight = 0\<rparr>"

definition on_chain_price :: "oracle_store \<Rightarrow> currency_pair \<Rightarrow> int res" where
  "on_chain_price os cp =
     (case GetPriceForCurrencyPair cp os of
        Inr quote \<Rightarrow> Inr (qp_price quote)
      | Inl (QuotePriceNotExistError k) \<Rightarrow> Inr 0
      | Inl e \<Rightarrow> Inl (Wrapf ''error getting price for currency pair'' e))"

definition getOnChainPrice :: "abci_ctx \<Rightarrow> oracle_store \<Rightarrow> currency_pair \<Rightarrow> (delta_strategy, int) comp" where
  "getOnChainPrice ctx os cp s0 =
     (let s = (if cx_height ctx \<noteq> dl_previousHeight s0
               then s0\<lparr>dl_cache := [], dl_previousHeight := cx_height ctx\<rparr> else s0) in
      case gm_get (dl_cache s) cp of
        Some price \<Rightarrow> (Inr price, s)
      | None \<Rightarrow>
          (case on_chain_price os cp of
             Inl e \<Rightarrow> (Inl e, s)
           | Inr currentPrice \<Rightarrow> (Inr currentPrice, s\<lparr>dl_cache := gm_set cp currentPrice (dl_cache s)\<rparr>)))"

definition delta_GetEncodedPrice ::
    "abci_ctx \<Rightarrow> oracle_store \<Rightarrow> currency_pair \<Rightarrow> int \<Rightarrow> (delta_strategy, bytes) comp" where
  "delta_GetEncodedPrice ctx os cp price =
     (if price < 0 then throwC (Errorf ''price cannot be negative'')
      else bindC (getOnChainPrice ctx os cp) (\<lambda>onChainPrice.
           returnC (gob_encode (price - onChainPrice))))"

definition delta_GetDecodedPrice ::
    "abci_ctx \<Rightarrow> oracle_store \<Rightarrow> currency_pair \<Rightarrow> bytes \<Rightarrow> (delta_strategy, int) comp" where
  "delta_GetDecodedPrice ctx os cp priceBytes =
     bindC (getOnChainPrice ctx os cp) (\<lambda>onChainPrice.
     bindC (liftC (gob_decode priceBytes)) (\<lambda>delta.
     if delta + onChainPrice < 0 then throwC (Errorf ''price cannot be negative'')
     else returnC (delta + onChainPrice)))"

section \<open>The hash strategy\<close>

text \<open>\<open>hash\<close> is the first eight bytes of SHA-256, which is not code of the repository.\<close>

definition hash_ID ::
    "(string \<Rightarrow> u64) \<Rightarrow> abci_ctx \<Rightarrow> oracle_store \<Rightarrow> currency_pair \<Rightarrow> (default_strategy, u64) comp" where
  "hash_ID hash ctx os cp s0 =
     (let s = default_reset ctx s0 in
      case GetIDForCurrencyPair cp os of
        None \<Rightarrow> (Inl (Errorf ''currency pair not found in x/oracle state''), s)
      | Some _ \<Rightarrow>
          let h = hash (CurrencyPair_String cp) in (Inr h, cache_pair h cp s))"

definition hash_FromID ::
    "(string \<Rightarrow> u64) \<Rightarrow> abci_ctx \<Rightarrow> oracle_store \<Rightarrow> u64 \<Rightarrow> (default_strategy, currency_pair) comp" where
  "hash_FromID hash ctx os i s0 =
     (let s = default_reset ctx s0 in
      case gm_get (ds_idCache s) i of
        Some cp \<Rightarrow> (Inr cp, s)
      | None \<Rightarrow>
          let s' = fold (\<lambda>cp. cache_pair (hash (CurrencyPair_String cp)) cp) (GetAllCurrencyPairs os) s in
          (case gm_get (ds_idCache s') i of
             None \<Rightarrow> (Inl (Errorf ''currency pair with sha256 hashed ID not found in x/oracle state''), s')
           | Some cp \<Rightarrow> (Inr cp, s')))"

section \<open>The interface\<close>

text \<open>\<open>CurrencyPairStrategy\<close>: a value of one of the three types.\<close>

datatype strategy = DefaultS default_strategy | DeltaS delta_strategy | HashS "string \<Rightarrow> u64" default_strategy

definition on_default :: "(default_strategy, 'a) comp \<Rightarrow> (delta_strategy, 'a) comp" where
  "on_default m s = (case m (dl_default s) of (r, d) \<Rightarrow> (r, s\<lparr>dl_default := d\<rparr>))"

fun strategy_ID :: "abci_ctx \<Rightarrow> oracle_store \<Rightarrow> currency_pair \<Rightarrow> (strategy, u64) comp" where
  "strategy_ID ctx os cp (DefaultS s) = map_prod id DefaultS (default_ID ctx os cp s)"
| "strategy_ID ctx os cp (DeltaS s) = map_prod id DeltaS (on_default (default_ID ctx os cp) s)"
| "strategy_ID ctx os cp (HashS hash s) = map_prod id (HashS hash) (hash_ID hash ctx os cp s)"

fun strategy_FromID :: "abci_ctx \<Rightarrow> oracle_store \<Rightarrow> u64 \<Rightarrow> (strategy, currency_pair) comp" where
  "strategy_FromID ctx os i (DefaultS s) = map_prod id DefaultS (default_FromID ctx os i s)"
| "strategy_FromID ctx os i (DeltaS s) = map_prod id DeltaS (on_default (default_FromID ctx os i) s)"
| "strategy_FromID ctx os i (HashS hash s) = map_prod id (HashS hash) (hash_FromID hash ctx os i s)"

fun strategy_GetEncodedPrice ::
    "abci_ctx \<Rightarrow> oracle_store \<Rightarrow> currency_pair \<Rightarrow> int \<Rightarrow> (strategy, bytes) comp" where
  "strategy_GetEncodedPrice ctx os cp price (DefaultS s) = (default_GetEncodedPrice price, DefaultS s)"
| "strategy_GetEncodedPrice ctx os cp price (DeltaS s) =
     map_prod id DeltaS (delta_GetEncodedPrice ctx os cp price s)"
| "strategy_GetEncodedPrice ctx os cp price (HashS hash s) = (default_GetEncodedPrice price, HashS hash s)"

fun strategy_GetDecodedPrice ::
    "abci_ctx \<Rightarrow> oracle_store \<Rightarrow> currency_pair \<Rightarrow> bytes \<Rightarrow> (strategy, int) comp" where
  "strategy_GetDecodedPrice ctx os cp bz (DefaultS s) = (default_GetDecodedPrice bz, DefaultS s)"
| "strategy_GetDecodedPrice ctx os cp bz (DeltaS s) =
     map_prod id DeltaS (delta_GetDecodedPrice ctx os cp bz s)"
| "strategy_GetDecodedPrice ctx os cp bz (HashS hash s) = (default_GetDecodedPrice bz, HashS hash s)"

text \<open>No strategy overrides \<open>GetMaxNumCP\<close>.\<close>

definition strategy_GetMaxNumCP :: "abci_ctx \<Rightarrow> oracle_store \<Rightarrow> strategy \<Rightarrow> u64 res" where
  "strategy_GetMaxNumCP ctx os s = default_GetMaxNumCP ctx os"

end
