(* ===== verification/Strategy_Properties.thy ===== *)
theory Strategy_Properties
  imports Strategy
begin

text \<open>
  The properties of the currency pair strategies: prices survive encoding and decoding and their size
  bound, ids lead back to their pairs, the bound on the number of pairs covers the votes of the last
  block, and why two users must not share a delta strategy.
\<close>

section \<open>The keeper interface of the strategies\<close>

text \<open>
  What a strategy with an id cache asks of its \<open>OracleKeeper\<close>: \<open>look\<close> inverts \<open>ident\<close>. Under this
  contract a cache that holds only answers of the keeper stays one.
\<close>

locale id_keeper =
  fixes good :: "'s \<Rightarrow> bool" and usable :: "'p \<Rightarrow> bool"
    and ident :: "'p \<Rightarrow> 's \<Rightarrow> 'i option" and look :: "'i \<Rightarrow> 's \<Rightarrow> 'p option"
  assumes look_ident: "good s \<Longrightarrow> usable p \<Longrightarrow> ident p s = Some i \<Longrightarrow> look i s = Some p"
begin

lemma ident_inj: "good s \<Longrightarrow> usable p \<Longrightarrow> usable q \<Longrightarrow> ident p s = Some i \<Longrightarrow> ident q s = Some i \<Longrightarrow> p = q"
  using look_ident [of s p i] look_ident [of s q i] by simp

lemma cache_look:
  assumes "look i s = Some p" "\<And>j q. gm_get c j = Some q \<Longrightarrow> look j s = Some q"
  shows "gm_get (gm_set i p c) j = Some q \<Longrightarrow> look j s = Some q"
  using assms by (auto split: if_splits)

end

lemma keeper_look_ident:
  assumes "index_inv s" "ValidateBasic cp = Inr () \<and> slash_free cp" "GetIDForCurrencyPair cp s = Some i"
  shows "GetCurrencyPairFromID i s = Some cp"
  using assms String_FromString_aux [of cp] by (auto simp: GetID_iff from_id_iff [OF assms(1)])

interpretation oracle_ids: id_keeper index_inv "\<lambda>cp. ValidateBasic cp = Inr () \<and> slash_free cp"
  GetIDForCurrencyPair GetCurrencyPairFromID
  by unfold_locales (rule keeper_look_ident)

text \<open>The id cache holds answers of the keeper at the current height.\<close>

definition ids_coherent :: "abci_ctx \<Rightarrow> oracle_store \<Rightarrow> default_strategy \<Rightarrow> bool" where
  "ids_coherent ctx os s \<longleftrightarrow>
     (cx_height ctx = ds_previousHeight s \<longrightarrow>
       (\<forall>j q. gm_get (ds_idCache s) j = Some q \<longrightarrow> GetCurrencyPairFromID j os = Some q))"

lemma reset_coherent:
  "ids_coherent ctx os s \<Longrightarrow> gm_get (ds_idCache (default_reset ctx s)) j = Some q \<Longrightarrow>
     GetCurrencyPairFromID j os = Some q"
  by (auto simp: ids_coherent_def default_reset_def split: if_splits)

lemma reset_height [simp]: "ds_previousHeight (default_reset ctx s) = cx_height ctx"
  by (simp add: default_reset_def)

section \<open>Ids\<close>

text \<open>With a cache of keeper answers, \<open>FromID\<close> of the default strategy answers what the store of
  \<open>x/oracle\<close> answers, \<open>FromID\<close> right after \<open>ID\<close> returns the pair, and both keep such a cache.\<close>

theorem default_ids:
  assumes "index_inv os" "ids_coherent ctx os s"
  shows "(fst (default_FromID ctx os i s) =
      (case GetCurrencyPairFromID i os of Some cp \<Rightarrow> Inr cp | None \<Rightarrow> Inl (Errorf ''id not found''))) \<and>
    ids_coherent ctx os (snd (default_FromID ctx os i s)) \<and>
    (ValidateBasic cp = Inr () \<and> slash_free cp \<and> default_ID ctx os cp s = (Inr j, s') \<longrightarrow>
       ids_coherent ctx os s' \<and> fst (default_FromID ctx os j s') = Inr cp)"
proof -
  let ?s = "default_reset ctx s"
  have reads: "fst (default_FromID ctx os i s) =
      (case GetCurrencyPairFromID i os of Some cp \<Rightarrow> Inr cp | None \<Rightarrow> Inl (Errorf ''id not found''))"
    using reset_coherent [OF assms(2), of i]
    by (auto simp: default_FromID_def Let_def split: option.split)
  have base: "ids_coherent ctx os ?s"
    using reset_coherent [OF assms(2)] unfolding ids_coherent_def by blast
  have put: "ids_coherent ctx os (cache_pair j q ?s)" if "GetCurrencyPairFromID j os = Some q" for j q
    using oracle_ids.cache_look [of j os q "ds_idCache ?s", OF that reset_coherent [OF assms(2)]]
    unfolding ids_coherent_def cache_pair_def by simp
  have keep: "ids_coherent ctx os (snd (default_FromID ctx os i s))"
    using base put [of i]
    by (cases "gm_get (ds_idCache ?s) i"; cases "GetCurrencyPairFromID i os")
       (simp_all add: default_FromID_def)
  have "ids_coherent ctx os s' \<and> fst (default_FromID ctx os j s') = Inr cp"
    if usable: "ValidateBasic cp = Inr () \<and> slash_free cp" and id: "default_ID ctx os cp s = (Inr j, s')"
  proof -
    have j: "GetIDForCurrencyPair cp os = Some j" and s': "s' = cache_pair j cp ?s"
      using id by (auto simp: default_ID_def Let_def split: option.splits)
    have "default_reset ctx s' = s'" by (simp add: s' default_reset_def cache_pair_def)
    then have "fst (default_FromID ctx os j s') = Inr cp"
      by (simp add: default_FromID_def Let_def s' cache_pair_def)
    moreover have "ids_coherent ctx os s'"
      unfolding s' by (rule put) (rule oracle_ids.look_ident [OF assms(1) usable j])
    ultimately show ?thesis by blast
  qed
  with reads keep show ?thesis by blast
qed

definition ctx_at :: "int \<Rightarrow> abci_ctx" where
  "ctx_at h = \<lparr>cx_height = h, cx_time = 0, cx_exec_mode = ExecModeVoteExtension, cx_ve_enable_height = Some 1,
     cx_header_height = h, cx_header_chain_id = ''c'', cx_last_commit = \<lparr>lc_round = 0, lc_votes = []\<rparr>\<rparr>"

theorem default_ids_witness:
  "fst (default_FromID (ctx_at 5) store0 0 NewDefaultCurrencyPairStrategy) = Inr btc_usd"
proof -
  have "ids_coherent (ctx_at 5) store0 NewDefaultCurrencyPairStrategy"
    by (simp add: ids_coherent_def NewDefaultCurrencyPairStrategy_def ctx_at_def)
  moreover have "GetCurrencyPairFromID 0 store0 = Some btc_usd"
    by (rule keeper_look_ident [OF reachable_index [OF store0_reachable]])
      (simp_all add: btc_usd_valid GetID_iff store0_def kv_get_def NewCurrencyPairState_def)
  ultimately show ?thesis
    using default_ids [OF reachable_index [OF store0_reachable]] by simp
qed

section \<open>Prices\<close>

text \<open>The default encoding of a non-negative price decodes to it, a negative price is refused on
  both sides, and an encoded price fits \<open>MaximumPriceSize\<close> exactly when it is below \<open>2 ^ 256\<close>.\<close>

theorem default_price_roundtrip:
  "(0 \<le> price \<longrightarrow>
      (\<exists>bz. default_GetEncodedPrice price = Inr bz \<and> default_GetDecodedPrice bz = Inr price \<and>
        (length bz \<le> MaximumPriceSize \<longleftrightarrow> price < 2 ^ 256))) \<and>
   (price < 0 \<longrightarrow> \<not> is_ok (default_GetEncodedPrice price) \<and> \<not> is_ok (default_GetDecodedPrice (gob_encode price)))"
proof -
  have "(256 :: int) ^ 32 = 2 ^ 256" by simp
  then show ?thesis
    using gob_length [of price 32]
    by (auto simp: default_GetEncodedPrice_def default_GetDecodedPrice_def MaximumPriceSize_def)
qed

theorem default_price_roundtrip_witness:
  "\<exists>bz. default_GetEncodedPrice 70000 = Inr bz \<and> default_GetDecodedPrice bz = Inr 70000"
  using default_price_roundtrip [of 70000] by auto

definition prices_coherent :: "abci_ctx \<Rightarrow> oracle_store \<Rightarrow> delta_strategy \<Rightarrow> bool" where
  "prices_coherent ctx os s \<longleftrightarrow>
     (cx_height ctx = dl_previousHeight s \<longrightarrow>
       (\<forall>cp p. gm_get (dl_cache s) cp = Some p \<longrightarrow> on_chain_price os cp = Inr p))"

lemma getOnChainPrice_coherent:
  assumes "prices_coherent ctx os s" "on_chain_price os cp = Inr p"
  shows "\<exists>s'. getOnChainPrice ctx os cp s = (Inr p, s') \<and> prices_coherent ctx os s'"
  using assms
  by (auto simp: getOnChainPrice_def Let_def prices_coherent_def split: option.splits)

text \<open>A delta strategy whose cache agrees with the chain encodes a non-negative price so that any
  other such strategy, on a store with the same price of the pair, decodes it back; the encoding fits
  exactly when the difference to the chain's price is below \<open>2 ^ 256\<close>.\<close>

theorem delta_price_roundtrip:
  assumes "prices_coherent ctx os s" "prices_coherent ctx' os' s'" "0 \<le> price"
    "on_chain_price os cp = Inr p" "on_chain_price os' cp = Inr p"
  shows "\<exists>bz t t'. delta_GetEncodedPrice ctx os cp price s = (Inr bz, t) \<and>
    delta_GetDecodedPrice ctx' os' cp bz s' = (Inr price, t') \<and>
    prices_coherent ctx os t \<and> prices_coherent ctx' os' t' \<and>
    (length bz \<le> MaximumPriceSize \<longleftrightarrow> \<bar>price - p\<bar> < 2 ^ 256)"
proof -
  obtain t where t: "getOnChainPrice ctx os cp s = (Inr p, t)" "prices_coherent ctx os t"
    using getOnChainPrice_coherent [OF assms(1,4)] by blast
  obtain t' where t': "getOnChainPrice ctx' os' cp s' = (Inr p, t')" "prices_coherent ctx' os' t'"
    using getOnChainPrice_coherent [OF assms(2,5)] by blast
  have "(256 :: int) ^ 32 = 2 ^ 256" by simp
  moreover have "delta_GetEncodedPrice ctx os cp price s = (Inr (gob_encode (price - p)), t)"
    using t assms(3) by (simp add: delta_GetEncodedPrice_def bindC_def returnC_def)
  moreover have "delta_GetDecodedPrice ctx' os' cp (gob_encode (price - p)) s' = (Inr price, t')"
    using t' assms(3) by (simp add: delta_GetDecodedPrice_def bindC_def returnC_def liftC_def)
  ultimately show ?thesis
    using t(2) t'(2) gob_length [of "price - p" 32] by (auto simp: MaximumPriceSize_def)
qed

text \<open>A store that tracks BTC/USD at the given price.\<close>

definition store_at :: "int \<Rightarrow> oracle_store" where
  "store_at p = store0\<lparr>os_currency_pairs :=
     [(''BTC/USD'', NewCurrencyPairState 0 1 (Some \<lparr>qp_price = p, qp_block_timestamp = 0, qp_block_height = 1\<rparr>))]\<rparr>"

lemma store_at_price: "on_chain_price (store_at p) btc_usd = Inr p"
  by (simp add: on_chain_price_def GetPrice_eq store_at_def kv_get_def btc_usd_valid NewCurrencyPairState_def)

lemma fresh_coherent: "h \<noteq> 0 \<Longrightarrow> prices_coherent (ctx_at h) os NewDeltaCurrencyPairStrategy"
  by (simp add: prices_coherent_def NewDeltaCurrencyPairStrategy_def ctx_at_def)

theorem delta_price_roundtrip_witness:
  "\<exists>bz t t'. delta_GetEncodedPrice (ctx_at 5) (store_at 100) btc_usd 120 NewDeltaCurrencyPairStrategy = (Inr bz, t) \<and>
     delta_GetDecodedPrice (ctx_at 6) (store_at 100) btc_usd bz NewDeltaCurrencyPairStrategy = (Inr 120, t')"
  using delta_price_roundtrip [OF fresh_coherent fresh_coherent _ store_at_price store_at_price, of 5 6 120]
  by fastforce

text \<open>A delta strategy must not be shared between the price applier and the vote extension handler,
  as the documentation demands: at height 5 the applier decodes a vote while the chain's price is 100 and
  then writes 110; the handler then encodes 120 against the cached 100, and the next block, where
  the chain's price is 110, decodes 130.\<close>

theorem shared_delta_strategy_is_stale:
  "\<exists>t bz t' u. delta_GetDecodedPrice (ctx_at 5) (store_at 100) btc_usd (gob_encode 10) NewDeltaCurrencyPairStrategy =
      (Inr 110, t) \<and>
    delta_GetEncodedPrice (ctx_at 5) (store_at 110) btc_usd 120 t = (Inr bz, t') \<and>
    delta_GetDecodedPrice (ctx_at 6) (store_at 110) btc_usd bz t' = (Inr 130, u)"
  using store_at_price [of 100] store_at_price [of 110]
  by (simp add: delta_GetDecodedPrice_def delta_GetEncodedPrice_def getOnChainPrice_def bindC_def liftC_def
      returnC_def NewDeltaCurrencyPairStrategy_def ctx_at_def gm_get_def gm_set_def)

section \<open>The bound on the number of pairs\<close>

definition cp_sum :: "oracle_store \<Rightarrow> u64 option" where
  "cp_sum s = (case os_num_cps s of None \<Rightarrow> None | Some n \<Rightarrow>
     (case os_num_removes s of None \<Rightarrow> None | Some r \<Rightarrow> Some (n + r)))"

lemma max_num_proposal:
  "cx_exec_mode ctx = ExecModePrepareProposal \<or> cx_exec_mode ctx = ExecModeProcessProposal \<Longrightarrow>
     default_GetMaxNumCP ctx s = Inr n \<longleftrightarrow> cp_sum s = Some n"
  by (auto simp: default_GetMaxNumCP_def GetNumCurrencyPairs_def GetNumRemovedCurrencyPairs_def item_Get_def
      cp_sum_def split: option.splits)

text \<open>In a proposal, \<open>GetMaxNumCP\<close> counts the pairs of the last block's beginning: the begin blocker
  leaves the number of tracked pairs, a removal does not lower it, a creation raises it by one.\<close>

theorem max_num_covers_block:
  assumes "cx_exec_mode ctx = ExecModePrepareProposal" "index_inv s"
  shows "(BeginBlocker s = (Inr (), t) \<longrightarrow>
      default_GetMaxNumCP ctx t = GetNumCurrencyPairs s) \<and>
    (RemoveCurrencyPair cp s = (Inr (), t) \<longrightarrow>
      default_GetMaxNumCP ctx t = default_GetMaxNumCP ctx s) \<and>
    (CreateCurrencyPair cp s = (Inr (), t) \<and> default_GetMaxNumCP ctx s = Inr n \<longrightarrow>
      default_GetMaxNumCP ctx t = Inr (n + 1))"
proof (intro conjI impI)
  assume "BeginBlocker s = (Inr (), t)"
  then show "default_GetMaxNumCP ctx t = GetNumCurrencyPairs s"
    using assms(1)
    by (auto simp: BeginBlocker_def comp_Inr default_GetMaxNumCP_def GetNumCurrencyPairs_def
        GetNumRemovedCurrencyPairs_def item_Get_def split: option.split)
next
  assume rem: "RemoveCurrencyPair cp s = (Inr (), t)"
  obtain n r where "os_num_cps s = Some n" "os_num_cps t = Some (n - 1)"
    "os_num_removes s = Some r" "os_num_removes t = Some (r + 1)"
    using remove_result(4,5) [OF rem assms(2)] by blast
  then show "default_GetMaxNumCP ctx t = default_GetMaxNumCP ctx s"
    using assms(1)
    by (simp add: default_GetMaxNumCP_def GetNumCurrencyPairs_def GetNumRemovedCurrencyPairs_def item_Get_def)
next
  assume cre: "CreateCurrencyPair cp s = (Inr (), t) \<and> default_GetMaxNumCP ctx s = Inr n"
  obtain m where "os_num_cps s = Some m" "os_num_cps t = Some (m + 1)" "os_num_removes t = os_num_removes s"
    using create_result(4,5) [OF conjunct1 [OF cre] assms(2)] by blast
  then show "default_GetMaxNumCP ctx t = Inr (n + 1)"
    using assms(1) cre
    by (auto simp: default_GetMaxNumCP_def GetNumCurrencyPairs_def GetNumRemovedCurrencyPairs_def item_Get_def
        split: option.splits)
qed

theorem max_num_covers_block_witness:
  "\<exists>t. BeginBlocker store0 = (Inr (), t) \<and>
     default_GetMaxNumCP ((ctx_at 5)\<lparr>cx_exec_mode := ExecModePrepareProposal\<rparr>) t = Inr 1"
proof -
  have "BeginBlocker store0 = (Inr (), store0\<lparr>os_num_removes := Some 0\<rparr>)"
    by (simp add: BeginBlocker_def modifyC_def)
  moreover have "GetNumCurrencyPairs store0 = Inr 1"
    by (simp add: GetNumCurrencyPairs_def item_Get_def store0_def)
  ultimately show ?thesis
    using max_num_covers_block [of "(ctx_at 5)\<lparr>cx_exec_mode := ExecModePrepareProposal\<rparr>" store0]
      reachable_index [OF store0_reachable] by auto
qed

end
