(* ===== verification/Vote_Aggregator.thy ===== *)
theory Vote_Aggregator
  imports Strategy Vote_Weighted
begin

text \<open>
  \<open>abci/strategies/codec\<close> and \<open>abci/strategies/aggregator\<close>: the codecs of vote extensions and extended
  commits, the decoding of the votes of a proposal, their aggregation into prices and the writing
  of the prices to \<open>x/oracle\<close>. The protobuf encodings and the two compressors are arguments, and so is
  the string form of a consensus address.
\<close>

section \<open>Codecs\<close>

record ve_codec =
  vc_encode :: "vote_extension \<Rightarrow> bytes res"
  vc_decode :: "bytes \<Rightarrow> vote_extension res"

record ec_codec =
  xc_encode :: "extended_commit \<Rightarrow> bytes res"
  xc_decode :: "bytes \<Rightarrow> extended_commit res"

record compressor =
  co_compress :: "bytes \<Rightarrow> bytes res"
  co_decompress :: "bytes \<Rightarrow> bytes res"

definition DefaultVoteExtensionCodec ::
    "(vote_extension \<Rightarrow> bytes res) \<Rightarrow> (bytes \<Rightarrow> vote_extension res) \<Rightarrow> ve_codec" where
  "DefaultVoteExtensionCodec marshal unmarshal = \<lparr>vc_encode = marshal, vc_decode = unmarshal\<rparr>"

definition ZLibCompressor :: "(bytes \<Rightarrow> bytes res) \<Rightarrow> (bytes \<Rightarrow> bytes res) \<Rightarrow> compressor" where
  "ZLibCompressor write read =
     \<lparr>co_compress = write, co_decompress = (\<lambda>bz. if bz = [] then Inr [] else read bz)\<rparr>"

definition ZStdCompressor :: "(bytes \<Rightarrow> bytes) \<Rightarrow> (bytes \<Rightarrow> bytes res) \<Rightarrow> compressor" where
  "ZStdCompressor encodeAll decodeAll =
     \<lparr>co_compress = (\<lambda>bz. Inr (encodeAll bz)), co_decompress = decodeAll\<rparr>"

definition CompressionVoteExtensionCodec :: "ve_codec \<Rightarrow> compressor \<Rightarrow> ve_codec" where
  "CompressionVoteExtensionCodec c cm =
     \<lparr>vc_encode = (\<lambda>ve. bind_res (vc_encode c ve) (co_compress cm)),
      vc_decode = (\<lambda>bz. bind_res (co_decompress cm bz) (vc_decode c))\<rparr>"

definition empty_commit :: extended_commit where
  "empty_commit = \<lparr>ec_round = 0, ec_votes = []\<rparr>"

definition DefaultExtendedCommitCodec ::
    "(extended_commit \<Rightarrow> bytes res) \<Rightarrow> (bytes \<Rightarrow> extended_commit res) \<Rightarrow> ec_codec" where
  "DefaultExtendedCommitCodec marshal unmarshal =
     \<lparr>xc_encode = marshal, xc_decode = (\<lambda>bz. if bz = [] then Inr empty_commit else unmarshal bz)\<rparr>"

definition CompressionExtendedCommitCodec :: "ec_codec \<Rightarrow> compressor \<Rightarrow> ec_codec" where
  "CompressionExtendedCommitCodec c cm =
     \<lparr>xc_encode = (\<lambda>ec. bind_res (xc_encode c ec) (co_compress cm)),
      xc_decode = (\<lambda>bz. bind_res (co_decompress cm bz) (xc_decode c))\<rparr>"

section \<open>The votes of a proposal\<close>

record vote =
  vt_cons_address :: bytes
  vt_extension :: vote_extension

fun decode_votes :: "ve_codec \<Rightarrow> vote_info list \<Rightarrow> vote list res" where
  "decode_votes veCodec [] = Inr []"
| "decode_votes veCodec (v # vs) =
     bind_res (mapErr (\<lambda>e. CodecError (Wrapf ''error decoding vote-extension'' e))
                (vc_decode veCodec (slice (vi_vote_extension v)))) (\<lambda>voteExtension.
     bind_res (decode_votes veCodec vs) (\<lambda>votes.
     Inr (\<lparr>vt_cons_address = vi_address v, vt_extension = voteExtension\<rparr> # votes)))"

definition GetOracleVotes :: "bytes list \<Rightarrow> ve_codec \<Rightarrow> ec_codec \<Rightarrow> vote list res" where
  "GetOracleVotes proposal veCodec extCommitCodec =
     (if length proposal < NumInjectedTxs then Inl MissingCommitInfoError
      else bind_res (mapErr (\<lambda>e. CodecError (Wrapf ''error decoding extended-commit-info'' e))
                      (xc_decode extCommitCodec (proposal ! OracleInfoIndex))) (\<lambda>info.
           decode_votes veCodec (ec_votes info)))"

section \<open>Aggregation\<close>

text \<open>The nil map of prices is the empty one. \<open>va_cons_string\<close> is \<open>ConsAddress.String\<close>.\<close>

record vote_aggregator =
  va_aggregator :: "(abci_ctx, string, price_map) data_aggregator"
  va_strategy :: strategy
  va_cons_string :: "bytes \<Rightarrow> string"

definition NewDefaultVoteAggregator ::
    "(bytes \<Rightarrow> string) \<Rightarrow> (abci_ctx \<Rightarrow> (string, price_map) gomap \<Rightarrow> price_map res) \<Rightarrow> strategy \<Rightarrow> vote_aggregator" where
  "NewDefaultVoteAggregator consString aggregateFn strat =
     \<lparr>va_aggregator = NewDataAggregator [] [WithAggregateFnFromContext aggregateFn],
      va_strategy = strat, va_cons_string = consString\<rparr>"

text \<open>One entry of a vote extension: too long, of no known pair or not decodable, it is skipped.\<close>

definition add_entry ::
    "abci_ctx \<Rightarrow> oracle_store \<Rightarrow> u64 \<times> bytes \<Rightarrow> strategy \<times> price_map \<Rightarrow> strategy \<times> price_map" where
  "add_entry ctx os = (\<lambda>(cpID, priceBz) (st, prices).
     if MaximumPriceSize < length priceBz then (st, prices)
     else case strategy_FromID ctx os cpID st of
            (Inl _, st1) \<Rightarrow> (st1, prices)
          | (Inr cp, st1) \<Rightarrow>
              (case strategy_GetDecodedPrice ctx os cp priceBz st1 of
                 (Inl _, st2) \<Rightarrow> (st2, prices)
               | (Inr price, st2) \<Rightarrow> (st2, gm_set cp (Some price) prices)))"

definition addVoteToAggregator ::
    "abci_ctx \<Rightarrow> oracle_store \<Rightarrow> string \<Rightarrow> vote_extension \<Rightarrow> vote_aggregator \<Rightarrow> vote_aggregator" where
  "addVoteToAggregator ctx os address oracleData va =
     (if oracleData = [] then va
      else let (st, prices) = fold (add_entry ctx os) oracleData (va_strategy va, []) in
           va\<lparr>va_strategy := st, va_aggregator := SetProviderData address prices (va_aggregator va)\<rparr>)"

definition add_votes :: "abci_ctx \<Rightarrow> oracle_store \<Rightarrow> vote list \<Rightarrow> vote_aggregator \<Rightarrow> vote_aggregator" where
  "add_votes ctx os votes va =
     fold (\<lambda>v va. addVoteToAggregator ctx os (va_cons_string va (vt_cons_address v)) (vt_extension v) va) votes
       (va\<lparr>va_aggregator := ResetProviderData (va_aggregator va)\<rparr>)"

definition AggregateOracleVotes ::
    "abci_ctx \<Rightarrow> oracle_store \<Rightarrow> vote list \<Rightarrow> (vote_aggregator, price_map) comp" where
  "AggregateOracleVotes ctx os votes va0 =
     (let va = add_votes ctx os votes va0 in
      case AggregateDataFromContext ctx (va_aggregator va) of
        (Inl e, agg) \<Rightarrow> (Inl e, va\<lparr>va_aggregator := agg\<rparr>)
      | (Inr _, agg) \<Rightarrow> (Inr (GetAggregatedData agg), va\<lparr>va_aggregator := agg\<rparr>))"

definition GetPriceForValidator :: "bytes \<Rightarrow> vote_aggregator \<Rightarrow> price_map" where
  "GetPriceForValidator validator va =
     GetDataByProvider [] (va_cons_string va validator) (va_aggregator va)"

section \<open>Writing prices\<close>

text \<open>The price applier's state with the store of \<open>x/oracle\<close>, which is its \<open>OracleKeeper\<close>.
  \<open>ap_new_int\<close> is \<open>math.NewIntFromBigInt\<close>, which panics on integers it cannot hold.\<close>

record applier =
  ap_va :: vote_aggregator
  ap_store :: oracle_store
  ap_new_int :: "int \<Rightarrow> int res"

definition quote_of :: "abci_ctx \<Rightarrow> int \<Rightarrow> quote_price" where
  "quote_of ctx price = \<lparr>qp_price = price, qp_block_timestamp = cx_time ctx, qp_block_height = of_int (cx_height ctx)\<rparr>"

definition write_price ::
    "(int \<Rightarrow> int res) \<Rightarrow> abci_ctx \<Rightarrow> price_map \<Rightarrow> currency_pair \<Rightarrow> (oracle_store, unit) comp" where
  "write_price newInt ctx prices cp =
     (case gm_get prices cp of
        None \<Rightarrow> returnC ()
      | Some None \<Rightarrow> returnC ()
      | Some (Some price) \<Rightarrow>
          if price < 0 then returnC ()
          else bindC (liftC (newInt price)) (\<lambda>p. SetPriceForCurrencyPair cp (quote_of ctx p)))"

definition on_va :: "(vote_aggregator, 'a) comp \<Rightarrow> (applier, 'a) comp" where
  "on_va m s = (case m (ap_va s) of (r, va) \<Rightarrow> (r, s\<lparr>ap_va := va\<rparr>))"

definition on_store :: "(oracle_store, 'a) comp \<Rightarrow> (applier, 'a) comp" where
  "on_store m s = (case m (ap_store s) of (r, os) \<Rightarrow> (r, s\<lparr>ap_store := os\<rparr>))"

definition ApplyPricesFromVoteExtensions ::
    "ve_codec \<Rightarrow> ec_codec \<Rightarrow> abci_ctx \<Rightarrow> bytes list \<Rightarrow> (applier, price_map) comp" where
  "ApplyPricesFromVoteExtensions veCodec ecCodec ctx txs =
     bindC (liftC (GetOracleVotes txs veCodec ecCodec)) (\<lambda>votes.
     bindC (mapErrC PriceAggregationError
              (\<lambda>s. on_va (AggregateOracleVotes ctx (ap_store s) votes) s)) (\<lambda>prices.
     bindC (readC (\<lambda>s. Inr (GetAllCurrencyPairs (ap_store s)))) (\<lambda>currencyPairs.
     bindC (\<lambda>s. on_store (forC currencyPairs (write_price (ap_new_int s) ctx prices)) s) (\<lambda>_.
     returnC prices))))"

definition GetPricesForValidator :: "bytes \<Rightarrow> applier \<Rightarrow> price_map" where
  "GetPricesForValidator validator s = GetPriceForValidator validator (ap_va s)"

end
