(* ===== verification/Vote_Extension.thy ===== *)
theory Vote_Extension
  imports Vote_Aggregator
begin

text \<open>
  \<open>abci/ve\<close>: the validation of a vote extension and of the extended commit that carries them
  (\<open>utils.go\<close>), and the handlers that extend a vote and verify an extension (\<open>vote_extension.go\<close>).
  Arguments: the oracle client, and what signatures need (the validators' keys, the bytes that are
  signed, the verification).
\<close>

section \<open>Validation\<close>

definition ValidateOracleVoteExtension ::
    "abci_ctx \<Rightarrow> oracle_store \<Rightarrow> vote_extension \<Rightarrow> strategy \<Rightarrow> unit res" where
  "ValidateOracleVoteExtension ctx os ve st =
     bind_res (mapErr (Wrapf ''unable to get max price bytes size'') (strategy_GetMaxNumCP ctx os st)) (\<lambda>maxNumCP.
     if maxNumCP < of_nat (length ve)
       then Inl (Errorf ''number of oracle vote extension pairs greater than maximum expected pairs'')
     else each_ok (\<lambda>(_, bz). if MaximumPriceSize < length bz then Inl (Errorf ''price bytes are too long'') else Inr ()) ve)"

definition VoteExtensionsEnabled :: "abci_ctx \<Rightarrow> bool" where
  "VoteExtensionsEnabled ctx =
     (case cx_ve_enable_height ctx of
        None \<Rightarrow> False
      | Some h \<Rightarrow> if h = 0 then False else if cx_height ctx \<le> 1 then False else h < cx_height ctx)"

subsection \<open>The extended commit against the last commit\<close>

definition bytes_Compare :: "bytes \<Rightarrow> bytes \<Rightarrow> int" where
  "bytes_Compare a b = (if a = b then 0 else if a < b then -1 else 1)"

text \<open>Descending by power, computed with wrap-around, then ascending by address.\<close>

definition vote_cmp :: "vote_info \<Rightarrow> vote_info \<Rightarrow> int" where
  "vote_cmp v1 v2 =
     (if vi_power v1 = vi_power v2 then bytes_Compare (vi_address v1) (vi_address v2)
      else sint (- (vi_power v1 - vi_power v2)))"

fun is_sorted_votes :: "vote_info list \<Rightarrow> bool" where
  "is_sorted_votes (v1 # v2 # vs) = (\<not> vote_cmp v2 v1 < 0 \<and> is_sorted_votes (v2 # vs))"
| "is_sorted_votes vs = True"

definition pruned :: "vote_info \<Rightarrow> bool" where
  "pruned v \<longleftrightarrow> vi_block_id_flag v = BlockIDFlagAbsent \<and> slice (vi_vote_extension v) = [] \<and>
     slice (vi_extension_signature v) = []"

fun match_votes :: "bytes list \<Rightarrow> vote_info list \<Rightarrow> commit_vote list \<Rightarrow> unit res" where
  "match_votes addressCache (v # vs) (c # cs) =
     (if vi_address v \<in> set addressCache then Inl (Errorf ''extended commit vote address is duplicated'')
      else if vi_address v \<noteq> cv_address c
        then Inl (Errorf ''extended commit vote address does not match last commit vote address'')
      else if vi_power v \<noteq> cv_power c
        then Inl (Errorf ''extended commit vote power does not match last commit vote power'')
      else if \<not> pruned v \<and> vi_block_id_flag v \<noteq> cv_block_id_flag c
        then Inl (Errorf ''mismatched block ID flag'')
      else match_votes (vi_address v # addressCache) vs cs)"
| "match_votes addressCache vs cs = Inr ()"

definition ValidateExtendedCommitAgainstLastCommit :: "extended_commit \<Rightarrow> last_commit \<Rightarrow> unit res" where
  "ValidateExtendedCommitAgainstLastCommit ec lc =
     (if ec_round ec \<noteq> lc_round lc then Inl (Errorf ''extended commit round does not match last commit round'')
      else if length (ec_votes ec) \<noteq> length (lc_votes lc)
        then Inl (Errorf ''extended commit votes length does not match last commit votes length'')
      else if \<not> is_sorted_votes (ec_votes ec)
        then Inl (Errorf ''extended commit votes are not sorted by voting power'')
      else match_votes [] (ec_votes ec) (lc_votes lc))"

subsection \<open>Power and signatures\<close>

record sig_store =
  ss_pubkey_by_addr :: "bytes \<Rightarrow> bytes res"
  ss_pubkey_from_proto :: "bytes \<Rightarrow> bytes res"
  ss_sign_bytes :: "bytes \<Rightarrow> int \<Rightarrow> int \<Rightarrow> string \<Rightarrow> bytes res"
  ss_verify :: "bytes \<Rightarrow> bytes \<Rightarrow> bytes \<Rightarrow> bool"

definition check_form :: "bool \<Rightarrow> vote_info \<Rightarrow> unit res" where
  "check_form extensionsEnabled v =
     (let commit = (vi_block_id_flag v = BlockIDFlagCommit);
          ext = slice (vi_vote_extension v); sig = slice (vi_extension_signature v) in
      if extensionsEnabled then
        if commit \<and> sig = [] then Inl (Errorf ''vote extension signature is missing'')
        else if \<not> commit \<and> ext \<noteq> [] then Inl (Errorf ''non-commit vote extension present'')
        else if \<not> commit \<and> sig \<noteq> [] then Inl (Errorf ''non-commit vote extension signature present'')
        else Inr ()
      else if ext \<noteq> [] then Inl (Errorf ''vote extension present but extensions disabled'')
      else if sig \<noteq> [] then Inl (Errorf ''vote extension signature present but extensions disabled'')
      else Inr ())"

text \<open>A validator whose key the store does not know is counted without a signature check.\<close>

definition check_signature :: "sig_store \<Rightarrow> abci_ctx \<Rightarrow> int \<Rightarrow> vote_info \<Rightarrow> unit res" where
  "check_signature ss ctx roundNr v =
     (case ss_pubkey_by_addr ss (vi_address v) of
        Inl _ \<Rightarrow> Inr ()
      | Inr pubKeyProto \<Rightarrow>
          bind_res (mapErr (Wrapf ''failed to convert validator public key'') (ss_pubkey_from_proto ss pubKeyProto)) (\<lambda>cmtPubKey.
          bind_res (mapErr (Wrapf ''failed to encode CanonicalVoteExtension'')
                     (ss_sign_bytes ss (slice (vi_vote_extension v)) (cx_header_height ctx - 1) roundNr
                        (cx_header_chain_id ctx))) (\<lambda>extSignBytes.
          if \<not> ss_verify ss cmtPubKey extSignBytes (slice (vi_extension_signature v))
            then Inl (Errorf ''failed to verify validator vote extension signature'')
          else Inr ())))"

fun sum_votes ::
    "sig_store \<Rightarrow> abci_ctx \<Rightarrow> int \<Rightarrow> bool \<Rightarrow> vote_info list \<Rightarrow> i64 \<times> i64 \<Rightarrow> (i64 \<times> i64) res" where
  "sum_votes ss ctx roundNr extensionsEnabled [] acc = Inr acc"
| "sum_votes ss ctx roundNr extensionsEnabled (v # vs) (totalVP, sumVP) =
     bind_res (check_form extensionsEnabled v) (\<lambda>_.
     if \<not> extensionsEnabled \<or> vi_block_id_flag v \<noteq> BlockIDFlagCommit
     then sum_votes ss ctx roundNr extensionsEnabled vs (totalVP + vi_power v, sumVP)
     else bind_res (check_signature ss ctx roundNr v) (\<lambda>_.
          sum_votes ss ctx roundNr extensionsEnabled vs (totalVP + vi_power v, sumVP + vi_power v)))"

text \<open>Go's division of a signed integer truncates towards zero.\<close>

definition div3 :: "i64 \<Rightarrow> i64" where
  "div3 w = word_of_int (if sint w < 0 then - ((- sint w) div 3) else sint w div 3)"

definition required_power :: "i64 \<Rightarrow> i64" where
  "required_power totalVP = div3 (totalVP * 2) + 1"

definition ValidateVoteExtensions :: "sig_store \<Rightarrow> abci_ctx \<Rightarrow> extended_commit \<Rightarrow> unit res" where
  "ValidateVoteExtensions ss ctx ec =
     bind_res (ValidateExtendedCommitAgainstLastCommit ec (cx_last_commit ctx)) (\<lambda>_.
     let extensionsEnabled = VoteExtensionsEnabled ctx in
     bind_res (sum_votes ss ctx (ec_round ec) extensionsEnabled (ec_votes ec) (0, 0)) (\<lambda>(totalVP, sumVP).
     if sint totalVP \<le> 0 then Inl (Errorf ''total voting power must be positive'')
     else if extensionsEnabled \<and> sint sumVP < sint (required_power totalVP)
       then Inl (Errorf ''insufficient cumulative voting power received to verify vote extensions'')
     else Inr ()))"

definition NewDefaultValidateVoteExtensionsFn :: "sig_store \<Rightarrow> abci_ctx \<Rightarrow> extended_commit \<Rightarrow> unit res" where
  "NewDefaultValidateVoteExtensionsFn ss ctx info =
     (if VoteExtensionsEnabled ctx then ValidateVoteExtensions ss ctx info else Inr ())"

definition NoOpValidateVoteExtensions :: "abci_ctx \<Rightarrow> extended_commit \<Rightarrow> unit res" where
  "NoOpValidateVoteExtensions ctx info = Inr ()"

section \<open>The handlers\<close>

text \<open>\<open>big.Int.SetString(s, 10)\<close>: an optional sign and decimal digits, at least one.\<close>

definition decimal_digit :: "char \<Rightarrow> bool" where
  "decimal_digit c \<longleftrightarrow> CHR ''0'' \<le> c \<and> c \<le> CHR ''9''"

definition decimal_value :: "string \<Rightarrow> int" where
  "decimal_value s = fold (\<lambda>c acc. acc * 10 + (of_char c - 48)) s 0"

definition SetString10 :: "string \<Rightarrow> int option" where
  "SetString10 s =
     (let neg = (s \<noteq> [] \<and> hd s = CHR ''-'');
          digits = (if s \<noteq> [] \<and> (hd s = CHR ''-'' \<or> hd s = CHR ''+'') then tl s else s) in
      if digits = [] \<or> \<not> list_all decimal_digit digits then None
      else Some (if neg then - decimal_value digits else decimal_value digits))"

fun transformOracleServicePrices ::
    "abci_ctx \<Rightarrow> oracle_store \<Rightarrow> (string \<times> string) list \<Rightarrow> vote_extension \<Rightarrow> (strategy, vote_extension) comp" where
  "transformOracleServicePrices ctx os [] strategyPrices st = (Inr strategyPrices, st)"
| "transformOracleServicePrices ctx os ((currencyPairID, priceString) # prices) strategyPrices st =
     (case CurrencyPairFromString currencyPairID of
        Inl e \<Rightarrow> (Inl e, st)
      | Inr cp \<Rightarrow>
          (case SetString10 priceString of
             None \<Rightarrow> (Inl (Errorf ''failed to convert price string to big.Int''), st)
           | Some rawPrice \<Rightarrow>
               (case strategy_ID ctx os cp st of
                  (Inl _, st1) \<Rightarrow> transformOracleServicePrices ctx os prices strategyPrices st1
                | (Inr cpID, st1) \<Rightarrow>
                    (case strategy_GetEncodedPrice ctx os cp rawPrice st1 of
                       (Inl _, st2) \<Rightarrow> transformOracleServicePrices ctx os prices strategyPrices st2
                     | (Inr encodedPrice, st2) \<Rightarrow>
                         transformOracleServicePrices ctx os prices (gm_set cpID encodedPrice strategyPrices) st2))))"

text \<open>The state of the handler: its price applier, with the store of \<open>x/oracle\<close> in the context of the
  request, and the strategy of its own.\<close>

record ve_state =
  vs_applier :: applier
  vs_strategy :: strategy

definition on_applier :: "(applier, 'a) comp \<Rightarrow> (ve_state, 'a) comp" where
  "on_applier m s = (case m (vs_applier s) of (r, a) \<Rightarrow> (r, s\<lparr>vs_applier := a\<rparr>))"

definition on_strategy :: "(strategy, 'a) comp \<Rightarrow> (ve_state, 'a) comp" where
  "on_strategy m s = (case m (vs_strategy s) of (r, st) \<Rightarrow> (r, s\<lparr>vs_strategy := st\<rparr>))"

text \<open>What the oracle client answered within the timeout: an error, a nil response or prices.\<close>

type_synonym client_response = "(string \<times> string) list option res"

definition extend_vote ::
    "ve_codec \<Rightarrow> ec_codec \<Rightarrow> client_response \<Rightarrow> abci_ctx \<Rightarrow> bytes list \<Rightarrow> (ve_state, bytes) comp" where
  "extend_vote veCodec ecCodec client ctx txs =
     bindC (mapErrC PreBlockError (on_applier (ApplyPricesFromVoteExtensions veCodec ecCodec ctx txs))) (\<lambda>_.
     bindC (mapErrC OracleClientError (liftC client)) (\<lambda>oracleResp.
     case oracleResp of
       None \<Rightarrow> throwC (OracleClientError (Errorf ''oracle returned nil prices''))
     | Some prices \<Rightarrow>
         bindC (mapErrC TransformPricesError (\<lambda>s.
           on_strategy (transformOracleServicePrices ctx (ap_store (vs_applier s)) prices []) s)) (\<lambda>voteExt.
         mapErrC CodecError (liftC (vc_encode veCodec voteExt)))))"

text \<open>The deferred function turns a panic into an empty extension with \<open>ErrPanic\<close> and drops every
  other error. The response is \<open>None\<close> for a nil pointer.\<close>

definition ExtendVoteHandler ::
    "ve_codec \<Rightarrow> ec_codec \<Rightarrow> client_response \<Rightarrow> abci_ctx \<Rightarrow> bytes list option \<Rightarrow> ve_state \<Rightarrow>
     (bytes option \<times> go_error option) \<times> ve_state" where
  "ExtendVoteHandler veCodec ecCodec client ctx req s =
     (case req of
        None \<Rightarrow> ((None, None), s)
      | Some txs \<Rightarrow>
          (case extend_vote veCodec ecCodec client ctx txs s of
             (Inr bz, t) \<Rightarrow> ((Some bz, None), t)
           | (Inl (Panic p), t) \<Rightarrow> ((Some [], Some (ErrPanic (Errorf p))), t)
           | (Inl e, t) \<Rightarrow> ((Some [], None), t)))"

datatype verify_status = ACCEPT | REJECT

definition VerifyVoteExtensionHandler ::
    "ve_codec \<Rightarrow> abci_ctx \<Rightarrow> oracle_store \<Rightarrow> strategy \<Rightarrow> bytes option option \<Rightarrow>
     verify_status option \<times> go_error option" where
  "VerifyVoteExtensionHandler veCodec ctx os st req =
     (case req of
        None \<Rightarrow> (None, Some (NilRequestError ''verify_vote_extension''))
      | Some ext \<Rightarrow>
          if slice ext = [] then (Some ACCEPT, None)
          else case vc_decode veCodec (slice ext) of
                 Inl e \<Rightarrow> (Some REJECT, Some (CodecError e))
               | Inr voteExtension \<Rightarrow>
                   (case ValidateOracleVoteExtension ctx os voteExtension st of
                      Inl e \<Rightarrow> (Some REJECT, Some (ValidateVoteExtensionError e))
                    | Inr _ \<Rightarrow> (Some ACCEPT, None)))"

end
