(* ===== verification/Vote_Facts.thy ===== *)
theory Vote_Facts
  imports Vote_Extension Strategy_Properties
begin

text \<open>
  How vote extensions are built and read with the default strategy: what
  \<open>transformOracleServicePrices\<close> puts into an extension, what \<open>add_entry\<close> takes out of one, and how
  the price applier changes the store of \<open>x/oracle\<close>.
\<close>

section \<open>Reading an entry\<close>

text \<open>What an entry of a vote extension says on a store, without the strategy's cache.\<close>

definition entry_price :: "oracle_store \<Rightarrow> u64 \<times> bytes \<Rightarrow> (currency_pair \<times> int) option" where
  "entry_price os = (\<lambda>(i, bz).
     if MaximumPriceSize < length bz then None
     else case GetCurrencyPairFromID i os of
            None \<Rightarrow> None
          | Some cp \<Rightarrow> (case default_GetDecodedPrice bz of Inl _ \<Rightarrow> None | Inr p \<Rightarrow> Some (cp, p)))"

definition put_entry :: "oracle_store \<Rightarrow> u64 \<times> bytes \<Rightarrow> price_map \<Rightarrow> price_map" where
  "put_entry os e prices =
     (case entry_price os e of None \<Rightarrow> prices | Some (cp, p) \<Rightarrow> gm_set cp (Some p) prices)"

lemma coherent_FromID:
  assumes "ids_coherent ctx os d"
  obtains d' where "default_FromID ctx os i d =
      (case GetCurrencyPairFromID i os of Some cp \<Rightarrow> Inr cp | None \<Rightarrow> Inl (Errorf ''id not found''), d')"
    "ids_coherent ctx os d'"
proof -
  let ?s = "default_reset ctx d"
  have base: "ids_coherent ctx os ?s"
    using reset_coherent [OF assms] unfolding ids_coherent_def by blast
  have put: "ids_coherent ctx os (cache_pair i q ?s)" if "GetCurrencyPairFromID i os = Some q" for q
    using that reset_coherent [OF assms] unfolding ids_coherent_def cache_pair_def by simp
  show thesis
  proof (cases "gm_get (ds_idCache ?s) i")
    case None
    then show thesis
      using that base put by (cases "GetCurrencyPairFromID i os") (auto simp: default_FromID_def)
  next
    case (Some cp)
    then show thesis
      using that base reset_coherent [OF assms Some] by (auto simp: default_FromID_def)
  qed
qed

lemma add_entry_default:
  assumes "ids_coherent ctx os d"
  obtains d' where "add_entry ctx os e (DefaultS d, prices) = (DefaultS d', put_entry os e prices)"
    "ids_coherent ctx os d'"
proof -
  obtain i bz where e: "e = (i, bz)" by (cases e)
  obtain d' where d': "default_FromID ctx os i d =
      (case GetCurrencyPairFromID i os of Some cp \<Rightarrow> Inr cp | None \<Rightarrow> Inl (Errorf ''id not found''), d')"
    "ids_coherent ctx os d'"
    using coherent_FromID [OF assms] by blast
  show thesis
  proof (cases "MaximumPriceSize < length bz")
    case True
    then show thesis using that assms by (simp add: e add_entry_def put_entry_def entry_price_def)
  next
    case False
    show thesis
      using that [OF _ d'(2)] False d'(1)
      by (cases "GetCurrencyPairFromID i os"; cases "default_GetDecodedPrice bz")
        (simp_all add: e add_entry_def put_entry_def entry_price_def)
  qed
qed

lemma add_entries_default:
  "ids_coherent ctx os d \<Longrightarrow> \<exists>d'. fold (add_entry ctx os) es (DefaultS d, prices) =
     (DefaultS d', fold (put_entry os) es prices) \<and> ids_coherent ctx os d'"
proof (induction es arbitrary: d prices)
  case (Cons e es)
  obtain d' where "add_entry ctx os e (DefaultS d, prices) = (DefaultS d', put_entry os e prices)"
    "ids_coherent ctx os d'"
    using add_entry_default [OF Cons.prems] by blast
  with Cons.IH show ?case by simp
qed simp

lemma put_entries_miss:
  "(\<And>e q. e \<in> set es \<Longrightarrow> entry_price os e \<noteq> Some (cp, q)) \<Longrightarrow>
     gm_get (fold (put_entry os) es prices) cp = gm_get prices cp"
proof (induction es arbitrary: prices)
  case (Cons e es)
  then have "entry_price os e \<noteq> Some (cp, q)" for q by simp
  then have "gm_get (put_entry os e prices) cp = gm_get prices cp"
    by (auto simp: put_entry_def split: option.split)
  with Cons show ?case by simp
qed simp

lemma put_entries_hit:
  assumes "e \<in> set es" "entry_price os e = Some (cp, p)"
    "\<And>e' q. e' \<in> set es \<Longrightarrow> entry_price os e' = Some (cp, q) \<Longrightarrow> q = p"
  shows "gm_get (fold (put_entry os) es prices) cp = Some (Some p)"
  using assms
proof (induction es arbitrary: prices e)
  case (Cons x es)
  note only = Cons.prems(3)
  show ?case
  proof (cases "\<exists>y q. y \<in> set es \<and> entry_price os y = Some (cp, q)")
    case True
    then obtain y q where y: "y \<in> set es" "entry_price os y = Some (cp, q)" by blast
    then have q: "q = p" using only [of y q] by simp
    have sub: "r = p" if "z \<in> set es" "entry_price os z = Some (cp, r)" for z r
      using only [of z r] that by simp
    show ?thesis using Cons.IH [OF y(1) y(2) [unfolded q] sub] by simp
  next
    case False
    then have "e = x" using Cons.prems(1,2) by (metis set_ConsD)
    then have x: "entry_price os x = Some (cp, p)" using Cons.prems(2) by simp
    have "gm_get (fold (put_entry os) es (put_entry os x prices)) cp = gm_get (put_entry os x prices) cp"
      by (rule put_entries_miss) (use False in blast)
    also have "\<dots> = Some (Some p)" by (simp add: put_entry_def x)
    finally show ?thesis by simp
  qed
qed simp

section \<open>Writing an extension\<close>

text \<open>What the oracle service reports, the last entry of a pair winning, negative prices left out.\<close>

definition report_price :: "string \<times> string \<Rightarrow> (currency_pair \<rightharpoonup> int) \<Rightarrow> (currency_pair \<rightharpoonup> int)" where
  "report_price = (\<lambda>(k, s) m.
     case CurrencyPairFromString k of
       Inl _ \<Rightarrow> m
     | Inr cp \<Rightarrow> (case SetString10 s of None \<Rightarrow> m | Some p \<Rightarrow> if p < 0 then m else m(cp \<mapsto> p)))"

definition reported :: "(string \<times> string) list \<Rightarrow> currency_pair \<rightharpoonup> int" where
  "reported prices = fold report_price prices Map.empty"

definition usable :: "(currency_pair \<rightharpoonup> int) \<Rightarrow> bool" where
  "usable m \<longleftrightarrow> (\<forall>cp p. m cp = Some p \<longrightarrow> 0 \<le> p \<and> ValidateBasic cp = Inr () \<and> slash_free cp)"

lemma usable_report: "usable m \<Longrightarrow> usable (report_price e m)"
  using FromString_valid FromString_slash_free
  by (auto simp: usable_def report_price_def split: prod.split sum.split option.split)

lemma usable_reports: "usable m \<Longrightarrow> usable (fold report_price es m)"
  by (induction es arbitrary: m) (auto intro: usable_report)

lemma usable_reported: "usable (reported prices)"
  unfolding reported_def by (rule usable_reports) (simp add: usable_def)

text \<open>The extension holds the reported prices of the tracked pairs.\<close>

definition carries :: "oracle_store \<Rightarrow> (currency_pair \<rightharpoonup> int) \<Rightarrow> vote_extension \<Rightarrow> bool" where
  "carries os m ve \<longleftrightarrow> gm_wf ve \<and>
     (\<forall>i bz. gm_get ve i = Some bz \<longleftrightarrow>
        (\<exists>cp p. m cp = Some p \<and> GetIDForCurrencyPair cp os = Some i \<and> bz = gob_encode p))"

lemma carries_get: "carries os m ve \<Longrightarrow> gm_get ve i = Some bz \<longleftrightarrow>
    (\<exists>cp p. m cp = Some p \<and> GetIDForCurrencyPair cp os = Some i \<and> bz = gob_encode p)"
  by (simp add: carries_def)

lemma carries_skip:
  assumes "carries os m ve" "GetIDForCurrencyPair cp os = None"
  shows "carries os (m(cp \<mapsto> p)) ve"
proof -
  have "(\<exists>cq q. (m(cp \<mapsto> p)) cq = Some q \<and> GetIDForCurrencyPair cq os = Some i \<and> bz = gob_encode q) \<longleftrightarrow>
      (\<exists>cq q. m cq = Some q \<and> GetIDForCurrencyPair cq os = Some i \<and> bz = gob_encode q)" for i bz
    using assms(2) by (metis fun_upd_other option.distinct(1))
  with assms(1) show ?thesis unfolding carries_def by simp
qed

lemma carries_put:
  assumes "index_inv os" "carries os m ve" "usable m" "ValidateBasic cp = Inr () \<and> slash_free cp"
    "GetIDForCurrencyPair cp os = Some i"
  shows "carries os (m(cp \<mapsto> p)) (gm_set i (gob_encode p) ve)"
proof -
  have "gm_get (gm_set i (gob_encode p) ve) j = Some bz \<longleftrightarrow>
      (\<exists>cq q. (m(cp \<mapsto> p)) cq = Some q \<and> GetIDForCurrencyPair cq os = Some j \<and> bz = gob_encode q)" for j bz
  proof (cases "j = i")
    case True
    have "cq = cp" if "m cq = Some q" "GetIDForCurrencyPair cq os = Some i" for cq q
      using oracle_ids.ident_inj [OF assms(1) _ assms(4) that(2) assms(5)] assms(3) that(1)
      by (simp add: usable_def)
    then have "cq = cp" if "(m(cp \<mapsto> p)) cq = Some q" "GetIDForCurrencyPair cq os = Some i" for cq q
      using that by (metis fun_upd_other)
    then have "(\<exists>cq q. (m(cp \<mapsto> p)) cq = Some q \<and> GetIDForCurrencyPair cq os = Some i \<and> bz = gob_encode q) \<longleftrightarrow>
        bz = gob_encode p"
      using assms(5) by (metis fun_upd_same option.inject)
    then show ?thesis using True by auto
  next
    case False
    have "(\<exists>cq q. (m(cp \<mapsto> p)) cq = Some q \<and> GetIDForCurrencyPair cq os = Some j \<and> bz = gob_encode q) \<longleftrightarrow>
        (\<exists>cq q. m cq = Some q \<and> GetIDForCurrencyPair cq os = Some j \<and> bz = gob_encode q)"
      using assms(5) False by (metis fun_upd_other option.inject)
    with False carries_get [OF assms(2)] show ?thesis by simp
  qed
  with assms(2) show ?thesis by (simp add: carries_def)
qed

lemma transform_carries:
  "transformOracleServicePrices ctx os prices acc (DefaultS d) = (Inr ve, st) \<Longrightarrow>
     index_inv os \<Longrightarrow> usable m \<Longrightarrow> carries os m acc \<Longrightarrow>
     carries os (fold report_price prices m) ve \<and> (\<exists>d'. st = DefaultS d')"
proof (induction prices arbitrary: acc d m)
  case (Cons e prices)
  obtain k s where e: "e = (k, s)" by (cases e)
  obtain cp p where cp: "CurrencyPairFromString k = Inr cp" and p: "SetString10 s = Some p"
    using Cons.prems(1) by (auto simp: e split: sum.splits option.splits)
  have ok: "ValidateBasic cp = Inr () \<and> slash_free cp"
    using FromString_valid [OF cp] FromString_slash_free [OF cp] by blast
  have rep: "report_price e m = (if p < 0 then m else m(cp \<mapsto> p))"
    by (simp add: report_price_def e cp p)
  note us = usable_report [OF Cons.prems(3), of e]
  show ?case
  proof (cases "GetIDForCurrencyPair cp os")
    case None
    then have run: "transformOracleServicePrices ctx os prices acc (DefaultS (default_reset ctx d)) = (Inr ve, st)"
      using Cons.prems(1) by (simp add: e cp p default_ID_def)
    have "carries os (report_price e m) acc"
      using carries_skip [OF Cons.prems(4) None, of p] Cons.prems(4) by (simp add: rep)
    from Cons.IH [OF run Cons.prems(2) us this] show ?thesis by simp
  next
    case (Some i)
    let ?d = "cache_pair i cp (default_reset ctx d)"
    have id: "default_ID ctx os cp d = (Inr i, ?d)" by (simp add: default_ID_def Some)
    show ?thesis
    proof (cases "p < 0")
      case True
      then have run: "transformOracleServicePrices ctx os prices acc (DefaultS ?d) = (Inr ve, st)"
        using Cons.prems(1) by (simp add: e cp p id default_GetEncodedPrice_def)
      have "carries os (report_price e m) acc" using Cons.prems(4) True by (simp add: rep)
      from Cons.IH [OF run Cons.prems(2) us this] show ?thesis by simp
    next
      case False
      then have run: "transformOracleServicePrices ctx os prices (gm_set i (gob_encode p) acc) (DefaultS ?d) = (Inr ve, st)"
        using Cons.prems(1) by (simp add: e cp p id default_GetEncodedPrice_def)
      have "carries os (report_price e m) (gm_set i (gob_encode p) acc)"
        using carries_put [OF Cons.prems(2,4,3) ok Some, of p] False by (simp add: rep)
      from Cons.IH [OF run Cons.prems(2) us this] show ?thesis by simp
    qed
  qed
qed auto

lemma carries_empty: "carries os Map.empty []"
  by (simp add: carries_def)

lemma transform_reported:
  "transformOracleServicePrices ctx os prices [] (DefaultS d) = (Inr ve, st) \<Longrightarrow> index_inv os \<Longrightarrow>
     carries os (reported prices) ve"
  unfolding reported_def using transform_carries [OF _ _ _ carries_empty]
  by (simp add: usable_def)

section \<open>The votes of a block\<close>

text \<open>What the aggregator holds of the votes of a block: the prices of each validator whose extension is
  not empty, read from the store alone.\<close>

definition put_vote :: "oracle_store \<Rightarrow> (bytes \<Rightarrow> string) \<Rightarrow> vote \<Rightarrow> (string, price_map) gomap \<Rightarrow> (string, price_map) gomap" where
  "put_vote os consString v m =
     (if vt_extension v = [] then m
      else gm_set (consString (vt_cons_address v)) (fold (put_entry os) (vt_extension v) []) m)"

definition votes_data :: "oracle_store \<Rightarrow> (bytes \<Rightarrow> string) \<Rightarrow> vote list \<Rightarrow> (string, price_map) gomap" where
  "votes_data os consString votes = fold (put_vote os consString) votes []"

lemma add_votes_fold:
  "va_strategy va = DefaultS d \<Longrightarrow> ids_coherent ctx os d \<Longrightarrow>
     \<exists>d'. fold (\<lambda>v va. addVoteToAggregator ctx os (va_cons_string va (vt_cons_address v)) (vt_extension v) va) votes va =
       va\<lparr>va_strategy := DefaultS d', va_aggregator := (va_aggregator va)\<lparr>da_providerData :=
         fold (put_vote os (va_cons_string va)) votes (da_providerData (va_aggregator va))\<rparr>\<rparr> \<and> ids_coherent ctx os d'"
proof (induction votes arbitrary: va d)
  case Nil
  then show ?case by (intro exI [of _ d]) simp
next
  case (Cons v votes)
  let ?add = "addVoteToAggregator ctx os (va_cons_string va (vt_cons_address v)) (vt_extension v) va"
  obtain d1 where d1: "?add = va\<lparr>va_strategy := DefaultS d1, va_aggregator := (va_aggregator va)\<lparr>da_providerData :=
      put_vote os (va_cons_string va) v (da_providerData (va_aggregator va))\<rparr>\<rparr>" "ids_coherent ctx os d1"
  proof (cases "vt_extension v = []")
    case True
    then show thesis using that [of d] Cons.prems by (simp add: addVoteToAggregator_def put_vote_def)
  next
    case False
    obtain d1 where "fold (add_entry ctx os) (vt_extension v) (DefaultS d, []) =
        (DefaultS d1, fold (put_entry os) (vt_extension v) [])" "ids_coherent ctx os d1"
      using add_entries_default [OF Cons.prems(2)] by blast
    then show thesis
      using that [of d1] False Cons.prems(1)
      by (simp add: addVoteToAggregator_def put_vote_def SetProviderData_def)
  qed
  have "va_strategy ?add = DefaultS d1" by (simp add: d1)
  from Cons.IH [OF this d1(2)] show ?case by (auto simp: d1)
qed

lemma add_votes_default:
  assumes "va_strategy va = DefaultS d" "ids_coherent ctx os d"
  shows "\<exists>d'. add_votes ctx os votes va =
      va\<lparr>va_strategy := DefaultS d',
         va_aggregator := (va_aggregator va)\<lparr>da_providerData := votes_data os (va_cons_string va) votes\<rparr>\<rparr> \<and>
    ids_coherent ctx os d'"
  using add_votes_fold [of "va\<lparr>va_aggregator := ResetProviderData (va_aggregator va)\<rparr>" d ctx os votes] assms
  by (simp add: add_votes_def ResetProviderData_def votes_data_def)

lemma votes_data_get:
  assumes "distinct (map (consString \<circ> vt_cons_address) votes)" "v \<in> set votes"
  shows "gm_get (votes_data os consString votes) (consString (vt_cons_address v)) =
    (if vt_extension v = [] then None else Some (fold (put_entry os) (vt_extension v) []))"
proof -
  have other: "gm_get (fold (put_vote os consString) vs m) a = gm_get m a" if "a \<notin> (consString \<circ> vt_cons_address) ` set vs" for vs m a
    using that by (induction vs arbitrary: m) (auto simp: put_vote_def)
  have "gm_get m (consString (vt_cons_address v)) = None \<Longrightarrow>
      gm_get (fold (put_vote os consString) votes m) (consString (vt_cons_address v)) =
        (if vt_extension v = [] then None else Some (fold (put_entry os) (vt_extension v) []))" for m
    using assms
  proof (induction votes arbitrary: m)
    case (Cons w votes)
    show ?case
    proof (cases "w = v")
      case True
      then have "consString (vt_cons_address v) \<notin> (consString \<circ> vt_cons_address) ` set votes" using Cons.prems(2) by auto
      from other [OF this] show ?thesis using Cons.prems(1) True by (simp add: put_vote_def [of os consString v])
    next
      case False
      then have v: "v \<in> set votes" and ne: "consString (vt_cons_address w) \<noteq> consString (vt_cons_address v)"
        using Cons.prems(2,3) by (auto simp: image_iff)
      then have "gm_get (put_vote os consString w m) (consString (vt_cons_address v)) = None"
        using Cons.prems(1) by (simp add: put_vote_def)
      from Cons.IH [OF this _ v] Cons.prems(2) show ?thesis by simp
    qed
  qed simp
  then show ?thesis by (simp add: votes_data_def)
qed

lemma carried_entry:
  assumes "index_inv os'" "\<forall>cp. GetIDForCurrencyPair cp os' = GetIDForCurrencyPair cp os"
    "carries os m ve" "usable m" "e \<in> set ve"
  obtains cp p where "m cp = Some p" "GetIDForCurrencyPair cp os = Some (fst e)"
    "entry_price os' e = (if p < 2 ^ 256 then Some (cp, p) else None)"
proof -
  obtain i bz where e: "e = (i, bz)" by (cases e)
  have wf: "gm_wf ve" using assms(3) by (simp add: carries_def)
  have "gm_get ve i = Some bz" using assms(5) unfolding e by (simp only: gm_get_iff [OF wf])
  then obtain cp p where cp: "m cp = Some p" "GetIDForCurrencyPair cp os = Some i" "bz = gob_encode p"
    using carries_get [OF assms(3)] by blast
  then have ok: "0 \<le> p" "ValidateBasic cp = Inr () \<and> slash_free cp" using assms(4) by (auto simp: usable_def)
  have "GetCurrencyPairFromID i os' = Some cp"
    by (rule oracle_ids.look_ident [OF assms(1) ok(2)]) (simp add: assms(2) cp)
  moreover have "length bz \<le> MaximumPriceSize \<longleftrightarrow> p < 2 ^ 256"
    using gob_length [of p 32] ok(1) by (simp add: MaximumPriceSize_def cp(3))
  ultimately have "entry_price os' e = (if p < 2 ^ 256 then Some (cp, p) else None)"
    using ok(1) by (auto simp: entry_price_def e cp(3) default_GetDecodedPrice_def)
  with that cp(1,2) show thesis by (simp add: e)
qed

lemma carried_prices:
  assumes "index_inv os'" "\<forall>cp. GetIDForCurrencyPair cp os' = GetIDForCurrencyPair cp os" "carries os m ve" "usable m"
  shows "gm_get (fold (put_entry os') ve []) cp =
    (case m cp of None \<Rightarrow> None
     | Some p \<Rightarrow> if HasCurrencyPair cp os \<and> p < 2 ^ 256 then Some (Some p) else None)"
proof -
  note entry = carried_entry [OF assms]
  have says: "m cp = Some q \<and> GetIDForCurrencyPair cp os \<noteq> None \<and> q < 2 ^ 256"
    if "e \<in> set ve" "entry_price os' e = Some (cp, q)" for e q
    by (rule entry [OF that(1)]) (use that(2) in \<open>simp split: if_splits\<close>)
  have has: "HasCurrencyPair cp os \<longleftrightarrow> GetIDForCurrencyPair cp os \<noteq> None"
    by (auto simp: HasCurrencyPair_iff GetIDForCurrencyPair_def pairs_Get_def split: option.splits)
  show ?thesis
  proof (cases "\<exists>p. m cp = Some p \<and> HasCurrencyPair cp os \<and> p < 2 ^ 256")
    case True
    then obtain p i where p: "m cp = Some p" "p < 2 ^ 256" "GetIDForCurrencyPair cp os = Some i" using has by auto
    then have "gm_get ve i = Some (gob_encode p)" using carries_get [OF assms(3)] by blast
    then have e: "(i, gob_encode p) \<in> set ve" by (rule gm_get_mem)
    have "entry_price os' (i, gob_encode p) = Some (cp, p)"
    proof (rule entry [OF e])
      fix cq q assume cq: "m cq = Some q" "GetIDForCurrencyPair cq os = Some (fst (i, gob_encode p))"
        "entry_price os' (i, gob_encode p) = (if q < 2 ^ 256 then Some (cq, q) else None)"
      have ids: "GetIDForCurrencyPair cq os' = Some i" "GetIDForCurrencyPair cp os' = Some i"
        using cq(2) p(3) assms(2) by simp_all
      have "cq = cp"
        by (rule oracle_ids.ident_inj [OF assms(1) _ _ ids]) (use assms(4) cq(1) p(1) in \<open>auto simp: usable_def\<close>)
      with cq p show ?thesis by simp
    qed
    then have "gm_get (fold (put_entry os') ve []) cp = Some (Some p)"
      by (rule put_entries_hit [OF e]) (use says p(1) in fastforce)
    with p True show ?thesis by auto
  next
    case False
    then have "gm_get (fold (put_entry os') ve []) cp = gm_get [] cp"
      by (intro put_entries_miss) (use says has in fastforce)
    with False show ?thesis by (auto split: option.split)
  qed
qed

section \<open>The price applier\<close>

text \<open>What a block's prices write under the key of a pair.\<close>

definition written :: "abci_ctx \<Rightarrow> price_map \<Rightarrow> currency_pair \<Rightarrow> cp_state \<Rightarrow> cp_state" where
  "written ctx prices cp v =
     (case gm_get prices cp of
        Some (Some p) \<Rightarrow>
          if p < 0 then v else v\<lparr>cs_nonce := cs_nonce v + 1, cs_price := Some (quote_of ctx p)\<rparr>
      | _ \<Rightarrow> v)"

lemma written_id [simp]: "cs_id (written ctx prices cp v) = cs_id v"
  by (simp add: written_def split: option.split)

definition exact_int :: "(int \<Rightarrow> int res) \<Rightarrow> bool" where
  "exact_int newInt \<longleftrightarrow> (\<forall>x y. newInt x = Inr y \<longrightarrow> y = x)"

lemma write_price_tracked:
  assumes "write_price newInt ctx prices cp s = (Inr (), t)" "exact_int newInt" "index_inv s"
    "pair_of s (CurrencyPair_String cp) = Some v"
  shows "index_inv t" "os_num_cps t = os_num_cps s" "os_num_removes t = os_num_removes s"
    "os_next_id t = os_next_id s"
    "pair_of t l = (if l = CurrencyPair_String cp then Some (written ctx prices cp v) else pair_of s l)"
proof -
  have "index_inv t \<and> os_num_cps t = os_num_cps s \<and> os_num_removes t = os_num_removes s \<and>
      os_next_id t = os_next_id s \<and>
      pair_of t l = (if l = CurrencyPair_String cp then Some (written ctx prices cp v) else pair_of s l)"
  proof (cases "\<exists>p. gm_get prices cp = Some (Some p) \<and> 0 \<le> p")
    case True
    then obtain p where p: "gm_get prices cp = Some (Some p)" "0 \<le> p" by blast
    then have "SetPriceForCurrencyPair cp (quote_of ctx p) s = (Inr (), t)"
      using assms(1,2) by (auto simp: write_price_def comp_Inr exact_int_def)
    moreover obtain u where "SetPriceForCurrencyPair cp (quote_of ctx p) s = (Inr (), u)" "index_inv u"
      "os_next_id u = os_next_id s" "os_num_cps u = os_num_cps s" "os_num_removes u = os_num_removes s"
      "\<And>l. pair_of u l = (if l = CurrencyPair_String cp
         then Some (v\<lparr>cs_nonce := cs_nonce v + 1, cs_price := Some (quote_of ctx p)\<rparr>) else pair_of s l)"
      by (rule set_price_tracked [OF assms(3,4), of "quote_of ctx p"]) blast
    ultimately show ?thesis using p by (simp add: written_def)
  next
    case False
    then have "t = s" "written ctx prices cp v = v"
      using assms(1) by (auto simp: write_price_def written_def comp_Inr split: option.splits if_splits)
    then show ?thesis using assms(3,4) by simp
  qed
  then show "index_inv t" "os_num_cps t = os_num_cps s" "os_num_removes t = os_num_removes s"
    "os_next_id t = os_next_id s"
    "pair_of t l = (if l = CurrencyPair_String cp then Some (written ctx prices cp v) else pair_of s l)"
    by blast+
qed

lemma write_prices:
  assumes "forC cps (write_price newInt ctx prices) s = (Inr (), t)" "exact_int newInt" "index_inv s"
    "\<forall>cp \<in> set cps. pair_of s (CurrencyPair_String cp) \<noteq> None" "distinct (map CurrencyPair_String cps)"
  shows "index_inv t \<and> os_num_cps t = os_num_cps s \<and> os_num_removes t = os_num_removes s \<and>
    os_next_id t = os_next_id s \<and>
    (\<forall>cp \<in> set cps. pair_of t (CurrencyPair_String cp) =
       map_option (written ctx prices cp) (pair_of s (CurrencyPair_String cp))) \<and>
    (\<forall>l. l \<notin> CurrencyPair_String ` set cps \<longrightarrow> pair_of t l = pair_of s l)"
  using assms
proof (induction cps arbitrary: s)
  case (Cons cp cps)
  obtain u where u: "write_price newInt ctx prices cp s = (Inr (), u)"
    "forC cps (write_price newInt ctx prices) u = (Inr (), t)"
    using Cons.prems(1) by (auto simp: comp_Inr)
  obtain v where v: "pair_of s (CurrencyPair_String cp) = Some v" using Cons.prems(4) by auto
  note one = write_price_tracked [OF u(1) Cons.prems(2,3) v]
  have tracked: "\<forall>cp \<in> set cps. pair_of u (CurrencyPair_String cp) \<noteq> None"
    using Cons.prems(4) one(5) by auto
  have dist: "distinct (map CurrencyPair_String cps)" and notin: "CurrencyPair_String cp \<notin> CurrencyPair_String ` set cps"
    using Cons.prems(5) by auto
  note ih = Cons.IH [OF u(2) Cons.prems(2) one(1) tracked dist]
  have "pair_of t (CurrencyPair_String cq) =
      map_option (written ctx prices cq) (pair_of s (CurrencyPair_String cq))" if "cq \<in> set (cp # cps)" for cq
  proof (cases "cq \<in> set cps")
    case True
    then have "CurrencyPair_String cq \<noteq> CurrencyPair_String cp" using notin by (metis imageI)
    with True ih one(5) show ?thesis by simp
  next
    case False
    with that have "cq = cp" by simp
    with ih notin one(5) v show ?thesis by simp
  qed
  with ih one show ?case by simp
qed (simp add: comp_Inr)

lemma GetAll_tracked:
  assumes "index_inv s" "keys_canonical s"
  shows "\<forall>cp \<in> set (GetAllCurrencyPairs s). pair_of s (CurrencyPair_String cp) \<noteq> None"
    and "distinct (map CurrencyPair_String (GetAllCurrencyPairs s))"
    and "cp \<in> set (GetAllCurrencyPairs s) \<longleftrightarrow>
      HasCurrencyPair cp s \<and> CurrencyPairFromString (CurrencyPair_String cp) = Inr cp"
proof -
  have keys: "map CurrencyPair_String (GetAllCurrencyPairs s) = map fst (os_currency_pairs s)"
    using canonical_entries [OF assms] key_pair_canonical(2)
    by (auto simp: GetAll_canonical [OF assms])
  have wf: "kv_wf (os_currency_pairs s)" by (rule index_wf(1) [OF assms(1)])
  show "distinct (map CurrencyPair_String (GetAllCurrencyPairs s))"
    unfolding keys using wf by (simp add: kv_wf_def strict_sorted_iff)
  have mem: "l \<in> fst ` set (os_currency_pairs s) \<longleftrightarrow> pair_of s l \<noteq> None" for l
    using kv.entries_iff [OF wf, of l] by force
  show "\<forall>cp \<in> set (GetAllCurrencyPairs s). pair_of s (CurrencyPair_String cp) \<noteq> None"
    using keys mem by (metis image_eqI list.set_map)
  show "cp \<in> set (GetAllCurrencyPairs s) \<longleftrightarrow>
      HasCurrencyPair cp s \<and> CurrencyPairFromString (CurrencyPair_String cp) = Inr cp"
  proof
    assume cp: "cp \<in> set (GetAllCurrencyPairs s)"
    then obtain k v where kv: "(k, v) \<in> set (os_currency_pairs s)" "cp = key_pair k"
      by (auto simp: GetAll_canonical [OF assms])
    then have "canonical_key k" using canonical_entries [OF assms] by blast
    then show "HasCurrencyPair cp s \<and> CurrencyPairFromString (CurrencyPair_String cp) = Inr cp"
      using kv(1) mem [of k] by (auto simp: kv(2) key_pair_canonical HasCurrencyPair_iff intro!: rev_image_eqI)
  next
    assume r: "HasCurrencyPair cp s \<and> CurrencyPairFromString (CurrencyPair_String cp) = Inr cp"
    then obtain v where v: "(CurrencyPair_String cp, v) \<in> set (os_currency_pairs s)"
      using mem [of "CurrencyPair_String cp"] by (auto simp: HasCurrencyPair_iff)
    moreover have "key_pair (CurrencyPair_String cp) = cp" using r by (simp add: key_pair_def)
    ultimately show "cp \<in> set (GetAllCurrencyPairs s)"
      by (force simp: GetAll_canonical [OF assms])
  qed
qed

lemma on_va_Inr: "on_va m s = (Inr a, t) \<longleftrightarrow> (\<exists>va. m (ap_va s) = (Inr a, va) \<and> t = s\<lparr>ap_va := va\<rparr>)"
  by (auto simp: on_va_def split: prod.splits)

lemma on_store_Inr: "on_store m s = (Inr a, t) \<longleftrightarrow> (\<exists>os. m (ap_store s) = (Inr a, os) \<and> t = s\<lparr>ap_store := os\<rparr>)"
  by (auto simp: on_store_def split: prod.splits)

lemma ApplyPrices_Inr:
  "ApplyPricesFromVoteExtensions veCodec ecCodec ctx txs s = (Inr prices, t) \<longleftrightarrow>
     (\<exists>votes va os. GetOracleVotes txs veCodec ecCodec = Inr votes \<and>
       AggregateOracleVotes ctx (ap_store s) votes (ap_va s) = (Inr prices, va) \<and>
       forC (GetAllCurrencyPairs (ap_store s)) (write_price (ap_new_int s) ctx prices) (ap_store s) = (Inr (), os) \<and>
       t = s\<lparr>ap_va := va, ap_store := os\<rparr>)"
  by (auto simp: ApplyPricesFromVoteExtensions_def comp_Inr on_va_Inr on_store_Inr)

lemma apply_prices_store:
  assumes "ApplyPricesFromVoteExtensions veCodec ecCodec ctx txs s = (Inr prices, t)"
    "exact_int (ap_new_int s)" "index_inv (ap_store s)" "keys_canonical (ap_store s)"
  shows "index_inv (ap_store t) \<and> os_num_cps (ap_store t) = os_num_cps (ap_store s) \<and>
    os_num_removes (ap_store t) = os_num_removes (ap_store s) \<and> os_next_id (ap_store t) = os_next_id (ap_store s) \<and>
    (\<forall>k. pair_of (ap_store t) k = map_option (written ctx prices (key_pair k)) (pair_of (ap_store s) k))"
proof -
  let ?os = "ap_store s"
  obtain t' where loop: "forC (GetAllCurrencyPairs ?os) (write_price (ap_new_int s) ctx prices) ?os = (Inr (), t')"
    and t: "ap_store t = t'"
    using assms(1) by (auto simp: ApplyPrices_Inr)
  note all = GetAll_tracked [OF assms(3,4)]
  note w = write_prices [OF loop assms(2,3) all(1,2)]
  have "pair_of t' k = map_option (written ctx prices (key_pair k)) (pair_of ?os k)" for k
  proof (cases "pair_of ?os k")
    case None
    then have "k \<notin> CurrencyPair_String ` set (GetAllCurrencyPairs ?os)" using all(1) by auto
    with w None show ?thesis by simp
  next
    case (Some v)
    then have c: "canonical_key k" using assms(4) by (simp add: keys_canonical_def)
    then have "key_pair k \<in> set (GetAllCurrencyPairs ?os)"
      using Some key_pair_canonical [OF c] by (simp add: all(3) HasCurrencyPair_iff)
    with w key_pair_canonical(2) [OF c] show ?thesis by metis
  qed
  with w show ?thesis by (simp add: t)
qed

end
