(* ===== verification/Vote_Properties.thy ===== *)
theory Vote_Properties
  imports Vote_Facts Median_Properties
begin

text \<open>
  The properties of the prices on their way through the votes: from the oracle service into a vote
  extension, out of it on the other validators, through the aggregation and into \<open>x/oracle\<close>.
\<close>

section \<open>From the oracle service to the other validators\<close>

text \<open>(C6) With the default strategy, what the aggregator knows of a validator's prices is what the
  oracle service reported to that validator: the reported prices of the tracked pairs that
  fit the size limit, and nothing else, as long as the ids of the pairs stay the same.\<close>

theorem vote_roundtrip:
  assumes "index_inv os" "index_inv os'"
    "\<forall>cp. GetIDForCurrencyPair cp os' = GetIDForCurrencyPair cp os"
    "transformOracleServicePrices ctx os prices [] (DefaultS d) = (Inr ve, st)"
    "va_strategy va = DefaultS d'" "ids_coherent ctx' os' d'"
    "distinct (map (va_cons_string va \<circ> vt_cons_address) votes)"
    "\<lparr>vt_cons_address = a, vt_extension = ve\<rparr> \<in> set votes"
  shows "gm_get (GetPriceForValidator a (add_votes ctx' os' votes va)) cp =
    (case reported prices cp of
       None \<Rightarrow> None
     | Some p \<Rightarrow> if HasCurrencyPair cp os \<and> p < 2 ^ 256 then Some (Some p) else None)"
proof -
  have car: "carries os (reported prices) ve" by (rule transform_reported [OF assms(4,1)])
  have "gm_get (fold (put_entry os') ve []) cp =
      (case reported prices cp of None \<Rightarrow> None
       | Some p \<Rightarrow> if HasCurrencyPair cp os \<and> p < 2 ^ 256 then Some (Some p) else None)"
    by (rule carried_prices [OF assms(2,3) car usable_reported])
  moreover obtain d1 where "add_votes ctx' os' votes va =
      va\<lparr>va_strategy := DefaultS d1,
         va_aggregator := (va_aggregator va)\<lparr>da_providerData := votes_data os' (va_cons_string va) votes\<rparr>\<rparr>"
    using add_votes_default [OF assms(5,6)] by blast
  then have "gm_get (GetPriceForValidator a (add_votes ctx' os' votes va)) cp = gm_get (fold (put_entry os') ve []) cp"
    using votes_data_get [OF assms(7,8), of os'] by (simp add: GetPriceForValidator_def GetDataByProvider_def)
  ultimately show ?thesis by (simp only:)
qed

definition hex_string :: "bytes \<Rightarrow> string" where
  "hex_string = map (\<lambda>b. char_of (unat b))"

definition aggregator0 :: vote_aggregator where
  "aggregator0 = NewDefaultVoteAggregator hex_string (\<lambda>ctx data. Inr []) (DefaultS NewDefaultCurrencyPairStrategy)"

lemma fresh_ids_coherent: "h \<noteq> 0 \<Longrightarrow> ids_coherent (ctx_at h) os NewDefaultCurrencyPairStrategy"
  by (simp add: ids_coherent_def NewDefaultCurrencyPairStrategy_def ctx_at_def)

lemma store0_id: "GetIDForCurrencyPair btc_usd store0 = Some 0"
  by (simp add: GetID_iff store0_def btc_usd_valid kv_get_def NewCurrencyPairState_def)

lemma parse_btc_usd: "CurrencyPairFromString ''btc/usd'' = Inr btc_usd" "SetString10 ''70000'' = Some 70000"
  by code_simp+

lemma transform0: "\<exists>st. transformOracleServicePrices (ctx_at 5) store0 [(''btc/usd'', ''70000'')] []
    (DefaultS NewDefaultCurrencyPairStrategy) = (Inr [(0, gob_encode 70000)], st)"
  by (simp add: parse_btc_usd default_ID_def store0_id default_GetEncodedPrice_def gm_set_def)

theorem vote_roundtrip_witness:
  "gm_get (GetPriceForValidator [7]
     (add_votes (ctx_at 6) store0 [\<lparr>vt_cons_address = [7], vt_extension = [(0, gob_encode 70000)]\<rparr>] aggregator0)) btc_usd =
   Some (Some 70000)"
proof -
  obtain st where st: "transformOracleServicePrices (ctx_at 5) store0 [(''btc/usd'', ''70000'')] []
      (DefaultS NewDefaultCurrencyPairStrategy) = (Inr [(0, gob_encode 70000)], st)"
    using transform0 by blast
  have "va_strategy aggregator0 = DefaultS NewDefaultCurrencyPairStrategy"
    by (simp add: aggregator0_def NewDefaultVoteAggregator_def)
  moreover have "reported [(''btc/usd'', ''70000'')] btc_usd = Some 70000"
    by (simp add: reported_def report_price_def parse_btc_usd)
  moreover have "HasCurrencyPair btc_usd store0"
    by (simp add: HasCurrencyPair_iff store0_def btc_usd_valid kv_get_def)
  ultimately show ?thesis
    using vote_roundtrip [OF reachable_index [OF store0_reachable] reachable_index [OF store0_reachable] _ st, of aggregator0
      NewDefaultCurrencyPairStrategy "ctx_at 6" "[\<lparr>vt_cons_address = [7], vt_extension = [(0, gob_encode 70000)]\<rparr>]" "[7]" btc_usd]
      fresh_ids_coherent [of 6 store0]
    by simp
qed

section \<open>Aggregation\<close>

text \<open>The aggregator is stateless across blocks: whatever it held before, with the default strategy it
  applies the aggregate function to the data of the block's votes alone, each validator's prices read from the
  store of \<open>x/oracle\<close>, and afterwards answers \<open>GetPriceForValidator\<close> from that data.\<close>

theorem aggregation_function_of_votes:
  assumes "va_strategy va = DefaultS d" "ids_coherent ctx os d"
    "da_aggregateFnFromContext (va_aggregator va) = Some fn"
    "AggregateOracleVotes ctx os votes va = (r, va')"
  shows "r = fn ctx (votes_data os (va_cons_string va) votes) \<and>
    GetPriceForValidator a va' =
      (case gm_get (votes_data os (va_cons_string va) votes) (va_cons_string va a) of None \<Rightarrow> [] | Some ps \<Rightarrow> ps)"
proof -
  obtain d1 where add: "add_votes ctx os votes va =
      va\<lparr>va_strategy := DefaultS d1,
         va_aggregator := (va_aggregator va)\<lparr>da_providerData := votes_data os (va_cons_string va) votes\<rparr>\<rparr>"
    using add_votes_default [OF assms(1,2)] by blast
  show ?thesis
    using assms(3,4) unfolding AggregateOracleVotes_def add
    by (cases "fn ctx (votes_data os (va_cons_string va) votes)")
      (auto simp: AggregateDataFromContext_def GetProviderData_def SetAggregatedData_def
        GetAggregatedData_def GetPriceForValidator_def GetDataByProvider_def)
qed

theorem aggregation_function_of_votes_witness:
  "fst (AggregateOracleVotes (ctx_at 6) store0 [] aggregator0) = Inr []"
proof -
  obtain r va' where run: "AggregateOracleVotes (ctx_at 6) store0 [] aggregator0 = (r, va')"
    by (cases "AggregateOracleVotes (ctx_at 6) store0 [] aggregator0")
  have "r = Inr []"
    using aggregation_function_of_votes [of aggregator0 NewDefaultCurrencyPairStrategy "ctx_at 6" store0
        "\<lambda>ctx data. Inr []", OF _ _ _ run] fresh_ids_coherent [of 6 store0]
    by (simp add: aggregator0_def NewDefaultVoteAggregator_def NewDataAggregator_def WithAggregateFnFromContext_def)
  with run show ?thesis by simp
qed

section \<open>The prices of a block\<close>

lemma be_nat_less: "be_nat bs < 256 ^ length bs"
proof (induction bs rule: rev_induct)
  case (snoc b bs)
  have "unat b < 2 ^ LENGTH(8)" by (rule unsigned_less)
  with snoc show ?case by (simp add: be_nat_snoc)
qed (simp add: be_nat_def)

lemma decoded_bounds:
  assumes "default_GetDecodedPrice bz = Inr p" "length bz \<le> MaximumPriceSize"
  shows "0 \<le> p \<and> p < 2 ^ 256"
proof (cases bz)
  case Nil
  with assms(1) show ?thesis by (simp add: default_GetDecodedPrice_def gob_decode_def)
next
  case (Cons b mag)
  then have "p \<le> int (be_nat mag)" "0 \<le> p"
    using assms(1) by (auto simp: default_GetDecodedPrice_def gob_decode_def bind_res_Inr_iff split: if_splits)
  moreover have "be_nat mag < 256 ^ 32"
    using be_nat_less [of mag] power_increasing [of "length mag" 32 "256 :: nat"] assms(2) Cons
    by (simp add: MaximumPriceSize_def)
  then have "int (be_nat mag) < 2 ^ 256" by simp
  ultimately show ?thesis by linarith
qed

definition price_ok :: "int option \<Rightarrow> bool" where
  "price_ok x \<longleftrightarrow> (\<forall>p. x = Some p \<longrightarrow> 0 \<le> p \<and> p < 2 ^ 256)"

definition prices_ok :: "price_map \<Rightarrow> bool" where
  "prices_ok ps \<longleftrightarrow> gm_wf ps \<and> (\<forall>cp x. gm_get ps cp = Some x \<longrightarrow> price_ok x)"

lemma put_entry_ok: "prices_ok prices \<Longrightarrow> prices_ok (put_entry os e prices)"
proof -
  assume ok: "prices_ok prices"
  show ?thesis
  proof (cases "entry_price os e")
    case None
    with ok show ?thesis by (simp add: put_entry_def)
  next
    case (Some cq)
    obtain cp p where cq: "cq = (cp, p)" by (cases cq)
    have "price_ok (Some p)"
      using Some decoded_bounds unfolding cq
      by (auto simp: entry_price_def price_ok_def split: prod.splits if_splits option.splits sum.splits)
    with Some ok show ?thesis by (auto simp: put_entry_def cq prices_ok_def)
  qed
qed

lemma put_entries_ok: "prices_ok prices \<Longrightarrow> prices_ok (fold (put_entry os) es prices)"
  by (induction es arbitrary: prices) (auto intro: put_entry_ok)

lemma votes_data_ok:
  "gm_wf (votes_data os consString votes) \<and>
     (\<forall>a ps. gm_get (votes_data os consString votes) a = Some ps \<longrightarrow> prices_ok ps)"
proof -
  have "gm_wf m \<and> (\<forall>a ps. gm_get m a = Some ps \<longrightarrow> prices_ok ps) \<Longrightarrow>
      gm_wf (fold (put_vote os consString) votes m) \<and>
      (\<forall>a ps. gm_get (fold (put_vote os consString) votes m) a = Some ps \<longrightarrow> prices_ok ps)" for m
  proof (induction votes arbitrary: m)
    case (Cons v votes)
    have "prices_ok []" by (simp add: prices_ok_def)
    from put_entries_ok [OF this]
    have "gm_wf (put_vote os consString v m) \<and>
        (\<forall>a ps. gm_get (put_vote os consString v m) a = Some ps \<longrightarrow> prices_ok ps)"
      using Cons.prems by (auto simp: put_vote_def)
    from Cons.IH [OF this] show ?case by simp
  qed simp
  from this [of "[]"] show ?thesis by (simp add: votes_data_def)
qed

lemma votes_data_mem:
  "(a, ps) \<in> set (votes_data os consString votes) \<Longrightarrow> prices_ok ps"
  using votes_data_ok [of os consString votes] gm_get_iff by metis

lemma votes_data_wf: "providers_wf (votes_data os consString votes)"
  using votes_data_ok [of os consString votes] votes_data_mem [of _ _ os consString votes]
  by (auto simp: providers_wf_def prices_ok_def)

lemma reports_ok:
  assumes "\<And>a ps. (a, ps) \<in> set providers \<Longrightarrow> prices_ok ps" "r \<in> set (reports vals cp providers)"
  shows "0 \<le> pv_price r \<and> pv_price r < 2 ^ 256"
proof -
  obtain a ps where a: "(a, ps) \<in> set providers" "r \<in> set (report vals cp a (gm_get ps cp))"
    using assms(2) by (auto simp: reports_def)
  have "gm_get ps cp = Some (Some (pv_price r))"
    using a(2) by (auto simp: report_def split: sum.splits option.splits)
  with assms(1) [OF a(1)] show ?thesis unfolding prices_ok_def price_ok_def by blast
qed

lemma votes_reports_ok:
  "r \<in> set (reports vals cp (votes_data os consString votes)) \<Longrightarrow> 0 \<le> pv_price r \<and> pv_price r < 2 ^ 256"
  by (rule reports_ok [OF votes_data_mem])

lemma write_prices_total:
  assumes "index_inv s" "\<forall>cp \<in> set cps. pair_of s (CurrencyPair_String cp) \<noteq> None"
    "\<forall>cp p. gm_get prices cp = Some (Some p) \<longrightarrow> newInt p = Inr p"
  shows "\<exists>t. forC cps (write_price newInt ctx prices) s = (Inr (), t)"
  using assms
proof (induction cps arbitrary: s)
  case (Cons cp cps)
  obtain v where v: "pair_of s (CurrencyPair_String cp) = Some v" using Cons.prems(2) by auto
  obtain u where u: "write_price newInt ctx prices cp s = (Inr (), u)" "index_inv u"
    "\<And>l. pair_of s l \<noteq> None \<Longrightarrow> pair_of u l \<noteq> None"
  proof (cases "\<exists>p. gm_get prices cp = Some (Some p) \<and> 0 \<le> p")
    case True
    then obtain p where p: "gm_get prices cp = Some (Some p)" "0 \<le> p" by blast
    obtain u where "SetPriceForCurrencyPair cp (quote_of ctx p) s = (Inr (), u)" "index_inv u"
      "\<And>l. pair_of u l = (if l = CurrencyPair_String cp
         then Some (v\<lparr>cs_nonce := cs_nonce v + 1, cs_price := Some (quote_of ctx p)\<rparr>) else pair_of s l)"
      by (rule set_price_tracked [OF Cons.prems(1) v, of "quote_of ctx p"]) blast
    then show thesis using that [of u] p Cons.prems(3) by (simp add: write_price_def comp_simps)
  next
    case False
    then have "write_price newInt ctx prices cp s = (Inr (), s)"
      by (auto simp: write_price_def comp_simps split: option.split)
    from that [OF this Cons.prems(1)] show thesis by blast
  qed
  then have "\<forall>cp \<in> set cps. pair_of u (CurrencyPair_String cp) \<noteq> None" using Cons.prems(2) by simp
  from Cons.IH [OF u(2) this Cons.prems(3)] show ?case by (auto simp: u(1) comp_simps)
qed (simp add: comp_simps)

text \<open>(C1) A block whose injected commit decodes never stops the chain, with the default strategy and the
  stake-weighted median: the applier succeeds, the price of each pair is the median of the reports of the votes
  when they carry enough power, and \<open>x/oracle\<close> gets exactly these prices for its pairs, keeping ids, counters
  and the pairs without a price.\<close>

theorem block_prices:
  assumes "va_strategy (ap_va s) = DefaultS d" "ids_coherent ctx (ap_store s) d"
    "index_inv (ap_store s)" "keys_canonical (ap_store s)"
    "da_aggregateFnFromContext (va_aggregator (ap_va s)) = Some (MedianFromContext quo vals threshold)"
    "vs_total_bonded_tokens (vals ctx) = Inr bonded" "\<forall>a. quo a (bonded * dec_one) = Inr (q a)"
    "\<forall>a w. vote_weight (vals ctx) a = Inr w \<longrightarrow> 0 \<le> w"
    "exact_int (ap_new_int s)" "\<forall>x. 0 \<le> x \<and> x < 2 ^ 256 \<longrightarrow> ap_new_int s x = Inr x"
    "GetOracleVotes txs veCodec ecCodec = Inr votes"
  shows "\<exists>prices t. ApplyPricesFromVoteExtensions veCodec ecCodec ctx txs s = (Inr prices, t) \<and>
    (\<forall>cp. gm_get prices cp =
       (let es = reports (vals ctx) cp (votes_data (ap_store s) (va_cons_string (ap_va s)) votes) in
        if es \<noteq> [] \<and> threshold \<le> q (weight es * dec_one) then Some (Some (weighted_median es)) else None)) \<and>
    os_num_cps (ap_store t) = os_num_cps (ap_store s) \<and> os_next_id (ap_store t) = os_next_id (ap_store s) \<and>
    (\<forall>k. pair_of (ap_store t) k = map_option (written ctx prices (key_pair k)) (pair_of (ap_store s) k))"
proof -
  let ?data = "votes_data (ap_store s) (va_cons_string (ap_va s)) votes"
  obtain d1 where add: "add_votes ctx (ap_store s) votes (ap_va s) =
      (ap_va s)\<lparr>va_strategy := DefaultS d1,
        va_aggregator := (va_aggregator (ap_va s))\<lparr>da_providerData := ?data\<rparr>\<rparr>"
    using add_votes_default [OF assms(1,2)] by blast
  obtain prices where med: "Median quo (vals ctx) threshold ?data = Inr prices"
    and get: "\<forall>cp. gm_get prices cp = (let es = reports (vals ctx) cp ?data in
        if es \<noteq> [] \<and> threshold \<le> q (weight es * dec_one) then Some (Some (weighted_median es)) else None)"
    using Median_get [where quo = quo and q = q and bonded = bonded and threshold = threshold, OF votes_data_wf assms(6-8)]
    by blast
  have "ap_new_int s p = Inr p" if "gm_get prices cp = Some (Some p)" for cp p
  proof -
    let ?es = "reports (vals ctx) cp ?data"
    have "?es \<noteq> []" and p: "p = weighted_median ?es"
      using that get by (auto simp: Let_def split: if_splits)
    then have "p \<in> pv_price ` set ?es"
      using weighted_median_in(1) [of ?es] reports_weights [OF assms(8)] by blast
    then have "0 \<le> p \<and> p < 2 ^ 256"
      using votes_reports_ok by blast
    with assms(10) show ?thesis by blast
  qed
  then obtain os where os: "forC (GetAllCurrencyPairs (ap_store s)) (write_price (ap_new_int s) ctx prices) (ap_store s) = (Inr (), os)"
    using write_prices_total [OF assms(3) GetAll_tracked(1) [OF assms(3,4)], of prices "ap_new_int s" ctx] by blast
  obtain va where "AggregateOracleVotes ctx (ap_store s) votes (ap_va s) = (Inr prices, va)"
    unfolding AggregateOracleVotes_def add
    by (simp add: AggregateDataFromContext_def assms(5) GetProviderData_def MedianFromContext_def med
        GetAggregatedData_def SetAggregatedData_def)
  then have run: "ApplyPricesFromVoteExtensions veCodec ecCodec ctx txs s = (Inr prices, s\<lparr>ap_va := va, ap_store := os\<rparr>)"
    using assms(11) os by (simp add: ApplyPrices_Inr)
  from apply_prices_store [OF run assms(9,3,4)] run get show ?thesis by blast
qed

text \<open>A codec that encodes the extensions with at most one entry, of id 0, and one for a single commit.\<close>

definition codec0 :: ve_codec where
  "codec0 = \<lparr>
     vc_encode = (\<lambda>ve. case ve of [] \<Rightarrow> Inr [] | e # es \<Rightarrow>
       if es = [] \<and> fst e = 0 then Inr (1 # snd e) else Inl (Errorf ''marshal'')),
     vc_decode = (\<lambda>bs. case bs of [] \<Rightarrow> Inr [] | b # bz \<Rightarrow> Inr [(0, bz)])\<rparr>"

definition one_commit :: "extended_commit \<Rightarrow> ec_codec" where
  "one_commit ec = \<lparr>
     xc_encode = (\<lambda>x. if x = ec then Inr [1] else Inl (Errorf ''marshal'')),
     xc_decode = (\<lambda>bs. if bs = [1] then Inr ec else Inl (Errorf ''unmarshal''))\<rparr>"

definition price_vote :: "bytes \<Rightarrow> i64 \<Rightarrow> int \<Rightarrow> vote_info" where
  "price_vote a w p = \<lparr>vi_address = a, vi_power = w, vi_vote_extension = Some (1 # gob_encode p),
     vi_extension_signature = Some [1], vi_block_id_flag = BlockIDFlagCommit\<rparr>"

definition commit0 :: extended_commit where
  "commit0 = \<lparr>ec_round = 0, ec_votes = [price_vote [1] 70 5, price_vote [2] 30 9]\<rparr>"

definition new_int0 :: "int \<Rightarrow> int res" where
  "new_int0 x = (if \<bar>x\<bar> < 2 ^ 256 then Inr x else Inl (Panic ''NewIntFromBigInt() out of bound''))"

definition applier0 :: applier where
  "applier0 = \<lparr>ap_va = NewDefaultVoteAggregator (\<lambda>a. if a = [1] then ''v1'' else ''v2'')
       (MedianFromContext dec_quo (\<lambda>_. vals0) DefaultPowerThreshold) (DefaultS NewDefaultCurrencyPairStrategy),
     ap_store = store0, ap_new_int = new_int0\<rparr>"

lemma store0_canonical: "keys_canonical store0"
  using canonical_String [OF btc_usd_valid(1,2)] btc_usd_valid(3)
  by (simp add: keys_canonical_def store0_def kv_get_def)

lemma store0_FromID: "GetCurrencyPairFromID 0 store0 = Some btc_usd"
  by (rule keeper_look_ident [OF reachable_index [OF store0_reachable]]) (simp_all add: btc_usd_valid store0_id)

lemma small_entry: "0 \<le> p \<Longrightarrow> p < 2 ^ 256 \<Longrightarrow> entry_price store0 (0, gob_encode p) = Some (btc_usd, p)"
  using gob_length [of p 32]
  by (simp add: entry_price_def store0_FromID default_GetDecodedPrice_def MaximumPriceSize_def)

theorem block_prices_witness:
  "\<exists>prices t. ApplyPricesFromVoteExtensions codec0 (one_commit commit0) (ctx_at 6) [[1]] applier0 = (Inr prices, t) \<and>
     gm_get prices btc_usd = Some (Some 5)"
proof -
  let ?votes = "[\<lparr>vt_cons_address = [1], vt_extension = [(0, gob_encode 5)]\<rparr>,
    \<lparr>vt_cons_address = [2], vt_extension = [(0, gob_encode 9)]\<rparr>]"
  have votes: "GetOracleVotes [[1]] codec0 (one_commit commit0) = Inr ?votes"
    by (simp add: GetOracleVotes_def NumInjectedTxs_def OracleInfoIndex_def one_commit_def commit0_def codec0_def
        price_vote_def)
  have "votes_data store0 (\<lambda>a. if a = [1] then ''v1'' else ''v2'') ?votes =
      [(''v1'', [(btc_usd, Some 5)]), (''v2'', [(btc_usd, Some 9)])]"
    by (simp add: votes_data_def put_vote_def put_entry_def small_entry gm_set_def)
  then have rep: "reports vals0 btc_usd (votes_data store0 (\<lambda>a. if a = [1] then ''v1'' else ''v2'') ?votes) =
      [\<lparr>pv_vote_weight = 70, pv_price = 5\<rparr>, \<lparr>pv_vote_weight = 30, pv_price = 9\<rparr>]"
    by (simp add: reports_def report_def vote_weight_def vals0_def gm_get_def)
  have parts: "va_strategy (ap_va applier0) = DefaultS NewDefaultCurrencyPairStrategy" "ap_store applier0 = store0"
    "da_aggregateFnFromContext (va_aggregator (ap_va applier0)) =
       Some (MedianFromContext dec_quo (\<lambda>_. vals0) DefaultPowerThreshold)"
    "va_cons_string (ap_va applier0) = (\<lambda>a. if a = [1] then ''v1'' else ''v2'')" "ap_new_int applier0 = new_int0"
    by (simp_all add: applier0_def NewDefaultVoteAggregator_def NewDataAggregator_def WithAggregateFnFromContext_def)
  have ints: "exact_int new_int0" "\<forall>x. 0 \<le> x \<and> x < 2 ^ 256 \<longrightarrow> new_int0 x = Inr x"
    by (auto simp: exact_int_def new_int0_def)
  obtain prices t where "ApplyPricesFromVoteExtensions codec0 (one_commit commit0) (ctx_at 6) [[1]] applier0 = (Inr prices, t)"
    and "\<forall>cp. gm_get prices cp = (let es = reports vals0 cp (votes_data store0 (\<lambda>a. if a = [1] then ''v1'' else ''v2'') ?votes) in
       if es \<noteq> [] \<and> DefaultPowerThreshold \<le> weight es * dec_one div 100 then Some (Some (weighted_median es)) else None)"
    using block_prices [of applier0 NewDefaultCurrencyPairStrategy "ctx_at 6" dec_quo "\<lambda>_. vals0" DefaultPowerThreshold
        100 "\<lambda>a. a div 100" "[[1]]" codec0 "one_commit commit0" ?votes]
      votes parts ints vals0_facts(2,3,4) store0_canonical reachable_index [OF store0_reachable]
      fresh_ids_coherent [of 6 store0]
    by auto
  moreover from this(2) have "gm_get prices btc_usd = Some (Some 5)"
    by (simp add: rep Let_def median0 DefaultPowerThreshold_def dec_one_def)
  ultimately show ?thesis by blast
qed

end
