(* ===== verification/Extension_Properties.thy ===== *)
theory Extension_Properties
  imports Vote_Properties
begin

text \<open>
  The properties of the vote extension handlers and of the validation of an extended commit: a vote is
  always extended, when it is empty, what the other validators accept, and what a valid commit guarantees.
\<close>

section \<open>Extending a vote\<close>

lemma on_applier_Inr: "on_applier m s = (Inr a, t) \<longleftrightarrow> (\<exists>u. m (vs_applier s) = (Inr a, u) \<and> t = s\<lparr>vs_applier := u\<rparr>)"
  by (auto simp: on_applier_def split: prod.splits)

lemma on_strategy_Inr: "on_strategy m s = (Inr a, t) \<longleftrightarrow> (\<exists>u. m (vs_strategy s) = (Inr a, u) \<and> t = s\<lparr>vs_strategy := u\<rparr>)"
  by (auto simp: on_strategy_def split: prod.splits)

text \<open>The steps of a vote extension that is not empty.\<close>

definition extends_with ::
    "ve_codec \<Rightarrow> ec_codec \<Rightarrow> client_response \<Rightarrow> abci_ctx \<Rightarrow> bytes list \<Rightarrow> ve_state \<Rightarrow> bytes \<Rightarrow> bool" where
  "extends_with veCodec ecCodec client ctx txs s bz \<longleftrightarrow>
     (\<exists>blockPrices a prices ve st.
        ApplyPricesFromVoteExtensions veCodec ecCodec ctx txs (vs_applier s) = (Inr blockPrices, a) \<and>
        client = Inr (Some prices) \<and>
        transformOracleServicePrices ctx (ap_store a) prices [] (vs_strategy s) = (Inr ve, st) \<and>
        vc_encode veCodec ve = Inr bz)"

lemma extend_vote_Inr:
  "extend_vote veCodec ecCodec client ctx txs s = (Inr bz, t) \<Longrightarrow> extends_with veCodec ecCodec client ctx txs s bz"
  by (auto simp: extend_vote_def extends_with_def comp_Inr on_applier_Inr on_strategy_Inr split: option.splits)

lemma response_extends:
  "fst (ExtendVoteHandler veCodec ecCodec client ctx (Some txs) s) = (Some bz, e) \<Longrightarrow> bz \<noteq> [] \<Longrightarrow>
     extends_with veCodec ecCodec client ctx txs s bz"
  using extend_vote_Inr [of veCodec ecCodec client ctx txs s]
  by (cases "extend_vote veCodec ecCodec client ctx txs s")
    (auto simp: ExtendVoteHandler_def split: sum.splits go_error.splits)

text \<open>(C7) A vote is always extended: a request gets an answer whatever the block, the oracle service and
  the codecs do. The answer is an error only for a panic, and only with an empty extension; an extension
  that is not empty is the encoding of the service's prices on the store with the block's prices.\<close>

theorem extend_vote_live:
  "(\<exists>bz e t. ExtendVoteHandler veCodec ecCodec client ctx (Some txs) s = ((Some bz, e), t) \<and>
      (e = None \<or> (bz = [] \<and> (\<exists>p. e = Some (ErrPanic p)))) \<and>
      (bz \<noteq> [] \<longrightarrow> extends_with veCodec ecCodec client ctx txs s bz)) \<and>
   ExtendVoteHandler veCodec ecCodec client ctx None s = ((None, None), s)"
proof -
  obtain r t where run: "ExtendVoteHandler veCodec ecCodec client ctx (Some txs) s = (r, t)"
    by (cases "ExtendVoteHandler veCodec ecCodec client ctx (Some txs) s")
  then have "\<exists>bz e. r = (Some bz, e) \<and> (e = None \<or> (bz = [] \<and> (\<exists>p. e = Some (ErrPanic p))))"
    by (auto simp: ExtendVoteHandler_def split: prod.splits sum.splits go_error.splits)
  moreover have "bz \<noteq> [] \<longrightarrow> extends_with veCodec ecCodec client ctx txs s bz" if "r = (Some bz, e)" for bz e
    using response_extends [of veCodec ecCodec client ctx txs s bz e] run that by simp
  ultimately show ?thesis using run by (auto simp: ExtendVoteHandler_def)
qed

theorem extend_vote_live_witness:
  "\<exists>bz e t. ExtendVoteHandler codec0 (one_commit commit0) (Inl (Errorf ''timeout'')) (ctx_at 6) (Some [])
     \<lparr>vs_applier = applier0, vs_strategy = DefaultS NewDefaultCurrencyPairStrategy\<rparr> = ((Some bz, e), t) \<and> bz = []"
  using extend_vote_live [of codec0 "one_commit commit0" "Inl (Errorf ''timeout'')" "ctx_at 6" "[]"
      "\<lparr>vs_applier = applier0, vs_strategy = DefaultS NewDefaultCurrencyPairStrategy\<rparr>"]
  by (auto simp: extends_with_def)

lemma transform_malformed:
  "(k, v) \<in> set prices \<Longrightarrow> (\<exists>e. CurrencyPairFromString k = Inl e) \<or> SetString10 v = None \<Longrightarrow>
     \<exists>e st'. transformOracleServicePrices ctx os prices acc st = (Inl e, st')"
proof (induction prices arbitrary: acc st)
  case (Cons x prices)
  obtain k' v' where x: "x = (k', v')" by (cases x)
  show ?case
  proof (cases "\<exists>cp p. CurrencyPairFromString k' = Inr cp \<and> SetString10 v' = Some p")
    case False
    then show ?thesis by (auto simp: x split: sum.split option.split)
  next
    case True
    with Cons.prems x have "(k, v) \<in> set prices" by auto
    from Cons.IH [OF this Cons.prems(2)] True show ?thesis
      by (auto simp: x split: sum.split prod.split)
  qed
qed simp

text \<open>One malformed entry in the answer of the oracle service, a ticker that is no currency pair or a
  price that is no decimal integer, empties the whole vote extension, whatever the strategy.\<close>

theorem malformed_price_empties_vote:
  assumes "(k, v) \<in> set prices" "(\<exists>e. CurrencyPairFromString k = Inl e) \<or> SetString10 v = None"
  shows "\<exists>e. fst (ExtendVoteHandler veCodec ecCodec (Inr (Some prices)) ctx (Some txs) s) = (Some [], e)"
proof (cases "extend_vote veCodec ecCodec (Inr (Some prices)) ctx txs s")
  case (Pair r t)
  have "r \<noteq> Inr bz" for bz
  proof
    assume "r = Inr bz"
    with Pair have "extends_with veCodec ecCodec (Inr (Some prices)) ctx txs s bz"
      by (intro extend_vote_Inr) simp
    then show False
      unfolding extends_with_def
    proof (elim exE conjE)
      fix blockPrices a ps ve st
      assume "(Inr (Some prices) :: client_response) = Inr (Some ps)"
        "transformOracleServicePrices ctx (ap_store a) ps [] (vs_strategy s) = (Inr ve, st)"
      with transform_malformed [OF assms, of ctx "ap_store a" "[]" "vs_strategy s"] show False by auto
    qed
  qed
  then obtain e where "r = Inl e" by (cases r) auto
  with Pair show ?thesis by (cases e) (auto simp: ExtendVoteHandler_def)
qed

theorem malformed_price_empties_vote_witness:
  "\<exists>e. fst (ExtendVoteHandler codec0 (one_commit commit0) (Inr (Some [(''btc/usd'', ''70000''), (''eth/usd'', ''<nil>'')]))
     (ctx_at 6) (Some [[1]]) \<lparr>vs_applier = applier0, vs_strategy = DefaultS NewDefaultCurrencyPairStrategy\<rparr>) = (Some [], e)"
proof -
  have "SetString10 ''<nil>'' = None" by code_simp
  then show ?thesis
    by (intro malformed_price_empties_vote [of "''eth/usd''" "''<nil>''"]) simp_all
qed

section \<open>Verifying an extension\<close>

lemma carries_length:
  assumes "index_inv os" "\<forall>cp. GetIDForCurrencyPair cp os' = GetIDForCurrencyPair cp os" "carries os' m ve"
  shows "length ve \<le> length (os_currency_pairs os)"
proof -
  have wf: "gm_wf ve" using assms(3) by (simp add: carries_def)
  have "set (map fst ve) \<subseteq> (cs_id \<circ> snd) ` set (os_currency_pairs os)"
  proof
    fix i assume "i \<in> set (map fst ve)"
    then obtain bz where "(i, bz) \<in> set ve" by auto
    then have "gm_get ve i = Some bz" by (simp only: gm_get_iff [OF wf])
    then obtain cp where "GetIDForCurrencyPair cp os = Some i"
      using carries_get [OF assms(3)] assms(2) by metis
    then obtain v where v: "pair_of os (CurrencyPair_String cp) = Some v" "cs_id v = i" by (auto simp: GetID_iff)
    from v(1) have "(CurrencyPair_String cp, v) \<in> set (os_currency_pairs os)"
      using kv.entries_iff [OF index_wf(1) [OF assms(1)], of "CurrencyPair_String cp" v] by simp
    with v(2) show "i \<in> (cs_id \<circ> snd) ` set (os_currency_pairs os)" by force
  qed
  then have "card (set (map fst ve)) \<le> card ((cs_id \<circ> snd) ` set (os_currency_pairs os))"
    by (intro card_mono) simp_all
  also have "\<dots> \<le> length (os_currency_pairs os)"
    using card_image_le [of "set (os_currency_pairs os)" "cs_id \<circ> snd"] card_length [of "os_currency_pairs os"]
    by (simp add: comp_def) 
  finally show ?thesis using distinct_card [of "map fst ve"] wf by (simp add: gm_wf_def)
qed

lemma each_ok_Inr: "(\<forall>x \<in> set xs. f x = Inr ()) \<Longrightarrow> each_ok f xs = Inr ()"
  by (induction xs) simp_all

lemma sent_extension_accepted:
  assumes "\<And>ve. gm_wf ve \<Longrightarrow> vc_encode veCodec ve = Inr bz \<Longrightarrow> \<exists>ve'. vc_decode veCodec bz = Inr ve' \<and> mset ve' = mset ve"
    "fst (ExtendVoteHandler veCodec ecCodec (Inr (Some prices)) ctx (Some txs) s) = (Some bz, None)"
    "vs_strategy s = DefaultS d" "exact_int (ap_new_int (vs_applier s))"
    "index_inv (ap_store (vs_applier s))" "keys_canonical (ap_store (vs_applier s))" "count_ok (ap_store (vs_applier s))"
    "length (os_currency_pairs (ap_store (vs_applier s))) < 2 ^ 64"
    "\<forall>cp p. reported prices cp = Some p \<longrightarrow> p < 2 ^ 256" "cx_exec_mode ctx' = ExecModeVerifyVoteExtension"
  shows "VerifyVoteExtensionHandler veCodec ctx' (ap_store (vs_applier s)) (DefaultS d') (Some (Some bz)) = (Some ACCEPT, None)"
proof (cases "bz = []")
  case True
  then show ?thesis by (simp add: VerifyVoteExtensionHandler_def)
next
  case False
  let ?os = "ap_store (vs_applier s)"
  have "extends_with veCodec ecCodec (Inr (Some prices)) ctx txs s bz"
    by (rule response_extends [OF assms(2) False])
  then obtain blockPrices a ve st where
    app: "ApplyPricesFromVoteExtensions veCodec ecCodec ctx txs (vs_applier s) = (Inr blockPrices, a)" and
    tr: "transformOracleServicePrices ctx (ap_store a) prices [] (DefaultS d) = (Inr ve, st)" and
    enc: "vc_encode veCodec ve = Inr bz"
    using assms(3) unfolding extends_with_def by auto
  note store = apply_prices_store [OF app assms(4-6)]
  have ids: "\<forall>cp. GetIDForCurrencyPair cp (ap_store a) = GetIDForCurrencyPair cp ?os"
    using store by (auto simp: GetIDForCurrencyPair_def pairs_Get_def split: option.split)
  have car: "carries (ap_store a) (reported prices) ve"
    by (rule transform_reported [OF tr]) (use store in blast)
  obtain ve' where ve': "vc_decode veCodec bz = Inr ve'" "mset ve' = mset ve" 
    using assms(1) [OF _ enc] car by (auto simp: carries_def)
  have "length ve' \<le> length (os_currency_pairs ?os)"
    using carries_length [OF assms(5) ids car] mset_eq_length [OF ve'(2)] by simp
  then have "\<not> of_nat (length (os_currency_pairs ?os)) < (of_nat (length ve') :: u64)"
    using assms(8) by (simp add: word_less_nat_alt unat_of_nat)
  moreover have "\<not> MaximumPriceSize < length (snd e)" if "e \<in> set ve'" for e
  proof -
    obtain i b where e: "e = (i, b)" by (cases e)
    have wf: "gm_wf ve" using car by (simp add: carries_def)
    have "(i, b) \<in> set ve" using that e mset_eq_setD [OF ve'(2)] by simp
    then have "gm_get ve i = Some b" by (simp only: gm_get_iff [OF wf])
    then obtain cp p where "reported prices cp = Some p" "b = gob_encode p"
      using carries_get [OF car] by blast
    then show ?thesis
      using usable_reported [of prices] assms(9) gob_length [of p 32]
      by (simp add: e usable_def MaximumPriceSize_def)
  qed
  ultimately have "ValidateOracleVoteExtension ctx' ?os ve' (DefaultS d') = Inr ()"
    using assms(7,10)
    by (auto simp: ValidateOracleVoteExtension_def strategy_GetMaxNumCP_def default_GetMaxNumCP_def
        GetNumCurrencyPairs_def item_Get_def count_ok_def case_prod_unfold intro!: each_ok_Inr)
  with ve'(1) False show ?thesis by (simp add: VerifyVoteExtensionHandler_def)
qed

text \<open>What a validator with the default strategy sends, the others accept: the extension it extends its vote with
  passes \<open>VerifyVoteExtension\<close> on the store of the last block, when the codec keeps the entries and the service's
  prices are below \<open>2 ^ 256\<close>.\<close>

theorem own_extension_accepted:
  assumes "\<forall>ve bz. vc_encode veCodec ve = Inr bz \<longrightarrow> (\<exists>ve'. vc_decode veCodec bz = Inr ve' \<and> mset ve' = mset ve)"
    "fst (ExtendVoteHandler veCodec ecCodec (Inr (Some prices)) ctx (Some txs) s) = (Some bz, None)"
    "vs_strategy s = DefaultS d" "exact_int (ap_new_int (vs_applier s))"
    "index_inv (ap_store (vs_applier s))" "keys_canonical (ap_store (vs_applier s))" "count_ok (ap_store (vs_applier s))"
    "length (os_currency_pairs (ap_store (vs_applier s))) < 2 ^ 64"
    "\<forall>cp p. reported prices cp = Some p \<longrightarrow> p < 2 ^ 256" "cx_exec_mode ctx' = ExecModeVerifyVoteExtension"
  shows "VerifyVoteExtensionHandler veCodec ctx' (ap_store (vs_applier s)) (DefaultS d') (Some (Some bz)) = (Some ACCEPT, None)"
  using assms(1) by (intro sent_extension_accepted [OF _ assms(2-)]) simp

text \<open>A validator whose block brings no prices.\<close>

definition state0 :: ve_state where
  "state0 = \<lparr>vs_applier = \<lparr>ap_va = aggregator0, ap_store = store0, ap_new_int = new_int0\<rparr>,
     vs_strategy = DefaultS NewDefaultCurrencyPairStrategy\<rparr>"

lemma state0_fields:
  "ap_store (vs_applier state0) = store0" "vs_strategy state0 = DefaultS NewDefaultCurrencyPairStrategy"
  "ap_new_int (vs_applier state0) = new_int0"
  by (simp_all add: state0_def)

lemma codec0_encode: "vc_encode codec0 [(0, bz)] = Inr (1 # bz)"
  by (simp add: codec0_def)

lemma write_nothing: "forC cps (write_price newInt ctx []) s = (Inr (), s)"
  by (induction cps) (simp_all add: write_price_def comp_simps)

lemma apply_nothing:
  "\<exists>va. ApplyPricesFromVoteExtensions c (one_commit empty_commit) (ctx_at 6) [[1]] (vs_applier state0) =
     (Inr [], (vs_applier state0)\<lparr>ap_va := va\<rparr>)"
proof -
  have "GetOracleVotes [[1]] c (one_commit empty_commit) = Inr []"
    by (simp add: GetOracleVotes_def NumInjectedTxs_def OracleInfoIndex_def one_commit_def empty_commit_def)
  moreover obtain va where "AggregateOracleVotes (ctx_at 6) store0 [] aggregator0 = (Inr [], va)"
    by (simp add: AggregateOracleVotes_def add_votes_def aggregator0_def NewDefaultVoteAggregator_def
        NewDataAggregator_def WithAggregateFnFromContext_def ResetProviderData_def AggregateDataFromContext_def
        SetAggregatedData_def GetAggregatedData_def)
  ultimately show ?thesis
    by (auto simp: ApplyPrices_Inr state0_def write_nothing)
qed

theorem own_extension_accepted_witness:
  "VerifyVoteExtensionHandler codec0 ((ctx_at 6)\<lparr>cx_exec_mode := ExecModeVerifyVoteExtension\<rparr>) store0
     (DefaultS NewDefaultCurrencyPairStrategy) (Some (Some (1 # gob_encode 70000))) = (Some ACCEPT, None)"
proof -
  let ?service = "[(''btc/usd'', ''70000'')]"
  obtain va where va: "ApplyPricesFromVoteExtensions codec0 (one_commit empty_commit) (ctx_at 6) [[1]] (vs_applier state0) =
     (Inr [], (vs_applier state0)\<lparr>ap_va := va\<rparr>)"
    using apply_nothing by blast
  have "extend_vote codec0 (one_commit empty_commit) (Inr (Some ?service)) (ctx_at 6) [[1]] state0 =
      (Inr (1 # gob_encode 70000), state0\<lparr>vs_applier := (vs_applier state0)\<lparr>ap_va := va\<rparr>,
         vs_strategy := DefaultS (cache_pair 0 btc_usd (default_reset (ctx_at 6) NewDefaultCurrencyPairStrategy))\<rparr>)"
    unfolding extend_vote_def
    by (simp add: comp_simps bindC_def mapErrC_def on_applier_def va on_strategy_def state0_fields parse_btc_usd
        default_ID_def store0_id default_GetEncodedPrice_def gm_set_def codec0_encode)
  then have send: "fst (ExtendVoteHandler codec0 (one_commit empty_commit) (Inr (Some ?service)) (ctx_at 6) (Some [[1]]) state0) =
      (Some (1 # gob_encode 70000), None)"
    by (simp add: ExtendVoteHandler_def)
  have codec: "\<forall>ve bz. vc_encode codec0 ve = Inr bz \<longrightarrow> (\<exists>ve'. vc_decode codec0 bz = Inr ve' \<and> mset ve' = mset ve)"
    by (auto simp: codec0_def split: list.splits if_splits)
  have "\<forall>cp p. reported ?service cp = Some p \<longrightarrow> p < 2 ^ 256"
    by (simp add: reported_def report_price_def parse_btc_usd)
  moreover have "count_ok store0" by (simp add: count_ok_def store0_def)
  moreover have "length (os_currency_pairs store0) < 2 ^ 64" by (simp add: store0_def)
  moreover have "exact_int new_int0" by (simp add: exact_int_def new_int0_def)
  ultimately show ?thesis
    using own_extension_accepted [OF codec send, of NewDefaultCurrencyPairStrategy
        "(ctx_at 6)\<lparr>cx_exec_mode := ExecModeVerifyVoteExtension\<rparr>"]
      store0_canonical reachable_index [OF store0_reachable]
    by (simp add: state0_fields)
qed

section \<open>A valid extended commit\<close>

definition is_commit :: "vote_info \<Rightarrow> bool" where
  "is_commit v \<longleftrightarrow> vi_block_id_flag v = BlockIDFlagCommit"

definition vote_power :: "vote_info list \<Rightarrow> int" where
  "vote_power vs = (\<Sum>v \<leftarrow> vs. sint (vi_power v))"

text \<open>The signature of a vote is valid for the validator's key, if the store has one.\<close>

definition signed :: "sig_store \<Rightarrow> abci_ctx \<Rightarrow> int \<Rightarrow> vote_info \<Rightarrow> bool" where
  "signed ss ctx roundNr v \<longleftrightarrow>
     (\<forall>proto. ss_pubkey_by_addr ss (vi_address v) = Inr proto \<longrightarrow>
        (\<exists>key msg. ss_pubkey_from_proto ss proto = Inr key \<and>
           ss_sign_bytes ss (slice (vi_vote_extension v)) (cx_header_height ctx - 1) roundNr (cx_header_chain_id ctx) = Inr msg \<and>
           ss_verify ss key msg (slice (vi_extension_signature v))))"

lemma check_signature_iff: "check_signature ss ctx roundNr v = Inr () \<longleftrightarrow> signed ss ctx roundNr v"
  by (auto simp: check_signature_def signed_def bind_res_Inr_iff split: sum.splits if_splits)

lemma power_simps [simp]: "vote_power [] = 0" "vote_power (v # vs) = sint (vi_power v) + vote_power vs"
  by (simp_all add: vote_power_def)

lemma sum_votes_enabled:
  "sum_votes ss ctx roundNr True vs (t, s) = Inr (t', s') \<Longrightarrow>
     t' = t + word_of_int (vote_power vs) \<and> s' = s + word_of_int (vote_power (filter is_commit vs)) \<and>
     (\<forall>v \<in> set vs. check_form True v = Inr () \<and> (is_commit v \<longrightarrow> signed ss ctx roundNr v))"
proof (induction vs arbitrary: t s)
  case (Cons v vs)
  show ?case
  proof (cases "is_commit v")
    case True
    with Cons.prems have "sum_votes ss ctx roundNr True vs (t + vi_power v, s + vi_power v) = Inr (t', s')"
      "check_form True v = Inr ()" "signed ss ctx roundNr v"
      by (auto simp: is_commit_def bind_res_Inr_iff check_signature_iff)
    with Cons.IH [OF this(1)] True show ?thesis by (auto simp: add.assoc)
  next
    case False
    with Cons.prems have "sum_votes ss ctx roundNr True vs (t + vi_power v, s) = Inr (t', s')"
      "check_form True v = Inr ()"
      by (auto simp: is_commit_def bind_res_Inr_iff)
    with Cons.IH [OF this(1)] False show ?thesis by (auto simp: add.assoc)
  qed
qed simp

lemma power_bounds:
  assumes "\<forall>v \<in> set vs. 0 \<le> sint (vi_power v)"
  shows "0 \<le> vote_power (filter P vs) \<and> vote_power (filter P vs) \<le> vote_power vs"
  using assms by (induction vs) auto

lemma sint_small: "0 \<le> x \<Longrightarrow> x < 2 ^ 63 \<Longrightarrow> sint (word_of_int x :: i64) = x"
  by (simp add: signed_of_int signed_take_bit_int_eq_self)

lemma match_votes_ok:
  "match_votes seen vs cs = Inr () \<Longrightarrow> length vs = length cs \<Longrightarrow>
     distinct (map vi_address vs) \<and> set seen \<inter> set (map vi_address vs) = {} \<and>
     map (\<lambda>v. (vi_address v, vi_power v)) vs = map (\<lambda>c. (cv_address c, cv_power c)) cs \<and>
     list_all2 (\<lambda>v c. pruned v \<or> vi_block_id_flag v = cv_block_id_flag c) vs cs"
proof (induction seen vs cs rule: match_votes.induct)
  case (1 seen v vs c cs)
  then have ok: "vi_address v \<notin> set seen" "vi_address v = cv_address c" "vi_power v = cv_power c"
    "pruned v \<or> vi_block_id_flag v = cv_block_id_flag c" "match_votes (vi_address v # seen) vs cs = Inr ()"
    by (auto split: if_splits)
  with 1 show ?case by auto
qed auto

text \<open>(C3) What a valid extended commit guarantees when vote extensions are enabled and the powers sum up below
  \<open>2 ^ 62\<close>: its validators are those of the last commit, with their powers, each once; more than two thirds of the
  power voted for the block, and each of these extensions is signed if the validator's key is
  known; no other vote carries an extension or a signature, and a vote that was not pruned has its flag in the last commit.\<close>

theorem commit_supermajority:
  assumes "ValidateVoteExtensions ss ctx ec = Inr ()" "VoteExtensionsEnabled ctx"
    "\<forall>v \<in> set (ec_votes ec). 0 \<le> sint (vi_power v)" "vote_power (ec_votes ec) < 2 ^ 62"
  shows "2 * vote_power (ec_votes ec) < 3 * vote_power (filter is_commit (ec_votes ec)) \<and>
    distinct (map vi_address (ec_votes ec)) \<and>
    map (\<lambda>v. (vi_address v, vi_power v)) (ec_votes ec) = map (\<lambda>c. (cv_address c, cv_power c)) (lc_votes (cx_last_commit ctx)) \<and>
    list_all2 (\<lambda>v c. pruned v \<or> vi_block_id_flag v = cv_block_id_flag c) (ec_votes ec) (lc_votes (cx_last_commit ctx)) \<and>
    (\<forall>v \<in> set (ec_votes ec). if is_commit v then signed ss ctx (ec_round ec) v
       else slice (vi_vote_extension v) = [] \<and> slice (vi_extension_signature v) = [])"
proof -
  let ?vs = "ec_votes ec"
  obtain t s where match: "ValidateExtendedCommitAgainstLastCommit ec (cx_last_commit ctx) = Inr ()"
    and run: "sum_votes ss ctx (ec_round ec) True ?vs (0, 0) = Inr (t, s)"
    and pos: "0 < sint t" and req: "sint (required_power t) \<le> sint s"
    using assms(1,2) by (auto simp: ValidateVoteExtensions_def Let_def bind_res_Inr_iff split: if_splits)
  note sums = sum_votes_enabled [OF run]
  note bounds = power_bounds [OF assms(3), of is_commit]
  have t: "sint t = vote_power ?vs" and s: "sint s = vote_power (filter is_commit ?vs)"
    using sums bounds assms(4) by (simp_all add: sint_small)
  have double: "sint (t * 2) = 2 * vote_power ?vs"
  proof -
    have "t * 2 = word_of_int (2 * vote_power ?vs)" using sums by (simp add: mult.commute)
    then show ?thesis using bounds assms(4) sint_small [of "2 * vote_power ?vs"] by simp
  qed
  have "required_power t = word_of_int (2 * vote_power ?vs div 3 + 1)"
    using bounds pos t by (simp add: required_power_def div3_def double)
  moreover have "sint (word_of_int (2 * vote_power ?vs div 3 + 1) :: i64) = 2 * vote_power ?vs div 3 + 1"
  proof (rule sint_small)
    have "0 \<le> vote_power ?vs" "vote_power ?vs < 4611686018427387904" using bounds assms(4) by simp_all
    then show "0 \<le> 2 * vote_power ?vs div 3 + 1" "2 * vote_power ?vs div 3 + 1 < 2 ^ 63" by simp_all
  qed
  ultimately have "sint (required_power t) = 2 * vote_power ?vs div 3 + 1" by (simp only:)
  then have "2 * vote_power ?vs < 3 * vote_power (filter is_commit ?vs)" using req s by linarith
  moreover have "if is_commit v then signed ss ctx (ec_round ec) v
      else slice (vi_vote_extension v) = [] \<and> slice (vi_extension_signature v) = []" if "v \<in> set ?vs" for v
    using sums that by (auto simp: check_form_def Let_def is_commit_def split: if_splits)
  ultimately show ?thesis
    using match match_votes_ok [of "[]" ?vs "lc_votes (cx_last_commit ctx)"]
    by (auto simp: ValidateExtendedCommitAgainstLastCommit_def split: if_splits)
qed

definition sigs0 :: sig_store where
  "sigs0 = \<lparr>ss_pubkey_by_addr = Inr, ss_pubkey_from_proto = Inr, ss_sign_bytes = (\<lambda>ext h r chain. Inr ext),
     ss_verify = (\<lambda>key msg sig. sig = [1])\<rparr>"

definition ctx_committed :: abci_ctx where
  "ctx_committed = (ctx_at 6)\<lparr>cx_last_commit := \<lparr>lc_round = 0, lc_votes =
     [\<lparr>cv_address = [1], cv_power = 70, cv_block_id_flag = BlockIDFlagCommit\<rparr>,
      \<lparr>cv_address = [2], cv_power = 30, cv_block_id_flag = BlockIDFlagCommit\<rparr>]\<rparr>,
     cx_exec_mode := ExecModeProcessProposal\<rparr>"

lemma commit0_valid: "VoteExtensionsEnabled ctx_committed" "ValidateVoteExtensions sigs0 ctx_committed commit0 = Inr ()"
proof -
  show en: "VoteExtensionsEnabled ctx_committed" by (simp add: VoteExtensionsEnabled_def ctx_committed_def ctx_at_def)
  have "ValidateExtendedCommitAgainstLastCommit commit0 (cx_last_commit ctx_committed) = Inr ()"
    by (simp add: ValidateExtendedCommitAgainstLastCommit_def commit0_def ctx_committed_def price_vote_def vote_cmp_def pruned_def)
  moreover have "sum_votes sigs0 ctx_committed 0 True (ec_votes commit0) (0, 0) = Inr (100, 100)"
    by (simp add: commit0_def price_vote_def check_form_def check_signature_def sigs0_def)
  moreover have "sint (100 :: i64) = 100" "sint (required_power 100) = 67"
    by (simp_all add: required_power_def div3_def)
  ultimately show "ValidateVoteExtensions sigs0 ctx_committed commit0 = Inr ()"
    using en by (simp add: ValidateVoteExtensions_def Let_def commit0_def)
qed

theorem commit_supermajority_witness:
  "2 * vote_power (ec_votes commit0) < 3 * vote_power (filter is_commit (ec_votes commit0)) \<and> vote_power (ec_votes commit0) = 100"
proof -
  have p: "vote_power (ec_votes commit0) = 100" "\<forall>v \<in> set (ec_votes commit0). 0 \<le> sint (vi_power v)"
    by (simp_all add: commit0_def price_vote_def)
  then show ?thesis using commit_supermajority [OF commit0_valid(2,1) p(2)] by simp
qed

end
