(* ===== verification/Proposals.thy ===== *)
theory Proposals
  imports Vote_Extension
begin

text \<open>
  \<open>abci/proposals\<close>: preparing a proposal with the pruned extended commit in front of its transactions, and
  processing one; with the status metric of \<open>abci/types/utils.go\<close>, which can panic. Arguments: the wrapped
  handlers of the application, which return the request as they leave it, and the validation of the
  extended commit. Decoders return errors and do not panic.
\<close>

section \<open>The status metric\<close>

datatype abci_method = PrepareProposal | ProcessProposal | ExtendVote | VerifyVoteExtension | PreBlock

fun abci_method_string :: "abci_method \<Rightarrow> string" where
  "abci_method_string PrepareProposal = ''prepare_proposal''"
| "abci_method_string ProcessProposal = ''process_proposal''"
| "abci_method_string ExtendVote = ''extend_vote''"
| "abci_method_string VerifyVoteExtension = ''verify_vote_extension''"
| "abci_method_string PreBlock = ''pre_blocker''"

datatype report_status = Absent | MissingPrice | WithPrice

datatype metric_event =
    AddABCIRequest abci_method string
  | ObservePriceForTicker currency_pair int
  | AddValidatorReportForTicker string currency_pair report_status
  | AddValidatorPriceForTicker string currency_pair int

text \<open>\<open>errors.As(err, &label)\<close>: the label of the first error of the chain that has one.\<close>

fun label_of :: "go_error \<Rightarrow> string option" where
  "label_of (NilRequestError _) = Some ''NilRequestError''"
| "label_of (WrappedHandlerError _ _) = Some ''WrappedHandlerError''"
| "label_of (CodecError _) = Some ''CodecError''"
| "label_of MissingCommitInfoError = Some ''MissingCommitInfoError''"
| "label_of (PriceAggregationError _) = Some ''PriceAggregationError''"
| "label_of (InvalidExtendedCommitInfoError _) = Some ''InvalidExtendedCommitInfoError''"
| "label_of (PreBlockError _) = Some ''PreBlockError''"
| "label_of (ErrPanic _) = Some ''Panic''"
| "label_of (OracleClientError _) = Some ''OracleClientError''"
| "label_of (TransformPricesError _) = Some ''TransformPricesError''"
| "label_of (ValidateVoteExtensionError _) = Some ''ValidateVoteExtensionError''"
| "label_of (Wrapf _ e) = label_of e"
| "label_of _ = None"

text \<open>With metrics enabled \<open>AddABCIRequest\<close> reads the label, which is a nil interface when no error of the
  chain has one; the disabled metrics ignore it. The latency is not modelled.\<close>

definition RecordLatencyAndStatus :: "bool \<Rightarrow> go_error option \<Rightarrow> abci_method \<Rightarrow> metric_event list res" where
  "RecordLatencyAndStatus metricsEnabled err method =
     (if \<not> metricsEnabled then Inr []
      else case err of
             None \<Rightarrow> Inr [AddABCIRequest method ''Success'']
           | Some e \<Rightarrow>
               (case label_of e of
                  None \<Rightarrow> Inl (Panic ''nil pointer dereference'')
                | Some l \<Rightarrow> Inr [AddABCIRequest method l]))"

text \<open>The outcome of a handler: its response, nil or not, and its error. \<open>deferred_status\<close> is the deferred
  call; a panic of the body goes on after it, one of the call replaces the outcome.\<close>

type_synonym 'a outcome = "'a option \<times> go_error option"

definition deferred_status :: "bool \<Rightarrow> abci_method \<Rightarrow> 'a outcome \<Rightarrow> 'a outcome" where
  "deferred_status metricsEnabled method out =
     (case out of
        (_, Some (Panic p)) \<Rightarrow> out
      | (_, err) \<Rightarrow>
          (case RecordLatencyAndStatus metricsEnabled err method of
             Inl e \<Rightarrow> (None, Some e) | Inr _ \<Rightarrow> out))"

section \<open>The handler\<close>

record prepare_request =
  pr_txs :: "bytes list"
  pr_max_tx_bytes :: i64
  pr_local_last_commit :: extended_commit

record process_request =
  ps_txs :: "bytes list"

datatype proposal_status = StatusUnknown | StatusAccept | StatusReject

text \<open>\<open>ph_prepare\<close> answers with transactions, with a nil response (\<open>None\<close>) or with an error; \<open>ph_process\<close>
  with a response, which may be nil, and an error.\<close>

record proposal_handler =
  ph_prepare :: "abci_ctx \<Rightarrow> prepare_request \<Rightarrow> bytes list option res \<times> prepare_request"
  ph_process :: "abci_ctx \<Rightarrow> process_request \<Rightarrow> proposal_status outcome \<times> process_request"
  ph_validate :: "abci_ctx \<Rightarrow> extended_commit \<Rightarrow> unit res"
  ph_ve_codec :: ve_codec
  ph_ec_codec :: ec_codec
  ph_strategy :: strategy
  ph_metrics_enabled :: bool
  ph_retain :: bool

definition RetainOracleDataInWrappedProposalHandler :: "proposal_handler \<Rightarrow> proposal_handler" where
  "RetainOracleDataInWrappedProposalHandler p = p\<lparr>ph_retain := True\<rparr>"

definition NewProposalHandler ::
    "(abci_ctx \<Rightarrow> prepare_request \<Rightarrow> bytes list option res \<times> prepare_request) \<Rightarrow>
     (abci_ctx \<Rightarrow> process_request \<Rightarrow> proposal_status outcome \<times> process_request) \<Rightarrow>
     (abci_ctx \<Rightarrow> extended_commit \<Rightarrow> unit res) \<Rightarrow> ve_codec \<Rightarrow> ec_codec \<Rightarrow> strategy \<Rightarrow> bool \<Rightarrow>
     (proposal_handler \<Rightarrow> proposal_handler) list \<Rightarrow> proposal_handler" where
  "NewProposalHandler prepare process validate veCodec ecCodec strat metricsEnabled opts =
     fold (\<lambda>opt h. opt h) opts
       \<lparr>ph_prepare = prepare, ph_process = process, ph_validate = validate, ph_ve_codec = veCodec,
        ph_ec_codec = ecCodec, ph_strategy = strat, ph_metrics_enabled = metricsEnabled, ph_retain = False\<rparr>"

section \<open>Validation of the extended commit\<close>

definition validateVoteExtension ::
    "abci_ctx \<Rightarrow> oracle_store \<Rightarrow> ve_codec \<Rightarrow> strategy \<Rightarrow> vote_info \<Rightarrow> unit res" where
  "validateVoteExtension ctx os veCodec st v =
     (if vi_vote_extension v = None \<and> vi_extension_signature v = None then Inr ()
      else bind_res (vc_decode veCodec (slice (vi_vote_extension v))) (\<lambda>voteExt.
           ValidateOracleVoteExtension ctx os voteExt st))"

definition ValidateExtendedCommitInfo ::
    "proposal_handler \<Rightarrow> abci_ctx \<Rightarrow> oracle_store \<Rightarrow> extended_commit \<Rightarrow> unit res" where
  "ValidateExtendedCommitInfo h ctx os ec =
     bind_res (ph_validate h ctx ec) (\<lambda>_.
     each_ok (validateVoteExtension ctx os (ph_ve_codec h) (ph_strategy h)) (ec_votes ec))"

definition prune_vote ::
    "proposal_handler \<Rightarrow> abci_ctx \<Rightarrow> oracle_store \<Rightarrow> vote_info \<Rightarrow> vote_info" where
  "prune_vote h ctx os v =
     (case validateVoteExtension ctx os (ph_ve_codec h) (ph_strategy h) v of
        Inl _ \<Rightarrow> v\<lparr>vi_block_id_flag := BlockIDFlagAbsent, vi_extension_signature := None, vi_vote_extension := None\<rparr>
      | Inr _ \<Rightarrow> v)"

text \<open>Pruning writes into the votes of the caller: the second component is the caller's commit afterwards.\<close>

definition PruneAndValidateExtendedCommitInfo ::
    "proposal_handler \<Rightarrow> abci_ctx \<Rightarrow> oracle_store \<Rightarrow> extended_commit \<Rightarrow> extended_commit res \<times> extended_commit" where
  "PruneAndValidateExtendedCommitInfo h ctx os ec =
     (let ec' = ec\<lparr>ec_votes := map (prune_vote h ctx os) (ec_votes ec)\<rparr> in
      (bind_res (ph_validate h ctx ec') (\<lambda>_. Inr ec'), ec'))"

section \<open>Preparing a proposal\<close>

fun add_fitting :: "i64 \<Rightarrow> i64 \<Rightarrow> bytes list \<Rightarrow> bytes list" where
  "add_fitting maxSizeBytes consumedBytes [] = []"
| "add_fitting maxSizeBytes consumedBytes (tx # txs) =
     (let consumed = consumedBytes + of_nat (length tx) in
      if sint maxSizeBytes < sint consumed then [] else tx # add_fitting maxSizeBytes consumed txs)"

definition injectAndResize :: "bytes list \<Rightarrow> bytes \<Rightarrow> i64 \<Rightarrow> bytes list" where
  "injectAndResize appTxs injectTx maxSizeBytes =
     (let injectBytes = of_nat (length injectTx) :: i64 in
      if injectTx \<noteq> [] \<and> (length appTxs < 1 \<or> hd appTxs \<noteq> injectTx) \<and> sint injectBytes \<le> sint maxSizeBytes
      then injectTx # add_fitting maxSizeBytes injectBytes appTxs
      else add_fitting maxSizeBytes 0 appTxs)"

text \<open>A handler's own error: a response of its own and the wrapped error; a panic has no response.\<close>

definition failed :: "'a \<Rightarrow> (go_error \<Rightarrow> go_error) \<Rightarrow> go_error \<Rightarrow> 'a outcome" where
  "failed resp w e = (case e of Panic p \<Rightarrow> (None, Some (Panic p)) | _ \<Rightarrow> (Some resp, Some (w e)))"

definition fill_proposal ::
    "proposal_handler \<Rightarrow> abci_ctx \<Rightarrow> bytes \<Rightarrow> prepare_request \<Rightarrow> bytes list outcome \<times> prepare_request" where
  "fill_proposal h ctx extInfoBz req =
     (case ph_prepare h ctx req of
        (Inl e, req') \<Rightarrow> (failed [] (WrappedHandlerError ''prepare_proposal'') e, req')
      | (Inr None, req') \<Rightarrow> ((None, Some (Panic ''nil pointer dereference'')), req')
      | (Inr (Some txs), req') \<Rightarrow>
          ((Some (injectAndResize txs extInfoBz (pr_max_tx_bytes req' + of_nat (length extInfoBz))), None), req'))"

definition prepare_proposal ::
    "proposal_handler \<Rightarrow> abci_ctx \<Rightarrow> oracle_store \<Rightarrow> prepare_request \<Rightarrow> bytes list outcome \<times> prepare_request" where
  "prepare_proposal h ctx os req0 =
     (if \<not> VoteExtensionsEnabled ctx then fill_proposal h ctx [] req0
      else case PruneAndValidateExtendedCommitInfo h ctx os (pr_local_last_commit req0) of
        (Inl e, commit) \<Rightarrow> (failed [] InvalidExtendedCommitInfoError e, req0\<lparr>pr_local_last_commit := commit\<rparr>)
      | (Inr extInfo, commit) \<Rightarrow>
          let req = req0\<lparr>pr_local_last_commit := commit\<rparr> in
          (case xc_encode (ph_ec_codec h) extInfo of
             Inl e \<Rightarrow> (failed [] CodecError e, req)
           | Inr extInfoBz \<Rightarrow>
               let extInfoBzSize = of_nat (length extInfoBz) :: i64 in
               if sint extInfoBzSize \<le> sint (pr_max_tx_bytes req)
               then let req1 = req\<lparr>pr_max_tx_bytes := pr_max_tx_bytes req - extInfoBzSize\<rparr>;
                        req2 = (if ph_retain h then req1\<lparr>pr_txs := extInfoBz # pr_txs req1\<rparr> else req1)
                    in fill_proposal h ctx extInfoBz req2
               else ((Some [], Some (Errorf ''VE size consumes greater than entire block'')), req)))"

definition PrepareProposalHandler ::
    "proposal_handler \<Rightarrow> abci_ctx \<Rightarrow> oracle_store \<Rightarrow> prepare_request option \<Rightarrow> bytes list outcome \<times> prepare_request option" where
  "PrepareProposalHandler h ctx os req =
     (let (out, req') = (case req of
            None \<Rightarrow> ((None, Some (NilRequestError ''prepare_proposal'')), None)
          | Some r \<Rightarrow> map_prod id Some (prepare_proposal h ctx os r))
      in (deferred_status (ph_metrics_enabled h) PrepareProposal out, req'))"

section \<open>Processing a proposal\<close>

text \<open>The wrapped handler on the request without the injected transaction, which is put back afterwards.\<close>

definition call_process ::
    "proposal_handler \<Rightarrow> abci_ctx \<Rightarrow> bytes option \<Rightarrow> process_request \<Rightarrow> proposal_status outcome \<times> process_request" where
  "call_process h ctx injectedTx req =
     (case ph_process h ctx req of
        ((resp, err), req') \<Rightarrow>
          ((resp, map_option (wrap_err (WrappedHandlerError ''process_proposal'')) err),
           (case injectedTx of
              None \<Rightarrow> req'
            | Some tx \<Rightarrow> if \<not> ph_retain h then req'\<lparr>ps_txs := tx # ps_txs req'\<rparr> else req')))"

definition process_proposal ::
    "proposal_handler \<Rightarrow> abci_ctx \<Rightarrow> oracle_store \<Rightarrow> process_request \<Rightarrow> proposal_status outcome \<times> process_request" where
  "process_proposal h ctx os req =
     (if \<not> VoteExtensionsEnabled ctx then call_process h ctx None req
      else if length (ps_txs req) < NumInjectedTxs then ((Some StatusReject, Some MissingCommitInfoError), req)
      else let extCommitBz = ps_txs req ! OracleInfoIndex in
        (case xc_decode (ph_ec_codec h) extCommitBz of
           Inl e \<Rightarrow> (failed StatusReject CodecError e, req)
         | Inr extInfo \<Rightarrow>
             (case ValidateExtendedCommitInfo h ctx os extInfo of
                Inl e \<Rightarrow> (failed StatusReject InvalidExtendedCommitInfoError e, req)
              | Inr _ \<Rightarrow>
                  if ph_retain h then call_process h ctx None req
                  else call_process h ctx (Some extCommitBz) (req\<lparr>ps_txs := drop NumInjectedTxs (ps_txs req)\<rparr>))))"

definition ProcessProposalHandler ::
    "proposal_handler \<Rightarrow> abci_ctx \<Rightarrow> oracle_store \<Rightarrow> process_request option \<Rightarrow>
     proposal_status outcome \<times> process_request option" where
  "ProcessProposalHandler h ctx os req =
     (let (out, req') = (case req of
            None \<Rightarrow> ((None, Some (NilRequestError ''process_proposal'')), None)
          | Some r \<Rightarrow> map_prod id Some (process_proposal h ctx os r))
      in (deferred_status (ph_metrics_enabled h) ProcessProposal out, req'))"

end
