(* ===== verification/Proposal_Properties.thy ===== *)
theory Proposal_Properties
  imports Proposals Extension_Properties "HOL-Library.Sublist"
begin

text \<open>
  The properties of the proposal handlers: what pruning leaves, how the extended commit is put in front of
  the transactions, that what an honest proposer prepares passes the check of the others, and that an
  accepted proposal can be decoded in the block.
\<close>

section \<open>Pruning\<close>

lemma each_ok_map: "each_ok f (map g xs) = each_ok (f \<circ> g) xs"
  by (induction xs) simp_all

lemma prune_vote_valid:
  "validateVoteExtension ctx os (ph_ve_codec h) (ph_strategy h) (prune_vote h ctx os v) = Inr ()"
  by (auto simp: prune_vote_def validateVoteExtension_def split: sum.split)

lemma prune_result:
  assumes "PruneAndValidateExtendedCommitInfo h ctx os ec = (Inr ec', caller)"
  shows "ec' = ec\<lparr>ec_votes := map (prune_vote h ctx os) (ec_votes ec)\<rparr>" "caller = ec'" "ph_validate h ctx ec' = Inr ()"
    "\<forall>v \<in> set (ec_votes ec'). validateVoteExtension ctx os (ph_ve_codec h) (ph_strategy h) v = Inr ()"
  using assms by (auto simp: PruneAndValidateExtendedCommitInfo_def Let_def bind_res_Inr_iff prune_vote_valid)

text \<open>A pruned commit passes \<open>ValidateExtendedCommitInfo\<close>. Pruning keeps the validators and their powers, keeps a
  vote whose extension is valid as it is and makes every other an absent one without extension or signature; it does
  so in the caller's commit too.\<close>

theorem prune_spec:
  assumes "PruneAndValidateExtendedCommitInfo h ctx os ec = (Inr ec', caller)"
  shows "ValidateExtendedCommitInfo h ctx os ec' = Inr () \<and> caller = ec' \<and> ec_round ec' = ec_round ec \<and>
    list_all2 (\<lambda>v w. vi_address w = vi_address v \<and> vi_power w = vi_power v \<and>
        (if is_ok (validateVoteExtension ctx os (ph_ve_codec h) (ph_strategy h) v) then w = v
         else pruned w \<and> vi_vote_extension w = None \<and> vi_extension_signature w = None))
      (ec_votes ec) (ec_votes ec')"
proof -
  note res = prune_result [OF assms]
  have "ValidateExtendedCommitInfo h ctx os ec' = Inr ()"
    using res(3,4) by (simp add: ValidateExtendedCommitInfo_def each_ok_Inr)
  moreover have "list_all2 (\<lambda>v w. vi_address w = vi_address v \<and> vi_power w = vi_power v \<and>
        (if is_ok (validateVoteExtension ctx os (ph_ve_codec h) (ph_strategy h) v) then w = v
         else pruned w \<and> vi_vote_extension w = None \<and> vi_extension_signature w = None))
      vs (map (prune_vote h ctx os) vs)" for vs
    by (induction vs) (auto simp: prune_vote_def pruned_def split: sum.split)
  ultimately show ?thesis by (simp add: res(1,2))
qed

definition handler0 :: proposal_handler where
  "handler0 = NewProposalHandler (\<lambda>ctx req. (Inr (Some [[9]]), req)) (\<lambda>ctx req. ((Some StatusAccept, None), req))
     (NewDefaultValidateVoteExtensionsFn sigs0) codec0 (one_commit commit0) (DefaultS NewDefaultCurrencyPairStrategy) True []"

lemma handler0_fields:
  "ph_validate handler0 = NewDefaultValidateVoteExtensionsFn sigs0" "ph_ve_codec handler0 = codec0"
  "ph_ec_codec handler0 = one_commit commit0" "ph_metrics_enabled handler0" "\<not> ph_retain handler0"
  "ph_prepare handler0 = (\<lambda>ctx req. (Inr (Some [[9]]), req))"
  "ph_process handler0 = (\<lambda>ctx req. ((Some StatusAccept, None), req))"
  by (simp_all add: handler0_def NewProposalHandler_def)

definition ctx_prepare :: abci_ctx where
  "ctx_prepare = ctx_committed\<lparr>cx_exec_mode := ExecModePrepareProposal\<rparr>"

lemma validate_mode:
  "ValidateVoteExtensions ss (ctx\<lparr>cx_exec_mode := m\<rparr>) ec = ValidateVoteExtensions ss ctx ec"
  "VoteExtensionsEnabled (ctx\<lparr>cx_exec_mode := m\<rparr>) = VoteExtensionsEnabled ctx"
proof -
  show en: "VoteExtensionsEnabled (ctx\<lparr>cx_exec_mode := m\<rparr>) = VoteExtensionsEnabled ctx"
    by (simp add: VoteExtensionsEnabled_def split: option.split)
  have sig: "check_signature ss (ctx\<lparr>cx_exec_mode := m\<rparr>) = check_signature ss ctx"
    by (auto simp: fun_eq_iff check_signature_def split: sum.split)
  have "sum_votes ss (ctx\<lparr>cx_exec_mode := m\<rparr>) r b vs acc = sum_votes ss ctx r b vs acc" for r b vs acc
  proof (induction vs arbitrary: acc)
    case (Cons v vs)
    then show ?case by (cases acc; cases b) (simp_all add: sig)
  qed simp
  then show "ValidateVoteExtensions ss (ctx\<lparr>cx_exec_mode := m\<rparr>) ec = ValidateVoteExtensions ss ctx ec"
    by (simp add: ValidateVoteExtensions_def en)
qed

lemma commit0_votes:
  "v \<in> set (ec_votes commit0) \<Longrightarrow> validateVoteExtension ctx_prepare store0 codec0 st v = Inr ()"
proof -
  have n: "strategy_GetMaxNumCP ctx_prepare store0 st = Inr 1"
    by (simp add: strategy_GetMaxNumCP_def default_GetMaxNumCP_def GetNumCurrencyPairs_def GetNumRemovedCurrencyPairs_def
        item_Get_def store0_def)
  have "\<not> MaximumPriceSize < length (gob_encode 5)" "\<not> MaximumPriceSize < length (gob_encode 9)"
    using gob_length [of 5 32] gob_length [of 9 32] by (simp_all add: MaximumPriceSize_def)
  then show "v \<in> set (ec_votes commit0) \<Longrightarrow> validateVoteExtension ctx_prepare store0 codec0 st v = Inr ()"
    by (auto simp: commit0_def price_vote_def validateVoteExtension_def codec0_def ValidateOracleVoteExtension_def n)
qed

lemma prune0: "PruneAndValidateExtendedCommitInfo handler0 ctx_prepare store0 commit0 = (Inr commit0, commit0)"
proof -
  have "map (prune_vote handler0 ctx_prepare store0) (ec_votes commit0) = ec_votes commit0"
    by (rule map_idI) (simp add: prune_vote_def handler0_fields commit0_votes)
  moreover have "NewDefaultValidateVoteExtensionsFn sigs0 ctx_prepare commit0 = Inr ()"
    using commit0_valid by (simp add: NewDefaultValidateVoteExtensionsFn_def ctx_prepare_def validate_mode)
  ultimately show ?thesis by (simp add: PruneAndValidateExtendedCommitInfo_def handler0_fields)
qed

theorem prune_spec_witness: "ValidateExtendedCommitInfo handler0 ctx_prepare store0 commit0 = Inr ()"
  using prune_spec [OF prune0] by blast

section \<open>Injection\<close>

definition txs_size :: "bytes list \<Rightarrow> int" where
  "txs_size txs = (\<Sum>tx \<leftarrow> txs. int (length tx))"

lemma txs_size_simps [simp]: "txs_size [] = 0" "txs_size (tx # txs) = int (length tx) + txs_size txs"
  by (simp_all add: txs_size_def)

lemma txs_size_nonneg: "0 \<le> txs_size txs"
  by (induction txs) simp_all

text \<open>The longest prefix within a budget.\<close>

fun fits :: "int \<Rightarrow> bytes list \<Rightarrow> bytes list" where
  "fits m [] = []"
| "fits m (tx # txs) = (if m < int (length tx) then [] else tx # fits (m - int (length tx)) txs)"

lemma fits_prefix: "prefix (fits m txs) txs"
  by (induction m txs rule: fits.induct) auto

lemma fits_size: "0 \<le> m \<Longrightarrow> txs_size (fits m txs) \<le> m"
proof (induction m txs rule: fits.induct)
  case (2 m tx txs)
  then show ?case by (cases "m < int (length tx)") simp_all
qed simp

lemma fits_again: "fits m (fits m txs) = fits m txs"
  by (induction m txs rule: fits.induct) auto

lemma fits_longest:
  "fits m txs = txs \<or> (length (fits m txs) < length txs \<and>
     m < txs_size (fits m txs) + int (length (txs ! length (fits m txs))))"
  by (induction m txs rule: fits.induct) auto

lemma add_fitting_fits:
  "0 \<le> c \<Longrightarrow> c + txs_size txs < 2 ^ 63 \<Longrightarrow> add_fitting m (word_of_int c) txs = fits (sint m - c) txs"
proof (induction txs arbitrary: c)
  case (Cons tx txs)
  let ?c = "c + int (length tx)"
  have w: "word_of_int c + of_nat (length tx) = (word_of_int ?c :: i64)" by simp
  have "sint (word_of_int ?c :: i64) = ?c"
    using Cons.prems txs_size_nonneg [of txs] by (intro sint_small) auto
  moreover have "add_fitting m (word_of_int ?c) txs = fits (sint m - ?c) txs"
    by (rule Cons.IH) (use Cons.prems in auto)
  ultimately show ?case unfolding add_fitting.simps w by (auto simp: Let_def algebra_simps)
qed simp

lemma inject_eq:
  assumes "injectTx \<noteq> []" "int (length injectTx) \<le> sint maxSize" "int (length injectTx) + txs_size appTxs < 2 ^ 63"
  shows "injectAndResize appTxs injectTx maxSize =
    injectTx # fits (sint maxSize - int (length injectTx))
      (if appTxs \<noteq> [] \<and> hd appTxs = injectTx then tl appTxs else appTxs)"
proof -
  have i: "(of_nat (length injectTx) :: i64) = word_of_int (int (length injectTx))" by simp
  have s: "sint (of_nat (length injectTx) :: i64) = int (length injectTx)"
    unfolding i by (rule sint_small) (use assms(3) txs_size_nonneg [of appTxs] in auto)
  have zero: "add_fitting maxSize 0 appTxs = fits (sint maxSize) appTxs"
    using add_fitting_fits [of 0 appTxs maxSize] assms(3) by simp
  have tail: "add_fitting maxSize (of_nat (length injectTx)) appTxs = fits (sint maxSize - int (length injectTx)) appTxs"
    using add_fitting_fits [of "int (length injectTx)" appTxs maxSize] assms(3) by simp
  show ?thesis
    unfolding injectAndResize_def Let_def s zero tail using assms(1,2) by (cases appTxs) auto
qed

text \<open>\<open>injectAndResize\<close> with a transaction that fits, for sizes that do not overflow: it comes first and once, the
  transactions behind it are the longest prefix of the others within the limit, and injecting it again changes nothing.\<close>

theorem inject_spec:
  assumes "injectTx \<noteq> []" "int (length injectTx) \<le> sint maxSize" "int (length injectTx) + txs_size appTxs < 2 ^ 63"
    "out = injectAndResize appTxs injectTx maxSize"
    "rest = (if appTxs \<noteq> [] \<and> hd appTxs = injectTx then tl appTxs else appTxs)"
  shows "(\<exists>kept. out = injectTx # kept \<and> prefix kept rest \<and>
      (kept = rest \<or> sint maxSize < txs_size out + int (length (rest ! length kept)))) \<and>
    txs_size out \<le> sint maxSize \<and> injectAndResize out injectTx maxSize = out"
proof -
  let ?m = "sint maxSize - int (length injectTx)"
  have out: "out = injectTx # fits ?m rest" unfolding assms(4,5) by (rule inject_eq [OF assms(1-3)])
  have size: "txs_size (fits ?m rest) \<le> ?m" by (rule fits_size) (use assms(2) in simp)
  have "sint maxSize < 2 ^ 63" using sint_lt [of maxSize] by simp
  have "txs_size out \<le> sint maxSize" using size by (simp add: out)
  have kept: "txs_size (fits ?m rest) \<le> txs_size rest \<and> txs_size rest \<le> txs_size appTxs"
  proof -
    obtain more where "rest = fits ?m rest @ more" using fits_prefix [of ?m rest] by (auto simp: prefix_def)
    then have "txs_size rest = txs_size (fits ?m rest) + txs_size more" by (metis map_append sum_list_append txs_size_def)
    moreover have "txs_size rest \<le> txs_size appTxs" unfolding assms(5) by (cases appTxs) auto
    ultimately show ?thesis using txs_size_nonneg [of more] by simp
  qed
  have "injectAndResize out injectTx maxSize = injectTx # fits ?m (fits ?m rest)"
  proof (cases "int (length injectTx) + txs_size out < 2 ^ 63")
    case True
    then show ?thesis using inject_eq [OF assms(1,2) True] by (simp add: out)
  next
    case False
    have zero: "add_fitting maxSize 0 out = fits (sint maxSize) out"
      using add_fitting_fits [of 0 out maxSize] kept assms(3) by (simp add: out)
    show ?thesis using assms(1,2) zero by (simp add: injectAndResize_def out)
  qed
  then show ?thesis
    using fits_prefix [of ?m rest] fits_longest [of ?m rest] \<open>txs_size out \<le> sint maxSize\<close>
    by (auto simp: out fits_again)
qed

theorem inject_spec_witness:
  "(\<exists>kept. injectAndResize [[2, 2], [3, 3]] [1] 4 = [1] # kept \<and> prefix kept [[2, 2], [3, 3]] \<and> kept \<noteq> [[2, 2], [3, 3]]) \<and>
   txs_size (injectAndResize [[2, 2], [3, 3]] [1] 4) \<le> 4"
proof -
  have "injectAndResize [[2, 2], [3, 3]] [1] 4 = [[1], [2, 2]]" by (simp add: injectAndResize_def)
  then show ?thesis
    using inject_spec [of "[1]" 4 "[[2, 2], [3, 3]]" "[[1], [2, 2]]" "[[2, 2], [3, 3]]"] by simp
qed

section \<open>An honest proposal\<close>

text \<open>The protobuf form of an extended commit does not tell an empty byte field from a nil one: both decode to nil.\<close>

definition nil_bytes :: "bytes option \<Rightarrow> bytes option" where
  "nil_bytes b = (if slice b = [] then None else b)"

definition wire_vote :: "vote_info \<Rightarrow> vote_info" where
  "wire_vote v = v\<lparr>vi_vote_extension := nil_bytes (vi_vote_extension v),
     vi_extension_signature := nil_bytes (vi_extension_signature v)\<rparr>"

definition wire_commit :: "extended_commit \<Rightarrow> extended_commit" where
  "wire_commit ec = ec\<lparr>ec_votes := map wire_vote (ec_votes ec)\<rparr>"

definition wire_roundtrip :: "ec_codec \<Rightarrow> bool" where
  "wire_roundtrip c \<longleftrightarrow> (\<forall>ec bz. xc_encode c ec = Inr bz \<longrightarrow>
     bz \<noteq> [] \<and> length bz < 2 ^ 62 \<and> xc_decode c bz = Inr (wire_commit ec))"

lemma slice_nil_bytes [simp]: "slice (nil_bytes b) = slice b"
  by (auto simp: nil_bytes_def)

lemma wire_vote_fields [simp]:
  "vi_address (wire_vote v) = vi_address v" "vi_power (wire_vote v) = vi_power v"
  "vi_block_id_flag (wire_vote v) = vi_block_id_flag v"
  "slice (vi_vote_extension (wire_vote v)) = slice (vi_vote_extension v)"
  "slice (vi_extension_signature (wire_vote v)) = slice (vi_extension_signature v)"
  by (simp_all add: wire_vote_def)

lemma wire_vote_checks [simp]:
  "pruned (wire_vote v) = pruned v" "vote_cmp (wire_vote v) (wire_vote w) = vote_cmp v w"
  "check_form b (wire_vote v) = check_form b v" "check_signature ss ctx r (wire_vote v) = check_signature ss ctx r v"
  by (simp_all add: pruned_def vote_cmp_def check_form_def check_signature_def split: sum.split)

lemma wire_match: "match_votes seen (map wire_vote vs) cs = match_votes seen vs cs"
proof (induction vs arbitrary: seen cs)
  case (Cons v vs)
  then show ?case by (cases cs) simp_all
qed simp

lemma wire_sum: "sum_votes ss ctx r b (map wire_vote vs) acc = sum_votes ss ctx r b vs acc"
proof (induction vs arbitrary: acc)
  case (Cons v vs)
  then show ?case by (cases acc; cases b) simp_all
qed simp

lemma wire_sorted: "is_sorted_votes (map wire_vote vs) = is_sorted_votes vs"
  by (induction vs rule: is_sorted_votes.induct) simp_all

lemma wire_valid: "ValidateVoteExtensions ss ctx (wire_commit ec) = ValidateVoteExtensions ss ctx ec"
  by (simp add: ValidateVoteExtensions_def ValidateExtendedCommitAgainstLastCommit_def wire_commit_def
      wire_match wire_sum wire_sorted)

lemma max_num_modes:
  "cx_exec_mode ctx = ExecModePrepareProposal \<Longrightarrow>
     strategy_GetMaxNumCP (ctx\<lparr>cx_exec_mode := ExecModeProcessProposal\<rparr>) os st = strategy_GetMaxNumCP ctx os st"
  by (simp add: strategy_GetMaxNumCP_def default_GetMaxNumCP_def)

lemma wire_extension:
  assumes "validateVoteExtension ctx os c st v = Inr ()" "cx_exec_mode ctx = ExecModePrepareProposal"
  shows "validateVoteExtension (ctx\<lparr>cx_exec_mode := ExecModeProcessProposal\<rparr>) os c st (wire_vote v) = Inr ()"
proof (cases "vi_vote_extension v = None \<and> vi_extension_signature v = None")
  case True
  then show ?thesis by (simp add: validateVoteExtension_def wire_vote_def nil_bytes_def)
next
  case False
  have "bind_res (vc_decode c (slice (vi_vote_extension v))) (\<lambda>ve. ValidateOracleVoteExtension ctx os ve st) = Inr ()"
    by (rule assms(1) [unfolded validateVoteExtension_def if_not_P [OF False]])
  moreover have "ValidateOracleVoteExtension (ctx\<lparr>cx_exec_mode := ExecModeProcessProposal\<rparr>) os ve st =
      ValidateOracleVoteExtension ctx os ve st" for ve
    by (simp add: ValidateOracleVoteExtension_def max_num_modes [OF assms(2)])
  ultimately show ?thesis by (simp add: validateVoteExtension_def)
qed

text \<open>The wrapped handler keeps the size limit of its request and returns less than \<open>2 ^ 62\<close> bytes.\<close>

definition keeps_limit :: "(abci_ctx \<Rightarrow> prepare_request \<Rightarrow> bytes list option res \<times> prepare_request) \<Rightarrow> bool" where
  "keeps_limit prepare \<longleftrightarrow> (\<forall>ctx req txs req'. prepare ctx req = (Inr (Some txs), req') \<longrightarrow>
     pr_max_tx_bytes req' = pr_max_tx_bytes req \<and> txs_size txs < 2 ^ 62)"

lemma deferred_ok: "deferred_status b m out = (Some r, None) \<Longrightarrow> out = (Some r, None)"
  by (auto simp: deferred_status_def split: prod.splits option.splits go_error.splits sum.splits)

lemma deferred_success [simp]: "deferred_status b m (r, None) = (r, None)"
  by (simp add: deferred_status_def RecordLatencyAndStatus_def)

lemma failed_error [simp]: "failed r w e \<noteq> (x, None)"
  by (simp add: failed_def split: go_error.split)

lemma prepare_enabled:
  assumes "fst (prepare_proposal h ctx os req) = (Some txs, None)" "VoteExtensionsEnabled ctx"
  obtains ec bz r txs' r' where
    "PruneAndValidateExtendedCommitInfo h ctx os (pr_local_last_commit req) = (Inr ec, ec)"
    "xc_encode (ph_ec_codec h) ec = Inr bz" "sint (of_nat (length bz) :: i64) \<le> sint (pr_max_tx_bytes req)"
    "pr_max_tx_bytes r = pr_max_tx_bytes req - of_nat (length bz)"
    "ph_prepare h ctx r = (Inr (Some txs'), r')"
    "txs = injectAndResize txs' bz (pr_max_tx_bytes r' + of_nat (length bz))"
proof -
  obtain res caller where pr: "PruneAndValidateExtendedCommitInfo h ctx os (pr_local_last_commit req) = (res, caller)"
    by (cases "PruneAndValidateExtendedCommitInfo h ctx os (pr_local_last_commit req)")
  obtain ec where ec: "res = Inr ec"
    using assms pr by (cases res) (simp_all add: prepare_proposal_def)
  then have prune: "PruneAndValidateExtendedCommitInfo h ctx os (pr_local_last_commit req) = (Inr ec, ec)"
    using pr prune_result(2) by blast
  obtain bz where enc: "xc_encode (ph_ec_codec h) ec = Inr bz"
    using assms by (cases "xc_encode (ph_ec_codec h) ec") (simp_all add: prepare_proposal_def prune)
  have fits: "sint (of_nat (length bz) :: i64) \<le> sint (pr_max_tx_bytes req)"
    using assms by (auto simp: prepare_proposal_def Let_def prune enc split: if_splits)
  define r where "r = (let r1 = req\<lparr>pr_local_last_commit := ec, pr_max_tx_bytes := pr_max_tx_bytes req - of_nat (length bz)\<rparr>
    in if ph_retain h then r1\<lparr>pr_txs := bz # pr_txs r1\<rparr> else r1)"
  have run: "prepare_proposal h ctx os req = fill_proposal h ctx bz r"
    using assms(2) fits by (simp add: prepare_proposal_def prune enc r_def Let_def)
  have lim: "pr_max_tx_bytes r = pr_max_tx_bytes req - of_nat (length bz)" by (simp add: r_def Let_def)
  obtain txs' r' where "ph_prepare h ctx r = (Inr (Some txs'), r')"
    "txs = injectAndResize txs' bz (pr_max_tx_bytes r' + of_nat (length bz))"
    using assms(1) unfolding run fill_proposal_def
    by (auto split: prod.splits sum.splits option.splits)
  with that prune enc fits lim show thesis by blast
qed

lemma prepare_outcome:
  "fst (PrepareProposalHandler h ctx os (Some req)) =
     deferred_status (ph_metrics_enabled h) PrepareProposal (fst (prepare_proposal h ctx os req))"
  by (simp add: PrepareProposalHandler_def case_prod_unfold)

lemma process_outcome:
  "fst (ProcessProposalHandler h ctx os (Some req)) =
     deferred_status (ph_metrics_enabled h) ProcessProposal (fst (process_proposal h ctx os req))"
  by (simp add: ProcessProposalHandler_def case_prod_unfold)

text \<open>(C2) What an honest proposer prepares while vote extensions are enabled stays within the size limit of the
  request, and the others do not reject it: their \<open>ProcessProposal\<close> on the same state answers what the wrapped
  handler answers.\<close>

theorem honest_proposal_accepted:
  assumes "VoteExtensionsEnabled ctx" "cx_exec_mode ctx = ExecModePrepareProposal"
    "wire_roundtrip (ph_ec_codec h)" "ph_validate h = NewDefaultValidateVoteExtensionsFn ss" "keeps_limit (ph_prepare h)"
    "fst (PrepareProposalHandler h ctx os (Some req)) = (Some txs, None)"
    "ctx' = ctx\<lparr>cx_exec_mode := ExecModeProcessProposal\<rparr>"
  shows "txs_size txs \<le> sint (pr_max_tx_bytes req) \<and>
    fst (ProcessProposalHandler h ctx' os (Some \<lparr>ps_txs = txs\<rparr>)) =
      deferred_status (ph_metrics_enabled h) ProcessProposal
        (map_prod id (map_option (wrap_err (WrappedHandlerError ''process_proposal'')))
          (fst (ph_process h ctx' \<lparr>ps_txs = if ph_retain h then txs else tl txs\<rparr>)))"
proof -
  have prep: "fst (prepare_proposal h ctx os req) = (Some txs, None)"
    by (rule deferred_ok [OF assms(6) [unfolded prepare_outcome]])
  obtain ec bz r txs' r' where
    prune: "PruneAndValidateExtendedCommitInfo h ctx os (pr_local_last_commit req) = (Inr ec, ec)" and
    enc: "xc_encode (ph_ec_codec h) ec = Inr bz" and
    fit: "sint (of_nat (length bz) :: i64) \<le> sint (pr_max_tx_bytes req)" and
    lim: "pr_max_tx_bytes r = pr_max_tx_bytes req - of_nat (length bz)" and
    wrapped: "ph_prepare h ctx r = (Inr (Some txs'), r')" and
    txs: "txs = injectAndResize txs' bz (pr_max_tx_bytes r' + of_nat (length bz))"
    by (rule prepare_enabled [OF prep assms(1)]) blast
  have wire: "bz \<noteq> []" "length bz < 2 ^ 62" "xc_decode (ph_ec_codec h) bz = Inr (wire_commit ec)"
    using assms(3) enc by (simp_all add: wire_roundtrip_def)
  have max: "pr_max_tx_bytes r' + of_nat (length bz) = pr_max_tx_bytes req" and size: "txs_size txs' < 2 ^ 62"
    using assms(5) wrapped lim by (auto simp: keeps_limit_def)
  have "int (length bz) < 2 ^ 62" using wire(2) by simp
  moreover have "sint (of_nat (length bz) :: i64) = int (length bz)"
    using sint_small [of "int (length bz)"] wire(2) by simp
  ultimately have inj: "txs = bz # fits (sint (pr_max_tx_bytes req) - int (length bz))
      (if txs' \<noteq> [] \<and> hd txs' = bz then tl txs' else txs')" and m: "0 \<le> sint (pr_max_tx_bytes req) - int (length bz)"
    using inject_eq [of bz "pr_max_tx_bytes req" txs'] wire(1) fit size by (simp_all add: txs max)
  note res = prune_result [OF prune]
  have votes: "\<forall>v \<in> set (ec_votes ec). validateVoteExtension ctx' os (ph_ve_codec h) (ph_strategy h) (wire_vote v) = Inr ()"
    using res(4) wire_extension assms(2) unfolding assms(7) by blast
  have "ph_validate h ctx' (wire_commit ec) = Inr ()"
    using res(3) unfolding assms(4,7) NewDefaultValidateVoteExtensionsFn_def by (simp add: validate_mode wire_valid assms(1))
  then have valid: "ValidateExtendedCommitInfo h ctx' os (wire_commit ec) = Inr ()"
    using votes by (simp add: ValidateExtendedCommitInfo_def wire_commit_def each_ok_Inr)
  have en: "VoteExtensionsEnabled ctx'" using assms(1) by (simp add: assms(7) validate_mode)
  obtain tail where tail: "txs = bz # tail" using inj by blast
  have "fst (process_proposal h ctx' os \<lparr>ps_txs = txs\<rparr>) =
      map_prod id (map_option (wrap_err (WrappedHandlerError ''process_proposal'')))
        (fst (ph_process h ctx' \<lparr>ps_txs = if ph_retain h then txs else tl txs\<rparr>))"
    using en wire(3) valid
    by (auto simp: process_proposal_def tail NumInjectedTxs_def OracleInfoIndex_def call_process_def split: prod.split)
  then have "fst (ProcessProposalHandler h ctx' os (Some \<lparr>ps_txs = txs\<rparr>)) =
      deferred_status (ph_metrics_enabled h) ProcessProposal
        (map_prod id (map_option (wrap_err (WrappedHandlerError ''process_proposal'')))
          (fst (ph_process h ctx' \<lparr>ps_txs = if ph_retain h then txs else tl txs\<rparr>)))"
    by (simp add: process_outcome)
  moreover have "txs_size txs \<le> sint (pr_max_tx_bytes req)"
    unfolding inj txs_size_simps
    using fits_size [OF m, of "if txs' \<noteq> [] \<and> hd txs' = bz then tl txs' else txs'"] by linarith
  ultimately show ?thesis by blast
qed

lemma wire_commit0: "wire_commit commit0 = commit0"
  by (simp add: wire_commit_def wire_vote_def nil_bytes_def commit0_def price_vote_def)

lemma prepared0:
  "fst (PrepareProposalHandler handler0 ctx_prepare store0
     (Some \<lparr>pr_txs = [], pr_max_tx_bytes = 3, pr_local_last_commit = commit0\<rparr>)) = (Some [[1], [9]], None)"
proof -
  have "VoteExtensionsEnabled ctx_prepare" using commit0_valid(1) by (simp add: ctx_prepare_def validate_mode)
  moreover have "xc_encode (ph_ec_codec handler0) commit0 = Inr [1]" by (simp add: handler0_fields one_commit_def)
  moreover have "injectAndResize [[9]] [1] 3 = [[1], [9]]" by (simp add: injectAndResize_def)
  ultimately show ?thesis
    by (simp add: prepare_outcome prepare_proposal_def prune0 fill_proposal_def handler0_fields)
qed

theorem honest_proposal_accepted_witness:
  "fst (ProcessProposalHandler handler0 ctx_committed store0 (Some \<lparr>ps_txs = [[1], [9]]\<rparr>)) = (Some StatusAccept, None)"
proof -
  have "wire_roundtrip (ph_ec_codec handler0)"
    by (simp add: wire_roundtrip_def handler0_fields one_commit_def wire_commit0)
  moreover have "keeps_limit (ph_prepare handler0)" by (simp add: keeps_limit_def handler0_fields)
  moreover have "VoteExtensionsEnabled ctx_prepare" using commit0_valid(1) by (simp add: ctx_prepare_def validate_mode)
  moreover have "ctx_committed = ctx_prepare\<lparr>cx_exec_mode := ExecModeProcessProposal\<rparr>"
    by (simp add: ctx_prepare_def ctx_committed_def)
  ultimately show ?thesis
    using honest_proposal_accepted [OF _ _ _ handler0_fields(1) _ prepared0, of ctx_committed]
    by (simp add: ctx_prepare_def handler0_fields)
qed

text \<open>(C4) An accepted proposal cannot fail to decode later: while vote extensions are enabled its first transaction
  holds an extended commit that passes the validation, and \<open>GetOracleVotes\<close> decodes the vote of
  each of its validators, whose extensions respect the limits on pairs and sizes or were not sent.\<close>

theorem accepted_proposal_decodes:
  assumes "VoteExtensionsEnabled ctx" "vc_decode (ph_ve_codec h) [] = Inr ve0"
    "fst (ProcessProposalHandler h ctx os (Some req)) = (Some StatusAccept, None)"
  shows "\<exists>ec votes. xc_decode (ph_ec_codec h) (hd (ps_txs req)) = Inr ec \<and> ph_validate h ctx ec = Inr () \<and>
    GetOracleVotes (ps_txs req) (ph_ve_codec h) (ph_ec_codec h) = Inr votes \<and>
    map vt_cons_address votes = map vi_address (ec_votes ec) \<and>
    (\<forall>v \<in> set votes. vt_extension v = ve0 \<or> ValidateOracleVoteExtension ctx os (vt_extension v) (ph_strategy h) = Inr ())"
proof -
  have "fst (process_proposal h ctx os req) = (Some StatusAccept, None)"
    by (rule deferred_ok [OF assms(3) [unfolded process_outcome]])
  then obtain ec where len: "\<not> length (ps_txs req) < NumInjectedTxs"
    and ec: "xc_decode (ph_ec_codec h) (ps_txs req ! OracleInfoIndex) = Inr ec"
    and valid: "ValidateExtendedCommitInfo h ctx os ec = Inr ()"
    using assms(1) by (auto simp: process_proposal_def Let_def split: if_splits sum.splits)
  have validate: "ph_validate h ctx ec = Inr ()"
    using valid by (auto simp: ValidateExtendedCommitInfo_def bind_res_Inr_iff)
  have "\<forall>v \<in> set (ec_votes ec). validateVoteExtension ctx os (ph_ve_codec h) (ph_strategy h) v = Inr ()"
    using valid each_ok_iff [of "validateVoteExtension ctx os (ph_ve_codec h) (ph_strategy h)" "ec_votes ec"]
    by (auto simp: ValidateExtendedCommitInfo_def bind_res_Inr_iff unit_res_ok)
  then have "\<exists>votes. decode_votes (ph_ve_codec h) (ec_votes ec) = Inr votes \<and>
      map vt_cons_address votes = map vi_address (ec_votes ec) \<and>
      (\<forall>v \<in> set votes. vt_extension v = ve0 \<or> ValidateOracleVoteExtension ctx os (vt_extension v) (ph_strategy h) = Inr ())"
  proof (induction "ec_votes ec" arbitrary: ec)
    case Nil
    then show ?case by simp
  next
    case (Cons v vs)
    note prems = Cons.prems [folded Cons.hyps(2)]
    obtain votes where votes: "decode_votes (ph_ve_codec h) vs = Inr votes" "map vt_cons_address votes = map vi_address vs"
      "\<forall>v \<in> set votes. vt_extension v = ve0 \<or> ValidateOracleVoteExtension ctx os (vt_extension v) (ph_strategy h) = Inr ()"
      using Cons.hyps(1) [of "ec\<lparr>ec_votes := vs\<rparr>"] prems by auto
    have "validateVoteExtension ctx os (ph_ve_codec h) (ph_strategy h) v = Inr ()" using prems by simp
    then obtain ve where ve: "vc_decode (ph_ve_codec h) (slice (vi_vote_extension v)) = Inr ve"
      "ve = ve0 \<or> ValidateOracleVoteExtension ctx os ve (ph_strategy h) = Inr ()"
      using assms(2) by (auto simp: validateVoteExtension_def bind_res_Inr_iff split: if_splits)
    show ?case
      unfolding Cons.hyps(2) [symmetric] using votes ve by simp
  qed
  then obtain votes where votes: "decode_votes (ph_ve_codec h) (ec_votes ec) = Inr votes"
    "map vt_cons_address votes = map vi_address (ec_votes ec)"
    "\<forall>v \<in> set votes. vt_extension v = ve0 \<or> ValidateOracleVoteExtension ctx os (vt_extension v) (ph_strategy h) = Inr ()"
    by blast
  have "hd (ps_txs req) = ps_txs req ! OracleInfoIndex"
    using len by (cases "ps_txs req") (simp_all add: NumInjectedTxs_def OracleInfoIndex_def)
  then show ?thesis
    using len ec validate votes by (simp add: GetOracleVotes_def)
qed

lemma processed0:
  "fst (ProcessProposalHandler handler0 ctx_committed store0 (Some \<lparr>ps_txs = [[1], [9]]\<rparr>)) = (Some StatusAccept, None)"
proof -
  have "validateVoteExtension ctx_committed store0 codec0 (ph_strategy handler0) v = Inr ()" if "v \<in> set (ec_votes commit0)" for v
    using wire_extension [OF commit0_votes [OF that]] that
    by (auto simp: ctx_prepare_def ctx_committed_def commit0_def price_vote_def wire_vote_def nil_bytes_def)
  moreover have "NewDefaultValidateVoteExtensionsFn sigs0 ctx_committed commit0 = Inr ()"
    using commit0_valid by (simp add: NewDefaultValidateVoteExtensionsFn_def)
  ultimately have "ValidateExtendedCommitInfo handler0 ctx_committed store0 commit0 = Inr ()"
    by (simp add: ValidateExtendedCommitInfo_def handler0_fields each_ok_Inr)
  then show ?thesis
    using commit0_valid(1)
    by (simp add: process_outcome process_proposal_def NumInjectedTxs_def OracleInfoIndex_def handler0_fields one_commit_def
        call_process_def)
qed

theorem accepted_proposal_decodes_witness:
  "\<exists>ec votes. xc_decode (one_commit commit0) [1] = Inr ec \<and>
     GetOracleVotes [[1], [9]] codec0 (one_commit commit0) = Inr votes \<and> map vt_cons_address votes = map vi_address (ec_votes ec)"
proof -
  have "vc_decode (ph_ve_codec handler0) [] = Inr []" by (simp add: handler0_fields codec0_def)
  from accepted_proposal_decodes [OF commit0_valid(1) this processed0] show ?thesis
    by (auto simp: handler0_fields)
qed

section \<open>An oversized commit\<close>

text \<open>When the encoded commit is larger than the block, the anonymous error of \<open>PrepareProposal\<close> has no label: with
  metrics enabled the deferred status metric dereferences a nil interface, so that the handler panics; only with
  metrics disabled the empty proposal and the error are returned.\<close>

theorem oversized_commit_panics:
  assumes "VoteExtensionsEnabled ctx"
    "PruneAndValidateExtendedCommitInfo h ctx os (pr_local_last_commit req) = (Inr ec, caller)"
    "xc_encode (ph_ec_codec h) ec = Inr bz" "int (length bz) < 2 ^ 63" "sint (pr_max_tx_bytes req) < int (length bz)"
  shows "fst (PrepareProposalHandler h ctx os (Some req)) =
    (if ph_metrics_enabled h then (None, Some (Panic ''nil pointer dereference''))
     else (Some [], Some (Errorf ''VE size consumes greater than entire block'')))"
proof -
  have "sint (of_nat (length bz) :: i64) = int (length bz)"
    using sint_small [of "int (length bz)"] assms(4) by simp
  then show ?thesis
    using assms(1-3,5)
    by (simp add: prepare_outcome prepare_proposal_def Let_def deferred_status_def RecordLatencyAndStatus_def)
qed

theorem oversized_commit_panics_witness:
  "fst (PrepareProposalHandler handler0 ctx_prepare store0
     (Some \<lparr>pr_txs = [], pr_max_tx_bytes = 0, pr_local_last_commit = commit0\<rparr>)) =
   (None, Some (Panic ''nil pointer dereference''))"
proof -
  have "VoteExtensionsEnabled ctx_prepare" using commit0_valid(1) by (simp add: ctx_prepare_def validate_mode)
  moreover have "xc_encode (ph_ec_codec handler0) commit0 = Inr [1]" by (simp add: handler0_fields one_commit_def)
  ultimately show ?thesis
    using oversized_commit_panics [of ctx_prepare handler0 store0
        "\<lparr>pr_txs = [], pr_max_tx_bytes = 0, pr_local_last_commit = commit0\<rparr>" commit0 commit0 "[1]"]
    by (simp add: prune0 handler0_fields)
qed

end
