(* ===== verification/Preblock.thy ===== *)
theory Preblock
  imports Proposals
begin

text \<open>
  \<open>abci/preblock/oracle\<close>: the pre-blocker, which writes the prices of a block before its transactions
  run, and the metrics it reports. Arguments: the module manager's \<open>PreBlock\<close> and the two codecs. The
  conversion of a price to a float is not modelled: metrics carry the integer.
\<close>

record finalize_request =
  fb_txs :: "bytes list"
  fb_decided_votes :: "commit_vote list"

text \<open>\<open>sdk.ResponsePreBlock\<close>: whether the consensus parameters changed.\<close>

record pre_block_response =
  rp_consensus_params_changed :: bool

definition empty_response :: pre_block_response where
  "empty_response = \<lparr>rp_consensus_params_changed = False\<rparr>"

record pre_block_handler =
  pb_applier :: applier
  pb_metrics_enabled :: bool
  pb_ve_codec :: ve_codec
  pb_ec_codec :: ec_codec

definition NewOraclePreBlockHandler ::
    "(bytes \<Rightarrow> string) \<Rightarrow> (int \<Rightarrow> int res) \<Rightarrow> (abci_ctx \<Rightarrow> (string, price_map) gomap \<Rightarrow> price_map res) \<Rightarrow>
     oracle_store \<Rightarrow> bool \<Rightarrow> strategy \<Rightarrow> ve_codec \<Rightarrow> ec_codec \<Rightarrow> pre_block_handler" where
  "NewOraclePreBlockHandler consString newInt aggregateFn os metricsEnabled strat veCodec ecCodec =
     \<lparr>pb_applier = \<lparr>ap_va = NewDefaultVoteAggregator consString aggregateFn strat, ap_store = os, ap_new_int = newInt\<rparr>,
      pb_metrics_enabled = metricsEnabled, pb_ve_codec = veCodec, pb_ec_codec = ecCodec\<rparr>"

section \<open>Metrics\<close>

text \<open>A nil price is dereferenced.\<close>

fun recordPrices :: "price_map \<Rightarrow> metric_event list res" where
  "recordPrices [] = Inr []"
| "recordPrices ((ticker, price) # prices) =
     (case price of
        None \<Rightarrow> Inl (Panic ''nil pointer dereference'')
      | Some p \<Rightarrow> bind_res (recordPrices prices) (\<lambda>evs. Inr (ObservePriceForTicker ticker p # evs)))"

definition report_ticker :: "string \<Rightarrow> bool \<Rightarrow> price_map \<Rightarrow> currency_pair \<Rightarrow> metric_event list" where
  "report_ticker validator nilVote validatorPrices cp =
     (if nilVote then [AddValidatorReportForTicker validator cp Absent]
      else case gm_get validatorPrices cp of
             Some (Some price) \<Rightarrow>
               [AddValidatorReportForTicker validator cp WithPrice, AddValidatorPriceForTicker validator cp price]
           | _ \<Rightarrow> [AddValidatorReportForTicker validator cp MissingPrice])"

definition report_vote :: "applier \<Rightarrow> currency_pair list \<Rightarrow> commit_vote \<Rightarrow> metric_event list" where
  "report_vote s pricesToReport v =
     concat (map (report_ticker (va_cons_string (ap_va s) (cv_address v)) (cv_block_id_flag v \<noteq> BlockIDFlagCommit)
                   (GetPricesForValidator (cv_address v) s)) pricesToReport)"

definition recordValidatorReports :: "applier \<Rightarrow> commit_vote list \<Rightarrow> metric_event list" where
  "recordValidatorReports s votes =
     (let pricesToReport = GetAllCurrencyPairs (ap_store s) in concat (map (report_vote s pricesToReport) votes))"

section \<open>The pre-blockers\<close>

text \<open>The deferred function: it runs when the handler panics too, and then sees neither an error nor prices.\<close>

definition report_block ::
    "pre_block_handler \<Rightarrow> abci_ctx \<Rightarrow> commit_vote list \<Rightarrow> applier \<Rightarrow> price_map option \<Rightarrow> pre_block_response outcome \<Rightarrow>
     pre_block_response outcome \<times> metric_event list" where
  "report_block h ctx votes s prices out =
     (if cx_exec_mode ctx \<noteq> ExecModeFinalize then (out, [])
      else let seen = (case snd out of Some (Panic _) \<Rightarrow> None | err \<Rightarrow> err) in
        (case RecordLatencyAndStatus (pb_metrics_enabled h) seen PreBlock of
           Inl p \<Rightarrow> ((None, Some p), [])
         | Inr evs \<Rightarrow>
             (case prices of
                None \<Rightarrow> (out, evs)
              | Some ps \<Rightarrow>
                  (case recordPrices ps of
                     Inl p \<Rightarrow> ((None, Some p), evs)
                   | Inr priceEvs \<Rightarrow>
                       (out, if pb_metrics_enabled h
                             then evs @ priceEvs @ recordValidatorReports s votes else [])))))"

definition apply_block ::
    "pre_block_handler \<Rightarrow> abci_ctx \<Rightarrow> finalize_request \<Rightarrow> pre_block_response option \<Rightarrow>
     (pre_block_response outcome \<times> metric_event list) \<times> pre_block_handler" where
  "apply_block h ctx req response =
     (if \<not> VoteExtensionsEnabled ctx
      then (report_block h ctx (fb_decided_votes req) (pb_applier h) None (response, None), h)
      else case ApplyPricesFromVoteExtensions (pb_ve_codec h) (pb_ec_codec h) ctx (fb_txs req) (pb_applier h) of
        (Inl (Panic p), s) \<Rightarrow>
          (report_block h ctx (fb_decided_votes req) s None (None, Some (Panic p)), h\<lparr>pb_applier := s\<rparr>)
      | (Inl e, s) \<Rightarrow> (report_block h ctx (fb_decided_votes req) s None (response, Some e), h\<lparr>pb_applier := s\<rparr>)
      | (Inr prices, s) \<Rightarrow>
          (report_block h ctx (fb_decided_votes req) s (Some prices) (response, None), h\<lparr>pb_applier := s\<rparr>))"

text \<open>The module manager runs first, on the same store.\<close>

definition WrappedPreBlocker ::
    "(oracle_store \<Rightarrow> pre_block_response outcome \<times> oracle_store) \<Rightarrow> pre_block_handler \<Rightarrow> abci_ctx \<Rightarrow>
     finalize_request option \<Rightarrow> (pre_block_response outcome \<times> metric_event list) \<times> pre_block_handler" where
  "WrappedPreBlocker mm h ctx req =
     (case req of
        None \<Rightarrow> (((Some empty_response, Some (Errorf ''received nil RequestFinalizeBlock in oracle preblocker'')), []), h)
      | Some r \<Rightarrow>
          (case mm (ap_store (pb_applier h)) of
             ((response, err), os) \<Rightarrow>
               let h' = h\<lparr>pb_applier := (pb_applier h)\<lparr>ap_store := os\<rparr>\<rparr> in
               (case err of
                  Some e \<Rightarrow> (((response, Some e), []), h')
                | None \<Rightarrow> apply_block h' ctx r response)))"

definition PreBlocker ::
    "pre_block_handler \<Rightarrow> abci_ctx \<Rightarrow> finalize_request option \<Rightarrow>
     (pre_block_response outcome \<times> metric_event list) \<times> pre_block_handler" where
  "PreBlocker h ctx req =
     (case req of
        None \<Rightarrow> (((Some empty_response, Some (Errorf ''received nil RequestFinalizeBlock in oracle preblocker'')), []), h)
      | Some r \<Rightarrow> apply_block h ctx r (Some empty_response))"

end
