(* ===== verification/Preblock_Properties.thy ===== *)
theory Preblock_Properties
  imports Preblock Proposal_Properties
begin

text \<open>
  The properties of the pre-blocker: what the wrapped one does after the module manager, and that the metrics
  report every validator on every pair exactly once.
\<close>

section \<open>Reports\<close>

definition status_of :: "applier \<Rightarrow> commit_vote \<Rightarrow> currency_pair \<Rightarrow> report_status" where
  "status_of s v cp =
     (if cv_block_id_flag v \<noteq> BlockIDFlagCommit then Absent
      else case gm_get (GetPricesForValidator (cv_address v) s) cp of Some (Some _) \<Rightarrow> WithPrice | _ \<Rightarrow> MissingPrice)"

definition is_report :: "string \<Rightarrow> currency_pair \<Rightarrow> metric_event \<Rightarrow> bool" where
  "is_report a cp e \<longleftrightarrow> (\<exists>st. e = AddValidatorReportForTicker a cp st)"

lemma filter_ticker:
  "filter (is_report a cp) (report_ticker b nilVote prices cq) =
     (if a = b \<and> cp = cq then
        [AddValidatorReportForTicker b cq (if nilVote then Absent
           else case gm_get prices cq of Some (Some _) \<Rightarrow> WithPrice | _ \<Rightarrow> MissingPrice)]
      else [])"
  by (auto simp: report_ticker_def is_report_def split: option.split)

lemma filter_vote_other:
  "a \<noteq> va_cons_string (ap_va s) (cv_address v) \<Longrightarrow> filter (is_report a cp) (report_vote s cps v) = []"
  by (auto simp: report_vote_def filter_concat filter_ticker)

lemma filter_vote:
  "distinct cps \<Longrightarrow> filter (is_report (va_cons_string (ap_va s) (cv_address v)) cp) (report_vote s cps v) =
     (if cp \<in> set cps then [AddValidatorReportForTicker (va_cons_string (ap_va s) (cv_address v)) cp (status_of s v cp)] else [])"
  by (induction cps) (auto simp: report_vote_def filter_ticker status_of_def)

lemma filter_prices: "recordPrices ps = Inr evs \<Longrightarrow> filter (is_report a cp) evs = []"
  by (induction ps arbitrary: evs rule: recordPrices.induct)
    (auto simp: bind_res_Inr_iff is_report_def split: option.splits)

lemma filter_reports:
  assumes "distinct (map (va_cons_string (ap_va s) \<circ> cv_address) votes)" "v \<in> set votes"
    "distinct (GetAllCurrencyPairs (ap_store s))" "cp \<in> set (GetAllCurrencyPairs (ap_store s))"
  shows "filter (is_report (va_cons_string (ap_va s) (cv_address v)) cp) (recordValidatorReports s votes) =
    [AddValidatorReportForTicker (va_cons_string (ap_va s) (cv_address v)) cp (status_of s v cp)]"
proof -
  let ?a = "va_cons_string (ap_va s)" and ?cps = "GetAllCurrencyPairs (ap_store s)"
  obtain xs ys where votes: "votes = xs @ v # ys" using assms(2) by (auto simp: in_set_conv_decomp)
  have none: "filter (is_report (?a (cv_address v)) cp) (concat (map (report_vote s ?cps) zs)) = []"
    if "\<forall>w \<in> set zs. ?a (cv_address w) \<noteq> ?a (cv_address v)" for zs
    using that by (induction zs) (simp_all add: filter_vote_other [OF not_sym])
  have "\<forall>w \<in> set xs \<union> set ys. ?a (cv_address w) \<noteq> ?a (cv_address v)"
    using assms(1) by (auto simp: votes image_iff)
  then show ?thesis
    using none [of xs] none [of ys] filter_vote [OF assms(3), of s v cp] assms(4)
    by (simp add: recordValidatorReports_def votes Let_def)
qed

text \<open>(C36) The wrapped pre-blocker in a finalized block: with vote extensions disabled it changes nothing the module manager
  did not. With them enabled and metrics on, when it returns without an error the prices were applied on the module
  manager's store, and, if no two validators of the decided commit have the same string form of their address and
  no pair is listed twice, the metrics report every validator of the decided commit exactly once on every tracked
  pair: absent, without or with a price.\<close>

theorem pre_block_reports:
  assumes "cx_exec_mode ctx = ExecModeFinalize" "pb_metrics_enabled h"
    "mm (ap_store (pb_applier h)) = ((response, None), os)" "h1 = h\<lparr>pb_applier := (pb_applier h)\<lparr>ap_store := os\<rparr>\<rparr>"
    "WrappedPreBlocker mm h ctx (Some req) = ((out, evs), h')"
  shows "(\<not> VoteExtensionsEnabled ctx \<longrightarrow> out = (response, None) \<and> h' = h1 \<and> evs = [AddABCIRequest PreBlock ''Success'']) \<and>
    (VoteExtensionsEnabled ctx \<and> snd out = None \<longrightarrow>
       (\<exists>prices s. ApplyPricesFromVoteExtensions (pb_ve_codec h) (pb_ec_codec h) ctx (fb_txs req) (pb_applier h1) = (Inr prices, s) \<and>
          h' = h1\<lparr>pb_applier := s\<rparr> \<and> out = (response, None) \<and>
          (distinct (map (va_cons_string (ap_va s) \<circ> cv_address) (fb_decided_votes req)) \<and> distinct (GetAllCurrencyPairs (ap_store s)) \<longrightarrow>
             (\<forall>v \<in> set (fb_decided_votes req). \<forall>cp \<in> set (GetAllCurrencyPairs (ap_store s)).
                filter (is_report (va_cons_string (ap_va s) (cv_address v)) cp) evs =
                  [AddValidatorReportForTicker (va_cons_string (ap_va s) (cv_address v)) cp (status_of s v cp)]))))"
proof (intro conjI impI)
  have run: "apply_block h1 ctx req response = ((out, evs), h')"
    using assms(3-5) by (simp add: WrappedPreBlocker_def)
  have h1: "pb_ve_codec h1 = pb_ve_codec h" "pb_ec_codec h1 = pb_ec_codec h" "pb_metrics_enabled h1"
    using assms(2,4) by simp_all
  show "out = (response, None)" "h' = h1" "evs = [AddABCIRequest PreBlock ''Success'']" if "\<not> VoteExtensionsEnabled ctx"
    using run that assms(1) h1(3) by (simp_all add: apply_block_def report_block_def RecordLatencyAndStatus_def)
  assume en: "VoteExtensionsEnabled ctx \<and> snd out = None"
  obtain r s where app: "ApplyPricesFromVoteExtensions (pb_ve_codec h) (pb_ec_codec h) ctx (fb_txs req) (pb_applier h1) = (r, s)"
    by (cases "ApplyPricesFromVoteExtensions (pb_ve_codec h) (pb_ec_codec h) ctx (fb_txs req) (pb_applier h1)")
  have "r \<noteq> Inl e" for e
    using run en app h1 assms(1)
    by (cases e) (auto simp: apply_block_def report_block_def split: sum.splits)
  then obtain prices where r: "r = Inr prices" by (cases r) auto
  have rep: "report_block h1 ctx (fb_decided_votes req) s (Some prices) (response, None) = (out, evs)" and h': "h' = h1\<lparr>pb_applier := s\<rparr>"
    using run en app r h1 by (simp_all add: apply_block_def)
  obtain pe where pe: "recordPrices prices = Inr pe" and out: "out = (response, None)"
    and evs: "evs = AddABCIRequest PreBlock ''Success'' # pe @ recordValidatorReports s (fb_decided_votes req)"
    using rep en assms(1) h1(3) by (auto simp: report_block_def RecordLatencyAndStatus_def split: sum.splits)
  have "\<not> is_report a cp (AddABCIRequest PreBlock ''Success'')" for a cp by (simp add: is_report_def)
  then have "filter (is_report a cp) evs = filter (is_report a cp) (recordValidatorReports s (fb_decided_votes req))" for a cp
    by (simp add: evs filter_prices [OF pe])
  then show "\<exists>prices s. ApplyPricesFromVoteExtensions (pb_ve_codec h) (pb_ec_codec h) ctx (fb_txs req) (pb_applier h1) = (Inr prices, s) \<and>
      h' = h1\<lparr>pb_applier := s\<rparr> \<and> out = (response, None) \<and>
      (distinct (map (va_cons_string (ap_va s) \<circ> cv_address) (fb_decided_votes req)) \<and> distinct (GetAllCurrencyPairs (ap_store s)) \<longrightarrow>
         (\<forall>v \<in> set (fb_decided_votes req). \<forall>cp \<in> set (GetAllCurrencyPairs (ap_store s)).
            filter (is_report (va_cons_string (ap_va s) (cv_address v)) cp) evs =
              [AddValidatorReportForTicker (va_cons_string (ap_va s) (cv_address v)) cp (status_of s v cp)]))"
    using app r h' out filter_reports [of s "fb_decided_votes req"] by auto
qed

text \<open>Two validators and one tracked pair: the first one committed a price, the second one is absent.\<close>

definition pre_handler0 :: pre_block_handler where
  "pre_handler0 = \<lparr>pb_applier = applier0, pb_metrics_enabled = True, pb_ve_codec = codec0,
     pb_ec_codec = one_commit commit0\<rparr>"

definition finalize_ctx :: abci_ctx where
  "finalize_ctx = (ctx_at 6)\<lparr>cx_exec_mode := ExecModeFinalize\<rparr>"

definition finalize0 :: finalize_request where
  "finalize0 = \<lparr>fb_txs = [[1]], fb_decided_votes =
     [\<lparr>cv_address = [1], cv_power = 70, cv_block_id_flag = BlockIDFlagCommit\<rparr>,
      \<lparr>cv_address = [2], cv_power = 30, cv_block_id_flag = BlockIDFlagAbsent\<rparr>]\<rparr>"

definition pre_block0 :: "(pre_block_response outcome \<times> metric_event list) \<times> pre_block_handler" where
  "pre_block0 = WrappedPreBlocker (\<lambda>os. ((Some empty_response, None), os)) pre_handler0 finalize_ctx (Some finalize0)"

lemma pre_block0_facts:
  "VoteExtensionsEnabled finalize_ctx" "snd (fst (fst pre_block0)) = None"
  "GetAllCurrencyPairs (ap_store (pb_applier (snd pre_block0))) = [btc_usd]"
  "map (va_cons_string (ap_va (pb_applier (snd pre_block0)))) [[1], [2]] = [''v1'', ''v2'']"
  "map (\<lambda>v. status_of (pb_applier (snd pre_block0)) v btc_usd) (fb_decided_votes finalize0) = [WithPrice, Absent]"
  by code_simp+

theorem pre_block_reports_witness:
  "\<exists>prices. fst (fst pre_block0) = (Some empty_response, None) \<and>
    ApplyPricesFromVoteExtensions codec0 (one_commit commit0) finalize_ctx [[1]] applier0 =
      (Inr prices, pb_applier (snd pre_block0)) \<and>
    filter (is_report ''v1'' btc_usd) (snd (fst pre_block0)) = [AddValidatorReportForTicker ''v1'' btc_usd WithPrice] \<and>
    filter (is_report ''v2'' btc_usd) (snd (fst pre_block0)) = [AddValidatorReportForTicker ''v2'' btc_usd Absent]"
proof -
  obtain out evs h' where run: "WrappedPreBlocker (\<lambda>os. ((Some empty_response, None), os)) pre_handler0 finalize_ctx
      (Some finalize0) = ((out, evs), h')"
    by (metis prod.exhaust)
  then have p: "pre_block0 = ((out, evs), h')" by (simp add: pre_block0_def)
  have mode: "cx_exec_mode finalize_ctx = ExecModeFinalize" "pb_metrics_enabled pre_handler0"
    by (simp_all add: finalize_ctx_def pre_handler0_def)
  have h1: "pre_handler0\<lparr>pb_applier := (pb_applier pre_handler0)\<lparr>ap_store := ap_store (pb_applier pre_handler0)\<rparr>\<rparr> = pre_handler0"
    by simp
  note facts = pre_block0_facts [unfolded p fst_conv snd_conv]
  obtain prices s where app: "ApplyPricesFromVoteExtensions codec0 (one_commit commit0) finalize_ctx [[1]] applier0 = (Inr prices, s)"
    and h': "h' = pre_handler0\<lparr>pb_applier := s\<rparr>" and out: "out = (Some empty_response, None)"
    and reports: "distinct (map (va_cons_string (ap_va s) \<circ> cv_address) (fb_decided_votes finalize0)) \<and> distinct (GetAllCurrencyPairs (ap_store s)) \<longrightarrow>
        (\<forall>v \<in> set (fb_decided_votes finalize0). \<forall>cp \<in> set (GetAllCurrencyPairs (ap_store s)).
          filter (is_report (va_cons_string (ap_va s) (cv_address v)) cp) evs =
            [AddValidatorReportForTicker (va_cons_string (ap_va s) (cv_address v)) cp (status_of s v cp)])"
    using conjunct2 [OF pre_block_reports [OF mode refl h1 [symmetric] run]] facts(1,2)
    by (auto simp: pre_handler0_def finalize0_def)
  have s: "pb_applier h' = s" by (simp add: h')
  show ?thesis
    using reports app out facts(3-5) unfolding p fst_conv snd_conv s by (simp add: finalize0_def)
qed

end
