(* ===== verification/Big_Float.thy ===== *)
theory Big_Float
  imports Complex_Main Prelude
begin

text \<open>
  The arithmetic of \<open>pkg/math/math.go\<close>: \<open>big.Float\<close> with the operations the aggregation uses, the
  median and the scaling. A \<open>big.Float\<close> is a precision with a zero (signed), a rational or an
  infinity; a result is the exact one rounded to the precision of the receiver, half to even, and
  an exponent out of range makes it a zero or an infinity. The operations that have no result
  (\<open>ErrNaN\<close>) panic.
\<close>

section \<open>Rounding\<close>

datatype big_val = BZero bool | BFin rat | BInf bool

record big_float =
  bf_prec :: nat
  bf_val :: big_val

definition MaxExp :: int where "MaxExp = 2147483647"
definition MinExp :: int where "MinExp = - 2147483648"

text \<open>\<open>BitLen\<close> of a positive integer.\<close>

fun BitLen :: "int \<Rightarrow> nat" where
  "BitLen n = (if n \<le> 0 then 0 else Suc (BitLen (n div 2)))"

declare BitLen.simps [simp del]

text \<open>The exponent \<open>e\<close> of \<open>q\<close>: the absolute value of \<open>q\<close> is at least \<open>2 ^ (e - 1)\<close> and below \<open>2 ^ e\<close>.\<close>

definition bf_exp :: "rat \<Rightarrow> int" where
  "bf_exp q = (case quotient_of \<bar>q\<bar> of (a, b) \<Rightarrow>
     let d = int (BitLen a) - int (BitLen b) in
     if \<bar>q\<bar> < 2 powi d then d else d + 1)"

definition half_even :: "rat \<Rightarrow> int" where
  "half_even x = (let n = \<lfloor>x\<rfloor>; f = x - of_int n in
     if f < 1 / 2 then n else if 1 / 2 < f then n + 1 else if even n then n else n + 1)"

definition rnd :: "nat \<Rightarrow> rat \<Rightarrow> rat" where
  "rnd p q = of_int (half_even (q * 2 powi (int p - bf_exp q))) * 2 powi (bf_exp q - int p)"

definition setExpAndRound :: "nat \<Rightarrow> rat \<Rightarrow> big_val" where
  "setExpAndRound p q =
     (if q = 0 then BZero False
      else if bf_exp q < MinExp then BZero (q < 0)
      else let r = rnd p q in if MaxExp < bf_exp r then BInf (q < 0) else BFin r)"

section \<open>Operations\<close>

fun bv_neg :: "big_val \<Rightarrow> bool" where
  "bv_neg (BZero n) = n"
| "bv_neg (BFin q) = (q < 0)"
| "bv_neg (BInf n) = n"

definition ErrNaN :: "big_val res" where "ErrNaN = Inl (Panic ''ErrNaN'')"

fun mul_val :: "nat \<Rightarrow> big_val \<Rightarrow> big_val \<Rightarrow> big_val res" where
  "mul_val p (BFin a) (BFin b) = Inr (setExpAndRound p (a * b))"
| "mul_val p (BZero m) (BInf n) = ErrNaN"
| "mul_val p (BInf m) (BZero n) = ErrNaN"
| "mul_val p (BInf m) y = Inr (BInf (m \<noteq> bv_neg y))"
| "mul_val p x (BInf n) = Inr (BInf (bv_neg x \<noteq> n))"
| "mul_val p x y = Inr (BZero (bv_neg x \<noteq> bv_neg y))"

fun quo_val :: "nat \<Rightarrow> big_val \<Rightarrow> big_val \<Rightarrow> big_val res" where
  "quo_val p (BFin a) (BFin b) = Inr (setExpAndRound p (a / b))"
| "quo_val p (BZero m) (BZero n) = ErrNaN"
| "quo_val p (BInf m) (BInf n) = ErrNaN"
| "quo_val p (BZero m) y = Inr (BZero (m \<noteq> bv_neg y))"
| "quo_val p x (BInf n) = Inr (BZero (bv_neg x \<noteq> n))"
| "quo_val p x y = Inr (BInf (bv_neg x \<noteq> bv_neg y))"

text \<open>\<open>Set\<close> rounds only when the receiver is less precise.\<close>

definition set_val :: "nat \<Rightarrow> big_float \<Rightarrow> big_val" where
  "set_val p x = (case bf_val x of
     BFin a \<Rightarrow> if p < bf_prec x then setExpAndRound p a else BFin a | v \<Rightarrow> v)"

definition add_val :: "nat \<Rightarrow> big_float \<Rightarrow> big_float \<Rightarrow> big_val res" where
  "add_val p x y =
     (case (bf_val x, bf_val y) of
        (BFin a, BFin b) \<Rightarrow> Inr (setExpAndRound p (a + b))
      | (BInf m, BInf n) \<Rightarrow> if m \<noteq> n then ErrNaN else Inr (set_val p x)
      | (BZero m, BZero n) \<Rightarrow> Inr (BZero (m \<and> n))
      | (BInf m, _) \<Rightarrow> Inr (set_val p x)
      | (_, BZero n) \<Rightarrow> Inr (set_val p x)
      | _ \<Rightarrow> Inr (set_val p y))"

text \<open>The receiver's precision comes first; a receiver without one takes the larger of the operands'.\<close>

definition op_prec :: "nat \<Rightarrow> big_float \<Rightarrow> big_float \<Rightarrow> nat" where
  "op_prec z x y = (if z = 0 then max (bf_prec x) (bf_prec y) else z)"

definition bf_Mul :: "nat \<Rightarrow> big_float \<Rightarrow> big_float \<Rightarrow> big_float res" where
  "bf_Mul z x y = bind_res (mul_val (op_prec z x y) (bf_val x) (bf_val y))
     (\<lambda>v. Inr \<lparr>bf_prec = op_prec z x y, bf_val = v\<rparr>)"

definition bf_Quo :: "nat \<Rightarrow> big_float \<Rightarrow> big_float \<Rightarrow> big_float res" where
  "bf_Quo z x y = bind_res (quo_val (op_prec z x y) (bf_val x) (bf_val y))
     (\<lambda>v. Inr \<lparr>bf_prec = op_prec z x y, bf_val = v\<rparr>)"

definition bf_Add :: "nat \<Rightarrow> big_float \<Rightarrow> big_float \<Rightarrow> big_float res" where
  "bf_Add z x y = bind_res (add_val (op_prec z x y) x y)
     (\<lambda>v. Inr \<lparr>bf_prec = op_prec z x y, bf_val = v\<rparr>)"

text \<open>\<open>new(big.Float).SetInt(n)\<close>: at least 64 bits, and as many as the integer has.\<close>

definition bf_SetInt :: "int \<Rightarrow> big_float" where
  "bf_SetInt n = \<lparr>bf_prec = max (BitLen \<bar>n\<bar>) 64,
     bf_val = (if n = 0 then BZero False else BFin (of_int n))\<rparr>"

definition bf_one :: big_float where "bf_one = \<lparr>bf_prec = 53, bf_val = BFin 1\<rparr>"
definition bf_two :: big_float where "bf_two = \<lparr>bf_prec = 64, bf_val = BFin 2\<rparr>"

text \<open>\<open>Int(nil)\<close> truncates towards zero and is nil for an infinity.\<close>

definition bf_Int :: "big_float \<Rightarrow> int option" where
  "bf_Int x = (case bf_val x of
     BZero _ \<Rightarrow> Some 0 | BFin q \<Rightarrow> Some (if q < 0 then - \<lfloor>- q\<rfloor> else \<lfloor>q\<rfloor>) | BInf _ \<Rightarrow> None)"

fun bv_ord :: "big_val \<Rightarrow> int" where
  "bv_ord (BZero n) = 0"
| "bv_ord (BFin q) = (if q < 0 then - 1 else 1)"
| "bv_ord (BInf n) = (if n then - 2 else 2)"

definition bv_Cmp :: "big_val \<Rightarrow> big_val \<Rightarrow> int" where
  "bv_Cmp x y =
     (if bv_ord x < bv_ord y then - 1 else if bv_ord y < bv_ord x then 1
      else case (x, y) of (BFin a, BFin b) \<Rightarrow> if a < b then - 1 else if b < a then 1 else 0 | _ \<Rightarrow> 0)"

section \<open>The functions of the package\<close>

definition Min :: "int list \<Rightarrow> int res" where
  "Min vals = (case vals of
     [] \<Rightarrow> Inl (Panic ''cannot find minimum of empty slice'')
   | v # vs \<Rightarrow> Inr (fold (\<lambda>val minimum. if val < minimum then val else minimum) vs v))"

definition Max :: "int list \<Rightarrow> int res" where
  "Max vals = (case vals of
     [] \<Rightarrow> Inl (Panic ''cannot find maximum of empty slice'')
   | v # vs \<Rightarrow> Inr (fold (\<lambda>val maximum. if maximum < val then val else maximum) vs v))"

definition Abs :: "i64 \<Rightarrow> i64" where
  "Abs val = (if sint val < 0 then - val else val)"

text \<open>\<open>big.Int.Exp\<close> with base ten and no modulus: one for an exponent that is not positive.\<close>

definition exp10 :: "int \<Rightarrow> int" where
  "exp10 y = (if y \<le> 0 then 1 else 10 ^ nat y)"

text \<open>The decimals are converted to \<open>int64\<close>. \<open>f.Mul(f, factor)\<close> keeps the precision of \<open>f\<close>.\<close>

definition ScaleBigFloat :: "big_float \<Rightarrow> u64 \<Rightarrow> big_float res" where
  "ScaleBigFloat f decimals = bf_Mul (bf_prec f) f (bf_SetInt (exp10 (sint decimals)))"

text \<open>An infinity leaves the new \<open>big.Int\<close> as it is, zero.\<close>

definition BigFloatToBigInt :: "big_float \<Rightarrow> u64 \<Rightarrow> int res" where
  "BigFloatToBigInt f decimals =
     bind_res (bf_Mul (bf_prec f) f (bf_SetInt (exp10 (sint decimals)))) (\<lambda>g.
     Inr (case bf_Int g of None \<Rightarrow> 0 | Some n \<Rightarrow> n))"

text \<open>
  \<open>sort.SliceStable\<close> with a \<open>less\<close> that also answers true on equal values, as insertion sort on a
  prefix kept reversed. The algorithm only matters for the order of equal values.
\<close>

definition float_less :: "big_float \<Rightarrow> big_float \<Rightarrow> bool" where
  "float_less a b = (bv_Cmp (bf_val a) (bf_val b) \<noteq> 1)"

fun insert_float :: "big_float \<Rightarrow> big_float list \<Rightarrow> big_float list" where
  "insert_float x [] = [x]"
| "insert_float x (y # ys) = (if float_less x y then y # insert_float x ys else x # y # ys)"

definition SortBigFloats :: "big_float list \<Rightarrow> big_float list" where
  "SortBigFloats values = rev (fold insert_float values [])"

definition CalculateMedian :: "big_float list \<Rightarrow> big_float option res" where
  "CalculateMedian values0 =
     (if values0 = [] then Inr None
      else
        let values = SortBigFloats values0; middleIndex = length values div 2 in
        if length values mod 2 = 0
          then bind_res (bf_Add 0 (values ! (middleIndex - 1)) (values ! middleIndex)) (\<lambda>median.
               bind_res (bf_Quo (bf_prec median) median bf_two) (\<lambda>m. Inr (Some m)))
        else Inr (Some (values ! middleIndex)))"

definition GetScalingFactor :: "i64 \<Rightarrow> i64 \<Rightarrow> big_float res" where
  "GetScalingFactor a b =
     (let decimalDiff = a - b; e = bf_SetInt (exp10 (sint (Abs decimalDiff))) in
      if 0 < sint decimalDiff then Inr e else bf_Quo 0 bf_one e)"

end
