(* ===== verification/Float_Facts.thy ===== *)
theory Float_Facts
  imports Big_Float
begin

text \<open>
  The rounding of \<open>big.Float\<close>: exponents, monotonicity, values a precision represents exactly, the
  error; then the operations on positive values with bounded exponents (\<open>priced K\<close>), where nothing
  overflows or panics, and the median of such values.
\<close>

section \<open>Exponents\<close>

lemma BitLen_bounds: "0 < n \<Longrightarrow> 2 ^ (BitLen n - 1) \<le> n \<and> n < 2 ^ BitLen n"
proof (induction n rule: BitLen.induct)
  case (1 n)
  show ?case
  proof (cases "n = 1")
    case True
    then show ?thesis by (simp add: BitLen.simps)
  next
    case False
    with 1 have ih: "2 ^ (BitLen (n div 2) - 1) \<le> n div 2" "n div 2 < 2 ^ BitLen (n div 2)"
      by simp_all
    have "0 < n div 2" using 1 False by simp
    then have pos: "0 < BitLen (n div 2)" by (simp add: BitLen.simps)
    have b: "BitLen n = Suc (BitLen (n div 2))" using 1 by (simp add: BitLen.simps)
    obtain k where k: "BitLen (n div 2) = Suc k" using pos by (cases "BitLen (n div 2)") auto
    from ih show ?thesis unfolding b k by simp linarith
  qed
qed

lemma BitLen_pos: "0 < n \<Longrightarrow> 0 < BitLen n"
  by (simp add: BitLen.simps)

lemma BitLen_powi:
  assumes "0 < n"
  shows "(2::rat) powi (int (BitLen n) - 1) \<le> of_int n" "of_int n < (2::rat) powi int (BitLen n)"
proof -
  have e: "int (BitLen n) - 1 = int (BitLen n - 1)" using BitLen_pos [OF assms] by simp
  have "(of_int (2 ^ (BitLen n - 1)) :: rat) \<le> of_int n" "(of_int n :: rat) < of_int (2 ^ BitLen n)"
    using BitLen_bounds [OF assms] by (simp_all only: of_int_le_iff of_int_less_iff)
  then show "(2::rat) powi (int (BitLen n) - 1) \<le> of_int n" "of_int n < (2::rat) powi int (BitLen n)"
    unfolding e by (simp_all add: power_int_of_nat)
qed

lemma bf_exp_bounds:
  assumes "q \<noteq> 0"
  shows "2 powi (bf_exp q - 1) \<le> \<bar>q\<bar>" "\<bar>q\<bar> < 2 powi bf_exp q"
proof -
  obtain a b where ab: "quotient_of \<bar>q\<bar> = (a, b)" by fastforce
  have b: "0 < b" using quotient_of_denom_pos [OF ab] .
  have q: "\<bar>q\<bar> = of_int a / of_int b" using quotient_of_div [OF ab] .
  have "0 < \<bar>q\<bar>" using assms by simp
  then have a: "0 < a" using b unfolding q by (simp add: zero_less_divide_iff)
  have two_ne: "(2::rat) powi (m - n) = 2 powi m / 2 powi n" for m n by (rule power_int_diff) simp
  define d where "d = int (BitLen a) - int (BitLen b)"
  have "\<bar>q\<bar> < 2 powi int (BitLen a) / 2 powi (int (BitLen b) - 1)"
    unfolding q using BitLen_powi [OF a] BitLen_powi [OF b] a b
    by (intro frac_less) (auto simp: order_less_imp_le)
  also have "\<dots> = 2 powi (int (BitLen a) - (int (BitLen b) - 1))"
    by (rule power_int_diff [symmetric]) simp
  also have "int (BitLen a) - (int (BitLen b) - 1) = d + 1" by (simp add: d_def)
  finally have up: "\<bar>q\<bar> < 2 powi (d + 1)" .
  have "2 powi (int (BitLen a) - 1 - int (BitLen b)) < \<bar>q\<bar>"
    unfolding two_ne [of "int (BitLen a) - 1"] q by (intro frac_less2 BitLen_powi [OF a] BitLen_powi [OF b]) (simp_all add: b)
  moreover have "int (BitLen a) - 1 - int (BitLen b) = d - 1" by (simp add: d_def)
  ultimately have lo: "2 powi (d - 1) < \<bar>q\<bar>" by simp
  have e: "bf_exp q = (if \<bar>q\<bar> < 2 powi d then d else d + 1)"
    by (simp add: bf_exp_def ab d_def Let_def)
  show "2 powi (bf_exp q - 1) \<le> \<bar>q\<bar>" "\<bar>q\<bar> < 2 powi bf_exp q"
    using up lo unfolding e by (auto split: if_splits)
qed
lemma powi_less_iff: "(2::rat) powi a < 2 powi b \<longleftrightarrow> a < b"
  by (metis linorder_not_less order_less_irrefl power_int_increasing power_int_strict_increasing one_less_numeral_iff semiring_norm(76) order_less_imp_le)

lemma bf_exp_unique:
  assumes "2 powi (e - 1) \<le> \<bar>q\<bar>" "\<bar>q\<bar> < 2 powi e"
  shows "bf_exp q = e"
proof -
  have "0 < \<bar>q\<bar>" using assms(1) by (rule order.strict_trans2 [rotated]) simp
  then have q: "q \<noteq> 0" by simp
  note b = bf_exp_bounds [OF q]
  have "2 powi (e - 1) < (2::rat) powi bf_exp q" "2 powi (bf_exp q - 1) < (2::rat) powi e"
    using assms b by linarith+
  then show ?thesis by (simp add: powi_less_iff)
qed

lemma bf_exp_mono:
  assumes "0 < q" "q \<le> r"
  shows "bf_exp q \<le> bf_exp r"
proof -
  have "q \<noteq> 0" "r \<noteq> 0" using assms by simp_all
  then have "2 powi (bf_exp q - 1) \<le> \<bar>q\<bar>" "\<bar>r\<bar> < 2 powi bf_exp r"
    using bf_exp_bounds by blast+
  then have "2 powi (bf_exp q - 1) < (2::rat) powi bf_exp r" using assms by linarith
  then show ?thesis by (simp add: powi_less_iff)
qed

section \<open>Rounding is monotone, exact where it can be, and close\<close>

lemma half_even_of_int [simp]: "half_even (of_int n) = n"
  by (simp add: half_even_def)

lemma half_even_error: "\<bar>of_int (half_even x) - x\<bar> \<le> 1 / 2"
proof -
  have "of_int \<lfloor>x\<rfloor> \<le> x" "x < of_int \<lfloor>x\<rfloor> + 1" by linarith+
  then show ?thesis by (auto simp: half_even_def Let_def abs_le_iff)
qed

lemma half_even_mono:
  assumes "x \<le> y"
  shows "half_even x \<le> half_even y"
proof -
  have *: "\<lfloor>x\<rfloor> \<le> half_even x" "half_even x \<le> \<lfloor>x\<rfloor> + 1" for x
    by (auto simp: half_even_def Let_def)
  have "\<lfloor>x\<rfloor> \<le> \<lfloor>y\<rfloor>" using assms by (rule floor_mono)
  moreover have ?thesis if "\<lfloor>x\<rfloor> = \<lfloor>y\<rfloor>"
    using assms that by (auto simp: half_even_def Let_def)
  moreover have ?thesis if "\<lfloor>x\<rfloor> < \<lfloor>y\<rfloor>"
    using that *(2) [of x] *(1) [of y] by linarith
  ultimately show ?thesis by linarith
qed

definition scaled :: "nat \<Rightarrow> rat \<Rightarrow> rat" where
  "scaled p q = q * 2 powi (int p - bf_exp q)"

lemma rnd_scaled: "rnd p q = of_int (half_even (scaled p q)) * 2 powi (bf_exp q - int p)"
  by (simp add: rnd_def scaled_def)

lemma powi_cancel: "(2::rat) powi (a - b) * 2 powi (b - a) = 1"
  by (simp flip: power_int_add)

lemma scaled_back: "scaled p q * 2 powi (bf_exp q - int p) = q"
  using powi_cancel [of "int p" "bf_exp q"] by (simp add: scaled_def mult.assoc)

lemma scaled_bounds:
  assumes "0 < q" "0 < p"
  shows "2 ^ (p - 1) \<le> scaled p q" "scaled p q < 2 ^ p"
proof -
  have q: "2 powi (bf_exp q - 1) \<le> q" "q < 2 powi bf_exp q"
    using bf_exp_bounds [of q] assms by simp_all
  have "2 powi (bf_exp q - 1) * 2 powi (int p - bf_exp q) \<le> scaled p q"
    unfolding scaled_def using q by (intro mult_right_mono) simp_all
  moreover have "(2::rat) powi (bf_exp q - 1) * 2 powi (int p - bf_exp q) = 2 powi int (p - 1)"
    using assms by (simp flip: power_int_add power_int_of_nat)
  ultimately show "2 ^ (p - 1) \<le> scaled p q" by simp
  have "scaled p q < 2 powi bf_exp q * 2 powi (int p - bf_exp q)"
    unfolding scaled_def using q by (intro mult_strict_right_mono) simp_all
  moreover have "(2::rat) powi bf_exp q * 2 powi (int p - bf_exp q) = 2 powi int p"
    by (simp flip: power_int_add power_int_of_nat)
  ultimately show "scaled p q < 2 ^ p" by simp
qed

lemma rnd_binade:
  assumes "0 < q" "0 < p"
  shows "2 powi (bf_exp q - 1) \<le> rnd p q" "rnd p q \<le> 2 powi bf_exp q"
proof -
  have "half_even (of_int (2 ^ (p - 1))) \<le> half_even (scaled p q)"
    "half_even (scaled p q) \<le> half_even (of_int (2 ^ p))"
    using scaled_bounds [OF assms] by (intro half_even_mono; simp)+
  then have h: "2 ^ (p - 1) \<le> half_even (scaled p q)" "half_even (scaled p q) \<le> 2 ^ p"
    by (simp_all only: half_even_of_int)
  have "(2::rat) ^ (p - 1) \<le> of_int (half_even (scaled p q))" "of_int (half_even (scaled p q)) \<le> (2::rat) ^ p"
    using h by (metis of_int_le_iff of_int_numeral of_int_power)+
  then have "2 ^ (p - 1) * 2 powi (bf_exp q - int p) \<le> rnd p q"
    "rnd p q \<le> 2 ^ p * 2 powi (bf_exp q - int p)"
    unfolding rnd_scaled by (intro mult_right_mono; simp)+
  moreover have "(2::rat) ^ (p - 1) * 2 powi (bf_exp q - int p) = 2 powi (bf_exp q - 1)"
    "(2::rat) ^ p * 2 powi (bf_exp q - int p) = 2 powi bf_exp q"
    using assms by (simp_all flip: power_int_add power_int_of_nat)
  ultimately show "2 powi (bf_exp q - 1) \<le> rnd p q" "rnd p q \<le> 2 powi bf_exp q" by simp_all
qed

lemma rnd_pos: "0 < q \<Longrightarrow> 0 < p \<Longrightarrow> 0 < rnd p q"
  using rnd_binade(1) [of q p] by (rule order.strict_trans2 [rotated]) simp_all

lemma rnd_mono:
  assumes "0 < q" "q \<le> r" "0 < p"
  shows "rnd p q \<le> rnd p r"
proof (cases "bf_exp q = bf_exp r")
  case True
  then have "scaled p q \<le> scaled p r" using assms by (simp add: scaled_def)
  then show ?thesis
    unfolding rnd_scaled True by (intro mult_right_mono) (simp_all add: half_even_mono)
next
  case False
  then have "bf_exp q \<le> bf_exp r - 1" using bf_exp_mono [OF assms(1,2)] by simp
  then have "(2::rat) powi bf_exp q \<le> 2 powi (bf_exp r - 1)" by (intro power_int_increasing) simp_all
  moreover have "0 < r" using assms by linarith
  ultimately show ?thesis
    using rnd_binade(2) [OF assms(1,3)] rnd_binade(1) [of r p] assms(3) by linarith
qed

definition fits :: "nat \<Rightarrow> rat \<Rightarrow> bool" where
  "fits p q \<longleftrightarrow> scaled p q \<in> \<int>"

lemma rnd_fits:
  assumes "fits p q"
  shows "rnd p q = q"
proof -
  obtain n where n: "scaled p q = of_int n" using assms by (auto simp: fits_def elim: Ints_cases)
  have "rnd p q = of_int n * 2 powi (bf_exp q - int p)" by (simp add: rnd_scaled n)
  also have "\<dots> = q" unfolding n [symmetric] by (rule scaled_back)
  finally show ?thesis .
qed

lemma fits_mono:
  assumes "fits p q" "p \<le> p'"
  shows "fits p' q"
proof -
  have "scaled p' q = scaled p q * 2 ^ (p' - p)"
    using assms(2) by (simp add: scaled_def mult.assoc flip: power_int_add power_int_of_nat)
  then show ?thesis using assms(1) by (simp add: fits_def)
qed

lemma bf_exp_shift: "q \<noteq> 0 \<Longrightarrow> bf_exp (q * 2 powi k) = bf_exp q + k"
proof (rule bf_exp_unique)
  assume q: "q \<noteq> 0"
  note b = bf_exp_bounds [OF q]
  have "2 powi (bf_exp q - 1) * 2 powi k \<le> \<bar>q\<bar> * 2 powi k" "\<bar>q\<bar> * 2 powi k < 2 powi bf_exp q * 2 powi k"
    using b by (intro mult_right_mono mult_strict_right_mono; simp)+
  moreover have "(2::rat) powi (bf_exp q - 1) * 2 powi k = 2 powi (bf_exp q + k - 1)"
    "(2::rat) powi bf_exp q * 2 powi k = 2 powi (bf_exp q + k)"
    by (simp_all add: algebra_simps flip: power_int_add)
  ultimately show "2 powi (bf_exp q + k - 1) \<le> \<bar>q * 2 powi k\<bar>" "\<bar>q * 2 powi k\<bar> < 2 powi (bf_exp q + k)"
    by (simp_all add: abs_mult)
qed

lemma fits_shift: "q \<noteq> 0 \<Longrightarrow> fits p (q * 2 powi k) \<longleftrightarrow> fits p q"
proof -
  assume q: "q \<noteq> 0"
  have e: "(2::rat) powi k * 2 powi (int p - (bf_exp q + k)) = 2 powi (int p - bf_exp q)"
    by (simp flip: power_int_add)
  have "scaled p (q * 2 powi k) = q * (2 powi k * 2 powi (int p - (bf_exp q + k)))"
    unfolding scaled_def bf_exp_shift [OF q] by (rule mult.assoc)
  then have "scaled p (q * 2 powi k) = scaled p q" unfolding e by (simp only: scaled_def)
  then show ?thesis by (simp only: fits_def)
qed

lemma fits_rnd:
  assumes "0 < q" "0 < p"
  shows "fits p (rnd p q)"
proof (cases "rnd p q = 2 powi bf_exp q")
  case True
  have "bf_exp (1::rat) = 1" by (rule bf_exp_unique) simp_all
  then have "scaled p 1 = 2 ^ (p - 1)"
    using assms(2) by (simp add: scaled_def flip: power_int_of_nat)
  then have "fits p 1" by (simp add: fits_def)
  then have "fits p (1 * 2 powi bf_exp q)" by (subst fits_shift) simp_all
  then show ?thesis by (simp add: True)
next
  case False
  with rnd_binade [OF assms] have b: "2 powi (bf_exp q - 1) \<le> rnd p q" "rnd p q < 2 powi bf_exp q"
    by simp_all
  have "\<bar>rnd p q\<bar> = rnd p q" using rnd_pos [OF assms] by simp
  then have "bf_exp (rnd p q) = bf_exp q" using b by (intro bf_exp_unique) simp_all
  then have "scaled p (rnd p q) = of_int (half_even (scaled p q)) * (2 powi (bf_exp q - int p) * 2 powi (int p - bf_exp q))"
    by (simp add: scaled_def [of p "rnd p q"]) (simp add: rnd_scaled)
  then have "scaled p (rnd p q) = of_int (half_even (scaled p q))"
    by (simp add: powi_cancel)
  then show ?thesis by (simp add: fits_def)
qed

lemma rnd_error: "\<bar>rnd p q - q\<bar> \<le> 2 powi (bf_exp q - int p) / 2"
proof -
  have "rnd p q - q = (of_int (half_even (scaled p q)) - scaled p q) * 2 powi (bf_exp q - int p)"
    using scaled_back [of p q] by (simp add: rnd_scaled left_diff_distrib)
  then have "\<bar>rnd p q - q\<bar> = \<bar>of_int (half_even (scaled p q)) - scaled p q\<bar> * 2 powi (bf_exp q - int p)"
    by (simp add: abs_mult)
  also have "\<dots> \<le> 1 / 2 * 2 powi (bf_exp q - int p)"
    by (intro mult_right_mono half_even_error) simp
  finally show ?thesis by simp
qed

section \<open>Finite positive values\<close>

fun fin :: "big_val \<Rightarrow> rat" where
  "fin (BFin q) = q"
| "fin _ = 0"

abbreviation fval :: "big_float \<Rightarrow> rat" where
  "fval x \<equiv> fin (bf_val x)"

lemma rnd_relative:
  assumes "0 < q"
  shows "\<bar>rnd p q - q\<bar> \<le> q / 2 ^ p"
proof -
  have "(2::rat) powi (bf_exp q - int p) / 2 = 2 powi (bf_exp q - 1) / 2 ^ p"
    by (simp add: power_int_diff)
  also have "\<dots> \<le> q / 2 ^ p" using bf_exp_bounds(1) [of q] assms by (intro divide_right_mono) simp_all
  finally show ?thesis using rnd_error [of p q] by linarith
qed

definition priced :: "nat \<Rightarrow> big_float \<Rightarrow> bool" where
  "priced K x \<longleftrightarrow> bf_val x = BFin (fval x) \<and> 0 < fval x \<and> 0 < bf_prec x \<and>
     fits (bf_prec x) (fval x) \<and> \<bar>bf_exp (fval x)\<bar> \<le> int K"

lemma pricedD:
  assumes "priced K x"
  shows "bf_val x = BFin (fval x)" "0 < fval x" "0 < bf_prec x" "fits (bf_prec x) (fval x)"
    "\<bar>bf_exp (fval x)\<bar> \<le> int K"
  using assms by (simp_all add: priced_def)

lemma bf_exp_rnd:
  assumes "0 < q" "0 < p"
  shows "bf_exp q \<le> bf_exp (rnd p q)" "bf_exp (rnd p q) \<le> bf_exp q + 1"
proof -
  note b = rnd_binade [OF assms]
  note r = rnd_pos [OF assms]
  have lt: "(2::rat) powi bf_exp q < 2 powi (bf_exp q + 1)"
    unfolding powi_less_iff by simp
  have "2 powi (bf_exp (rnd p q) - 1) \<le> rnd p q" "rnd p q < 2 powi bf_exp (rnd p q)"
    using bf_exp_bounds [of "rnd p q"] r by simp_all
  then have "2 powi (bf_exp q - 1) < (2::rat) powi bf_exp (rnd p q)"
    "(2::rat) powi (bf_exp (rnd p q) - 1) < 2 powi (bf_exp q + 1)"
    using b lt by linarith+
  then show "bf_exp q \<le> bf_exp (rnd p q)" "bf_exp (rnd p q) \<le> bf_exp q + 1"
    by (simp_all add: powi_less_iff)
qed

lemma round_in_range:
  assumes "0 < q" "0 < p" "\<bar>bf_exp q\<bar> < int K" "K \<le> 2147483647"
  shows "setExpAndRound p q = BFin (rnd p q)" "priced K \<lparr>bf_prec = p, bf_val = setExpAndRound p q\<rparr>"
proof -
  have e: "\<bar>bf_exp (rnd p q)\<bar> \<le> int K" using bf_exp_rnd [OF assms(1,2)] assms(3) by linarith
  then show v: "setExpAndRound p q = BFin (rnd p q)"
    using assms by (auto simp: setExpAndRound_def Let_def MinExp_def MaxExp_def)
  show "priced K \<lparr>bf_prec = p, bf_val = setExpAndRound p q\<rparr>"
    using e rnd_pos [OF assms(1,2)] fits_rnd [OF assms(1,2)] assms(2) by (simp add: v priced_def)
qed

lemma bf_exp_mult:
  assumes "0 < a" "0 < b"
  shows "bf_exp a + bf_exp b - 1 \<le> bf_exp (a * b)" "bf_exp (a * b) \<le> bf_exp a + bf_exp b"
proof -
  have ab: "2 powi (bf_exp a - 1) \<le> a" "a < 2 powi bf_exp a" "2 powi (bf_exp b - 1) \<le> b" "b < 2 powi bf_exp b"
    using bf_exp_bounds [of a] bf_exp_bounds [of b] assms by simp_all
  have m: "2 powi (bf_exp (a * b) - 1) \<le> a * b" "a * b < 2 powi bf_exp (a * b)"
    using bf_exp_bounds [of "a * b"] assms by simp_all
  have "2 powi (bf_exp a - 1) * 2 powi (bf_exp b - 1) \<le> a * b" "a * b < 2 powi bf_exp a * 2 powi bf_exp b"
    using ab assms by (intro mult_mono mult_strict_mono; simp)+
  then have "2 powi (bf_exp a + bf_exp b - 2) \<le> a * b" "a * b < 2 powi (bf_exp a + bf_exp b)"
    by (simp_all flip: power_int_add add: algebra_simps)
  with m have "2 powi (bf_exp a + bf_exp b - 2) < (2::rat) powi bf_exp (a * b)"
    "(2::rat) powi (bf_exp (a * b) - 1) < 2 powi (bf_exp a + bf_exp b)" by linarith+
  then show "bf_exp a + bf_exp b - 1 \<le> bf_exp (a * b)" "bf_exp (a * b) \<le> bf_exp a + bf_exp b"
    by (simp_all add: powi_less_iff)
qed

lemma fits_max: "priced K x \<Longrightarrow> bf_prec x \<le> p \<Longrightarrow> fits p (fval x)"
  using fits_mono pricedD(4) by blast

lemma Mul_priced:
  assumes x: "priced K x" and y: "priced L y" and z: "0 < op_prec z x y" and K: "K + L + 2 \<le> 2147483647"
  shows "\<exists>r. bf_Mul z x y = Inr r \<and> priced (K + L + 2) r \<and> bf_prec r = op_prec z x y \<and>
    fval r = rnd (op_prec z x y) (fval x * fval y)"
proof -
  note px = pricedD [OF x] and py = pricedD [OF y]
  have e: "\<bar>bf_exp (fval x * fval y)\<bar> < int (K + L + 2)"
    using bf_exp_mult [OF px(2) py(2)] px(5) py(5) by linarith
  have q: "0 < fval x * fval y" using px py by simp
  note r = round_in_range [OF q z e K]
  have v: "mul_val (op_prec z x y) (bf_val x) (bf_val y) = Inr (setExpAndRound (op_prec z x y) (fval x * fval y))"
    by (subst px(1), subst py(1)) simp
  show ?thesis using r by (simp add: bf_Mul_def v)
qed

lemma powi_shift_half: "q * 2 powi (- 1) = q / (2::rat)" "q * 2 powi 1 = 2 * (q::rat)"
  by simp_all

lemma inverse_exp:
  assumes "0 < a"
  shows "1 - bf_exp a \<le> bf_exp (1 / a)" "bf_exp (1 / a) \<le> 2 - bf_exp a"
proof -
  have "bf_exp (1::rat) = 1" by (rule bf_exp_unique) simp_all
  moreover have "a * (1 / a) = 1" "0 < 1 / a" using assms by simp_all
  ultimately show "1 - bf_exp a \<le> bf_exp (1 / a)" "bf_exp (1 / a) \<le> 2 - bf_exp a"
    using bf_exp_mult [of a "1 / a"] assms by simp_all
qed

lemma Quo_priced:
  assumes x: "priced K x" and K: "K + 3 \<le> 2147483647"
  shows "\<exists>r. bf_Quo 0 bf_one x = Inr r \<and> priced (K + 3) r \<and> bf_prec r = max 53 (bf_prec x) \<and>
    fval r = rnd (max 53 (bf_prec x)) (1 / fval x)"
proof -
  note px = pricedD [OF x]
  have e: "\<bar>bf_exp (1 / fval x)\<bar> < int (K + 3)"
    using inverse_exp [OF px(2)] px(5) by linarith
  have q: "0 < 1 / fval x" and p: "0 < max 53 (bf_prec x)" using px by simp_all
  note r = round_in_range [OF q p e K]
  have v: "quo_val m (bf_val bf_one) (bf_val x) = Inr (setExpAndRound m (1 / fval x))" for m
    by (subst px(1)) (simp add: bf_one_def)
  show ?thesis using r by (simp add: bf_Quo_def v op_prec_def) (simp add: bf_one_def)
qed

lemma average_priced:
  assumes x: "priced K x" and y: "priced K y" and le: "fval x \<le> fval y" and K: "K + 3 \<le> 2147483647"
  shows "\<exists>s m. bf_Add 0 x y = Inr s \<and> bf_Quo (bf_prec s) s bf_two = Inr m \<and> priced (K + 3) m \<and>
    bf_prec m = max (bf_prec x) (bf_prec y) \<and> fval m = rnd (max (bf_prec x) (bf_prec y)) (fval x + fval y) / 2 \<and>
    fval x \<le> fval m \<and> fval m \<le> fval y"
proof -
  define p where "p = max (bf_prec x) (bf_prec y)"
  define a where "a = fval x" define b where "b = fval y"
  note px = pricedD [OF x, folded a_def] and py = pricedD [OF y, folded b_def]
  have p: "0 < p" using px by (simp add: p_def)
  have ab: "0 < a + b" "a \<le> a + b" "a + b \<le> b * 2 powi 1" "2 * a \<le> a + b" using px py le by (simp_all add: a_def b_def)
  have "bf_exp a \<le> bf_exp (a + b)" "bf_exp (a + b) \<le> bf_exp b + 1"
    using bf_exp_mono [OF px(2) ab(2)] bf_exp_mono [OF ab(1,3)] bf_exp_shift [of b 1] py(2) by simp_all
  then have e: "\<bar>bf_exp (a + b)\<bar> < int (K + 2)" using px(5) py(5) by linarith
  define s where "s = rnd p (a + b)"
  have s: "setExpAndRound p (a + b) = BFin s" "priced (K + 2) \<lparr>bf_prec = p, bf_val = BFin s\<rparr>"
    using round_in_range [OF ab(1) p e] K by (simp_all add: s_def)
  have f: "fits p a" "fits p b" using fits_max [OF x, of p] fits_max [OF y, of p] by (simp_all add: p_def a_def b_def)
  have two: "fits p (2 * a)" "fits p (2 * b)"
    using fits_shift [of a p 1] fits_shift [of b p 1] f px(2) py(2) by (simp_all add: mult.commute)
  have "rnd p (2 * a) \<le> s" "s \<le> rnd p (2 * b)"
    unfolding s_def using ab px(2) p by (intro rnd_mono; simp)+
  then have bounds: "2 * a \<le> s" "s \<le> 2 * b" using two by (simp_all add: rnd_fits)
  have sp: "0 < s" "fits p s" "\<bar>bf_exp s\<bar> \<le> int (K + 2)" using pricedD [OF s(2)] by simp_all
  have half: "bf_exp (s / 2) = bf_exp s - 1" "fits p (s / 2)"
    using bf_exp_shift [of s "- 1"] fits_shift [of s p "- 1"] sp by simp_all
  have e': "\<bar>bf_exp (s / 2)\<bar> \<le> int (K + 3)" using half(1) sp(3) by linarith
  have m: "setExpAndRound p (s / 2) = BFin (s / 2)"
    unfolding setExpAndRound_def Let_def rnd_fits [OF half(2)]
    using e' K sp(1) by (auto simp: MinExp_def MaxExp_def)
  have add: "bf_Add 0 x y = Inr \<lparr>bf_prec = p, bf_val = BFin s\<rparr>"
    using s(1) px(1) py(1) by (simp add: bf_Add_def add_val_def op_prec_def p_def)
  have quo: "bf_Quo p \<lparr>bf_prec = p, bf_val = BFin s\<rparr> bf_two = Inr \<lparr>bf_prec = p, bf_val = BFin (s / 2)\<rparr>"
    using p m by (simp add: bf_Quo_def op_prec_def bf_two_def)
  have pr: "priced (K + 3) \<lparr>bf_prec = p, bf_val = BFin (s / 2)\<rparr>"
    using e' half(2) sp(1) p by (simp add: priced_def)
  show ?thesis
    using add quo pr bounds by (intro exI [of _ "\<lparr>bf_prec = p, bf_val = BFin s\<rparr>"] exI [of _ "\<lparr>bf_prec = p, bf_val = BFin (s / 2)\<rparr>"])
      (simp add: p_def [symmetric] a_def [symmetric] b_def [symmetric] s_def [symmetric])
qed

section \<open>Sorting and the median\<close>

lemma mset_insert_float [simp]: "mset (insert_float x ys) = add_mset x (mset ys)"
  by (induction ys) auto

lemma mset_SortBigFloats [simp]: "mset (SortBigFloats xs) = mset xs"
proof -
  have "mset (fold insert_float xs ys) = mset xs + mset ys" for ys
    by (induction xs arbitrary: ys) simp_all
  then show ?thesis by (simp add: SortBigFloats_def)
qed

lemma set_SortBigFloats [simp]: "set (SortBigFloats xs) = set xs"
  using mset_SortBigFloats mset_eq_setD by blast

lemma length_SortBigFloats [simp]: "length (SortBigFloats xs) = length xs"
  using mset_SortBigFloats mset_eq_length by blast

lemma float_less_priced:
  assumes "priced K x" "priced K y"
  shows "float_less x y \<longleftrightarrow> fval x \<le> fval y"
proof -
  obtain a b where ab: "bf_val x = BFin a" "bf_val y = BFin b" "0 < a" "0 < b"
    using pricedD [OF assms(1)] pricedD [OF assms(2)] by metis
  then show ?thesis by (simp add: float_less_def bv_Cmp_def)
qed

lemma sorted_insert_float:
  assumes "priced K x" "\<forall>y \<in> set ys. priced K y" "sorted_wrt (\<lambda>a b. fval b \<le> fval a) ys"
  shows "sorted_wrt (\<lambda>a b. fval b \<le> fval a) (insert_float x ys)"
  using assms(2,3)
proof (induction ys)
  case (Cons y ys)
  have y: "float_less x y \<longleftrightarrow> fval x \<le> fval y" using assms(1) Cons.prems by (simp add: float_less_priced)
  have "set (insert_float x ys) = insert x (set ys)"
    by (metis mset_insert_float set_mset_add_mset_insert set_mset_mset)
  then show ?case using Cons y by auto
qed simp

lemma sorted_SortBigFloats:
  assumes "\<forall>x \<in> set xs. priced K x"
  shows "sorted (map fval (SortBigFloats xs))"
proof -
  have "sorted_wrt (\<lambda>a b. fval b \<le> fval a) (fold insert_float xs ys)"
    if "sorted_wrt (\<lambda>a b. fval b \<le> fval a) ys" "\<forall>x \<in> set ys. priced K x" for ys
    using assms that
  proof (induction xs arbitrary: ys)
    case (Cons x xs)
    have "set (insert_float x ys) = insert x (set ys)"
      by (metis mset_insert_float set_mset_add_mset_insert set_mset_mset)
    moreover have "sorted_wrt (\<lambda>a b. fval b \<le> fval a) (insert_float x ys)"
      using Cons.prems by (intro sorted_insert_float) simp_all
    ultimately show ?case using Cons.prems by (simp add: Cons.IH)
  qed simp
  from this [of "[]"] have "sorted_wrt (\<lambda>a b. fval a \<le> fval b) (SortBigFloats xs)"
    by (simp add: SortBigFloats_def sorted_wrt_rev)
  then show ?thesis by (simp add: sorted_map)
qed

text \<open>In a sorted list a middle element lies in every interval that holds more than half of the elements.\<close>

lemma middle_in_interval:
  assumes "sorted xs" "length xs < 2 * length (filter (\<lambda>x. l \<le> x \<and> x \<le> u) xs)"
    "i < length xs" "length xs \<le> 2 * (i + 1)" "2 * i \<le> length (xs :: 'a :: linorder list)"
  shows "l \<le> xs ! i" "xs ! i \<le> u"
proof -
  let ?P = "\<lambda>x. l \<le> x \<and> x \<le> u"
  have split: "length (filter ?P xs) = length (filter ?P (take k xs)) + length (filter ?P (drop k xs))" for k
    by (metis append_take_drop_id filter_append length_append)
  show "l \<le> xs ! i"
  proof (rule ccontr)
    assume "\<not> l \<le> xs ! i"
    moreover have "x \<le> xs ! i" if "x \<in> set (take (i + 1) xs)" for x
      using that assms(1,3) by (auto simp: in_set_conv_nth less_Suc_eq_le intro!: sorted_nth_mono)
    ultimately have "\<forall>x \<in> set (take (i + 1) xs). \<not> ?P x" by (meson order.trans)
    then have "filter ?P (take (i + 1) xs) = []" by (simp add: filter_empty_conv)
    then have "length (filter ?P xs) + (i + 1) \<le> length xs"
      using split [of "i + 1"] length_filter_le [of ?P "drop (i + 1) xs"] assms(3) by simp
    then show False using assms(2-5) by simp
  qed
  show "xs ! i \<le> u"
  proof (rule ccontr)
    assume "\<not> xs ! i \<le> u"
    moreover have "xs ! i \<le> x" if "x \<in> set (drop i xs)" for x
      using that assms(1,3) by (auto simp: in_set_conv_nth intro!: sorted_nth_mono)
    ultimately have "\<forall>x \<in> set (drop i xs). \<not> ?P x" by (meson order.trans)
    then have "filter ?P (drop i xs) = []" by (simp add: filter_empty_conv)
    then have "length (filter ?P xs) \<le> i"
      using split [of i] length_filter_le [of ?P "take i xs"] by simp
    then show False using assms(2-5) by simp
  qed
qed

text \<open>The median of positive finite values: its value, its precision, and the interval it stays in.\<close>

lemma CalculateMedian_priced:
  assumes xs: "xs \<noteq> []" "\<forall>x \<in> set xs. priced K x" and K: "K + 3 \<le> 2147483647"
  shows "\<exists>m. CalculateMedian xs = Inr (Some m) \<and> priced (K + 3) m \<and>
    (\<forall>l u. length xs < 2 * length (filter (\<lambda>x. l \<le> fval x \<and> fval x \<le> u) xs) \<longrightarrow> l \<le> fval m \<and> fval m \<le> u)"
proof -
  define ys where "ys = SortBigFloats xs"
  define i where "i = length xs div 2"
  have len: "length ys = length xs" "set ys = set xs" by (simp_all add: ys_def)
  have sorted: "sorted (map fval ys)" using xs(2) by (simp add: ys_def sorted_SortBigFloats)
  have i: "i < length xs" using xs by (simp add: i_def)
  have maj: "length (map fval ys) < 2 * length (filter (\<lambda>x. l \<le> x \<and> x \<le> u) (map fval ys))"
    if "length xs < 2 * length (filter (\<lambda>x. l \<le> fval x \<and> fval x \<le> u) xs)" for l u
  proof -
    have "length (filter (\<lambda>x. l \<le> fval x \<and> fval x \<le> u) ys) = length (filter (\<lambda>x. l \<le> fval x \<and> fval x \<le> u) xs)"
      by (rule mset_eq_length) (simp add: ys_def)
    with that show ?thesis by (simp add: len filter_map o_def)
  qed
  have inb: "l \<le> fval (ys ! j) \<and> fval (ys ! j) \<le> u"
    if "length xs < 2 * length (filter (\<lambda>x. l \<le> fval x \<and> fval x \<le> u) xs)"
      "j < length xs" "length xs \<le> 2 * (j + 1)" "2 * j \<le> length xs" for l u j
    using middle_in_interval [OF sorted maj [OF that(1)], of j] that len by simp
  have pr: "priced K (ys ! j)" if "j < length xs" for j
    using that xs(2) len by (metis nth_mem)
  show ?thesis
  proof (cases "even (length xs)")
    case False
    then have "CalculateMedian xs = Inr (Some (ys ! i))"
      using xs(1) by (simp add: CalculateMedian_def Let_def ys_def i_def even_iff_mod_2_eq_zero)
    moreover have "priced (K + 3) (ys ! i)" using pr [OF i] by (simp add: priced_def)
    moreover have "length xs \<le> 2 * (i + 1)" "2 * i \<le> length xs" by (simp_all add: i_def)
    ultimately show ?thesis using inb i by blast
  next
    case True
    then have n: "length xs = 2 * i" by (simp add: i_def)
    with xs(1) have "1 \<le> i" by (cases i) simp_all
    note n = n this
    have le: "fval (ys ! (i - 1)) \<le> fval (ys ! i)"
      using sorted_nth_mono [OF sorted, of "i - 1" i] n len by simp
    obtain s m where m: "bf_Add 0 (ys ! (i - 1)) (ys ! i) = Inr s" "bf_Quo (bf_prec s) s bf_two = Inr m"
      "priced (K + 3) m" "fval (ys ! (i - 1)) \<le> fval m" "fval m \<le> fval (ys ! i)"
    proof -
      have "i - 1 < length xs" "i < length xs" using n by simp_all
      then show thesis using average_priced [OF pr pr le K] that by blast
    qed
    have "CalculateMedian xs = Inr (Some m)"
      using xs(1) m n True by (simp add: CalculateMedian_def Let_def ys_def [symmetric] len)
    moreover have "l \<le> fval m \<and> fval m \<le> u"
      if "length xs < 2 * length (filter (\<lambda>x. l \<le> fval x \<and> fval x \<le> u) xs)" for l u
      using inb [OF that, of "i - 1"] inb [OF that, of i] n m by force
    ultimately show ?thesis using m(3) by blast
  qed
qed

section \<open>Powers of ten\<close>

lemma bf_exp_of_int: "0 < n \<Longrightarrow> bf_exp (of_int n) = int (BitLen n)"
  using BitLen_powi [of n] by (intro bf_exp_unique) simp_all

lemma BitLen_mono:
  assumes "0 < n" "n < 2 ^ k"
  shows "BitLen n \<le> k"
proof (rule ccontr)
  assume "\<not> BitLen n \<le> k"
  then have "(2::int) ^ k \<le> 2 ^ (BitLen n - 1)" by (intro power_increasing) simp_all
  with BitLen_bounds [OF assms(1)] assms(2) show False by linarith
qed

lemma SetInt_priced:
  assumes "0 < n" "n < 2 ^ k"
  shows "priced k (bf_SetInt n)" "fval (bf_SetInt n) = of_int n"
proof -
  let ?p = "max (BitLen n) 64"
  have "scaled ?p (of_int n) = of_int (n * 2 ^ (?p - BitLen n))"
    by (simp add: scaled_def bf_exp_of_int [OF assms(1)] flip: power_int_of_nat)
  then have "fits ?p (of_int n)" unfolding fits_def by (metis Ints_of_int)
  then show "priced k (bf_SetInt n)" "fval (bf_SetInt n) = of_int n"
    using assms BitLen_mono [OF assms] by (simp_all add: priced_def bf_SetInt_def bf_exp_of_int)
qed

lemma exp10_bound:
  assumes "d \<le> 36"
  shows "0 < exp10 d" "exp10 d < 2 ^ 120"
proof -
  have "(10::int) ^ nat d \<le> 10 ^ 36" using assms by (intro power_increasing) simp_all
  then show "0 < exp10 d" "exp10 d < 2 ^ 120" by (auto simp: exp10_def)
qed

text \<open>Scaling by at most 36 decimals, the maximum of a ticker: the product, rounded once.\<close>

lemma Scale_priced:
  assumes x: "priced K x" and d: "sint decimals \<le> 36" and K: "K + 122 \<le> 2147483647"
  shows "\<exists>r. ScaleBigFloat x decimals = Inr r \<and> priced (K + 122) r \<and> bf_prec r = bf_prec x \<and>
    fval r = rnd (bf_prec x) (fval x * of_int (exp10 (sint decimals)))"
proof -
  note ten = SetInt_priced [OF exp10_bound [OF d]]
  have p: "op_prec (bf_prec x) x (bf_SetInt (exp10 (sint decimals))) = bf_prec x"
    using pricedD(3) [OF x] by (simp add: op_prec_def)
  then have "0 < op_prec (bf_prec x) x (bf_SetInt (exp10 (sint decimals)))" using pricedD(3) [OF x] by simp
  from Mul_priced [OF x ten(1) this] K show ?thesis
    unfolding p ten(2) ScaleBigFloat_def by (simp add: add.commute)
qed

end
