(* ===== verification/Price_Interface.thy ===== *)
theory Price_Interface
  imports Prelude
begin

text \<open>
  The interface of the aggregator to the oracle (\<open>PriceAggregator\<close> in \<open>oracle/interfaces.go\<close>) as the laws a
  tick relies on: a reset forgets the prices of all providers, setting a provider's prices replaces
  them and nothing else, and neither touches what the aggregator publishes.
\<close>

locale price_aggregator =
  fixes reset :: "'a \<Rightarrow> 'a"
    and put :: "string \<Rightarrow> 'p \<Rightarrow> 'a \<Rightarrow> 'a"
    and held :: "'a \<Rightarrow> string \<Rightarrow> 'p option"
    and published :: "'a \<Rightarrow> 'v"
  assumes held_reset: "held (reset a) = Map.empty"
    and held_put: "held (put name ps a) = (held a)(name \<mapsto> ps)"
    and published_reset: "published (reset a) = published a"
    and published_put: "published (put name ps a) = published a"
begin

lemma published_fold:
  "published (fold (\<lambda>(name, offer) a. case offer of None \<Rightarrow> a | Some ps \<Rightarrow> put name ps a) xs a) = published a"
  by (induction xs arbitrary: a) (auto simp: published_put split: option.splits)

lemma held_fold:
  "distinct (map fst xs) \<Longrightarrow>
   held (fold (\<lambda>(name, offer) a. case offer of None \<Rightarrow> a | Some ps \<Rightarrow> put name ps a) xs a) name =
     (case map_of xs name of Some (Some ps) \<Rightarrow> Some ps | _ \<Rightarrow> held a name)"
proof (induction xs arbitrary: a)
  case (Cons x xs)
  have "map_of xs (fst x) = None" using Cons.prems by (simp add: map_of_eq_None_iff)
  with Cons show ?case by (auto simp: held_put split: option.splits prod.splits)
qed simp

text \<open>After a reset, exactly what the providers offer in the round is held.\<close>

lemma held_round:
  "distinct (map fst xs) \<Longrightarrow>
   held (fold (\<lambda>(name, offer) a. case offer of None \<Rightarrow> a | Some ps \<Rightarrow> put name ps a) xs (reset a)) name =
     (case map_of xs name of Some offer \<Rightarrow> offer | None \<Rightarrow> None)"
  by (simp add: held_fold held_reset split: option.splits)

lemma published_round:
  "published (fold (\<lambda>(name, offer) a. case offer of None \<Rightarrow> a | Some ps \<Rightarrow> put name ps a) xs (reset a)) = published a"
  by (simp add: published_fold published_reset)

end

end
