(* ===== verification/Index_Aggregator.thy ===== *)
theory Index_Aggregator
  imports Big_Float Marketmap_Types Price_Interface
begin

text \<open>
  \<open>pkg/math/oracle\<close>: the sidecar's aggregator, which computes for each market the median of the
  providers' prices, converted by the index prices of the previous round, and its scaled form. Prices
  are pointers and may be nil. No stored price is ever changed in place: the median is copied before it
  is scaled. The mutex, the log and the metrics are left out.
\<close>

type_synonym prices = "(string, big_float option) gomap"

record index_aggregator =
  ia_cfg :: market_map
  ia_index_prices :: prices
  ia_scaled_prices :: prices
  ia_provider_prices :: "(string, prices) gomap"

text \<open>The logger must not be nil.\<close>

definition NewIndexPriceAggregator :: "bool \<Rightarrow> market_map \<Rightarrow> index_aggregator res" where
  "NewIndexPriceAggregator logger cfg =
     (if \<not> logger then Inl (Errorf ''logger cannot be nil'')
      else Inr \<lparr>ia_cfg = cfg, ia_index_prices = [], ia_scaled_prices = [], ia_provider_prices = []\<rparr>)"

section \<open>Prices of providers and index prices\<close>

definition GetProviderPrice :: "index_aggregator \<Rightarrow> provider_config \<Rightarrow> big_float res" where
  "GetProviderPrice m cfg =
     (case gm_get (ia_provider_prices m) (pc_name cfg) of
        None \<Rightarrow> Inl (Errorf ''missing provider prices for provider'')
      | Some cache \<Rightarrow>
          (case gm_get cache (pc_off_chain_ticker cfg) of
             None \<Rightarrow> Inl (Errorf ''missing price for ticker'')
           | Some None \<Rightarrow> Inl (Errorf ''price for ticker is nil'')
           | Some (Some price) \<Rightarrow> if pc_invert cfg then bf_Quo 0 bf_one price else Inr price))"

definition GetIndexPrice :: "index_aggregator \<Rightarrow> currency_pair \<Rightarrow> big_float res" where
  "GetIndexPrice m cp =
     (case gm_get (ia_index_prices m) (CurrencyPair_String cp) of
        None \<Rightarrow> Inl (Errorf ''missing index price for ticker'')
      | Some None \<Rightarrow> Inl (Errorf ''index price for ticker is nil'')
      | Some (Some price) \<Rightarrow> Inr price)"

definition CalculateAdjustedPrice :: "index_aggregator \<Rightarrow> provider_config \<Rightarrow> big_float res" where
  "CalculateAdjustedPrice m cfg =
     bind_res (GetProviderPrice m cfg) (\<lambda>price.
     case pc_normalize_by_pair cfg of
       None \<Rightarrow> Inr price
     | Some p \<Rightarrow>
         bind_res (GetIndexPrice m p) (\<lambda>normalizeByIndexPrice.
         bf_Mul 0 price normalizeByIndexPrice))"

text \<open>A provider that fails is skipped; a panic ends the loop.\<close>

fun convert_prices :: "index_aggregator \<Rightarrow> provider_config list \<Rightarrow> big_float list res" where
  "convert_prices m [] = Inr []"
| "convert_prices m (cfg # cfgs) =
     (case CalculateAdjustedPrice m cfg of
        Inl (Panic p) \<Rightarrow> Inl (Panic p)
      | Inl e \<Rightarrow> convert_prices m cfgs
      | Inr adjustedPrice \<Rightarrow> bind_res (convert_prices m cfgs) (\<lambda>ps. Inr (adjustedPrice # ps)))"

definition CalculateConvertedPrices :: "index_aggregator \<Rightarrow> market \<Rightarrow> big_float list res" where
  "CalculateConvertedPrices m mkt =
     (if mk_provider_configs mkt = [] then Inr [] else convert_prices m (mk_provider_configs mkt))"

section \<open>Aggregation\<close>

text \<open>
  One market: nothing for a disabled one or one with too few prices (the minimum is converted to
  \<open>int\<close>), else the median and its scaled copy. \<open>Copy\<close> of a nil median panics.
\<close>

definition aggregate_market :: "index_aggregator \<Rightarrow> market \<Rightarrow> (big_float \<times> big_float) option res" where
  "aggregate_market m mkt =
     (let target = mk_ticker mkt in
      if \<not> tk_enabled target then Inr None
      else
        bind_res (CalculateConvertedPrices m mkt) (\<lambda>convertedPrices.
        if int (length convertedPrices) < sint (tk_min_provider_count target) then Inr None
        else
          bind_res (CalculateMedian convertedPrices) (\<lambda>price.
          case price of
            None \<Rightarrow> Inl (Panic ''nil pointer dereference'')
          | Some median \<Rightarrow>
              bind_res (ScaleBigFloat median (tk_decimals target)) (\<lambda>scaled.
              Inr (Some (median, scaled))))))"

fun aggregate_markets ::
    "index_aggregator \<Rightarrow> (string \<times> market) list \<Rightarrow> prices \<times> prices \<Rightarrow> (prices \<times> prices) res" where
  "aggregate_markets m [] acc = Inr acc"
| "aggregate_markets m ((ticker, mkt) # mkts) (indexPrices, scaledPrices) =
     bind_res (aggregate_market m mkt) (\<lambda>r.
     case r of
       None \<Rightarrow> aggregate_markets m mkts (indexPrices, scaledPrices)
     | Some (median, scaled) \<Rightarrow>
         aggregate_markets m mkts
           (gm_set (Ticker_String (mk_ticker mkt)) (Some median) indexPrices,
            gm_set (Ticker_String (mk_ticker mkt)) (Some scaled) scaledPrices))"

text \<open>A panic leaves the aggregator as it was.\<close>

definition AggregatePrices :: "(index_aggregator, unit) comp" where
  "AggregatePrices m =
     (case aggregate_markets m (ia_cfg m) ([], []) of
        Inl e \<Rightarrow> (Inl e, m)
      | Inr (indexPrices, scaledPrices) \<Rightarrow>
          (Inr (), m\<lparr>ia_index_prices := indexPrices, ia_scaled_prices := scaledPrices\<rparr>))"

section \<open>The other operations\<close>

definition SetIndexPrices :: "prices \<Rightarrow> index_aggregator \<Rightarrow> index_aggregator" where
  "SetIndexPrices ps m = m\<lparr>ia_index_prices := ps\<rparr>"

definition GetIndexPrices :: "index_aggregator \<Rightarrow> prices" where
  "GetIndexPrices m = ia_index_prices m"

definition ia_UpdateMarketMap :: "market_map \<Rightarrow> index_aggregator \<Rightarrow> index_aggregator" where
  "ia_UpdateMarketMap marketMap m = m\<lparr>ia_cfg := marketMap\<rparr>"

definition ia_GetMarketMap :: "index_aggregator \<Rightarrow> market_map" where
  "ia_GetMarketMap m = ia_cfg m"

definition SetProviderPrices :: "string \<Rightarrow> prices option \<Rightarrow> index_aggregator \<Rightarrow> index_aggregator" where
  "SetProviderPrices provider data m =
     m\<lparr>ia_provider_prices := gm_set provider (case data of None \<Rightarrow> [] | Some d \<Rightarrow> d) (ia_provider_prices m)\<rparr>"

definition Reset :: "index_aggregator \<Rightarrow> index_aggregator" where
  "Reset m = m\<lparr>ia_provider_prices := []\<rparr>"

definition ia_GetPrices :: "index_aggregator \<Rightarrow> prices" where
  "ia_GetPrices m = ia_scaled_prices m"

section \<open>The interface\<close>

text \<open>The aggregator keeps the laws of the interface; what it publishes are its scaled prices, and the
  index prices and the market map are not touched either.\<close>

interpretation index_prices: price_aggregator
    Reset "\<lambda>name ps. SetProviderPrices name (Some ps)" "\<lambda>m. gm_get (ia_provider_prices m)"
    "\<lambda>m. (ia_cfg m, ia_index_prices m, ia_GetPrices m)"
  by unfold_locales (auto simp: Reset_def SetProviderPrices_def ia_GetPrices_def)

end
