(* ===== verification/Index_Facts.thy ===== *)
theory Index_Facts
  imports Index_Aggregator Float_Facts Marketmap_Facts
begin

text \<open>
  Facts on the aggregator: what the loops over the providers and over the markets compute, without and
  with the assumption that all prices are positive and of bounded exponent.
\<close>

section \<open>The loop over the markets\<close>

definition keyed :: "market_map \<Rightarrow> bool" where
  "keyed mm \<longleftrightarrow> gm_wf mm \<and> (\<forall>(t, m) \<in> set mm. Ticker_String (mk_ticker m) = t)"

lemma valid_keyed: "gm_wf mm \<Longrightarrow> is_ok (MarketMap_ValidateBasic mm) \<Longrightarrow> keyed mm"
  by (auto simp: keyed_def MarketMap_ok_iff)

definition index_of :: "index_aggregator \<Rightarrow> market option \<Rightarrow> (big_float \<times> big_float) option" where
  "index_of a m = (case m of None \<Rightarrow> None | Some mkt \<Rightarrow>
     (case aggregate_market a mkt of Inr r \<Rightarrow> r | Inl _ \<Rightarrow> None))"

lemma aggregate_markets_ok:
  "is_ok (aggregate_markets a mkts acc) \<longleftrightarrow> (\<forall>(t, m) \<in> set mkts. is_ok (aggregate_market a m))"
proof (induction mkts arbitrary: acc)
  case (Cons tm mkts)
  obtain t m where tm: "tm = (t, m)" by fastforce
  obtain i s where acc: "acc = (i, s)" by fastforce
  show ?case
  proof (cases "aggregate_market a m")
    case (Inr r)
    then show ?thesis using Cons.IH by (cases r) (auto simp: tm acc split: prod.splits)
  qed (simp add: tm acc)
qed simp

lemma aggregate_markets_get:
  assumes "keyed mkts" "aggregate_markets a mkts (i, s) = Inr (i', s')"
  shows "gm_get i' k = (case index_of a (gm_get mkts k) of None \<Rightarrow> gm_get i k | Some (x, y) \<Rightarrow> Some (Some x)) \<and>
    gm_get s' k = (case index_of a (gm_get mkts k) of None \<Rightarrow> gm_get s k | Some (x, y) \<Rightarrow> Some (Some y))"
  using assms
proof (induction mkts arbitrary: i s)
  case (Cons tm mkts)
  obtain t m where tm: "tm = (t, m)" by fastforce
  have key: "Ticker_String (mk_ticker m) = t" and fresh: "gm_get mkts t = None" and k: "keyed mkts"
    using Cons.prems(1) by (auto simp: keyed_def tm gm_wf_def gm_get_def map_of_eq_None_iff)
  obtain r where r: "aggregate_market a m = Inr r"
    using Cons.prems(2) by (cases "aggregate_market a m") (simp_all add: tm)
  have get: "gm_get (tm # mkts) k = (if k = t then Some m else gm_get mkts k)"
    by (simp add: gm_get_def tm)
  show ?case
  proof (cases r)
    case None
    then have "aggregate_markets a mkts (i, s) = Inr (i', s')" using Cons.prems(2) r by (simp add: tm)
    from Cons.IH [OF k this] show ?thesis
      using fresh r None by (simp add: get index_of_def)
  next
    case (Some xy)
    obtain x y where xy: "xy = (x, y)" by fastforce
    then have "aggregate_markets a mkts (gm_set t (Some x) i, gm_set t (Some y) s) = Inr (i', s')"
      using Cons.prems(2) r Some by (simp add: tm key)
    note ih = Cons.IH [OF k this]
    have "index_of a None = None" "index_of a (Some m) = Some (x, y)"
      using r Some xy by (simp_all add: index_of_def)
    then show ?thesis
      unfolding get using ih fresh by (cases "k = t") (simp_all split: option.splits)
  qed
qed (simp add: index_of_def)

lemma AggregatePrices_get:
  assumes "keyed (ia_cfg a)" "AggregatePrices a = (Inr (), b)"
  shows "gm_get (ia_index_prices b) k = map_option (Some \<circ> fst) (index_of a (gm_get (ia_cfg a) k))"
    "gm_get (ia_scaled_prices b) k = map_option (Some \<circ> snd) (index_of a (gm_get (ia_cfg a) k))"
    "ia_cfg b = ia_cfg a" "ia_provider_prices b = ia_provider_prices a"
proof -
  obtain i s where loop: "aggregate_markets a (ia_cfg a) ([], []) = Inr (i, s)"
    and b: "b = a\<lparr>ia_index_prices := i, ia_scaled_prices := s\<rparr>"
    using assms(2) by (auto simp: AggregatePrices_def split: sum.splits)
  show "gm_get (ia_index_prices b) k = map_option (Some \<circ> fst) (index_of a (gm_get (ia_cfg a) k))"
    "gm_get (ia_scaled_prices b) k = map_option (Some \<circ> snd) (index_of a (gm_get (ia_cfg a) k))"
    using aggregate_markets_get [OF assms(1) loop, of k] by (auto simp: b split: option.splits)
  show "ia_cfg b = ia_cfg a" "ia_provider_prices b = ia_provider_prices a" by (simp_all add: b)
qed

lemma AggregatePrices_ok:
  "is_ok (fst (AggregatePrices a)) \<longleftrightarrow> (\<forall>(t, m) \<in> set (ia_cfg a). is_ok (aggregate_market a m))"
  unfolding aggregate_markets_ok [of a "ia_cfg a" "([], [])", symmetric]
  by (auto simp: AggregatePrices_def split: sum.splits)

lemma AggregatePrices_fails: "AggregatePrices a = (Inl e, b) \<Longrightarrow> b = a"
  by (auto simp: AggregatePrices_def split: sum.splits)

section \<open>The loop over the providers\<close>

definition adjusted :: "index_aggregator \<Rightarrow> provider_config list \<Rightarrow> big_float list" where
  "adjusted a cfgs =
     concat (map (\<lambda>cfg. case CalculateAdjustedPrice a cfg of Inl _ \<Rightarrow> [] | Inr p \<Rightarrow> [p]) cfgs)"

definition no_panic :: "'a res \<Rightarrow> bool" where
  "no_panic r \<longleftrightarrow> (\<forall>p. r \<noteq> Inl (Panic p))"

lemma convert_adjusted:
  assumes "\<forall>cfg \<in> set cfgs. no_panic (CalculateAdjustedPrice a cfg)"
  shows "convert_prices a cfgs = Inr (adjusted a cfgs)"
  using assms
proof (induction cfgs)
  case (Cons cfg cfgs)
  then show ?case
    by (cases "CalculateAdjustedPrice a cfg")
      (auto simp: adjusted_def no_panic_def split: go_error.splits)
qed (simp add: adjusted_def)

lemma converted_adjusted:
  assumes "\<forall>cfg \<in> set (mk_provider_configs m). no_panic (CalculateAdjustedPrice a cfg)"
  shows "CalculateConvertedPrices a m = Inr (adjusted a (mk_provider_configs m))"
  using convert_adjusted [OF assms] by (simp add: CalculateConvertedPrices_def adjusted_def)

section \<open>Positive prices of bounded exponent\<close>

definition prices_within :: "nat \<Rightarrow> prices \<Rightarrow> bool" where
  "prices_within K ps \<longleftrightarrow> (\<forall>k p. gm_get ps k = Some (Some p) \<longrightarrow> priced K p)"

definition provided_within :: "nat \<Rightarrow> index_aggregator \<Rightarrow> bool" where
  "provided_within K a \<longleftrightarrow> (\<forall>k ps. gm_get (ia_provider_prices a) k = Some ps \<longrightarrow> prices_within K ps)"

lemma priced_mono: "priced K x \<Longrightarrow> K \<le> L \<Longrightarrow> priced L x"
  by (auto simp: priced_def)

lemma GetProviderPrice_priced:
  assumes "provided_within K a" "K + 3 \<le> 2147483647"
  shows "no_panic (GetProviderPrice a cfg)"
    "GetProviderPrice a cfg = Inr p \<Longrightarrow> priced (K + 3) p"
proof -
  have pr: "priced K p" if "gm_get (ia_provider_prices a) n = Some ps" "gm_get ps t = Some (Some p)" for n ps t p
    using assms(1) that by (auto simp: provided_within_def prices_within_def)
  have quo: "\<exists>r. bf_Quo 0 bf_one p = Inr r \<and> priced (K + 3) r"
    if "gm_get (ia_provider_prices a) n = Some ps" "gm_get ps t = Some (Some p)" for n ps t p
    using Quo_priced [OF pr [OF that] assms(2)] by blast
  show "no_panic (GetProviderPrice a cfg)"
    using quo by (fastforce simp: GetProviderPrice_def no_panic_def split: option.splits)
  show "GetProviderPrice a cfg = Inr p \<Longrightarrow> priced (K + 3) p"
    using quo priced_mono [OF pr, of _ _ _ _ "K + 3"]
    by (fastforce simp: GetProviderPrice_def split: option.splits if_splits)
qed

lemma Adjusted_priced:
  assumes "provided_within K a" "prices_within K (ia_index_prices a)" "2 * K + 5 \<le> 2147483647"
  shows "no_panic (CalculateAdjustedPrice a cfg)"
    "CalculateAdjustedPrice a cfg = Inr p \<Longrightarrow> priced (2 * K + 5) p"
proof -
  have K: "K + 3 \<le> 2147483647" using assms(3) by linarith
  note g = GetProviderPrice_priced [OF assms(1) K, of cfg]
  have idx: "priced K x" if "GetIndexPrice a cp = Inr x" for cp x
    using assms(2) that by (auto simp: GetIndexPrice_def prices_within_def split: option.splits)
  have idx_ok: "no_panic (GetIndexPrice a cp)" for cp
    by (auto simp: GetIndexPrice_def no_panic_def split: option.splits)
  have mul: "\<exists>r. bf_Mul 0 x y = Inr r \<and> priced (2 * K + 5) r"
    if x: "priced (K + 3) x" and y: "priced K y" for x y
  proof -
    have z: "0 < op_prec 0 x y" using pricedD(3) [OF x] by (simp add: op_prec_def)
    have "K + 3 + K + 2 \<le> 2147483647" using assms(3) by linarith
    from Mul_priced [OF x y z this] obtain r where r: "bf_Mul 0 x y = Inr r" "priced (K + 3 + K + 2) r"
      by blast
    have "K + 3 + K + 2 = 2 * K + 5" by simp
    with r show ?thesis by metis
  qed
  show "no_panic (CalculateAdjustedPrice a cfg)"
  proof (cases "GetProviderPrice a cfg")
    case (Inl e)
    with g(1) show ?thesis by (simp add: CalculateAdjustedPrice_def no_panic_def)
  next
    case (Inr x)
    then have x: "priced (K + 3) x" by (rule g(2))
    show ?thesis
    proof (cases "pc_normalize_by_pair cfg")
      case (Some cp)
      show ?thesis
      proof (cases "GetIndexPrice a cp")
        case (Inl e)
        with idx_ok [of cp] show ?thesis
          by (simp add: CalculateAdjustedPrice_def no_panic_def \<open>GetProviderPrice a cfg = Inr x\<close> Some)
      next
        case (Inr y)
        with mul [OF x idx [OF Inr]] show ?thesis
          by (auto simp: CalculateAdjustedPrice_def no_panic_def \<open>GetProviderPrice a cfg = Inr x\<close> Some)
      qed
    qed (simp add: CalculateAdjustedPrice_def no_panic_def Inr)
  qed
  assume "CalculateAdjustedPrice a cfg = Inr p"
  then obtain x where x: "GetProviderPrice a cfg = Inr x" "priced (K + 3) x"
    and c: "case pc_normalize_by_pair cfg of None \<Rightarrow> p = x
            | Some cp \<Rightarrow> \<exists>y. GetIndexPrice a cp = Inr y \<and> bf_Mul 0 x y = Inr p"
    using g(2) by (auto simp: CalculateAdjustedPrice_def bind_res_Inr_iff split: option.splits)
  show "priced (2 * K + 5) p"
  proof (cases "pc_normalize_by_pair cfg")
    case None
    with c x priced_mono [OF x(2), of "2 * K + 5"] show ?thesis by simp
  next
    case (Some cp)
    with c mul [OF x(2) idx] show ?thesis by fastforce
  qed
qed

lemma adjusted_priced:
  assumes "provided_within K a" "prices_within K (ia_index_prices a)" "2 * K + 5 \<le> 2147483647"
  shows "\<forall>p \<in> set (adjusted a cfgs). priced (2 * K + 5) p"
  using Adjusted_priced(2) [OF assms] by (auto simp: adjusted_def split: sum.splits)

end
