(* ===== verification/Index_Properties.thy ===== *)
theory Index_Properties
  imports Index_Facts
begin

text \<open>
  The properties of the aggregator: a round of aggregation on positive prices computes for every market
  the specified median and never panics; a minority of providers cannot move an index price; the
  iteration order of the market map does not matter; a zero price of an inverted provider becomes an
  infinite index price.
\<close>

section \<open>One round of aggregation\<close>

text \<open>The hypotheses: a valid market map, and positive prices whose exponents are at most \<open>K\<close>.\<close>

definition round_ready :: "nat \<Rightarrow> index_aggregator \<Rightarrow> bool" where
  "round_ready K a \<longleftrightarrow> gm_wf (ia_cfg a) \<and> is_ok (MarketMap_ValidateBasic (ia_cfg a)) \<and>
     provided_within K a \<and> prices_within K (ia_index_prices a) \<and> 2 * K + 200 \<le> 2147483647 \<and>
     (\<forall>(t, m) \<in> set (ia_cfg a). length (mk_provider_configs m) < 2 ^ 63)"

definition has_quorum :: "index_aggregator \<Rightarrow> market \<Rightarrow> bool" where
  "has_quorum a m \<longleftrightarrow> tk_enabled (mk_ticker m) \<and>
     unat (tk_min_provider_count (mk_ticker m)) \<le> length (adjusted a (mk_provider_configs m))"

definition in_interval :: "rat \<Rightarrow> rat \<Rightarrow> big_float \<Rightarrow> bool" where
  "in_interval l u x \<longleftrightarrow> l \<le> fval x \<and> fval x \<le> u"

lemma small_u64:
  assumes "unat (w :: u64) < 2 ^ 63"
  shows "sint w = int (unat w)"
proof -
  have "int (unat w) < int (2 ^ 63)" using assms by (simp only: of_nat_less_iff)
  then have "uint w < 2 ^ 63" by (simp only: of_nat_unat of_nat_power of_nat_numeral)
  moreover have "0 \<le> uint w" by simp
  ultimately have "signed_take_bit 63 (uint w) = uint w"
    by (intro signed_take_bit_int_eq_self) linarith+
  then show ?thesis by (simp add: sint_uint)
qed

lemma valid_market_counts:
  assumes "is_ok (Market_ValidateBasic m)" "length (mk_provider_configs m) < 2 ^ 63"
  shows "sint (tk_min_provider_count (mk_ticker m)) = int (unat (tk_min_provider_count (mk_ticker m)))"
    "0 < unat (tk_min_provider_count (mk_ticker m))"
    "sint (tk_decimals (mk_ticker m)) \<le> 36"
proof -
  let ?w = "tk_min_provider_count (mk_ticker m)" and ?d = "tk_decimals (mk_ticker m)"
  have t: "is_ok (Ticker_ValidateBasic (mk_ticker m))" "?w \<le> of_nat (length (mk_provider_configs m))"
    using assms(1) by (simp_all add: Market_ValidateBasic_iff)
  have w: "?w \<noteq> 0" and d: "?d \<le> 36"
    using t(1) by (auto simp: Ticker_ValidateBasic_def DefaultMinProviderCount_def DefaultMaxDecimals_def split: if_splits)
  have "unat ?w \<le> unat (of_nat (length (mk_provider_configs m)) :: u64)" using t(2) by (simp add: word_le_nat_alt)
  also have "\<dots> \<le> length (mk_provider_configs m)" by (simp add: unat_of_nat)
  finally have "unat ?w < 2 ^ 63" using assms(2) by (rule order.strict_trans1)
  then show "sint ?w = int (unat ?w)" by (rule small_u64)
  show "0 < unat ?w" using w by (simp add: unat_gt_0)
  have "unat ?d \<le> unat (36 :: u64)" using d unfolding word_le_nat_alt .
  then have "unat ?d \<le> 36" by simp
  moreover from this have "sint ?d = int (unat ?d)" by (intro small_u64) simp
  ultimately show "sint ?d \<le> 36" by linarith
qed

lemma aggregate_market_priced:
  assumes "round_ready K a" "(t, m) \<in> set (ia_cfg a)"
  shows "if has_quorum a m
    then \<exists>p s. aggregate_market a m = Inr (Some (p, s)) \<and>
      CalculateMedian (adjusted a (mk_provider_configs m)) = Inr (Some p) \<and> priced (2 * K + 8) p \<and>
      ScaleBigFloat p (tk_decimals (mk_ticker m)) = Inr s \<and>
      bf_prec s = bf_prec p \<and> priced (2 * K + 130) s \<and>
      fval s = rnd (bf_prec p) (fval p * of_int (exp10 (sint (tk_decimals (mk_ticker m))))) \<and>
      (\<forall>l u. length (adjusted a (mk_provider_configs m)) < 2 * length (filter (in_interval l u) (adjusted a (mk_provider_configs m)))
         \<longrightarrow> in_interval l u p)
    else aggregate_market a m = Inr None"
proof -
  let ?ps = "adjusted a (mk_provider_configs m)"
  note r = assms(1) [unfolded round_ready_def]
  have v: "is_ok (Market_ValidateBasic m)" "length (mk_provider_configs m) < 2 ^ 63"
    using r assms(2) by (auto simp: MarketMap_ok_iff)
  note c = valid_market_counts [OF v]
  have K: "2 * K + 5 \<le> 2147483647" using r by simp
  have np: "\<forall>cfg \<in> set (mk_provider_configs m). no_panic (CalculateAdjustedPrice a cfg)"
    using Adjusted_priced(1) [of K a] r K by blast
  note conv = converted_adjusted [OF np]
  have pr: "\<forall>p \<in> set ?ps. priced (2 * K + 5) p" using adjusted_priced [of K a] r K by blast
  show ?thesis
  proof (cases "has_quorum a m")
    case False
    then have "\<not> tk_enabled (mk_ticker m) \<or> int (length ?ps) < sint (tk_min_provider_count (mk_ticker m))"
      unfolding has_quorum_def c(1) by linarith
    then show ?thesis using False conv by (auto simp: aggregate_market_def Let_def)
  next
    case True
    then have q: "tk_enabled (mk_ticker m)" "\<not> int (length ?ps) < sint (tk_min_provider_count (mk_ticker m))"
      unfolding has_quorum_def c(1) by linarith+
    have ne: "?ps \<noteq> []" using True c(2) by (auto simp: has_quorum_def)
    have "2 * K + 5 + 3 \<le> 2147483647" and eq: "2 * K + 5 + 3 = 2 * K + 8" using r by simp_all
    from CalculateMedian_priced [OF ne pr this(1), unfolded eq] obtain p where p: "CalculateMedian ?ps = Inr (Some p)"
      "priced (2 * K + 8) p"
      "\<forall>l u. length ?ps < 2 * length (filter (in_interval l u) ?ps) \<longrightarrow> in_interval l u p"
      by (auto simp: in_interval_def [abs_def])
    have "2 * K + 8 + 122 \<le> 2147483647" and eq: "2 * K + 8 + 122 = 2 * K + 130" using r by simp_all
    from Scale_priced [OF p(2) c(3) this(1), unfolded eq] obtain s where s: "ScaleBigFloat p (tk_decimals (mk_ticker m)) = Inr s"
      "priced (2 * K + 130) s" "bf_prec s = bf_prec p"
      "fval s = rnd (bf_prec p) (fval p * of_int (exp10 (sint (tk_decimals (mk_ticker m)))))"
      by auto
    have "aggregate_market a m = Inr (Some (p, s))"
      using q conv p(1) s(1) by (simp add: aggregate_market_def Let_def)
    then show ?thesis using True p s by auto
  qed
qed


text \<open>(C10) A round of aggregation on a valid market map and positive prices succeeds; the index price of a
  market is there exactly when the market is enabled and enough of its providers have a usable price,
  it is then the median of these prices, and the scaled price is the index price times ten to the
  ticker's decimals, rounded once; the market map and the providers' prices stay.\<close>

theorem aggregate_prices_spec:
  assumes "round_ready K a"
  shows "\<exists>b. AggregatePrices a = (Inr (), b) \<and> ia_cfg b = ia_cfg a \<and> ia_provider_prices b = ia_provider_prices a \<and>
    (\<forall>t. case gm_get (ia_cfg a) t of
        None \<Rightarrow> gm_get (ia_index_prices b) t = None \<and> gm_get (ia_scaled_prices b) t = None
      | Some m \<Rightarrow>
          if has_quorum a m
          then \<exists>p s. CalculateMedian (adjusted a (mk_provider_configs m)) = Inr (Some p) \<and>
            gm_get (ia_index_prices b) t = Some (Some p) \<and> gm_get (ia_scaled_prices b) t = Some (Some s) \<and>
            0 < fval p \<and>
            fval s = rnd (bf_prec p) (fval p * of_int (exp10 (sint (tk_decimals (mk_ticker m)))))
          else gm_get (ia_index_prices b) t = None \<and> gm_get (ia_scaled_prices b) t = None)"
proof -
  note r = assms [unfolded round_ready_def]
  have keyed: "keyed (ia_cfg a)" and wf: "gm_wf (ia_cfg a)" using r valid_keyed by blast+
  obtain b where b: "AggregatePrices a = (Inr (), b)"
  proof (cases "AggregatePrices a")
    case (Pair r b)
    have "is_ok (aggregate_market a m)" if "(t, m) \<in> set (ia_cfg a)" for t m
      using aggregate_market_priced [OF assms that] by (auto split: if_splits)
    then have "is_ok (fst (AggregatePrices a))" unfolding AggregatePrices_ok by blast
    with Pair that show thesis by (auto simp: is_ok_iff)
  qed
  note get = AggregatePrices_get [OF keyed b]
  have "case gm_get (ia_cfg a) t of
        None \<Rightarrow> gm_get (ia_index_prices b) t = None \<and> gm_get (ia_scaled_prices b) t = None
      | Some m \<Rightarrow>
          if has_quorum a m
          then \<exists>p s. CalculateMedian (adjusted a (mk_provider_configs m)) = Inr (Some p) \<and>
            gm_get (ia_index_prices b) t = Some (Some p) \<and> gm_get (ia_scaled_prices b) t = Some (Some s) \<and>
            0 < fval p \<and>
            fval s = rnd (bf_prec p) (fval p * of_int (exp10 (sint (tk_decimals (mk_ticker m)))))
          else gm_get (ia_index_prices b) t = None \<and> gm_get (ia_scaled_prices b) t = None" for t
  proof (cases "gm_get (ia_cfg a) t")
    case None
    then show ?thesis using get(1,2) [of t] by (simp add: index_of_def)
  next
    case (Some m)
    then have "(t, m) \<in> set (ia_cfg a)" by (rule gm_get_mem)
    note am = aggregate_market_priced [OF assms this]
    show ?thesis
    proof (cases "has_quorum a m")
      case True
      with am obtain p s where ps: "aggregate_market a m = Inr (Some (p, s))"
        "CalculateMedian (adjusted a (mk_provider_configs m)) = Inr (Some p)" "priced (2 * K + 8) p"
        "fval s = rnd (bf_prec p) (fval p * of_int (exp10 (sint (tk_decimals (mk_ticker m)))))" by auto
      have "gm_get (ia_index_prices b) t = Some (Some p)" "gm_get (ia_scaled_prices b) t = Some (Some s)"
        using get(1,2) [of t] Some ps(1) by (simp_all add: index_of_def)
      then show ?thesis using Some True ps pricedD(2) [OF ps(3)] by auto
    next
      case False
      with am have "aggregate_market a m = Inr None" by simp
      then show ?thesis using Some False get(1,2) [of t] by (simp add: index_of_def)
    qed
  qed
  then show ?thesis using b get(3,4) by blast
qed

section \<open>A minority of providers cannot move a price\<close>

text \<open>(C16) Whatever the other providers answer: when more than half of the usable prices of a market lie in
  an interval, so does its index price.\<close>

theorem index_price_majority:
  assumes "round_ready K a" "gm_get (ia_cfg a) t = Some m" "has_quorum a m"
    "length (adjusted a (mk_provider_configs m)) <
       2 * length (filter (in_interval l u) (adjusted a (mk_provider_configs m)))"
  shows "\<exists>b p. AggregatePrices a = (Inr (), b) \<and> gm_get (ia_index_prices b) t = Some (Some p) \<and>
    l \<le> fval p \<and> fval p \<le> u"
proof -
  note r = assms(1) [unfolded round_ready_def]
  have keyed: "keyed (ia_cfg a)" using r valid_keyed by blast
  have ok: "is_ok (aggregate_market a m)" if "(t, m) \<in> set (ia_cfg a)" for t m
    using aggregate_market_priced [OF assms(1) that] by (auto split: if_splits)
  then have "is_ok (fst (AggregatePrices a))" unfolding AggregatePrices_ok by blast
  then obtain b where b: "AggregatePrices a = (Inr (), b)"
    by (cases "AggregatePrices a") (auto simp: is_ok_iff)
  obtain p s where p: "aggregate_market a m = Inr (Some (p, s))" "in_interval l u p"
    using aggregate_market_priced [OF assms(1) gm_get_mem [OF assms(2)]] assms(3,4) by auto
  have "gm_get (ia_index_prices b) t = Some (Some p)"
    using AggregatePrices_get(1) [OF keyed b, of t] assms(2) p(1) by (simp add: index_of_def)
  then show ?thesis using b p(2) by (auto simp: in_interval_def)
qed

section \<open>The order of the markets\<close>

text \<open>Go iterates over the market map in any order: the prices of a round, and whether it panics, do
  not depend on it.\<close>

theorem aggregation_order_independent:
  assumes "gm_wf (ia_cfg a)" "MarketMap_ValidateBasic (ia_cfg a) = Inr ()" "mset mm = mset (ia_cfg a)"
  shows "is_ok (fst (AggregatePrices (a\<lparr>ia_cfg := mm\<rparr>))) = is_ok (fst (AggregatePrices a)) \<and>
    (is_ok (fst (AggregatePrices a)) \<longrightarrow>
       gm_get (ia_index_prices (snd (AggregatePrices (a\<lparr>ia_cfg := mm\<rparr>)))) = gm_get (ia_index_prices (snd (AggregatePrices a))) \<and>
       gm_get (ia_scaled_prices (snd (AggregatePrices (a\<lparr>ia_cfg := mm\<rparr>)))) = gm_get (ia_scaled_prices (snd (AggregatePrices a))))"
proof -
  let ?a = "a\<lparr>ia_cfg := mm\<rparr>"
  have gi: "GetIndexPrice ?a p = GetIndexPrice a p" and gp: "GetProviderPrice ?a cfg = GetProviderPrice a cfg" for p cfg
    by (simp_all add: GetProviderPrice_def GetIndexPrice_def)
  have cfgs: "CalculateAdjustedPrice ?a cfg = CalculateAdjustedPrice a cfg" for cfg
    unfolding CalculateAdjustedPrice_def gi gp ..
  have conv: "convert_prices ?a cs = convert_prices a cs" for cs
  proof (induction cs)
    case (Cons c cs)
    show ?case unfolding convert_prices.simps cfgs Cons.IH ..
  qed simp
  have same: "aggregate_market ?a m = aggregate_market a m" for m
    unfolding aggregate_market_def CalculateConvertedPrices_def conv ..
  have idx: "index_of ?a = index_of a" unfolding fun_eq_iff index_of_def same by simp
  have set: "set mm = set (ia_cfg a)" using assms(3) by (metis mset_eq_setD)
  have get: "gm_get mm = gm_get (ia_cfg a)" using gm_get_perm [of "ia_cfg a" mm] assms by simp
  have ok: "is_ok (fst (AggregatePrices ?a)) = is_ok (fst (AggregatePrices a))"
    unfolding AggregatePrices_ok by (simp add: set same)
  have k: "keyed (ia_cfg a)" using assms valid_keyed by simp
  then have k': "keyed (ia_cfg ?a)" using gm_wf_perm [of "ia_cfg a" mm] assms by (simp add: keyed_def set)
  have "gm_get (ia_index_prices (snd (AggregatePrices ?a))) = gm_get (ia_index_prices (snd (AggregatePrices a))) \<and>
      gm_get (ia_scaled_prices (snd (AggregatePrices ?a))) = gm_get (ia_scaled_prices (snd (AggregatePrices a)))"
    if a_ok: "is_ok (fst (AggregatePrices a))"
  proof -
    obtain b where b: "AggregatePrices a = (Inr (), b)"
      using a_ok by (cases "AggregatePrices a") (auto simp: is_ok_iff)
    obtain c where c: "AggregatePrices ?a = (Inr (), c)"
      using a_ok ok by (cases "AggregatePrices ?a") (auto simp: is_ok_iff)
    show ?thesis
      using AggregatePrices_get(1,2) [OF k b] AggregatePrices_get(1,2) [OF k' c] by (simp add: b c fun_eq_iff get idx)
  qed
  with ok show ?thesis by blast
qed


section \<open>An example round\<close>

definition quote_by :: "string \<Rightarrow> bool \<Rightarrow> provider_config" where
  "quote_by name invert = \<lparr>pc_name = name, pc_off_chain_ticker = ''BTCUSD'', pc_normalize_by_pair = None,
     pc_invert = invert, pc_metadata_json = []\<rparr>"

definition btc_index :: market where
  "btc_index = \<lparr>mk_ticker = NewTicker ''BTC'' ''USD'' 8 2 True,
     mk_provider_configs = [quote_by ''one'' False, quote_by ''two'' False, quote_by ''three'' False]\<rparr>"

definition round0 :: index_aggregator where
  "round0 = \<lparr>ia_cfg = [(''BTC/USD'', btc_index)], ia_index_prices = [], ia_scaled_prices = [],
     ia_provider_prices = [(''one'', [(''BTCUSD'', Some (bf_SetInt 100))]),
       (''two'', [(''BTCUSD'', Some (bf_SetInt 900))]), (''three'', [(''BTCUSD'', Some (bf_SetInt 101))])]\<rparr>"

lemma round0_ready: "round_ready 10 round0"
proof -
  have valid: "is_ok (MarketMap_ValidateBasic (ia_cfg round0))" by code_simp
  have wf: "gm_wf (ia_cfg round0)" by (simp add: round0_def gm_wf_def)
  have "priced 10 (bf_SetInt 100)" "priced 10 (bf_SetInt 900)" "priced 10 (bf_SetInt 101)"
    by (rule SetInt_priced; simp)+
  then have "provided_within 10 round0"
    by (auto simp: provided_within_def prices_within_def round0_def gm_get_def split: if_splits)
  then show ?thesis
    using valid wf by (simp add: round_ready_def prices_within_def) (simp add: round0_def btc_index_def)
qed

lemma round0_market: "gm_get (ia_cfg round0) ''BTC/USD'' = Some btc_index"
  by (simp add: round0_def gm_get_def)

lemma round0_adjusted: "adjusted round0 (mk_provider_configs btc_index) = [bf_SetInt 100, bf_SetInt 900, bf_SetInt 101]"
  by code_simp

lemma round0_quorum: "has_quorum round0 btc_index"
  unfolding has_quorum_def round0_adjusted by (simp add: btc_index_def NewTicker_def)

theorem aggregate_prices_spec_witness:
  "\<exists>b p. AggregatePrices round0 = (Inr (), b) \<and> gm_get (ia_index_prices b) ''BTC/USD'' = Some (Some p) \<and> p = bf_SetInt 101"
proof -
  have m: "CalculateMedian (adjusted round0 (mk_provider_configs btc_index)) = Inr (Some (bf_SetInt 101))"
    unfolding round0_adjusted by code_simp
  obtain b where b: "AggregatePrices round0 = (Inr (), b)"
    and all: "\<forall>t. case gm_get (ia_cfg round0) t of
        None \<Rightarrow> gm_get (ia_index_prices b) t = None \<and> gm_get (ia_scaled_prices b) t = None
      | Some m \<Rightarrow>
          if has_quorum round0 m
          then \<exists>p s. CalculateMedian (adjusted round0 (mk_provider_configs m)) = Inr (Some p) \<and>
            gm_get (ia_index_prices b) t = Some (Some p) \<and> gm_get (ia_scaled_prices b) t = Some (Some s) \<and>
            0 < fval p \<and>
            fval s = rnd (bf_prec p) (fval p * of_int (exp10 (sint (tk_decimals (mk_ticker m)))))
          else gm_get (ia_index_prices b) t = None \<and> gm_get (ia_scaled_prices b) t = None"
    using aggregate_prices_spec [OF round0_ready] by blast
  from all [rule_format, of "''BTC/USD''"] b m show ?thesis
    by (auto simp: round0_market round0_quorum)
qed

theorem index_price_majority_witness:
  "\<exists>b p. AggregatePrices round0 = (Inr (), b) \<and> gm_get (ia_index_prices b) ''BTC/USD'' = Some (Some p) \<and>
     100 \<le> fval p \<and> fval p \<le> 101"
proof (rule index_price_majority [OF round0_ready round0_market round0_quorum])
  show "length (adjusted round0 (mk_provider_configs btc_index)) <
      2 * length (filter (in_interval 100 101) (adjusted round0 (mk_provider_configs btc_index)))"
    unfolding round0_adjusted by (simp add: in_interval_def bf_SetInt_def)
qed

definition eth_index :: market where
  "eth_index = \<lparr>mk_ticker = NewTicker ''ETH'' ''USD'' 8 1 True, mk_provider_configs = [quote_by ''two'' True]\<rparr>"

theorem aggregation_order_independent_witness:
  "let a = round0\<lparr>ia_cfg := [(''BTC/USD'', btc_index), (''ETH/USD'', eth_index)]\<rparr>;
       b = round0\<lparr>ia_cfg := [(''ETH/USD'', eth_index), (''BTC/USD'', btc_index)]\<rparr> in
   is_ok (fst (AggregatePrices a)) \<and>
   gm_get (ia_index_prices (snd (AggregatePrices b))) = gm_get (ia_index_prices (snd (AggregatePrices a)))"
proof -
  let ?a = "round0\<lparr>ia_cfg := [(''BTC/USD'', btc_index), (''ETH/USD'', eth_index)]\<rparr>"
  let ?mm = "[(''ETH/USD'', eth_index), (''BTC/USD'', btc_index)]"
  have "gm_wf (ia_cfg ?a)" "mset ?mm = mset (ia_cfg ?a)" by (simp_all add: gm_wf_def)
  moreover have "MarketMap_ValidateBasic (ia_cfg ?a) = Inr ()" "is_ok (fst (AggregatePrices ?a))" by code_simp+
  ultimately show ?thesis using aggregation_order_independent [of ?a ?mm] by simp
qed

end
