(* ===== verification/Oracle_Config.thy ===== *)
theory Oracle_Config
  imports Prelude Kv_Store
begin

text \<open>
  \<open>oracle/config\<close>: the configuration of the sidecar and of the application, with its validation.
  Durations and sizes are 64-bit integers in the code, which only compares them. The values of the
  application options and their casts (\<open>spf13/cast\<close>), and the file reader (\<open>viper\<close>), are arguments.
\<close>

section \<open>API sources\<close>

record authentication =
  au_api_key :: string
  au_api_key_header :: string

record endpoint =
  ep_url :: string
  ep_authentication :: authentication

record api_config =
  ac_enabled :: bool
  ac_timeout :: int
  ac_interval :: int
  ac_reconnect_timeout :: int
  ac_max_queries :: int
  ac_atomic :: bool
  ac_endpoints :: "endpoint list"
  ac_batch_size :: int
  ac_name :: string
  ac_max_block_height_age :: int

definition Authentication_Enabled :: "authentication \<Rightarrow> bool" where
  "Authentication_Enabled a \<longleftrightarrow> au_api_key a \<noteq> [] \<and> au_api_key_header a \<noteq> []"

definition Authentication_ValidateBasic :: "authentication \<Rightarrow> unit res" where
  "Authentication_ValidateBasic a =
     (if au_api_key a \<noteq> [] \<and> au_api_key_header a = []
        then Inl (Errorf ''api key header cannot be empty when api key is set'')
      else if au_api_key a = [] \<and> au_api_key_header a \<noteq> []
        then Inl (Errorf ''api key cannot be empty when api key header is set'')
      else Inr ())"

definition Endpoint_ValidateBasic :: "endpoint \<Rightarrow> unit res" where
  "Endpoint_ValidateBasic e =
     (if ep_url e = [] then Inl (Errorf ''endpoint url cannot be empty'')
      else Authentication_ValidateBasic (ep_authentication e))"

definition APIConfig_ValidateBasic :: "api_config \<Rightarrow> unit res" where
  "APIConfig_ValidateBasic c =
     (if \<not> ac_enabled c then Inr ()
      else if ac_max_queries c < 1 then Inl (Errorf ''api max queries must be greater than 0'')
      else if ac_interval c \<le> 0 \<or> ac_timeout c \<le> 0 \<or> ac_reconnect_timeout c \<le> 0
        then Inl (Errorf ''provider interval, timeout and reconnect timeout must be strictly positive'')
      else if ac_name c = [] then Inl (Errorf ''provider name cannot be empty'')
      else if 0 < ac_batch_size c \<and> ac_atomic c
        then Inl (Errorf ''batch size cannot be set for atomic providers'')
      else if ac_endpoints c = [] then Inl (Errorf ''endpoints cannot be empty'')
      else bind_res (each_ok Endpoint_ValidateBasic (ac_endpoints c)) (\<lambda>_.
        if ac_max_block_height_age c < 0
          then Inl (Errorf ''max_block_height_age cannot be negative'')
        else Inr ()))"

section \<open>Websocket sources\<close>

record websocket_config =
  wc_enabled :: bool
  wc_max_buffer_size :: int
  wc_reconnection_timeout :: int
  wc_post_connection_timeout :: int
  wc_endpoints :: "endpoint list"
  wc_name :: string
  wc_read_buffer_size :: int
  wc_write_buffer_size :: int
  wc_handshake_timeout :: int
  wc_enable_compression :: bool
  wc_read_timeout :: int
  wc_write_timeout :: int
  wc_ping_interval :: int
  wc_write_interval :: int
  wc_max_read_error_count :: int
  wc_max_subscriptions_per_connection :: int
  wc_max_subscriptions_per_batch :: int

definition check_endpoint :: "nat \<times> endpoint \<Rightarrow> unit res" where
  "check_endpoint = (\<lambda>(i, e). mapErr (Wrapf ''endpoint'') (Endpoint_ValidateBasic e))"

definition WebSocketConfig_ValidateBasic :: "websocket_config \<Rightarrow> unit res" where
  "WebSocketConfig_ValidateBasic c =
     (if \<not> wc_enabled c then Inr ()
      else if wc_max_buffer_size c < 1
        then Inl (Errorf ''websocket max buffer size must be greater than 0'')
      else if wc_reconnection_timeout c \<le> 0
        then Inl (Errorf ''websocket reconnection timeout must be greater than 0'')
      else if wc_post_connection_timeout c < 0
        then Inl (Errorf ''websocket post connection timeout must be greater than 0'')
      else if wc_endpoints c = [] then Inl (Errorf ''websocket endpoints cannot be empty'')
      else bind_res (each_ok check_endpoint (List.enumerate 0 (wc_endpoints c))) (\<lambda>_.
        if wc_name c = [] then Inl (Errorf ''websocket name cannot be empty'')
        else if wc_read_buffer_size c < 0
          then Inl (Errorf ''websocket read buffer size cannot be negative'')
        else if wc_write_buffer_size c < 0
          then Inl (Errorf ''websocket write buffer size cannot be negative'')
        else if wc_handshake_timeout c \<le> 0
          then Inl (Errorf ''websocket handshake timeout must be greater than 0'')
        else if wc_read_timeout c \<le> 0
          then Inl (Errorf ''websocket read timeout must be greater than 0'')
        else if wc_write_timeout c \<le> 0
          then Inl (Errorf ''websocket write timeout must be greater than 0'')
        else if wc_ping_interval c < 0
          then Inl (Errorf ''websocket ping interval cannot be negative'')
        else if wc_write_interval c < 0
          then Inl (Errorf ''websocket write interval must be greater than 0'')
        else if wc_max_read_error_count c < 0
          then Inl (Errorf ''websocket max read error count cannot be negative'')
        else if wc_max_subscriptions_per_connection c < 0
          then Inl (Errorf ''websocket max subscriptions per connection cannot be negative'')
        else if wc_max_subscriptions_per_batch c < 1
          then Inl (Errorf ''websocket max subscriptions per batch must be greater than 0'')
        else Inr ()))"

section \<open>The sidecar\<close>

record source_config =
  sc_name :: string
  sc_api :: api_config
  sc_websocket :: websocket_config
  sc_type :: string

definition SourceConfig_ValidateBasic :: "source_config \<Rightarrow> unit res" where
  "SourceConfig_ValidateBasic c =
     (if sc_name c = [] then Inl (Errorf ''name cannot be empty'')
      else if ac_enabled (sc_api c) \<and> wc_enabled (sc_websocket c)
        then Inl (Errorf ''provider cannot be both API and websocket based'')
      else if \<not> ac_enabled (sc_api c) \<and> \<not> wc_enabled (sc_websocket c)
        then Inl (Errorf ''provider must be either API or websocket based'')
      else
        bind_res (if ac_enabled (sc_api c) then
            bind_res (mapErr (Wrapf ''api config is not formatted correctly'') (APIConfig_ValidateBasic (sc_api c))) (\<lambda>_.
            if ac_name (sc_api c) \<noteq> sc_name c then Inl (Errorf ''received api config for another provider'')
            else Inr ())
          else Inr ()) (\<lambda>_.
        bind_res (if wc_enabled (sc_websocket c) then
            bind_res (mapErr (Wrapf ''websocket config is not formatted correctly'')
              (WebSocketConfig_ValidateBasic (sc_websocket c))) (\<lambda>_.
            if wc_name (sc_websocket c) \<noteq> sc_name c then Inl (Errorf ''received websocket config for another provider'')
            else Inr ())
          else Inr ()) (\<lambda>_.
        if sc_type c = [] then Inl (Errorf ''type cannot be empty'') else Inr ())))"

record metrics_config =
  mc_prometheus_server_address :: string
  mc_enabled :: bool

definition MetricsConfig_ValidateBasic :: "metrics_config \<Rightarrow> unit res" where
  "MetricsConfig_ValidateBasic c =
     (if \<not> mc_enabled c then Inr ()
      else if mc_prometheus_server_address c = []
        then Inl (Errorf ''must supply a non-empty prometheus server address if metrics are enabled'')
      else Inr ())"

record oracle_config =
  oc_update_interval :: int
  oc_max_price_age :: int
  oc_providers :: "(string, source_config) gomap"
  oc_metrics :: metrics_config
  oc_host :: string
  oc_port :: string

definition OracleConfig_ValidateBasic :: "oracle_config \<Rightarrow> unit res" where
  "OracleConfig_ValidateBasic c =
     (if oc_update_interval c \<le> 0 then Inl (Errorf ''oracle update interval must be greater than 0'')
      else if oc_max_price_age c \<le> 0 then Inl (Errorf ''oracle max price age must be greater than 0'')
      else bind_res (each_ok (\<lambda>(_, p). mapErr (Wrapf ''provider is not formatted correctly'')
          (SourceConfig_ValidateBasic p)) (oc_providers c)) (\<lambda>_.
        if oc_host c = [] then Inl (Errorf ''oracle host cannot be empty'')
        else if oc_port c = [] then Inl (Errorf ''oracle port cannot be empty'')
        else MetricsConfig_ValidateBasic (oc_metrics c)))"

definition ReadOracleConfigFromFile :: "(string \<Rightarrow> oracle_config res) \<Rightarrow> string \<Rightarrow> oracle_config res" where
  "ReadOracleConfigFromFile viper path =
     bind_res (viper path) (\<lambda>config.
     bind_res (OracleConfig_ValidateBasic config) (\<lambda>_. Inr config))"

section \<open>The application\<close>

record app_config =
  cf_enabled :: bool
  cf_oracle_address :: string
  cf_client_timeout :: int
  cf_metrics_enabled :: bool
  cf_price_ttl :: int
  cf_interval :: int

definition second :: int where "second = 1000000000"
definition MaxInterval :: int where "MaxInterval = 60 * second"
definition MaxPriceTTL :: int where "MaxPriceTTL = 60 * second"

definition NewDefaultAppConfig :: app_config where
  "NewDefaultAppConfig = \<lparr>cf_enabled = False, cf_oracle_address = ''localhost:8080'', cf_client_timeout = 3 * second,
     cf_metrics_enabled = False, cf_price_ttl = 10 * second, cf_interval = 1500000000\<rparr>"

definition AppConfig_ValidateBasic :: "app_config \<Rightarrow> unit res" where
  "AppConfig_ValidateBasic c =
     (if \<not> cf_enabled c then Inr ()
      else if cf_oracle_address c = [] then Inl (Errorf ''oracle address must not be empty'')
      else if cf_client_timeout c \<le> 0 then Inl (Errorf ''oracle client timeout must be greater than 0'')
      else if cf_price_ttl c \<le> 0 \<or> MaxPriceTTL < cf_price_ttl c
        then Inl (Errorf ''oracle price time to live (price_ttl) must be between 0 and the maximum'')
      else if cf_interval c \<le> 0 \<or> MaxInterval < cf_interval c
        then Inl (Errorf ''oracle interval must be between 0 and the maximum'')
      else if cf_price_ttl c \<le> cf_interval c
        then Inl (Errorf ''oracle interval must be strictly less than max age'')
      else Inr ())"

record 'v casts =
  to_bool :: "'v \<Rightarrow> bool res"
  to_string :: "'v \<Rightarrow> string res"
  to_duration :: "'v \<Rightarrow> int res"

text \<open>A computation on the configuration that is read: it is returned with the error. One option that
  is set is cast; \<open>upd\<close> stores the value.\<close>

definition read_opt ::
    "'v option \<Rightarrow> ('v \<Rightarrow> 'a res) \<Rightarrow> (go_error \<Rightarrow> go_error) \<Rightarrow> ('a \<Rightarrow> app_config \<Rightarrow> app_config) \<Rightarrow> (app_config, unit) comp" where
  "read_opt v cast wrap upd =
     (case v of None \<Rightarrow> returnC ()
      | Some x \<Rightarrow> bindC (mapErrC wrap (liftC (cast x))) (\<lambda>a. modifyC (upd a)))"

definition ReadConfigFromAppOpts :: "(string \<Rightarrow> 'v option) \<Rightarrow> 'v casts \<Rightarrow> unit res \<times> app_config" where
  "ReadConfigFromAppOpts opts c =
     bindC (read_opt (opts ''oracle.enabled'') (to_bool c) (\<lambda>e. e) (\<lambda>b cfg. cfg\<lparr>cf_enabled := b\<rparr>)) (\<lambda>_.
     bindC (\<lambda>cfg. (Inr (cf_enabled cfg), cfg)) (\<lambda>enabled.
     if \<not> enabled then returnC ()
     else
       bindC (read_opt (opts ''oracle.oracle_address'') (to_string c)
         (\<lambda>_. Errorf ''oracle address must be a non-empty string'')
         (\<lambda>a cfg. if a \<noteq> [] then cfg\<lparr>cf_oracle_address := a\<rparr> else cfg)) (\<lambda>_.
       bindC (read_opt (opts ''oracle.client_timeout'') (to_duration c)
         (\<lambda>_. Errorf ''client timeout must be a positive duration'')
         (\<lambda>d cfg. if 0 < d then cfg\<lparr>cf_client_timeout := d\<rparr> else cfg)) (\<lambda>_.
       bindC (read_opt (opts ''oracle.metrics_enabled'') (to_bool c) (\<lambda>e. e)
         (\<lambda>b cfg. cfg\<lparr>cf_metrics_enabled := b\<rparr>)) (\<lambda>_.
       bindC (read_opt (opts ''oracle.price_ttl'') (to_duration c)
         (\<lambda>_. Errorf ''price ttl must be a positive duration'')
         (\<lambda>d cfg. if 0 < d then cfg\<lparr>cf_price_ttl := d\<rparr> else cfg)) (\<lambda>_.
       bindC (read_opt (opts ''oracle.interval'') (to_duration c)
         (\<lambda>_. Errorf ''interval must be a positive duration'')
         (\<lambda>d cfg. if 0 < d then cfg\<lparr>cf_interval := d\<rparr> else cfg)) (\<lambda>_.
       readC AppConfig_ValidateBasic))))))) NewDefaultAppConfig"

end
