(* ===== verification/Base_Provider.thy ===== *)
theory Base_Provider
  imports Oracle_Config
begin

text \<open>
  \<open>providers/base\<close> and \<open>providers/types\<close>: the provider every source of data is built on. It keeps the
  latest result of each of its ids; the fetch loop, in a goroutine, hands it responses. The handlers
  that query the outside are values the provider only stores and calls. Timestamps are instants.
  Contexts (package \<open>context\<close>) are numbered; a context is done when it or an ancestor is cancelled.
\<close>

section \<open>Contexts\<close>

record context_node =
  ct_parent :: "nat option"
  ct_cancelled :: bool

type_synonym contexts = "context_node list"

function ctx_done :: "contexts \<Rightarrow> nat \<Rightarrow> bool" where
  "ctx_done cs c \<longleftrightarrow> c < length cs \<and>
     (ct_cancelled (cs ! c) \<or>
      (case ct_parent (cs ! c) of None \<Rightarrow> False | Some p \<Rightarrow> if p < c then ctx_done cs p else False))"
  by pat_completeness auto
termination
  by (relation "measure snd") (auto split: if_splits)

declare ctx_done.simps [simp del]

definition WithCancel :: "nat \<Rightarrow> contexts \<Rightarrow> nat \<times> contexts" where
  "WithCancel parent cs = (length cs, cs @ [\<lparr>ct_parent = Some parent, ct_cancelled = False\<rparr>])"

definition cancel_ctx :: "nat \<Rightarrow> contexts \<Rightarrow> contexts" where
  "cancel_ctx c cs = cs[c := (cs ! c)\<lparr>ct_cancelled := True\<rparr>]"

section \<open>Responses\<close>

text \<open>A response code is an \<open>int\<close>; an unresolved result keeps its error code.\<close>

definition ResponseCodeOK :: int where "ResponseCodeOK = 0"
definition ResponseCodeUnchanged :: int where "ResponseCodeUnchanged = 1"

record 'v resolved_result =
  rr_value :: 'v
  rr_timestamp :: int
  rr_code :: int

record ('k, 'v) get_response =
  gr_resolved :: "('k, 'v resolved_result) gomap"
  gr_unresolved :: "('k, int) gomap"

text \<open>A nil map is replaced by an empty one, which the model does not tell apart.\<close>

definition NewGetResponse :: "('k, 'v resolved_result) gomap \<Rightarrow> ('k, int) gomap \<Rightarrow> ('k, 'v) get_response" where
  "NewGetResponse resolved unresolved = \<lparr>gr_resolved = resolved, gr_unresolved = unresolved\<rparr>"

definition NewGetResponseWithErr :: "'k list \<Rightarrow> int \<Rightarrow> ('k, 'v) get_response" where
  "NewGetResponseWithErr ids code =
     \<lparr>gr_resolved = [], gr_unresolved = fold (\<lambda>i m. gm_set i code m) ids []\<rparr>"

definition NewResult :: "'v \<Rightarrow> int \<Rightarrow> 'v resolved_result" where
  "NewResult value timestamp = \<lparr>rr_value = value, rr_timestamp = timestamp, rr_code = ResponseCodeOK\<rparr>"

definition NewResultWithCode :: "'v \<Rightarrow> int \<Rightarrow> int \<Rightarrow> 'v resolved_result" where
  "NewResultWithCode value timestamp code = \<lparr>rr_value = value, rr_timestamp = timestamp, rr_code = code\<rparr>"

section \<open>The provider\<close>

datatype provider_type = API | WebSockets | UnknownType

record ('k, 'v, 'h) base_provider =
  bp_name :: string
  bp_api :: "'h option"
  bp_api_cfg :: api_config
  bp_ws :: "'h option"
  bp_ws_cfg :: websocket_config
  bp_data :: "('k, 'v resolved_result) gomap"
  bp_ids :: "'k list"
  bp_main_ctx :: "nat option"
  bp_fetch_ctx :: "nat option"
  bp_response_ch :: "nat option"

definition zero_api_config :: api_config where
  "zero_api_config = \<lparr>ac_enabled = False, ac_timeout = 0, ac_interval = 0, ac_reconnect_timeout = 0,
     ac_max_queries = 0, ac_atomic = False, ac_endpoints = [], ac_batch_size = 0, ac_name = [],
     ac_max_block_height_age = 0\<rparr>"

definition zero_websocket_config :: websocket_config where
  "zero_websocket_config = \<lparr>wc_enabled = False, wc_max_buffer_size = 0, wc_reconnection_timeout = 0,
     wc_post_connection_timeout = 0, wc_endpoints = [], wc_name = [], wc_read_buffer_size = 0,
     wc_write_buffer_size = 0, wc_handshake_timeout = 0, wc_enable_compression = False,
     wc_read_timeout = 0, wc_write_timeout = 0, wc_ping_interval = 0, wc_write_interval = 0,
     wc_max_read_error_count = 0, wc_max_subscriptions_per_connection = 0,
     wc_max_subscriptions_per_batch = 0\<rparr>"

definition Type :: "('k, 'v, 'h) base_provider \<Rightarrow> provider_type" where
  "Type p = (if ac_enabled (bp_api_cfg p) then API
     else if wc_enabled (bp_ws_cfg p) then WebSockets else UnknownType)"

subsection \<open>Options and constructor\<close>

text \<open>An option changes the provider or panics. Handlers, ids and metrics may be nil.\<close>

type_synonym ('k, 'v, 'h) provider_option = "('k, 'v, 'h) base_provider \<Rightarrow> ('k, 'v, 'h) base_provider res"

definition WithName :: "string \<Rightarrow> ('k, 'v, 'h) provider_option" where
  "WithName name p = (if name = [] then Inl (Panic ''cannot set empty name'') else Inr (p\<lparr>bp_name := name\<rparr>))"

definition WithAPIQueryHandler :: "'h option \<Rightarrow> ('k, 'v, 'h) provider_option" where
  "WithAPIQueryHandler api p =
     (if bp_api p \<noteq> None then Inl (Panic ''cannot set api query handler twice'')
      else if api = None then Inl (Panic ''cannot set nil api query handler'')
      else Inr (p\<lparr>bp_api := api\<rparr>))"

definition WithAPIConfig :: "api_config \<Rightarrow> ('k, 'v, 'h) provider_option" where
  "WithAPIConfig cfg p =
     (if \<not> is_ok (APIConfig_ValidateBasic cfg) then Inl (Panic ''invalid api config'')
      else Inr (p\<lparr>bp_api_cfg := cfg\<rparr>))"

definition WithWebSocketQueryHandler :: "'h option \<Rightarrow> ('k, 'v, 'h) provider_option" where
  "WithWebSocketQueryHandler ws p =
     (if bp_ws p \<noteq> None then Inl (Panic ''cannot set websocket query handler twice'')
      else if ws = None then Inl (Panic ''cannot set nil websocket query handler'')
      else Inr (p\<lparr>bp_ws := ws\<rparr>))"

definition WithWebSocketConfig :: "websocket_config \<Rightarrow> ('k, 'v, 'h) provider_option" where
  "WithWebSocketConfig cfg p =
     (if \<not> is_ok (WebSocketConfig_ValidateBasic cfg) then Inl (Panic ''invalid websocket config'')
      else Inr (p\<lparr>bp_ws_cfg := cfg\<rparr>))"

definition WithIDs :: "'k list option \<Rightarrow> ('k, 'v, 'h) provider_option" where
  "WithIDs ids p = (case ids of None \<Rightarrow> Inl (Panic ''cannot set nil ids'') | Some is \<Rightarrow> Inr (p\<lparr>bp_ids := is\<rparr>))"

fun apply_options :: "('k, 'v, 'h) provider_option list \<Rightarrow> ('k, 'v, 'h) provider_option" where
  "apply_options [] p = Inr p"
| "apply_options (opt # opts) p = bind_res (opt p) (apply_options opts)"

definition new_provider :: "('k, 'v, 'h) base_provider" where
  "new_provider = \<lparr>bp_name = [], bp_api = None, bp_api_cfg = zero_api_config, bp_ws = None,
     bp_ws_cfg = zero_websocket_config, bp_data = [], bp_ids = [], bp_main_ctx = None,
     bp_fetch_ctx = None, bp_response_ch = None\<rparr>"

definition NewProvider :: "('k, 'v, 'h) provider_option list \<Rightarrow> ('k, 'v, 'h) base_provider res" where
  "NewProvider opts =
     bind_res (apply_options opts new_provider) (\<lambda>p.
     if bp_api p \<noteq> None \<and> bp_ws p \<noteq> None then Inl (Errorf ''cannot configure both api and websocket'')
     else if bp_api p = None \<and> bp_ws p = None then Inl (Errorf ''must configure either api or websocket'')
     else if \<not> is_ok (APIConfig_ValidateBasic (bp_api_cfg p)) then Inl (Errorf ''invalid api config'')
     else if \<not> is_ok (WebSocketConfig_ValidateBasic (bp_ws_cfg p)) then Inl (Errorf ''invalid websocket config'')
     else Inr p)"

subsection \<open>Data\<close>

text \<open>A result older than the current one is dropped; one that says unchanged moves the timestamp only.\<close>

definition updateData :: "'k \<Rightarrow> 'v resolved_result \<Rightarrow> ('k, 'v resolved_result) gomap \<Rightarrow> ('k, 'v resolved_result) gomap" where
  "updateData i result data =
     (case gm_get data i of
        None \<Rightarrow> if rr_code result = ResponseCodeUnchanged then data else gm_set i result data
      | Some current \<Rightarrow>
          if rr_timestamp result < rr_timestamp current then data
          else if rr_code result = ResponseCodeUnchanged
            then gm_set i (current\<lparr>rr_timestamp := rr_timestamp result\<rparr>) data
          else gm_set i result data)"

text \<open>One response taken from the channel by \<open>recv\<close>, in the iteration order of its map.\<close>

definition receive :: "('k, 'v) get_response \<Rightarrow> ('k, 'v, 'h) base_provider \<Rightarrow> ('k, 'v, 'h) base_provider" where
  "receive r p = p\<lparr>bp_data := fold (\<lambda>(i, result) data. updateData i result data) (gr_resolved r) (bp_data p)\<rparr>"

definition GetData :: "('k, 'v, 'h) base_provider \<Rightarrow> ('k, 'v resolved_result) gomap" where
  "GetData p = bp_data p"

definition GetIDs :: "('k, 'v, 'h) base_provider \<Rightarrow> 'k list" where
  "GetIDs p = bp_ids p"

subsection \<open>Updates, running and stopping\<close>

definition setIDs :: "'k list \<Rightarrow> ('k, 'v, 'h) base_provider \<Rightarrow> ('k, 'v, 'h) base_provider" where
  "setIDs ids p = p\<lparr>bp_ids := ids\<rparr>"

definition setAPIHandler :: "'h option \<Rightarrow> ('k, 'v, 'h) provider_option" where
  "setAPIHandler api p =
     (if Type p \<noteq> API then Inl (Panic ''cannot set api handler for non-api provider'')
      else Inr (p\<lparr>bp_api := api\<rparr>))"

definition GetAPIHandler :: "('k, 'v, 'h) base_provider \<Rightarrow> 'h option res" where
  "GetAPIHandler p =
     (if Type p \<noteq> API then Inl (Panic ''cannot get api handler for non-api provider'') else Inr (bp_api p))"

definition setWebSocketHandler :: "'h option \<Rightarrow> ('k, 'v, 'h) provider_option" where
  "setWebSocketHandler ws p =
     (if Type p \<noteq> WebSockets then Inl (Panic ''cannot set websocket handler for non-websocket provider'')
      else Inr (p\<lparr>bp_ws := ws\<rparr>))"

definition GetWebSocketHandler :: "('k, 'v, 'h) base_provider \<Rightarrow> 'h option res" where
  "GetWebSocketHandler p =
     (if Type p \<noteq> WebSockets then Inl (Panic ''cannot get websocket handler for non-websocket provider'')
      else Inr (bp_ws p))"

text \<open>The operations below also change the contexts. \<open>Update\<close> applies its options and cancels the fetch
  context, if there is one.\<close>

definition Update ::
    "('k, 'v, 'h) provider_option list \<Rightarrow> ('k, 'v, 'h) base_provider \<Rightarrow> contexts \<Rightarrow>
     (('k, 'v, 'h) base_provider \<times> contexts) res" where
  "Update opts p cs =
     bind_res (apply_options opts p) (\<lambda>q.
     Inr (q, case bp_fetch_ctx q of None \<Rightarrow> cs | Some f \<Rightarrow> cancel_ctx f cs))"

definition WithNewIDs :: "'k list \<Rightarrow> ('k, 'v, 'h) provider_option" where
  "WithNewIDs ids p = Inr (setIDs ids p)"

definition WithNewAPIHandler :: "'h option \<Rightarrow> ('k, 'v, 'h) provider_option" where
  "WithNewAPIHandler api p = setAPIHandler api p"

definition WithNewWebSocketHandler :: "'h option \<Rightarrow> ('k, 'v, 'h) provider_option" where
  "WithNewWebSocketHandler ws p = setWebSocketHandler ws p"

definition Stop :: "('k, 'v, 'h) base_provider \<Rightarrow> contexts \<Rightarrow> contexts" where
  "Stop p cs = (case bp_main_ctx p of None \<Rightarrow> cs | Some m \<Rightarrow> if ctx_done cs m then cs else cancel_ctx m cs)"

definition IsRunning :: "('k, 'v, 'h) base_provider \<Rightarrow> contexts \<Rightarrow> bool" where
  "IsRunning p cs = (case bp_main_ctx p of None \<Rightarrow> False | Some m \<Rightarrow> \<not> ctx_done cs m)"

definition setMainCtx ::
    "nat \<Rightarrow> ('k, 'v, 'h) base_provider \<Rightarrow> contexts \<Rightarrow> ('k, 'v, 'h) base_provider \<times> contexts" where
  "setMainCtx parent p cs = (case WithCancel parent cs of (m, cs') \<Rightarrow> (p\<lparr>bp_main_ctx := Some m\<rparr>, cs'))"

definition setFetchCtx ::
    "nat \<Rightarrow> ('k, 'v, 'h) base_provider \<Rightarrow> contexts \<Rightarrow> ('k, 'v, 'h) base_provider \<times> contexts" where
  "setFetchCtx parent p cs = (case WithCancel parent cs of (f, cs') \<Rightarrow> (p\<lparr>bp_fetch_ctx := Some f\<rparr>, cs'))"

end
