(* ===== verification/Provider_Lifecycle.thy ===== *)
theory Provider_Lifecycle
  imports Base_Provider
begin

text \<open>
  The goroutines of \<open>Provider.Start\<close> (\<open>providers/base/provider.go\<close>, \<open>fetch.go\<close>, \<open>utils.go\<close>) as a step
  relation. A call of \<open>Start\<close> is a thread with the main context it created and a place in its loop:
  at the head, with its fetch and receive routines running on a fetch context, or waiting for them.
  The provider, its contexts and its channels are shared by the threads. Steps are what happens under
  one lock or between two blocking points; any thread may move, and so may the oracle, which updates,
  stops and starts the provider, and the parent context.
\<close>

datatype place = Head | Fetching nat | Waiting | Exited

record start_thread =
  th_main :: nat
  th_place :: place

record ('k, 'v, 'h) life =
  lf_provider :: "('k, 'v, 'h) base_provider"
  lf_contexts :: contexts
  lf_channels :: nat
  lf_closed :: "nat list"
  lf_threads :: "start_thread list"
  lf_crashed :: bool

text \<open>\<open>Start\<close> with a context: it creates the main context of the provider, a child of the caller's.\<close>

definition begin_start :: "nat \<Rightarrow> ('k, 'v, 'h) life \<Rightarrow> ('k, 'v, 'h) life" where
  "begin_start parent s =
     (case setMainCtx parent (lf_provider s) (lf_contexts s) of (p, cs) \<Rightarrow>
      s\<lparr>lf_provider := p, lf_contexts := cs,
        lf_threads := lf_threads s @ [\<lparr>th_main = length (lf_contexts s), th_place = Head\<rparr>]\<rparr>)"

definition set_place :: "nat \<Rightarrow> place \<Rightarrow> ('k, 'v, 'h) life \<Rightarrow> ('k, 'v, 'h) life" where
  "set_place i pl s = s\<lparr>lf_threads := (lf_threads s)[i := (lf_threads s ! i)\<lparr>th_place := pl\<rparr>]\<rparr>"

text \<open>Leaving \<open>Start\<close> runs the deferred \<open>mainCancel\<close> of the thread.\<close>

definition leave :: "nat \<Rightarrow> ('k, 'v, 'h) life \<Rightarrow> ('k, 'v, 'h) life" where
  "leave i s = set_place i Exited (s\<lparr>lf_contexts := cancel_ctx (th_main (lf_threads s ! i)) (lf_contexts s)\<rparr>)"

text \<open>\<open>createResponseCh\<close>: a new channel, unless the provider has no type.\<close>

definition createResponseCh :: "('k, 'v, 'h) life \<Rightarrow> ('k, 'v, 'h) life res" where
  "createResponseCh s =
     (if Type (lf_provider s) = UnknownType then Inl (Errorf ''no api or websocket configured'')
      else Inr (s\<lparr>lf_provider := (lf_provider s)\<lparr>bp_response_ch := Some (lf_channels s)\<rparr>,
                  lf_channels := lf_channels s + 1\<rparr>))"

definition loop_head :: "nat \<Rightarrow> ('k, 'v, 'h) life \<Rightarrow> ('k, 'v, 'h) life" where
  "loop_head i s =
     (if GetIDs (lf_provider s) = [] then leave i s
      else case createResponseCh s of
        Inl e \<Rightarrow> leave i s
      | Inr s1 \<Rightarrow>
          (case setFetchCtx (th_main (lf_threads s ! i)) (lf_provider s1) (lf_contexts s1) of (p, cs) \<Rightarrow>
           set_place i (Fetching (length (lf_contexts s1))) (s1\<lparr>lf_provider := p, lf_contexts := cs\<rparr>)))"

text \<open>The fetch routine closes the channel the provider has then; closing a closed channel crashes.\<close>

definition close_channel :: "('k, 'v, 'h) life \<Rightarrow> ('k, 'v, 'h) life" where
  "close_channel s =
     (case bp_response_ch (lf_provider s) of
        None \<Rightarrow> s\<lparr>lf_crashed := True\<rparr>
      | Some c \<Rightarrow> if c \<in> set (lf_closed s) then s\<lparr>lf_crashed := True\<rparr> else s\<lparr>lf_closed := c # lf_closed s\<rparr>)"

definition fetch_exit :: "nat \<Rightarrow> nat \<Rightarrow> ('k, 'v, 'h) life \<Rightarrow> ('k, 'v, 'h) life" where
  "fetch_exit i f s = set_place i Waiting (close_channel (s\<lparr>lf_contexts := cancel_ctx f (lf_contexts s)\<rparr>))"

text \<open>After the routines: the loop ends when the main context the provider has then is done.\<close>

definition after_wait :: "nat \<Rightarrow> ('k, 'v, 'h) life \<Rightarrow> ('k, 'v, 'h) life" where
  "after_wait i s =
     (if IsRunning (lf_provider s) (lf_contexts s) then set_place i Head s else leave i s)"

definition update_ids :: "'k list \<Rightarrow> ('k, 'v, 'h) life \<Rightarrow> ('k, 'v, 'h) life" where
  "update_ids ids s =
     (case Update [WithNewIDs ids] (lf_provider s) (lf_contexts s) of
        Inl _ \<Rightarrow> s | Inr (p, cs) \<Rightarrow> s\<lparr>lf_provider := p, lf_contexts := cs\<rparr>)"

definition stop :: "('k, 'v, 'h) life \<Rightarrow> ('k, 'v, 'h) life" where
  "stop s = s\<lparr>lf_contexts := Stop (lf_provider s) (lf_contexts s)\<rparr>"

abbreviation at :: "('k, 'v, 'h) life \<Rightarrow> nat \<Rightarrow> place \<Rightarrow> bool" where
  "at s i pl \<equiv> i < length (lf_threads s) \<and> th_place (lf_threads s ! i) = pl"

text \<open>
  The steps. \<open>allowed\<close> says when \<open>Start\<close> may be called. A fetch routine returns only when its context
  is done; a receive routine may take a response until it notices that, also after the fetch routine
  returned.
\<close>

inductive life_step ::
    "(('k, 'v, 'h) life \<Rightarrow> bool) \<Rightarrow> ('k, 'v, 'h) life \<Rightarrow> ('k, 'v, 'h) life \<Rightarrow> bool"
  for allowed where
  start: "\<not> lf_crashed s \<Longrightarrow> allowed s \<Longrightarrow> parent < length (lf_contexts s) \<Longrightarrow>
    life_step allowed s (begin_start parent s)"
| head: "\<not> lf_crashed s \<Longrightarrow> at s i Head \<Longrightarrow> life_step allowed s (loop_head i s)"
| recv: "\<not> lf_crashed s \<Longrightarrow> at s i (Fetching f) \<or> at s i Waiting \<Longrightarrow>
    life_step allowed s (s\<lparr>lf_provider := receive r (lf_provider s)\<rparr>)"
| fetched: "\<not> lf_crashed s \<Longrightarrow> at s i (Fetching f) \<Longrightarrow> ctx_done (lf_contexts s) f \<Longrightarrow>
    life_step allowed s (fetch_exit i f s)"
| waited: "\<not> lf_crashed s \<Longrightarrow> at s i Waiting \<Longrightarrow> life_step allowed s (after_wait i s)"
| update: "\<not> lf_crashed s \<Longrightarrow> life_step allowed s (update_ids ids s)"
| stopped: "\<not> lf_crashed s \<Longrightarrow> life_step allowed s (stop s)"
| cancelled: "\<not> lf_crashed s \<Longrightarrow> c < length (lf_contexts s) \<Longrightarrow> ct_parent (lf_contexts s ! c) = None \<Longrightarrow>
    life_step allowed s (s\<lparr>lf_contexts := cancel_ctx c (lf_contexts s)\<rparr>)"

definition fresh_life :: "('k, 'v, 'h) life \<Rightarrow> bool" where
  "fresh_life s \<longleftrightarrow> lf_threads s = [] \<and> lf_closed s = [] \<and> lf_channels s = 0 \<and> \<not> lf_crashed s \<and>
     bp_data (lf_provider s) = [] \<and> bp_main_ctx (lf_provider s) = None \<and>
     bp_fetch_ctx (lf_provider s) = None \<and> bp_response_ch (lf_provider s) = None \<and>
     lf_contexts s = [\<lparr>ct_parent = None, ct_cancelled = False\<rparr>]"

inductive life_reach :: "(('k, 'v, 'h) life \<Rightarrow> bool) \<Rightarrow> ('k, 'v, 'h) life \<Rightarrow> bool" for allowed where
  init: "fresh_life s \<Longrightarrow> life_reach allowed s"
| step: "life_reach allowed s \<Longrightarrow> life_step allowed s t \<Longrightarrow> life_reach allowed t"

text \<open>The oracle starts a provider that \<open>IsRunning\<close> denies to run; a single user of the provider
  would start it when every former call of \<open>Start\<close> has returned.\<close>

definition not_running :: "('k, 'v, 'h) life \<Rightarrow> bool" where
  "not_running s \<longleftrightarrow> \<not> IsRunning (lf_provider s) (lf_contexts s)"

definition all_returned :: "('k, 'v, 'h) life \<Rightarrow> bool" where
  "all_returned s \<longleftrightarrow> (\<forall>th \<in> set (lf_threads s). th_place th = Exited)"

end
