(* ===== verification/Provider_Properties.thy ===== *)
theory Provider_Properties
  imports Provider_Lifecycle
begin

text \<open>
  What the goroutines of a provider keep: with one call of \<open>Start\<close> at a time nothing crashes and a
  running provider has exactly one live call; with the oracle's discipline, which only asks
  \<open>IsRunning\<close>, two calls can be live at once and one closes the other's channel. The stored results
  only move forward in time and come from responses.
\<close>

section \<open>Contexts\<close>

lemma ctx_done_append [simp]: "c < length cs \<Longrightarrow> ctx_done (cs @ ds) c = ctx_done cs c"
proof (induction c rule: less_induct)
  case (less c)
  show ?case
    unfolding ctx_done.simps [of "cs @ ds" c] ctx_done.simps [of cs c]
    using less by (auto simp: nth_append split: option.splits)
qed

lemma cancel_ctx_nth [simp]:
  "d < length cs \<Longrightarrow> ct_parent (cancel_ctx c cs ! d) = ct_parent (cs ! d)"
  "d < length cs \<Longrightarrow> ct_cancelled (cancel_ctx c cs ! d) \<longleftrightarrow> d = c \<or> ct_cancelled (cs ! d)"
  by (cases "c < length cs"; auto simp: cancel_ctx_def nth_list_update)+

lemma length_cancel [simp]: "length (cancel_ctx c cs) = length cs"
  by (simp add: cancel_ctx_def)

lemma ctx_done_cancel: "ctx_done cs d \<Longrightarrow> ctx_done (cancel_ctx c cs) d"
proof (induction d rule: less_induct)
  case (less d)
  show ?case
    using less.prems less.IH
    unfolding ctx_done.simps [of "cancel_ctx c cs" d] ctx_done.simps [of cs d]
    by (auto split: option.splits if_splits)
qed

lemma cancel_done [simp]: "c < length cs \<Longrightarrow> ctx_done (cancel_ctx c cs) c"
  by (subst ctx_done.simps) simp

section \<open>One call at a time\<close>

definition alive :: "('k, 'v, 'h) life \<Rightarrow> nat \<Rightarrow> bool" where
  "alive s i \<longleftrightarrow> i < length (lf_threads s) \<and> th_place (lf_threads s ! i) \<noteq> Exited"

definition life_inv :: "('k, 'v, 'h) life \<Rightarrow> bool" where
  "life_inv s \<longleftrightarrow> \<not> lf_crashed s \<and> (\<forall>c \<in> set (lf_closed s). c < lf_channels s) \<and>
     (\<forall>m. bp_main_ctx (lf_provider s) = Some m \<longrightarrow> m < length (lf_contexts s)) \<and>
     (\<forall>i. alive s i \<longrightarrow> Suc i = length (lf_threads s) \<and> bp_main_ctx (lf_provider s) = Some (th_main (lf_threads s ! i)) \<and>
        (\<forall>f. th_place (lf_threads s ! i) = Fetching f \<longrightarrow>
           (\<exists>c. bp_response_ch (lf_provider s) = Some c \<and> c < lf_channels s \<and> c \<notin> set (lf_closed s)))) \<and>
     ((\<forall>i. \<not> alive s i) \<longrightarrow> \<not> IsRunning (lf_provider s) (lf_contexts s))"

lemma all_returned_alive: "all_returned s \<longleftrightarrow> (\<forall>i. \<not> alive s i)"
  by (auto simp: all_returned_def alive_def all_set_conv_all_nth)

lemma inv_start:
  assumes "life_inv s" "all_returned s"
  shows "life_inv (begin_start parent s)"
  using assms unfolding all_returned_alive
  by (auto simp: life_inv_def begin_start_def setMainCtx_def WithCancel_def alive_def nth_append less_Suc_eq
      split: if_splits)

lemma IsRunning_cancel: "IsRunning p (cancel_ctx c cs) \<Longrightarrow> IsRunning p cs"
  using ctx_done_cancel by (auto simp: IsRunning_def split: option.splits)

lemma inv_contexts:
  assumes "life_inv s" "length cs = length (lf_contexts s)"
    "IsRunning (lf_provider s) cs \<Longrightarrow> IsRunning (lf_provider s) (lf_contexts s)"
  shows "life_inv (s\<lparr>lf_contexts := cs\<rparr>)"
  using assms by (auto simp: life_inv_def alive_def)

lemma life_inv_alive:
  assumes "life_inv s" "alive s i"
  shows "alive s j \<longleftrightarrow> j = i" "bp_main_ctx (lf_provider s) = Some (th_main (lf_threads s ! i))"
    "th_main (lf_threads s ! i) < length (lf_contexts s)" "Suc i = length (lf_threads s)"
proof -
  have *: "Suc k = length (lf_threads s) \<and> bp_main_ctx (lf_provider s) = Some (th_main (lf_threads s ! k))"
    if "alive s k" for k using assms(1) that by (simp add: life_inv_def)
  show "alive s j \<longleftrightarrow> j = i" using *[of i] *[of j] assms(2) by auto
  show "bp_main_ctx (lf_provider s) = Some (th_main (lf_threads s ! i))" "Suc i = length (lf_threads s)"
    using * assms(2) by simp_all
  then show "th_main (lf_threads s ! i) < length (lf_contexts s)"
    using assms(1) by (simp add: life_inv_def)
qed

lemma alive_set_place: "alive s i \<Longrightarrow> alive (set_place i pl s) j \<longleftrightarrow> (if j = i then pl \<noteq> Exited else alive s j)"
  by (auto simp: alive_def set_place_def nth_list_update)

lemma set_place_simps [simp]:
  "lf_provider (set_place i pl s) = lf_provider s" "lf_contexts (set_place i pl s) = lf_contexts s"
  "lf_channels (set_place i pl s) = lf_channels s" "lf_closed (set_place i pl s) = lf_closed s"
  "lf_crashed (set_place i pl s) = lf_crashed s" "length (lf_threads (set_place i pl s)) = length (lf_threads s)"
  "i < length (lf_threads s) \<Longrightarrow> th_place (lf_threads (set_place i pl s) ! i) = pl"
  "i < length (lf_threads s) \<Longrightarrow> th_main (lf_threads (set_place i pl s) ! i) = th_main (lf_threads s ! i)"
  by (simp_all add: set_place_def)

text \<open>The invariant after a step of the only live thread \<open>i\<close>.\<close>

lemma inv_move:
  assumes "life_inv s" "alive s i" "lf_threads t = lf_threads (set_place i pl s)" "\<not> lf_crashed t"
    "\<forall>c \<in> set (lf_closed t). c < lf_channels t" "bp_main_ctx (lf_provider t) = bp_main_ctx (lf_provider s)"
    "length (lf_contexts s) \<le> length (lf_contexts t)"
    "\<And>f. pl = Fetching f \<Longrightarrow> \<exists>c. bp_response_ch (lf_provider t) = Some c \<and> c < lf_channels t \<and> c \<notin> set (lf_closed t)"
    "pl = Exited \<Longrightarrow> \<not> IsRunning (lf_provider t) (lf_contexts t)"
  shows "life_inv t"
proof -
  note i = life_inv_alive [OF assms(1,2)]
  have len: "i < length (lf_threads s)" using assms(2) by (simp add: alive_def)
  have al: "alive t j \<longleftrightarrow> j = i \<and> pl \<noteq> Exited" for j
    using alive_set_place [OF assms(2), of pl j] i(1) [of j] assms(3) by (auto simp: alive_def)
  have main: "bp_main_ctx (lf_provider t) = Some (th_main (lf_threads t ! i))"
    and place: "th_place (lf_threads t ! i) = pl" and len': "Suc i = length (lf_threads t)"
    using i len assms(3,6) by simp_all
  show ?thesis
    unfolding life_inv_def al using assms(4-9) main place len' i len by (auto simp: assms(3))
qed

lemma inv_leave:
  assumes "life_inv s" "alive s i"
  shows "life_inv (leave i s)"
proof (rule inv_move [OF assms])
  note i = life_inv_alive [OF assms]
  have "leave i s = set_place i Exited (s\<lparr>lf_contexts := cancel_ctx (th_main (lf_threads s ! i)) (lf_contexts s)\<rparr>)"
    by (simp add: leave_def)
  then show "lf_threads (leave i s) = lf_threads (set_place i Exited s)" by (simp add: set_place_def)
  show "\<not> IsRunning (lf_provider (leave i s)) (lf_contexts (leave i s))"
    using i(2,3) by (simp add: leave_def IsRunning_def)
qed (use assms(1) in \<open>auto simp: leave_def life_inv_def\<close>)

lemma inv_loop_head:
  assumes "life_inv s" "at s i Head"
  shows "life_inv (loop_head i s)"
proof -
  have al: "alive s i" using assms(2) by (simp add: alive_def)
  show ?thesis
  proof (cases "GetIDs (lf_provider s) = [] \<or> Type (lf_provider s) = UnknownType")
    case True
    then show ?thesis using inv_leave [OF assms(1) al] by (auto simp: loop_head_def createResponseCh_def)
  next
    case False
    have "\<forall>c \<in> set (lf_closed s). c < lf_channels s" using assms(1) by (simp add: life_inv_def)
    with False show ?thesis
      using assms(1)
      by (intro inv_move [OF assms(1) al, of _ "Fetching (length (lf_contexts s))"])
        (auto simp: loop_head_def createResponseCh_def setFetchCtx_def WithCancel_def set_place_def life_inv_def)
  qed
qed

lemma inv_fetch_exit:
  assumes "life_inv s" "at s i (Fetching f)"
  shows "life_inv (fetch_exit i f s)"
proof -
  have al: "alive s i" using assms(2) by (simp add: alive_def)
  then obtain c where c: "bp_response_ch (lf_provider s) = Some c" "c < lf_channels s" "c \<notin> set (lf_closed s)"
    using assms by (auto simp: life_inv_def)
  then show ?thesis
    using assms(1)
    by (intro inv_move [OF assms(1) al, of _ Waiting])
      (auto simp: fetch_exit_def close_channel_def set_place_def life_inv_def)
qed

lemma inv_to_head:
  assumes "life_inv s" "alive s i"
  shows "life_inv (set_place i Head s)"
  using assms(1) by (intro inv_move [OF assms]) (auto simp: life_inv_def)

lemma inv_step:
  assumes "life_step all_returned s t" "life_inv s"
  shows "life_inv t"
  using assms
proof cases
  case (start parent)
  then show ?thesis using inv_start assms(2) by blast
next
  case (head i)
  then show ?thesis using inv_loop_head assms(2) by blast
next
  case (recv i f r)
  then show ?thesis using assms(2) by (simp add: life_inv_def alive_def IsRunning_def receive_def)
next
  case (fetched i f)
  then show ?thesis using inv_fetch_exit assms(2) by blast
next
  case (waited i)
  then have "alive s i" by (simp add: alive_def)
  then show ?thesis
    using waited inv_leave [OF assms(2)] inv_to_head [OF assms(2)] by (simp add: after_wait_def)
next
  case (update ids)
  have run: "IsRunning (setIDs ids (lf_provider s)) cs = IsRunning (lf_provider s) cs" for cs
    by (simp add: IsRunning_def setIDs_def)
  have "life_inv (s\<lparr>lf_provider := setIDs ids (lf_provider s)\<rparr>)"
    using assms(2) by (simp add: life_inv_def alive_def run) (simp add: setIDs_def)
  then have "life_inv (s\<lparr>lf_provider := setIDs ids (lf_provider s)\<rparr>\<lparr>lf_contexts := cancel_ctx f (lf_contexts s)\<rparr>)" for f
    using IsRunning_cancel by (intro inv_contexts) auto
  with \<open>life_inv (s\<lparr>lf_provider := setIDs ids (lf_provider s)\<rparr>)\<close> show ?thesis
    by (auto simp: update update_ids_def Update_def WithNewIDs_def split: option.splits)
next
  case stopped
  then show ?thesis
    using assms(2) IsRunning_cancel by (auto simp: stop_def Stop_def split: option.splits intro!: inv_contexts)
next
  case (cancelled c)
  then show ?thesis using assms(2) IsRunning_cancel by (auto intro!: inv_contexts)
qed

lemma inv_reach: "life_reach all_returned s \<Longrightarrow> life_inv s"
proof (induction rule: life_reach.induct)
  case (init s)
  then show ?case by (simp add: fresh_life_def life_inv_def alive_def IsRunning_def)
next
  case (step s t)
  then show ?case using inv_step by blast
qed


text \<open>(C32) When \<open>Start\<close> is only called after the former calls have returned: no channel is closed twice,
  at most one call is live, and a provider that says it is running has a live call, on the context
  the provider holds.\<close>

theorem single_start_safe:
  assumes "life_reach all_returned s"
  shows "\<not> lf_crashed s \<and> (\<forall>i j. \<not> (i \<noteq> j \<and> alive s i \<and> alive s j)) \<and>
    (IsRunning (lf_provider s) (lf_contexts s) \<longrightarrow>
       (\<exists>i. alive s i \<and> bp_main_ctx (lf_provider s) = Some (th_main (lf_threads s ! i))))"
proof -
  note inv = inv_reach [OF assms]
  then show ?thesis
    using life_inv_alive(1,2) [OF inv] by (auto simp: life_inv_def)
qed

section \<open>Two calls at once\<close>

text \<open>The oracle stops a provider without ids, and starts it again, when it has ids again, as soon as it
  is not running, which does not mean that the former call has returned.\<close>

definition stopped_and_restarted :: "'k list \<Rightarrow> ('k, 'v, 'h) life \<Rightarrow> ('k, 'v, 'h) life" where
  "stopped_and_restarted ids s =
     begin_start 0 (update_ids ids (stop (update_ids [] (loop_head 0 (begin_start 0 s)))))"

lemmas life_defs = begin_start_def loop_head_def update_ids_def stop_def fetch_exit_def close_channel_def
  set_place_def leave_def createResponseCh_def setMainCtx_def setFetchCtx_def WithCancel_def Update_def
  WithNewIDs_def setIDs_def GetIDs_def Stop_def Type_def

lemma ctx_done_root [simp]: "ctx_done cs 0 \<longleftrightarrow> 0 < length cs \<and> ct_cancelled (cs ! 0)"
  by (subst ctx_done.simps) (simp split: option.splits)

lemma ctx_done_Suc:
  "ctx_done cs (Suc n) \<longleftrightarrow> Suc n < length cs \<and>
     (ct_cancelled (cs ! Suc n) \<or>
      (case ct_parent (cs ! Suc n) of None \<Rightarrow> False | Some p \<Rightarrow> p \<le> n \<and> ctx_done cs p))"
  by (subst ctx_done.simps) (auto simp: less_Suc_eq_le split: option.splits)


abbreviation node :: "nat option \<Rightarrow> bool \<Rightarrow> context_node" where
  "node p c \<equiv> \<lparr>ct_parent = p, ct_cancelled = c\<rparr>"

text \<open>The trace, from a fresh provider with ids: the second call is at the head of its loop while the
  first one still waits for its routines.\<close>

lemma restarted:
  assumes "fresh_life s" "Type (lf_provider s) \<noteq> UnknownType" "ids \<noteq> []" "GetIDs (lf_provider s) \<noteq> []"
  shows "(life_step not_running)\<^sup>*\<^sup>* s (stopped_and_restarted ids s)"
    "stopped_and_restarted ids s =
      \<lparr>lf_provider = (lf_provider s)\<lparr>bp_ids := ids, bp_main_ctx := Some 3, bp_fetch_ctx := Some 2, bp_response_ch := Some 0\<rparr>,
       lf_contexts = [node None False, node (Some 0) True, node (Some 1) True, node (Some 0) False],
       lf_channels = 1, lf_closed = [],
       lf_threads = [\<lparr>th_main = 1, th_place = Fetching 2\<rparr>, \<lparr>th_main = 3, th_place = Head\<rparr>], lf_crashed = False\<rparr>"
proof -
  obtain p cs n cl ths cr where s: "s = \<lparr>lf_provider = p, lf_contexts = cs, lf_channels = n, lf_closed = cl, lf_threads = ths, lf_crashed = cr\<rparr>"
    by (cases s)
  have type: "\<not> ac_enabled (bp_api_cfg p) \<longrightarrow> wc_enabled (bp_ws_cfg p)" and ids: "bp_ids p \<noteq> []"
    using assms by (auto simp: s Type_def GetIDs_def split: if_splits)
  note f = assms(1) [unfolded fresh_life_def s, simplified]
  define s1 where "s1 = begin_start 0 s"
  define s2 where "s2 = loop_head 0 s1"
  define s3 where "s3 = update_ids [] s2"
  define s4 where "s4 = stop s3"
  define s5 where "s5 = update_ids ids s4"
  have s1: "s1 = \<lparr>lf_provider = p\<lparr>bp_main_ctx := Some 1\<rparr>, lf_contexts = [node None False, node (Some 0) False],
      lf_channels = 0, lf_closed = [], lf_threads = [\<lparr>th_main = 1, th_place = Head\<rparr>], lf_crashed = False\<rparr>"
    using f by (simp add: s s1_def life_defs)
  have s2: "s2 = \<lparr>lf_provider = p\<lparr>bp_main_ctx := Some 1, bp_fetch_ctx := Some 2, bp_response_ch := Some 0\<rparr>,
      lf_contexts = [node None False, node (Some 0) False, node (Some 1) False],
      lf_channels = 1, lf_closed = [], lf_threads = [\<lparr>th_main = 1, th_place = Fetching 2\<rparr>], lf_crashed = False\<rparr>"
    unfolding s2_def s1 using type ids by (simp add: life_defs)
  have s3: "s3 = \<lparr>lf_provider = p\<lparr>bp_ids := [], bp_main_ctx := Some 1, bp_fetch_ctx := Some 2, bp_response_ch := Some 0\<rparr>,
      lf_contexts = [node None False, node (Some 0) False, node (Some 1) True],
      lf_channels = 1, lf_closed = [], lf_threads = [\<lparr>th_main = 1, th_place = Fetching 2\<rparr>], lf_crashed = False\<rparr>"
    unfolding s3_def s2 by (simp add: life_defs cancel_ctx_def)
  have s4: "s4 = \<lparr>lf_provider = p\<lparr>bp_ids := [], bp_main_ctx := Some 1, bp_fetch_ctx := Some 2, bp_response_ch := Some 0\<rparr>,
      lf_contexts = [node None False, node (Some 0) True, node (Some 1) True],
      lf_channels = 1, lf_closed = [], lf_threads = [\<lparr>th_main = 1, th_place = Fetching 2\<rparr>], lf_crashed = False\<rparr>"
    unfolding s4_def s3 by (simp add: life_defs cancel_ctx_def ctx_done_Suc)
  have s5: "s5 = \<lparr>lf_provider = p\<lparr>bp_ids := ids, bp_main_ctx := Some 1, bp_fetch_ctx := Some 2, bp_response_ch := Some 0\<rparr>,
      lf_contexts = [node None False, node (Some 0) True, node (Some 1) True],
      lf_channels = 1, lf_closed = [], lf_threads = [\<lparr>th_main = 1, th_place = Fetching 2\<rparr>], lf_crashed = False\<rparr>"
    unfolding s5_def s4 by (simp add: life_defs cancel_ctx_def)
  have r: "stopped_and_restarted ids s = begin_start 0 s5"
    by (simp add: stopped_and_restarted_def s1_def s2_def s3_def s4_def s5_def)
  have "life_step not_running s s1"
    unfolding s1_def using f by (intro life_step.start) (simp_all add: s not_running_def IsRunning_def)
  moreover have "life_step not_running s1 s2"
    unfolding s2_def by (intro life_step.head) (simp_all add: s1)
  moreover have "life_step not_running s2 s3"
    unfolding s3_def by (intro life_step.update) (simp add: s2)
  moreover have "life_step not_running s3 s4"
    unfolding s4_def by (intro life_step.stopped) (simp add: s3)
  moreover have "life_step not_running s4 s5"
    unfolding s5_def by (intro life_step.update) (simp add: s4)
  moreover have "life_step not_running s5 (begin_start 0 s5)"
    by (intro life_step.start) (simp_all add: s5 not_running_def IsRunning_def ctx_done_Suc)
  ultimately show "(life_step not_running)\<^sup>*\<^sup>* s (stopped_and_restarted ids s)"
    unfolding r by (meson converse_rtranclp_into_rtranclp rtranclp.rtrancl_refl)
  show "stopped_and_restarted ids s =
      \<lparr>lf_provider = (lf_provider s)\<lparr>bp_ids := ids, bp_main_ctx := Some 3, bp_fetch_ctx := Some 2, bp_response_ch := Some 0\<rparr>,
       lf_contexts = [node None False, node (Some 0) True, node (Some 1) True, node (Some 0) False],
       lf_channels = 1, lf_closed = [],
       lf_threads = [\<lparr>th_main = 1, th_place = Fetching 2\<rparr>, \<lparr>th_main = 3, th_place = Head\<rparr>], lf_crashed = False\<rparr>"
    unfolding r s5 by (simp add: life_defs s)
qed

text \<open>(C40) Take any started provider, remove its ids, stop it, add any ids again and start it
  again, as the oracle does, before its first call of \<open>Start\<close> has returned: it then
  runs two calls at once. From there the first call, ending its fetch, can close the channel the second
  one has made and not closed, and when the ids are set once more the second call ends its fetch and
  closes that channel again, which crashes the process.\<close>

theorem restart_can_crash:
  assumes "fresh_life s" "Type (lf_provider s) \<noteq> UnknownType" "GetIDs (lf_provider s) \<noteq> []" "ids \<noteq> []"
  shows "let t = stopped_and_restarted ids s in
    (life_step not_running)\<^sup>*\<^sup>* s t \<and> alive t 0 \<and> alive t 1 \<and> \<not> lf_crashed t \<and>
    (\<exists>u f g c. (life_step not_running)\<^sup>*\<^sup>* t u \<and> at u 0 (Fetching f) \<and> at u 1 (Fetching g) \<and>
       bp_response_ch (lf_provider u) = Some c \<and> c \<notin> set (lf_closed u) \<and>
       (let v = fetch_exit 0 f u; w = update_ids ids v in
          life_step not_running u v \<and> c \<in> set (lf_closed v) \<and>
          life_step not_running v w \<and> bp_response_ch (lf_provider w) = Some c \<and> \<not> lf_crashed w \<and>
          life_step not_running w (fetch_exit 1 g w) \<and> lf_crashed (fetch_exit 1 g w)))"
proof -
  let ?t = "stopped_and_restarted ids s"
  note ids = assms(4) and r = restarted [OF assms(1,2,4,3)]
  obtain p where p: "?t = \<lparr>lf_provider = p\<lparr>bp_ids := ids, bp_main_ctx := Some 3, bp_fetch_ctx := Some 2, bp_response_ch := Some 0\<rparr>,
       lf_contexts = [node None False, node (Some 0) True, node (Some 1) True, node (Some 0) False],
       lf_channels = 1, lf_closed = [],
       lf_threads = [\<lparr>th_main = 1, th_place = Fetching 2\<rparr>, \<lparr>th_main = 3, th_place = Head\<rparr>], lf_crashed = False\<rparr>"
    and type: "\<not> ac_enabled (bp_api_cfg p) \<longrightarrow> wc_enabled (bp_ws_cfg p)"
    using r(2) assms(2) by (auto simp: Type_def split: if_splits)
  define t1 where "t1 = loop_head 1 ?t"
  define t2 where "t2 = fetch_exit 0 2 t1"
  define t3 where "t3 = update_ids ids t2"
  have t1: "t1 = \<lparr>lf_provider = p\<lparr>bp_ids := ids, bp_main_ctx := Some 3, bp_fetch_ctx := Some 4, bp_response_ch := Some 1\<rparr>,
       lf_contexts = [node None False, node (Some 0) True, node (Some 1) True, node (Some 0) False, node (Some 3) False],
       lf_channels = 2, lf_closed = [],
       lf_threads = [\<lparr>th_main = 1, th_place = Fetching 2\<rparr>, \<lparr>th_main = 3, th_place = Fetching 4\<rparr>], lf_crashed = False\<rparr>"
    unfolding t1_def p using ids type by (simp add: life_defs)
  have t2: "t2 = \<lparr>lf_provider = p\<lparr>bp_ids := ids, bp_main_ctx := Some 3, bp_fetch_ctx := Some 4, bp_response_ch := Some 1\<rparr>,
       lf_contexts = [node None False, node (Some 0) True, node (Some 1) True, node (Some 0) False, node (Some 3) False],
       lf_channels = 2, lf_closed = [1],
       lf_threads = [\<lparr>th_main = 1, th_place = Waiting\<rparr>, \<lparr>th_main = 3, th_place = Fetching 4\<rparr>], lf_crashed = False\<rparr>"
    unfolding t2_def t1 by (simp add: life_defs cancel_ctx_def)
  have t3: "t3 = \<lparr>lf_provider = p\<lparr>bp_ids := ids, bp_main_ctx := Some 3, bp_fetch_ctx := Some 4, bp_response_ch := Some 1\<rparr>,
       lf_contexts = [node None False, node (Some 0) True, node (Some 1) True, node (Some 0) False, node (Some 3) True],
       lf_channels = 2, lf_closed = [1],
       lf_threads = [\<lparr>th_main = 1, th_place = Waiting\<rparr>, \<lparr>th_main = 3, th_place = Fetching 4\<rparr>], lf_crashed = False\<rparr>"
    unfolding t3_def t2 by (simp add: life_defs cancel_ctx_def)
  have ended: "ctx_done (lf_contexts t1) 2" "ctx_done (lf_contexts t3) 4"
    by (subst ctx_done.simps, simp add: t1 t3)+
  have "life_step not_running ?t t1"
    unfolding t1_def by (intro life_step.head) (simp_all add: p)
  moreover have "life_step not_running t1 t2"
    unfolding t2_def using ended(1) by (intro life_step.fetched) (simp_all add: t1)
  moreover have "life_step not_running t2 t3"
    unfolding t3_def by (intro life_step.update) (simp add: t2)
  moreover have "life_step not_running t3 (fetch_exit 1 4 t3)"
    using ended(2) by (intro life_step.fetched) (simp_all add: t3)
  moreover have "lf_crashed (fetch_exit 1 4 t3)" unfolding t3 by (simp add: life_defs)
  moreover have "at t1 0 (Fetching 2)" "at t1 1 (Fetching 4)" "bp_response_ch (lf_provider t1) = Some 1"
    "1 \<notin> set (lf_closed t1)" "1 \<in> set (lf_closed t2)" "bp_response_ch (lf_provider t3) = Some 1"
    "\<not> lf_crashed t3" by (simp_all add: t1 t2 t3)
  moreover have "alive ?t 0" "alive ?t 1" "\<not> lf_crashed ?t" by (simp_all add: p alive_def)
  ultimately show ?thesis
    using r(1) unfolding Let_def t2_def t3_def by blast
qed

definition provider0 :: "(string, int, unit) base_provider" where
  "provider0 = new_provider\<lparr>bp_name := ''one'', bp_api := Some (), bp_ids := [''BTCUSD''],
     bp_api_cfg := zero_api_config\<lparr>ac_enabled := True\<rparr>\<rparr>"

definition life0 :: "(string, int, unit) life" where
  "life0 = \<lparr>lf_provider = provider0, lf_contexts = [node None False], lf_channels = 0, lf_closed = [],
     lf_threads = [], lf_crashed = False\<rparr>"

lemma life0_fresh: "fresh_life life0" "Type (lf_provider life0) \<noteq> UnknownType" "GetIDs (lf_provider life0) \<noteq> []"
  by (simp_all add: fresh_life_def life0_def provider0_def new_provider_def Type_def GetIDs_def)

theorem restart_can_crash_witness:
  "\<exists>t u. (life_step not_running)\<^sup>*\<^sup>* life0 t \<and> alive t 0 \<and> alive t 1 \<and> \<not> lf_crashed t \<and>
    (life_step not_running)\<^sup>*\<^sup>* t u \<and> lf_crashed u"
proof -
  have "[''ETHUSD''] \<noteq> []" by simp
  from restart_can_crash [OF life0_fresh this] show ?thesis
    unfolding Let_def by (meson rtranclp.rtrancl_into_rtrancl)
qed

lemma life0_started: "life_reach all_returned (loop_head 0 (begin_start 0 life0))"
proof -
  have "life_reach all_returned life0" by (rule life_reach.init) (rule life0_fresh)
  then have "life_reach all_returned (begin_start 0 life0)"
    by (rule life_reach.step) (intro life_step.start; simp add: life0_def all_returned_def)
  then show ?thesis
    by (rule life_reach.step) (intro life_step.head; simp add: life0_def begin_start_def setMainCtx_def WithCancel_def)
qed

theorem single_start_safe_witness:
  "\<not> lf_crashed (loop_head 0 (begin_start 0 life0)) \<and>
   \<not> (0 \<noteq> (1::nat) \<and> alive (loop_head 0 (begin_start 0 life0)) 0 \<and> alive (loop_head 0 (begin_start 0 life0)) 1)"
  using single_start_safe [OF life0_started] by blast

section \<open>The stored results\<close>

definition fresh_result :: "'v resolved_result \<Rightarrow> bool" where
  "fresh_result r \<longleftrightarrow> rr_code r \<noteq> ResponseCodeUnchanged"

lemma updateData_other [simp]: "i \<noteq> j \<Longrightarrow> gm_get (updateData i r d) j = gm_get d j"
  by (simp add: updateData_def split: option.splits)

lemma updateData_same:
  "gm_get (updateData i r d) i =
     (case gm_get d i of
        None \<Rightarrow> if fresh_result r then Some r else None
      | Some c \<Rightarrow> Some (if rr_timestamp r < rr_timestamp c then c
                   else if fresh_result r then r else c\<lparr>rr_timestamp := rr_timestamp r\<rparr>))"
  by (simp add: updateData_def fresh_result_def split: option.splits)

lemma updateData_forward:
  assumes "gm_get d j = Some c"
  shows "\<exists>c'. gm_get (updateData i r d) j = Some c' \<and> rr_timestamp c \<le> rr_timestamp c'"
proof (cases "i = j")
  case True
  then show ?thesis using assms updateData_same [of j r d] by auto
qed (use assms in simp)

text \<open>Results that arrive in the order of their timestamps: the first result that is no heartbeat makes
  the entry; from then on the entry holds the last result that is no heartbeat, with the timestamp of
  the last result of either kind, so that heartbeats keep a price alive.\<close>

theorem latest_result:
  assumes "sorted (map rr_timestamp rs)" "gm_get d i = None"
  shows "gm_get (fold (updateData i) rs d) i =
    (case filter fresh_result rs of [] \<Rightarrow> None
     | _ \<Rightarrow> Some ((last (filter fresh_result rs))\<lparr>rr_timestamp := rr_timestamp (last rs)\<rparr>))"
  using assms(1)
proof (induction rs rule: rev_induct)
  case Nil
  then show ?case using assms(2) by simp
next
  case (snoc r rs)
  then have ih: "gm_get (fold (updateData i) rs d) i =
      (case filter fresh_result rs of [] \<Rightarrow> None
       | _ \<Rightarrow> Some ((last (filter fresh_result rs))\<lparr>rr_timestamp := rr_timestamp (last rs)\<rparr>))"
    and le: "\<forall>x \<in> set rs. rr_timestamp x \<le> rr_timestamp r"
    by (simp_all add: sorted_append)
  show ?case
  proof (cases "filter fresh_result rs")
    case Nil
    with ih show ?thesis by (simp add: updateData_same)
  next
    case (Cons a as)
    then have "rs \<noteq> []" by auto
    with le have "rr_timestamp (last rs) \<le> rr_timestamp r" by simp
    moreover have "gm_get (fold (updateData i) rs d) i =
        Some ((last (filter fresh_result rs))\<lparr>rr_timestamp := rr_timestamp (last rs)\<rparr>)"
      using ih Cons by simp
    ultimately show ?thesis
      using Cons by (simp add: updateData_same split: list.splits)
  qed
qed

theorem latest_result_witness:
  "gm_get (fold (updateData ''BTCUSD'') [NewResultWithCode 0 1 ResponseCodeUnchanged, NewResult (5 :: int) 2,
      NewResultWithCode 0 7 ResponseCodeUnchanged] []) ''BTCUSD'' = Some (NewResult 5 7)"
  by (subst latest_result)
    (simp_all add: NewResult_def NewResultWithCode_def fresh_result_def ResponseCodeOK_def ResponseCodeUnchanged_def)

text \<open>(C33) In every step of every interleaving the result stored for an id stays and its timestamp does not
  decrease, whatever the handlers answer.\<close>

theorem stored_results_move_forward:
  assumes "life_step allowed s t" "gm_get (GetData (lf_provider s)) i = Some c"
  shows "\<exists>c'. gm_get (GetData (lf_provider t)) i = Some c' \<and> rr_timestamp c \<le> rr_timestamp c'"
proof -
  have fold: "\<exists>c'. gm_get (fold (\<lambda>(i, r) data. updateData i r data) xs d) i = Some c' \<and> rr_timestamp c \<le> rr_timestamp c'"
    if "gm_get d i = Some c" for xs d c
    using that
  proof (induction xs arbitrary: d c)
    case (Cons x xs)
    obtain j r where x: "x = (j, r)" by fastforce
    obtain c1 where c1: "gm_get (updateData j r d) i = Some c1" "rr_timestamp c \<le> rr_timestamp c1"
      using updateData_forward [OF Cons.prems] by blast
    with Cons.IH [OF c1(1)] show ?case by (auto simp: x intro: order.trans)
  qed simp
  show ?thesis
    using assms(1)
  proof cases
    case (recv j f r)
    then show ?thesis using fold [OF assms(2) [unfolded GetData_def]] by (simp add: GetData_def receive_def)
  qed (use assms(2) in \<open>auto simp: GetData_def life_defs after_wait_def split: option.splits sum.splits\<close>)
qed

theorem stored_results_move_forward_witness:
  "\<exists>c'. gm_get (GetData (receive (NewGetResponse [(''BTCUSD'', NewResult 6 3)] [])
      (provider0\<lparr>bp_data := [(''BTCUSD'', NewResult (5 :: int) 4)]\<rparr>))) ''BTCUSD'' = Some c' \<and> 4 \<le> rr_timestamp c'"
proof -
  let ?s = "(loop_head 0 (begin_start 0 life0))\<lparr>lf_provider := provider0\<lparr>bp_data := [(''BTCUSD'', NewResult (5 :: int) 4)]\<rparr>\<rparr>"
  have "life_step all_returned ?s (?s\<lparr>lf_provider := receive (NewGetResponse [(''BTCUSD'', NewResult 6 3)] []) (lf_provider ?s)\<rparr>)"
    by (rule life_step.recv [of _ 0 2])
      (simp_all add: life0_def life_defs provider0_def new_provider_def)
  from stored_results_move_forward [OF this, of "''BTCUSD''" "NewResult 5 4"] show ?thesis
    by (simp add: GetData_def gm_get_def NewResult_def)
qed

end
