(* ===== verification/Api_Handler.thy ===== *)
theory Api_Handler
  imports Base_Provider Big_Float
begin

text \<open>
  \<open>providers/base/api/handlers\<close>: the handler that queries a REST source at every tick of its interval,
  in batches and round robin, and the fetcher of one batch; and how \<open>fetch.go\<close> splits the ids of a
  websocket source over connections (\<open>pkg/slices\<close>). The requests go to the outside: the data handler
  of a source and the HTTP client are arguments.
\<close>

section \<open>Chunks\<close>

function chunk_loop :: "nat \<Rightarrow> 'a list \<Rightarrow> 'a list list" where
  "chunk_loop n xs = (if xs = [] \<or> n = 0 then [] else take n xs # chunk_loop n (drop n xs))"
  by pat_completeness auto
termination
  by (relation "measure (\<lambda>(n, xs). length xs)") auto

declare chunk_loop.simps [simp del]

definition Chunk :: "'a list \<Rightarrow> nat \<Rightarrow> 'a list list" where
  "Chunk input chunkSize = (if length input \<le> chunkSize then [input] else chunk_loop chunkSize input)"

text \<open>\<open>int(math.Ceil(float64(a) / float64(b)))\<close>, exact for the sizes of slices.\<close>

definition ceil_div :: "nat \<Rightarrow> nat \<Rightarrow> nat" where
  "ceil_div a b = (a + b - 1) div b"

text \<open>\<open>startMultiplexWebsocket\<close>: the limit of the group and the ids of each connection. A connection only
  ends with its context, so the group blocks when there are more connections than the limit.\<close>

definition startMultiplexWebsocket :: "websocket_config \<Rightarrow> 'k list \<Rightarrow> nat \<times> 'k list list" where
  "startMultiplexWebsocket cfg ids =
     (let maxSubsPerConn = wc_max_subscriptions_per_connection cfg in
      if 0 < maxSubsPerConn
        then (ceil_div (length ids) (nat maxSubsPerConn), Chunk ids (nat maxSubsPerConn))
      else (1, [ids]))"

definition group_blocks :: "nat \<times> 'k list list \<Rightarrow> bool" where
  "group_blocks = (\<lambda>(limit, tasks). limit < length tasks)"

section \<open>Querying\<close>

definition ErrorRateLimitExceeded :: int where "ErrorRateLimitExceeded = 1"
definition ErrorUnknown :: int where "ErrorUnknown = 2"
definition ErrorUnableToCreateURL :: int where "ErrorUnableToCreateURL = 4"

text \<open>The ids of each task, and the limit of tasks per tick.\<close>

definition api_batches :: "api_config \<Rightarrow> 'k list \<Rightarrow> 'k list list res" where
  "api_batches cfg ids =
     bind_res (Max [1, ac_batch_size cfg]) (\<lambda>batchSize.
     let b = nat batchSize; threads = ceil_div (length ids) b in
     Inr (map (\<lambda>i. drop (i * b) (take (min (length ids) ((i + 1) * b)) ids)) [0..<threads]))"

definition api_plan :: "api_config \<Rightarrow> 'k list \<Rightarrow> (nat \<times> 'k list list) res" where
  "api_plan cfg ids =
     bind_res (Min [ac_max_queries cfg, int (length ids)]) (\<lambda>limit.
     if ac_atomic cfg then Inr (nat limit, [ids])
     else
       bind_res (api_batches cfg ids) (\<lambda>tasks.
       bind_res (Min [limit, int (length tasks)]) (\<lambda>limit'.
       Inr (nat limit', tasks))))"

text \<open>The tasks that \<open>n\<close> ticks start, from an index on; the loop ends with its context.\<close>

fun query_ticks :: "nat \<Rightarrow> 'k list list \<Rightarrow> nat \<Rightarrow> nat \<Rightarrow> 'k list list" where
  "query_ticks limit tasks 0 index = []"
| "query_ticks limit tasks (Suc n) index =
     map (\<lambda>i. tasks ! ((index + i) mod length tasks)) [0..<limit] @ query_ticks limit tasks n (index + limit)"

definition Query :: "api_config \<Rightarrow> nat \<Rightarrow> 'k list \<Rightarrow> 'k list list res" where
  "Query cfg ticks ids =
     (if ids = [] then Inr []
      else bind_res (api_plan cfg ids) (\<lambda>(limit, tasks). Inr (query_ticks limit tasks ticks 0)))"

section \<open>One request\<close>

record http_response =
  hr_status :: int
  hr_body :: bytes

record ('k, 'v) api_data_handler =
  dh_create_url :: "'k list \<Rightarrow> string res"
  dh_parse_response :: "'k list \<Rightarrow> http_response \<Rightarrow> ('k, 'v) get_response res"

text \<open>A parser returns no error, but may panic. The HTTP client answers with a response, which may be nil,
  and an error.\<close>

definition Fetch ::
    "('k, 'v) api_data_handler \<Rightarrow> (string \<Rightarrow> http_response option \<times> go_error option) \<Rightarrow> 'k list \<Rightarrow>
     ('k, 'v) get_response res" where
  "Fetch h do_request ids =
     (case dh_create_url h ids of
        Inl (Panic p) \<Rightarrow> Inl (Panic p)
      | Inl _ \<Rightarrow> Inr (NewGetResponseWithErr ids ErrorUnableToCreateURL)
      | Inr url \<Rightarrow>
          (case do_request url of
             (resp, Some err) \<Rightarrow>
               Inr (NewGetResponseWithErr ids (case resp of None \<Rightarrow> ErrorUnknown | Some r \<Rightarrow> hr_status r))
           | (None, None) \<Rightarrow> Inl (Panic ''nil pointer dereference'')
           | (Some resp, None) \<Rightarrow>
               if hr_status resp = 429 then Inr (NewGetResponseWithErr ids ErrorRateLimitExceeded)
               else if hr_status resp < 200 \<or> 300 \<le> hr_status resp
                 then Inr (NewGetResponseWithErr ids (hr_status resp))
               else dh_parse_response h ids resp))"

text \<open>A panic of a task is recovered and nothing is written; nothing is written either once the
  context is done.\<close>

definition subTask ::
    "('k, 'v) api_data_handler \<Rightarrow> (string \<Rightarrow> http_response option \<times> go_error option) \<Rightarrow> bool \<Rightarrow> 'k list \<Rightarrow>
     ('k, 'v) get_response option" where
  "subTask h do_request ctxDone ids =
     (case Fetch h do_request ids of
        Inl _ \<Rightarrow> None
      | Inr response \<Rightarrow> if ctxDone then None else Some response)"

definition NewRestAPIFetcher ::
    "bool \<Rightarrow> 'h option \<Rightarrow> bool \<Rightarrow> api_config \<Rightarrow> 'h res" where
  "NewRestAPIFetcher requestHandler apiDataHandler metrics cfg =
     bind_res (APIConfig_ValidateBasic cfg) (\<lambda>_.
     if \<not> ac_enabled cfg then Inl (Errorf ''api is disabled'')
     else if \<not> requestHandler then Inl (Errorf ''request handler is nil'')
     else case apiDataHandler of
       None \<Rightarrow> Inl (Errorf ''api data handler is nil'')
     | Some h \<Rightarrow> if \<not> metrics then Inl (Errorf ''metrics is nil'') else Inr h)"

definition NewAPIQueryHandlerWithFetcher :: "bool \<Rightarrow> api_config \<Rightarrow> 'f option \<Rightarrow> bool \<Rightarrow> (api_config \<times> 'f) res" where
  "NewAPIQueryHandlerWithFetcher logger cfg fetcher metrics =
     bind_res (mapErr (Wrapf ''invalid provider config'') (APIConfig_ValidateBasic cfg)) (\<lambda>_.
     if \<not> ac_enabled cfg then Inl (Errorf ''api query handler is not enabled for the provider'')
     else if \<not> logger then Inl (Errorf ''no logger specified for api query handler'')
     else if \<not> metrics then Inl (Errorf ''no metrics specified for api query handler'')
     else case fetcher of
       None \<Rightarrow> Inl (Errorf ''no fetcher specified for api query handler'')
     | Some f \<Rightarrow> Inr (cfg, f))"

definition NewAPIQueryHandler ::
    "api_config \<Rightarrow> bool \<Rightarrow> ('k, 'v) api_data_handler option \<Rightarrow> bool \<Rightarrow> (api_config \<times> ('k, 'v) api_data_handler) res" where
  "NewAPIQueryHandler cfg requestHandler apiHandler metrics =
     bind_res (mapErr (Wrapf ''failed to create api fetcher'')
       (NewRestAPIFetcher requestHandler apiHandler metrics cfg)) (\<lambda>f. Inr (cfg, f))"

end
