(* ===== verification/Api_Properties.thy ===== *)
theory Api_Properties
  imports Api_Handler
begin

text \<open>
  Properties of the batching of requests: the batches of a source partition its ids, the round robin
  serves every batch within a bounded number of ticks, the connections of a websocket source fit the
  limit of their group, and a failed request answers for all of its ids.
\<close>

section \<open>Chunks\<close>

lemma chunk_loop_Nil [simp]: "chunk_loop n [] = []"
  by (simp add: chunk_loop.simps)

lemma chunk_loop_step: "0 < n \<Longrightarrow> xs \<noteq> [] \<Longrightarrow> chunk_loop n xs = take n xs # chunk_loop n (drop n xs)"
  by (subst chunk_loop.simps) simp

lemma ceil_div_small: "0 < a \<Longrightarrow> a \<le> n \<Longrightarrow> ceil_div a n = 1"
  unfolding ceil_div_def by (intro div_nat_eqI) auto

lemma ceil_div_le: "0 < b \<Longrightarrow> a \<le> b * m \<Longrightarrow> ceil_div a b \<le> m"
  unfolding ceil_div_def by (rule less_Suc_eq_le [THEN iffD1], rule less_mult_imp_div_less) (simp add: algebra_simps)

lemma chunk_loop_props:
  "0 < n \<Longrightarrow> concat (chunk_loop n xs) = xs \<and> (\<forall>ys \<in> set (chunk_loop n xs). ys \<noteq> [] \<and> length ys \<le> n) \<and>
    length (chunk_loop n xs) = ceil_div (length xs) n"
proof (induction n xs rule: chunk_loop.induct)
  case (1 n xs)
  show ?case
  proof (cases "xs = [] \<or> n = 0")
    case True
    with 1(2) show ?thesis by (auto simp: ceil_div_def)
  next
    case False
    have "Suc (ceil_div (length xs - n) n) = ceil_div (length xs) n"
    proof (cases "n \<le> length xs")
      case True
      with False have "length xs + n - Suc 0 = length xs - Suc 0 + n" by (cases xs) simp_all
      then have "(length xs + n - Suc 0) div n = Suc ((length xs - Suc 0) div n)" using False by simp
      with True False show ?thesis by (simp add: ceil_div_def)
    next
      case shorter: False
      with False ceil_div_small [of "length xs" n] show ?thesis by (simp add: ceil_div_def)
    qed
    with 1(1) [OF False 1(2)] False chunk_loop_step [of n xs] show ?thesis by auto
  qed
qed

lemmas concat_chunk_loop = chunk_loop_props [THEN conjunct1]
lemmas chunk_loop_sizes = chunk_loop_props [THEN conjunct2, THEN conjunct1, rule_format]
lemmas length_chunk_loop = chunk_loop_props [THEN conjunct2, THEN conjunct2]

lemma ceil_div_covers: "0 < b \<Longrightarrow> a \<le> ceil_div a b * b"
  unfolding ceil_div_def
  using div_mult_mod_eq [of "a + b - 1" b] mod_less_divisor [of b "a + b - 1"] by linarith

text \<open>The batches by their bounds are the chunks.\<close>

lemma chunk_loop_nth:
  "0 < n \<Longrightarrow> i < ceil_div (length xs) n \<Longrightarrow> chunk_loop n xs ! i = take n (drop (i * n) xs)"
proof (induction i arbitrary: xs)
  case 0
  then have "xs \<noteq> []" by (auto simp: ceil_div_def)
  with 0 show ?case by (simp add: chunk_loop_step)
next
  case (Suc i)
  then have xs: "xs \<noteq> []" by (auto simp: ceil_div_def)
  have "length (chunk_loop n xs) = Suc (length (chunk_loop n (drop n xs)))"
    using Suc.prems(1) xs by (simp add: chunk_loop_step)
  with Suc.prems have "i < ceil_div (length (drop n xs)) n"
    by (simp only: length_chunk_loop [OF Suc.prems(1)])
  from Suc.IH [OF Suc.prems(1) this] show ?case
    using Suc.prems(1) xs by (simp add: chunk_loop_step drop_drop add.commute)
qed

lemma batch_of:
  "drop (i * b) (take (min (length ids) (b + i * b)) ids) = take b (drop (i * b) ids)"
proof -
  have "take (min (length ids) (b + i * b)) ids = take (i * b + b) ids"
    by (cases "length ids \<le> b + i * b") (simp_all add: add.commute min_def)
  then show ?thesis by (simp add: take_drop add.commute)
qed

lemma api_batches_eq:
  "api_batches cfg ids = Inr (chunk_loop (nat (max 1 (ac_batch_size cfg))) ids)"
proof -
  let ?b = "nat (max 1 (ac_batch_size cfg))"
  have "Max [1, ac_batch_size cfg] = Inr (max 1 (ac_batch_size cfg))"
    by (auto simp: Max_def max_def)
  moreover have "map (\<lambda>i. drop (i * ?b) (take (min (length ids) ((i + 1) * ?b)) ids)) [0..<ceil_div (length ids) ?b]
      = chunk_loop ?b ids"
    by (rule nth_equalityI) (simp_all add: length_chunk_loop batch_of chunk_loop_nth)
  ultimately show ?thesis by (simp add: api_batches_def Let_def)
qed

section \<open>Round robin\<close>

lemma query_ticks_eq:
  "query_ticks limit tasks n index = map (\<lambda>j. tasks ! ((index + j) mod length tasks)) [0..<n * limit]"
proof (induction n arbitrary: index)
  case (Suc n)
  have "[0..<Suc n * limit] = [0..<limit] @ map (\<lambda>j. j + limit) [0..<n * limit]"
    by (simp add: map_add_upt upt_add_eq_append [of 0 limit "n * limit", simplified] add.commute)
  then show ?case by (simp add: Suc.IH ac_simps)
qed simp

lemma round_robin_covers:
  assumes "tasks \<noteq> []" "length tasks \<le> n * limit"
  shows "set tasks \<subseteq> set (query_ticks limit tasks n index)"
proof
  fix t assume "t \<in> set tasks"
  then obtain k where k: "k < length tasks" "t = tasks ! k" by (auto simp: in_set_conv_nth)
  let ?m = "length tasks"
  define j where "j = (k + (?m - index mod ?m)) mod ?m"
  have "(index + j) mod ?m = (index mod ?m + (k + (?m - index mod ?m))) mod ?m"
    by (simp add: j_def mod_simps)
  also have "\<dots> = (k + ?m) mod ?m"
    using mod_less_divisor [of ?m index] k(1) by (intro arg_cong [where f = "\<lambda>x. x mod ?m"]) linarith
  also have "\<dots> = k" using k(1) by simp
  finally have "tasks ! ((index + j) mod ?m) = t" using k(2) by simp
  moreover have "j < n * limit" using assms k(1) by (intro less_le_trans [OF _ assms(2)]) (simp add: j_def)
  ultimately show "t \<in> set (query_ticks limit tasks n index)"
    by (auto simp: query_ticks_eq intro!: image_eqI [of _ _ j])
qed

lemma Min_pair: "Min [a, b] = Inr (min a b)"
  by (auto simp: Min_def min_def)

text \<open>The plan of a source: what one tick starts, and the batches it takes turns with.\<close>

lemma api_plan_eq:
  "api_plan cfg ids = Inr (
     if ac_atomic cfg then (nat (min (ac_max_queries cfg) (int (length ids))), [ids])
     else let tasks = chunk_loop (nat (max 1 (ac_batch_size cfg))) ids in
       (nat (min (min (ac_max_queries cfg) (int (length ids))) (int (length tasks))), tasks))"
  by (simp add: api_plan_def Min_pair api_batches_eq Let_def)

lemma nat_min_min: "0 < m \<Longrightarrow> c \<le> nat m \<Longrightarrow> c \<le> l \<Longrightarrow> nat (min (min m (int l)) (int c)) = c"
  by (simp add: min_def le_nat_iff)

lemma valid_max_queries:
  "is_ok (APIConfig_ValidateBasic cfg) \<Longrightarrow> ac_enabled cfg \<Longrightarrow> 0 < ac_max_queries cfg"
  by (auto simp: APIConfig_ValidateBasic_def split: if_splits)

text \<open>(C34) A source with a valid configuration splits its ids into batches: each id is in exactly the
  position it has in the list, no batch is empty, and none exceeds the batch size unless the source is
  atomic. A tick starts at least one request and no more than the limit of queries, and all of them when
  the ids fit the batch size times that limit, as the configuration says; and from any
  moment on, as many ticks as there are batches, divided by what a tick starts and rounded up, request
  every batch, so that no id is starved.\<close>

theorem every_id_is_queried:
  assumes "is_ok (APIConfig_ValidateBasic cfg)" "ac_enabled cfg" "ids \<noteq> []"
  shows "\<exists>limit tasks. (\<forall>ticks. Query cfg ticks ids = Inr (query_ticks limit tasks ticks 0)) \<and>
    concat tasks = ids \<and> [] \<notin> set tasks \<and> 0 < limit \<and> int limit \<le> ac_max_queries cfg \<and>
    (\<forall>t \<in> set tasks. ac_atomic cfg \<or> int (length t) \<le> max 1 (ac_batch_size cfg)) \<and>
    (\<not> ac_atomic cfg \<and> int (length ids) \<le> max 1 (ac_batch_size cfg) * ac_max_queries cfg \<longrightarrow> limit = length tasks) \<and>
    (\<forall>now. set tasks \<subseteq> set (query_ticks limit tasks (ceil_div (length tasks) limit) now))"
proof -
  obtain limit tasks where plan: "api_plan cfg ids = Inr (limit, tasks)"
    by (metis api_plan_eq surj_pair)
  let ?b = "nat (max 1 (ac_batch_size cfg))"
  have tasks: "concat tasks = ids" "[] \<notin> set tasks"
      "\<forall>t \<in> set tasks. ac_atomic cfg \<or> int (length t) \<le> max 1 (ac_batch_size cfg)"
    using plan assms(3) chunk_loop_sizes [of ?b _ ids]
    by (fastforce simp: api_plan_eq Let_def concat_chunk_loop split: if_splits)+
  then have "tasks \<noteq> []" using assms(3) by auto
  then have limit: "0 < limit" "int limit \<le> ac_max_queries cfg"
    using plan assms(3) valid_max_queries [OF assms(1,2)]
    by (auto simp: api_plan_eq Let_def split: if_splits)
  have all: "limit = length tasks"
    if "\<not> ac_atomic cfg \<and> int (length ids) \<le> max 1 (ac_batch_size cfg) * ac_max_queries cfg"
  proof -
    have "length ids \<le> ?b * nat (ac_max_queries cfg)"
      using that by (simp add: nat_mult_distrib [symmetric] le_nat_iff)
    then have "ceil_div (length ids) ?b \<le> nat (ac_max_queries cfg)" "ceil_div (length ids) ?b \<le> length ids"
      by (auto intro!: ceil_div_le)
    moreover have len: "length (chunk_loop ?b ids) = ceil_div (length ids) ?b" by (rule length_chunk_loop) simp
    moreover have "0 < ac_max_queries cfg" by (rule valid_max_queries [OF assms(1,2)])
    ultimately have "nat (min (min (ac_max_queries cfg) (int (length ids))) (int (length (chunk_loop ?b ids))))
        = length (chunk_loop ?b ids)" by (intro nat_min_min) simp_all
    then show ?thesis using that plan len by (simp add: api_plan_eq Let_def)
  qed
  have "length tasks \<le> ceil_div (length tasks) limit * limit"
    by (rule ceil_div_covers [OF limit(1)])
  then have "set tasks \<subseteq> set (query_ticks limit tasks (ceil_div (length tasks) limit) now)" for now
    using \<open>tasks \<noteq> []\<close> by (rule round_robin_covers [rotated])
  moreover have "Query cfg ticks ids = Inr (query_ticks limit tasks ticks 0)" for ticks
    using assms(3) by (simp add: Query_def plan)
  ultimately show ?thesis using tasks limit all by blast
qed

text \<open>The same with a source of five ids, batches of two and one query at a time.\<close>

definition slow_source :: api_config where
  "slow_source = zero_api_config\<lparr>ac_enabled := True, ac_timeout := 1, ac_interval := 1, ac_reconnect_timeout := 1,
     ac_max_queries := 1, ac_batch_size := 2, ac_name := ''a'', ac_endpoints := [\<lparr>ep_url = ''u'', ep_authentication =
       \<lparr>au_api_key = [], au_api_key_header = []\<rparr>\<rparr>]\<rparr>"

lemma slow_source_valid: "is_ok (APIConfig_ValidateBasic slow_source)" "ac_enabled slow_source"
  by code_simp+

lemma slow_source_fields:
  "\<not> ac_atomic slow_source" "ac_max_queries slow_source = 1" "ac_batch_size slow_source = 2"
  by (simp_all add: slow_source_def zero_api_config_def)

lemma slow_source_plan: "api_plan slow_source [10, 11, 12, 13, 14 :: int] = Inr (1, [[10, 11], [12, 13], [14]])"
  by (simp add: api_plan_eq slow_source_fields chunk_loop_step)

theorem every_id_is_queried_witness:
  "(\<exists>limit tasks. concat tasks = [10, 11, 12, 13, 14 ::int] \<and> 0 < limit \<and>
     Query slow_source 3 [10, 11, 12, 13, 14] = Inr (query_ticks limit tasks 3 0)) \<and>
   Query slow_source 4 [10, 11, 12, 13, 14 ::int] = Inr [[10, 11], [12, 13], [14], [10, 11]]"
proof
  have "[10, 11, 12, 13, 14 ::int] \<noteq> []" by simp
  from every_id_is_queried [OF slow_source_valid this] obtain limit tasks where
    "\<forall>ticks. Query slow_source ticks [10, 11, 12, 13, 14] = Inr (query_ticks limit tasks ticks 0)"
    "concat tasks = [10, 11, 12, 13, 14 ::int]" "0 < limit" by (elim exE conjE) (rule that)
  then show "\<exists>limit tasks. concat tasks = [10, 11, 12, 13, 14 ::int] \<and> 0 < limit \<and>
      Query slow_source 3 [10, 11, 12, 13, 14] = Inr (query_ticks limit tasks 3 0)" by blast
  show "Query slow_source 4 [10, 11, 12, 13, 14 ::int] = Inr [[10, 11], [12, 13], [14], [10, 11]]"
    by (simp add: Query_def slow_source_plan query_ticks_eq upt_conv_Cons)
qed

text \<open>An atomic source answers for all ids in one request, but the limit of a tick is only reduced
  for the other sources: each tick sends the same request as many times as the limit of queries or
  the number of ids allow.\<close>

theorem atomic_source_repeats:
  assumes "ac_atomic cfg" "ids \<noteq> []"
  shows "Query cfg 1 ids = Inr (replicate (nat (min (ac_max_queries cfg) (int (length ids)))) ids)"
  using assms by (simp add: Query_def api_plan_eq map_replicate_const)

definition atomic_source :: api_config where
  "atomic_source = slow_source\<lparr>ac_atomic := True, ac_batch_size := 0, ac_max_queries := 3\<rparr>"

theorem atomic_source_repeats_witness:
  "is_ok (APIConfig_ValidateBasic atomic_source) \<and>
   Query atomic_source 1 [10, 11, 12, 13 ::int] = Inr [[10, 11, 12, 13], [10, 11, 12, 13], [10, 11, 12, 13]]"
proof
  show "is_ok (APIConfig_ValidateBasic atomic_source)" by code_simp
  have "ac_atomic atomic_source" "ac_max_queries atomic_source = 3" by code_simp+
  then show "Query atomic_source 1 [10, 11, 12, 13 ::int] = Inr [[10, 11, 12, 13], [10, 11, 12, 13], [10, 11, 12, 13]]"
    using atomic_source_repeats [of atomic_source "[10, 11, 12, 13 ::int]"] by (simp add: eval_nat_numeral)
qed

section \<open>Connections of a websocket source\<close>

lemma Chunk_eq: "0 < n \<Longrightarrow> xs \<noteq> [] \<Longrightarrow> Chunk xs n = chunk_loop n xs"
  by (auto simp: Chunk_def chunk_loop_step)

text \<open>The connections of a websocket source partition its ids in order, none has more than the
  configured number of subscriptions, and the group has room for all of them: exactly when ids are
  left. With no ids and a limit of subscriptions the group has limit zero and one empty connection,
  so that starting it blocks for ever, whatever happens to the context.\<close>

theorem websocket_connections:
  assumes "startMultiplexWebsocket cfg ids = (limit, tasks)"
  shows "concat tasks = ids \<and>
    (0 < wc_max_subscriptions_per_connection cfg \<longrightarrow>
      (\<forall>t \<in> set tasks. int (length t) \<le> wc_max_subscriptions_per_connection cfg)) \<and>
    (group_blocks (limit, tasks) \<longleftrightarrow> ids = [] \<and> 0 < wc_max_subscriptions_per_connection cfg)"
proof (intro conjI)
  let ?n = "nat (wc_max_subscriptions_per_connection cfg)"
  show "concat tasks = ids"
    using assms by (cases "ids = []")
      (auto simp: startMultiplexWebsocket_def Let_def Chunk_eq concat_chunk_loop Chunk_def split: if_splits)
  show "0 < wc_max_subscriptions_per_connection cfg \<longrightarrow>
      (\<forall>t \<in> set tasks. int (length t) \<le> wc_max_subscriptions_per_connection cfg)"
    using assms chunk_loop_sizes [of ?n _ ids] by (cases "ids = []")
      (auto simp: startMultiplexWebsocket_def Let_def Chunk_eq Chunk_def zle_int [symmetric] le_nat_iff split: if_splits)
  show "group_blocks (limit, tasks) \<longleftrightarrow> ids = [] \<and> 0 < wc_max_subscriptions_per_connection cfg"
  proof (cases "ids = []")
    case True
    with assms show ?thesis
      by (auto simp: group_blocks_def startMultiplexWebsocket_def Let_def Chunk_def ceil_div_def split: if_splits)
  next
    case False
    with assms show ?thesis
      by (auto simp: group_blocks_def startMultiplexWebsocket_def Let_def Chunk_eq length_chunk_loop split: if_splits)
  qed
qed

definition multiplexed :: websocket_config where
  "multiplexed = zero_websocket_config\<lparr>wc_max_subscriptions_per_connection := 2\<rparr>"

theorem websocket_connections_witness:
  "concat [[10, 11], [12 :: nat]] = [10, 11, 12] \<and>
   (\<not> group_blocks (2 :: nat, [[10, 11], [12 :: nat]]) \<and> group_blocks (0 :: nat, [[] :: nat list]))"
proof (intro conjI)
  have two: "startMultiplexWebsocket multiplexed [10, 11, 12 :: nat] = (2, [[10, 11], [12]])" by code_simp
  have none: "startMultiplexWebsocket multiplexed ([] :: nat list) = (0, [[]])" by code_simp
  have limited: "0 < wc_max_subscriptions_per_connection multiplexed" by code_simp
  show "concat [[10, 11], [12 :: nat]] = [10, 11, 12]" using websocket_connections [OF two] by blast
  show "\<not> group_blocks (2 :: nat, [[10, 11], [12 :: nat]])" using websocket_connections [OF two] by simp
  show "group_blocks (0 :: nat, [[] :: nat list])" using websocket_connections [OF none] limited by simp
qed

section \<open>Requests\<close>

lemma gm_get_empty: "gm_get [] = Map.empty"
  by (rule ext) simp

lemma failed_keys:
  "dom (gm_get (fold (\<lambda>i m. gm_set i code m) ids m)) = set ids \<union> dom (gm_get m)"
  by (induction ids arbitrary: m) auto

lemma Fetch_cases:
  assumes "Fetch h do_request ids = Inr r"
  obtains (failed) code where "r = NewGetResponseWithErr ids code"
    | (parsed) url resp where "do_request url = (Some resp, None)" "200 \<le> hr_status resp" "hr_status resp < 300"
        "dh_parse_response h ids resp = Inr r"
  using assms by (auto simp: Fetch_def split: sum.splits go_error.splits prod.splits option.splits if_splits)

text \<open>Whatever the outside answers, a request that does not reach the parser of the source yields
  an unresolved result for each of its ids, with the code of the failure, and no resolved one: only a
  panic of the data handler leaves the ids without an answer.\<close>

theorem failed_request_answers_all:
  assumes "Fetch h do_request ids = Inr r" "\<And>resp. dh_parse_response h ids resp \<noteq> Inr r"
  shows "gr_resolved r = [] \<and> dom (gm_get (gr_unresolved r)) = set ids"
proof -
  have err: "gr_resolved (NewGetResponseWithErr ids code) = [] \<and>
      dom (gm_get (gr_unresolved (NewGetResponseWithErr ids code))) = set ids" for code
    by (simp add: NewGetResponseWithErr_def failed_keys gm_get_empty)
  have "\<exists>code. r = NewGetResponseWithErr ids code"
    using assms(2) by (rule_tac Fetch_cases [OF assms(1)]) auto
  with err show ?thesis by auto
qed

definition no_url :: "(int, int) api_data_handler" where
  "no_url = \<lparr>dh_create_url = (\<lambda>ids. Inl (Errorf ''no url'')),
     dh_parse_response = (\<lambda>ids resp. Inr (NewGetResponse [(0, NewResult 1 1)] []))\<rparr>"

theorem failed_request_answers_all_witness:
  "dom (gm_get (gr_unresolved (NewGetResponseWithErr [1, 2] ErrorUnableToCreateURL :: (int, int) get_response))) = {1, 2}"
proof -
  have "Fetch no_url (\<lambda>url. (None, None)) [1, 2] = Inr (NewGetResponseWithErr [1, 2] ErrorUnableToCreateURL)"
    by (simp add: Fetch_def no_url_def)
  from failed_request_answers_all [OF this] show ?thesis
    by (simp add: no_url_def NewGetResponse_def NewGetResponseWithErr_def)
qed

end
