(* ===== verification/Sidecar.thy ===== *)
theory Sidecar
  imports Api_Handler Index_Aggregator Marketmap_Msg
begin

text \<open>
  \<open>oracle\<close> and \<open>oracle/types\<close>: the sidecar's oracle, which owns the price providers, the aggregator and the
  market map. Each operation runs under the oracle's mutex, except that a tick resets the aggregator
  before it takes the mutex and aggregates after. Goroutines are recorded when they are launched and
  run as steps of their own (theory Provider_Lifecycle follows one provider). Handlers, the market
  map provider, the clock and the files are arguments; metrics and logs are left out.
\<close>

section \<open>Provider tickers\<close>

record provider_ticker =
  pt_off_chain_ticker :: string
  pt_json :: string

definition NewProviderTicker :: "string \<Rightarrow> string \<Rightarrow> provider_ticker" where
  "NewProviderTicker offChain json = \<lparr>pt_off_chain_ticker = offChain, pt_json = json\<rparr>"

definition add_config ::
    "string \<Rightarrow> provider_config \<Rightarrow> provider_ticker list \<times> string list \<Rightarrow> provider_ticker list \<times> string list" where
  "add_config name cfg = (\<lambda>(providerTickers, seenOffChainTickers).
     if pc_name cfg \<noteq> name then (providerTickers, seenOffChainTickers)
     else if pc_off_chain_ticker cfg \<in> set seenOffChainTickers then (providerTickers, seenOffChainTickers)
     else (providerTickers @ [NewProviderTicker (pc_off_chain_ticker cfg) (pc_metadata_json cfg)],
           pc_off_chain_ticker cfg # seenOffChainTickers))"

definition ProviderTickersFromMarketMap :: "string \<Rightarrow> market_map \<Rightarrow> provider_ticker list res" where
  "ProviderTickersFromMarketMap name marketMap =
     Inr (fst (fold (\<lambda>(_, market) acc.
       if \<not> tk_enabled (mk_ticker market) then acc
       else fold (add_config name) (mk_provider_configs market) acc) marketMap ([], [])))"

text \<open>The tickers of a provider by their off-chain names, in any case of letters.\<close>

type_synonym provider_tickers = "(string, provider_ticker) gomap"

definition Add :: "provider_ticker \<Rightarrow> provider_tickers \<Rightarrow> provider_tickers" where
  "Add ticker cache =
     gm_set (ToUpper (pt_off_chain_ticker ticker)) ticker
       (gm_set (pt_off_chain_ticker ticker) ticker
         (gm_set (ToLower (pt_off_chain_ticker ticker)) ticker cache))"

definition NewProviderTickers :: "provider_ticker list \<Rightarrow> provider_tickers" where
  "NewProviderTickers tickers = fold Add tickers []"

definition FromOffChainTicker :: "provider_tickers \<Rightarrow> string \<Rightarrow> provider_ticker option" where
  "FromOffChainTicker cache offChain = gm_get cache offChain"

definition NoPriceChangeResponse ::
    "int \<Rightarrow> provider_tickers \<Rightarrow> (provider_ticker, big_float option) get_response" where
  "NoPriceChangeResponse now cache =
     NewGetResponse (fst (fold (\<lambda>(_, ticker) (resolved, seen).
       if ticker \<in> set seen then (resolved, seen)
       else (gm_set ticker (NewResultWithCode (Some \<lparr>bf_prec = 53, bf_val = BZero False\<rparr>) now ResponseCodeUnchanged)
               resolved, ticker # seen)) cache ([], []))) []"

section \<open>The oracle\<close>

type_synonym 'h price_provider = "(provider_ticker, big_float option, 'h) base_provider"

text \<open>The market map provider asks for the map of one chain, named by its chain id.\<close>

type_synonym 'm market_map_provider = "(string, market_map_response option, 'm) base_provider"

record 'h provider_state =
  ps_provider :: "'h price_provider"
  ps_cfg :: source_config

record ('h, 'm) oracle_impl =
  oi_running :: bool
  oi_contexts :: contexts
  oi_main_ctx :: "nat option"
  oi_launched :: "string list"
  oi_listening :: bool
  oi_price_providers :: "(string, 'h provider_state) gomap"
  oi_mm_provider :: "'m market_map_provider option"
  oi_aggregator :: index_aggregator
  oi_last_price_sync :: "int option"
  oi_cfg :: oracle_config
  oi_market_map :: market_map
  oi_last_updated :: u64
  oi_write_to :: string
  oi_price_api_factory :: "(source_config \<Rightarrow> 'h option res) option"
  oi_price_ws_factory :: "(source_config \<Rightarrow> 'h option res) option"
  oi_market_mapper_factory :: "(source_config \<Rightarrow> 'm market_map_provider option res) option"

type_synonym ('h, 'm) oracle_option = "('h, 'm) oracle_impl \<Rightarrow> ('h, 'm) oracle_impl res"

definition WithMarketMap :: "market_map \<Rightarrow> ('h, 'm) oracle_option" where
  "WithMarketMap marketMap orc =
     (if \<not> is_ok (MarketMap_ValidateBasic marketMap) then Inl (Panic ''invalid market map'')
      else Inr (orc\<lparr>oi_market_map := marketMap\<rparr>))"

definition WithLastUpdated :: "u64 \<Rightarrow> ('h, 'm) oracle_option" where
  "WithLastUpdated lastUpdated orc = Inr (orc\<lparr>oi_last_updated := lastUpdated\<rparr>)"

definition WithPriceAPIQueryHandlerFactory :: "(source_config \<Rightarrow> 'h option res) option \<Rightarrow> ('h, 'm) oracle_option" where
  "WithPriceAPIQueryHandlerFactory factory orc =
     (if factory = None then Inl (Panic ''api query handler factory cannot be nil'')
      else Inr (orc\<lparr>oi_price_api_factory := factory\<rparr>))"

definition WithPriceWebSocketQueryHandlerFactory :: "(source_config \<Rightarrow> 'h option res) option \<Rightarrow> ('h, 'm) oracle_option" where
  "WithPriceWebSocketQueryHandlerFactory factory orc =
     (if factory = None then Inl (Panic ''websocket query handler factory cannot be nil'')
      else Inr (orc\<lparr>oi_price_ws_factory := factory\<rparr>))"

definition WithMarketMapperFactory ::
    "(source_config \<Rightarrow> 'm market_map_provider option res) option \<Rightarrow> ('h, 'm) oracle_option" where
  "WithMarketMapperFactory factory orc =
     (if factory = None then Inl (Panic ''market map factory cannot be nil'')
      else Inr (orc\<lparr>oi_market_mapper_factory := factory\<rparr>))"

definition WithWriteTo :: "string \<Rightarrow> ('h, 'm) oracle_option" where
  "WithWriteTo filePath orc = Inr (orc\<lparr>oi_write_to := filePath\<rparr>)"

text \<open>Providers are stored under their names, with no configuration.\<close>

definition zero_source_config :: source_config where
  "zero_source_config = \<lparr>sc_name = [], sc_api = zero_api_config, sc_websocket = zero_websocket_config, sc_type = []\<rparr>"

definition WithPriceProviders :: "'h price_provider list \<Rightarrow> ('h, 'm) oracle_option" where
  "WithPriceProviders pps orc =
     Inr (orc\<lparr>oi_price_providers := fold (\<lambda>pp.
       gm_set (bp_name pp) \<lparr>ps_provider = pp, ps_cfg = zero_source_config\<rparr>) pps (oi_price_providers orc)\<rparr>)"

fun apply_oracle_options :: "('h, 'm) oracle_option list \<Rightarrow> ('h, 'm) oracle_option" where
  "apply_oracle_options [] orc = Inr orc"
| "apply_oracle_options (opt # opts) orc = bind_res (opt orc) (apply_oracle_options opts)"

text \<open>\<open>New\<close>. The contexts that exist at that moment are the caller's.\<close>

definition NewOracle ::
    "contexts \<Rightarrow> oracle_config \<Rightarrow> index_aggregator option \<Rightarrow> ('h, 'm) oracle_option list \<Rightarrow> ('h, 'm) oracle_impl res" where
  "NewOracle cs cfg aggregator opts =
     bind_res (OracleConfig_ValidateBasic cfg) (\<lambda>_.
     case aggregator of
       None \<Rightarrow> Inl (Errorf ''aggregator is required'')
     | Some agg \<Rightarrow>
         apply_oracle_options opts
           \<lparr>oi_running = False, oi_contexts = cs, oi_main_ctx = None, oi_launched = [], oi_listening = False,
            oi_price_providers = [], oi_mm_provider = None, oi_aggregator = agg, oi_last_price_sync = None,
            oi_cfg = cfg, oi_market_map = [], oi_last_updated = 0, oi_write_to = [],
            oi_price_api_factory = None, oi_price_ws_factory = None, oi_market_mapper_factory = None\<rparr>)"

section \<open>Initialisation\<close>

definition ConfigType :: string where "ConfigType = ''price_provider''"
definition MarketMapConfigType :: string where "MarketMapConfigType = ''market_map_provider''"

definition createAPIQueryHandler :: "source_config \<Rightarrow> ('h, 'm) oracle_impl \<Rightarrow> 'h option res" where
  "createAPIQueryHandler cfg orc =
     (case oi_price_api_factory orc of
        None \<Rightarrow> Inl (Errorf ''cannot create provider; api query handler factory is not set'')
      | Some factory \<Rightarrow> factory cfg)"

definition createWebSocketQueryHandler :: "source_config \<Rightarrow> ('h, 'm) oracle_impl \<Rightarrow> 'h option res" where
  "createWebSocketQueryHandler cfg orc =
     (case oi_price_ws_factory orc of
        None \<Rightarrow> Inl (Errorf ''cannot create provider; web socket query handler factory is not set'')
      | Some factory \<Rightarrow> factory cfg)"

definition new_price_provider ::
    "source_config \<Rightarrow> provider_ticker list \<Rightarrow> ('h, 'm) oracle_impl \<Rightarrow> 'h price_provider res" where
  "new_price_provider cfg tickers orc =
     (if ac_enabled (sc_api cfg) then
        bind_res (mapErr (Wrapf ''failed to create api query handler'') (createAPIQueryHandler cfg orc)) (\<lambda>queryHandler.
        mapErr (Wrapf ''failed to create provider'')
          (NewProvider [WithName (sc_name cfg), WithAPIQueryHandler queryHandler, WithAPIConfig (sc_api cfg),
            WithIDs (Some tickers)]))
      else if wc_enabled (sc_websocket cfg) then
        bind_res (mapErr (Wrapf ''failed to create web socket query handler'') (createWebSocketQueryHandler cfg orc)) (\<lambda>queryHandler.
        mapErr (Wrapf ''failed to create provider'')
          (NewProvider [WithName (sc_name cfg), WithWebSocketQueryHandler queryHandler,
            WithWebSocketConfig (sc_websocket cfg), WithIDs (Some tickers)]))
      else Inl (Errorf ''provider has no enabled query handlers''))"

definition createPriceProvider :: "source_config \<Rightarrow> (('h, 'm) oracle_impl, unit) comp" where
  "createPriceProvider cfg =
     bindC (readC (\<lambda>orc.
       bind_res (mapErr (Wrapf ''failed to create provider market map'')
         (ProviderTickersFromMarketMap (sc_name cfg) (oi_market_map orc))) (\<lambda>tickers.
       new_price_provider cfg tickers orc))) (\<lambda>provider.
     modifyC (\<lambda>orc. orc\<lparr>oi_price_providers :=
       gm_set (bp_name provider) \<lparr>ps_provider = provider, ps_cfg = cfg\<rparr> (oi_price_providers orc)\<rparr>))"

text \<open>A nil mapper with no error panics when its name is logged, after it was stored.\<close>

definition createMarketMapProvider :: "source_config \<Rightarrow> (('h, 'm) oracle_impl, unit) comp" where
  "createMarketMapProvider cfg =
     bindC (readC (\<lambda>orc. case oi_market_mapper_factory orc of
         None \<Rightarrow> Inl (Errorf ''cannot create market map provider; market map factory is not set'')
       | Some factory \<Rightarrow> mapErr (Wrapf ''failed to create market map provider'') (factory cfg))) (\<lambda>mapper.
     bindC (modifyC (\<lambda>orc. orc\<lparr>oi_mm_provider := mapper\<rparr>)) (\<lambda>_.
     if mapper = None then throwC (Panic ''nil pointer dereference'') else returnC ()))"

definition init_provider :: "source_config \<Rightarrow> (('h, 'm) oracle_impl, unit) comp" where
  "init_provider cfg =
     mapErrC (Wrapf ''failed to initialize provider'')
       (if sc_type cfg = ConfigType then createPriceProvider cfg
        else if sc_type cfg = MarketMapConfigType then createMarketMapProvider cfg
        else throwC (Errorf ''unknown provider type''))"

definition Init :: "(('h, 'm) oracle_impl, unit) comp" where
  "Init orc = forC (map snd (oc_providers (oi_cfg orc))) init_provider orc"

section \<open>Updates of the market map\<close>

text \<open>The provider with its new ids, the contexts, and whether its \<open>Start\<close> is launched.\<close>

definition UpdateProviderState ::
    "provider_ticker list \<Rightarrow> 'h provider_state \<Rightarrow> contexts \<Rightarrow> ('h provider_state \<times> contexts \<times> bool) res" where
  "UpdateProviderState providerTickers state cs =
     bind_res (Update [WithNewIDs providerTickers] (ps_provider state) cs) (\<lambda>(provider, cs1).
     let updated = state\<lparr>ps_provider := provider\<rparr> in
     if providerTickers = [] then Inr (updated, Stop provider cs1, False)
     else Inr (updated, cs1, \<not> IsRunning provider cs1))"

definition update_provider :: "market_map \<Rightarrow> string \<times> 'h provider_state \<Rightarrow> (('h, 'm) oracle_impl, unit) comp" where
  "update_provider marketMap = (\<lambda>(name, state).
     bindC (liftC (ProviderTickersFromMarketMap name marketMap)) (\<lambda>providerTickers.
     bindC (readC (\<lambda>orc. UpdateProviderState providerTickers state (oi_contexts orc))) (\<lambda>(updatedState, cs, launch).
     modifyC (\<lambda>orc. orc\<lparr>oi_contexts := cs,
       oi_launched := oi_launched orc @ (if launch then [name] else []),
       oi_price_providers := gm_set name updatedState (oi_price_providers orc)\<rparr>))))"

definition UpdateMarketMap :: "market_map \<Rightarrow> (('h, 'm) oracle_impl, unit) comp" where
  "UpdateMarketMap marketMap orc =
     (case GetValidSubset marketMap of
        (_, Inl e) \<Rightarrow> (Inl e, orc)
      | (validSubset, Inr _) \<Rightarrow>
          bindC (forC (oi_price_providers orc) (update_provider validSubset)) (\<lambda>_.
          modifyC (\<lambda>o1. o1\<lparr>oi_market_map := validSubset,
            oi_aggregator := ia_UpdateMarketMap validSubset (oi_aggregator o1)\<rparr>)) orc)"

definition IsMarketMapValidUpdated ::
    "market_map_response option \<Rightarrow> ('h, 'm) oracle_impl \<Rightarrow> (market_map \<times> bool) res" where
  "IsMarketMapValidUpdated resp orc =
     (case resp of
        None \<Rightarrow> Inl (Errorf ''nil response'')
      | Some r \<Rightarrow>
          if MarketMap_Equal (oi_market_map orc) (mr_market_map r) then Inr ([], False)
          else case GetValidSubset (mr_market_map r) of
            (_, Inl e) \<Rightarrow> Inl (wrap_err (Wrapf ''failed to validate market map'') e)
          | (validSubset, Inr _) \<Rightarrow>
              if MarketMap_Equal (oi_market_map orc) validSubset then Inr ([], False)
              else Inr (validSubset, True))"

text \<open>The file the market map is written to, if one is configured. Its errors are only logged.\<close>

definition WriteMarketMap :: "('h, 'm) oracle_impl \<Rightarrow> (string \<times> market_map) option" where
  "WriteMarketMap orc = (if oi_write_to orc = [] then None else Some (oi_write_to orc, oi_market_map orc))"

text \<open>\<open>listenForMarketMapUpdates\<close>: it gives up unless the provider has one chain; else the body of one
  tick, with the file it writes.\<close>

definition listen_chain :: "'m market_map_provider \<Rightarrow> string option" where
  "listen_chain mmProvider = (case GetIDs mmProvider of [chain] \<Rightarrow> Some chain | _ \<Rightarrow> None)"

definition market_map_tick ::
    "'m market_map_provider \<Rightarrow> string \<Rightarrow> ('h, 'm) oracle_impl \<Rightarrow> ('h, 'm) oracle_impl \<times> (string \<times> market_map) option" where
  "market_map_tick mmProvider chain orc =
     (case gm_get (GetData mmProvider) chain of
        None \<Rightarrow> (orc, None)
      | Some result \<Rightarrow>
          (case IsMarketMapValidUpdated (rr_value result) orc of
             Inl e \<Rightarrow> (orc, None)
           | Inr (newMarketMap, isUpdated) \<Rightarrow>
               if \<not> isUpdated then (orc, None)
               else case UpdateMarketMap newMarketMap orc of
                 (Inl e, o1) \<Rightarrow> (o1, None)
               | (Inr _, o1) \<Rightarrow>
                   let o2 = o1\<lparr>oi_last_updated :=
                     (case rr_value result of None \<Rightarrow> 0 | Some r \<Rightarrow> mr_last_updated r)\<rparr>
                   in (o2, WriteMarketMap o2)))"

section \<open>Prices\<close>

text \<open>The prices of a provider that are not too old. One reading \<open>now\<close> stands for the readings of the
  clock in one tick. Logging a nil price panics.\<close>

fun filter_prices ::
    "int \<Rightarrow> int \<Rightarrow> (provider_ticker \<times> big_float option resolved_result) list \<Rightarrow> prices \<Rightarrow> prices res" where
  "filter_prices now maxAge [] acc = Inr acc"
| "filter_prices now maxAge ((pair, result) # rest) acc =
     (if maxAge < now - rr_timestamp result then filter_prices now maxAge rest acc
      else case rr_value result of
        None \<Rightarrow> Inl (Panic ''nil pointer dereference'')
      | Some v \<Rightarrow> filter_prices now maxAge rest (gm_set (pt_off_chain_ticker pair) (Some v) acc))"

definition fetchPrices :: "int \<Rightarrow> int \<Rightarrow> contexts \<Rightarrow> 'h price_provider \<Rightarrow> index_aggregator \<Rightarrow> index_aggregator" where
  "fetchPrices now maxAge cs provider agg =
     (if \<not> IsRunning provider cs then agg
      else case filter_prices now maxAge (GetData provider) [] of
        Inl _ \<Rightarrow> agg
      | Inr timeFilteredPrices \<Rightarrow> SetProviderPrices (bp_name provider) (Some timeFilteredPrices) agg)"

definition collect_provider_prices :: "int \<Rightarrow> ('h, 'm) oracle_impl \<Rightarrow> index_aggregator \<Rightarrow> index_aggregator" where
  "collect_provider_prices now orc agg =
     fold (\<lambda>(_, state). fetchPrices now (oc_max_price_age (oi_cfg orc)) (oi_contexts orc) (ps_provider state))
       (oi_price_providers orc) agg"

text \<open>A tick; a panic of the aggregation is recovered and skips the new time.\<close>

definition fetchAllPrices :: "int \<Rightarrow> ('h, 'm) oracle_impl \<Rightarrow> ('h, 'm) oracle_impl" where
  "fetchAllPrices now orc =
     (case AggregatePrices (collect_provider_prices now orc (Reset (oi_aggregator orc))) of
        (Inl _, agg) \<Rightarrow> orc\<lparr>oi_aggregator := agg\<rparr>
      | (Inr _, agg) \<Rightarrow> orc\<lparr>oi_aggregator := agg, oi_last_price_sync := Some now\<rparr>)"

definition oracle_GetPrices :: "('h, 'm) oracle_impl \<Rightarrow> prices" where
  "oracle_GetPrices orc = ia_GetPrices (oi_aggregator orc)"

definition oracle_GetMarketMap :: "('h, 'm) oracle_impl \<Rightarrow> market_map" where
  "oracle_GetMarketMap orc = oi_market_map orc"

definition GetLastSyncTime :: "('h, 'm) oracle_impl \<Rightarrow> int option" where
  "GetLastSyncTime orc = oi_last_price_sync orc"

definition GetProviderState :: "('h, 'm) oracle_impl \<Rightarrow> (string, 'h provider_state) gomap" where
  "GetProviderState orc = oi_price_providers orc"

section \<open>Starting and stopping\<close>

text \<open>A launched goroutine, when it runs: it starts the provider on the main context the oracle has then.\<close>

definition execProviderFn :: "string \<Rightarrow> ('h, 'm) oracle_impl \<Rightarrow> ('h, 'm) oracle_impl" where
  "execProviderFn name orc =
     (case (oi_main_ctx orc, gm_get (oi_price_providers orc) name) of
        (Some ctx, Some state) \<Rightarrow>
          (case setMainCtx ctx (ps_provider state) (oi_contexts orc) of (p, cs) \<Rightarrow>
           orc\<lparr>oi_contexts := cs, oi_price_providers := gm_set name (state\<lparr>ps_provider := p\<rparr>) (oi_price_providers orc)\<rparr>)
      | _ \<Rightarrow> orc)"

definition oracle_setMainCtx :: "nat \<Rightarrow> ('h, 'm) oracle_impl \<Rightarrow> ('h, 'm) oracle_impl" where
  "oracle_setMainCtx parent orc =
     (case WithCancel parent (oi_contexts orc) of (m, cs) \<Rightarrow> orc\<lparr>oi_main_ctx := Some m, oi_contexts := cs\<rparr>)"

text \<open>\<open>Start\<close> up to its loop: an error leaves the oracle not running.\<close>

definition start_prefix :: "nat \<Rightarrow> (('h, 'm) oracle_impl, unit) comp" where
  "start_prefix parent =
     bindC Init (\<lambda>_.
     bindC (modifyC (oracle_setMainCtx parent)) (\<lambda>_.
     bindC (\<lambda>orc. forC (oi_price_providers orc) (update_provider (oi_market_map orc)) orc) (\<lambda>_.
     modifyC (\<lambda>orc. if oi_mm_provider orc = None then orc else orc\<lparr>oi_listening := True\<rparr>))))"

definition StartOracle :: "nat \<Rightarrow> (('h, 'm) oracle_impl, unit) comp" where
  "StartOracle parent orc =
     (case start_prefix parent (orc\<lparr>oi_running := True\<rparr>) of
        (Inl e, o1) \<Rightarrow> (Inl e, o1\<lparr>oi_running := False\<rparr>)
      | (Inr _, o1) \<Rightarrow> (Inr (), o1))"

definition StopOracle :: "('h, 'm) oracle_impl \<Rightarrow> ('h, 'm) oracle_impl" where
  "StopOracle orc =
     (case oi_main_ctx orc of None \<Rightarrow> orc | Some m \<Rightarrow> orc\<lparr>oi_contexts := cancel_ctx m (oi_contexts orc)\<rparr>)"

text \<open>The loop of \<open>Start\<close> when its context is done.\<close>

definition loop_exit :: "('h, 'm) oracle_impl \<Rightarrow> ('h, 'm) oracle_impl" where
  "loop_exit orc = (StopOracle orc)\<lparr>oi_running := False\<rparr>"

definition oracle_IsRunning :: "('h, 'm) oracle_impl \<Rightarrow> bool" where
  "oracle_IsRunning orc = oi_running orc"

end
