(* ===== verification/Sidecar_Properties.thy ===== *)
theory Sidecar_Properties
  imports Sidecar Index_Facts Marketmap_Validity
begin

text \<open>
  Properties of the oracle: only fresh prices of running providers are aggregated, a tick that panics
  publishes nothing, an update of the market map reaches every provider and the aggregator or changes
  nothing, and the updates settle.
\<close>

section \<open>A round of prices\<close>

text \<open>What a provider offers in a round.\<close>

definition offered :: "int \<Rightarrow> ('h, 'm) oracle_impl \<Rightarrow> 'h provider_state \<Rightarrow> prices option" where
  "offered now orc st =
     (if IsRunning (ps_provider st) (oi_contexts orc) then
        (case filter_prices now (oc_max_price_age (oi_cfg orc)) (GetData (ps_provider st)) [] of
           Inl _ \<Rightarrow> None | Inr ps \<Rightarrow> Some ps)
      else None)"

text \<open>The providers are stored under their own names.\<close>

definition providers_named :: "('h, 'm) oracle_impl \<Rightarrow> bool" where
  "providers_named orc \<longleftrightarrow> gm_wf (oi_price_providers orc) \<and>
     (\<forall>(name, st) \<in> set (oi_price_providers orc). bp_name (ps_provider st) = name)"

lemma fetchPrices_offered:
  "fetchPrices now (oc_max_price_age (oi_cfg orc)) (oi_contexts orc) (ps_provider st) agg =
   (case offered now orc st of None \<Rightarrow> agg | Some ps \<Rightarrow> SetProviderPrices (bp_name (ps_provider st)) (Some ps) agg)"
  by (simp add: fetchPrices_def offered_def split: sum.splits)

lemma collect_eq:
  assumes "\<forall>(name, st) \<in> set xs. bp_name (ps_provider st) = name"
  shows "fold (\<lambda>(_, state). fetchPrices now (oc_max_price_age (oi_cfg orc)) (oi_contexts orc) (ps_provider state)) xs agg =
    fold (\<lambda>(name, offer) a. case offer of None \<Rightarrow> a | Some ps \<Rightarrow> SetProviderPrices name (Some ps) a)
      (map (\<lambda>(name, st). (name, offered now orc st)) xs) agg"
  using assms by (induction xs arbitrary: agg) (auto simp: fetchPrices_offered split: option.splits)

lemma collected:
  assumes "providers_named orc"
  shows "gm_get (ia_provider_prices (collect_provider_prices now orc (Reset a))) name =
    Option.bind (gm_get (oi_price_providers orc) name) (offered now orc)"
proof -
  let ?xs = "map (\<lambda>(name, st). (name, offered now orc st)) (oi_price_providers orc)"
  have keys: "map fst ?xs = map fst (oi_price_providers orc)" by (induction "oi_price_providers orc") auto
  then have "distinct (map fst ?xs)" using assms by (simp only: providers_named_def gm_wf_def)
  moreover have "map_of ?xs name = map_option (offered now orc) (gm_get (oi_price_providers orc) name)"
    by (simp add: map_of_map gm_get_def)
  ultimately show ?thesis
    using assms index_prices.held_round [of ?xs a name]
    by (simp add: providers_named_def collect_provider_prices_def collect_eq Option.bind_def split: option.splits)
qed

lemma collect_publishes_nothing:
  assumes "providers_named orc"
  shows "ia_GetPrices (collect_provider_prices now orc (Reset a)) = ia_GetPrices a"
    "ia_cfg (collect_provider_prices now orc (Reset a)) = ia_cfg a"
    "ia_index_prices (collect_provider_prices now orc (Reset a)) = ia_index_prices a"
  using assms index_prices.published_round [of "map (\<lambda>(name, st). (name, offered now orc st)) (oi_price_providers orc)" a]
  by (simp_all add: providers_named_def collect_provider_prices_def collect_eq)

lemma Aggregate_keeps:
  "ia_provider_prices (snd (AggregatePrices a)) = ia_provider_prices a"
  "ia_cfg (snd (AggregatePrices a)) = ia_cfg a"
  by (auto simp: AggregatePrices_def split: sum.splits prod.splits)

lemma tick_aggregator:
  "oi_aggregator (fetchAllPrices now orc) =
   snd (AggregatePrices (collect_provider_prices now orc (Reset (oi_aggregator orc))))"
  by (simp add: fetchAllPrices_def split: sum.splits prod.splits)

abbreviation fresh :: "int \<Rightarrow> ('h, 'm) oracle_impl \<Rightarrow> big_float option resolved_result \<Rightarrow> bool" where
  "fresh now orc r \<equiv> now - rr_timestamp r \<le> oc_max_price_age (oi_cfg orc)"

lemma filter_sound:
  "filter_prices now age data acc = Inr ps \<Longrightarrow> gm_get ps t = Some v \<Longrightarrow>
   gm_get acc t = Some v \<or> (\<exists>(pair, r) \<in> set data. pt_off_chain_ticker pair = t \<and> rr_value r = v \<and> v \<noteq> None \<and>
     now - rr_timestamp r \<le> age)"
proof (induction now age data acc rule: filter_prices.induct)
  case (2 now age pair r rest acc)
  show ?case
  proof (cases "age < now - rr_timestamp r")
    case True
    with 2 show ?thesis by auto
  next
    case False
    then obtain v' where v': "rr_value r = Some v'" using 2(3) by (auto split: option.splits)
    have "filter_prices now age rest (gm_set (pt_off_chain_ticker pair) (Some v') acc) = Inr ps"
      using 2(3) False v' by simp
    from 2(2) [OF False v' this 2(4)] False v' show ?thesis by (auto split: if_splits)
  qed
qed simp

text \<open>The fresh results in iteration order: the last one of an off-chain ticker is its price.\<close>

definition fresh_values ::
    "int \<Rightarrow> int \<Rightarrow> (provider_ticker \<times> big_float option resolved_result) list \<Rightarrow> (string \<times> big_float option) list" where
  "fresh_values now age data =
     map (\<lambda>(pair, r). (pt_off_chain_ticker pair, rr_value r)) (filter (\<lambda>(pair, r). now - rr_timestamp r \<le> age) data)"

lemma gm_get_upd: "gm_get (gm_set k v m) = (gm_get m)(k \<mapsto> v)"
  by (rule ext) simp

lemma fresh_values_Cons:
  "\<not> age < now - rr_timestamp r \<Longrightarrow>
   acc ++ map_of (rev (fresh_values now age ((pair, r) # rest))) =
     acc(pt_off_chain_ticker pair \<mapsto> rr_value r) ++ map_of (rev (fresh_values now age rest))"
  by (rule ext) (auto simp: fresh_values_def map_add_def split: option.splits)

lemma filter_get:
  "\<forall>(pair, r) \<in> set data. now - rr_timestamp r \<le> age \<longrightarrow> rr_value r \<noteq> None \<Longrightarrow>
   \<exists>ps. filter_prices now age data acc = Inr ps \<and> gm_get ps = gm_get acc ++ map_of (rev (fresh_values now age data))"
proof (induction now age data acc rule: filter_prices.induct)
  case (2 now age pair r rest acc)
  show ?case
  proof (cases "age < now - rr_timestamp r")
    case True
    with 2(1) [OF True] 2(3) show ?thesis by (auto simp: fresh_values_def)
  next
    case False
    then obtain v where v: "rr_value r = Some v" using 2(3) by auto
    have "\<forall>(pair, r) \<in> set rest. now - rr_timestamp r \<le> age \<longrightarrow> rr_value r \<noteq> None" using 2(3) by simp
    from 2(2) [OF False v this] obtain ps where
      "filter_prices now age rest (gm_set (pt_off_chain_ticker pair) (Some v) acc) = Inr ps"
      "gm_get ps = (gm_get acc)(pt_off_chain_ticker pair \<mapsto> Some v) ++ map_of (rev (fresh_values now age rest))"
      unfolding gm_get_upd by blast
    then show ?thesis using False v fresh_values_Cons [OF False] by simp
  qed
qed (simp add: fresh_values_def)

lemma map_of_only: "(k, v) \<in> set xs \<Longrightarrow> \<forall>(k', w) \<in> set xs. k' = k \<longrightarrow> w = v \<Longrightarrow> map_of xs k = Some v"
  by (induction xs) auto

definition round_prices :: "int \<Rightarrow> ('h, 'm) oracle_impl \<Rightarrow> string \<Rightarrow> prices option" where
  "round_prices now orc = gm_get (ia_provider_prices (oi_aggregator (fetchAllPrices now orc)))"

lemma round_prices_eq:
  "providers_named orc \<Longrightarrow>
   round_prices now orc name = Option.bind (gm_get (oi_price_providers orc) name) (offered now orc)"
  by (simp add: round_prices_def tick_aggregator Aggregate_keeps collected)

lemma offered_prices:
  assumes "providers_named orc"
  shows "\<And>name ps t v. round_prices now orc name = Some ps \<Longrightarrow> gm_get ps t = Some v \<Longrightarrow>
      \<exists>st pair r. gm_get (oi_price_providers orc) name = Some st \<and> IsRunning (ps_provider st) (oi_contexts orc) \<and>
        (pair, r) \<in> set (GetData (ps_provider st)) \<and> pt_off_chain_ticker pair = t \<and> rr_value r = v \<and> v \<noteq> None \<and>
        fresh now orc r"
    and "\<And>name st pair r. gm_get (oi_price_providers orc) name = Some st \<Longrightarrow> IsRunning (ps_provider st) (oi_contexts orc) \<Longrightarrow>
      \<forall>(_, r) \<in> set (GetData (ps_provider st)). rr_value r \<noteq> None \<Longrightarrow>
      (pair, r) \<in> set (GetData (ps_provider st)) \<Longrightarrow> fresh now orc r \<Longrightarrow>
      \<forall>(pair', r') \<in> set (GetData (ps_provider st)).
        fresh now orc r' \<and> pt_off_chain_ticker pair' = pt_off_chain_ticker pair \<longrightarrow> (pair', r') = (pair, r) \<Longrightarrow>
      \<exists>ps. round_prices now orc name = Some ps \<and> gm_get ps (pt_off_chain_ticker pair) = Some (rr_value r)"
proof -
  note round = round_prices_eq [OF assms]
  show "\<exists>st pair r. gm_get (oi_price_providers orc) name = Some st \<and> IsRunning (ps_provider st) (oi_contexts orc) \<and>
        (pair, r) \<in> set (GetData (ps_provider st)) \<and> pt_off_chain_ticker pair = t \<and> rr_value r = v \<and> v \<noteq> None \<and>
        fresh now orc r"
    if ps: "round_prices now orc name = Some ps" and v: "gm_get ps t = Some v" for name ps t v
  proof -
    obtain st where st: "gm_get (oi_price_providers orc) name = Some st" "offered now orc st = Some ps"
      using ps by (auto simp: round bind_eq_Some_conv)
    then have "IsRunning (ps_provider st) (oi_contexts orc)"
      "filter_prices now (oc_max_price_age (oi_cfg orc)) (GetData (ps_provider st)) [] = Inr ps"
      by (auto simp: offered_def split: if_splits sum.splits)
    with filter_sound [OF this(2) v] st(1) show ?thesis by fastforce
  qed
  show "\<exists>ps. round_prices now orc name = Some ps \<and> gm_get ps (pt_off_chain_ticker pair) = Some (rr_value r)"
    if st: "gm_get (oi_price_providers orc) name = Some st" "IsRunning (ps_provider st) (oi_contexts orc)"
      and ok: "\<forall>(_, r) \<in> set (GetData (ps_provider st)). rr_value r \<noteq> None"
      and r: "(pair, r) \<in> set (GetData (ps_provider st))" "fresh now orc r"
      and only: "\<forall>(pair', r') \<in> set (GetData (ps_provider st)).
        fresh now orc r' \<and> pt_off_chain_ticker pair' = pt_off_chain_ticker pair \<longrightarrow> (pair', r') = (pair, r)"
    for name st pair r
  proof -
    have "\<forall>(_, r) \<in> set (GetData (ps_provider st)). fresh now orc r \<longrightarrow> rr_value r \<noteq> None" using ok by auto
    from filter_get [OF this, of "[]"] obtain ps where ps:
      "filter_prices now (oc_max_price_age (oi_cfg orc)) (GetData (ps_provider st)) [] = Inr ps"
      "gm_get ps = gm_get [] ++ map_of (rev (fresh_values now (oc_max_price_age (oi_cfg orc)) (GetData (ps_provider st))))"
      by blast
    have "map_of (rev (fresh_values now (oc_max_price_age (oi_cfg orc)) (GetData (ps_provider st)))) (pt_off_chain_ticker pair)
        = Some (rr_value r)"
      using r only by (intro map_of_only) (force simp: fresh_values_def)+
    then have "gm_get ps (pt_off_chain_ticker pair) = Some (rr_value r)" by (simp add: ps(2))
    then show ?thesis using st ps(1) by (simp add: round offered_def)
  qed
qed

text \<open>(C14) What a tick hands the aggregation: every price comes from a running provider's stored result of
  that off-chain ticker, is not nil and is no older than the maximal age; and every fresh result of a
  running provider whose results are not nil is handed over, when no other fresh result of the provider
  has the same off-chain ticker.\<close>

theorem only_fresh_prices:
  assumes "providers_named orc"
  shows "(\<forall>name ps t v. round_prices now orc name = Some ps \<and> gm_get ps t = Some v \<longrightarrow>
      (\<exists>st pair r. gm_get (oi_price_providers orc) name = Some st \<and> IsRunning (ps_provider st) (oi_contexts orc) \<and>
        (pair, r) \<in> set (GetData (ps_provider st)) \<and> pt_off_chain_ticker pair = t \<and> rr_value r = v \<and> v \<noteq> None \<and>
        fresh now orc r)) \<and>
    (\<forall>name st pair r. gm_get (oi_price_providers orc) name = Some st \<and> IsRunning (ps_provider st) (oi_contexts orc) \<and>
      (\<forall>(_, r) \<in> set (GetData (ps_provider st)). rr_value r \<noteq> None) \<and>
      (pair, r) \<in> set (GetData (ps_provider st)) \<and> fresh now orc r \<and>
      (\<forall>(pair', r') \<in> set (GetData (ps_provider st)).
        fresh now orc r' \<and> pt_off_chain_ticker pair' = pt_off_chain_ticker pair \<longrightarrow> (pair', r') = (pair, r)) \<longrightarrow>
      (\<exists>ps. round_prices now orc name = Some ps \<and> gm_get ps (pt_off_chain_ticker pair) = Some (rr_value r)))"
  by (intro conjI allI impI; elim conjE) (rule offered_prices [OF assms]; assumption)+

text \<open>An oracle with one running provider, whose price of one ticker is fresh and of another one too old.\<close>

definition quote_of :: "string \<Rightarrow> provider_ticker" where
  "quote_of t = NewProviderTicker t []"

definition provider_a :: "unit price_provider" where
  "provider_a = new_provider\<lparr>bp_name := ''a'', bp_api := Some (), bp_ids := [quote_of ''b''],
     bp_data := [(quote_of ''b'', NewResult (Some (bf_SetInt 100)) 970), (quote_of ''c'', NewResult (Some (bf_SetInt 7)) 10)],
     bp_main_ctx := Some 2, bp_fetch_ctx := Some 3\<rparr>"

definition orc0 :: "(unit, unit) oracle_impl" where
  "orc0 = \<lparr>oi_running = True,
     oi_contexts = [\<lparr>ct_parent = None, ct_cancelled = False\<rparr>, \<lparr>ct_parent = Some 0, ct_cancelled = False\<rparr>,
       \<lparr>ct_parent = Some 1, ct_cancelled = False\<rparr>, \<lparr>ct_parent = Some 2, ct_cancelled = False\<rparr>],
     oi_main_ctx = Some 1, oi_launched = [], oi_listening = True,
     oi_price_providers = [(''a'', \<lparr>ps_provider = provider_a, ps_cfg = zero_source_config\<rparr>)],
     oi_mm_provider = None,
     oi_aggregator = \<lparr>ia_cfg = [], ia_index_prices = [], ia_scaled_prices = [], ia_provider_prices = []\<rparr>,
     oi_last_price_sync = None,
     oi_cfg = \<lparr>oc_update_interval = 1, oc_max_price_age = 60, oc_providers = [], oc_metrics =
       \<lparr>mc_prometheus_server_address = [], mc_enabled = False\<rparr>, oc_host = ''h'', oc_port = ''p''\<rparr>,
     oi_market_map = [], oi_last_updated = 0, oi_write_to = [],
     oi_price_api_factory = None, oi_price_ws_factory = None, oi_market_mapper_factory = None\<rparr>"

lemma orc0_named: "providers_named orc0"
  by (simp add: providers_named_def orc0_def provider_a_def gm_wf_def)

lemma orc0_provider:
  "gm_get (oi_price_providers orc0) ''a'' = Some \<lparr>ps_provider = provider_a, ps_cfg = zero_source_config\<rparr>"
  "GetData provider_a = [(quote_of ''b'', NewResult (Some (bf_SetInt 100)) 970), (quote_of ''c'', NewResult (Some (bf_SetInt 7)) 10)]"
  by (simp_all add: orc0_def provider_a_def GetData_def gm_get_def)

lemma orc0_running: "IsRunning provider_a (oi_contexts orc0)"
  by code_simp

theorem only_fresh_prices_witness:
  "\<exists>ps. round_prices 1000 orc0 ''a'' = Some ps \<and> gm_get ps ''b'' = Some (Some (bf_SetInt 100)) \<and> gm_get ps ''c'' = None"
proof -
  let ?r = "NewResult (Some (bf_SetInt 100)) 970"
  have "fresh 1000 orc0 ?r" by (simp add: NewResult_def orc0_def)
  then obtain ps where ps: "round_prices 1000 orc0 ''a'' = Some ps" "gm_get ps ''b'' = Some (Some (bf_SetInt 100))"
    using only_fresh_prices [OF orc0_named, of 1000, THEN conjunct2, THEN spec, THEN spec, THEN spec, THEN spec, THEN mp,
        of "''a''" _ "quote_of ''b''" ?r] orc0_running orc0_provider(1)
    by (auto simp: orc0_provider(2) quote_of_def NewProviderTicker_def NewResult_def)
  have "gm_get ps ''c'' \<noteq> Some v" for v
  proof
    assume "gm_get ps ''c'' = Some v"
    with only_fresh_prices [OF orc0_named, of 1000, THEN conjunct1, THEN spec, THEN spec, THEN spec, THEN spec, THEN mp] ps(1)
    have "\<exists>st pair r. gm_get (oi_price_providers orc0) ''a'' = Some st \<and> IsRunning (ps_provider st) (oi_contexts orc0) \<and>
        (pair, r) \<in> set (GetData (ps_provider st)) \<and> pt_off_chain_ticker pair = ''c'' \<and> rr_value r = v \<and> v \<noteq> None \<and>
        fresh 1000 orc0 r"
      by blast
    then show False
      by (auto simp: orc0_provider quote_of_def NewProviderTicker_def NewResult_def) (simp add: orc0_def)
  qed
  with ps show ?thesis by (cases "gm_get ps ''c''") auto
qed

lemma tick_cases_of:
  assumes "providers_named orc" "keyed (ia_cfg (oi_aggregator orc))"
  shows "(\<forall>(_, m) \<in> set (ia_cfg (oi_aggregator orc)).
        is_ok (aggregate_market (collect_provider_prices now orc (Reset (oi_aggregator orc))) m)) \<Longrightarrow>
      GetLastSyncTime (fetchAllPrices now orc) = Some now \<and>
      gm_get (oracle_GetPrices (fetchAllPrices now orc)) t =
        map_option (Some \<circ> snd) (index_of (collect_provider_prices now orc (Reset (oi_aggregator orc)))
          (gm_get (ia_cfg (oi_aggregator orc)) t))"
    and "\<not> (\<forall>(_, m) \<in> set (ia_cfg (oi_aggregator orc)).
        is_ok (aggregate_market (collect_provider_prices now orc (Reset (oi_aggregator orc))) m)) \<Longrightarrow>
      GetLastSyncTime (fetchAllPrices now orc) = GetLastSyncTime orc \<and>
      oracle_GetPrices (fetchAllPrices now orc) = oracle_GetPrices orc"
    and "fetchAllPrices now orc = orc\<lparr>oi_aggregator := oi_aggregator (fetchAllPrices now orc),
      oi_last_price_sync := oi_last_price_sync (fetchAllPrices now orc)\<rparr>"
proof -
  let ?a = "collect_provider_prices now orc (Reset (oi_aggregator orc))"
  note cfg = collect_publishes_nothing [OF assms(1), of now "oi_aggregator orc"]
  show "GetLastSyncTime (fetchAllPrices now orc) = Some now \<and>
      gm_get (oracle_GetPrices (fetchAllPrices now orc)) t =
        map_option (Some \<circ> snd) (index_of ?a (gm_get (ia_cfg (oi_aggregator orc)) t))"
    if "\<forall>(_, m) \<in> set (ia_cfg (oi_aggregator orc)). is_ok (aggregate_market ?a m)"
  proof -
    have "is_ok (fst (AggregatePrices ?a))" using that unfolding AggregatePrices_ok cfg .
    then obtain b where b: "AggregatePrices ?a = (Inr (), b)" by (cases "AggregatePrices ?a") (auto simp: is_ok_iff)
    have "keyed (ia_cfg ?a)" using assms(2) by (simp add: cfg)
    from AggregatePrices_get(2) [OF this b] show ?thesis
      by (simp add: fetchAllPrices_def b GetLastSyncTime_def oracle_GetPrices_def ia_GetPrices_def cfg)
  qed
  show "GetLastSyncTime (fetchAllPrices now orc) = GetLastSyncTime orc \<and>
      oracle_GetPrices (fetchAllPrices now orc) = oracle_GetPrices orc"
    if "\<not> (\<forall>(_, m) \<in> set (ia_cfg (oi_aggregator orc)). is_ok (aggregate_market ?a m))"
  proof -
    have "\<not> is_ok (fst (AggregatePrices ?a))" using that unfolding AggregatePrices_ok cfg .
    then obtain e b where b: "AggregatePrices ?a = (Inl e, b)" by (cases "AggregatePrices ?a") (auto simp: is_ok_def split: sum.splits)
    with AggregatePrices_fails [OF this] show ?thesis
      by (simp add: fetchAllPrices_def GetLastSyncTime_def oracle_GetPrices_def cfg)
  qed
  show "fetchAllPrices now orc = orc\<lparr>oi_aggregator := oi_aggregator (fetchAllPrices now orc),
      oi_last_price_sync := oi_last_price_sync (fetchAllPrices now orc)\<rparr>"
    by (cases orc) (auto simp: fetchAllPrices_def split: sum.splits prod.splits)
qed

text \<open>(C15) A tick is all or nothing: if the aggregation of every market returns, the oracle publishes exactly
  the markets' scaled prices and records the time; if it panics for one market, the prices and the
  time of all markets stay. Nothing but the aggregator and the time changes.\<close>

theorem tick_all_or_nothing:
  assumes "providers_named orc" "keyed (ia_cfg (oi_aggregator orc))"
  shows "(if \<forall>(_, m) \<in> set (ia_cfg (oi_aggregator orc)).
        is_ok (aggregate_market (collect_provider_prices now orc (Reset (oi_aggregator orc))) m)
      then GetLastSyncTime (fetchAllPrices now orc) = Some now \<and>
        (\<forall>t. gm_get (oracle_GetPrices (fetchAllPrices now orc)) t =
          map_option (Some \<circ> snd) (index_of (collect_provider_prices now orc (Reset (oi_aggregator orc)))
            (gm_get (ia_cfg (oi_aggregator orc)) t)))
      else GetLastSyncTime (fetchAllPrices now orc) = GetLastSyncTime orc \<and>
        oracle_GetPrices (fetchAllPrices now orc) = oracle_GetPrices orc) \<and>
    fetchAllPrices now orc = orc\<lparr>oi_aggregator := oi_aggregator (fetchAllPrices now orc),
      oi_last_price_sync := oi_last_price_sync (fetchAllPrices now orc)\<rparr>"
  proof -
  note parts = tick_cases_of [OF assms, where now = now]
  show ?thesis
    using parts(1,2) by (intro conjI parts(3)) (simp only: simp_thms split: if_split, blast)
qed

text \<open>A market of one provider, and an oracle that publishes its price.\<close>

definition b_market :: market where
  "b_market = \<lparr>mk_ticker = NewTicker ''BTC'' ''USD'' 2 1 True, mk_provider_configs = [\<lparr>pc_name = ''a'',
     pc_off_chain_ticker = ''b'', pc_normalize_by_pair = None, pc_invert = False, pc_metadata_json = []\<rparr>]\<rparr>"

definition orc1 :: "(unit, unit) oracle_impl" where
  "orc1 = orc0\<lparr>oi_aggregator := (oi_aggregator orc0)\<lparr>ia_cfg := [(''BTC/USD'', b_market)]\<rparr>\<rparr>"

lemma orc1_named: "providers_named orc1" "ia_cfg (oi_aggregator orc1) = [(''BTC/USD'', b_market)]"
  using orc0_named by (simp_all add: orc1_def providers_named_def)

theorem tick_all_or_nothing_witness:
  "GetLastSyncTime (fetchAllPrices 1000 orc1) = Some 1000 \<and>
   gm_get (oracle_GetPrices (fetchAllPrices 1000 orc1)) ''BTC/USD'' = Some (Some \<lparr>bf_prec = 64, bf_val = BFin 10000\<rparr>)"
proof -
  have "Ticker_String (mk_ticker b_market) = ''BTC/USD''" by code_simp
  then have keyed: "keyed (ia_cfg (oi_aggregator orc1))" by (simp add: orc1_named keyed_def gm_wf_def)
  have "aggregate_market (collect_provider_prices 1000 orc1 (Reset (oi_aggregator orc1))) b_market =
      Inr (Some (bf_SetInt 100, \<lparr>bf_prec = 64, bf_val = BFin 10000\<rparr>))"
    by code_simp
  with tick_all_or_nothing [OF orc1_named(1) keyed, of 1000] show ?thesis
    by (simp add: orc1_named index_of_def gm_get_def)
qed

section \<open>What goes wrong\<close>

lemma convert_panics:
  "cfg \<in> set cfgs \<Longrightarrow> CalculateAdjustedPrice a cfg = Inl (Panic p) \<Longrightarrow> \<exists>q. convert_prices a cfgs = Inl (Panic q)"
proof (induction cfgs)
  case (Cons c cfgs)
  show ?case
  proof (cases "CalculateAdjustedPrice a c")
    case (Inl e)
    then show ?thesis using Cons by (cases e) auto
  next
    case (Inr x)
    then show ?thesis using Cons by auto
  qed
qed simp

text \<open>(C39) Zero prices freeze the oracle: when a provider reports zero for an inverted market that is
  normalized by a market whose index price is zero, the product of the infinity and zero panics, and
  as the tick recovers the panic, no market at all gets a new price or time in that tick.\<close>

theorem zero_prices_freeze_oracle:
  assumes "providers_named orc" "(t, m) \<in> set (ia_cfg (oi_aggregator orc))" "tk_enabled (mk_ticker m)"
    "cfg \<in> set (mk_provider_configs m)" "pc_invert cfg" "pc_normalize_by_pair cfg = Some p"
    "round_prices now orc (pc_name cfg) = Some ps" "gm_get ps (pc_off_chain_ticker cfg) = Some (Some x)" "bf_val x = BZero nx"
    "gm_get (ia_index_prices (oi_aggregator orc)) (CurrencyPair_String p) = Some (Some y)" "bf_val y = BZero ny"
  shows "oracle_GetPrices (fetchAllPrices now orc) = oracle_GetPrices orc \<and>
    GetLastSyncTime (fetchAllPrices now orc) = GetLastSyncTime orc \<and>
    ia_index_prices (oi_aggregator (fetchAllPrices now orc)) = ia_index_prices (oi_aggregator orc)"
proof -
  let ?a = "collect_provider_prices now orc (Reset (oi_aggregator orc))"
  note cfg = collect_publishes_nothing [OF assms(1), of now "oi_aggregator orc"]
  have "gm_get (ia_provider_prices ?a) (pc_name cfg) = Some ps"
    using assms(7) by (simp add: round_prices_eq [OF assms(1)] collected [OF assms(1)])
  then have "GetProviderPrice ?a cfg = bf_Quo 0 bf_one x" using assms(5,8) by (simp add: GetProviderPrice_def)
  moreover obtain z where "bf_Quo 0 bf_one x = Inr z" "bf_val z = BInf nx"
    using assms(9) by (auto simp: bf_Quo_def bf_one_def)
  ultimately have "\<exists>q. CalculateAdjustedPrice ?a cfg = Inl (Panic q)"
    using assms(6,10) by (simp add: CalculateAdjustedPrice_def GetIndexPrice_def cfg bf_Mul_def assms(11) ErrNaN_def)
  then obtain q where "CalculateAdjustedPrice ?a cfg = Inl (Panic q)" ..
  from convert_panics [OF assms(4) this] obtain q where "convert_prices ?a (mk_provider_configs m) = Inl (Panic q)" ..
  then have "aggregate_market ?a m = Inl (Panic q)"
    using assms(3,4) by (auto simp: aggregate_market_def CalculateConvertedPrices_def)
  then have "\<not> is_ok (fst (AggregatePrices ?a))"
    using assms(2) unfolding AggregatePrices_ok cfg by force
  then obtain e b where b: "AggregatePrices ?a = (Inl e, b)" by (cases "AggregatePrices ?a") (auto simp: is_ok_def split: sum.splits)
  with AggregatePrices_fails [OF this] show ?thesis
    by (simp add: fetchAllPrices_def GetLastSyncTime_def oracle_GetPrices_def cfg)
qed

definition zero_config :: provider_config where
  "zero_config = \<lparr>pc_name = ''a'', pc_off_chain_ticker = ''b'', pc_normalize_by_pair = Some (NewCurrencyPair ''USDT'' ''USD''),
     pc_invert = True, pc_metadata_json = []\<rparr>"

text \<open>The provider reports zero for an inverted market, and so did the market that one normalizes by.\<close>

definition frozen_orc :: "(unit, unit) oracle_impl" where
  "frozen_orc = orc0\<lparr>oi_price_providers := [(''a'', \<lparr>ps_provider = provider_a\<lparr>bp_data :=
       [(quote_of ''b'', NewResult (Some (bf_SetInt 0)) 970)]\<rparr>, ps_cfg = zero_source_config\<rparr>)],
     oi_aggregator := (oi_aggregator orc0)\<lparr>
       ia_cfg := [(''BTC/USD'', b_market\<lparr>mk_provider_configs := [zero_config]\<rparr>)],
       ia_index_prices := [(''USDT/USD'', Some (bf_SetInt 0))], ia_scaled_prices := [(''X'', Some (bf_SetInt 5))]\<rparr>\<rparr>"

theorem zero_prices_freeze_oracle_witness:
  "oracle_GetPrices (fetchAllPrices 1000 frozen_orc) = [(''X'', Some (bf_SetInt 5))] \<and>
   GetLastSyncTime (fetchAllPrices 1000 frozen_orc) = None"
proof -
  have named: "providers_named frozen_orc"
    by (simp add: providers_named_def frozen_orc_def provider_a_def gm_wf_def)
  have round: "round_prices 1000 frozen_orc (pc_name zero_config) = Some [(''b'', Some (bf_SetInt 0))]"
    by code_simp
  have "CurrencyPair_String (NewCurrencyPair ''USDT'' ''USD'') = ''USDT/USD''" by code_simp
  then have index: "gm_get (ia_index_prices (oi_aggregator frozen_orc)) (CurrencyPair_String (NewCurrencyPair ''USDT'' ''USD''))
      = Some (Some (bf_SetInt 0))"
    by (simp add: frozen_orc_def gm_get_def)
  have zero: "bf_val (bf_SetInt 0) = BZero False" by (simp add: bf_SetInt_def)
  have "(''BTC/USD'', b_market\<lparr>mk_provider_configs := [zero_config]\<rparr>) \<in> set (ia_cfg (oi_aggregator frozen_orc))"
    by (simp add: frozen_orc_def)
  from zero_prices_freeze_oracle [OF named this _ _ _ _ round _ zero index zero]
  show ?thesis
    by (simp add: zero_config_def b_market_def NewTicker_def gm_get_def)
      (simp add: frozen_orc_def oracle_GetPrices_def ia_GetPrices_def GetLastSyncTime_def orc0_def)
qed

text \<open>The results of a provider in another order: a Go map has none.\<close>

definition with_data ::
    "string \<Rightarrow> (provider_ticker \<times> big_float option resolved_result) list \<Rightarrow> ('h, 'm) oracle_impl \<Rightarrow> ('h, 'm) oracle_impl" where
  "with_data name data orc = (case gm_get (oi_price_providers orc) name of
     None \<Rightarrow> orc
   | Some st \<Rightarrow> orc\<lparr>oi_price_providers := gm_set name (st\<lparr>ps_provider := (ps_provider st)\<lparr>bp_data := data\<rparr>\<rparr>)
       (oi_price_providers orc)\<rparr>)"

lemma providers_named_iff:
  "providers_named orc \<longleftrightarrow> gm_wf (oi_price_providers orc) \<and>
     (\<forall>name st. gm_get (oi_price_providers orc) name = Some st \<longrightarrow> bp_name (ps_provider st) = name)"
  by (auto simp: providers_named_def gm_get_iff)

lemma with_data_named: "providers_named orc \<Longrightarrow> providers_named (with_data name data orc)"
  by (auto simp: providers_named_iff with_data_def split: option.splits)

text \<open>The price of an off-chain ticker is that of the last of its fresh results in the iteration order
  of the provider's data, whichever that is. As \<open>Update\<close> keeps the results of former ids, which differ
  when the metadata of a ticker changes, the price fetched with the former metadata can win over the
  current one until it is too old.\<close>

theorem any_fresh_result_can_win:
  assumes "providers_named orc" "gm_get (oi_price_providers orc) name = Some st"
    "IsRunning (ps_provider st) (oi_contexts orc)"
    "\<forall>(_, r) \<in> set (GetData (ps_provider st)). rr_value r \<noteq> None"
    "(pair, r) \<in> set (GetData (ps_provider st))" "fresh now orc r"
  shows "\<exists>data ps. mset data = mset (GetData (ps_provider st)) \<and>
    round_prices now (with_data name data orc) name = Some ps \<and>
    gm_get ps (pt_off_chain_ticker pair) = Some (rr_value r)"
proof -
  obtain xs ys where split: "GetData (ps_provider st) = xs @ (pair, r) # ys" using assms(5) by (meson split_list)
  let ?data = "xs @ ys @ [(pair, r)]"
  let ?o = "with_data name ?data orc"
  have st: "gm_get (oi_price_providers ?o) name = Some (st\<lparr>ps_provider := (ps_provider st)\<lparr>bp_data := ?data\<rparr>\<rparr>)"
    and same: "oi_contexts ?o = oi_contexts orc" "oi_cfg ?o = oi_cfg orc"
    by (simp_all add: with_data_def assms(2))
  have "\<forall>(_, r) \<in> set ?data. fresh now orc r \<longrightarrow> rr_value r \<noteq> None" using assms(4) unfolding split by fastforce
  from filter_get [OF this, of "[]"] obtain ps where ps:
    "filter_prices now (oc_max_price_age (oi_cfg orc)) ?data [] = Inr ps"
    "gm_get ps = gm_get [] ++ map_of (rev (fresh_values now (oc_max_price_age (oi_cfg orc)) ?data))"
    by blast
  have "gm_get ps (pt_off_chain_ticker pair) = Some (rr_value r)"
    using assms(6) by (simp add: ps(2) fresh_values_def)
  moreover have "round_prices now ?o name = Some ps"
    using assms(3) ps(1) unfolding round_prices_eq [OF with_data_named [OF assms(1)]] st
    by (simp add: offered_def same GetData_def IsRunning_def)
  ultimately show ?thesis by (intro exI [of _ ?data] exI [of _ ps]) (simp add: split)
qed

text \<open>The metadata of a ticker changed: the provider still has the result of the former ticker.\<close>

definition renewed_orc :: "(unit, unit) oracle_impl" where
  "renewed_orc = orc0\<lparr>oi_price_providers := [(''a'', \<lparr>ps_provider = provider_a\<lparr>bp_data :=
     [(NewProviderTicker ''b'' ''old'', NewResult (Some (bf_SetInt 100)) 970),
      (NewProviderTicker ''b'' ''new'', NewResult (Some (bf_SetInt 200)) 990)]\<rparr>, ps_cfg = zero_source_config\<rparr>)]\<rparr>"

theorem any_fresh_result_can_win_witness:
  "\<exists>data ps. mset data = {#(NewProviderTicker ''b'' ''old'', NewResult (Some (bf_SetInt 100)) 970),
      (NewProviderTicker ''b'' ''new'', NewResult (Some (bf_SetInt 200)) 990)#} \<and>
    round_prices 1000 (with_data ''a'' data renewed_orc) ''a'' = Some ps \<and> gm_get ps ''b'' = Some (Some (bf_SetInt 100))"
proof -
  let ?st = "\<lparr>ps_provider = provider_a\<lparr>bp_data := [(NewProviderTicker ''b'' ''old'', NewResult (Some (bf_SetInt 100)) 970),
      (NewProviderTicker ''b'' ''new'', NewResult (Some (bf_SetInt 200)) 990)]\<rparr>, ps_cfg = zero_source_config\<rparr>"
  let ?r = "NewResult (Some (bf_SetInt 100)) 970"
  have named: "providers_named renewed_orc"
    by (simp add: providers_named_def renewed_orc_def provider_a_def gm_wf_def)
  have st: "gm_get (oi_price_providers renewed_orc) ''a'' = Some ?st" by (simp add: renewed_orc_def gm_get_def)
  have run: "IsRunning (ps_provider ?st) (oi_contexts renewed_orc)"
    using orc0_running by (simp add: renewed_orc_def IsRunning_def)
  have data: "GetData (ps_provider ?st) = [(NewProviderTicker ''b'' ''old'', ?r),
      (NewProviderTicker ''b'' ''new'', NewResult (Some (bf_SetInt 200)) 990)]"
    by (simp add: GetData_def)
  have "fresh 1000 renewed_orc ?r" by (simp add: renewed_orc_def orc0_def NewResult_def)
  from any_fresh_result_can_win [OF named st run _ _ this, unfolded data, of "NewProviderTicker ''b'' ''old''"]
  show ?thesis by (simp add: NewResult_def NewProviderTicker_def)
qed

end
