(* ===== verification/Sidecar_Updates.thy ===== *)
theory Sidecar_Updates
  imports Sidecar_Properties Provider_Properties
begin

text \<open>
  Properties of the oracle's market map updates: what they do to each provider and to the aggregator,
  that they settle, and when the map of the chain is ignored.
\<close>

section \<open>The tickers of a provider\<close>

definition tickers_ok :: "provider_ticker list \<times> string list \<Rightarrow> bool" where
  "tickers_ok = (\<lambda>(ts, seen). set seen = pt_off_chain_ticker ` set ts \<and> distinct (map pt_off_chain_ticker ts))"

lemma add_configs:
  "tickers_ok acc \<Longrightarrow> tickers_ok (fold (add_config name) cfgs acc) \<and>
   set (snd (fold (add_config name) cfgs acc)) =
     set (snd acc) \<union> pc_off_chain_ticker ` {cfg \<in> set cfgs. pc_name cfg = name}"
proof (induction cfgs arbitrary: acc)
  case (Cons cfg cfgs)
  have "tickers_ok (add_config name cfg acc)"
    using Cons.prems by (auto simp: tickers_ok_def add_config_def NewProviderTicker_def split: prod.splits)
  moreover have "set (snd (add_config name cfg acc)) =
      set (snd acc) \<union> (if pc_name cfg = name then {pc_off_chain_ticker cfg} else {})"
    by (auto simp: add_config_def split: prod.splits)
  ultimately show ?case using Cons.IH [of "add_config name cfg acc"] by auto
qed simp

definition wanted :: "string \<Rightarrow> market_map \<Rightarrow> string set" where
  "wanted name mm = (\<Union>(_, m) \<in> set mm. if tk_enabled (mk_ticker m)
     then pc_off_chain_ticker ` {cfg \<in> set (mk_provider_configs m). pc_name cfg = name} else {})"

lemma collect_markets:
  "tickers_ok acc \<Longrightarrow>
   (let r = fold (\<lambda>(_, market) acc. if \<not> tk_enabled (mk_ticker market) then acc
              else fold (add_config name) (mk_provider_configs market) acc) mm acc
    in tickers_ok r \<and> set (snd r) = set (snd acc) \<union> wanted name mm)"
proof (induction mm arbitrary: acc)
  case (Cons e mm)
  obtain t m where e: "e = (t, m)" by (cases e)
  show ?case
  proof (cases "tk_enabled (mk_ticker m)")
    case True
    with Cons.IH [of "fold (add_config name) (mk_provider_configs m) acc"]
      add_configs [OF Cons.prems, of name "mk_provider_configs m"]
    show ?thesis using True by (simp add: e Let_def wanted_def Un_assoc)
  next
    case False
    with Cons.IH [OF Cons.prems] show ?thesis using False by (simp add: e Let_def wanted_def)
  qed
qed (simp add: Let_def wanted_def)

lemma provider_tickers:
  obtains ts where "ProviderTickersFromMarketMap name mm = Inr ts"
    "pt_off_chain_ticker ` set ts = wanted name mm" "distinct (map pt_off_chain_ticker ts)"
  using collect_markets [of "([], [])" name mm] that
  by (auto simp: ProviderTickersFromMarketMap_def tickers_ok_def wanted_def Let_def split: prod.splits)

section \<open>One provider\<close>

lemma cancel_keeps_done: "ctx_done cs c \<Longrightarrow> ctx_done (Stop p cs) c"
  using ctx_done_cancel by (simp add: Stop_def split: option.splits)

lemma stopped: "\<forall>m. bp_main_ctx p = Some m \<longrightarrow> m < length cs \<Longrightarrow> \<not> IsRunning p (Stop p cs)"
  by (simp add: Stop_def IsRunning_def split: option.splits)

text \<open>A provider after an update of its ids, in the contexts \<open>cs\<close> of the oracle and with what was launched.\<close>

definition follows :: "market_map \<Rightarrow> contexts \<Rightarrow> contexts \<Rightarrow> string list \<Rightarrow> string \<Rightarrow> 'h provider_state \<Rightarrow> 'h provider_state option \<Rightarrow> bool" where
  "follows mm cs0 cs launched name st now \<longleftrightarrow>
     (\<exists>ts. pt_off_chain_ticker ` set ts = wanted name mm \<and> distinct (map pt_off_chain_ticker ts) \<and>
        now = Some (st\<lparr>ps_provider := setIDs ts (ps_provider st)\<rparr>) \<and>
        (\<forall>f. bp_fetch_ctx (ps_provider st) = Some f \<and> f < length cs0 \<longrightarrow> ctx_done cs f) \<and>
        (if wanted name mm = {} then \<not> IsRunning (ps_provider st) cs
         else IsRunning (ps_provider st) cs0 \<or> name \<in> set launched))"

definition grown :: "contexts \<Rightarrow> contexts \<Rightarrow> bool" where
  "grown cs cs' \<longleftrightarrow> length cs' = length cs \<and> (\<forall>c. ctx_done cs c \<longrightarrow> ctx_done cs' c)"

lemma grown_refl [simp]: "grown cs cs"
  by (simp add: grown_def)

lemma grown_trans: "grown cs cs' \<Longrightarrow> grown cs' cs'' \<Longrightarrow> grown cs cs''"
  by (simp add: grown_def)

lemma grown_cancel [simp]: "grown cs (cancel_ctx c cs)"
  by (simp add: grown_def ctx_done_cancel)

lemma grown_Stop [simp]: "grown cs (Stop p cs)"
  by (auto simp: Stop_def split: option.splits)

lemma grown_running: "grown cs cs' \<Longrightarrow> IsRunning p cs' \<Longrightarrow> IsRunning p cs"
  by (auto simp: grown_def IsRunning_def split: option.splits)

lemma follows_mono:
  "follows mm cs0 cs l name st now \<Longrightarrow> grown cs cs' \<Longrightarrow> set l \<subseteq> set l' \<Longrightarrow> follows mm cs0 cs' l' name st now"
  using grown_running unfolding follows_def by (auto simp: grown_def split: if_splits) blast+

lemma setIDs_running [simp]: "IsRunning (setIDs ts p) cs = IsRunning p cs" "Stop (setIDs ts p) cs = Stop p cs"
  by (simp_all add: IsRunning_def Stop_def setIDs_def)

lemma Update_ids:
  "\<exists>cs'. Update [WithNewIDs ts] p cs = Inr (setIDs ts p, cs') \<and> grown cs cs' \<and>
     (\<forall>f. bp_fetch_ctx p = Some f \<and> f < length cs \<longrightarrow> ctx_done cs' f)"
  by (auto simp: Update_def WithNewIDs_def setIDs_def split: option.splits)

lemma update_provider_follows:
  assumes "grown cs0 (oi_contexts orc)"
    and "\<forall>m. bp_main_ctx (ps_provider st) = Some m \<longrightarrow> m < length (oi_contexts orc)"
  obtains cs l ps where "update_provider mm (name, st) orc = (Inr (), orc\<lparr>oi_contexts := cs, oi_launched := l, oi_price_providers := ps\<rparr>)"
    "grown (oi_contexts orc) cs" "set (oi_launched orc) \<subseteq> set l"
    "follows mm cs0 cs l name st (gm_get ps name)" "\<And>n. n \<noteq> name \<Longrightarrow> gm_get ps n = gm_get (oi_price_providers orc) n"
proof -
  obtain ts where ts: "ProviderTickersFromMarketMap name mm = Inr ts"
    "pt_off_chain_ticker ` set ts = wanted name mm" "distinct (map pt_off_chain_ticker ts)"
    by (rule provider_tickers)
  obtain cs1 where cs1: "Update [WithNewIDs ts] (ps_provider st) (oi_contexts orc) = Inr (setIDs ts (ps_provider st), cs1)"
    "grown (oi_contexts orc) cs1"
    "\<forall>f. bp_fetch_ctx (ps_provider st) = Some f \<and> f < length (oi_contexts orc) \<longrightarrow> ctx_done cs1 f"
    using Update_ids by blast
  let ?cs = "if ts = [] then Stop (ps_provider st) cs1 else cs1"
  let ?launch = "ts \<noteq> [] \<and> \<not> IsRunning (ps_provider st) cs1"
  let ?st = "st\<lparr>ps_provider := setIDs ts (ps_provider st)\<rparr>"
  let ?l = "oi_launched orc @ (if ?launch then [name] else [])"
  have grown: "grown (oi_contexts orc) ?cs" using cs1(2) by (auto intro: grown_trans)
  have eq: "update_provider mm (name, st) orc = (Inr (), orc\<lparr>oi_contexts := ?cs, oi_launched := ?l,
      oi_price_providers := gm_set name ?st (oi_price_providers orc)\<rparr>)"
    by (simp add: update_provider_def bindC_def liftC_def readC_def modifyC_def ts(1) UpdateProviderState_def cs1(1) Let_def)
  have "follows mm cs0 ?cs ?l name st (Some ?st)"
  proof -
    have "ctx_done ?cs f" if "bp_fetch_ctx (ps_provider st) = Some f" "f < length cs0" for f
      using that cs1(3) assms(1) cancel_keeps_done by (auto simp: grown_def)
    moreover have "\<not> IsRunning (ps_provider st) ?cs" if "ts = []"
      using that assms(2) cs1(2) by (auto intro!: stopped simp: grown_def)
    moreover have "IsRunning (ps_provider st) cs0 \<or> name \<in> set ?l" if "ts \<noteq> []"
      using that grown_running [OF grown_trans [OF assms(1) cs1(2)]] by auto
    moreover have "wanted name mm = {} \<longleftrightarrow> ts = []" using ts(2) by auto
    ultimately show ?thesis using ts(2,3) by (auto simp: follows_def)
  qed
  then show ?thesis by (intro that [OF eq grown]) simp_all
qed

text \<open>All providers in turn.\<close>

lemma update_providers_follow:
  assumes "distinct (map fst xs)" "grown cs0 (oi_contexts orc)"
    and "\<forall>(_, st) \<in> set xs. \<forall>m. bp_main_ctx (ps_provider st) = Some m \<longrightarrow> m < length cs0"
  shows "\<exists>cs l ps. forC xs (update_provider mm) orc =
      (Inr (), orc\<lparr>oi_contexts := cs, oi_launched := l, oi_price_providers := ps\<rparr>) \<and>
    grown (oi_contexts orc) cs \<and> set (oi_launched orc) \<subseteq> set l \<and>
    (\<forall>(name, st) \<in> set xs. follows mm cs0 cs l name st (gm_get ps name)) \<and>
    (\<forall>n. n \<notin> fst ` set xs \<longrightarrow> gm_get ps n = gm_get (oi_price_providers orc) n)"
  using assms
proof (induction xs arbitrary: orc)
  case Nil
  show ?case
    by (rule exI [of _ "oi_contexts orc"], rule exI [of _ "oi_launched orc"], rule exI [of _ "oi_price_providers orc"])
      (simp add: returnC_def)
next
  case (Cons x xs)
  obtain name st where x: "x = (name, st)" by (cases x)
  have "length (oi_contexts orc) = length cs0" using Cons.prems(2) by (simp add: grown_def)
  then have main: "\<forall>m. bp_main_ctx (ps_provider st) = Some m \<longrightarrow> m < length (oi_contexts orc)"
    using Cons.prems(3) by (simp add: x)
  obtain cs l ps where one: "update_provider mm (name, st) orc = (Inr (), orc\<lparr>oi_contexts := cs, oi_launched := l, oi_price_providers := ps\<rparr>)"
    "grown (oi_contexts orc) cs" "set (oi_launched orc) \<subseteq> set l"
    "follows mm cs0 cs l name st (gm_get ps name)" "\<And>n. n \<noteq> name \<Longrightarrow> gm_get ps n = gm_get (oi_price_providers orc) n"
    by (rule update_provider_follows [OF Cons.prems(2) main, where mm = mm and name = name], rule that)
  let ?o = "orc\<lparr>oi_contexts := cs, oi_launched := l, oi_price_providers := ps\<rparr>"
  have "grown cs0 (oi_contexts ?o)" using grown_trans [OF Cons.prems(2) one(2)] by simp
  then have "\<exists>cs' l' ps'. forC xs (update_provider mm) ?o =
      (Inr (), ?o\<lparr>oi_contexts := cs', oi_launched := l', oi_price_providers := ps'\<rparr>) \<and>
    grown cs cs' \<and> set l \<subseteq> set l' \<and>
    (\<forall>(name, st) \<in> set xs. follows mm cs0 cs' l' name st (gm_get ps' name)) \<and>
    (\<forall>n. n \<notin> fst ` set xs \<longrightarrow> gm_get ps' n = gm_get ps n)"
    using Cons.IH [of ?o] Cons.prems(1,3) by simp
  then obtain cs' l' ps' where rest:
    "forC xs (update_provider mm) ?o = (Inr (), ?o\<lparr>oi_contexts := cs', oi_launched := l', oi_price_providers := ps'\<rparr>)"
    "grown cs cs'" "set l \<subseteq> set l'"
    "\<forall>(name, st) \<in> set xs. follows mm cs0 cs' l' name st (gm_get ps' name)"
    "\<forall>n. n \<notin> fst ` set xs \<longrightarrow> gm_get ps' n = gm_get ps n"
    by (elim exE conjE) (rule that)
  have "name \<notin> fst ` set xs" using Cons.prems(1) by (simp add: x)
  then have "follows mm cs0 cs' l' name st (gm_get ps' name)"
    using follows_mono [OF one(4) rest(2,3)] rest(5) by simp
  moreover have "forC (x # xs) (update_provider mm) orc =
      (Inr (), orc\<lparr>oi_contexts := cs', oi_launched := l', oi_price_providers := ps'\<rparr>)"
    using rest(1) by (simp add: x bindC_def one(1))
  ultimately show ?case
    using rest(3,4,5) one(3,5) grown_trans [OF one(2) rest(2)]
    by (intro exI [of _ cs'] exI [of _ l'] exI [of _ ps']) (auto simp: x)
qed

section \<open>The update\<close>

text \<open>The contexts the providers know exist.\<close>

definition contexts_known :: "('h, 'm) oracle_impl \<Rightarrow> bool" where
  "contexts_known orc \<longleftrightarrow> (\<forall>(_, st) \<in> set (oi_price_providers orc).
     (\<forall>m. bp_main_ctx (ps_provider st) = Some m \<longrightarrow> m < length (oi_contexts orc)) \<and>
     (\<forall>f. bp_fetch_ctx (ps_provider st) = Some f \<longrightarrow> f < length (oi_contexts orc)))"

lemma UpdateMarketMap_cases:
  assumes "providers_named orc" "contexts_known orc" "GetValidSubset mm = (sub, Inr ())"
  obtains cs l ps where "UpdateMarketMap mm orc = (Inr (), orc\<lparr>oi_contexts := cs, oi_launched := l, oi_price_providers := ps,
      oi_market_map := sub, oi_aggregator := ia_UpdateMarketMap sub (oi_aggregator orc)\<rparr>)"
    "grown (oi_contexts orc) cs" "set (oi_launched orc) \<subseteq> set l"
    "\<And>name st. gm_get (oi_price_providers orc) name = Some st \<Longrightarrow>
       follows sub (oi_contexts orc) cs l name st (gm_get ps name)"
    "\<And>name. gm_get (oi_price_providers orc) name = None \<Longrightarrow> gm_get ps name = None"
proof -
  have wf: "gm_wf (oi_price_providers orc)" using assms(1) by (simp add: providers_named_def)
  have "\<exists>cs l ps. forC (oi_price_providers orc) (update_provider sub) orc =
      (Inr (), orc\<lparr>oi_contexts := cs, oi_launched := l, oi_price_providers := ps\<rparr>) \<and>
    grown (oi_contexts orc) cs \<and> set (oi_launched orc) \<subseteq> set l \<and>
    (\<forall>(name, st) \<in> set (oi_price_providers orc). follows sub (oi_contexts orc) cs l name st (gm_get ps name)) \<and>
    (\<forall>n. n \<notin> fst ` set (oi_price_providers orc) \<longrightarrow> gm_get ps n = gm_get (oi_price_providers orc) n)"
    using assms(2) wf by (intro update_providers_follow) (auto simp: gm_wf_def contexts_known_def)
  then obtain cs l ps where run: "forC (oi_price_providers orc) (update_provider sub) orc =
      (Inr (), orc\<lparr>oi_contexts := cs, oi_launched := l, oi_price_providers := ps\<rparr>)"
    "grown (oi_contexts orc) cs" "set (oi_launched orc) \<subseteq> set l"
    "\<forall>(name, st) \<in> set (oi_price_providers orc). follows sub (oi_contexts orc) cs l name st (gm_get ps name)"
    "\<forall>n. n \<notin> fst ` set (oi_price_providers orc) \<longrightarrow> gm_get ps n = gm_get (oi_price_providers orc) n"
    by (elim exE conjE) (rule that)
  show ?thesis
  proof (rule that)
    show "UpdateMarketMap mm orc = (Inr (), orc\<lparr>oi_contexts := cs, oi_launched := l, oi_price_providers := ps,
        oi_market_map := sub, oi_aggregator := ia_UpdateMarketMap sub (oi_aggregator orc)\<rparr>)"
      by (simp add: UpdateMarketMap_def assms(3) bindC_def run(1) modifyC_def)
    show "grown (oi_contexts orc) cs" "set (oi_launched orc) \<subseteq> set l" by (rule run(2,3))+
    show "follows sub (oi_contexts orc) cs l name st (gm_get ps name)"
      if "gm_get (oi_price_providers orc) name = Some st" for name st
      using run(4) gm_get_mem [OF that] by blast
    show "gm_get ps name = None" if "gm_get (oi_price_providers orc) name = None" for name
    proof -
      have "name \<notin> fst ` set (oi_price_providers orc)" using that gm_get_iff [OF wf, of name] by auto
      with run(5) that show ?thesis by simp
    qed
  qed
qed

lemma UpdateMarketMap_run:
  assumes "providers_named orc" "contexts_known orc" "GetValidSubset mm = (sub, Inr ())"
  shows "\<exists>o1. UpdateMarketMap mm orc = (Inr (), o1) \<and> oi_market_map o1 = sub"
  by (rule UpdateMarketMap_cases [OF assms]) simp

lemma UpdateMarketMap_fails: "GetValidSubset mm = (sub, Inl e) \<Longrightarrow> UpdateMarketMap mm orc = (Inl e, orc)"
  by (simp add: UpdateMarketMap_def)

lemma updated_market_map:
  assumes "providers_named orc" "contexts_known orc"
  shows "GetValidSubset mm = (sub, Inl e) \<Longrightarrow> UpdateMarketMap mm orc = (Inl e, orc)"
    and "GetValidSubset mm = (sub, Inr ()) \<Longrightarrow>
      \<exists>orc'. UpdateMarketMap mm orc = (Inr (), orc') \<and>
        oi_market_map orc' = sub \<and> ia_GetMarketMap (oi_aggregator orc') = sub \<and>
        oracle_GetPrices orc' = oracle_GetPrices orc \<and> GetLastSyncTime orc' = GetLastSyncTime orc \<and>
        dom (gm_get (oi_price_providers orc')) = dom (gm_get (oi_price_providers orc)) \<and>
        (\<forall>name st. gm_get (oi_price_providers orc) name = Some st \<longrightarrow>
          (\<exists>st'. gm_get (oi_price_providers orc') name = Some st' \<and>
            pt_off_chain_ticker ` set (GetIDs (ps_provider st')) = wanted name sub \<and>
            distinct (map pt_off_chain_ticker (GetIDs (ps_provider st'))) \<and>
            GetData (ps_provider st') = GetData (ps_provider st) \<and>
            (wanted name sub = {} \<longrightarrow> \<not> IsRunning (ps_provider st') (oi_contexts orc')) \<and>
            (wanted name sub \<noteq> {} \<longrightarrow> IsRunning (ps_provider st) (oi_contexts orc) \<or> name \<in> set (oi_launched orc')) \<and>
            (\<forall>f. bp_fetch_ctx (ps_provider st) = Some f \<longrightarrow> ctx_done (oi_contexts orc') f)))"
proof -
  show "UpdateMarketMap mm orc = (Inl e, orc)" if "GetValidSubset mm = (sub, Inl e)"
    using that by (rule UpdateMarketMap_fails)
  assume "GetValidSubset mm = (sub, Inr ())"
  from UpdateMarketMap_cases [OF assms this] obtain cs l ps where
    run: "UpdateMarketMap mm orc = (Inr (), orc\<lparr>oi_contexts := cs, oi_launched := l, oi_price_providers := ps,
        oi_market_map := sub, oi_aggregator := ia_UpdateMarketMap sub (oi_aggregator orc)\<rparr>)" (is "_ = (_, ?orc)")
    and f: "\<And>name st. gm_get (oi_price_providers orc) name = Some st \<Longrightarrow>
       follows sub (oi_contexts orc) cs l name st (gm_get ps name)"
    and none: "\<And>name. gm_get (oi_price_providers orc) name = None \<Longrightarrow> gm_get ps name = None"
    by metis
  have "dom (gm_get ps) = dom (gm_get (oi_price_providers orc))"
    using f none by (fastforce simp: follows_def dom_def)
  moreover have "\<exists>st'. gm_get ps name = Some st' \<and>
      pt_off_chain_ticker ` set (GetIDs (ps_provider st')) = wanted name sub \<and>
      distinct (map pt_off_chain_ticker (GetIDs (ps_provider st'))) \<and>
      GetData (ps_provider st') = GetData (ps_provider st) \<and>
      (wanted name sub = {} \<longrightarrow> \<not> IsRunning (ps_provider st') cs) \<and>
      (wanted name sub \<noteq> {} \<longrightarrow> IsRunning (ps_provider st) (oi_contexts orc) \<or> name \<in> set l) \<and>
      (\<forall>f. bp_fetch_ctx (ps_provider st) = Some f \<longrightarrow> ctx_done cs f)"
    if st: "gm_get (oi_price_providers orc) name = Some st" for name st
  proof -
    obtain ts where ts: "pt_off_chain_ticker ` set ts = wanted name sub" "distinct (map pt_off_chain_ticker ts)"
      "gm_get ps name = Some (st\<lparr>ps_provider := setIDs ts (ps_provider st)\<rparr>)"
      "\<forall>f. bp_fetch_ctx (ps_provider st) = Some f \<and> f < length (oi_contexts orc) \<longrightarrow> ctx_done cs f"
      "if wanted name sub = {} then \<not> IsRunning (ps_provider st) cs
       else IsRunning (ps_provider st) (oi_contexts orc) \<or> name \<in> set l"
      using f [OF st] unfolding follows_def by blast
    have "f < length (oi_contexts orc)" if "bp_fetch_ctx (ps_provider st) = Some f" for f
      using assms(2) gm_get_mem [OF st] that by (force simp: contexts_known_def)
    with ts(4) have ended: "\<forall>f. bp_fetch_ctx (ps_provider st) = Some f \<longrightarrow> ctx_done cs f" by blast
    show ?thesis
      using ts(1,2,5) ended by (intro exI [of _ "st\<lparr>ps_provider := setIDs ts (ps_provider st)\<rparr>"])
        (auto simp: ts(3) setIDs_def GetIDs_def GetData_def IsRunning_def split: if_splits)
  qed
  ultimately show "\<exists>orc'. UpdateMarketMap mm orc = (Inr (), orc') \<and>
        oi_market_map orc' = sub \<and> ia_GetMarketMap (oi_aggregator orc') = sub \<and>
        oracle_GetPrices orc' = oracle_GetPrices orc \<and> GetLastSyncTime orc' = GetLastSyncTime orc \<and>
        dom (gm_get (oi_price_providers orc')) = dom (gm_get (oi_price_providers orc)) \<and>
        (\<forall>name st. gm_get (oi_price_providers orc) name = Some st \<longrightarrow>
          (\<exists>st'. gm_get (oi_price_providers orc') name = Some st' \<and>
            pt_off_chain_ticker ` set (GetIDs (ps_provider st')) = wanted name sub \<and>
            distinct (map pt_off_chain_ticker (GetIDs (ps_provider st'))) \<and>
            GetData (ps_provider st') = GetData (ps_provider st) \<and>
            (wanted name sub = {} \<longrightarrow> \<not> IsRunning (ps_provider st') (oi_contexts orc')) \<and>
            (wanted name sub \<noteq> {} \<longrightarrow> IsRunning (ps_provider st) (oi_contexts orc) \<or> name \<in> set (oi_launched orc')) \<and>
            (\<forall>f. bp_fetch_ctx (ps_provider st) = Some f \<longrightarrow> ctx_done (oi_contexts orc') f)))"
    by (intro exI [of _ ?orc]) (simp add: run ia_UpdateMarketMap_def ia_GetMarketMap_def oracle_GetPrices_def
      GetLastSyncTime_def ia_GetPrices_def)
qed

text \<open>(C12) \<open>UpdateMarketMap\<close> is all or nothing. When the valid subset cannot be computed the oracle is
  unchanged. Else the oracle and the aggregator have the subset, the prices and the time of the last
  tick stay, and each provider has exactly the off-chain tickers the subset's enabled markets want of
  it, each once, with its data kept: one without tickers is stopped, any other was running or is
  launched, and its fetch loop is cancelled so that it restarts with the new ids.\<close>

theorem update_market_map_spec:
  assumes "providers_named orc" "contexts_known orc"
  shows "case GetValidSubset mm of
      (_, Inl e) \<Rightarrow> UpdateMarketMap mm orc = (Inl e, orc)
    | (sub, Inr _) \<Rightarrow>
      \<exists>orc'. UpdateMarketMap mm orc = (Inr (), orc') \<and>
              oi_market_map orc' = sub \<and> ia_GetMarketMap (oi_aggregator orc') = sub \<and>
              oracle_GetPrices orc' = oracle_GetPrices orc \<and> GetLastSyncTime orc' = GetLastSyncTime orc \<and>
              dom (gm_get (oi_price_providers orc')) = dom (gm_get (oi_price_providers orc)) \<and>
              (\<forall>name st. gm_get (oi_price_providers orc) name = Some st \<longrightarrow>
                (\<exists>st'. gm_get (oi_price_providers orc') name = Some st' \<and>
                  pt_off_chain_ticker ` set (GetIDs (ps_provider st')) = wanted name sub \<and>
                  distinct (map pt_off_chain_ticker (GetIDs (ps_provider st'))) \<and>
                  GetData (ps_provider st') = GetData (ps_provider st) \<and>
                  (wanted name sub = {} \<longrightarrow> \<not> IsRunning (ps_provider st') (oi_contexts orc')) \<and>
                  (wanted name sub \<noteq> {} \<longrightarrow> IsRunning (ps_provider st) (oi_contexts orc) \<or> name \<in> set (oi_launched orc')) \<and>
                  (\<forall>f. bp_fetch_ctx (ps_provider st) = Some f \<longrightarrow> ctx_done (oi_contexts orc') f)))"
  using updated_market_map [OF assms] by (auto split: prod.splits sum.splits)

section \<open>Updates from the chain\<close>

lemma Equal_refl: "gm_wf mm \<Longrightarrow> MarketMap_Equal mm mm"
  by (simp add: MarketMap_Equal_get)

lemma valid_subset_cases:
  obtains sub e where "GetValidSubset mm = (sub, Inl e)"
  | sub where "GetValidSubset mm = (sub, Inr ())" "is_ok (MarketMap_ValidateBasic sub)"
  by (cases "MarketMap_ValidateBasic (fst (GetValidSubset mm))"; force simp: GetValidSubset_def Let_def)

text \<open>A tick of the listener: nothing happens, or the oracle gets the valid subset of the response.\<close>

lemma tick_cases:
  assumes "gm_get (GetData mmp) chain = Some result" "rr_value result = Some r"
  obtains "market_map_tick mmp chain orc = (orc, None)"
    "MarketMap_Equal (oi_market_map orc) (mr_market_map r) \<or> (\<exists>sub e. GetValidSubset (mr_market_map r) = (sub, Inl e)) \<or>
     (\<exists>sub. GetValidSubset (mr_market_map r) = (sub, Inr ()) \<and> MarketMap_Equal (oi_market_map orc) sub)"
  | sub where "GetValidSubset (mr_market_map r) = (sub, Inr ())" "is_ok (MarketMap_ValidateBasic sub)"
    "IsMarketMapValidUpdated (Some r) orc = Inr (sub, True)"
proof (cases "MarketMap_Equal (oi_market_map orc) (mr_market_map r)")
  case True
  then show ?thesis using assms that(1) by (simp add: market_map_tick_def IsMarketMapValidUpdated_def)
next
  case False
  show ?thesis
  proof (cases rule: valid_subset_cases [of "mr_market_map r"])
    case (1 sub e)
    then show ?thesis using assms False that(1) by (simp add: market_map_tick_def IsMarketMapValidUpdated_def)
  next
    case (2 sub)
    then show ?thesis
      using assms False that by (cases "MarketMap_Equal (oi_market_map orc) sub")
        (simp_all add: market_map_tick_def IsMarketMapValidUpdated_def)
  qed
qed

text \<open>(C13) The updates from the chain settle: whatever map the market map provider holds, after one tick of
  the listener a second one with the same response changes nothing and writes nothing, so that the
  providers are not restarted again; and the map the oracle has then, if it changed, is valid.\<close>

theorem market_map_updates_settle:
  assumes "providers_named orc" "contexts_known orc"
    "gm_get (GetData mmp) chain = Some result" "rr_value result = Some r" "gm_wf (mr_market_map r)"
  defines "orc' \<equiv> fst (market_map_tick mmp chain orc)"
  shows "market_map_tick mmp chain orc' = (orc', None) \<and>
    (orc' = orc \<or> is_ok (MarketMap_ValidateBasic (oi_market_map orc')) \<and> oi_last_updated orc' = mr_last_updated r)"
proof (cases rule: tick_cases [OF assms(3,4), of orc])
  case 1
  then have "orc' = orc" by (simp add: orc'_def)
  with 1 show ?thesis by simp
next
  case (2 sub)
  have "GetValidSubset sub = (sub, Inr ())" using 2(2) by (rule valid_subset_of_valid)
  from UpdateMarketMap_run [OF assms(1,2) this] obtain o1 where
    o1: "UpdateMarketMap sub orc = (Inr (), o1)" "oi_market_map o1 = sub" by blast
  have orc': "orc' = o1\<lparr>oi_last_updated := mr_last_updated r\<rparr>"
    by (simp add: orc'_def market_map_tick_def assms(3,4) 2(3) o1(1) Let_def)
  have "gm_wf sub" using valid_subset_wf [OF assms(5)] 2(1) by simp
  then have "MarketMap_Equal (oi_market_map orc') sub" by (simp add: orc' o1(2) Equal_refl)
  then have "market_map_tick mmp chain orc' = (orc', None)"
    using assms(3,4) 2(1) by (simp add: market_map_tick_def IsMarketMapValidUpdated_def)
  then show ?thesis using 2(2) by (simp add: orc' o1(2))
qed

lemma orc0_ready: "contexts_known orc0"
  by (simp add: contexts_known_def orc0_def provider_a_def)

lemma usdt_only: "GetValidSubset [(''USDT/USD'', usdt_market True)] = ([(''USDT/USD'', usdt_market True)], Inr ())"
  by (rule valid_subset_of_valid) (simp add: MarketMap_ok_iff example_markets example_norm)

theorem update_market_map_spec_witness:
  "\<exists>orc'. UpdateMarketMap [(''USDT/USD'', usdt_market True)] orc0 = (Inr (), orc') \<and>
     oi_market_map orc' = [(''USDT/USD'', usdt_market True)] \<and>
     (\<exists>st. gm_get (oi_price_providers orc') ''a'' = Some st \<and> pt_off_chain_ticker ` set (GetIDs (ps_provider st)) = {''b''})"
proof -
  have "wanted ''a'' [(''USDT/USD'', usdt_market True)] = {''b''}"
  proof -
    have "pc_name (plain_config None) = ''a''" "pc_off_chain_ticker (plain_config None) = ''b''"
      by (simp_all add: plain_config_def)
    then show ?thesis by (auto simp: wanted_def usdt_market_def)
  qed
  moreover obtain orc' where o: "UpdateMarketMap [(''USDT/USD'', usdt_market True)] orc0 = (Inr (), orc')"
    "oi_market_map orc' = [(''USDT/USD'', usdt_market True)]"
    and p: "\<And>name st. gm_get (oi_price_providers orc0) name = Some st \<Longrightarrow>
      \<exists>st'. gm_get (oi_price_providers orc') name = Some st' \<and>
        pt_off_chain_ticker ` set (GetIDs (ps_provider st')) = wanted name [(''USDT/USD'', usdt_market True)]"
    using update_market_map_spec [OF orc0_named orc0_ready, of "[(''USDT/USD'', usdt_market True)]"]
    unfolding usdt_only prod.case sum.case
    by (elim exE conjE) (rule that, assumption, assumption, drule spec, drule spec, drule mp, assumption, elim exE conjE, rule exI, rule conjI)
  ultimately show ?thesis using p [OF orc0_provider(1)] by (intro exI [of _ orc']) simp
qed

definition listener :: "unit market_map_provider" where
  "listener = new_provider\<lparr>bp_ids := [''c''], bp_data := [(''c'', NewResult (Some \<lparr>mr_market_map =
     [(''USDT/USD'', usdt_market True)], mr_last_updated = 7, mr_chain_id = ''c''\<rparr>) 0)]\<rparr>"

theorem market_map_updates_settle_witness:
  "let orc = fst (market_map_tick listener ''c'' orc0) in
     oi_market_map orc = [(''USDT/USD'', usdt_market True)] \<and> oi_last_updated orc = 7 \<and>
     market_map_tick listener ''c'' orc = (orc, None)"
proof -
  let ?r = "\<lparr>mr_market_map = [(''USDT/USD'', usdt_market True)], mr_last_updated = 7, mr_chain_id = ''c''\<rparr>"
  let ?o = "fst (market_map_tick listener ''c'' orc0)"
  have result: "gm_get (GetData listener) ''c'' = Some (NewResult (Some ?r) 0)" "rr_value (NewResult (Some ?r) 0) = Some ?r"
    by (simp_all add: listener_def GetData_def gm_get_def NewResult_def)
  have wf: "gm_wf (mr_market_map ?r)" by (simp add: gm_wf_def)
  obtain o1 where o1: "UpdateMarketMap [(''USDT/USD'', usdt_market True)] orc0 = (Inr (), o1)"
    "oi_market_map o1 = [(''USDT/USD'', usdt_market True)]"
    using UpdateMarketMap_run [OF orc0_named orc0_ready usdt_only] by blast
  have "IsMarketMapValidUpdated (Some ?r) orc0 = Inr ([(''USDT/USD'', usdt_market True)], True)"
    by (simp add: IsMarketMapValidUpdated_def usdt_only MarketMap_Equal_def orc0_def)
  then have "?o = o1\<lparr>oi_last_updated := 7\<rparr>" by (simp add: market_map_tick_def result o1(1) Let_def)
  with market_map_updates_settle [OF orc0_named orc0_ready result wf] o1(2) show ?thesis by (simp add: Let_def)
qed

section \<open>An accepted update that the oracle never gets\<close>

definition eth_market :: market where
  "eth_market = \<lparr>mk_ticker = \<lparr>tk_currency_pair = eth_usd, tk_decimals = 8, tk_min_provider_count = 1,
     tk_enabled = True, tk_metadata_json = []\<rparr>, mk_provider_configs = [plain_config (Some btc_usd)]\<rparr>"

definition three_markets :: "bool \<Rightarrow> market_map" where
  "three_markets on = [(''BTC/USD'', normalized_market), (''ETH/USD'', eth_market), (''USDT/USD'', usdt_market on)]"

definition chain_before :: chain where
  "chain_before = chain2\<lparr>ch_mm := (ch_mm chain2)\<lparr>ms_markets := three_markets True\<rparr>\<rparr>"

definition chain_after :: chain where
  "chain_after = chain2\<lparr>ch_mm := (ch_mm chain2)\<lparr>ms_last_updated := Some 7, ms_markets := three_markets False\<rparr>\<rparr>"

lemma eth_facts: "ValidateBasic eth_usd = Inr ()" "CurrencyPair_String eth_usd = ''ETH/USD''" "CurrencyPair_String btc_usd = ''BTC/USD''"
  by code_simp+

lemma eth_market_valid:
  "Market_ValidateBasic eth_market = Inr ()" "ticker_of eth_market = ''ETH/USD''"
  "norm_ok look eth_market \<longleftrightarrow> (\<exists>n. look ''BTC/USD'' = Some n \<and> enabled n)"
  by (simp_all add: Market_ValidateBasic_def eth_market_def Ticker_ValidateBasic_def
      plain_config_def ProviderConfig_ValidateBasic_def DefaultMaxDecimals_def DefaultMinProviderCount_def
      MaxMetadataJSONFieldLength_def eth_facts btc_usd_valid Ticker_String_def norm_ok_def)

lemma three_markets_get:
  "kv_get (three_markets on) t = (if t = ''BTC/USD'' then Some normalized_market else if t = ''ETH/USD'' then Some eth_market
     else if t = ''USDT/USD'' then Some (usdt_market on) else None)"
  "kv_wf (three_markets on)" "gm_wf (three_markets on)"
  by (simp_all add: three_markets_def kv_get_def kv_wf_def gm_wf_def)

lemma chain_before_valid: "mm_inv (ch_mm chain_before)" "map_valid (ch_mm chain_before)"
proof -
  show inv: "mm_inv (ch_mm chain_before)"
    by (auto simp: mm_inv_def chain_before_def three_markets_get example_markets eth_market_valid split: if_splits)
  have "enabled normalized_market" by (simp add: normalized_market_def)
  then show "map_valid (ch_mm chain_before)"
    unfolding map_valid_iff [OF inv]
    by (auto simp: chain_before_def three_markets_get example_norm eth_market_valid split: if_splits)
qed

lemma disable_accepted: "UpdateMarkets (NewKeeper ''gov'' []) 7 (Some disable_usdt) chain_before = (Inr (), chain_after)"
proof -
  have "verifyMarketAuthorities ''alice'' (ch_mm chain_before) = Inr ()"
    by (simp add: verifyMarketAuthorities_iff authorised_def) (simp add: chain_before_def chain2_def)
  moreover have "ValidateState [usdt_market False] s = Inr ()" for s
    by (simp add: ValidateState_iff example_norm)
  ultimately show ?thesis
    by (simp add: UpdateMarkets_def verifyMsg_def GetAuthority_def disable_usdt_def onMM_def bindC_def mapErrC_def
        readC_def marketsOf_def update_one_def UpdateMarket_def markets_Has_def call_hooks_def noop_hooks
        setMarket_def modifyC_def returnC_def SetLastUpdated_def example_markets)
      (simp add: chain_before_def chain_after_def three_markets_def kv_get_def)
qed

text \<open>Whatever other markets a map has, with these three as the message leaves them it has no
  valid subset: BTC/USD loses its only provider and ETH/USD keeps its configuration.\<close>

lemma no_valid_subset:
  assumes wf: "gm_wf mm" and markets: "gm_get mm ''BTC/USD'' = Some normalized_market"
    "gm_get mm ''ETH/USD'' = Some eth_market" "gm_get mm ''USDT/USD'' = Some (usdt_market False)"
  shows "\<exists>sub e. GetValidSubset mm = (sub, Inl e)"
proof -
  have en: "enabled normalized_market" "enabled eth_market" "\<not> enabled (usdt_market False)"
    by (simp_all add: normalized_market_def eth_market_def usdt_market_def)
  have "norm_ok (gm_get mm) eth_market" by (simp add: eth_market_valid markets en)
  then have "prune_configs mm eth_market = eth_market" by (rule prune_configs_same)
  moreover have "(''ETH/USD'', eth_market) \<in> set mm" using markets(2) by (rule gm_get_mem)
  ultimately have eth: "(''ETH/USD'', eth_market) \<in> set (fst (GetValidSubset mm))"
    by (auto simp: valid_subset_entry eth_market_valid intro: exI [of _ eth_market])
  have "\<not> is_ok (Market_ValidateBasic (prune_configs mm normalized_market))"
  proof -
    have "\<not> is_ok (check_normalize mm normalized_market (plain_config (Some usdt_usd)))"
      unfolding check_normalize_iff using en by (simp add: plain_config_def usdt_usd_facts markets)
    then have "mk_provider_configs (prune_configs mm normalized_market) = []"
      by (simp add: prune_configs_def normalized_market_def)
    moreover have "tk_min_provider_count (mk_ticker (prune_configs mm normalized_market)) = 1"
      by (simp add: normalized_market_def)
    ultimately show ?thesis by (simp add: Market_ValidateBasic_iff)
  qed
  moreover have "m0 = normalized_market" if "(''BTC/USD'', m0) \<in> set mm" for m0
    using that markets(1) by (metis gm_get_iff [OF wf] option.inject)
  ultimately have "(''BTC/USD'', m) \<notin> set (fst (GetValidSubset mm))" for m
    by (auto simp: valid_subset_entry)
  then have "gm_get (fst (GetValidSubset mm)) (CurrencyPair_String btc_usd) = None"
    unfolding eth_facts(3) using gm_get_mem [of "fst (GetValidSubset mm)" "''BTC/USD''"]
    by (cases "gm_get (fst (GetValidSubset mm)) ''BTC/USD''") auto
  moreover have "plain_config (Some btc_usd) \<in> set (mk_provider_configs eth_market)"
    "pc_normalize_by_pair (plain_config (Some btc_usd)) = Some btc_usd"
    by (simp_all add: eth_market_def plain_config_def)
  ultimately have "\<not> is_ok (snd (GetValidSubset mm))"
    unfolding valid_subset_ok_iff [OF wf] using eth by blast
  then show ?thesis by (cases "GetValidSubset mm") (auto simp: is_ok_def split: sum.splits)
qed

text \<open>(C38) A valid message that the chain accepts can cut the sidecars off. On a valid map in which ETH/USD
  normalizes by BTC/USD and that by USDT/USD, disabling USDT/USD is accepted, and the map the chain
  then answers has the three markets as the message left them. For every answer of which that is
  true, whatever other markets it has and whenever it is fetched, a tick leaves every
  oracle as it is: as long as no later message changes one of these three markets, no market map of
  the chain reaches a sidecar.\<close>

theorem accepted_update_cuts_off_oracle:
  assumes "gm_wf (mr_market_map r)"
    "gm_get (mr_market_map r) ''BTC/USD'' = Some normalized_market"
    "gm_get (mr_market_map r) ''ETH/USD'' = Some eth_market"
    "gm_get (mr_market_map r) ''USDT/USD'' = Some (usdt_market False)"
    "gm_get (GetData mmp) chain = Some result" "rr_value result = Some r"
  shows "map_valid (ch_mm chain_before) \<and> MsgUpdateMarkets_ValidateBasic (\<lambda>_. Inr ()) disable_usdt = Inr () \<and>
    UpdateMarkets (NewKeeper ''gov'' []) 7 (Some disable_usdt) chain_before = (Inr (), chain_after) \<and>
    query_MarketMap chainId (Some ()) (ch_mm chain_after) =
      Inr \<lparr>mr_market_map = [(''BTC/USD'', normalized_market), (''ETH/USD'', eth_market),
        (''USDT/USD'', usdt_market False)], mr_last_updated = 7, mr_chain_id = chainId\<rparr> \<and>
    market_map_tick mmp chain orc = (orc, None)"
proof (intro conjI chain_before_valid disable_accepted)
  show "MsgUpdateMarkets_ValidateBasic (\<lambda>_. Inr ()) disable_usdt = Inr ()"
    by (simp add: MsgUpdateMarkets_ValidateBasic_def disable_usdt_def example_markets)
  have "mm_inv (ch_mm chain_after)"
    by (auto simp: mm_inv_def chain_after_def three_markets_get example_markets eth_market_valid split: if_splits)
  then show "query_MarketMap chainId (Some ()) (ch_mm chain_after) =
      Inr \<lparr>mr_market_map = [(''BTC/USD'', normalized_market), (''ETH/USD'', eth_market),
        (''USDT/USD'', usdt_market False)], mr_last_updated = 7, mr_chain_id = chainId\<rparr>"
    by (simp add: query_MarketMap_def GetAllMarkets_eq GetLastUpdated_def item_Get_def)
      (simp add: chain_after_def three_markets_def)
  show "market_map_tick mmp chain orc = (orc, None)"
    using no_valid_subset [OF assms(1-4)] assms(5,6)
    by (auto simp: market_map_tick_def IsMarketMapValidUpdated_def)
qed

text \<open>A later answer, with a further market under a wrong key.\<close>

definition later_answer :: market_map_response where
  "later_answer = \<lparr>mr_market_map = (''AAA/USD'', usdt_market True) # three_markets False,
     mr_last_updated = 9, mr_chain_id = ''c''\<rparr>"

theorem accepted_update_cuts_off_oracle_witness:
  "map_valid (ch_mm chain_before) \<and>
    market_map_tick (listener\<lparr>bp_data := [(''c'', NewResult (Some later_answer) 0)]\<rparr>) ''c'' orc0 = (orc0, None)"
proof -
  let ?mmp = "listener\<lparr>bp_data := [(''c'', NewResult (Some later_answer) 0)]\<rparr>"
  have "gm_get (GetData ?mmp) ''c'' = Some (NewResult (Some later_answer) 0)"
    "rr_value (NewResult (Some later_answer) 0) = Some later_answer"
    "gm_wf (mr_market_map later_answer)"
    "gm_get (mr_market_map later_answer) ''BTC/USD'' = Some normalized_market"
    "gm_get (mr_market_map later_answer) ''ETH/USD'' = Some eth_market"
    "gm_get (mr_market_map later_answer) ''USDT/USD'' = Some (usdt_market False)"
    by (simp_all add: GetData_def gm_get_def gm_wf_def NewResult_def later_answer_def three_markets_def)
  from accepted_update_cuts_off_oracle [OF this(3-6) this(1,2)] show ?thesis by blast
qed

end
