(* ===== verification/Sidecar_Reach.thy ===== *)
theory Sidecar_Reach
  imports Sidecar_Updates Api_Properties
begin

text \<open>
  The life of the oracle as a step relation: it is started, ticks, gets market maps, its launched goroutines
  run and its providers move on their own. In every reachable state the providers ask for exactly what
  the market map wants of them.
\<close>

section \<open>Steps\<close>

text \<open>What the goroutines of a provider may do to it: its name and its ids are only changed by the oracle,
  contexts are only added and cancelled (lemma \<open>life_step_moves\<close> below shows that the steps of \<open>Provider_Lifecycle\<close> do no more).\<close>

definition provider_moves :: "contexts \<Rightarrow> 'h price_provider \<Rightarrow> contexts \<Rightarrow> 'h price_provider \<Rightarrow> bool" where
  "provider_moves cs p cs' p' \<longleftrightarrow> bp_name p' = bp_name p \<and> bp_ids p' = bp_ids p \<and>
     length cs \<le> length cs' \<and> (\<forall>c. ctx_done cs c \<longrightarrow> ctx_done cs' c) \<and>
     (\<forall>m. bp_main_ctx p' = Some m \<longrightarrow> m < length cs') \<and> (\<forall>f. bp_fetch_ctx p' = Some f \<longrightarrow> f < length cs')"

inductive sidecar_step :: "('h, 'm) oracle_impl \<Rightarrow> ('h, 'm) oracle_impl \<Rightarrow> bool" where
  start: "\<not> oi_running orc \<Longrightarrow> parent < length (oi_contexts orc) \<Longrightarrow>
    sidecar_step orc (snd (StartOracle parent orc))"
| tick: "sidecar_step orc (fetchAllPrices now orc)"
| listen: "gm_get (GetData mmp) chain = Some result \<Longrightarrow>
    (case rr_value result of None \<Rightarrow> True | Some r \<Rightarrow> gm_wf (mr_market_map r)) \<Longrightarrow>
    sidecar_step orc (fst (market_map_tick mmp chain orc))"
| update: "gm_wf mm \<Longrightarrow> sidecar_step orc (snd (UpdateMarketMap mm orc))"
| exec: "name \<in> set (oi_launched orc) \<Longrightarrow> sidecar_step orc (execProviderFn name orc)"
| move: "gm_get (oi_price_providers orc) name = Some st \<Longrightarrow> provider_moves (oi_contexts orc) (ps_provider st) cs p \<Longrightarrow>
    sidecar_step orc (orc\<lparr>oi_contexts := cs,
      oi_price_providers := gm_set name (st\<lparr>ps_provider := p\<rparr>) (oi_price_providers orc)\<rparr>)"
| stop: "sidecar_step orc (StopOracle orc)"
| exit: "sidecar_step orc (loop_exit orc)"

text \<open>A new oracle and its aggregator have the same, valid market map.\<close>

definition new_sidecar :: "('h, 'm) oracle_impl \<Rightarrow> bool" where
  "new_sidecar orc \<longleftrightarrow> oi_price_providers orc = [] \<and> gm_wf (oi_market_map orc) \<and>
     is_ok (MarketMap_ValidateBasic (oi_market_map orc)) \<and> ia_cfg (oi_aggregator orc) = oi_market_map orc"

inductive sidecar_reach :: "('h, 'm) oracle_impl \<Rightarrow> bool" where
  new: "new_sidecar orc \<Longrightarrow> sidecar_reach orc"
| step: "sidecar_reach orc \<Longrightarrow> sidecar_step orc orc' \<Longrightarrow> sidecar_reach orc'"

section \<open>The invariant\<close>

definition asks :: "market_map \<Rightarrow> string \<Rightarrow> 'h provider_state \<Rightarrow> bool" where
  "asks mm name st \<longleftrightarrow> bp_name (ps_provider st) = name \<and>
     pt_off_chain_ticker ` set (GetIDs (ps_provider st)) = wanted name mm \<and>
     distinct (map pt_off_chain_ticker (GetIDs (ps_provider st)))"

definition sidecar_inv :: "('h, 'm) oracle_impl \<Rightarrow> bool" where
  "sidecar_inv orc \<longleftrightarrow> gm_wf (oi_price_providers orc) \<and> contexts_known orc \<and>
     gm_wf (oi_market_map orc) \<and> is_ok (MarketMap_ValidateBasic (oi_market_map orc)) \<and>
     ia_cfg (oi_aggregator orc) = oi_market_map orc \<and>
     (\<forall>name st. gm_get (oi_price_providers orc) name = Some st \<longrightarrow> asks (oi_market_map orc) name st)"

lemma inv_named: "sidecar_inv orc \<Longrightarrow> providers_named orc"
  by (simp add: sidecar_inv_def providers_named_iff asks_def)

lemma contexts_known_iff:
  "gm_wf (oi_price_providers orc) \<Longrightarrow> contexts_known orc \<longleftrightarrow>
     (\<forall>name st. gm_get (oi_price_providers orc) name = Some st \<longrightarrow>
       (\<forall>m. bp_main_ctx (ps_provider st) = Some m \<longrightarrow> m < length (oi_contexts orc)) \<and>
       (\<forall>f. bp_fetch_ctx (ps_provider st) = Some f \<longrightarrow> f < length (oi_contexts orc)))"
  by (fastforce simp: contexts_known_def gm_get_iff)

lemma update_provider_wf: "keeps (\<lambda>orc. gm_wf (oi_price_providers orc)) (update_provider mm x)"
  unfolding update_provider_def
  by (auto simp: split_beta intro!: keeps_bindC keeps_modifyC split: prod.splits)

text \<open>All providers follow a map: the invariant holds for it.\<close>

lemma followed_inv:
  assumes "sidecar_inv orc" "gm_wf mm" "is_ok (MarketMap_ValidateBasic mm)" "gm_wf ps"
    and cs: "grown (oi_contexts orc) cs"
    and f: "\<And>name st. gm_get (oi_price_providers orc) name = Some st \<Longrightarrow>
       follows mm (oi_contexts orc) cs l name st (gm_get ps name)"
    and none: "\<And>name. gm_get (oi_price_providers orc) name = None \<Longrightarrow> gm_get ps name = None"
  shows "sidecar_inv (orc\<lparr>oi_contexts := cs, oi_launched := l, oi_price_providers := ps,
    oi_market_map := mm, oi_aggregator := ia_UpdateMarketMap mm (oi_aggregator orc)\<rparr>)" (is "sidecar_inv ?orc")
proof -
  have new: "asks mm name st' \<and> (\<exists>st ts. gm_get (oi_price_providers orc) name = Some st \<and>
      st' = st\<lparr>ps_provider := setIDs ts (ps_provider st)\<rparr>)" if "gm_get ps name = Some st'" for name st'
  proof -
    obtain st where st: "gm_get (oi_price_providers orc) name = Some st"
      using none [of name] \<open>gm_get ps name = Some st'\<close> by fastforce
    moreover have "bp_name (ps_provider st) = name"
      using inv_named [OF assms(1)] st by (simp add: providers_named_iff)
    ultimately show ?thesis
      using f [OF st] that by (auto simp: follows_def asks_def setIDs_def GetIDs_def)
  qed
  have "contexts_known ?orc"
    using assms(1) new cs
    by (fastforce simp: contexts_known_iff assms(4) sidecar_inv_def setIDs_def grown_def)
  then show ?thesis
    using new assms(2-4) by (auto simp: sidecar_inv_def ia_UpdateMarketMap_def)
qed

lemma inv_update:
  fixes orc :: "('h, 'm) oracle_impl"
  assumes "sidecar_inv orc" "gm_wf mm"
  shows "sidecar_inv (snd (UpdateMarketMap mm orc))"
proof (cases rule: valid_subset_cases [of mm])
  case (1 sub e)
  then show ?thesis using assms(1) by (simp add: UpdateMarketMap_fails)
next
  case (2 sub)
  have known: "contexts_known orc" using assms(1) by (simp add: sidecar_inv_def)
  obtain cs l ps where run: "UpdateMarketMap mm orc = (Inr (), orc\<lparr>oi_contexts := cs, oi_launched := l, oi_price_providers := ps,
        oi_market_map := sub, oi_aggregator := ia_UpdateMarketMap sub (oi_aggregator orc)\<rparr>)"
    and cs: "grown (oi_contexts orc) cs"
    and f: "\<And>name st. gm_get (oi_price_providers orc) name = Some st \<Longrightarrow>
       follows sub (oi_contexts orc) cs l name st (gm_get ps name)"
    and none: "\<And>name. gm_get (oi_price_providers orc) name = None \<Longrightarrow> gm_get ps name = None"
    by (rule UpdateMarketMap_cases [OF inv_named [OF assms(1)] known 2(1)], rule that)
  have "keeps (\<lambda>orc :: ('h, 'm) oracle_impl. gm_wf (oi_price_providers orc)) (bindC (forC (oi_price_providers orc) (update_provider sub)) (\<lambda>_.
      modifyC (\<lambda>o1. o1\<lparr>oi_market_map := sub, oi_aggregator := ia_UpdateMarketMap sub (oi_aggregator o1)\<rparr>)))"
    by (intro keeps_bindC keeps_forC update_provider_wf keeps_modifyC) simp
  moreover have "gm_wf (oi_price_providers orc)" using assms(1) by (simp add: sidecar_inv_def)
  ultimately have "gm_wf (oi_price_providers (snd (UpdateMarketMap mm orc)))"
    by (simp add: UpdateMarketMap_def 2(1) keeps_def)
  then have "gm_wf ps" by (simp add: run)
  moreover have "gm_wf sub" using valid_subset_wf [OF assms(2)] 2(1) by simp
  ultimately show ?thesis using followed_inv [OF assms(1) _ 2(2) _ cs f none] by (simp add: run)
qed

lemma inv_listen:
  assumes "sidecar_inv orc" "gm_get (GetData mmp) chain = Some result"
    "case rr_value result of None \<Rightarrow> True | Some r \<Rightarrow> gm_wf (mr_market_map r)"
  shows "sidecar_inv (fst (market_map_tick mmp chain orc))"
proof (cases "rr_value result")
  case None
  then show ?thesis using assms(1,2) by (simp add: market_map_tick_def IsMarketMapValidUpdated_def)
next
  case (Some r)
  show ?thesis
  proof (cases rule: tick_cases [OF assms(2) Some, of orc])
    case 1
    then show ?thesis using assms(1) by simp
  next
    case (2 sub)
    have known: "contexts_known orc" using assms(1) by (simp add: sidecar_inv_def)
    have sub: "GetValidSubset sub = (sub, Inr ())" using 2(2) by (rule valid_subset_of_valid)
    from UpdateMarketMap_run [OF inv_named [OF assms(1)] known this] obtain o1 where
      o1: "UpdateMarketMap sub orc = (Inr (), o1)" by blast
    have "gm_wf sub" using valid_subset_wf [of "mr_market_map r"] assms(3) Some 2(1) by simp
    from inv_update [OF assms(1) this] have "sidecar_inv o1" by (simp add: o1)
    then have "sidecar_inv (o1\<lparr>oi_last_updated := mr_last_updated r\<rparr>)"
      by (simp add: sidecar_inv_def contexts_known_def)
    moreover have "fst (market_map_tick mmp chain orc) = o1\<lparr>oi_last_updated := mr_last_updated r\<rparr>"
      by (simp add: market_map_tick_def assms(2) Some 2(3) o1 Let_def)
    ultimately show ?thesis by simp
  qed
qed

section \<open>Initialisation and start\<close>

text \<open>What the options of a new price provider set.\<close>

lemma new_price_provider_fields:
  "new_price_provider cfg ts orc = Inr p \<Longrightarrow>
   bp_name p = sc_name cfg \<and> GetIDs p = ts \<and> bp_main_ctx p = None \<and> bp_fetch_ctx p = None"
  by (auto simp: new_price_provider_def NewProvider_def WithName_def WithAPIQueryHandler_def WithAPIConfig_def
      WithIDs_def WithWebSocketQueryHandler_def WithWebSocketConfig_def new_provider_def GetIDs_def bind_res_Inr_iff
      split: if_splits)

lemma inv_createPriceProvider: "keeps sidecar_inv (createPriceProvider cfg)"
proof (rule keepsI)
  fix orc :: "('h, 'm) oracle_impl" assume inv: "sidecar_inv orc"
  obtain ts where ts: "ProviderTickersFromMarketMap (sc_name cfg) (oi_market_map orc) = Inr ts"
    "pt_off_chain_ticker ` set ts = wanted (sc_name cfg) (oi_market_map orc)" "distinct (map pt_off_chain_ticker ts)"
    by (rule provider_tickers)
  show "sidecar_inv (snd (createPriceProvider cfg orc))"
  proof (cases "new_price_provider cfg ts orc")
    case (Inl e)
    then show ?thesis using inv by (simp add: createPriceProvider_def bindC_def readC_def ts(1))
  next
    case (Inr p)
    note p = new_price_provider_fields [OF Inr]
    have "snd (createPriceProvider cfg orc) = orc\<lparr>oi_price_providers :=
        gm_set (sc_name cfg) \<lparr>ps_provider = p, ps_cfg = cfg\<rparr> (oi_price_providers orc)\<rparr>"
      by (simp add: createPriceProvider_def bindC_def readC_def modifyC_def ts(1) Inr p)
    then show ?thesis using inv p ts(2,3) by (auto simp: sidecar_inv_def contexts_known_iff asks_def)
  qed
qed

lemma inv_init_provider: "keeps sidecar_inv (init_provider cfg)"
  unfolding init_provider_def createMarketMapProvider_def
  by (intro keeps_mapErrC keeps_if inv_createPriceProvider keeps_bindC keeps_modifyC keeps_basic)
    (auto simp: sidecar_inv_def contexts_known_def)

lemma keeps_snd: "keeps I m \<Longrightarrow> I s \<Longrightarrow> I (snd (m s))"
  by (simp add: keeps_def)

lemma inv_Init: "sidecar_inv orc \<Longrightarrow> sidecar_inv (snd (Init orc))"
  unfolding Init_def by (rule keeps_snd [OF keeps_forC [OF inv_init_provider]])

lemma inv_setMainCtx: "sidecar_inv orc \<Longrightarrow> sidecar_inv (oracle_setMainCtx parent orc)"
  by (fastforce simp: oracle_setMainCtx_def WithCancel_def sidecar_inv_def contexts_known_def)

lemma inv_follow_own:
  fixes orc :: "('h, 'm) oracle_impl"
  assumes "sidecar_inv orc"
  shows "sidecar_inv (snd (forC (oi_price_providers orc) (update_provider (oi_market_map orc)) orc))"
proof -
  let ?mm = "oi_market_map orc"
  have wf: "gm_wf (oi_price_providers orc)" and mm: "gm_wf ?mm" "is_ok (MarketMap_ValidateBasic ?mm)"
    and known: "contexts_known orc" and cfg: "ia_cfg (oi_aggregator orc) = ?mm"
    using assms by (simp_all add: sidecar_inv_def)
  have "\<exists>cs l ps. forC (oi_price_providers orc) (update_provider ?mm) orc =
      (Inr (), orc\<lparr>oi_contexts := cs, oi_launched := l, oi_price_providers := ps\<rparr>) \<and>
    grown (oi_contexts orc) cs \<and> set (oi_launched orc) \<subseteq> set l \<and>
    (\<forall>(name, st) \<in> set (oi_price_providers orc). follows ?mm (oi_contexts orc) cs l name st (gm_get ps name)) \<and>
    (\<forall>n. n \<notin> fst ` set (oi_price_providers orc) \<longrightarrow> gm_get ps n = gm_get (oi_price_providers orc) n)"
    using known wf by (intro update_providers_follow) (auto simp: gm_wf_def contexts_known_def)
  then obtain cs l ps where run: "forC (oi_price_providers orc) (update_provider ?mm) orc =
      (Inr (), orc\<lparr>oi_contexts := cs, oi_launched := l, oi_price_providers := ps\<rparr>)"
    "grown (oi_contexts orc) cs"
    "\<forall>(name, st) \<in> set (oi_price_providers orc). follows ?mm (oi_contexts orc) cs l name st (gm_get ps name)"
    "\<forall>n. n \<notin> fst ` set (oi_price_providers orc) \<longrightarrow> gm_get ps n = gm_get (oi_price_providers orc) n"
    by (elim exE conjE) (rule that)
  have "keeps (\<lambda>orc :: ('h, 'm) oracle_impl. gm_wf (oi_price_providers orc))
      (forC (oi_price_providers orc) (update_provider ?mm))"
    by (intro keeps_forC update_provider_wf)
  from keeps_snd [OF this, of orc] wf have "gm_wf ps" by (simp add: run(1))
  have follow: "follows ?mm (oi_contexts orc) cs l name st (gm_get ps name)"
    if "gm_get (oi_price_providers orc) name = Some st" for name st
    using run(3) gm_get_mem [OF that] by blast
  have none: "gm_get ps name = None" if "gm_get (oi_price_providers orc) name = None" for name
  proof -
    have "name \<notin> fst ` set (oi_price_providers orc)" using that gm_get_iff [OF wf, of name] by auto
    with run(4) that show ?thesis by simp
  qed
  have "ia_UpdateMarketMap ?mm (oi_aggregator orc) = oi_aggregator orc"
    using cfg by (simp add: ia_UpdateMarketMap_def flip: cfg)
  then have same: "orc\<lparr>oi_contexts := cs, oi_launched := l, oi_price_providers := ps, oi_market_map := ?mm,
      oi_aggregator := ia_UpdateMarketMap ?mm (oi_aggregator orc)\<rparr> =
    orc\<lparr>oi_contexts := cs, oi_launched := l, oi_price_providers := ps\<rparr>"
    by (cases orc) simp
  show ?thesis
    using followed_inv [OF assms mm \<open>gm_wf ps\<close> run(2) follow none] by (simp only: same run(1) snd_conv)
qed

lemma oracle_inv_start:
  fixes orc :: "('h, 'm) oracle_impl"
  assumes "sidecar_inv orc"
  shows "sidecar_inv (snd (StartOracle parent orc))"
proof -
  have run: "sidecar_inv (orc\<lparr>oi_running := b\<rparr>) = sidecar_inv orc" for b and orc :: "('h, 'm) oracle_impl"
    by (simp add: sidecar_inv_def contexts_known_def)
  have "keeps (sidecar_inv :: ('h, 'm) oracle_impl \<Rightarrow> bool) (start_prefix parent)"
    unfolding start_prefix_def
    by (intro keeps_bindC keeps_modifyC keepsI)
      (auto simp: inv_Init inv_setMainCtx inv_follow_own, simp add: sidecar_inv_def contexts_known_def)
  then have "sidecar_inv (snd (start_prefix parent (orc\<lparr>oi_running := True\<rparr>)))"
    by (rule keeps_snd) (simp add: assms run)
  then show ?thesis by (auto simp: StartOracle_def run split: prod.splits sum.splits)
qed

section \<open>The other steps\<close>

lemma inv_fetch: 
  assumes "sidecar_inv orc"
  shows "sidecar_inv (fetchAllPrices now orc)"
proof -
  have "ia_cfg (oi_aggregator (fetchAllPrices now orc)) = ia_cfg (oi_aggregator orc)"
    by (simp add: tick_aggregator Aggregate_keeps collect_publishes_nothing [OF inv_named [OF assms]])
  moreover have "oi_price_providers (fetchAllPrices now orc) = oi_price_providers orc"
    "oi_market_map (fetchAllPrices now orc) = oi_market_map orc"
    "oi_contexts (fetchAllPrices now orc) = oi_contexts orc"
    by (simp_all add: fetchAllPrices_def split: sum.splits prod.splits)
  ultimately show ?thesis using assms by (simp add: sidecar_inv_def contexts_known_def)
qed

lemma oracle_inv_move:
  assumes "sidecar_inv orc" "gm_get (oi_price_providers orc) name = Some st"
    "provider_moves (oi_contexts orc) (ps_provider st) cs p"
  shows "sidecar_inv (orc\<lparr>oi_contexts := cs,
      oi_price_providers := gm_set name (st\<lparr>ps_provider := p\<rparr>) (oi_price_providers orc)\<rparr>)"
proof -
  have "asks (oi_market_map orc) name (st\<lparr>ps_provider := p\<rparr>)"
    using assms by (auto simp: sidecar_inv_def asks_def provider_moves_def GetIDs_def)
  then show ?thesis
    using assms by (fastforce simp: sidecar_inv_def contexts_known_iff provider_moves_def intro: less_le_trans)
qed

lemma inv_exec: "sidecar_inv orc \<Longrightarrow> sidecar_inv (execProviderFn name orc)"
proof -
  assume inv: "sidecar_inv orc"
  show ?thesis
  proof (cases "(oi_main_ctx orc, gm_get (oi_price_providers orc) name)")
    case (Pair a b)
    show ?thesis
    proof (cases a; cases b)
      fix ctx st assume ab: "a = Some ctx" "b = Some st"
      have known: "contexts_known orc" and wf: "gm_wf (oi_price_providers orc)"
        using inv by (simp_all add: sidecar_inv_def)
      have st: "gm_get (oi_price_providers orc) name = Some st" using Pair ab by simp
      have "f < length (oi_contexts orc)" if "bp_fetch_ctx (ps_provider st) = Some f" for f
        using known st that by (simp add: contexts_known_iff wf)
      then have "provider_moves (oi_contexts orc) (ps_provider st)
          (oi_contexts orc @ [\<lparr>ct_parent = Some ctx, ct_cancelled = False\<rparr>])
          ((ps_provider st)\<lparr>bp_main_ctx := Some (length (oi_contexts orc))\<rparr>)"
        by (auto simp: provider_moves_def less_Suc_eq) (metis ctx_done.simps ctx_done_append)
      from oracle_inv_move [OF inv st this] show ?thesis
        using Pair ab by (simp add: execProviderFn_def setMainCtx_def WithCancel_def)
    qed (use inv Pair in \<open>simp_all add: execProviderFn_def\<close>)
  qed
qed

lemma inv_stop: "sidecar_inv orc \<Longrightarrow> sidecar_inv (StopOracle orc)" "sidecar_inv orc \<Longrightarrow> sidecar_inv (loop_exit orc)"
  by (auto simp: StopOracle_def loop_exit_def sidecar_inv_def contexts_known_def split: option.splits)

lemma inv_sidecar_step: "sidecar_step orc orc' \<Longrightarrow> sidecar_inv orc \<Longrightarrow> sidecar_inv orc'"
  by (induction rule: sidecar_step.induct) (simp_all add: oracle_inv_start inv_fetch inv_listen inv_update inv_exec oracle_inv_move inv_stop)

lemma sidecar_reach_inv: "sidecar_reach orc \<Longrightarrow> sidecar_inv orc"
proof (induction rule: sidecar_reach.induct)
  case (new orc)
  then show ?case by (simp add: new_sidecar_def sidecar_inv_def contexts_known_def)
next
  case (step orc orc')
  then show ?case using inv_sidecar_step by blast
qed

section \<open>The goroutines of a provider\<close>

text \<open>The move step is what the goroutines of a provider can do: every step of \<open>life_step\<close> other than an update
  of the ids, which only the oracle makes, is one.\<close>

definition own_contexts :: "('k, 'v, 'h) life \<Rightarrow> bool" where
  "own_contexts s \<longleftrightarrow> (\<forall>m. bp_main_ctx (lf_provider s) = Some m \<longrightarrow> m < length (lf_contexts s)) \<and>
     (\<forall>f. bp_fetch_ctx (lf_provider s) = Some f \<longrightarrow> f < length (lf_contexts s))"

lemma ctx_done_known: "ctx_done cs c \<Longrightarrow> c < length cs"
  by (subst (asm) ctx_done.simps) simp

lemma ctx_done_longer: "ctx_done cs c \<Longrightarrow> ctx_done (cs @ ds) c"
  using ctx_done_known by fastforce

lemma close_channel_keeps:
  "lf_provider (close_channel s) = lf_provider s" "lf_contexts (close_channel s) = lf_contexts s"
  by (simp_all add: close_channel_def split: option.splits)

lemma life_step_moves:
  fixes s :: "(provider_ticker, big_float option, 'h) life"
  assumes "life_step allowed s t" "own_contexts s"
  shows "(\<exists>ids. t = update_ids ids s) \<or>
    provider_moves (lf_contexts s) (lf_provider s) (lf_contexts t) (lf_provider t)"
  using assms
proof cases
  case (start parent)
  then show ?thesis
    using assms(2) by (auto simp: begin_start_def setMainCtx_def WithCancel_def provider_moves_def own_contexts_def
        less_SucI ctx_done_longer)
next
  case (head i)
  then show ?thesis
    using assms(2) by (auto simp: loop_head_def leave_def createResponseCh_def setFetchCtx_def WithCancel_def
        provider_moves_def own_contexts_def less_SucI ctx_done_longer ctx_done_cancel)
next
  case (recv i f r)
  then show ?thesis
    using assms(2) by (auto simp: receive_def updateData_def provider_moves_def own_contexts_def)
next
  case (fetched i f)
  then show ?thesis
    using assms(2) by (auto simp: fetch_exit_def close_channel_keeps provider_moves_def own_contexts_def ctx_done_cancel)
next
  case (waited i)
  then show ?thesis
    using assms(2) by (auto simp: after_wait_def leave_def provider_moves_def own_contexts_def ctx_done_cancel)
next
  case stopped
  then show ?thesis
    using assms(2) by (auto simp: stop_def Stop_def provider_moves_def own_contexts_def ctx_done_cancel split: option.splits)
next
  case (cancelled c)
  then show ?thesis
    using assms(2) by (auto simp: provider_moves_def own_contexts_def ctx_done_cancel)
qed blast

text \<open>In a reachable state of the oracle, a step of one provider's goroutines is a step of the oracle.\<close>

lemma goroutine_step:
  assumes "sidecar_inv orc" "gm_get (oi_price_providers orc) name = Some st"
    "lf_provider s = ps_provider st" "lf_contexts s = oi_contexts orc"
    "life_step allowed s t" "\<nexists>ids. t = update_ids ids s"
  shows "sidecar_step orc (orc\<lparr>oi_contexts := lf_contexts t,
    oi_price_providers := gm_set name (st\<lparr>ps_provider := lf_provider t\<rparr>) (oi_price_providers orc)\<rparr>)"
proof (rule sidecar_step.move [OF assms(2)])
  have "own_contexts s"
    using assms(1-4) by (auto simp: own_contexts_def sidecar_inv_def contexts_known_iff)
  then show "provider_moves (oi_contexts orc) (ps_provider st) (lf_contexts t) (lf_provider t)"
    using life_step_moves [OF assms(5)] assms(3,4,6) by simp
qed

section \<open>Consistency\<close>

text \<open>(C11) In every reachable state of the oracle, however its starts, ticks, market map updates and the moves
  of its providers interleave: the market map is valid and is the aggregator's, every provider is stored
  under its name, and it asks for exactly the off-chain tickers that the enabled markets of the map
  want of it, each once.\<close>

theorem reachable_oracle_consistent:
  assumes "sidecar_reach orc"
  shows "is_ok (MarketMap_ValidateBasic (oi_market_map orc)) \<and> ia_GetMarketMap (oi_aggregator orc) = oi_market_map orc \<and>
    (\<forall>name st. gm_get (oi_price_providers orc) name = Some st \<longrightarrow>
       bp_name (ps_provider st) = name \<and>
       pt_off_chain_ticker ` set (GetIDs (ps_provider st)) = wanted name (oi_market_map orc) \<and>
       distinct (map pt_off_chain_ticker (GetIDs (ps_provider st))))"
  using sidecar_reach_inv [OF assms] by (auto simp: sidecar_inv_def asks_def ia_GetMarketMap_def)

text \<open>An oracle with one price provider, started on an empty market map and then given one market.\<close>

definition sidecar0 :: "(unit, unit) oracle_impl" where
  "sidecar0 = orc0\<lparr>oi_running := False, oi_main_ctx := None, oi_contexts := [\<lparr>ct_parent = None, ct_cancelled = False\<rparr>],
     oi_price_providers := [], oi_price_api_factory := Some (\<lambda>cfg. Inr (Some ())),
     oi_cfg := (oi_cfg orc0)\<lparr>oc_providers := [(''a'', \<lparr>sc_name = ''a'', sc_api = slow_source,
       sc_websocket = zero_websocket_config, sc_type = ConfigType\<rparr>)]\<rparr>\<rparr>"

definition sidecar1 :: "(unit, unit) oracle_impl" where
  "sidecar1 = snd (UpdateMarketMap [(''BTC/USD'', b_market)] (snd (StartOracle 0 sidecar0)))"

lemma sidecar1_reached: "sidecar_reach sidecar1"
proof -
  have "new_sidecar sidecar0" by (simp add: new_sidecar_def sidecar0_def orc0_def MarketMap_ok_iff)
  moreover have "sidecar_step sidecar0 (snd (StartOracle 0 sidecar0))"
    by (rule sidecar_step.start) (simp_all add: sidecar0_def)
  moreover have "sidecar_step (snd (StartOracle 0 sidecar0)) sidecar1"
    unfolding sidecar1_def by (rule sidecar_step.update) (simp add: gm_wf_def)
  ultimately show ?thesis by (meson sidecar_reach.intros)
qed

theorem reachable_oracle_consistent_witness:
  "\<exists>st. gm_get (oi_price_providers sidecar1) ''a'' = Some st \<and> oi_market_map sidecar1 = [(''BTC/USD'', b_market)] \<and>
     oi_launched sidecar1 = [''a''] \<and> pt_off_chain_ticker ` set (GetIDs (ps_provider st)) = wanted ''a'' [(''BTC/USD'', b_market)]"
proof -
  have "map fst (oi_price_providers sidecar1) = [''a'']" by code_simp
  then obtain st where st: "gm_get (oi_price_providers sidecar1) ''a'' = Some st"
    by (cases "oi_price_providers sidecar1") (auto simp: gm_get_def)
  have "map fst (oi_market_map sidecar1) = [''BTC/USD'']" "oi_launched sidecar1 = [''a'']" by code_simp+
  moreover have "oi_market_map sidecar1 = [(''BTC/USD'', b_market)]" by code_simp
  ultimately show ?thesis
    using reachable_oracle_consistent [OF sidecar1_reached] st by auto
qed

end
