(* ===== verification/Price_Service.thy ===== *)
theory Price_Service
  imports Sidecar
begin

text \<open>
  The way of the prices from the sidecar to the application: the server of the sidecar
  (\<open>service/servers/oracle\<close>), which prints them as integers, and the clients of the application
  (\<open>service/clients/oracle\<close>): one that asks the server, the price daemon that asks in the background and
  keeps the last response, and one that does nothing. gRPC is an argument: what a call returns. Metrics,
  logs and the HTTP gateway are left out.
\<close>

section \<open>Printing integers\<close>

text \<open>\<open>(*big.Int).String\<close>; a nil pointer prints as \<open><nil>\<close>.\<close>

function nat_digits :: "int \<Rightarrow> string" where
  "nat_digits n = (if n < 10 then [char_of (48 + n)] else nat_digits (n div 10) @ [char_of (48 + n mod 10)])"
  by pat_completeness auto
termination
  by (relation "measure nat") auto

declare nat_digits.simps [simp del]

definition Int_String :: "int option \<Rightarrow> string" where
  "Int_String x = (case x of
     None \<Rightarrow> ''<nil>''
   | Some n \<Rightarrow> if n < 0 then CHR ''-'' # nat_digits (- n) else nat_digits n)"

section \<open>The server\<close>

text \<open>\<open>price.Int(nil)\<close> is nil for an infinity; a nil price panics.\<close>

fun ToReqPrices :: "prices \<Rightarrow> (string \<times> string) list res" where
  "ToReqPrices [] = Inr []"
| "ToReqPrices ((cp, price) # prices) =
     (case price of
        None \<Rightarrow> Inl (Panic ''nil pointer dereference'')
      | Some p \<Rightarrow> bind_res (ToReqPrices prices) (\<lambda>rest. Inr ((cp, Int_String (bf_Int p)) # rest)))"

record query_prices_response =
  qr_prices :: "(string, string) gomap"
  qr_timestamp :: "int option"
  qr_version :: string

definition ErrNilRequest :: go_error where "ErrNilRequest = Errorf ''request cannot be nil''"
definition ErrOracleNotRunning :: go_error where "ErrOracleNotRunning = Errorf ''oracle is not running''"

text \<open>The prices and the time are read one after the other, without a lock over both: the oracle may tick
  in between. A goroutine prints the prices, so that a panic of it would end the sidecar. A request whose
  context is done may be answered by the error instead.\<close>

definition server_Prices ::
    "string \<Rightarrow> unit option \<Rightarrow> bool \<Rightarrow> ('h, 'm) oracle_impl \<Rightarrow> ('h, 'm) oracle_impl \<Rightarrow> query_prices_response option res" where
  "server_Prices build req cancelled orc orc_later =
     (if req = None then Inl ErrNilRequest
      else if \<not> oracle_IsRunning orc then Inl ErrOracleNotRunning
      else
        bind_res (ToReqPrices (oracle_GetPrices orc)) (\<lambda>prices.
        if cancelled then Inl (Errorf ''context canceled'')
        else Inr (Some \<lparr>qr_prices = prices, qr_timestamp = GetLastSyncTime orc_later, qr_version = build\<rparr>)))"

definition server_MarketMap :: "('h, 'm) oracle_impl \<Rightarrow> market_map res" where
  "server_MarketMap orc = Inr (oracle_GetMarketMap orc)"

definition server_Version :: "string \<Rightarrow> string res" where
  "server_Version build = Inr build"

section \<open>Clients\<close>

text \<open>The client with a connection, once it was started.\<close>

record grpc_client =
  gc_addr :: string
  gc_timeout :: int
  gc_connected :: bool

record price_daemon =
  pd_config :: app_config
  pd_client :: grpc_client
  pd_running :: bool
  pd_resp :: "query_prices_response option"
  pd_fetched_at :: int

datatype oracle_client = NoOpClient | GRPCClient grpc_client | Daemon price_daemon

definition NewClient :: "bool \<Rightarrow> string \<Rightarrow> int \<Rightarrow> bool \<Rightarrow> grpc_client res" where
  "NewClient logger addr timeout metrics =
     (if \<not> logger then Inl (Errorf ''logger cannot be nil'')
      else if \<not> metrics then Inl (Errorf ''metrics cannot be nil'')
      else if timeout \<le> 0 then Inl (Errorf ''timeout must be positive'')
      else Inr \<lparr>gc_addr = addr, gc_timeout = timeout, gc_connected = False\<rparr>)"

definition NewClientFromConfig :: "app_config \<Rightarrow> bool \<Rightarrow> bool \<Rightarrow> oracle_client res" where
  "NewClientFromConfig cfg logger metrics =
     bind_res (AppConfig_ValidateBasic cfg) (\<lambda>_.
     if \<not> cf_enabled cfg then Inr NoOpClient
     else if \<not> logger then Inl (Errorf ''logger cannot be nil'')
     else if \<not> metrics then Inl (Errorf ''metrics cannot be nil'')
     else bind_res (NewClient logger (cf_oracle_address cfg) (cf_client_timeout cfg) metrics) (\<lambda>c. Inr (GRPCClient c)))"

definition NewPriceDaemon :: "bool \<Rightarrow> app_config \<Rightarrow> grpc_client option \<Rightarrow> price_daemon res" where
  "NewPriceDaemon logger cfg client =
     (if \<not> logger then Inl (Errorf ''logger cannot be nil'')
      else bind_res (AppConfig_ValidateBasic cfg) (\<lambda>_.
        case client of
          None \<Rightarrow> Inl (Errorf ''oracle client cannot be nil'')
        | Some c \<Rightarrow> Inr \<lparr>pd_config = cfg, pd_client = c, pd_running = False, pd_resp = None, pd_fetched_at = 0\<rparr>))"

text \<open>For an enabled configuration the client is never the one that does nothing.\<close>

definition NewPriceDaemonClientFromConfig :: "app_config \<Rightarrow> bool \<Rightarrow> bool \<Rightarrow> oracle_client res" where
  "NewPriceDaemonClientFromConfig cfg logger metrics =
     (if \<not> cf_enabled cfg then Inr NoOpClient
      else bind_res (NewClientFromConfig cfg logger metrics) (\<lambda>client.
        bind_res (NewPriceDaemon logger cfg (case client of GRPCClient c \<Rightarrow> Some c | _ \<Rightarrow> None)) (\<lambda>d. Inr (Daemon d))))"

text \<open>\<open>Start\<close> of the client: dialling may fail, and the context may end before.\<close>

definition client_Start :: "unit res \<Rightarrow> (grpc_client, unit) comp" where
  "client_Start dial c =
     (case dial of
        Inl e \<Rightarrow> (Inl (wrap_err (Wrapf ''failed to dial oracle gRPC server'') e), c)
      | Inr _ \<Rightarrow> (Inr (), c\<lparr>gc_connected := True\<rparr>))"

definition client_Prices :: "(string \<Rightarrow> query_prices_response option res) \<Rightarrow> grpc_client \<Rightarrow> query_prices_response option res" where
  "client_Prices remote c =
     (if \<not> gc_connected c then Inl (Errorf ''oracle client not started'') else remote (gc_addr c))"

section \<open>The price daemon\<close>

definition Update_response :: "int \<Rightarrow> query_prices_response \<Rightarrow> price_daemon \<Rightarrow> price_daemon" where
  "Update_response now resp d = d\<lparr>pd_resp := Some resp, pd_fetched_at := now\<rparr>"

text \<open>A tick of the daemon: an error and a panic on a nil response are logged only.\<close>

definition daemon_fetchPrices ::
    "int \<Rightarrow> (string \<Rightarrow> query_prices_response option res) \<Rightarrow> price_daemon \<Rightarrow> price_daemon" where
  "daemon_fetchPrices now remote d =
     (case client_Prices remote (pd_client d) of
        Inl _ \<Rightarrow> d
      | Inr None \<Rightarrow> d
      | Inr (Some resp) \<Rightarrow> Update_response now resp d)"

text \<open>Stale when more than the time to live has passed since it was fetched.\<close>

definition daemon_Prices :: "int \<Rightarrow> price_daemon \<Rightarrow> query_prices_response option res" where
  "daemon_Prices now d =
     (case pd_resp d of
        None \<Rightarrow> Inl (Errorf ''no prices fetched by price daemon yet'')
      | Some latest \<Rightarrow>
          if cf_price_ttl (pd_config d) < now - pd_fetched_at d
            then Inl (Errorf ''latest prices from the price daemon are too stale'')
          else Inr (Some latest))"

definition daemon_Start :: "unit res \<Rightarrow> (price_daemon, unit) comp" where
  "daemon_Start dial d =
     (case client_Start dial (pd_client d) of
        (Inl e, c) \<Rightarrow> (Inl e, d\<lparr>pd_client := c\<rparr>)
      | (Inr _, c) \<Rightarrow> (Inr (), d\<lparr>pd_client := c, pd_running := True\<rparr>))"

text \<open>What any of the clients answers.\<close>

definition Prices_of :: "int \<Rightarrow> (string \<Rightarrow> query_prices_response option res) \<Rightarrow> oracle_client \<Rightarrow> query_prices_response option res" where
  "Prices_of now remote c =
     (case c of NoOpClient \<Rightarrow> Inr None | GRPCClient g \<Rightarrow> client_Prices remote g | Daemon d \<Rightarrow> daemon_Prices now d)"

end
