(* ===== verification/Price_Service_Properties.thy ===== *)
theory Price_Service_Properties
  imports Price_Service Sidecar_Reach Extension_Properties Index_Properties
begin

text \<open>
  Properties of the way of a price from the sidecar's median to the vote extension: printing and parsing
  are inverse, the printed integer is accurate, the price daemon serves what it fetched last for its time
  to live, and what becomes of prices that are no integers or that never change.
\<close>

section \<open>Printing and parsing\<close>

lemma decimal_value_snoc: "decimal_value (s @ [c]) = decimal_value s * 10 + (of_char c - 48)"
  by (simp add: decimal_value_def)

lemma digit_char:
  assumes "0 \<le> n" "n < 10"
  shows "of_char (char_of (48 + n) :: char) = (48 + n :: int)" "decimal_digit (char_of (48 + n))"
proof -
  have "(of_char (char_of (48 + n) :: char) :: int) = (48 + n) mod 256" by (rule of_char_of)
  also have "\<dots> = 48 + n" using assms by (simp add: mod_pos_pos_trivial)
  finally show val: "of_char (char_of (48 + n) :: char) = (48 + n :: int)" .
  have "int (of_char (char_of (48 + n) :: char)) = 48 + n" unfolding of_nat_of_char by (rule val)
  then have "(of_char (char_of (48 + n) :: char) :: nat) = nat (48 + n)" by linarith
  then show "decimal_digit (char_of (48 + n))" using assms by (simp add: decimal_digit_def less_eq_char_def le_nat_iff nat_le_iff)
qed

lemma nat_digits_value:
  "0 \<le> n \<Longrightarrow> nat_digits n \<noteq> [] \<and> list_all decimal_digit (nat_digits n) \<and> decimal_value (nat_digits n) = n"
proof (induction n rule: nat_digits.induct)
  case (1 n)
  show ?case
  proof (cases "n < 10")
    case True
    with 1(2) digit_char [of n] show ?thesis
      by (simp add: nat_digits.simps [of n] decimal_value_def)
  next
    case False
    with 1 digit_char [of "n mod 10"] show ?thesis
      by (simp add: nat_digits.simps [of n] decimal_value_snoc)
  qed
qed

text \<open>The application parses every integer price as the sidecar printed it, of either sign, and rejects
  the text of a price that has no integer.\<close>

theorem printed_price_parses:
  "SetString10 (Int_String x) = x"
proof (cases x)
  case None
  then show ?thesis by simp code_simp
next
  case (Some n)
  have sign: "hd (nat_digits m) \<noteq> CHR ''-'' \<and> hd (nat_digits m) \<noteq> CHR ''+''" if "0 \<le> m" for m
  proof -
    have "decimal_digit (hd (nat_digits m))"
      using nat_digits_value [OF that] by (cases "nat_digits m") auto
    then show ?thesis by (auto simp: decimal_digit_def less_eq_char_def)
  qed
  show ?thesis
  proof (cases "n < 0")
    case True
    then show ?thesis using nat_digits_value [of "- n"] by (simp add: Some Int_String_def SetString10_def)
  next
    case False
    then show ?thesis using nat_digits_value [of n] sign [of n] by (simp add: Some Int_String_def SetString10_def)
  qed
qed

theorem printed_price_parses_witness:
  "SetString10 ''-120'' = Some (-120) \<and> SetString10 ''<nil>'' = None"
proof -
  have "Int_String (Some (-120)) = ''-120''" "Int_String None = ''<nil>''" by code_simp+
  with printed_price_parses [of "Some (-120)"] printed_price_parses [of None] show ?thesis by simp
qed

section \<open>Accuracy\<close>

lemma ToReqPrices_ok:
  "\<forall>v \<in> snd ` set prices. v \<noteq> None \<Longrightarrow>
   ToReqPrices prices = Inr (map (\<lambda>(t, v). (t, Int_String (bf_Int (the v)))) prices)"
  by (induction prices rule: ToReqPrices.induct) (auto split: option.splits)

lemma req_get: "gm_get (map (\<lambda>(t, v). (t, f v)) prices) t = map_option f (gm_get prices t)"
  by (simp add: gm_get_map_of map_of_map)

lemma aggregate_markets_values:
  "aggregate_markets a mkts (i, s) = Inr (i', s') \<Longrightarrow> \<forall>v \<in> snd ` set s. v \<noteq> None \<Longrightarrow> \<forall>v \<in> snd ` set s'. v \<noteq> None"
proof (induction mkts arbitrary: i s)
  case (Cons tm mkts)
  obtain t m where tm: "tm = (t, m)" by (cases tm)
  obtain r where r: "aggregate_market a m = Inr r"
    using Cons.prems(1) by (cases "aggregate_market a m") (simp_all add: tm)
  show ?case
  proof (cases r)
    case None
    with Cons r show ?thesis by (simp add: tm)
  next
    case (Some xy)
    then obtain x y where "r = Some (x, y)" by (cases xy) simp
    with Cons.prems r Cons.IH gm_set_values [OF Cons.prems(2), of "Some y"] show ?thesis
      by (simp add: tm)
  qed
qed simp

lemma AggregatePrices_values:
  "AggregatePrices a = (Inr (), b) \<Longrightarrow> \<forall>v \<in> snd ` set (ia_GetPrices b). v \<noteq> None"
  using aggregate_markets_values [of a "ia_cfg a" "[]" "[]"]
  by (fastforce simp: AggregatePrices_def ia_GetPrices_def split: sum.splits prod.splits)

text \<open>A tick that succeeds: what the server answers then.\<close>

lemma tick_served:
  assumes "providers_named orc" "keyed (ia_cfg (oi_aggregator orc))" "oi_running orc"
    and ok: "\<forall>(_, m) \<in> set (ia_cfg (oi_aggregator orc)).
      is_ok (aggregate_market (collect_provider_prices now orc (Reset (oi_aggregator orc))) m)"
  defines "orc' \<equiv> fetchAllPrices now orc"
  shows "\<exists>prices. server_Prices build (Some ()) False orc' orc' =
      Inr (Some \<lparr>qr_prices = prices, qr_timestamp = Some now, qr_version = build\<rparr>) \<and>
    (\<forall>t. gm_get prices t = map_option (\<lambda>x. Int_String (bf_Int (snd x)))
       (index_of (collect_provider_prices now orc (Reset (oi_aggregator orc))) (gm_get (ia_cfg (oi_aggregator orc)) t)))"
proof -
  let ?a = "collect_provider_prices now orc (Reset (oi_aggregator orc))"
  note cfg = collect_publishes_nothing [OF assms(1), of now "oi_aggregator orc"]
  have "is_ok (fst (AggregatePrices ?a))" using ok unfolding AggregatePrices_ok cfg .
  then obtain b where b: "AggregatePrices ?a = (Inr (), b)" by (cases "AggregatePrices ?a") (auto simp: is_ok_iff)
  have keyed: "keyed (ia_cfg ?a)" using assms(2) by (simp add: cfg)
  have prices: "oracle_GetPrices orc' = ia_GetPrices b" "GetLastSyncTime orc' = Some now" "oracle_IsRunning orc'"
    using assms(3) by (simp_all add: orc'_def fetchAllPrices_def b oracle_GetPrices_def GetLastSyncTime_def oracle_IsRunning_def)
  have get: "gm_get (ia_GetPrices b) t = map_option (Some \<circ> snd) (index_of ?a (gm_get (ia_cfg (oi_aggregator orc)) t))" for t
    using AggregatePrices_get(2) [OF keyed b] by (simp add: ia_GetPrices_def cfg)
  show ?thesis
    by (simp add: server_Prices_def prices ToReqPrices_ok [OF AggregatePrices_values [OF b]]
        req_get [of "\<lambda>v. Int_String (bf_Int (the v))"] get option.map_comp comp_def)
qed

text \<open>(C9) From the providers to the application: when the collected prices are positive and bounded, after a
  tick the server answers with the time of the tick, and for every enabled market with enough prices
  with a decimal number that differs from the median of the converted prices times ten to the market's
  decimals by at most one and one part in two to the precision of the median.\<close>

theorem served_price_accurate:
  assumes "providers_named orc" "oi_running orc"
    and ready: "round_ready K (collect_provider_prices now orc (Reset (oi_aggregator orc)))"
    and m: "gm_get (ia_cfg (oi_aggregator orc)) t = Some m"
      "has_quorum (collect_provider_prices now orc (Reset (oi_aggregator orc))) m"
  shows "\<exists>resp p n. server_Prices build (Some ()) False (fetchAllPrices now orc) (fetchAllPrices now orc) = Inr (Some resp) \<and>
    qr_timestamp resp = Some now \<and>
    CalculateMedian (adjusted (collect_provider_prices now orc (Reset (oi_aggregator orc))) (mk_provider_configs m)) = Inr (Some p) \<and>
    0 < fval p \<and> gm_get (qr_prices resp) t = Some (Int_String (Some n)) \<and> 0 \<le> n \<and>
    \<bar>of_int n - fval p * of_int (exp10 (sint (tk_decimals (mk_ticker m))))\<bar> \<le>
      1 + fval p * of_int (exp10 (sint (tk_decimals (mk_ticker m)))) / 2 ^ bf_prec p"
proof -
  let ?a = "collect_provider_prices now orc (Reset (oi_aggregator orc))"
  let ?d = "exp10 (sint (tk_decimals (mk_ticker m)))"
  note cfg = collect_publishes_nothing [OF assms(1), of now "oi_aggregator orc"]
  have keyed: "keyed (ia_cfg (oi_aggregator orc))"
    using ready valid_keyed [of "ia_cfg ?a"] by (simp add: round_ready_def cfg)
  have each: "is_ok (aggregate_market ?a m)" if "(t, m) \<in> set (ia_cfg (oi_aggregator orc))" for t m
    using aggregate_market_priced [OF ready, of t m] that by (auto simp: cfg split: if_splits)
  obtain prices where served: "server_Prices build (Some ()) False (fetchAllPrices now orc) (fetchAllPrices now orc) =
      Inr (Some \<lparr>qr_prices = prices, qr_timestamp = Some now, qr_version = build\<rparr>)"
    and get: "\<And>t. gm_get prices t = map_option (\<lambda>x. Int_String (bf_Int (snd x))) (index_of ?a (gm_get (ia_cfg (oi_aggregator orc)) t))"
    using tick_served [OF assms(1) keyed assms(2)] each by blast
  have "(t, m) \<in> set (ia_cfg ?a)" using gm_get_mem [OF m(1)] by (simp add: cfg)
  from aggregate_market_priced [OF ready this] m(2) obtain p s where
    ps: "aggregate_market ?a m = Inr (Some (p, s))" "CalculateMedian (adjusted ?a (mk_provider_configs m)) = Inr (Some p)"
    "priced (2 * K + 8) p" "priced (2 * K + 130) s" "fval s = rnd (bf_prec p) (fval p * of_int ?d)" by auto
  define n where "n = \<lfloor>fval s\<rfloor>"
  have s: "bf_val s = BFin (fval s)" "0 < fval s" using pricedD(1,2) [OF ps(4)] .
  have p: "0 < fval p" using pricedD(2) [OF ps(3)] .
  have "bf_Int s = Some n" using s(2) by (subst bf_Int_def, subst s(1)) (simp add: n_def)
  then have "gm_get prices t = Some (Int_String (Some n))" using get [of t] m(1) ps(1) by (simp add: index_of_def)
  moreover have "0 \<le> n" using s(2) by (simp add: n_def)
  moreover have "\<bar>of_int n - fval p * of_int ?d\<bar> \<le> 1 + fval p * of_int ?d / 2 ^ bf_prec p"
  proof -
    have "0 < ?d" by (simp add: exp10_def)
    then have "0 < fval p * of_int ?d" using p by simp
    from rnd_relative [OF this, of "bf_prec p"] have "\<bar>fval s - fval p * of_int ?d\<bar> \<le> fval p * of_int ?d / 2 ^ bf_prec p"
      unfolding ps(5) .
    moreover have "\<bar>of_int n - fval s\<bar> \<le> 1" unfolding n_def by linarith
    ultimately show ?thesis by linarith
  qed
  ultimately show ?thesis using served ps(2) p by auto
qed

definition orc2 :: "(unit, unit) oracle_impl" where
  "orc2 = orc1\<lparr>oi_running := True\<rparr>"

lemma orc2_collected: "collect_provider_prices 1000 orc2 (Reset (oi_aggregator orc2)) =
    \<lparr>ia_cfg = [(''BTC/USD'', b_market)], ia_index_prices = [], ia_scaled_prices = [],
     ia_provider_prices = [(''a'', [(''b'', Some (bf_SetInt 100))])]\<rparr>"
  by code_simp

lemma orc2_ready: "round_ready 10 (collect_provider_prices 1000 orc2 (Reset (oi_aggregator orc2)))"
proof -
  have "is_ok (MarketMap_ValidateBasic [(''BTC/USD'', b_market)])" by code_simp
  moreover have "priced 10 (bf_SetInt 100)" by (rule SetInt_priced; simp)
  ultimately show ?thesis
    unfolding orc2_collected
    by (auto simp: round_ready_def gm_wf_def provided_within_def prices_within_def gm_get_def b_market_def split: if_splits)
qed

theorem served_price_accurate_witness:
  "\<exists>resp n. server_Prices ''v1'' (Some ()) False (fetchAllPrices 1000 orc2) (fetchAllPrices 1000 orc2) = Inr (Some resp) \<and>
     gm_get (qr_prices resp) ''BTC/USD'' = Some (Int_String (Some n)) \<and> \<bar>n - 10000\<bar> \<le> 1"
proof -
  have named: "providers_named orc2" using orc1_named(1) by (simp add: orc2_def providers_named_def)
  have market: "gm_get (ia_cfg (oi_aggregator orc2)) ''BTC/USD'' = Some b_market"
    by (simp add: orc2_def orc1_named gm_get_def)
  have adjusted: "adjusted (collect_provider_prices 1000 orc2 (Reset (oi_aggregator orc2))) (mk_provider_configs b_market) = [bf_SetInt 100]"
    by code_simp
  have median: "CalculateMedian [bf_SetInt 100] = Inr (Some (bf_SetInt 100))" by code_simp
  have quorum: "has_quorum (collect_provider_prices 1000 orc2 (Reset (oi_aggregator orc2))) b_market"
    unfolding has_quorum_def adjusted by (simp add: b_market_def NewTicker_def)
  have decimals: "exp10 (sint (tk_decimals (mk_ticker b_market))) = 100" by code_simp
  have price: "fval (bf_SetInt 100) = 100" "bf_prec (bf_SetInt 100) = 64" by code_simp+
  from served_price_accurate [OF named _ orc2_ready market quorum, of "''v1''"] obtain resp n where
    "server_Prices ''v1'' (Some ()) False (fetchAllPrices 1000 orc2) (fetchAllPrices 1000 orc2) = Inr (Some resp)"
    "gm_get (qr_prices resp) ''BTC/USD'' = Some (Int_String (Some n))"
    "\<bar>rat_of_int n - 100 * 100\<bar> \<le> 1 + 100 * 100 / 2 ^ 64"
    unfolding adjusted median decimals by (auto simp: orc2_def price)
  moreover from this(3) have "\<bar>rat_of_int n - 10000\<bar> < 2" by (simp add: field_simps)
  then have "\<bar>n - 10000\<bar> \<le> 1" by linarith
  ultimately show ?thesis by blast
qed

section \<open>The price daemon\<close>

text \<open>Ticks of the daemon, oldest first: the time of each and what the server answers then.\<close>

abbreviation daemon_run ::
    "(int \<times> (string \<Rightarrow> query_prices_response option res)) list \<Rightarrow> price_daemon \<Rightarrow> price_daemon" where
  "daemon_run ticks d \<equiv> fold (\<lambda>(now, remote). daemon_fetchPrices now remote) ticks d"

definition fetched :: "grpc_client \<Rightarrow> int \<times> (string \<Rightarrow> query_prices_response option res) \<Rightarrow> (int \<times> query_prices_response) option" where
  "fetched c tick = (case client_Prices (snd tick) c of Inr (Some r) \<Rightarrow> Some (fst tick, r) | _ \<Rightarrow> None)"

lemma daemon_fetch_keeps:
  "pd_client (daemon_fetchPrices now remote d) = pd_client d" "pd_config (daemon_fetchPrices now remote d) = pd_config d"
  by (simp_all add: daemon_fetchPrices_def Update_response_def split: sum.splits option.splits)

lemma daemon_fetch_eq:
  "daemon_fetchPrices now remote d = (case fetched (pd_client d) (now, remote) of
     None \<Rightarrow> d | Some (t, r) \<Rightarrow> Update_response t r d)"
  by (simp add: daemon_fetchPrices_def fetched_def split: sum.splits option.splits)

lemma daemon_run_keeps: "pd_client (daemon_run ticks d) = pd_client d" "pd_config (daemon_run ticks d) = pd_config d"
  by (induction ticks arbitrary: d) (auto simp: daemon_fetch_keeps)

lemma daemon_run_last:
  "(pd_resp (daemon_run ticks d), pd_fetched_at (daemon_run ticks d)) =
     (case List.map_filter (fetched (pd_client d)) ticks of
        [] \<Rightarrow> (pd_resp d, pd_fetched_at d)
      | xs \<Rightarrow> (Some (snd (last xs)), fst (last xs)))"
proof (induction ticks rule: rev_induct)
  case Nil
  then show ?case by (simp add: map_filter_simps)
next
  case (snoc x xs)
  have filter: "List.map_filter (fetched (pd_client d)) (xs @ [x]) =
      List.map_filter (fetched (pd_client d)) xs @ (case fetched (pd_client d) x of None \<Rightarrow> [] | Some y \<Rightarrow> [y])"
    by (simp add: List.map_filter_def split: option.splits)
  have step: "daemon_run (xs @ [x]) d = (case fetched (pd_client d) x of
      None \<Rightarrow> daemon_run xs d | Some (t, r) \<Rightarrow> Update_response t r (daemon_run xs d))"
    by (cases x) (simp add: daemon_fetch_eq daemon_run_keeps)
  show ?case
    unfolding step filter using snoc.IH
    by (cases "fetched (pd_client d) x") (auto simp: Update_response_def split: list.splits)
qed

text \<open>(C37) The daemon answers with the response of the last tick whose fetch succeeded, unless more than
  the time to live has passed since that fetch, and with an error before the first success; the failures
  after it do not matter. The age of the prices themselves does not matter either.\<close>

theorem daemon_answers:
  assumes "pd_resp d = None"
  shows "daemon_Prices now (daemon_run ticks d) =
    (case List.map_filter (fetched (pd_client d)) ticks of
       [] \<Rightarrow> Inl (Errorf ''no prices fetched by price daemon yet'')
     | xs \<Rightarrow> if now - fst (last xs) \<le> cf_price_ttl (pd_config d) then Inr (Some (snd (last xs)))
         else Inl (Errorf ''latest prices from the price daemon are too stale''))"
  using daemon_run_last [of ticks d] assms
  by (auto simp: daemon_Prices_def daemon_run_keeps split: list.splits option.splits)

text \<open>Prices the sidecar last computed in the year one are answered as long as they can be fetched.\<close>

theorem daemon_answers_witness:
  "let d = \<lparr>pd_config = NewDefaultAppConfig, pd_client = \<lparr>gc_addr = ''localhost:8080'', gc_timeout = second, gc_connected = True\<rparr>,
         pd_running = True, pd_resp = None, pd_fetched_at = 0\<rparr>;
       old = \<lparr>qr_prices = [(''BTC/USD'', ''10000'')], qr_timestamp = None, qr_version = ''v1''\<rparr>;
       ticks = [(60 * second, \<lambda>_. Inr (Some old)), (62 * second, \<lambda>_. Inl (Errorf ''unavailable''))] in
   daemon_Prices (62 * second) (daemon_run ticks d) = Inr (Some old) \<and>
   daemon_Prices (71 * second) (daemon_run ticks d) = Inl (Errorf ''latest prices from the price daemon are too stale'') \<and>
   daemon_Prices 0 (daemon_run [] d) = Inl (Errorf ''no prices fetched by price daemon yet'')"
  unfolding Let_def
  by (subst (1 2 3) daemon_answers) (simp_all add: fetched_def client_Prices_def map_filter_simps NewDefaultAppConfig_def second_def)

end
