(* ===== verification/Vote_Codec.thy ===== *)
theory Vote_Codec
  imports Vote_Aggregator Big_Float
begin

unbundle bit_operations_syntax

text \<open>
  \<open>abci/ve/types/vote_extensions.pb.go\<close>: the protobuf encoding of a vote extension, which is what the default
  codec of \<open>abci/strategies/codec\<close> calls. The encoder writes a buffer of the computed size from its end;
  the decoder walks the bytes with an index. Indexes are natural numbers, sums of \<open>int\<close> that can wrap
  are \<open>index_add\<close>.
\<close>

section \<open>Integers and errors\<close>

text \<open>The sum of two non-negative values of Go's 64-bit \<open>int\<close>: nothing when it wraps, and then it is negative.\<close>

definition index_add :: "nat \<Rightarrow> nat \<Rightarrow> nat option" where
  "index_add i n = (if i + n < 2 ^ 63 then Some (i + n) else None)"

lemma index_add_wraps:
  assumes "i < 2 ^ 63" "n < 2 ^ 63"
  shows "case index_add i n of
      None \<Rightarrow> signed_take_bit 63 (int i + int n) < 0
    | Some j \<Rightarrow> signed_take_bit 63 (int i + int n) = int j"
proof -
  have "int i < 2 ^ 63" "int n < 2 ^ 63" using assms by simp_all
  note small = this
  show ?thesis
  proof (cases "int i + int n < 2 ^ 63")
    case True
    then show ?thesis by (simp add: index_add_def signed_take_bit_int_eq_self)
  next
    case False
    have "signed_take_bit 63 (int i + int n) = signed_take_bit 63 (int i + int n - 2 ^ 64)"
      by (simp add: signed_take_bit_eq_iff_take_bit_eq take_bit_eq_mod)
    also have "\<dots> = int i + int n - 2 ^ 64" using small False by (intro signed_take_bit_int_eq_self) simp_all
    finally show ?thesis using small False by (simp add: index_add_def)
  qed
qed

definition io_ErrUnexpectedEOF :: go_error where "io_ErrUnexpectedEOF = Errorf ''unexpected EOF''"
definition ErrInvalidLengthVoteExtensions :: go_error where
  "ErrInvalidLengthVoteExtensions = Errorf ''proto: negative length found during unmarshaling''"
definition ErrIntOverflowVoteExtensions :: go_error where
  "ErrIntOverflowVoteExtensions = Errorf ''proto: integer overflow''"
definition ErrUnexpectedEndOfGroupVoteExtensions :: go_error where
  "ErrUnexpectedEndOfGroupVoteExtensions = Errorf ''proto: unexpected end of group''"

lemma bind_res_cong [fundef_cong]:
  "r = r' \<Longrightarrow> (\<And>a. r' = Inr a \<Longrightarrow> f a = g a) \<Longrightarrow> bind_res r f = bind_res r' g"
  by (cases r') simp_all

section \<open>The encoder\<close>

definition sovVoteExtensions :: "u64 \<Rightarrow> nat" where
  "sovVoteExtensions x = (BitLen (uint (x OR 1)) + 6) div 7"

text \<open>\<open>Size\<close> of an entry's body, of an entry and of the message.\<close>

definition map_entry_size :: "u64 \<Rightarrow> bytes \<Rightarrow> nat" where
  "map_entry_size k v =
     1 + sovVoteExtensions k + (if v = [] then 0 else 1 + length v + sovVoteExtensions (of_nat (length v)))"

fun ve_Size :: "vote_extension \<Rightarrow> nat" where
  "ve_Size [] = 0"
| "ve_Size ((k, v) # ve) =
     map_entry_size k v + 1 + sovVoteExtensions (of_nat (map_entry_size k v)) + ve_Size ve"

definition set_byte :: "bytes \<Rightarrow> int \<Rightarrow> 8 word \<Rightarrow> bytes res" where
  "set_byte buf i b =
     (if 0 \<le> i \<and> i < int (length buf) then Inr (buf[nat i := b]) else Inl (Panic ''index out of range''))"

text \<open>\<open>copy(buf[i:], v)\<close>.\<close>

definition copy_at :: "bytes \<Rightarrow> int \<Rightarrow> bytes \<Rightarrow> bytes res" where
  "copy_at buf i v =
     (if i < 0 \<or> int (length buf) < i then Inl (Panic ''slice bounds out of range'')
      else Inr (take (length buf) (take (nat i) buf @ v @ drop (nat i + length v) buf)))"

lemma shorter_varint: "\<not> v < 2 ^ 7 \<Longrightarrow> unat (drop_bit 7 v :: u64) < unat v"
  by (auto simp: unat_drop_bit_eq drop_bit_eq_div word_less_nat_alt unat_div intro!: div_less_dividend)

function put_varint :: "bytes \<Rightarrow> int \<Rightarrow> u64 \<Rightarrow> bytes res" where
  "put_varint buf offset v =
     (if v < 2 ^ 7 then set_byte buf offset (ucast v)
      else bind_res (set_byte buf offset (ucast (v AND 0x7f OR 0x80))) (\<lambda>buf'.
           put_varint buf' (offset + 1) (drop_bit 7 v)))"
  by pat_completeness auto
termination
  by (relation "measure (\<lambda>(_, _, v). unat v)") (auto simp: shorter_varint)

declare put_varint.simps [simp del]

definition encodeVarintVoteExtensions :: "bytes \<Rightarrow> int \<Rightarrow> u64 \<Rightarrow> (bytes \<times> int) res" where
  "encodeVarintVoteExtensions buf offset v =
     (let base = offset - int (sovVoteExtensions v) in bind_res (put_varint buf base v) (\<lambda>buf'. Inr (buf', base)))"

text \<open>\<open>i--; dAtA[i] = b\<close>.\<close>

definition marshal_tag :: "8 word \<Rightarrow> bytes \<times> int \<Rightarrow> (bytes \<times> int) res" where
  "marshal_tag b = (\<lambda>(buf, i). bind_res (set_byte buf (i - 1) b) (\<lambda>buf'. Inr (buf', i - 1)))"

definition marshal_value :: "bytes \<Rightarrow> bytes \<Rightarrow> int \<Rightarrow> (bytes \<times> int) res" where
  "marshal_value v buf i =
     (if v = [] then Inr (buf, i)
      else
        bind_res (copy_at buf (i - int (length v)) v) (\<lambda>buf1.
        bind_res (encodeVarintVoteExtensions buf1 (i - int (length v)) (of_nat (length v))) (marshal_tag 0x12)))"

definition marshal_entry :: "u64 \<Rightarrow> bytes \<Rightarrow> bytes \<Rightarrow> int \<Rightarrow> (bytes \<times> int) res" where
  "marshal_entry k v buf baseI =
     bind_res (marshal_value v buf baseI) (\<lambda>(buf1, i1).
     bind_res (bind_res (encodeVarintVoteExtensions buf1 i1 k) (marshal_tag 0x8)) (\<lambda>(buf2, i2).
     bind_res (encodeVarintVoteExtensions buf2 i2 (word_of_int (baseI - i2))) (marshal_tag 0xa)))"

fun marshal_entries :: "vote_extension \<Rightarrow> bytes \<Rightarrow> int \<Rightarrow> (bytes \<times> int) res" where
  "marshal_entries [] buf i = Inr (buf, i)"
| "marshal_entries ((k, v) # ve) buf i = bind_res (marshal_entry k v buf i) (\<lambda>(buf', i'). marshal_entries ve buf' i')"

definition MarshalToSizedBuffer :: "vote_extension \<Rightarrow> bytes \<Rightarrow> (bytes \<times> int) res" where
  "MarshalToSizedBuffer ve buf =
     bind_res (marshal_entries ve buf (int (length buf))) (\<lambda>(buf', i). Inr (buf', int (length buf) - i))"

text \<open>No slice is longer than an \<open>int\<close> says: \<open>make\<close> panics.\<close>

definition ve_Marshal :: "vote_extension \<Rightarrow> bytes res" where
  "ve_Marshal ve =
     (let size = ve_Size ve in
      if 2 ^ 63 \<le> size then Inl (Panic ''makeslice: len out of range'')
      else bind_res (MarshalToSizedBuffer ve (replicate size 0)) (\<lambda>(buf, n). Inr (take (nat n) buf)))"

section \<open>The decoder\<close>

text \<open>The loop that reads a variable-length integer at an index, into bits that are already there.\<close>

function read_varint :: "bytes \<Rightarrow> nat \<Rightarrow> nat \<Rightarrow> u64 \<Rightarrow> (u64 \<times> nat) res" where
  "read_varint bs i shift acc =
     (if 64 \<le> shift then Inl ErrIntOverflowVoteExtensions
      else if length bs \<le> i then Inl io_ErrUnexpectedEOF
      else
        let b = bs ! i; acc' = acc OR push_bit shift (ucast (b AND 0x7F)) in
        if b < 0x80 then Inr (acc', i + 1) else read_varint bs (i + 1) (shift + 7) acc')"
  by pat_completeness auto
termination
  by (relation "measure (\<lambda>(_, _, shift, _). 64 - shift)") auto

declare read_varint.simps [simp del]

lemma read_varint_progress:
  "read_varint bs i shift acc = Inr (w, j) \<Longrightarrow> i < j \<and> j \<le> length bs"
proof (induction bs i shift acc rule: read_varint.induct)
  case (1 bs i shift acc)
  then show ?case
    by (subst (asm) (2) read_varint.simps) (fastforce simp: Let_def split: if_splits)
qed

text \<open>\<open>int32(wire >> 3)\<close>.\<close>

definition field_number :: "u64 \<Rightarrow> int" where
  "field_number wire = sint (ucast (drop_bit 3 wire) :: 32 word)"

text \<open>What \<open>skipVoteExtensions\<close> does with one field after its tag: the new index and depth of groups.\<close>

definition skip_field :: "bytes \<Rightarrow> u64 \<Rightarrow> nat \<Rightarrow> nat \<Rightarrow> (nat \<times> nat) res" where
  "skip_field bs wire i depth =
     (let wireType = wire AND 0x7 in
      if wireType = 0 then bind_res (read_varint bs i 0 0) (\<lambda>(_, j). Inr (j, depth))
      else if wireType = 1 then Inr (i + 8, depth)
      else if wireType = 2 then
        bind_res (read_varint bs i 0 0) (\<lambda>(len, j).
          if sint len < 0 then Inl ErrInvalidLengthVoteExtensions
          else case index_add j (unat len) of None \<Rightarrow> Inl ErrInvalidLengthVoteExtensions | Some k \<Rightarrow> Inr (k, depth))
      else if wireType = 3 then Inr (i, depth + 1)
      else if wireType = 4 then
        (if depth = 0 then Inl ErrUnexpectedEndOfGroupVoteExtensions else Inr (i, depth - 1))
      else if wireType = 5 then Inr (i + 4, depth)
      else Inl (Errorf ''proto: illegal wireType''))"

lemma index_add_progress: "index_add i n = Some j \<Longrightarrow> i \<le> j"
  by (auto simp: index_add_def split: if_splits)

lemma skip_field_progress: "skip_field bs wire i depth = Inr (j, d) \<Longrightarrow> i \<le> j"
  by (auto simp: skip_field_def Let_def bind_res_Inr_iff split: if_splits option.splits
      dest!: read_varint_progress index_add_progress)

function skip_loop :: "bytes \<Rightarrow> nat \<Rightarrow> nat \<Rightarrow> nat res" where
  "skip_loop bs i depth =
     (if length bs \<le> i then Inl io_ErrUnexpectedEOF
      else
        bind_res (bind_res (read_varint bs i 0 0) (\<lambda>(wire, j). skip_field bs wire j depth)) (\<lambda>(j, depth').
        if depth' = 0 then Inr j else skip_loop bs j depth'))"
  by pat_completeness auto
termination
  by (relation "measure (\<lambda>(bs, i, _). length bs - i)")
    (auto simp: bind_res_Inr_iff dest!: read_varint_progress skip_field_progress)

declare skip_loop.simps [simp del]

definition skipVoteExtensions :: "bytes \<Rightarrow> nat res" where
  "skipVoteExtensions bs = skip_loop bs 0 0"

lemma skip_loop_progress: "skip_loop bs i depth = Inr j \<Longrightarrow> i < j"
proof (induction bs i depth rule: skip_loop.induct)
  case (1 bs i depth)
  then show ?case
    by (subst (asm) (2) skip_loop.simps)
      (fastforce simp: bind_res_Inr_iff split: if_splits dest: read_varint_progress skip_field_progress)
qed

text \<open>Skipping a field at an index, up to an end.\<close>

definition skip_at :: "bytes \<Rightarrow> nat \<Rightarrow> nat \<Rightarrow> nat res" where
  "skip_at bs fin i =
     bind_res (skipVoteExtensions (drop i bs)) (\<lambda>skippy.
       case index_add i skippy of
         None \<Rightarrow> Inl ErrInvalidLengthVoteExtensions
       | Some j \<Rightarrow> if fin < j then Inl io_ErrUnexpectedEOF else Inr j)"

lemma skip_at_progress: "skip_at bs fin i = Inr j \<Longrightarrow> i < j \<and> j \<le> fin"
  by (auto simp: skip_at_def skipVoteExtensions_def bind_res_Inr_iff index_add_def split: option.splits if_splits
      dest!: skip_loop_progress)

text \<open>A length and the end of what it measures, which is in the bytes.\<close>

definition read_length :: "bytes \<Rightarrow> nat \<Rightarrow> (nat \<times> nat) res" where
  "read_length bs i =
     bind_res (read_varint bs i 0 0) (\<lambda>(len, j).
       if sint len < 0 then Inl ErrInvalidLengthVoteExtensions
       else case index_add j (unat len) of
         None \<Rightarrow> Inl ErrInvalidLengthVoteExtensions
       | Some fin \<Rightarrow> if length bs < fin then Inl io_ErrUnexpectedEOF else Inr (j, fin))"

lemma read_length_progress: "read_length bs i = Inr (j, fin) \<Longrightarrow> i < j \<and> j \<le> fin \<and> fin \<le> length bs"
  by (auto simp: read_length_def bind_res_Inr_iff split: if_splits option.splits
      dest!: read_varint_progress index_add_progress)

text \<open>One field of an entry: a key adds its bits to those of a former key field.\<close>

definition entry_field :: "bytes \<Rightarrow> nat \<Rightarrow> nat \<times> u64 \<times> bytes \<Rightarrow> (nat \<times> u64 \<times> bytes) res" where
  "entry_field bs postIndex = (\<lambda>(i, mapkey, mapvalue).
     bind_res (read_varint bs i 0 0) (\<lambda>(wire, j).
       if field_number wire = 1 then
         bind_res (read_varint bs j 0 mapkey) (\<lambda>(mapkey', k). Inr (k, mapkey', mapvalue))
       else if field_number wire = 2 then
         bind_res (read_length bs j) (\<lambda>(k, fin). Inr (fin, mapkey, take (fin - k) (drop k bs)))
       else bind_res (skip_at bs postIndex i) (\<lambda>k. Inr (k, mapkey, mapvalue))))"

lemma entry_field_progress: "entry_field bs fin (i, k, v) = Inr (j, k', v') \<Longrightarrow> i < j"
  by (auto simp: entry_field_def bind_res_Inr_iff split: if_splits
      dest!: read_varint_progress read_length_progress skip_at_progress)

function entry_loop :: "bytes \<Rightarrow> nat \<Rightarrow> nat \<times> u64 \<times> bytes \<Rightarrow> (u64 \<times> bytes) res" where
  "entry_loop bs postIndex (i, mapkey, mapvalue) =
     (if postIndex \<le> i then Inr (mapkey, mapvalue)
      else bind_res (entry_field bs postIndex (i, mapkey, mapvalue)) (entry_loop bs postIndex))"
  by pat_completeness auto
termination
  by (relation "measure (\<lambda>(_, fin, i, _). fin - i)") (auto dest!: entry_field_progress)

declare entry_loop.simps [simp del]

text \<open>One round of the loop of \<open>Unmarshal\<close>: a field of the message.\<close>

definition unmarshal_field :: "bytes \<Rightarrow> nat \<times> vote_extension \<Rightarrow> (nat \<times> vote_extension) res" where
  "unmarshal_field bs = (\<lambda>(i, prices).
     bind_res (read_varint bs i 0 0) (\<lambda>(wire, j).
       if wire AND 0x7 = 4 then Inl (Errorf ''proto: OracleVoteExtension: wiretype end group for non-group'')
       else if field_number wire \<le> 0 then Inl (Errorf ''proto: OracleVoteExtension: illegal tag'')
       else if field_number wire = 1 then
         (if wire AND 0x7 \<noteq> 2 then Inl (Errorf ''proto: wrong wireType for field Prices'')
          else
            bind_res (read_length bs j) (\<lambda>(k, postIndex).
            bind_res (entry_loop bs postIndex (k, 0, [])) (\<lambda>(mapkey, mapvalue).
            Inr (postIndex, gm_set mapkey mapvalue prices))))
       else bind_res (skip_at bs (length bs) i) (\<lambda>k. Inr (k, prices))))"

lemma unmarshal_field_progress: "unmarshal_field bs (i, m) = Inr (j, n) \<Longrightarrow> i < j \<and> j \<le> length bs"
  by (auto simp: unmarshal_field_def bind_res_Inr_iff split: if_splits
      dest!: read_varint_progress read_length_progress skip_at_progress)

function unmarshal_loop :: "bytes \<Rightarrow> nat \<times> vote_extension \<Rightarrow> vote_extension res" where
  "unmarshal_loop bs (i, prices) =
     (if i < length bs then bind_res (unmarshal_field bs (i, prices)) (unmarshal_loop bs)
      else if length bs < i then Inl io_ErrUnexpectedEOF
      else Inr prices)"
  by pat_completeness auto
termination
  by (relation "measure (\<lambda>(bs, i, _). length bs - i)") (auto dest!: unmarshal_field_progress)

declare unmarshal_loop.simps [simp del]

text \<open>\<open>Unmarshal\<close> adds to the prices the message has.\<close>

definition ve_Unmarshal :: "vote_extension \<Rightarrow> bytes \<Rightarrow> vote_extension res" where
  "ve_Unmarshal prices bs = unmarshal_loop bs (0, prices)"

text \<open>The default codec with its encoding; \<open>Decode\<close> starts from an empty message.\<close>

definition protobuf_codec :: ve_codec where
  "protobuf_codec = DefaultVoteExtensionCodec ve_Marshal (ve_Unmarshal [])"

end
