(* ===== verification/Vote_Codec_Properties.thy ===== *)
theory Vote_Codec_Properties
  imports Vote_Codec Float_Facts Extension_Properties
begin

text \<open>
  The protobuf encoding of vote extensions: the encoder fills its buffer exactly, the decoder inverts it,
  the decoder's loop ends on every byte string, and what it does with a repeated key.
\<close>

section \<open>Variable-length integers\<close>

text \<open>The encoding as a list of bytes.\<close>

function varint :: "u64 \<Rightarrow> bytes" where
  "varint v = (if v < 2 ^ 7 then [ucast v] else ucast (v AND 0x7f OR 0x80) # varint (drop_bit 7 v))"
  by pat_completeness auto
termination
  by (relation "measure unat") (auto simp: shorter_varint)

declare varint.simps [simp del]

lemma BitLen_or_1: "0 < n \<Longrightarrow> BitLen (n OR 1) = BitLen n"
proof -
  assume n: "0 < n"
  have "(n OR 1) div 2 = n div 2" by (simp add: or_one_eq)
  moreover have "0 < n OR 1" using n by (simp add: or_one_eq)
  ultimately show ?thesis using n by (subst (1 2) BitLen.simps) simp
qed

lemma or_1_small: "0 \<le> n \<Longrightarrow> n < 2 * m \<Longrightarrow> 0 < n OR 1 \<and> n OR 1 < 2 * (m :: int)"
  unfolding or_one_eq by (cases "even n") (auto elim!: evenE oddE)

lemma BitLen_shift: "2 ^ k \<le> n \<Longrightarrow> BitLen n = k + BitLen (n div 2 ^ k)"
proof (induction k arbitrary: n)
  case (Suc k)
  have "(0::int) < 2 ^ Suc k" by (rule zero_less_power) simp
  then have pos: "0 < n" using Suc.prems by linarith
  have "2 ^ k \<le> n div 2" using zdiv_mono1 [OF Suc.prems, of 2] by simp
  with Suc.IH have "BitLen (n div 2) = k + BitLen (n div 2 div 2 ^ k)" by blast
  with pos show ?case by (subst BitLen.simps) (simp add: zdiv_zmult2_eq)
qed simp

lemma length_varint: "length (varint v) = sovVoteExtensions v"
proof (induction v rule: varint.induct)
  case (1 v)
  have or: "uint (v OR 1) = uint v OR 1" by (simp add: uint_or)
  show ?case
  proof (cases "v < 2 ^ 7")
    case True
    then have v: "uint v < 128" by (simp add: word_less_def)
    have bounds: "0 < uint v OR 1 \<and> uint v OR 1 < 2 * 64" using v by (intro or_1_small) simp_all
    then have pos: "0 < BitLen (uint v OR 1)" by (subst BitLen.simps) simp
    have "2 ^ (BitLen (uint v OR 1) - 1) < (2 ^ 7 :: int)" using BitLen_bounds [of "uint v OR 1"] bounds by simp
    then have "BitLen (uint v OR 1) - 1 < 7" by (subst (asm) power_strict_increasing_iff) simp_all
    with pos have "0 < BitLen (uint v OR 1)" "BitLen (uint v OR 1) \<le> 7" by simp_all
    then have "(BitLen (uint v OR 1) + 6) div 7 = 1" by linarith
    with True show ?thesis by (simp add: varint.simps [of v] sovVoteExtensions_def or)
  next
    case False
    then have v: "128 \<le> uint v" by (simp add: word_less_def)
    then have hi: "0 < uint v div 128" by linarith
    have "uint (drop_bit 7 v) = uint v div 128" by (simp add: drop_bit_eq_div uint_div)
    then have "uint (drop_bit 7 v OR 1) = uint v div 128 OR 1" by (simp add: uint_or)
    moreover have "BitLen (uint v OR 1) = 7 + BitLen (uint v div 128 OR 1)"
      using BitLen_shift [of 7 "uint v"] v hi by (simp add: BitLen_or_1)
    ultimately have "sovVoteExtensions v = Suc (sovVoteExtensions (drop_bit 7 v))"
      by (simp add: sovVoteExtensions_def or)
    with 1 False show ?thesis by (simp add: varint.simps [of v])
  qed
qed

lemma varint_not_Nil [simp]: "varint v \<noteq> []"
  by (subst varint.simps) simp

section \<open>The encoder\<close>

text \<open>Bytes written in front of an index.\<close>

definition write_back :: "bytes \<Rightarrow> nat \<Rightarrow> bytes \<Rightarrow> bytes" where
  "write_back buf i bs = take (i - length bs) buf @ bs @ drop i buf"

lemma length_write_back [simp]: "length bs \<le> i \<Longrightarrow> i \<le> length buf \<Longrightarrow> length (write_back buf i bs) = length buf"
  by (simp add: write_back_def)

lemma write_back_twice:
  assumes "length xs + length ys \<le> i" "i \<le> length buf"
  shows "write_back (write_back buf i xs) (i - length xs) ys = write_back buf i (ys @ xs)"
  using assms by (simp add: write_back_def add.commute)

lemma set_byte_back: "0 < i \<Longrightarrow> i \<le> length buf \<Longrightarrow> set_byte buf (int i - 1) b = Inr (write_back buf i [b])"
  by (auto simp: set_byte_def write_back_def upd_conv_take_nth_drop nat_diff_distrib)

lemma put_varint_eq:
  "off + length (varint v) \<le> length buf \<Longrightarrow>
   put_varint buf (int off) v = Inr (write_back buf (off + length (varint v)) (varint v))"
proof (induction v arbitrary: off buf rule: varint.induct)
  case (1 v)
  show ?case
  proof (cases "v < 2 ^ 7")
    case True
    with 1(2) show ?thesis
      by (simp add: put_varint.simps [of buf] varint.simps [of v] set_byte_def write_back_def upd_conv_take_nth_drop)
  next
    case False
    have v: "varint v = ucast (v AND 0x7f OR 0x80) # varint (drop_bit 7 v)" using False by (subst varint.simps) simp
    let ?b = "ucast (v AND 0x7f OR 0x80) :: 8 word"
    have "put_varint (buf[off := ?b]) (int (Suc off)) (drop_bit 7 v) =
        Inr (write_back (buf[off := ?b]) (Suc off + length (varint (drop_bit 7 v))) (varint (drop_bit 7 v)))"
      using 1(2) False by (intro 1(1)) (simp_all add: v)
    moreover have "put_varint buf (int off) v = put_varint (buf[off := ?b]) (int (Suc off)) (drop_bit 7 v)"
      using False 1(2) by (subst put_varint.simps) (simp add: set_byte_def v add.commute)
    ultimately show ?thesis using 1(2)
      by (simp add: v write_back_def take_Suc_conv_app_nth take_update_swap list_update_append)
  qed
qed

lemma encode_varint_back:
  assumes "length (varint v) \<le> i" "i \<le> length buf"
  shows "encodeVarintVoteExtensions buf (int i) v = Inr (write_back buf i (varint v), int (i - length (varint v)))"
  using put_varint_eq [of "i - length (varint v)" v buf] assms
  by (simp add: encodeVarintVoteExtensions_def length_varint [symmetric] of_nat_diff)

lemma marshal_tag_back:
  assumes "0 < i" "i \<le> length buf"
  shows "marshal_tag b (buf, int i) = Inr (write_back buf i [b], int (i - 1))"
  using set_byte_back [OF assms] assms by (simp add: marshal_tag_def of_nat_diff)

text \<open>The bytes of an entry.\<close>

definition value_bytes :: "bytes \<Rightarrow> bytes" where
  "value_bytes v = (if v = [] then [] else 0x12 # varint (of_nat (length v)) @ v)"

definition entry_body :: "u64 \<Rightarrow> bytes \<Rightarrow> bytes" where
  "entry_body k v = 0x8 # varint k @ value_bytes v"

definition entry_bytes :: "u64 \<times> bytes \<Rightarrow> bytes" where
  "entry_bytes = (\<lambda>(k, v). 0xa # varint (of_nat (length (entry_body k v))) @ entry_body k v)"

lemma length_entry_body: "length (entry_body k v) = map_entry_size k v"
  by (simp add: entry_body_def value_bytes_def map_entry_size_def length_varint)

lemma length_entry: "length (entry_bytes (k, v)) = map_entry_size k v + 1 + sovVoteExtensions (of_nat (map_entry_size k v))"
  by (simp add: entry_bytes_def length_entry_body length_varint)

lemma ve_Size_eq: "ve_Size ve = length (concat (map entry_bytes ve))"
  by (induction ve rule: ve_Size.induct) (simp_all add: length_entry)

lemma marshal_value_back:
  assumes "length (value_bytes v) \<le> i" "i \<le> length buf"
  shows "marshal_value v buf (int i) = Inr (write_back buf i (value_bytes v), int (i - length (value_bytes v)))"
proof (cases "v = []")
  case False
  let ?n = "varint (of_nat (length v))"
  have len: "Suc (length ?n + length v) \<le> i" using assms(1) False by (simp add: value_bytes_def)
  have "copy_at buf (int i - int (length v)) v = Inr (write_back buf i v)"
    using len assms(2) by (simp add: copy_at_def write_back_def nat_diff_distrib)
  moreover have "encodeVarintVoteExtensions (write_back buf i v) (int (i - length v)) (of_nat (length v)) =
      Inr (write_back (write_back buf i v) (i - length v) ?n, int (i - length v - length ?n))"
    using len assms(2) by (intro encode_varint_back) simp_all
  moreover have "marshal_tag 0x12 (write_back buf i (?n @ v), int (i - length v - length ?n)) =
      Inr (write_back (write_back buf i (?n @ v)) (i - length v - length ?n) [0x12], int (i - length v - length ?n - 1))"
    using len assms(2) by (intro marshal_tag_back) simp_all
  ultimately show ?thesis
    using False len assms(2) write_back_twice [of v ?n i buf] write_back_twice [of "?n @ v" "[0x12]" i buf]
    by (simp add: marshal_value_def value_bytes_def of_nat_diff add.commute)
qed (simp add: marshal_value_def value_bytes_def write_back_def)

lemma marshal_entry_back:
  assumes "length (entry_bytes (k, v)) \<le> i" "i \<le> length buf"
  shows "marshal_entry k v buf (int i) = Inr (write_back buf i (entry_bytes (k, v)), int (i - length (entry_bytes (k, v))))"
proof -
  let ?v = "value_bytes v" and ?k = "varint k" and ?b = "entry_body k v"
  let ?n = "varint (of_nat (length ?b))"
  have body: "?b = 0x8 # ?k @ ?v" by (simp add: entry_body_def)
  have entry: "entry_bytes (k, v) = 0xa # ?n @ ?b" by (simp add: entry_bytes_def)
  have len: "Suc (length ?n + length ?b) \<le> i" using assms(1) by (simp add: entry)
  have lenb: "length ?b = Suc (length ?k + length ?v)" by (simp add: body)
  note room = len lenb assms(2)
  have 1: "marshal_value v buf (int i) = Inr (write_back buf i ?v, int (i - length ?v))"
    using room by (intro marshal_value_back) simp_all
  have 2: "encodeVarintVoteExtensions (write_back buf i ?v) (int (i - length ?v)) k =
      Inr (write_back buf i (?k @ ?v), int (i - length ?v - length ?k))"
    using room encode_varint_back [of k "i - length ?v" "write_back buf i ?v"] write_back_twice [of ?v ?k i buf] by simp
  have 3: "marshal_tag 0x8 (write_back buf i (?k @ ?v), int (i - length ?v - length ?k)) =
      Inr (write_back buf i ?b, int (i - length ?b))"
    using room marshal_tag_back [of "i - length ?v - length ?k" "write_back buf i (?k @ ?v)" "0x8"]
      write_back_twice [of "?k @ ?v" "[0x8]" i buf]
    by (simp add: body add.commute)
  have 4: "encodeVarintVoteExtensions (write_back buf i ?b) (int (i - length ?b)) (of_nat (length ?b)) =
      Inr (write_back buf i (?n @ ?b), int (i - length ?b - length ?n))"
    using room encode_varint_back [of "of_nat (length ?b)" "i - length ?b" "write_back buf i ?b"] write_back_twice [of ?b ?n i buf]
    by simp
  have 5: "marshal_tag 0xa (write_back buf i (?n @ ?b), int (i - length ?b - length ?n)) =
      Inr (write_back buf i (entry_bytes (k, v)), int (i - length (entry_bytes (k, v))))"
    using room marshal_tag_back [of "i - length ?b - length ?n" "write_back buf i (?n @ ?b)" "0xa"]
      write_back_twice [of "?n @ ?b" "[0xa]" i buf]
    by (simp add: entry add.commute)
  have n: "word_of_int (int i - int (i - length ?b)) = (of_nat (length ?b) :: u64)"
    using len by (simp add: of_nat_diff)
  show ?thesis unfolding marshal_entry_def by (simp only: 1 2 3 4 5 n bind_res_simps prod.case)
qed

lemma marshal_entries_back:
  "ve_Size ve \<le> i \<Longrightarrow> i \<le> length buf \<Longrightarrow>
   marshal_entries ve buf (int i) = Inr (write_back buf i (concat (map entry_bytes (rev ve))), int (i - ve_Size ve))"
proof (induction ve arbitrary: buf i)
  case (Cons e ve)
  obtain k v where e: "e = (k, v)" by (cases e)
  let ?e = "entry_bytes e"
  have size: "ve_Size (e # ve) = length ?e + ve_Size ve" by (simp add: ve_Size_eq)
  have "marshal_entries ve (write_back buf i ?e) (int (i - length ?e)) =
      Inr (write_back (write_back buf i ?e) (i - length ?e) (concat (map entry_bytes (rev ve))), int (i - length ?e - ve_Size ve))"
    using Cons.prems size by (intro Cons.IH) simp_all
  moreover have "length (concat (map entry_bytes (rev ve))) = ve_Size ve"
    by (simp add: ve_Size_eq length_concat rev_map [symmetric] sum_list_rev)
  ultimately show ?case
    using Cons.prems size marshal_entry_back [of k v i buf] write_back_twice [of ?e "concat (map entry_bytes (rev ve))" i buf]
    by (simp add: e)
qed (simp add: write_back_def)

text \<open>The encoder's bytes: the entries from the last to the first.\<close>

lemma ve_Marshal_eq:
  "ve_Marshal ve = (if 2 ^ 63 \<le> ve_Size ve then Inl (Panic ''makeslice: len out of range'')
     else Inr (concat (map entry_bytes (rev ve))))"
proof -
  have "length (concat (map entry_bytes (rev ve))) = ve_Size ve"
    by (simp add: ve_Size_eq length_concat rev_map [symmetric] sum_list_rev)
  then show ?thesis
    using marshal_entries_back [of ve "ve_Size ve" "replicate (ve_Size ve) 0"]
    by (simp add: ve_Marshal_def MarshalToSizedBuffer_def Let_def write_back_def)
qed

section \<open>The decoder\<close>

lemma bits_values: "(0x7f :: u64) = mask 7" "(0x7f :: 8 word) = mask 7"
  by (simp_all add: mask_eq_exp_minus_1)

lemma bit_0x80: "bit (0x80 :: u64) n \<longleftrightarrow> n = 7" "bit (0x80 :: 8 word) n \<longleftrightarrow> n = 7" "bit (0x80 :: int) n \<longleftrightarrow> n = 7"
  using bit_exp_iff [where 'a = int, of 7 n] bit_exp_iff [where 'a = "64 word", of 7 n] bit_exp_iff [where 'a = "8 word", of 7 n] by auto

lemma drop_small: "v < 0x80 \<Longrightarrow> drop_bit 7 v = 0" "b < 0x80 \<Longrightarrow> drop_bit 7 b = 0" for v :: u64 and b :: "8 word"
  by (rule unsigned_word_eqI [where 'a = nat], simp add: unat_div drop_bit_eq_div word_less_nat_alt)+

text \<open>What the decoder takes from a byte of the encoding, and when it stops.\<close>

lemma low_bits:
  fixes v :: u64
  shows "ucast ((ucast (v AND 0x7f OR 0x80) :: 8 word) AND 0x7F) = v AND 0x7f"
    "\<not> (ucast (v AND 0x7f OR 0x80) :: 8 word) < 0x80"
proof -
  show "ucast ((ucast (v AND 0x7f OR 0x80) :: 8 word) AND 0x7F) = v AND 0x7f"
    unfolding bits_values by (intro bit_word_eqI) (auto simp: bit_simps bit_0x80)
  have "bit (ucast (v AND 0x7f OR 0x80) :: 8 word) 7"
    by (simp add: bit_simps bit_0x80)
  then have "drop_bit 7 (ucast (v AND 0x7f OR 0x80) :: 8 word) \<noteq> 0"
    using fun_cong [OF bit_drop_bit_eq, of 7 "ucast (v AND 0x7f OR 0x80) :: 8 word" 0] by auto
  then show "\<not> (ucast (v AND 0x7f OR 0x80) :: 8 word) < 0x80"
    using drop_small(2) by blast
qed

lemma last_bits:
  fixes v :: u64
  assumes "v < 2 ^ 7"
  shows "ucast ((ucast v :: 8 word) AND 0x7F) = v" "(ucast v :: 8 word) < 0x80"
proof -
  have "drop_bit 7 v = 0" using assms by (intro drop_small) simp
  then have v: "take_bit 7 v = v" by (simp add: take_bit_eq_self_iff_drop_bit_eq_0)
  have "ucast ((ucast v :: 8 word) AND 0x7F) = take_bit 7 v"
    unfolding bits_values by (intro bit_word_eqI) (auto simp: bit_simps)
  then show "ucast ((ucast v :: 8 word) AND 0x7F) = v" by (simp add: v)
  have "unat (ucast v :: 8 word) = unat v mod 256" by (simp add: unsigned_ucast_eq take_bit_eq_mod)
  then show "(ucast v :: 8 word) < 0x80" using assms by (simp add: word_less_nat_alt)
qed

lemma join_bits: "push_bit s (v AND 0x7f) OR push_bit (s + 7) (drop_bit 7 v) = push_bit s (v :: u64)"
proof (intro bit_word_eqI)
  fix n
  assume "n < LENGTH(64)"
  then show "bit (push_bit s (v AND 0x7f) OR push_bit (s + 7) (drop_bit 7 v)) n = bit (push_bit s v) n"
    unfolding bits_values by (cases "s + 7 \<le> n") (auto simp: bit_simps)
qed

lemma read_varint_bits:
  "unat v < 2 ^ (64 - s) \<Longrightarrow> s < 64 \<Longrightarrow>
   read_varint (pre @ varint v @ suf) (length pre) s acc = Inr (acc OR push_bit s v, length pre + length (varint v))"
proof (induction v arbitrary: s acc pre rule: varint.induct)
  case (1 v)
  show ?case
  proof (cases "v < 2 ^ 7")
    case True
    then have "varint v = [ucast v]" by (subst varint.simps) simp
    with 1(3) last_bits [OF True] show ?thesis by (simp add: read_varint.simps [of _ _ s] Let_def)
  next
    case False
    let ?b = "ucast (v AND 0x7f OR 0x80) :: 8 word" and ?acc = "acc OR push_bit s (v AND 0x7f)"
    have v: "varint v = ?b # varint (drop_bit 7 v)" using False by (subst varint.simps) simp
    have big: "2 ^ 7 \<le> unat v" using False by (simp add: word_less_nat_alt)
    then have "(2::nat) ^ 7 < 2 ^ (64 - s)" using 1(2) by linarith
    then have s: "s + 7 < 64" by (subst (asm) power_strict_increasing_iff) simp_all
    have "(2::nat) ^ (64 - s) = 2 ^ 7 * 2 ^ (64 - (s + 7))" 
      unfolding power_add [symmetric] using s by (intro arg_cong [where f = "power 2"]) linarith
    then have "unat (drop_bit 7 v) < 2 ^ (64 - (s + 7))"
      using 1(2) by (simp add: unat_div drop_bit_eq_div less_mult_imp_div_less mult.commute)
    from 1(1) [OF False this s, of "pre @ [?b]" ?acc]
    have "read_varint (pre @ varint v @ suf) (Suc (length pre)) (s + 7) ?acc =
        Inr (?acc OR push_bit (s + 7) (drop_bit 7 v), length pre + length (varint v))"
      by (simp add: v)
    then show ?thesis
      using 1(3) False low_bits [of v] join_bits [of s v]
      by (subst read_varint.simps) (simp add: Let_def v or.assoc)
  qed
qed

lemma read_varint_eq:
  "read_varint (pre @ varint v @ suf) (length pre) 0 acc = Inr (acc OR v, length pre + length (varint v))"
  using read_varint_bits [of v 0 pre suf acc] unsigned_less [of v, where 'a = nat] by simp

lemma small_length:
  assumes "n < 2 ^ 63"
  shows "unat (of_nat n :: u64) = n" "\<not> sint (of_nat n :: u64) < 0"
proof -
  show "unat (of_nat n :: u64) = n" using assms by (simp add: unsigned_of_nat take_bit_nat_eq_self)
  have "int n < 2 ^ 63" using assms by simp
  then have "sint (of_nat n :: u64) = int n" by (simp add: signed_of_nat signed_take_bit_int_eq_self)
  then show "\<not> sint (of_nat n :: u64) < 0" by simp
qed

lemma read_length_eq:
  fixes c :: bytes
  defines "n \<equiv> varint (of_nat (length c))"
  assumes "length (pre @ n @ c @ suf) < 2 ^ 63"
  shows "read_length (pre @ n @ c @ suf) (length pre) =
    Inr (length pre + length n, length pre + length n + length c)"
proof -
  have small: "length c < 2 ^ 63" using assms(2) by simp
  have "read_varint (pre @ n @ c @ suf) (length pre) 0 0 = Inr (of_nat (length c), length pre + length n)"
    using read_varint_eq [of pre "of_nat (length c)" "c @ suf" 0] by (simp add: n_def)
  then show ?thesis
    using small_length [OF small] assms(2) by (simp add: read_length_def index_add_def)
qed

lemma tags:
  "varint 0xa = [0xa]" "varint 0x8 = [0x8]" "varint 0x12 = [0x12]"
  "field_number 0xa = 1" "field_number 0x8 = 1" "field_number 0x12 = 2" "(0xa :: u64) AND 0x7 = 2"
  by (simp_all add: varint.simps field_number_def)

lemmas read_tag = read_varint_eq [where v = "0xa" and acc = 0] read_varint_eq [where v = "0x8" and acc = 0]
  read_varint_eq [where v = "0x12" and acc = 0]

text \<open>The decoder reads an entry's body back.\<close>

lemma entry_loop_body:
  assumes "length (pre @ entry_body k v @ suf) < 2 ^ 63"
  shows "entry_loop (pre @ entry_body k v @ suf) (length (pre @ entry_body k v)) (length pre, 0, []) = Inr (k, v)"
proof -
  let ?bs = "pre @ entry_body k v @ suf" and ?fin = "length (pre @ entry_body k v)"
  let ?p1 = "pre @ [0x8]" and ?p2 = "pre @ 0x8 # varint k"
  let ?n = "varint (of_nat (length v))"
  have "read_varint ?bs (length pre) 0 0 = Inr (0x8, length ?p1)"
    using read_tag(2) [of pre "varint k @ value_bytes v @ suf"] by (simp add: tags entry_body_def)
  moreover have "read_varint ?bs (length ?p1) 0 0 = Inr (k, length ?p2)"
    using read_varint_eq [of ?p1 k "value_bytes v @ suf" 0] by (simp add: entry_body_def)
  ultimately have key: "entry_field ?bs ?fin (length pre, 0, []) = Inr (length ?p2, k, [])"
    by (simp add: entry_field_def tags)
  have "entry_loop ?bs ?fin (length ?p2, k, []) = Inr (k, v)"
  proof (cases "v = []")
    case True
    then show ?thesis by (subst entry_loop.simps) (simp add: entry_body_def value_bytes_def)
  next
    case False
    then have bs: "?bs = (?p2 @ [0x12]) @ ?n @ v @ suf" by (simp add: entry_body_def value_bytes_def)
    have "read_varint ?bs (length ?p2) 0 0 = Inr (0x12, length (?p2 @ [0x12]))"
      using read_tag(3) [of ?p2 "?n @ v @ suf"] by (simp add: tags bs)
    moreover have "read_length ?bs (length (?p2 @ [0x12])) =
        Inr (length (?p2 @ [0x12]) + length ?n, length (?p2 @ [0x12]) + length ?n + length v)"
      using assms unfolding bs by (rule read_length_eq)
    moreover have "take (length v) (drop (length (?p2 @ [0x12]) + length ?n) ?bs) = v"
      unfolding bs by simp
    ultimately have "entry_field ?bs ?fin (length ?p2, k, []) = Inr (?fin, k, v)"
      using False by (simp add: entry_field_def tags entry_body_def value_bytes_def)
    then show ?thesis
      using False by (subst entry_loop.simps) (simp add: entry_body_def value_bytes_def entry_loop.simps)
  qed
  then show ?thesis using key by (subst entry_loop.simps) (simp add: entry_body_def)
qed

lemma unmarshal_entry:
  assumes "length (pre @ entry_bytes (k, v) @ suf) < 2 ^ 63"
  shows "unmarshal_field (pre @ entry_bytes (k, v) @ suf) (length pre, m) =
    Inr (length (pre @ entry_bytes (k, v)), gm_set k v m)"
proof -
  let ?b = "entry_body k v"
  let ?n = "varint (of_nat (length ?b))"
  let ?bs = "pre @ entry_bytes (k, v) @ suf"
  have bs: "?bs = (pre @ [0xa]) @ ?n @ ?b @ suf" by (simp add: entry_bytes_def)
  have "read_varint ?bs (length pre) 0 0 = Inr (0xa, length (pre @ [0xa]))"
    using read_tag(1) [of pre "?n @ ?b @ suf"] by (simp add: tags bs)
  moreover have "read_length ?bs (length (pre @ [0xa])) =
      Inr (length (pre @ [0xa]) + length ?n, length (pre @ [0xa]) + length ?n + length ?b)"
    using assms unfolding bs by (rule read_length_eq)
  moreover have "entry_loop ?bs (length (pre @ [0xa]) + length ?n + length ?b) (length (pre @ [0xa]) + length ?n, 0, []) = Inr (k, v)"
    using entry_loop_body [of "(pre @ [0xa]) @ ?n" k v suf] assms unfolding bs by (simp add: add.assoc)
  ultimately show ?thesis by (simp add: unmarshal_field_def tags entry_bytes_def)
qed

lemma unmarshal_entries:
  "length (pre @ concat (map entry_bytes es)) < 2 ^ 63 \<Longrightarrow>
   unmarshal_loop (pre @ concat (map entry_bytes es)) (length pre, m) = Inr (fold (\<lambda>(k, v). gm_set k v) es m)"
proof (induction es arbitrary: pre m)
  case (Cons e es)
  obtain k v where e: "e = (k, v)" by (cases e)
  have "entry_bytes e \<noteq> []" by (simp add: e entry_bytes_def)
  then show ?case
    using Cons.prems unmarshal_entry [of pre k v "concat (map entry_bytes es)" m]
      Cons.IH [of "pre @ entry_bytes e" "gm_set k v m"]
    by (subst unmarshal_loop.simps) (simp add: e)
qed (simp add: unmarshal_loop.simps)

lemma gm_set_new: "k \<notin> fst ` set m \<Longrightarrow> gm_set k v m = m @ [(k, v)]"
  unfolding gm_set_def by (induction m) auto

lemma fold_new: "distinct (map fst (m @ es)) \<Longrightarrow> fold (\<lambda>(k, v). gm_set k v) es m = m @ es"
proof (induction es arbitrary: m)
  case (Cons e es)
  obtain k v where e: "e = (k, v)" by (cases e)
  have "gm_set k v m = m @ [e]" using Cons.prems by (simp add: e gm_set_new)
  moreover have "fold (\<lambda>(k, v). gm_set k v) es (m @ [e]) = (m @ [e]) @ es" using Cons.prems by (intro Cons.IH) simp
  ultimately show ?case by (simp add: e)
qed simp

text \<open>(C24) The protobuf encoding of a vote extension: encoding fills the buffer whose size it computed, and panics
  only when no slice could be so long, and decoding the bytes yields the entries again, each key with
  its bytes.\<close>

theorem vote_extension_bytes_roundtrip:
  assumes "gm_wf ve"
  shows "if ve_Size ve < 2 ^ 63
    then \<exists>bs. ve_Marshal ve = Inr bs \<and> length bs = ve_Size ve \<and> ve_Unmarshal [] bs = Inr (rev ve)
    else ve_Marshal ve = Inl (Panic ''makeslice: len out of range'')"
proof (cases "ve_Size ve < 2 ^ 63")
  case True
  let ?bs = "concat (map entry_bytes (rev ve))"
  have len: "length ?bs = ve_Size ve" by (simp add: ve_Size_eq length_concat rev_map [symmetric] sum_list_rev)
  have "distinct (map fst (rev ve))" using assms by (simp add: gm_wf_def rev_map [symmetric])
  then have "ve_Unmarshal [] ?bs = Inr (rev ve)"
    using unmarshal_entries [of "[]" "rev ve" "[]"] fold_new [of "[]" "rev ve"] True len by (simp add: ve_Unmarshal_def)
  with True len show ?thesis by (simp add: ve_Marshal_eq)
qed (simp add: ve_Marshal_eq)

theorem vote_extension_bytes_roundtrip_witness:
  "ve_Marshal [(1, [5]), (300, [])] = Inr [0xa, 3, 8, 0xac, 2, 0xa, 5, 8, 1, 0x12, 1, 5] \<and>
   ve_Unmarshal [] [0xa, 3, 8, 0xac, 2, 0xa, 5, 8, 1, 0x12, 1, 5] = Inr [(300, []), (1, [5])]"
proof -
  let ?ve = "[(1, [5]), (300, [])] :: vote_extension"
  have "gm_wf ?ve" by (simp add: gm_wf_def)
  moreover have bytes: "concat (map entry_bytes (rev ?ve)) = [0xa, 3, 8, 0xac, 2, 0xa, 5, 8, 1, 0x12, 1, 5]"
    by (simp add: entry_bytes_def entry_body_def value_bytes_def varint.simps)
  moreover have "ve_Size ?ve = 12"
    by (simp add: ve_Size_eq entry_bytes_def entry_body_def value_bytes_def varint.simps)
  ultimately show ?thesis using vote_extension_bytes_roundtrip [of ?ve] by (simp only: ve_Marshal_eq bytes) simp
qed

section \<open>Any bytes\<close>

text \<open>The state of the loop when it stops, for a result.\<close>

definition stops_with :: "bytes \<Rightarrow> (nat \<times> vote_extension) res \<Rightarrow> vote_extension res \<Rightarrow> bool" where
  "stops_with bs s r = (case s of Inl e \<Rightarrow> r = Inl e | Inr (i, prices) \<Rightarrow> i = length bs \<and> r = Inr prices)"

lemma decoder_rounds:
  "i \<le> length bs \<Longrightarrow>
   \<exists>n \<le> length bs - i. stops_with bs (((\<lambda>s. bind_res s (unmarshal_field bs)) ^^ n) (Inr (i, m))) (unmarshal_loop bs (i, m))"
proof (induction "length bs - i" arbitrary: i m rule: less_induct)
  case less
  let ?round = "\<lambda>s. bind_res s (unmarshal_field bs)"
  show ?case
  proof (cases "i < length bs")
    case False
    with less.prems show ?thesis by (intro exI [of _ 0]) (simp add: unmarshal_loop.simps stops_with_def)
  next
    case True
    show ?thesis
    proof (cases "unmarshal_field bs (i, m)")
      case (Inl e)
      with True show ?thesis by (intro exI [of _ 1]) (simp add: unmarshal_loop.simps stops_with_def)
    next
      case (Inr s)
      obtain j m' where s: "s = (j, m')" by (cases s)
      have j: "i < j" "j \<le> length bs" using unmarshal_field_progress [of bs i m j m'] Inr by (simp_all add: s)
      with True have "length bs - j < length bs - i" by linarith
      from less.hyps [OF this j(2)] obtain n where
        n: "n \<le> length bs - j" "stops_with bs ((?round ^^ n) (Inr (j, m'))) (unmarshal_loop bs (j, m'))"
        by blast
      have "unmarshal_loop bs (i, m) = unmarshal_loop bs (j, m')"
        using True Inr by (subst unmarshal_loop.simps) (simp add: s)
      then show ?thesis
        using n j True Inr by (intro exI [of _ "Suc n"]) (simp add: funpow_Suc_right s del: funpow.simps)
    qed
  qed
qed

text \<open>(C23) Decoding ends on every byte string, whoever sent it: the loop of \<open>Unmarshal\<close> makes at most as many
  rounds as there are bytes, and stops with an error or exactly at the end of the bytes.\<close>

theorem decoder_terminates:
  "\<exists>n \<le> length bs. stops_with bs (((\<lambda>s. bind_res s (unmarshal_field bs)) ^^ n) (Inr (0, m))) (ve_Unmarshal m bs)"
  using decoder_rounds [of 0 bs m] unfolding ve_Unmarshal_def by simp

text \<open>An entry with two keys, which protobuf decodes to the last one: the bits of both are joined.\<close>

theorem repeated_keys_are_joined:
  assumes "length (varint k1) + length (varint k2) < 100"
  shows "ve_Unmarshal [] (0xa # varint (of_nat (2 + length (varint k1) + length (varint k2))) @
      0x8 # varint k1 @ 0x8 # varint k2) = Inr [(k1 OR k2, [])]"
proof -
  let ?c = "0x8 # varint k1 @ 0x8 # varint k2"
  let ?n = "varint (of_nat (length ?c))"
  let ?bs = "0xa # ?n @ ?c" and ?p = "0xa # ?n"
  let ?p1 = "?p @ [0x8]" and ?p2 = "?p @ 0x8 # varint k1" and ?p3 = "?p @ 0x8 # varint k1 @ [0x8]"
  have "length ?c < 2 ^ 7" using assms by simp
  then have "(of_nat (length ?c) :: u64) < 2 ^ 7"
    using small_length(1) [of "length ?c"] by (simp add: word_less_nat_alt del: of_nat_add of_nat_Suc list.size length_append)
  then have n: "length ?n = 1" by (subst varint.simps) simp
  have "read_varint ?bs (length ?p) 0 0 = Inr (0x8, length ?p1)"
    using read_tag(2) [of ?p "varint k1 @ 0x8 # varint k2"] by (simp add: tags)
  moreover have "read_varint ?bs (length ?p1) 0 0 = Inr (k1, length ?p2)"
    using read_varint_eq [of ?p1 k1 "0x8 # varint k2" 0] by simp
  ultimately have 1: "entry_field ?bs (length ?bs) (length ?p, 0, []) = Inr (length ?p2, k1, [])"
    by (simp add: entry_field_def tags)
  have "read_varint ?bs (length ?p2) 0 0 = Inr (0x8, length ?p3)"
    using read_tag(2) [of ?p2 "varint k2"] by (simp add: tags)
  moreover have "read_varint ?bs (length ?p3) 0 k1 = Inr (k1 OR k2, length ?bs)"
    using read_varint_eq [of ?p3 k2 "[]" k1] by simp
  ultimately have 2: "entry_field ?bs (length ?bs) (length ?p2, k1, []) = Inr (length ?bs, k1 OR k2, [])"
    by (simp add: entry_field_def tags)
  have loop: "entry_loop ?bs (length ?bs) (length ?p, 0, []) = Inr (k1 OR k2, [])"
    using 1 2 by (simp add: entry_loop.simps)
  have "read_varint ?bs 0 0 0 = Inr (0xa, 1)"
    using read_tag(1) [of "[]" "?n @ ?c"] by (simp add: tags)
  moreover have "read_length ?bs 1 = Inr (length ?p, length ?bs)"
    using read_length_eq [of "[0xa]" ?c "[]"] n assms by simp
  ultimately have "unmarshal_field ?bs (0, []) = Inr (length ?bs, [(k1 OR k2, [])])"
    using loop by (simp add: unmarshal_field_def tags gm_set_new)
  moreover have "of_nat (2 + length (varint k1) + length (varint k2)) = (of_nat (length ?c) :: u64)" by simp
  ultimately show ?thesis by (simp add: ve_Unmarshal_def unmarshal_loop.simps)
qed

section \<open>Vote extensions with the default codec\<close>

lemma protobuf_codec_fields: "vc_encode protobuf_codec = ve_Marshal" "vc_decode protobuf_codec = ve_Unmarshal []"
  by (simp_all add: protobuf_codec_def DefaultVoteExtensionCodec_def)

lemma protobuf_keeps_entries:
  assumes "gm_wf ve" "vc_encode protobuf_codec ve = Inr bz"
  shows "\<exists>ve'. vc_decode protobuf_codec bz = Inr ve' \<and> mset ve' = mset ve"
  using unmarshal_entries [of "[]" "rev ve" "[]"] fold_new [of "[]" "rev ve"] assms
  by (auto simp: protobuf_codec_fields ve_Marshal_eq ve_Unmarshal_def gm_wf_def rev_map [symmetric] ve_Size_eq
      length_concat sum_list_rev split: if_splits)

text \<open>(C5) What a validator with the default strategy and the default codec sends, the others accept: the
  protobuf bytes it extends its vote with pass \<open>VerifyVoteExtension\<close> on the store of the last block,
  when the service's prices are below \<open>2 ^ 256\<close>.\<close>

theorem protobuf_extension_accepted:
  assumes "fst (ExtendVoteHandler protobuf_codec ecCodec (Inr (Some prices)) ctx (Some txs) s) = (Some bz, None)"
    "vs_strategy s = DefaultS d" "exact_int (ap_new_int (vs_applier s))"
    "index_inv (ap_store (vs_applier s))" "keys_canonical (ap_store (vs_applier s))" "count_ok (ap_store (vs_applier s))"
    "length (os_currency_pairs (ap_store (vs_applier s))) < 2 ^ 64"
    "\<forall>cp p. reported prices cp = Some p \<longrightarrow> p < 2 ^ 256" "cx_exec_mode ctx' = ExecModeVerifyVoteExtension"
  shows "VerifyVoteExtensionHandler protobuf_codec ctx' (ap_store (vs_applier s)) (DefaultS d') (Some (Some bz)) = (Some ACCEPT, None)"
  by (rule sent_extension_accepted [OF protobuf_keeps_entries assms])

lemma gob_70000: "gob_encode 70000 = [2, 1, 17, 112]"
  by (simp add: gob_encode_def be_bytes.simps)

theorem protobuf_extension_accepted_witness:
  "VerifyVoteExtensionHandler protobuf_codec ((ctx_at 6)\<lparr>cx_exec_mode := ExecModeVerifyVoteExtension\<rparr>) store0
     (DefaultS NewDefaultCurrencyPairStrategy) (Some (Some [0xa, 8, 8, 0, 0x12, 4, 2, 1, 17, 112])) = (Some ACCEPT, None)"
proof -
  let ?service = "[(''btc/usd'', ''70000'')]" and ?bz = "[0xa, 8, 8, 0, 0x12, 4, 2, 1, 17, 112] :: bytes"
  have enc: "vc_encode protobuf_codec [(0, gob_encode 70000)] = Inr ?bz"
    by (simp add: protobuf_codec_fields ve_Marshal_eq ve_Size_eq gob_70000 entry_bytes_def entry_body_def value_bytes_def
        varint.simps)
  obtain va where va: "ApplyPricesFromVoteExtensions protobuf_codec (one_commit empty_commit) (ctx_at 6) [[1]] (vs_applier state0) =
     (Inr [], (vs_applier state0)\<lparr>ap_va := va\<rparr>)"
    using apply_nothing by blast
  have "extend_vote protobuf_codec (one_commit empty_commit) (Inr (Some ?service)) (ctx_at 6) [[1]] state0 =
      (Inr ?bz, state0\<lparr>vs_applier := (vs_applier state0)\<lparr>ap_va := va\<rparr>,
         vs_strategy := DefaultS (cache_pair 0 btc_usd (default_reset (ctx_at 6) NewDefaultCurrencyPairStrategy))\<rparr>)"
    unfolding extend_vote_def
    by (simp add: comp_simps bindC_def mapErrC_def on_applier_def va on_strategy_def state0_fields parse_btc_usd
        default_ID_def store0_id default_GetEncodedPrice_def gm_set_def enc)
  then have send: "fst (ExtendVoteHandler protobuf_codec (one_commit empty_commit) (Inr (Some ?service)) (ctx_at 6) (Some [[1]]) state0) =
      (Some ?bz, None)"
    by (simp add: ExtendVoteHandler_def)
  have "\<forall>cp p. reported ?service cp = Some p \<longrightarrow> p < 2 ^ 256"
    by (simp add: reported_def report_price_def parse_btc_usd)
  moreover have "count_ok store0" by (simp add: count_ok_def store0_def)
  moreover have "length (os_currency_pairs store0) < 2 ^ 64" by (simp add: store0_def)
  moreover have "exact_int new_int0" by (simp add: exact_int_def new_int0_def)
  ultimately show ?thesis
    using protobuf_extension_accepted [OF send, of NewDefaultCurrencyPairStrategy
        "(ctx_at 6)\<lparr>cx_exec_mode := ExecModeVerifyVoteExtension\<rparr>"]
      store0_canonical reachable_index [OF store0_reachable]
    by (simp add: state0_fields)
qed

end
