(* ===== verification/Float_Text.thy ===== *)
theory Float_Text
  imports Big_Float Go_Json
begin

text \<open>
  Prices as text, as the sources of the sidecar write them: \<open>Float64StringToBigFloat\<close> and
  \<open>Float64StringToBigInt\<close> of \<open>pkg/math/math.go\<close> with what they use of \<open>math/big\<close> (\<open>SetString\<close>, \<open>Parse\<close>:
  signs, base prefixes, separators, a radix point, decimal and binary exponents), and the numbers of
  JSON, which are \<open>float64\<close>. A text that \<open>math/big\<close> refuses is \<open>None\<close>.
\<close>

section \<open>Scanning a mantissa\<close>

text \<open>What the last character was: a digit, a separator, or anything else.\<close>

datatype scan_prev = PrevDigit | PrevSep | PrevOther

record digit_scan =
  sc_prev :: scan_prev
  sc_invalSep :: bool
  sc_count :: nat
  sc_dp :: "nat option"
  sc_value :: int

definition digit_of :: "char \<Rightarrow> int" where
  "digit_of c =
     (if CHR ''0'' \<le> c \<and> c \<le> CHR ''9'' then of_char c - 48
      else if CHR ''a'' \<le> c \<and> c \<le> CHR ''z'' then of_char c - 97 + 10
      else if CHR ''A'' \<le> c \<and> c \<le> CHR ''Z'' then of_char c - 65 + 10
      else 63)"

text \<open>The loop of \<open>nat.scan\<close> in base \<open>b\<close>; it stops at the first character that does not belong to it.\<close>

fun scan_digits :: "bool \<Rightarrow> int \<Rightarrow> digit_scan \<Rightarrow> string \<Rightarrow> digit_scan \<times> string" where
  "scan_digits sepOk b st [] = (st, [])"
| "scan_digits sepOk b st (c # cs) =
     (if c = CHR ''.'' \<and> sc_dp st = None then
        scan_digits sepOk b (st\<lparr>sc_invalSep := sc_invalSep st \<or> sc_prev st = PrevSep, sc_prev := PrevOther,
          sc_dp := Some (sc_count st)\<rparr>) cs
      else if c = CHR ''_'' \<and> sepOk then
        scan_digits sepOk b (st\<lparr>sc_invalSep := sc_invalSep st \<or> sc_prev st \<noteq> PrevDigit, sc_prev := PrevSep\<rparr>) cs
      else if digit_of c < b then
        scan_digits sepOk b (st\<lparr>sc_prev := PrevDigit, sc_count := sc_count st + 1,
          sc_value := sc_value st * b + digit_of c\<rparr>) cs
      else (st, c # cs))"

definition scan_start :: "scan_prev \<Rightarrow> nat \<Rightarrow> digit_scan" where
  "scan_start p n = \<lparr>sc_prev = p, sc_invalSep = False, sc_count = n, sc_dp = None, sc_value = 0\<rparr>"

text \<open>The base a prefix after a leading zero says.\<close>

definition prefix_base :: "string \<Rightarrow> int" where
  "prefix_base cs =
     (case cs of
        [] \<Rightarrow> 10
      | c # _ \<Rightarrow>
          if c = CHR ''b'' \<or> c = CHR ''B'' then 2
          else if c = CHR ''o'' \<or> c = CHR ''O'' then 8
          else if c = CHR ''x'' \<or> c = CHR ''X'' then 16
          else 10)"

text \<open>The base, the value and the number of fractional digits of a mantissa; base 0 reads the prefix.\<close>

definition scan_mantissa :: "int \<Rightarrow> string \<Rightarrow> (int \<times> int \<times> nat \<times> string) option" where
  "scan_mantissa base s =
     (let (b, st, rest) =
        (if base \<noteq> 0 then (base, scan_digits False base (scan_start PrevOther 0) s)
         else if take 1 s \<noteq> ''0'' then (10, scan_digits True 10 (scan_start PrevOther 0) s)
         else
           let p = prefix_base (drop 1 s) in
           if p = 10 then (10, scan_digits True 10 (scan_start PrevDigit 1) (drop 1 s))
           else (p, scan_digits True p (scan_start PrevDigit 0) (drop 2 s))) in
      if sc_invalSep st \<or> sc_prev st = PrevSep \<or> sc_count st = 0 then None
      else Some (b, sc_value st, (case sc_dp st of None \<Rightarrow> 0 | Some dp \<Rightarrow> sc_count st - dp), rest))"

section \<open>Scanning an exponent\<close>

text \<open>The digits with separators after the sign of an exponent: their value, and whether all is well.\<close>

fun scan_exp_digits :: "bool \<Rightarrow> scan_prev \<Rightarrow> bool \<Rightarrow> bool \<Rightarrow> int \<Rightarrow> string \<Rightarrow> (int \<times> string) option" where
  "scan_exp_digits sepOk prev invalSep hasDigits v s =
     (case s of
        c # cs \<Rightarrow>
          if CHR ''0'' \<le> c \<and> c \<le> CHR ''9'' then
            scan_exp_digits sepOk PrevDigit invalSep True (v * 10 + (of_char c - 48)) cs
          else if c = CHR ''_'' \<and> sepOk then
            scan_exp_digits sepOk PrevSep (invalSep \<or> prev \<noteq> PrevDigit) hasDigits v cs
          else if \<not> hasDigits \<or> invalSep \<or> prev = PrevSep then None else Some (v, c # cs)
      | [] \<Rightarrow> if \<not> hasDigits \<or> invalSep \<or> prev = PrevSep then None else Some (v, []))"

text \<open>The exponent and its base; it must fit an \<open>int64\<close>.\<close>

definition scan_exponent :: "bool \<Rightarrow> string \<Rightarrow> (int \<times> int \<times> string) option" where
  "scan_exponent sepOk s =
     (case s of
        [] \<Rightarrow> Some (0, 10, [])
      | c # cs \<Rightarrow>
          if c \<notin> set ''eEpP'' then Some (0, 10, s)
          else
            let b = (if c = CHR ''e'' \<or> c = CHR ''E'' then 10 else 2);
                neg = (take 1 cs = ''-'');
                ds = (if take 1 cs = ''-'' \<or> take 1 cs = ''+'' then drop 1 cs else cs) in
            case scan_exp_digits sepOk PrevOther False False 0 ds of
              None \<Rightarrow> None
            | Some (v, rest) \<Rightarrow>
                let e = (if neg then - v else v) in
                if e < - (2 ^ 63) \<or> 2 ^ 63 \<le> e then None else Some (e, b, rest))"

section \<open>Parsing\<close>

text \<open>Powers of five, rounded to 128 bits beyond the 27th.\<close>

fun pow5_loop :: "nat \<Rightarrow> big_float \<Rightarrow> big_float \<Rightarrow> big_float res" where
  "pow5_loop n z f =
     (if n = 0 then Inr z
      else
        bind_res (if odd n then bf_Mul (bf_prec z) z f else Inr z) (\<lambda>z'.
        bind_res (bf_Mul (bf_prec f) f f) (\<lambda>f'. pow5_loop (n div 2) z' f')))"

declare pow5_loop.simps [simp del]

definition pow5 :: "nat \<Rightarrow> big_float res" where
  "pow5 n =
     (if n \<le> 27 then Inr \<lparr>bf_prec = 128, bf_val = BFin (5 ^ n)\<rparr>
      else pow5_loop (n - 27) \<lparr>bf_prec = 128, bf_val = BFin (5 ^ 27)\<rparr> \<lparr>bf_prec = 192, bf_val = BFin 5\<rparr>)"

text \<open>\<open>(*big.Float).scan\<close> into a receiver without precision, which becomes 64.\<close>

definition float_scan :: "int \<Rightarrow> string \<Rightarrow> (big_float res \<times> string) option" where
  "float_scan base s =
     (let neg = (take 1 s = ''-''); s1 = (if take 1 s = ''-'' \<or> take 1 s = ''+'' then drop 1 s else s) in
      if s = [] then None
      else case scan_mantissa base s1 of
        None \<Rightarrow> None
      | Some (b, m, fcount, s2) \<Rightarrow>
          case scan_exponent (base = 0) s2 of
            None \<Rightarrow> None
          | Some (e, ebase, s3) \<Rightarrow>
              if m = 0 then Some (Inr \<lparr>bf_prec = 64, bf_val = BZero neg\<rparr>, s3)
              else
                let d = - int fcount;
                    exp5 = (if b = 10 then d else 0) + (if ebase = 10 then e else 0);
                    exp2 = (if b = 8 then 3 * d else if b = 16 then 4 * d else d) + e;
                    q = (if neg then - of_int m else of_int m) * 2 powi exp2;
                    z = \<lparr>bf_prec = 64, bf_val = BFin q\<rparr> in
                if exp2 + int (BitLen m) < MinExp \<or> MaxExp < exp2 + int (BitLen m) then None
                else if exp5 = 0 then Some (Inr \<lparr>bf_prec = 64, bf_val = setExpAndRound 64 q\<rparr>, s3)
                else if exp5 < 0 then Some (bind_res (pow5 (nat (- exp5))) (bf_Quo 64 z), s3)
                else Some (bind_res (pow5 (nat exp5)) (bf_Mul 64 z), s3))"

text \<open>\<open>Parse\<close> of the whole text; an infinity keeps the receiver's precision, none.\<close>

definition float_Parse :: "int \<Rightarrow> string \<Rightarrow> big_float res option" where
  "float_Parse base s =
     (if s = ''Inf'' \<or> s = ''inf'' \<or> s = ''+Inf'' \<or> s = ''+inf'' then Some (Inr \<lparr>bf_prec = 0, bf_val = BInf False\<rparr>)
      else if s = ''-Inf'' \<or> s = ''-inf'' then Some (Inr \<lparr>bf_prec = 0, bf_val = BInf True\<rparr>)
      else case float_scan base s of
        None \<Rightarrow> None
      | Some (f, rest) \<Rightarrow> if rest = [] then Some f else None)"

definition Float64StringToBigFloat :: "string \<Rightarrow> big_float res" where
  "Float64StringToBigFloat s =
     (case float_Parse 0 s of None \<Rightarrow> Inl (Errorf ''failed to set big.Float from string'') | Some f \<Rightarrow> f)"

definition Float64StringToBigInt :: "string \<Rightarrow> u64 \<Rightarrow> int res" where
  "Float64StringToBigInt s decimals =
     (case float_Parse 10 s of
        None \<Rightarrow> Inl (Errorf ''invalid number'')
      | Some f \<Rightarrow> bind_res f (\<lambda>x. BigFloatToBigInt x decimals))"

section \<open>The numbers of JSON\<close>

text \<open>The \<open>float64\<close> next to a rational, half to even, with the smallest exponent of the subnormals; nothing
  when it is out of range.\<close>

definition float64_of :: "rat \<Rightarrow> rat option" where
  "float64_of q =
     (if q = 0 then Some 0
      else
        let e = max (bf_exp q) (- 1021); r = of_int (half_even (q * 2 powi (53 - e))) * 2 powi (e - 53) in
        if 2 ^ 1024 \<le> \<bar>r\<bar> then None else Some r)"

text \<open>\<open>strconv.ParseFloat\<close> on a number token of JSON, and \<open>big.NewFloat\<close> of the result, with its sign.\<close>

definition token_value :: "string \<Rightarrow> rat" where
  "token_value tok =
     (let t = (if take 1 tok = ''-'' then drop 1 tok else tok);
          ip = takeWhile is_digit t; r1 = dropWhile is_digit t;
          fp = (if take 1 r1 = ''.'' then takeWhile is_digit (drop 1 r1) else []);
          r2 = (if take 1 r1 = ''.'' then dropWhile is_digit (drop 1 r1) else r1);
          r3 = drop 1 r2;
          ex = read_digits (filter is_digit r3);
          e = (if take 1 r3 = ''-'' then - ex else ex)
      in of_int (read_digits (ip @ fp)) * 10 powi (e - int (length fp)))"

definition ParseFloat :: "string \<Rightarrow> big_val option" where
  "ParseFloat tok =
     (case float64_of (token_value tok) of
        None \<Rightarrow> None
      | Some r \<Rightarrow> Some (if r = 0 then BZero (take 1 tok = ''-'') else BFin (if take 1 tok = ''-'' then - r else r)))"

definition NewFloat :: "big_val \<Rightarrow> big_float" where
  "NewFloat v = \<lparr>bf_prec = 53, bf_val = v\<rparr>"

text \<open>\<open>Float64ToBigInt\<close> and the conversions of \<open>float64\<close>.\<close>

definition Float64ToBigInt :: "big_val \<Rightarrow> u64 \<Rightarrow> int res" where
  "Float64ToBigInt v decimals = BigFloatToBigInt (NewFloat v) decimals"

end
