(* ===== verification/Float_Text_Properties.thy ===== *)
theory Float_Text_Properties
  imports Float_Text Float_Facts
begin

text \<open>
  The prices of the sources as text: a decimal text is read to the nearest 64-bit float, positive texts
  give the prices the aggregation asks for, and what else the parser takes for a price.
\<close>

section \<open>Digits\<close>

lemma digit_values: "is_digit c \<Longrightarrow> digit_of c = digit_val c \<and> 0 \<le> digit_val c \<and> digit_val c < 10"
proof -
  assume "is_digit c"
  then have "48 \<le> (of_char c :: nat)" "(of_char c :: nat) \<le> 57" by (simp_all add: is_digit_def less_eq_char_def)
  moreover have "(of_char c :: int) = int (of_char c)" by (rule of_nat_of_char [symmetric])
  ultimately have "48 \<le> (of_char c :: int)" "(of_char c :: int) \<le> 57" by linarith+
  then show ?thesis using \<open>is_digit c\<close> by (simp add: digit_of_def digit_val_def is_digit_def)
qed

lemma digit_neither: "is_digit c \<Longrightarrow> c \<noteq> CHR ''.'' \<and> c \<noteq> CHR ''_''"
  by (auto simp: is_digit_def less_eq_char_def)

definition digits_onto :: "int \<Rightarrow> string \<Rightarrow> int" where
  "digits_onto v s = foldl (\<lambda>n c. 10 * n + digit_val c) v s"

lemma digits_onto_simps [simp]:
  "digits_onto v [] = v" "digits_onto v (c # s) = digits_onto (10 * v + digit_val c) s"
  "digits_onto v (s @ t) = digits_onto (digits_onto v s) t"
  by (simp_all add: digits_onto_def)

lemma read_digits_onto: "read_digits s = digits_onto 0 s"
  by (simp add: read_digits_def digits_onto_def)

lemma digits_onto_bounds:
  "list_all is_digit s \<Longrightarrow> 0 \<le> v \<Longrightarrow> v * 10 ^ length s \<le> digits_onto v s \<and> digits_onto v s < (v + 1) * 10 ^ length s"
proof (induction s arbitrary: v)
  case (Cons c s)
  let ?w = "10 * v + digit_val c"
  have d: "0 \<le> digit_val c" "digit_val c < 10" using Cons.prems digit_values by auto
  then have "0 \<le> ?w" using Cons.prems by simp
  with Cons have "?w * 10 ^ length s \<le> digits_onto ?w s" "digits_onto ?w s < (?w + 1) * 10 ^ length s" by auto
  moreover have "v * 10 ^ length (c # s) \<le> ?w * 10 ^ length s" using d by simp
  moreover have "(?w + 1) * 10 ^ length s \<le> (v + 1) * 10 ^ length (c # s)"
  proof -
    have "?w + 1 \<le> (v + 1) * 10" using d by simp
    then have "(?w + 1) * 10 ^ length s \<le> (v + 1) * 10 * 10 ^ length s" by (rule mult_right_mono) simp
    then show ?thesis by simp
  qed
  ultimately show ?case unfolding digits_onto_simps by linarith
qed simp

lemma scan_all_digits:
  "list_all is_digit ds \<Longrightarrow>
   scan_digits sep 10 st (ds @ rest) =
     scan_digits sep 10 (st\<lparr>sc_prev := if ds = [] then sc_prev st else PrevDigit, sc_count := sc_count st + length ds,
       sc_value := digits_onto (sc_value st) ds\<rparr>) rest"
proof (induction ds arbitrary: st)
  case (Cons c ds)
  then have c: "digit_of c = digit_val c" "digit_val c < 10" "c \<noteq> CHR ''.''" "c \<noteq> CHR ''_''"
    using digit_values digit_neither by auto
  then show ?case using Cons by (simp add: mult.commute)
qed simp

text \<open>A decimal text: digits, a radix point, digits.\<close>

lemma mantissa_text:
  assumes "list_all is_digit ip" "list_all is_digit fp" "ip @ fp \<noteq> []"
  shows "scan_mantissa 0 (ip @ CHR ''.'' # fp) = Some (10, read_digits (ip @ fp), length fp, [])"
proof -
  have loop: "scan_digits True 10 (scan_start p n) (ds @ CHR ''.'' # fp) =
      (\<lparr>sc_prev = if fp = [] then PrevOther else PrevDigit, sc_invalSep = False, sc_count = n + length ds + length fp,
        sc_dp = Some (n + length ds), sc_value = digits_onto 0 (ds @ fp)\<rparr>, [])"
    if "list_all is_digit ds" "ds = [] \<longrightarrow> p \<noteq> PrevSep" for p n ds
    using scan_all_digits [OF that(1), of True "scan_start p n" "CHR ''.'' # fp"]
      scan_all_digits [OF assms(2), of True _ "[]"] that(2)
    by (simp add: scan_start_def)
  show ?thesis
  proof (cases "take 1 ip = ''0''")
    case True
    then obtain cs where ip: "ip = CHR ''0'' # cs" by (cases ip) auto
    have cs: "list_all is_digit cs" using assms(1) ip by simp
    have "prefix_base (cs @ CHR ''.'' # fp) = 10"
      using cs by (cases cs) (auto simp: prefix_base_def is_digit_def less_eq_char_def)
    moreover have "digit_val CHR ''0'' = 0" by (simp add: digit_val_def)
    ultimately show ?thesis
      using loop [OF cs, of PrevDigit 1] by (simp add: scan_mantissa_def ip read_digits_onto)
  next
    case False
    then have "take 1 (ip @ CHR ''.'' # fp) \<noteq> ''0''" by (cases ip) auto
    then show ?thesis using loop [OF assms(1), of PrevOther 0] assms(3)
      by (auto simp: scan_mantissa_def read_digits_onto)
  qed
qed

text \<open>The number a decimal text says.\<close>

definition text_value :: "string \<Rightarrow> string \<Rightarrow> rat" where
  "text_value ip fp = of_int (read_digits (ip @ fp)) / 10 ^ length fp"

lemma ten_power: "(10 :: 'a :: linordered_idom) ^ n \<le> 2 ^ (4 * n)"
proof -
  have "(10 :: 'a) ^ n \<le> (2 ^ 4) ^ n" by (intro power_mono) simp_all
  then show ?thesis by (simp only: power_mult)
qed

lemma decimal_text:
  assumes "list_all is_digit ip" "list_all is_digit fp" "length ip + length fp \<le> 1000" "length fp \<le> 27"
    "0 < read_digits (ip @ fp)"
  shows "Float64StringToBigFloat (ip @ CHR ''.'' # fp) = Inr \<lparr>bf_prec = 64, bf_val = setExpAndRound 64 (text_value ip fp)\<rparr>"
proof -
  let ?s = "ip @ CHR ''.'' # fp" and ?m = "read_digits (ip @ fp)" and ?k = "length fp"
  have ne: "ip @ fp \<noteq> []" using assms(5) by (auto simp: read_digits_def)
  have start: "take 1 ?s \<noteq> ''-''" "take 1 ?s \<noteq> ''+''" "?s \<noteq> []"
    using assms(1) by (cases ip; auto simp: is_digit_def less_eq_char_def)+
  have no_dot: "?s \<noteq> t" if "CHR ''.'' \<notin> set t" for t using that by auto
  have "?s \<noteq> ''Inf'' \<and> ?s \<noteq> ''inf'' \<and> ?s \<noteq> ''+Inf'' \<and> ?s \<noteq> ''+inf'' \<and> ?s \<noteq> ''-Inf'' \<and> ?s \<noteq> ''-inf''"
    by (intro conjI no_dot) simp_all
  then have no_inf: "float_Parse 0 ?s = (case float_scan 0 ?s of None \<Rightarrow> None | Some (f, rest) \<Rightarrow> if rest = [] then Some f else None)"
    unfolding float_Parse_def by simp
  have "?m < 10 ^ length (ip @ fp)"
    using digits_onto_bounds [of "ip @ fp" 0] assms(1,2) unfolding read_digits_onto by simp
  also have "\<dots> \<le> 2 ^ (4 * length (ip @ fp))" by (rule ten_power)
  finally have "BitLen ?m \<le> 4 * length (ip @ fp)" using BitLen_mono [OF assms(5)] by blast
  then have len: "BitLen ?m \<le> 4000" using assms(3) by simp
  have range: "\<not> (- int ?k + int (BitLen ?m) < MinExp \<or> MaxExp < - int ?k + int (BitLen ?m))"
    using len assms(4) by (simp add: MinExp_def MaxExp_def)
  have val: "text_value ip fp = of_int ?m * 2 powi (- int ?k) / 5 ^ ?k"
    by (simp add: text_value_def power_int_minus field_simps flip: power_mult_distrib)
  have "scan_exponent True [] = Some (0, 10, [])" by (simp add: scan_exponent_def)
  then have scan: "float_scan 0 ?s = Some (Inr \<lparr>bf_prec = 64, bf_val = setExpAndRound 64 (text_value ip fp)\<rparr>, [])"
  proof (cases "?k = 0")
    case True
    then show ?thesis
      using mantissa_text [OF assms(1,2) ne] start assms(5) range
      by (simp add: float_scan_def Let_def scan_exponent_def text_value_def)
  next
    case False
    have "pow5 ?k = Inr \<lparr>bf_prec = 128, bf_val = BFin (5 ^ ?k)\<rparr>" using assms(4) by (simp add: pow5_def)
    then show ?thesis
      using mantissa_text [OF assms(1,2) ne] start assms(5) range False
      by (simp add: float_scan_def Let_def scan_exponent_def val bf_Quo_def op_prec_def)
  qed
  then show ?thesis by (simp add: Float64StringToBigFloat_def no_inf)
qed

text \<open>(C17) A positive price that a source writes as a decimal number with up to 27 decimals is read without an
  error as the nearest 64-bit float, with a relative error of at most one part in \<open>2 ^ 64\<close>, and meets
  the bounds the aggregation is proved for.\<close>

theorem price_text_accurate:
  assumes "list_all is_digit ip" "list_all is_digit fp" "length ip + length fp \<le> 1000" "length fp \<le> 27"
    "0 < read_digits (ip @ fp)"
  shows "\<exists>x. Float64StringToBigFloat (ip @ CHR ''.'' # fp) = Inr x \<and>
    priced (4 * (length ip + length fp) + 2) x \<and> fval x = rnd 64 (text_value ip fp) \<and>
    \<bar>fval x - text_value ip fp\<bar> \<le> text_value ip fp / 2 ^ 64"
proof -
  let ?v = "text_value ip fp" and ?m = "read_digits (ip @ fp)"
  let ?x = "\<lparr>bf_prec = 64, bf_val = setExpAndRound 64 ?v\<rparr>"
  have pos: "0 < ?v" using assms(5) by (simp add: text_value_def)
  have ten: "(10 :: rat) ^ n \<le> 2 powi (4 * int n)" for n
    using ten_power [of n, where 'a = rat] by (simp add: power_int_def nat_mult_distrib)
  have "?m < 10 ^ (length ip + length fp)"
    using digits_onto_bounds [of "ip @ fp" 0] assms(1,2) unfolding read_digits_onto by simp
  then have "rat_of_int ?m < of_int (10 ^ (length ip + length fp))" by (simp only: of_int_less_iff)
  then have "?v < 10 ^ length ip" by (simp add: text_value_def power_add divide_less_eq)
  then have "2 powi (bf_exp ?v - 1) < (2 :: rat) powi (4 * int (length ip))"
    using bf_exp_bounds(1) [of ?v] ten [of "length ip"] pos by simp
  then have up: "bf_exp ?v < 4 * int (length ip) + 1" unfolding powi_less_iff by simp
  have "1 \<le> rat_of_int ?m" using assms(5) by simp
  then have "1 / 10 ^ length fp \<le> ?v" by (simp add: text_value_def divide_right_mono)
  moreover have "2 powi (- (4 * int (length fp))) \<le> 1 / (10 :: rat) ^ length fp"
    using ten [of "length fp"] by (simp add: power_int_minus divide_inverse le_imp_inverse_le)
  ultimately have "2 powi (- (4 * int (length fp))) < (2 :: rat) powi bf_exp ?v"
    using bf_exp_bounds(2) [of ?v] pos by simp
  then have down: "- (4 * int (length fp)) < bf_exp ?v" unfolding powi_less_iff by simp
  have range: "\<bar>bf_exp ?v\<bar> < int (4 * (length ip + length fp) + 2)" using up down by simp
  note r = round_in_range [OF pos _ range]
  have "setExpAndRound 64 ?v = BFin (rnd 64 ?v)" using assms(3) by (intro r(1)) simp_all
  then have "fval ?x = rnd 64 ?v" by simp
  moreover have "priced (4 * (length ip + length fp) + 2) ?x" using assms(3) by (intro r(2)) simp_all
  ultimately show ?thesis
    using decimal_text [OF assms] rnd_relative [OF pos, of 64] by simp
qed

theorem price_text_accurate_witness:
  "\<exists>x. Float64StringToBigFloat ''0.07946600'' = Inr x \<and> fval x = rnd 64 (7946600 / 100000000)"
proof -
  have "list_all is_digit ''0'' \<and> list_all is_digit ''07946600''" by code_simp
  moreover have "read_digits (''0'' @ ''07946600'') = 7946600" by code_simp
  ultimately show ?thesis
    using price_text_accurate [of "''0''" "''07946600''"] by (auto simp: text_value_def)
qed

end
