(* ===== verification/Json_Value.thy ===== *)
theory Json_Value
  imports Float_Text Kv_Store
begin

text \<open>
  What the sources use of \<open>encoding/json\<close>: \<open>json.NewDecoder(body).Decode(&v)\<close> and \<open>json.Unmarshal\<close> into
  structs, slices, maps, strings and numbers. A text is cut where the scanner of theory Go_Json ends its
  first value, read into a tree, and the tree is stored into the Go value, whose fields keep what they
  have where the text says nothing or \<open>null\<close>. Any error makes the call fail, so an error is nothing.
  Bytes from 128 on are taken as they are, and field names are matched by the case of ASCII letters.
\<close>

section \<open>Trees\<close>

datatype json = JNull | JBool bool | JNum string | JStr string | JArr "json list" | JObj "(string \<times> json) list"

text \<open>The tokens of a text the scanner has accepted; of a string what stands between the quotes.\<close>

datatype json_token = TPunct char | TStr string | TWord string

datatype lex_mode = LexOut | LexStr | LexEsc | LexWord

definition is_punct :: "char \<Rightarrow> bool" where
  "is_punct c = (c \<in> set ''{}[]:,'')"

text \<open>What ends a word: the word and the token the character is by itself.\<close>

definition lex_char :: "char \<Rightarrow> json_token list" where
  "lex_char c = (if is_punct c then [TPunct c] else [])"

fun lex :: "lex_mode \<Rightarrow> string \<Rightarrow> string \<Rightarrow> json_token list" where
  "lex m acc [] = (if m = LexWord then [TWord (rev acc)] else [])"
| "lex LexOut acc (c # cs) =
     (if c = CHR 0x22 then lex LexStr [] cs
      else if is_space c \<or> is_punct c then lex_char c @ lex LexOut [] cs
      else lex LexWord [c] cs)"
| "lex LexStr acc (c # cs) =
     (if c = CHR 0x22 then TStr (rev acc) # lex LexOut [] cs
      else if c = CHR 0x5C then lex LexEsc (c # acc) cs
      else lex LexStr (c # acc) cs)"
| "lex LexEsc acc (c # cs) = lex LexStr (c # acc) cs"
| "lex LexWord acc (c # cs) =
     (if is_space c \<or> is_punct c then TWord (rev acc) # lex_char c @ lex LexOut [] cs
      else lex LexWord (c # acc) cs)"

section \<open>Strings\<close>

definition hex_val :: "char \<Rightarrow> int" where
  "hex_val c = digit_of c"

definition code_unit :: "string \<Rightarrow> int" where
  "code_unit s = foldl (\<lambda>n c. 16 * n + hex_val c) 0 s"

text \<open>The UTF-8 bytes of a code point.\<close>

definition utf8 :: "int \<Rightarrow> string" where
  "utf8 n =
     map char_of
       (if n < 128 then [n]
        else if n < 2048 then [192 + n div 64, 128 + n mod 64]
        else if n < 65536 then [224 + n div 4096, 128 + n div 64 mod 64, 128 + n mod 64]
        else [240 + n div 262144, 128 + n div 4096 mod 64, 128 + n div 64 mod 64, 128 + n mod 64])"

definition simple_escape :: "char \<Rightarrow> char" where
  "simple_escape c =
     (if c = CHR ''b'' then CHR 0x08 else if c = CHR ''f'' then CHR 0x0C else if c = CHR ''n'' then CHR 0x0A
      else if c = CHR ''r'' then CHR 0x0D else if c = CHR ''t'' then CHR 0x09 else c)"

text \<open>The string between the quotes; half a surrogate pair is the replacement character.\<close>

function unquote :: "string \<Rightarrow> string" where
  "unquote s =
     (case s of
        [] \<Rightarrow> []
      | c # cs \<Rightarrow>
          if c \<noteq> CHR 0x5C then c # unquote cs
          else case cs of
            [] \<Rightarrow> []
          | e # ds \<Rightarrow>
              if e \<noteq> CHR ''u'' then simple_escape e # unquote ds
              else
                let u = code_unit (take 4 ds); v = code_unit (take 4 (drop 6 ds)) in
                if 0xD800 \<le> u \<and> u < 0xDC00 \<and> take 2 (drop 4 ds) = [CHR 0x5C, CHR ''u''] \<and> 0xDC00 \<le> v \<and> v < 0xE000
                then utf8 (0x10000 + (u - 0xD800) * 0x400 + (v - 0xDC00)) @ unquote (drop 10 ds)
                else (if 0xD800 \<le> u \<and> u < 0xE000 then utf8 0xFFFD else utf8 u) @ unquote (drop 4 ds))"
  by pat_completeness auto
termination
  by (relation "measure length") auto

declare unquote.simps [simp del]

section \<open>Reading the tree\<close>

text \<open>The objects and arrays that are open: an object with its members and the key whose value comes next.\<close>

datatype json_frame = FArr "json list" | FObj "(string \<times> json) list" "string option"

text \<open>A value goes into the innermost open one, or is the whole.\<close>

fun json_put :: "json \<Rightarrow> json_frame list \<Rightarrow> json_frame list \<times> json option" where
  "json_put v [] = ([], Some v)"
| "json_put v (FArr vs # fs) = (FArr (vs @ [v]) # fs, None)"
| "json_put v (FObj ms (Some k) # fs) = (FObj (ms @ [(k, v)]) None # fs, None)"
| "json_put v (FObj ms None # fs) = (case v of JStr k \<Rightarrow> (FObj ms (Some k) # fs, None) | _ \<Rightarrow> (FObj ms None # fs, None))"

definition json_close :: "json_frame list \<Rightarrow> json_frame list \<times> json option" where
  "json_close fs = (case fs of
     FArr vs # gs \<Rightarrow> json_put (JArr vs) gs
   | FObj ms _ # gs \<Rightarrow> json_put (JObj ms) gs
   | [] \<Rightarrow> ([], None))"

definition word_value :: "string \<Rightarrow> json" where
  "word_value w = (if w = ''null'' then JNull else if w = ''true'' then JBool True
     else if w = ''false'' then JBool False else JNum w)"

fun json_build :: "json_token list \<Rightarrow> json_frame list \<Rightarrow> json option" where
  "json_build [] fs = None"
| "json_build (t # ts) fs =
     (let (gs, v) =
        (case t of
           TStr s \<Rightarrow> json_put (JStr (unquote s)) fs
         | TWord w \<Rightarrow> json_put (word_value w) fs
         | TPunct c \<Rightarrow>
             if c = CHR ''{'' then (FObj [] None # fs, None)
             else if c = CHR ''['' then (FArr [] # fs, None)
             else if c = CHR ''}'' \<or> c = CHR '']'' then json_close fs
             else (fs, None)) in
      case v of Some x \<Rightarrow> Some x | None \<Rightarrow> json_build ts gs)"

text \<open>The first value of a text that begins with an object or array: up to the bracket that ends it.\<close>

fun first_value :: "jstate \<Rightarrow> string \<Rightarrow> string option" where
  "first_value st [] = None"
| "first_value st (c # cs) =
     (let st' = json_step st c in
      if fst st' = JError then None
      else if fst st' = EndTop then Some [c]
      else map_option ((#) c) (first_value st' cs))"

text \<open>\<open>Decode\<close> reads one value and leaves what follows; a value that is none of object, array and \<open>null\<close>
  fits none of the types the sources decode into. \<open>Unmarshal\<close> wants the whole text to be one value.\<close>

definition json_decode :: "string \<Rightarrow> json option" where
  "json_decode s =
     (let t = dropWhile is_space s in
      if take 1 t = ''{'' \<or> take 1 t = ''['' then
        (case first_value (BeginValue, []) t of None \<Rightarrow> None | Some u \<Rightarrow> json_build (lex LexOut [] u) [])
      else if take 4 t = ''null'' then Some JNull
      else None)"

definition json_unmarshal :: "string \<Rightarrow> json option" where
  "json_unmarshal s = (if json_scan s then json_build (lex LexOut [] s) [] else None)"

section \<open>Storing into Go values\<close>

text \<open>A decoder takes the tree and the value that is there.\<close>

type_synonym 'a json_into = "json \<Rightarrow> 'a \<Rightarrow> 'a option"

definition into_string :: "string json_into" where
  "into_string j old = (case j of JStr s \<Rightarrow> Some s | JNull \<Rightarrow> Some old | _ \<Rightarrow> None)"

definition into_bool :: "bool json_into" where
  "into_bool j old = (case j of JBool b \<Rightarrow> Some b | JNull \<Rightarrow> Some old | _ \<Rightarrow> None)"

definition into_float64 :: "big_val json_into" where
  "into_float64 j old = (case j of JNum t \<Rightarrow> ParseFloat t | JNull \<Rightarrow> Some old | _ \<Rightarrow> None)"

text \<open>An integer token without fraction and exponent, in the range of \<open>int64\<close>.\<close>

definition into_int64 :: "int json_into" where
  "into_int64 j old = (case j of
     JNum t \<Rightarrow>
       let ds = (if take 1 t = ''-'' then drop 1 t else t);
           n = (if take 1 t = ''-'' then - read_digits ds else read_digits ds) in
       if list_all is_digit ds \<and> - (2 ^ 63) \<le> n \<and> n < 2 ^ 63 then Some n else None
   | JNull \<Rightarrow> Some old
   | _ \<Rightarrow> None)"

definition into_uint32 :: "32 word json_into" where
  "into_uint32 j old = (case j of
     JNum t \<Rightarrow> if list_all is_digit t \<and> read_digits t < 2 ^ 32 then Some (word_of_int (read_digits t)) else None
   | JNull \<Rightarrow> Some old
   | _ \<Rightarrow> None)"

definition into_int32 :: "32 word json_into" where
  "into_int32 j old =
     (case into_int64 j (sint old) of
        None \<Rightarrow> None
      | Some n \<Rightarrow> if - (2 ^ 31) \<le> n \<and> n < 2 ^ 31 then Some (word_of_int n) else None)"

definition into_uint64 :: "int json_into" where
  "into_uint64 j old = (case j of
     JNum t \<Rightarrow> if list_all is_digit t \<and> read_digits t < 2 ^ 64 then Some (read_digits t) else None
   | JNull \<Rightarrow> Some old
   | _ \<Rightarrow> None)"

text \<open>\<open>strconv.ParseInt\<close> and \<open>ParseUint\<close> with base 10 and 64 bits.\<close>

definition ParseUint64 :: "string \<Rightarrow> int res" where
  "ParseUint64 s =
     (if s = [] \<or> \<not> list_all is_digit s then Inl (Errorf ''invalid syntax'')
      else if 2 ^ 64 \<le> read_digits s then Inl (Errorf ''value out of range'')
      else Inr (read_digits s))"

definition ParseInt64 :: "string \<Rightarrow> int res" where
  "ParseInt64 s =
     (let ds = (if take 1 s = ''-'' \<or> take 1 s = ''+'' then drop 1 s else s);
          n = (if take 1 s = ''-'' then - read_digits ds else read_digits ds) in
      if ds = [] \<or> \<not> list_all is_digit ds then Inl (Errorf ''invalid syntax'')
      else if n < - (2 ^ 63) \<or> 2 ^ 63 \<le> n then Inl (Errorf ''value out of range'')
      else Inr n)"

text \<open>An element is stored into the one a former array has left there, or into a zero value.\<close>

fun into_all :: "'a json_into \<Rightarrow> 'a \<Rightarrow> json list \<Rightarrow> 'a list \<Rightarrow> 'a list option" where
  "into_all f zero [] old = Some []"
| "into_all f zero (j # js) old =
     (case f j (case old of [] \<Rightarrow> zero | y # _ \<Rightarrow> y) of
        None \<Rightarrow> None
      | Some x \<Rightarrow> map_option ((#) x) (into_all f zero js (drop 1 old)))"

definition into_slice :: "'a json_into \<Rightarrow> 'a \<Rightarrow> 'a list json_into" where
  "into_slice f zero j old = (case j of JArr js \<Rightarrow> into_all f zero js old | JNull \<Rightarrow> Some [] | _ \<Rightarrow> None)"

fun into_members :: "'a json_into \<Rightarrow> 'a \<Rightarrow> (string \<times> json) list \<Rightarrow> (string, 'a) gomap \<Rightarrow> (string, 'a) gomap option" where
  "into_members f zero [] m = Some m"
| "into_members f zero ((k, j) # ms) m =
     (case f j zero of None \<Rightarrow> None | Some x \<Rightarrow> into_members f zero ms (gm_set k x m))"

definition into_map :: "'a json_into \<Rightarrow> 'a \<Rightarrow> (string, 'a) gomap json_into" where
  "into_map f zero j old = (case j of JObj ms \<Rightarrow> into_members f zero ms old | JNull \<Rightarrow> Some [] | _ \<Rightarrow> None)"

text \<open>The fields of a struct by name, each with how a tree is stored into it. A member goes to the field of
  exactly its name, else to the one of its name up to case, else nowhere.\<close>

definition field_of :: "(string \<times> 'a json_into) list \<Rightarrow> string \<Rightarrow> 'a json_into option" where
  "field_of fs k =
     (case map_of fs k of
        Some f \<Rightarrow> Some f
      | None \<Rightarrow> map_option snd (find (\<lambda>(n, _). ToLower n = ToLower k) fs))"

fun into_fields :: "(string \<times> 'a json_into) list \<Rightarrow> (string \<times> json) list \<Rightarrow> 'a \<Rightarrow> 'a option" where
  "into_fields fs [] x = Some x"
| "into_fields fs ((k, j) # ms) x =
     (case field_of fs k of
        None \<Rightarrow> into_fields fs ms x
      | Some f \<Rightarrow> (case f j x of None \<Rightarrow> None | Some y \<Rightarrow> into_fields fs ms y))"

definition into_struct :: "(string \<times> 'a json_into) list \<Rightarrow> 'a json_into" where
  "into_struct fs j old = (case j of JObj ms \<Rightarrow> into_fields fs ms old | JNull \<Rightarrow> Some old | _ \<Rightarrow> None)"

text \<open>A field by its name, its decoder, and how it is read and written.\<close>

definition json_field :: "string \<Rightarrow> 'b json_into \<Rightarrow> ('a \<Rightarrow> 'b) \<Rightarrow> ('b \<Rightarrow> 'a \<Rightarrow> 'a) \<Rightarrow> string \<times> 'a json_into" where
  "json_field n f get put = (n, \<lambda>j x. map_option (\<lambda>y. put y x) (f j (get x)))"

definition Decode_into :: "'a json_into \<Rightarrow> 'a \<Rightarrow> string \<Rightarrow> 'a option" where
  "Decode_into f zero s = (case json_decode s of None \<Rightarrow> None | Some j \<Rightarrow> f j zero)"

definition Unmarshal_into :: "'a json_into \<Rightarrow> 'a \<Rightarrow> string \<Rightarrow> 'a option" where
  "Unmarshal_into f zero s = (case json_unmarshal s of None \<Rightarrow> None | Some j \<Rightarrow> f j zero)"

end
