(* ===== verification/Api_Sources.thy ===== *)
theory Api_Sources
  imports Json_Value Sidecar
begin

text \<open>
  \<open>providers/apis\<close>: the data handlers of the REST sources. Each makes the URL of a request, remembers
  the tickers it asked for, and turns the JSON of the answer into a resolved price or an error code for
  the tickers. \<open>ParseResponse\<close> reads the clock once. The body of a response is read to its end.
\<close>

section \<open>Error codes\<close>

definition ErrorUnknownPair :: int where "ErrorUnknownPair = 3"
definition ErrorNoResponse :: int where "ErrorNoResponse = 7"
definition ErrorInvalidResponse :: int where "ErrorInvalidResponse = 8"
definition ErrorFailedToParsePrice :: int where "ErrorFailedToParsePrice = 10"
definition ErrorFailedToDecode :: int where "ErrorFailedToDecode = 12"
definition ErrorAPIGeneral :: int where "ErrorAPIGeneral = 13"

section \<open>Strings\<close>

text \<open>\<open>fmt.Sprintf\<close> of string operands. A verb is \<open>%s\<close>, \<open>%%\<close> or a letter that is wrong for a string;
  flags, widths and the other verbs of strings are outside the model.\<close>

fun sprintf_extra :: "string list \<Rightarrow> string" where
  "sprintf_extra [] = []"
| "sprintf_extra [a] = ''string='' @ a"
| "sprintf_extra (a # as) = ''string='' @ a @ '', '' @ sprintf_extra as"

fun Sprintf :: "string \<Rightarrow> string list \<Rightarrow> string" where
  "Sprintf [] as = (if as = [] then [] else ''%!(EXTRA '' @ sprintf_extra as @ '')'')"
| "Sprintf [c] as = (if c = CHR ''%'' then ''%!(NOVERB)'' else [c]) @ Sprintf [] as"
| "Sprintf (c # d # f) as =
     (if c \<noteq> CHR ''%'' then c # Sprintf (d # f) as
      else if d = CHR ''%'' then CHR ''%'' # Sprintf f as
      else case as of
        [] \<Rightarrow> ''%!'' @ d # ''(MISSING)'' @ Sprintf f []
      | a # bs \<Rightarrow> (if d = CHR ''s'' then a else ''%!'' @ d # ''(string='' @ a @ '')'') @ Sprintf f bs)"

definition TrimSuffix :: "string \<Rightarrow> string \<Rightarrow> string" where
  "TrimSuffix s suffix =
     (if length suffix \<le> length s \<and> drop (length s - length suffix) s = suffix
      then take (length s - length suffix) s else s)"

text \<open>The bytes of a body as a text.\<close>

definition body_text :: "http_response \<Rightarrow> string" where
  "body_text resp = map (\<lambda>b. char_of (unat b)) (hr_body resp)"

section \<open>Handlers\<close>

record api_handler =
  ah_api :: api_config
  ah_cache :: provider_tickers

type_synonym price_response = "(provider_ticker, big_float option) get_response"

text \<open>What the constructors check before they return a handler with an empty cache.\<close>

definition checked_handler :: "string \<Rightarrow> api_config \<Rightarrow> api_handler res" where
  "checked_handler name api =
     (if ac_name api \<noteq> name then Inl (Errorf ''expected api config name'')
      else if \<not> ac_enabled api then Inl (Errorf ''api config is not enabled'')
      else bind_res (mapErr (Wrapf ''invalid api config'') (APIConfig_ValidateBasic api)) (\<lambda>_.
           Inr \<lparr>ah_api = api, ah_cache = NewProviderTickers []\<rparr>))"

definition endpoint_url :: "api_handler \<Rightarrow> string res" where
  "endpoint_url h =
     (case ac_endpoints (ah_api h) of [] \<Rightarrow> Inl (Panic ''index out of range'') | e # _ \<Rightarrow> Inr (ep_url e))"

definition cache_tickers :: "provider_ticker list \<Rightarrow> api_handler \<Rightarrow> api_handler" where
  "cache_tickers tickers h = h\<lparr>ah_cache := fold Add tickers (ah_cache h)\<rparr>"

subsection \<open>Answers\<close>

text \<open>The two maps \<open>ParseResponse\<close> fills: the resolved prices and the error codes of the others.\<close>

type_synonym price_answer = "(provider_ticker, big_float option resolved_result) gomap \<times> (provider_ticker, int) gomap"

definition put_price :: "int \<Rightarrow> provider_ticker \<Rightarrow> big_float \<Rightarrow> price_answer \<Rightarrow> price_answer" where
  "put_price now ticker price = (\<lambda>(resolved, unresolved). (gm_set ticker (NewResult (Some price) now) resolved, unresolved))"

definition put_code :: "int \<Rightarrow> provider_ticker \<Rightarrow> price_answer \<Rightarrow> price_answer" where
  "put_code code ticker = (\<lambda>(resolved, unresolved). (resolved, gm_set ticker code unresolved))"

text \<open>A price text is parsed, or its ticker is unresolved.\<close>

definition put_text :: "int \<Rightarrow> provider_ticker \<Rightarrow> string \<Rightarrow> price_answer \<Rightarrow> price_answer res" where
  "put_text now ticker price a =
     (case Float64StringToBigFloat price of
        Inl (Panic p) \<Rightarrow> Inl (Panic p)
      | Inl _ \<Rightarrow> Inr (put_code ErrorFailedToParsePrice ticker a)
      | Inr x \<Rightarrow> Inr (put_price now ticker x a))"

fun fold_res :: "('a \<Rightarrow> 's \<Rightarrow> 's res) \<Rightarrow> 'a list \<Rightarrow> 's \<Rightarrow> 's res" where
  "fold_res f [] s = Inr s"
| "fold_res f (x # xs) s = bind_res (f x s) (fold_res f xs)"

text \<open>The last loop of the parsers: tickers without an answer get a code.\<close>

definition no_response :: "provider_ticker \<Rightarrow> price_answer \<Rightarrow> price_answer" where
  "no_response ticker a =
     (if gm_get (fst a) ticker = None \<and> gm_get (snd a) ticker = None then put_code ErrorNoResponse ticker a else a)"

definition to_response :: "price_answer \<Rightarrow> price_response" where
  "to_response a = NewGetResponse (fst a) (snd a)"

definition answer :: "provider_ticker list \<Rightarrow> price_answer res \<Rightarrow> price_response res" where
  "answer tickers r =
     bind_res r (\<lambda>a. Inr (to_response (fold no_response tickers a)))"

text \<open>A body that does not decode.\<close>

definition with_body ::
    "'a json_into \<Rightarrow> 'a \<Rightarrow> provider_ticker list \<Rightarrow> http_response \<Rightarrow> ('a \<Rightarrow> price_response res) \<Rightarrow> price_response res" where
  "with_body f zero tickers resp parse =
     (case Decode_into f zero (body_text resp) of
        None \<Rightarrow> Inr (NewGetResponseWithErr tickers ErrorFailedToDecode)
      | Some result \<Rightarrow> parse result)"

section \<open>Binance\<close>

record binance_data =
  bd_symbol :: string
  bd_price :: string

definition binance_Name :: string where "binance_Name = ''binance_api''"
definition binance_Quotation :: string where "binance_Quotation = ''%22''"
definition binance_Separator :: string where "binance_Separator = '',''"
definition binance_LeftBracket :: string where "binance_LeftBracket = ''%5B''"
definition binance_RightBracket :: string where "binance_RightBracket = ''%5D''"

definition binance_NewAPIHandler :: "api_config \<Rightarrow> api_handler res" where
  "binance_NewAPIHandler api = checked_handler binance_Name api"

definition binance_CreateURL :: "provider_ticker list \<Rightarrow> api_handler \<Rightarrow> string res \<times> api_handler" where
  "binance_CreateURL tickers h =
     (let tickerStrings = concat (map (\<lambda>t.
            binance_Quotation @ pt_off_chain_ticker t @ binance_Quotation @ binance_Separator) tickers);
          h' = cache_tickers tickers h in
      if tickerStrings = [] then (Inl (Errorf ''empty url created. invalid or no ticker were provided''), h')
      else
        (bind_res (endpoint_url h') (\<lambda>url.
           Inr (Sprintf url [binance_LeftBracket, TrimSuffix tickerStrings binance_Separator, binance_RightBracket])), h'))"

definition binance_Decode :: "binance_data list json_into" where
  "binance_Decode = into_slice (into_struct
     [json_field ''symbol'' into_string bd_symbol (\<lambda>s d. d\<lparr>bd_symbol := s\<rparr>),
      json_field ''price'' into_string bd_price (\<lambda>s d. d\<lparr>bd_price := s\<rparr>)]) \<lparr>bd_symbol = [], bd_price = []\<rparr>"

definition binance_entry :: "int \<Rightarrow> provider_tickers \<Rightarrow> binance_data \<Rightarrow> price_answer \<Rightarrow> price_answer res" where
  "binance_entry now cache data a =
     (case FromOffChainTicker cache (bd_symbol data) of None \<Rightarrow> Inr a | Some ticker \<Rightarrow> put_text now ticker (bd_price data) a)"

definition binance_ParseResponse ::
    "int \<Rightarrow> provider_ticker list \<Rightarrow> http_response \<Rightarrow> api_handler \<Rightarrow> price_response res" where
  "binance_ParseResponse now tickers resp h =
     with_body binance_Decode [] tickers resp (\<lambda>result.
       answer tickers (fold_res (binance_entry now (ah_cache h)) result ([], [])))"

section \<open>Bitstamp\<close>

record market_ticker_data =
  md_last :: string
  md_pair :: string

definition bitstamp_Name :: string where "bitstamp_Name = ''bitstamp_api''"

definition bitstamp_NewAPIHandler :: "api_config \<Rightarrow> api_handler res" where
  "bitstamp_NewAPIHandler api = checked_handler bitstamp_Name api"

definition bitstamp_CreateURL :: "provider_ticker list \<Rightarrow> api_handler \<Rightarrow> string res \<times> api_handler" where
  "bitstamp_CreateURL tickers h =
     (if tickers = [] then (Inl (Errorf ''no tickers provided''), h)
      else (endpoint_url h, cache_tickers tickers h))"

definition bitstamp_Decode :: "market_ticker_data list json_into" where
  "bitstamp_Decode = into_slice (into_struct
     [json_field ''last'' into_string md_last (\<lambda>s d. d\<lparr>md_last := s\<rparr>),
      json_field ''pair'' into_string md_pair (\<lambda>s d. d\<lparr>md_pair := s\<rparr>)]) \<lparr>md_last = [], md_pair = []\<rparr>"

definition bitstamp_entry :: "int \<Rightarrow> provider_tickers \<Rightarrow> market_ticker_data \<Rightarrow> price_answer \<Rightarrow> price_answer res" where
  "bitstamp_entry now cache feed a =
     (case FromOffChainTicker cache (md_pair feed) of None \<Rightarrow> Inr a | Some ticker \<Rightarrow> put_text now ticker (md_last feed) a)"

definition bitstamp_ParseResponse ::
    "int \<Rightarrow> provider_ticker list \<Rightarrow> http_response \<Rightarrow> api_handler \<Rightarrow> price_response res" where
  "bitstamp_ParseResponse now tickers resp h =
     with_body bitstamp_Decode [] tickers resp (\<lambda>result.
       answer tickers (fold_res (bitstamp_entry now (ah_cache h)) result ([], [])))"

section \<open>Coinbase\<close>

text \<open>One ticker per request and no cache.\<close>

record coinbase_data =
  cd_amount :: string
  cd_currency :: string

definition coinbase_Name :: string where "coinbase_Name = ''coinbase_api''"

definition coinbase_NewAPIHandler :: "api_config \<Rightarrow> api_handler res" where
  "coinbase_NewAPIHandler api = checked_handler coinbase_Name api"

definition coinbase_CreateURL :: "provider_ticker list \<Rightarrow> api_handler \<Rightarrow> string res \<times> api_handler" where
  "coinbase_CreateURL tickers h =
     (case tickers of
        [t] \<Rightarrow> (bind_res (endpoint_url h) (\<lambda>url. Inr (Sprintf url [pt_off_chain_ticker t])), h)
      | _ \<Rightarrow> (Inl (Errorf ''expected 1 ticker''), h))"

definition coinbase_Data :: "coinbase_data json_into" where
  "coinbase_Data = into_struct
     [json_field ''amount'' into_string cd_amount (\<lambda>s d. d\<lparr>cd_amount := s\<rparr>),
      json_field ''currency'' into_string cd_currency (\<lambda>s d. d\<lparr>cd_currency := s\<rparr>)]"

text \<open>The response is a struct of one field, its data.\<close>

definition coinbase_Decode :: "coinbase_data json_into" where
  "coinbase_Decode = into_struct [json_field ''data'' coinbase_Data (\<lambda>d. d) (\<lambda>d _. d)]"

definition coinbase_ParseResponse ::
    "int \<Rightarrow> provider_ticker list \<Rightarrow> http_response \<Rightarrow> api_handler \<Rightarrow> price_response res" where
  "coinbase_ParseResponse now tickers resp h =
     (case tickers of
        [ticker] \<Rightarrow>
          with_body coinbase_Decode \<lparr>cd_amount = [], cd_currency = []\<rparr> tickers resp (\<lambda>result.
            case Float64StringToBigFloat (cd_amount result) of
              Inl (Panic p) \<Rightarrow> Inl (Panic p)
            | Inl _ \<Rightarrow> Inr (NewGetResponseWithErr tickers ErrorFailedToParsePrice)
            | Inr price \<Rightarrow> Inr (NewGetResponse [(ticker, NewResult (Some price) now)] []))
      | _ \<Rightarrow> Inr (NewGetResponseWithErr tickers ErrorInvalidResponse))"

section \<open>CoinGecko\<close>

definition coingecko_Name :: string where "coingecko_Name = ''coingecko_api''"
definition PairPriceEndpoint :: string where "PairPriceEndpoint = ''/simple/price?ids=%s&vs_currencies=%s''"
definition coingecko_Precision :: string where "coingecko_Precision = ''&precision=18''"
definition coingecko_TickerSeparator :: char where "coingecko_TickerSeparator = CHR ''/''"

definition coingecko_NewAPIHandler :: "api_config \<Rightarrow> api_handler res" where
  "coingecko_NewAPIHandler api = checked_handler coingecko_Name api"

text \<open>The loop of \<open>getUniqueBaseAndQuoteDenoms\<close>: tickers before a malformed one stay in the cache.\<close>

fun base_and_quote_loop ::
    "provider_ticker list \<Rightarrow> api_handler \<Rightarrow> string list \<Rightarrow> string list \<Rightarrow> (string list \<times> string list) res \<times> api_handler" where
  "base_and_quote_loop [] h bases quotes = (Inr (bases, quotes), h)"
| "base_and_quote_loop (ticker # tickers) h bases quotes =
     (case split_on coingecko_TickerSeparator (pt_off_chain_ticker ticker) of
        [base, quote] \<Rightarrow>
          base_and_quote_loop tickers (cache_tickers [ticker] h)
            (if base \<in> set bases then bases else bases @ [base])
            (if quote \<in> set quotes then quotes else quotes @ [quote])
      | _ \<Rightarrow> (Inl (Errorf ''ticker is not formatted correctly''), h))"

definition getUniqueBaseAndQuoteDenoms ::
    "provider_ticker list \<Rightarrow> api_handler \<Rightarrow> (string \<times> string) res \<times> api_handler" where
  "getUniqueBaseAndQuoteDenoms tickers h =
     (if tickers = [] then (Inl (Errorf ''no tickers specified''), h)
      else
        let (r, h') = base_and_quote_loop tickers h [] [] in
        (bind_res r (\<lambda>(bases, quotes).
           if bases = [] then Inl (Errorf ''none of the base currencies are supported'')
           else if quotes = [] then Inl (Errorf ''none of the quote currencies are supported'')
           else Inr (join_with CHR '','' bases, join_with CHR '','' quotes)), h'))"

definition coingecko_CreateURL :: "provider_ticker list \<Rightarrow> api_handler \<Rightarrow> string res \<times> api_handler" where
  "coingecko_CreateURL tickers h =
     (let (r, h') = getUniqueBaseAndQuoteDenoms tickers h in
      (bind_res r (\<lambda>(bases, quotes).
         let finalEndpoint = Sprintf PairPriceEndpoint [bases, quotes] @ coingecko_Precision in
         bind_res (endpoint_url h') (\<lambda>url. Inr (url @ finalEndpoint))), h'))"

definition coingecko_Decode :: "(string, (string, big_val) gomap) gomap json_into" where
  "coingecko_Decode = into_map (into_map into_float64 (BZero False)) []"

definition coingecko_quote :: "int \<Rightarrow> provider_tickers \<Rightarrow> string \<Rightarrow> string \<times> big_val \<Rightarrow> price_answer \<Rightarrow> price_answer" where
  "coingecko_quote now cache base = (\<lambda>(quote, price) a.
     (case FromOffChainTicker cache (base @ coingecko_TickerSeparator # quote) of
        None \<Rightarrow> a
      | Some ticker \<Rightarrow> put_price now ticker (NewFloat price) a))"

definition coingecko_entry ::
    "int \<Rightarrow> provider_tickers \<Rightarrow> string \<times> (string, big_val) gomap \<Rightarrow> price_answer \<Rightarrow> price_answer" where
  "coingecko_entry now cache = (\<lambda>(base, quotes). fold (coingecko_quote now cache base) quotes)"

text \<open>No ticker is unresolved before the last loop, so that it only looks at the resolved ones.\<close>

definition coingecko_missing :: "provider_ticker \<Rightarrow> price_answer \<Rightarrow> price_answer" where
  "coingecko_missing ticker a = (if gm_get (fst a) ticker = None then put_code ErrorNoResponse ticker a else a)"

definition coingecko_ParseResponse ::
    "int \<Rightarrow> provider_ticker list \<Rightarrow> http_response \<Rightarrow> api_handler \<Rightarrow> price_response res" where
  "coingecko_ParseResponse now tickers resp h =
     with_body coingecko_Decode [] tickers resp (\<lambda>result.
       Inr (to_response (fold coingecko_missing tickers (fold (coingecko_entry now (ah_cache h)) result ([], [])))))"

section \<open>CoinMarketCap\<close>

record coinmarketcap_data =
  cm_id :: int
  cm_name :: string
  cm_symbol :: string
  cm_slug :: string
  cm_quote :: "(string, big_val) gomap"

record coinmarketcap_status =
  cs_error_code :: int
  cs_error_message :: string

record coinmarketcap_response =
  cr_data :: "(string, coinmarketcap_data) gomap"
  cr_status :: coinmarketcap_status

definition coinmarketcap_Name :: string where "coinmarketcap_Name = ''coinmarketcap_api''"
definition coinmarketcap_Endpoint :: string where "coinmarketcap_Endpoint = ''%s/v2/cryptocurrency/quotes/latest?id=%s''"
definition DefaultQuoteDenom :: string where "DefaultQuoteDenom = ''USD''"

definition coinmarketcap_NewAPIHandler :: "api_config \<Rightarrow> api_handler res" where
  "coinmarketcap_NewAPIHandler api = checked_handler coinmarketcap_Name api"

definition coinmarketcap_CreateURL :: "provider_ticker list \<Rightarrow> api_handler \<Rightarrow> string res \<times> api_handler" where
  "coinmarketcap_CreateURL tickers h =
     (let ids = map pt_off_chain_ticker tickers; h' = cache_tickers tickers h in
      if ids = [] then (Inl (Errorf ''no tickers provided''), h')
      else (bind_res (endpoint_url h') (\<lambda>url. Inr (Sprintf coinmarketcap_Endpoint [url, join_with CHR '','' ids])), h'))"

text \<open>A quote is a struct of one field, its price.\<close>

definition coinmarketcap_Quote :: "big_val json_into" where
  "coinmarketcap_Quote = into_struct [json_field ''price'' into_float64 (\<lambda>x. x) (\<lambda>x _. x)]"

definition coinmarketcap_Data :: "coinmarketcap_data json_into" where
  "coinmarketcap_Data = into_struct
     [json_field ''id'' into_int64 cm_id (\<lambda>x d. d\<lparr>cm_id := x\<rparr>),
      json_field ''name'' into_string cm_name (\<lambda>x d. d\<lparr>cm_name := x\<rparr>),
      json_field ''symbol'' into_string cm_symbol (\<lambda>x d. d\<lparr>cm_symbol := x\<rparr>),
      json_field ''slug'' into_string cm_slug (\<lambda>x d. d\<lparr>cm_slug := x\<rparr>),
      json_field ''quote'' (into_map coinmarketcap_Quote (BZero False)) cm_quote (\<lambda>x d. d\<lparr>cm_quote := x\<rparr>)]"

definition coinmarketcap_Status :: "coinmarketcap_status json_into" where
  "coinmarketcap_Status = into_struct
     [json_field ''error_code'' into_int64 cs_error_code (\<lambda>x d. d\<lparr>cs_error_code := x\<rparr>),
      json_field ''error_message'' into_string cs_error_message (\<lambda>x d. d\<lparr>cs_error_message := x\<rparr>)]"

definition zero_coinmarketcap_data :: coinmarketcap_data where
  "zero_coinmarketcap_data = \<lparr>cm_id = 0, cm_name = [], cm_symbol = [], cm_slug = [], cm_quote = []\<rparr>"

definition zero_coinmarketcap_response :: coinmarketcap_response where
  "zero_coinmarketcap_response = \<lparr>cr_data = [], cr_status = \<lparr>cs_error_code = 0, cs_error_message = []\<rparr>\<rparr>"

definition coinmarketcap_Decode :: "coinmarketcap_response json_into" where
  "coinmarketcap_Decode = into_struct
     [json_field ''data'' (into_map coinmarketcap_Data zero_coinmarketcap_data) cr_data (\<lambda>x r. r\<lparr>cr_data := x\<rparr>),
      json_field ''status'' coinmarketcap_Status cr_status (\<lambda>x r. r\<lparr>cr_status := x\<rparr>)]"

definition coinmarketcap_entry ::
    "int \<Rightarrow> provider_tickers \<Rightarrow> string \<times> coinmarketcap_data \<Rightarrow> price_answer \<Rightarrow> price_answer" where
  "coinmarketcap_entry now cache = (\<lambda>(i, tickerResponse) a.
     (case FromOffChainTicker cache i of
        None \<Rightarrow> a
      | Some ticker \<Rightarrow>
          if cm_quote tickerResponse = [] then put_code ErrorNoResponse ticker a
          else case gm_get (cm_quote tickerResponse) DefaultQuoteDenom of
            None \<Rightarrow> put_code ErrorNoResponse ticker a
          | Some price \<Rightarrow> put_price now ticker (NewFloat price) a))"

text \<open>Tickers that are not in the data get no answer.\<close>

definition coinmarketcap_ParseResponse ::
    "int \<Rightarrow> provider_ticker list \<Rightarrow> http_response \<Rightarrow> api_handler \<Rightarrow> price_response res" where
  "coinmarketcap_ParseResponse now tickers resp h =
     with_body coinmarketcap_Decode zero_coinmarketcap_response tickers resp (\<lambda>result.
       if cs_error_code (cr_status result) \<noteq> 0 then Inr (NewGetResponseWithErr tickers ErrorAPIGeneral)
       else Inr (to_response (fold (coinmarketcap_entry now (ah_cache h)) (cr_data result) ([], []))))"

section \<open>GeckoTerminal\<close>

record gecko_terminal_data =
  gt_id :: string
  gt_type :: string
  gt_token_prices :: "(string, string) gomap"

definition geckoterminal_Name :: string where "geckoterminal_Name = ''gecko_terminal_api''"
definition ExpectedResponseType :: string where "ExpectedResponseType = ''simple_token_price''"

definition geckoterminal_NewAPIHandler :: "api_config \<Rightarrow> api_handler res" where
  "geckoterminal_NewAPIHandler api = checked_handler geckoterminal_Name api"

definition geckoterminal_CreateURL :: "provider_ticker list \<Rightarrow> api_handler \<Rightarrow> string res \<times> api_handler" where
  "geckoterminal_CreateURL tickers h =
     (let h' = cache_tickers tickers h in
      (bind_res (endpoint_url h') (\<lambda>url. Inr (Sprintf url [join_with CHR '','' (map pt_off_chain_ticker tickers)])), h'))"

text \<open>The attributes are a struct of one field, the prices of the tokens, and the response one of its data.\<close>

definition geckoterminal_Data :: "gecko_terminal_data json_into" where
  "geckoterminal_Data = into_struct
     [json_field ''id'' into_string gt_id (\<lambda>x d. d\<lparr>gt_id := x\<rparr>),
      json_field ''type'' into_string gt_type (\<lambda>x d. d\<lparr>gt_type := x\<rparr>),
      json_field ''attributes''
        (into_struct [json_field ''token_prices'' (into_map into_string []) (\<lambda>m. m) (\<lambda>m _. m)])
        gt_token_prices (\<lambda>x d. d\<lparr>gt_token_prices := x\<rparr>)]"

definition geckoterminal_Decode :: "gecko_terminal_data json_into" where
  "geckoterminal_Decode = into_struct [json_field ''data'' geckoterminal_Data (\<lambda>d. d) (\<lambda>d _. d)]"

text \<open>An address nobody asked for ends the loop, and the answer is an error for all tickers.\<close>

definition geckoterminal_entry ::
    "int \<Rightarrow> provider_tickers \<Rightarrow> string \<times> string \<Rightarrow> price_answer \<Rightarrow> price_answer res" where
  "geckoterminal_entry now cache = (\<lambda>(address, price) a.
     (case FromOffChainTicker cache address of
        None \<Rightarrow> Inl (Errorf ''no ticker for address'')
      | Some ticker \<Rightarrow> put_text now ticker price a))"

definition geckoterminal_ParseResponse ::
    "int \<Rightarrow> provider_ticker list \<Rightarrow> http_response \<Rightarrow> api_handler \<Rightarrow> price_response res" where
  "geckoterminal_ParseResponse now tickers resp h =
     with_body geckoterminal_Decode \<lparr>gt_id = [], gt_type = [], gt_token_prices = []\<rparr> tickers resp (\<lambda>data.
       if gt_type data \<noteq> ExpectedResponseType then Inr (NewGetResponseWithErr tickers ErrorInvalidResponse)
       else case answer tickers (fold_res (geckoterminal_entry now (ah_cache h)) (gt_token_prices data) ([], [])) of
         Inl (Panic p) \<Rightarrow> Inl (Panic p)
       | Inl _ \<Rightarrow> Inr (NewGetResponseWithErr tickers ErrorUnknownPair)
       | Inr r \<Rightarrow> Inr r)"

section \<open>Kraken\<close>

definition kraken_Name :: string where "kraken_Name = ''kraken_api''"
definition kraken_Separator :: string where "kraken_Separator = '',''"

definition kraken_NewAPIHandler :: "api_config \<Rightarrow> api_handler res" where
  "kraken_NewAPIHandler api = checked_handler kraken_Name api"

definition kraken_CreateURL :: "provider_ticker list \<Rightarrow> api_handler \<Rightarrow> string res \<times> api_handler" where
  "kraken_CreateURL tickers h =
     (let tickerStrings = concat (map (\<lambda>t. pt_off_chain_ticker t @ kraken_Separator) tickers);
          h' = cache_tickers tickers h in
      if tickerStrings = [] then (Inl (Errorf ''empty url created. invalid or no ticker were provided''), h')
      else (bind_res (endpoint_url h') (\<lambda>url. Inr (Sprintf url [TrimSuffix tickerStrings kraken_Separator])), h'))"

record kraken_body =
  kb_errors :: "string list"
  kb_tickers :: "(string, string list) gomap"

text \<open>A ticker's result is a struct of one exported field, the statistics of the close price.\<close>

definition kraken_TickerResult :: "string list json_into" where
  "kraken_TickerResult = into_struct [json_field ''c'' (into_slice into_string []) (\<lambda>c. c) (\<lambda>c _. c)]"

definition kraken_Decode :: "kraken_body json_into" where
  "kraken_Decode = into_struct
     [json_field ''error'' (into_slice into_string []) kb_errors (\<lambda>x b. b\<lparr>kb_errors := x\<rparr>),
      json_field ''result'' (into_map kraken_TickerResult []) kb_tickers (\<lambda>x b. b\<lparr>kb_tickers := x\<rparr>)]"

definition LastPrice :: "string list \<Rightarrow> string res" where
  "LastPrice closePriceStats =
     (case closePriceStats of [] \<Rightarrow> Inl (Panic ''index out of range'') | p # _ \<Rightarrow> Inr p)"

definition kraken_entry :: "int \<Rightarrow> provider_tickers \<Rightarrow> string \<times> string list \<Rightarrow> price_answer \<Rightarrow> price_answer res" where
  "kraken_entry now cache = (\<lambda>(pair, stats) a.
     (case FromOffChainTicker cache pair of
        None \<Rightarrow> Inr a
      | Some ticker \<Rightarrow> bind_res (LastPrice stats) (\<lambda>price. put_text now ticker price a)))"

definition kraken_ParseResponse ::
    "int \<Rightarrow> provider_ticker list \<Rightarrow> http_response \<Rightarrow> api_handler \<Rightarrow> price_response res" where
  "kraken_ParseResponse now tickers resp h =
     with_body kraken_Decode \<lparr>kb_errors = [], kb_tickers = []\<rparr> tickers resp (\<lambda>result.
       if kb_errors result \<noteq> [] then Inr (NewGetResponseWithErr tickers ErrorInvalidResponse)
       else answer tickers (fold_res (kraken_entry now (ah_cache h)) (kb_tickers result) ([], [])))"

end
