(* ===== verification/Api_Factory.thy ===== *)
theory Api_Factory
  imports Api_Sources
begin

text \<open>
  The remaining data handlers of REST sources, Polymarket and the static source of tests, and
  \<open>providers/factories/oracle/api.go\<close>, which picks a handler by the name of the provider.
\<close>

section \<open>Polymarket\<close>

definition polymarket_Name :: string where "polymarket_Name = ''polymarket_api''"

text \<open>\<open>big.Float.SetFloat64(0.0001)\<close>: the float64 next to 1 / 10000.\<close>

definition priceAdjustmentMin :: big_val where
  "priceAdjustmentMin = (case ParseFloat ''0.0001'' of Some v \<Rightarrow> v | None \<Rightarrow> BZero False)"

definition polymarket_NewAPIHandler :: "api_config \<Rightarrow> api_handler res" where
  "polymarket_NewAPIHandler api =
     bind_res (checked_handler polymarket_Name api) (\<lambda>h.
       if length (ac_endpoints api) \<noteq> 1 then Inl (Errorf ''invalid polymarket endpoint config: expected 1 endpoint'')
       else Inr h)"

definition getMarketAndTokenFromTicker :: "provider_ticker \<Rightarrow> (string \<times> string) res" where
  "getMarketAndTokenFromTicker t =
     (case split_on CHR ''/'' (pt_off_chain_ticker t) of
        [marketID, tokenID] \<Rightarrow> Inr (marketID, tokenID)
      | _ \<Rightarrow> Inl (Errorf ''expected ticker format market_id/token_id''))"

definition polymarket_CreateURL :: "provider_ticker list \<Rightarrow> api_handler \<Rightarrow> string res \<times> api_handler" where
  "polymarket_CreateURL ids h =
     (case ids of
        [i] \<Rightarrow>
          (bind_res (getMarketAndTokenFromTicker i) (\<lambda>(marketID, _).
           bind_res (endpoint_url h) (\<lambda>url. Inr (Sprintf url [marketID]))), h)
      | _ \<Rightarrow> (Inl (Errorf ''expected 1 ticker''), h))"

subsection \<open>The response\<close>

record token_data =
  td_token_id :: string
  td_outcome :: string
  td_price :: big_val

definition polymarket_TokenData :: "token_data json_into" where
  "polymarket_TokenData = into_struct
     [json_field ''token_id'' into_string td_token_id (\<lambda>x d. d\<lparr>td_token_id := x\<rparr>),
      json_field ''outcome'' into_string td_outcome (\<lambda>x d. d\<lparr>td_outcome := x\<rparr>),
      json_field ''price'' into_float64 td_price (\<lambda>x d. d\<lparr>td_price := x\<rparr>)]"

text \<open>The strict form of RFC 3339 that \<open>time.Time\<close> reads from a JSON string.\<close>

definition leap_year :: "int \<Rightarrow> bool" where
  "leap_year y = (y mod 4 = 0 \<and> (y mod 100 \<noteq> 0 \<or> y mod 400 = 0))"

definition days_in :: "int \<Rightarrow> int \<Rightarrow> int" where
  "days_in y m = (if m = 2 then (if leap_year y then 29 else 28) else if m \<in> {4, 6, 9, 11} then 30 else 31)"

definition digits_in :: "string \<Rightarrow> nat \<Rightarrow> nat \<Rightarrow> int \<Rightarrow> int \<Rightarrow> bool" where
  "digits_in s a n lo hi =
     (let d = take n (drop a s) in
      length d = n \<and> list_all is_digit d \<and> lo \<le> read_digits d \<and> read_digits d \<le> hi)"

definition rfc3339_zone :: "string \<Rightarrow> bool" where
  "rfc3339_zone z =
     (z = ''Z'' \<or> length z = 6 \<and> z ! 0 \<in> set ''+-'' \<and> z ! 3 = CHR '':'' \<and> digits_in z 1 2 0 23 \<and> digits_in z 4 2 0 59)"

definition rfc3339 :: "string \<Rightarrow> bool" where
  "rfc3339 s =
     (20 \<le> length s \<and> digits_in s 0 4 0 9999 \<and> s ! 4 = CHR ''-'' \<and> digits_in s 5 2 1 12 \<and> s ! 7 = CHR ''-'' \<and>
      digits_in s 8 2 1 (days_in (read_digits (take 4 s)) (read_digits (take 2 (drop 5 s)))) \<and> s ! 10 = CHR ''T'' \<and>
      digits_in s 11 2 0 23 \<and> s ! 13 = CHR '':'' \<and> digits_in s 14 2 0 59 \<and> s ! 16 = CHR '':'' \<and> digits_in s 17 2 0 59 \<and>
      (let r = drop 19 s; frac = takeWhile is_digit (drop 1 r) in
       if take 1 r = ''.'' then frac \<noteq> [] \<and> rfc3339_zone (dropWhile is_digit (drop 1 r)) else rfc3339_zone r))"

text \<open>Fields that are never read are only checked: a value of another type fails the whole decoding.\<close>

definition check_field :: "string \<Rightarrow> 'b json_into \<Rightarrow> 'b \<Rightarrow> string \<times> 'a json_into" where
  "check_field n f zero = (n, \<lambda>j x. map_option (\<lambda>_. x) (f j zero))"

definition into_time :: "unit json_into" where
  "into_time j old = (case j of JNull \<Rightarrow> Some () | JStr s \<Rightarrow> if rfc3339 s then Some () else None | _ \<Rightarrow> None)"

definition into_any :: "unit json_into" where
  "into_any j old = Some ()"

definition polymarket_Rewards :: "unit json_into" where
  "polymarket_Rewards = into_struct
     [check_field ''rates'' (into_slice (into_struct
        [check_field ''asset_address'' into_string [], check_field ''rewards_daily_rate'' into_int64 0]) ()) [],
      check_field ''min_size'' into_int64 0, check_field ''max_spread'' into_float64 (BZero False)]"

text \<open>The response, of which only the tokens are read.\<close>

definition polymarket_Decode :: "token_data list json_into" where
  "polymarket_Decode = into_struct
     (map (\<lambda>n. check_field n into_bool False)
        [''enable_order_book'', ''active'', ''closed'', ''archived'', ''accepting_orders'', ''notifications_enabled'',
         ''neg_risk'', ''is_50_50_outcome''] @
      map (\<lambda>n. check_field n into_time ()) [''accepting_order_timestamp'', ''end_date_iso''] @
      map (\<lambda>n. check_field n into_int64 0) [''minimum_order_size'', ''seconds_delay'', ''maker_base_fee'', ''taker_base_fee''] @
      map (\<lambda>n. check_field n into_string [])
        [''condition_id'', ''question_id'', ''question'', ''description'', ''market_slug'', ''fpmm'', ''neg_risk_market_id'',
         ''neg_risk_request_id'', ''icon'', ''image''] @
      [check_field ''minimum_tick_size'' into_float64 (BZero False),
       check_field ''game_start_time'' into_any (),
       check_field ''rewards'' polymarket_Rewards (),
       json_field ''tokens'' (into_slice polymarket_TokenData \<lparr>td_token_id = [], td_outcome = [], td_price = BZero False\<rparr>)
         (\<lambda>ts. ts) (\<lambda>ts _. ts),
       check_field ''tags'' (into_slice into_string []) []])"

text \<open>The price of a token, where zero is switched to a minimal one.\<close>

definition token_price :: "token_data \<Rightarrow> big_float" where
  "token_price d = NewFloat (case td_price d of BZero _ \<Rightarrow> priceAdjustmentMin | v \<Rightarrow> v)"

definition polymarket_ParseResponse ::
    "int \<Rightarrow> provider_ticker list \<Rightarrow> http_response \<Rightarrow> api_handler \<Rightarrow> price_response res" where
  "polymarket_ParseResponse now ids resp h =
     (case ids of
        [i] \<Rightarrow>
          with_body polymarket_Decode [] ids resp (\<lambda>tokens.
            case getMarketAndTokenFromTicker i of
              Inl _ \<Rightarrow> Inr (NewGetResponseWithErr ids ErrorAPIGeneral)
            | Inr (_, tokenID) \<Rightarrow>
                case find (\<lambda>token. td_token_id token = tokenID) tokens of
                  None \<Rightarrow> Inr (NewGetResponseWithErr ids ErrorInvalidResponse)
                | Some tokenData \<Rightarrow> Inr (NewGetResponse [(i, NewResult (Some (token_price tokenData)) now)] []))
      | _ \<Rightarrow> Inr (NewGetResponseWithErr ids ErrorInvalidResponse))"

section \<open>The static source\<close>

definition static_Name :: string where "static_Name = ''static-mock-provider''"

text \<open>The metadata of a ticker is a struct of one field, the price.\<close>

definition MetaData_FromJSON :: "string \<Rightarrow> big_val option" where
  "MetaData_FromJSON jsonStr =
     Unmarshal_into (into_struct [json_field ''price'' into_float64 (\<lambda>x. x) (\<lambda>x _. x)]) (BZero False) jsonStr"

definition static_CreateURL :: "provider_ticker list \<Rightarrow> api_handler \<Rightarrow> string res \<times> api_handler" where
  "static_CreateURL tickers h = (Inr ''static-url'', h)"

definition static_entry :: "int \<Rightarrow> provider_ticker \<Rightarrow> price_answer \<Rightarrow> price_answer" where
  "static_entry now ticker =
     (case MetaData_FromJSON (pt_json ticker) of
        Some price \<Rightarrow> put_price now ticker (NewFloat price)
      | None \<Rightarrow> put_code ErrorFailedToParsePrice ticker)"

definition static_ParseResponse ::
    "int \<Rightarrow> provider_ticker list \<Rightarrow> http_response \<Rightarrow> api_handler \<Rightarrow> price_response res" where
  "static_ParseResponse now tickers resp h =
     Inr (to_response (fold (static_entry now) tickers ([], [])))"

definition static_Do :: "string \<Rightarrow> http_response option \<times> go_error option" where
  "static_Do url = (Some \<lparr>hr_status = 200, hr_body = map (\<lambda>c. of_nat (of_char c)) ''{\"result\": \"success\"}''\<rparr>, None)"

section \<open>The factory\<close>

text \<open>The two operations of a data handler, on its state, and what the query handler calls: the URL and then the
  parser, which finds the cache as \<open>CreateURL\<close> has left it.\<close>

record price_source =
  sr_create_url :: "provider_ticker list \<Rightarrow> api_handler \<Rightarrow> string res \<times> api_handler"
  sr_parse_response :: "int \<Rightarrow> provider_ticker list \<Rightarrow> http_response \<Rightarrow> api_handler \<Rightarrow> price_response res"

definition source_handler :: "int \<Rightarrow> price_source \<Rightarrow> api_handler \<Rightarrow> (provider_ticker, big_float option) api_data_handler" where
  "source_handler now src h =
     \<lparr>dh_create_url = (\<lambda>ids. fst (sr_create_url src ids h)),
      dh_parse_response = (\<lambda>ids resp. sr_parse_response src now ids resp (snd (sr_create_url src ids h)))\<rparr>"

text \<open>A provider is fetched with a data handler, with one and the client that makes no request, with a fetcher of its
  own (the sources of \<open>apis/defi\<close>), or with a handler outside the model (the volatile source).\<close>

datatype source_choice =
    DataHandler price_source api_handler
  | MockHandler price_source api_handler
  | OwnFetcher
  | VolatileHandler

definition no_handler :: api_handler where
  "no_handler = \<lparr>ah_api = zero_api_config, ah_cache = []\<rparr>"

definition data_handler :: "price_source \<Rightarrow> api_handler res \<Rightarrow> source_choice res" where
  "data_handler src r = bind_res r (\<lambda>h. Inr (DataHandler src h))"

definition uniswapv3_BaseName :: string where "uniswapv3_BaseName = ''uniswapv3_api''"
definition volatile_Name :: string where "volatile_Name = ''volatile-exchange-provider''"
definition raydium_Name :: string where "raydium_Name = ''raydium_api''"
definition osmosis_Name :: string where "osmosis_Name = ''osmosis_api''"

text \<open>The handlers as values of the interface.\<close>

definition binance_source :: price_source where
  "binance_source = \<lparr>sr_create_url = binance_CreateURL, sr_parse_response = binance_ParseResponse\<rparr>"

definition bitstamp_source :: price_source where
  "bitstamp_source = \<lparr>sr_create_url = bitstamp_CreateURL, sr_parse_response = bitstamp_ParseResponse\<rparr>"

definition coinbase_source :: price_source where
  "coinbase_source = \<lparr>sr_create_url = coinbase_CreateURL, sr_parse_response = coinbase_ParseResponse\<rparr>"

definition coingecko_source :: price_source where
  "coingecko_source = \<lparr>sr_create_url = coingecko_CreateURL, sr_parse_response = coingecko_ParseResponse\<rparr>"

definition coinmarketcap_source :: price_source where
  "coinmarketcap_source = \<lparr>sr_create_url = coinmarketcap_CreateURL, sr_parse_response = coinmarketcap_ParseResponse\<rparr>"

definition geckoterminal_source :: price_source where
  "geckoterminal_source = \<lparr>sr_create_url = geckoterminal_CreateURL, sr_parse_response = geckoterminal_ParseResponse\<rparr>"

definition kraken_source :: price_source where
  "kraken_source = \<lparr>sr_create_url = kraken_CreateURL, sr_parse_response = kraken_ParseResponse\<rparr>"

definition static_source :: price_source where
  "static_source = \<lparr>sr_create_url = static_CreateURL, sr_parse_response = static_ParseResponse\<rparr>"

definition polymarket_source :: price_source where
  "polymarket_source = \<lparr>sr_create_url = polymarket_CreateURL, sr_parse_response = polymarket_ParseResponse\<rparr>"

definition choose_source :: "source_config \<Rightarrow> source_choice res" where
  "choose_source cfg =
     (let name = sc_name cfg; api = sc_api cfg in
      if name = binance_Name then data_handler binance_source (binance_NewAPIHandler api)
      else if name = bitstamp_Name then data_handler bitstamp_source (bitstamp_NewAPIHandler api)
      else if name = coinbase_Name then data_handler coinbase_source (coinbase_NewAPIHandler api)
      else if name = coingecko_Name then data_handler coingecko_source (coingecko_NewAPIHandler api)
      else if name = coinmarketcap_Name then data_handler coinmarketcap_source (coinmarketcap_NewAPIHandler api)
      else if name = geckoterminal_Name then data_handler geckoterminal_source (geckoterminal_NewAPIHandler api)
      else if name = kraken_Name then data_handler kraken_source (kraken_NewAPIHandler api)
      else if take (length uniswapv3_BaseName) name = uniswapv3_BaseName then Inr OwnFetcher
      else if name = static_Name then Inr (MockHandler static_source no_handler)
      else if name = volatile_Name then Inr VolatileHandler
      else if name = raydium_Name \<or> name = osmosis_Name then Inr OwnFetcher
      else if name = polymarket_Name then data_handler polymarket_source (polymarket_NewAPIHandler api)
      else Inl (Errorf ''unknown provider''))"

definition APIQueryHandlerFactory :: "source_config \<Rightarrow> source_choice res" where
  "APIQueryHandlerFactory cfg = bind_res (SourceConfig_ValidateBasic cfg) (\<lambda>_. choose_source cfg)"

text \<open>One request of a source, through \<open>Fetch\<close>.\<close>

definition fetch_source ::
    "int \<Rightarrow> source_choice \<Rightarrow> (string \<Rightarrow> http_response option \<times> go_error option) \<Rightarrow> provider_ticker list \<Rightarrow>
     price_response res option" where
  "fetch_source now choice do_request ids =
     (case choice of
        DataHandler src h \<Rightarrow> Some (Fetch (source_handler now src h) do_request ids)
      | MockHandler src h \<Rightarrow> Some (Fetch (source_handler now src h) static_Do ids)
      | _ \<Rightarrow> None)"

end
