(* ===== verification/Json_Leaves.thy ===== *)
theory Json_Leaves
  imports Json_Value
begin

text \<open>
  What decoding into Go values keeps of a JSON text: the strings and numbers it stores were in the text, or
  are the zero values of Go. The prices of a text.
\<close>

section \<open>Leaves\<close>

function leaves :: "json \<Rightarrow> json list" where
  "leaves (JArr js) = concat (map leaves js)"
| "leaves (JObj ms) = concat (map (\<lambda>kj. leaves (snd kj)) ms)"
| "leaves JNull = [JNull]"
| "leaves (JBool b) = [JBool b]"
| "leaves (JNum w) = [JNum w]"
| "leaves (JStr s) = [JStr s]"
  by pat_completeness auto
termination
  by (relation "measure size") (auto intro!: le_imp_less_Suc elim: size_list_estimation')

lemma leaves_member: "(k, j) \<in> set ms \<Longrightarrow> set (leaves j) \<subseteq> set (leaves (JObj ms))"
  by force

lemma leaves_element: "j \<in> set js \<Longrightarrow> set (leaves j) \<subseteq> set (leaves (JArr js))"
  by force

text \<open>The prices a text can give: its strings and numbers read as prices.\<close>

definition leaf_price :: "json \<Rightarrow> big_float list" where
  "leaf_price j =
     (case j of
        JStr p \<Rightarrow> (case Float64StringToBigFloat p of Inl _ \<Rightarrow> [] | Inr x \<Rightarrow> [x])
      | JNum w \<Rightarrow> (case ParseFloat w of None \<Rightarrow> [] | Some v \<Rightarrow> [NewFloat v])
      | _ \<Rightarrow> [])"

definition text_prices :: "string \<Rightarrow> big_float list" where
  "text_prices text = (case json_unmarshal text of None \<Rightarrow> [] | Some j \<Rightarrow> concat (map leaf_price (leaves j)))"

section \<open>Decoders\<close>

text \<open>What a decoder keeps when the leaves of the tree are in a set.\<close>

definition keeps_leaves :: "json set \<Rightarrow> ('a \<Rightarrow> bool) \<Rightarrow> 'a json_into \<Rightarrow> bool" where
  "keeps_leaves L P f = (\<forall>j old x. set (leaves j) \<subseteq> L \<longrightarrow> P old \<longrightarrow> f j old = Some x \<longrightarrow> P x)"

lemma keeps_leavesD: "keeps_leaves L P f \<Longrightarrow> f j old = Some x \<Longrightarrow> set (leaves j) \<subseteq> L \<Longrightarrow> P old \<Longrightarrow> P x"
  by (auto simp: keeps_leaves_def)

lemma field_of_mem: "field_of fs k = Some f \<Longrightarrow> \<exists>n. (n, f) \<in> set fs"
  by (auto simp: field_of_def find_Some_iff dest: map_of_SomeD nth_mem split: option.splits) (metis nth_mem prod.collapse)+

lemma keeps_fields:
  "list_all (\<lambda>nf. keeps_leaves L P (snd nf)) fs \<Longrightarrow> into_fields fs ms x = Some y \<Longrightarrow>
   set (leaves (JObj ms)) \<subseteq> L \<Longrightarrow> P x \<Longrightarrow> P y"
proof (induction fs ms x arbitrary: y rule: into_fields.induct)
  case (2 fs k j ms x)
  have sub: "set (leaves j) \<subseteq> L" "set (leaves (JObj ms)) \<subseteq> L" using "2.prems"(3) by auto
  show ?case
  proof (cases "field_of fs k")
    case None
    with 2 sub show ?thesis by simp
  next
    case (Some f)
    with "2.prems"(2) obtain z where z: "f j x = Some z" "into_fields fs ms z = Some y" by (auto split: option.splits)
    obtain n where "(n, f) \<in> set fs" using field_of_mem [OF Some] by blast
    with "2.prems"(1) have "keeps_leaves L P f" by (force simp: list_all_iff)
    from keeps_leavesD [OF this z(1) sub(1) "2.prems"(4)] have "P z" .
    with 2(2) [OF Some z(1) "2.prems"(1) z(2) sub(2)] show ?thesis by simp
  qed
qed simp

lemma keeps_struct:
  assumes "list_all (\<lambda>nf. keeps_leaves L P (snd nf)) fs"
  shows "keeps_leaves L P (into_struct fs)"
  unfolding keeps_leaves_def
proof (intro allI impI)
  fix j old x
  assume "set (leaves j) \<subseteq> L" "P old" "into_struct fs j old = Some x"
  then show "P x" using keeps_fields [OF assms] by (cases j) (auto simp: into_struct_def simp del: leaves.simps)
qed

text \<open>A string or number that is in the tree, or the zero value.\<close>

definition text_ok :: "json set \<Rightarrow> string \<Rightarrow> bool" where
  "text_ok L s = (s = [] \<or> JStr s \<in> L)"

definition number_ok :: "json set \<Rightarrow> big_val \<Rightarrow> bool" where
  "number_ok L v = (v = BZero False \<or> (\<exists>w. JNum w \<in> L \<and> ParseFloat w = Some v))"

lemma text_ok_Nil [simp]: "text_ok L []"
  by (simp add: text_ok_def)

lemma keeps_string: "keeps_leaves L (text_ok L) into_string"
  by (auto simp: keeps_leaves_def into_string_def text_ok_def split: json.splits)

lemma keeps_float: "keeps_leaves L (number_ok L) into_float64"
  by (auto simp: keeps_leaves_def into_float64_def number_ok_def split: json.splits)

lemma keeps_field:
  assumes "keeps_leaves L Q f" "\<And>x. P x \<Longrightarrow> Q (get x)" "\<And>x y. P x \<Longrightarrow> Q y \<Longrightarrow> P (put y x)"
  shows "keeps_leaves L P (snd (json_field n f get put))"
  unfolding keeps_leaves_def json_field_def
proof (intro allI impI)
  fix j old x
  assume l: "set (leaves j) \<subseteq> L" and P: "P old"
    and f: "snd (n, \<lambda>j x. map_option (\<lambda>y. put y x) (f j (get x))) j old = Some x"
  then obtain y where y: "f j (get old) = Some y" "x = put y old" by auto
  from keeps_leavesD [OF assms(1) y(1) l assms(2) [OF P]] assms(3) P show "P x" by (simp add: y(2))
qed

lemma keeps_other: "(\<And>x y. P x \<Longrightarrow> P (put y x)) \<Longrightarrow> keeps_leaves L P (snd (json_field n f get put))"
  by (rule keeps_field [where Q = "\<lambda>_. True"]) (simp_all add: keeps_leaves_def)

lemma keeps_all:
  "into_all f zero js old = Some xs \<Longrightarrow> keeps_leaves L Q f \<Longrightarrow> Q zero \<Longrightarrow> set (leaves (JArr js)) \<subseteq> L \<Longrightarrow>
   list_all Q old \<Longrightarrow> list_all Q xs"
proof (induction f zero js old arbitrary: xs rule: into_all.induct)
  case (2 f zero j js old)
  from "2.prems"(1) obtain x ys where x: "f j (case old of [] \<Rightarrow> zero | y # _ \<Rightarrow> y) = Some x"
      "into_all f zero js (drop 1 old) = Some ys" "xs = x # ys"
    by (auto split: option.splits)
  have "Q (case old of [] \<Rightarrow> zero | y # _ \<Rightarrow> y)" "list_all Q (drop 1 old)"
    using "2.prems"(3,5) by (cases old; simp)+
  with keeps_leavesD [OF "2.prems"(2) x(1)] "2.IH" [OF x(1,2) "2.prems"(2,3)] "2.prems"(4) show ?case
    by (simp add: x(3))
qed simp

lemma keeps_slice:
  assumes "keeps_leaves L Q f" "Q zero"
  shows "keeps_leaves L (list_all Q) (into_slice f zero)"
  unfolding keeps_leaves_def
proof (intro allI impI)
  fix j old x
  assume "set (leaves j) \<subseteq> L" "list_all Q old" "into_slice f zero j old = Some x"
  then show "list_all Q x" using keeps_all [OF _ assms]
    by (auto simp: into_slice_def simp del: leaves.simps split: json.splits)
qed

lemma keeps_members:
  "into_members f zero ms m = Some n \<Longrightarrow> keeps_leaves L Q f \<Longrightarrow> Q zero \<Longrightarrow> set (leaves (JObj ms)) \<subseteq> L \<Longrightarrow>
   \<forall>v \<in> snd ` set m. Q v \<Longrightarrow> \<forall>v \<in> snd ` set n. Q v"
proof (induction f zero ms m arbitrary: n rule: into_members.induct)
  case (2 f zero k j ms m)
  from "2.prems"(1) obtain x where x: "f j zero = Some x" "into_members f zero ms (gm_set k x m) = Some n"
    by (auto split: option.splits)
  have sub: "set (leaves j) \<subseteq> L" "set (leaves (JObj ms)) \<subseteq> L" using "2.prems"(4) by auto
  have "Q x" by (rule keeps_leavesD [OF "2.prems"(2) x(1) sub(1) "2.prems"(3)])
  then have "\<forall>v \<in> snd ` set (gm_set k x m). Q v" using gm_set_values [of m Q x k] "2.prems"(5) by blast
  with "2.IH" [OF x "2.prems"(2,3) sub(2)] show ?case .
qed simp

lemma keeps_map:
  assumes "keeps_leaves L Q f" "Q zero"
  shows "keeps_leaves L (\<lambda>m. \<forall>v \<in> snd ` set m. Q v) (into_map f zero)"
  unfolding keeps_leaves_def
proof (intro allI impI)
  fix j old x
  assume "set (leaves j) \<subseteq> L" "\<forall>v \<in> snd ` set old. Q v" "into_map f zero j old = Some x"
  then show "\<forall>v \<in> snd ` set x. Q v" using keeps_members [OF _ assms]
    by (cases j) (auto simp: into_map_def simp del: leaves.simps)
qed

lemma keeps_inner: "keeps_leaves L P f \<Longrightarrow> keeps_leaves L P (snd (json_field n f (\<lambda>m. m) (\<lambda>x _. x)))"
  by (rule keeps_field)

lemma keeps_text: "(\<And>x y. g (put y x) = y) \<Longrightarrow>
    keeps_leaves L (\<lambda>d. text_ok L (g d)) (snd (json_field n into_string g put))"
  by (rule keeps_field [OF keeps_string]) simp_all

section \<open>Texts\<close>

definition text_leaves :: "string \<Rightarrow> json set" where
  "text_leaves text = (case json_unmarshal text of None \<Rightarrow> {} | Some j \<Rightarrow> set (leaves j))"

lemma unmarshal_keeps: "keeps_leaves (text_leaves text) P f \<Longrightarrow> P zero \<Longrightarrow> Unmarshal_into f zero text = Some m \<Longrightarrow> P m"
  by (auto simp: Unmarshal_into_def text_leaves_def split: option.splits elim: keeps_leavesD)

lemma text_prices_leaf: "j \<in> text_leaves text \<Longrightarrow> x \<in> set (leaf_price j) \<Longrightarrow> x \<in> set (text_prices text)"
  by (auto simp: text_leaves_def text_prices_def split: option.splits)

lemma no_price_of_nothing: "Float64StringToBigFloat [] \<noteq> Inr x"
  by code_simp

lemma text_ok_price: "text_ok (text_leaves text) p \<Longrightarrow> Float64StringToBigFloat p = Inr x \<Longrightarrow> x \<in> set (text_prices text)"
  by (auto simp: text_ok_def no_price_of_nothing leaf_price_def intro: text_prices_leaf)

lemma number_ok_price:
  "number_ok (text_leaves text) v \<Longrightarrow> NewFloat v = NewFloat (BZero False) \<or> NewFloat v \<in> set (text_prices text)"
  by (auto simp: number_ok_def leaf_price_def intro: text_prices_leaf)

text \<open>The same of a body, of which \<open>Decode\<close> reads the first value.\<close>

definition body_leaves :: "string \<Rightarrow> json set" where
  "body_leaves body = (case json_decode body of None \<Rightarrow> {} | Some j \<Rightarrow> set (leaves j))"

definition body_prices :: "string \<Rightarrow> big_float list" where
  "body_prices body = (case json_decode body of None \<Rightarrow> [] | Some j \<Rightarrow> concat (map leaf_price (leaves j)))"

lemma decode_keeps: "keeps_leaves (body_leaves body) P f \<Longrightarrow> P zero \<Longrightarrow> Decode_into f zero body = Some m \<Longrightarrow> P m"
  by (auto simp: Decode_into_def body_leaves_def split: option.splits elim: keeps_leavesD)

lemma body_prices_leaf: "j \<in> body_leaves body \<Longrightarrow> x \<in> set (leaf_price j) \<Longrightarrow> x \<in> set (body_prices body)"
  by (auto simp: body_leaves_def body_prices_def split: option.splits)

lemma text_ok_body: "text_ok (body_leaves body) p \<Longrightarrow> Float64StringToBigFloat p = Inr x \<Longrightarrow> x \<in> set (body_prices body)"
  by (auto simp: text_ok_def no_price_of_nothing leaf_price_def intro: body_prices_leaf)

lemma number_ok_body:
  "number_ok (body_leaves body) v \<Longrightarrow> NewFloat v = NewFloat (BZero False) \<or> NewFloat v \<in> set (body_prices body)"
  by (auto simp: number_ok_def leaf_price_def intro: body_prices_leaf)

end
