(* ===== verification/Api_Source_Properties.thy ===== *)
theory Api_Source_Properties
  imports Api_Factory Api_Properties Json_Leaves
begin

text \<open>
  The contract of the REST sources as a locale, met by each of them: a price a source resolves for a ticker
  is the one the body of the response states under the ticker's off-chain name, and (for all but CoinMarketCap) every
  ticker of the request gets a price or an error code. From it, what a request through \<open>Fetch\<close>
  yields, whichever source the factory chose.
\<close>

section \<open>Caches\<close>

text \<open>A cache maps a name to a ticker of that name, up to the case of letters.\<close>

definition same_name :: "string \<Rightarrow> provider_ticker \<Rightarrow> bool" where
  "same_name off t = (ToUpper off = ToUpper (pt_off_chain_ticker t))"

definition cache_ok :: "provider_tickers \<Rightarrow> bool" where
  "cache_ok c = (\<forall>off t. FromOffChainTicker c off = Some t \<longrightarrow> same_name off t)"

lemma upper_lower_char: "upper_char (lower_char c) = upper_char c"
proof (cases "65 \<le> (of_char c :: nat) \<and> (of_char c :: nat) \<le> 90")
  case True
  then have l: "(of_char (lower_char c) :: nat) = of_char c + 32"
    by (simp add: lower_char_def less_eq_char_def)
  show ?thesis by (rule char_eqI) (use True in \<open>simp add: of_char_upper l\<close>)
next
  case False
  then have "lower_char c = c" by (auto simp: lower_char_def less_eq_char_def)
  then show ?thesis by simp
qed

lemma ToUpper_ToLower [simp]: "ToUpper (ToLower s) = ToUpper s"
  by (simp add: ToUpper_def ToLower_def upper_lower_char)

lemma cache_ok_empty [simp, intro]: "cache_ok []"
  by (simp add: cache_ok_def FromOffChainTicker_def)

lemma cache_ok_Add [intro]: "cache_ok c \<Longrightarrow> cache_ok (Add t c)"
  by (simp add: cache_ok_def FromOffChainTicker_def Add_def same_name_def)

lemma cache_ok_fold [intro]: "cache_ok c \<Longrightarrow> cache_ok (fold Add ts c)"
  by (induction ts arbitrary: c) auto

lemma cache_tickers_cache [simp]: "ah_cache (cache_tickers ts h) = fold Add ts (ah_cache h)"
  by (simp add: cache_tickers_def)

lemma base_and_quote_cache: "base_and_quote_loop ts h bs qs = (r, h') \<Longrightarrow> cache_ok (ah_cache h) \<Longrightarrow> cache_ok (ah_cache h')"
  by (induction ts h bs qs rule: base_and_quote_loop.induct)
    (auto split: list.splits)

section \<open>The contract\<close>

text \<open>Every ticker of a request has a price or a code in the response.\<close>

definition covers :: "'k list \<Rightarrow> ('k, 'v) get_response \<Rightarrow> bool" where
  "covers ids r = (set ids \<subseteq> dom (gm_get (gr_resolved r)) \<union> dom (gm_get (gr_unresolved r)))"

lemma covers_err [simp, intro]: "covers ids (NewGetResponseWithErr ids code)"
  by (auto simp: covers_def NewGetResponseWithErr_def failed_keys)

text \<open>\<open>quotes\<close> reads names and prices off a body, and \<open>adjust\<close> is what the source makes of a price.\<close>

locale rest_source =
  fixes src :: price_source and quotes :: "provider_ticker list \<Rightarrow> string \<Rightarrow> (string \<times> big_float) list"
    and adjust :: "big_float \<Rightarrow> big_float"
  assumes keeps_cache: "cache_ok (ah_cache h) \<Longrightarrow> cache_ok (ah_cache (snd (sr_create_url src ids h)))"
    and prices_quoted: "cache_ok (ah_cache h) \<Longrightarrow> sr_parse_response src now ids resp h = Inr r \<Longrightarrow>
      gm_get (gr_resolved r) t = Some q \<Longrightarrow>
      \<exists>off x. (off, x) \<in> set (quotes ids (body_text resp)) \<and> same_name off t \<and> q = NewResult (Some (adjust x)) now"

begin

lemma fetched_prices_quoted:
  assumes cache: "cache_ok (ah_cache h)" and fetch: "Fetch (source_handler now src h) do_request ids = Inr r"
    and price: "gm_get (gr_resolved r) t = Some q"
  shows "\<exists>url resp off x. do_request url = (Some resp, None) \<and> 200 \<le> hr_status resp \<and> hr_status resp < 300 \<and>
    (off, x) \<in> set (quotes ids (body_text resp)) \<and> same_name off t \<and> q = NewResult (Some (adjust x)) now"
proof -
  have none: "gm_get (gr_resolved (NewGetResponseWithErr ids code)) t \<noteq> Some q" for code
    by (simp add: NewGetResponseWithErr_def gm_get_Nil)
  obtain url resp where "do_request url = (Some resp, None)" "200 \<le> hr_status resp" "hr_status resp < 300"
      and parse: "sr_parse_response src now ids resp (snd (sr_create_url src ids h)) = Inr r"
    using fetch price none by (elim Fetch_cases) (auto simp: source_handler_def)
  with prices_quoted [OF keeps_cache [OF cache] parse price] show ?thesis by blast
qed

end

locale answering_source = rest_source +
  assumes answers: "sr_parse_response src now ids resp h = Inr r \<Longrightarrow> covers ids r"

begin

lemma every_id_answered:
  assumes "Fetch (source_handler now src h) do_request ids = Inr r"
  shows "covers ids r"
  using assms answers by (cases rule: Fetch_cases) (auto simp: source_handler_def)

end

section \<open>Answers\<close>

text \<open>What the loops of the parsers keep: the prices so far were quoted under a cached name.\<close>

definition quoted :: "(string \<times> big_float) list \<Rightarrow> int \<Rightarrow> provider_tickers \<Rightarrow> price_answer \<Rightarrow> bool" where
  "quoted qs now c a =
     (\<forall>t q. gm_get (fst a) t = Some q \<longrightarrow>
       (\<exists>off x. (off, x) \<in> set qs \<and> FromOffChainTicker c off = Some t \<and> q = NewResult (Some x) now))"

lemma quoted_empty [simp, intro]: "quoted qs now c ([], [])"
  by (simp add: quoted_def)

lemma quoted_put_code [simp]: "quoted qs now c (put_code code t a) = quoted qs now c a"
  by (cases a) (simp add: quoted_def put_code_def)

lemma quoted_put_price:
  "quoted qs now c a \<Longrightarrow> (off, x) \<in> set qs \<Longrightarrow> FromOffChainTicker c off = Some t \<Longrightarrow> quoted qs now c (put_price now t x a)"
  by (cases a) (auto simp: quoted_def put_price_def)

lemma quoted_put_text:
  assumes "put_text now t price a = Inr a'" "quoted qs now c a" "FromOffChainTicker c off = Some t"
    "\<And>x. Float64StringToBigFloat price = Inr x \<Longrightarrow> (off, x) \<in> set qs"
  shows "quoted qs now c a'"
  using assms by (auto simp: put_text_def split: sum.splits go_error.splits intro: quoted_put_price)

lemma fold_res_invariant:
  assumes "fold_res f xs s = Inr s'" "I s" "\<And>x s s'. x \<in> set xs \<Longrightarrow> I s \<Longrightarrow> f x s = Inr s' \<Longrightarrow> I s'"
  shows "I s'"
  using assms
proof (induction xs arbitrary: s)
  case (Cons x xs)
  then obtain t where "f x s = Inr t" "fold_res f xs t = Inr s'" by (auto simp: bind_res_Inr_iff)
  with Cons show ?case by (meson list.set_intros)
qed simp

lemma quoted_no_response [simp]: "quoted qs now c (no_response t a) = quoted qs now c a"
  by (simp add: no_response_def)

lemma quoted_fold_no_response [simp]: "quoted qs now c (fold no_response ts a) = quoted qs now c a"
  by (induction ts arbitrary: a) simp_all

lemma quoted_missing [simp]: "quoted qs now c (coingecko_missing t a) = quoted qs now c a"
  by (simp add: coingecko_missing_def)

lemma quoted_fold_missing [simp]: "quoted qs now c (fold coingecko_missing ts a) = quoted qs now c a"
  by (induction ts arbitrary: a) simp_all

text \<open>The tickers that have an answer.\<close>

definition answered :: "price_answer \<Rightarrow> provider_ticker set" where
  "answered a = dom (gm_get (fst a)) \<union> dom (gm_get (snd a))"

lemma dom_gm_set: "dom (gm_get (gm_set k v m)) = insert k (dom (gm_get m))"
  by (auto simp: dom_def)

lemma answered_put [simp]:
  "answered (put_code code t a) = insert t (answered a)" "answered (put_price now t x a) = insert t (answered a)"
  by (cases a, simp add: answered_def put_code_def put_price_def dom_gm_set)+

lemma unanswered: "gm_get (fst a) t = None \<and> gm_get (snd a) t = None \<longleftrightarrow> t \<notin> answered a"
  by (auto simp: answered_def)

lemma answered_no_response: "answered (no_response t a) = insert t (answered a)"
  by (simp add: no_response_def unanswered insert_absorb del: not_None_eq)

lemma answered_fold_no_response: "answered (fold no_response ts a) = set ts \<union> answered a"
  by (induction ts arbitrary: a) (auto simp: answered_no_response)

lemma answered_missing: "answered (coingecko_missing t a) = insert t (answered a)"
  using unanswered [of a t] by (cases "gm_get (fst a) t") (auto simp: coingecko_missing_def insert_absorb)

lemma answered_fold_missing: "answered (fold coingecko_missing ts a) = set ts \<union> answered a"
  by (induction ts arbitrary: a) (auto simp: answered_missing)

lemma to_response_fields [simp]:
  "gr_resolved (to_response a) = fst a" "gr_unresolved (to_response a) = snd a"
  by (simp_all add: to_response_def NewGetResponse_def)

lemma with_body_cases:
  assumes "with_body f zero ids resp parse = Inr r"
  obtains "r = NewGetResponseWithErr ids ErrorFailedToDecode"
    | v where "Decode_into f zero (body_text resp) = Some v" "parse v = Inr r"
  using assms by (auto simp: with_body_def split: option.splits)

lemma answer_Inr: "answer ids l = Inr r \<longleftrightarrow> (\<exists>a. l = Inr a \<and> r = to_response (fold no_response ids a))"
  by (auto simp: answer_def bind_res_Inr_iff)

section \<open>What the bodies say\<close>

text \<open>The prices a decoded body names, with the names it gives them.\<close>

definition text_quotes :: "(string \<times> string) list \<Rightarrow> (string \<times> big_float) list" where
  "text_quotes ps =
     concat (map (\<lambda>(off, price). case Float64StringToBigFloat price of Inl _ \<Rightarrow> [] | Inr x \<Rightarrow> [(off, x)]) ps)"

lemma text_quotes_I: "(off, price) \<in> set ps \<Longrightarrow> Float64StringToBigFloat price = Inr x \<Longrightarrow> (off, x) \<in> set (text_quotes ps)"
  by (force simp: text_quotes_def)

definition body_quotes :: "'a json_into \<Rightarrow> 'a \<Rightarrow> ('a \<Rightarrow> (string \<times> big_float) list) \<Rightarrow> string \<Rightarrow> (string \<times> big_float) list" where
  "body_quotes f zero qs body = (case Decode_into f zero body of None \<Rightarrow> [] | Some v \<Rightarrow> qs v)"

definition binance_quotes :: "provider_ticker list \<Rightarrow> string \<Rightarrow> (string \<times> big_float) list" where
  "binance_quotes ids = body_quotes binance_Decode [] (\<lambda>ds. text_quotes (map (\<lambda>d. (bd_symbol d, bd_price d)) ds))"

definition bitstamp_quotes :: "provider_ticker list \<Rightarrow> string \<Rightarrow> (string \<times> big_float) list" where
  "bitstamp_quotes ids = body_quotes bitstamp_Decode [] (\<lambda>ds. text_quotes (map (\<lambda>d. (md_pair d, md_last d)) ds))"

text \<open>Coinbase's response names no pair: its price is for the ticker of the request.\<close>

definition coinbase_quotes :: "provider_ticker list \<Rightarrow> string \<Rightarrow> (string \<times> big_float) list" where
  "coinbase_quotes ids = body_quotes coinbase_Decode \<lparr>cd_amount = [], cd_currency = []\<rparr>
     (\<lambda>d. text_quotes (map (\<lambda>t. (pt_off_chain_ticker t, cd_amount d)) ids))"

definition coingecko_pairs :: "(string, (string, big_val) gomap) gomap \<Rightarrow> (string \<times> big_float) list" where
  "coingecko_pairs m =
     concat (map (\<lambda>(base, qs). map (\<lambda>(quote, price). (base @ CHR ''/'' # quote, NewFloat price)) qs) m)"

lemma coingecko_pairs_I:
  "(base, qs) \<in> set m \<Longrightarrow> (quote, price) \<in> set qs \<Longrightarrow> (base @ CHR ''/'' # quote, NewFloat price) \<in> set (coingecko_pairs m)"
  by (force simp: coingecko_pairs_def)

definition coingecko_quotes :: "provider_ticker list \<Rightarrow> string \<Rightarrow> (string \<times> big_float) list" where
  "coingecko_quotes ids = body_quotes coingecko_Decode [] coingecko_pairs"

definition coinmarketcap_pairs :: "(string, coinmarketcap_data) gomap \<Rightarrow> (string \<times> big_float) list" where
  "coinmarketcap_pairs m =
     concat (map (\<lambda>(i, d). case gm_get (cm_quote d) DefaultQuoteDenom of None \<Rightarrow> [] | Some v \<Rightarrow> [(i, NewFloat v)]) m)"

lemma coinmarketcap_pairs_I:
  "(i, d) \<in> set m \<Longrightarrow> gm_get (cm_quote d) DefaultQuoteDenom = Some v \<Longrightarrow> (i, NewFloat v) \<in> set (coinmarketcap_pairs m)"
  by (force simp: coinmarketcap_pairs_def)

definition coinmarketcap_quotes :: "provider_ticker list \<Rightarrow> string \<Rightarrow> (string \<times> big_float) list" where
  "coinmarketcap_quotes ids = body_quotes coinmarketcap_Decode zero_coinmarketcap_response
     (\<lambda>r. coinmarketcap_pairs (cr_data r))"

definition geckoterminal_quotes :: "provider_ticker list \<Rightarrow> string \<Rightarrow> (string \<times> big_float) list" where
  "geckoterminal_quotes ids =
     body_quotes geckoterminal_Decode \<lparr>gt_id = [], gt_type = [], gt_token_prices = []\<rparr> (\<lambda>d. text_quotes (gt_token_prices d))"

definition close_prices :: "(string, string list) gomap \<Rightarrow> (string \<times> string) list" where
  "close_prices m = concat (map (\<lambda>(pair, stats). case stats of [] \<Rightarrow> [] | price # _ \<Rightarrow> [(pair, price)]) m)"

lemma close_prices_I: "(pair, price # ps) \<in> set m \<Longrightarrow> (pair, price) \<in> set (close_prices m)"
  by (force simp: close_prices_def)

definition kraken_quotes :: "provider_ticker list \<Rightarrow> string \<Rightarrow> (string \<times> big_float) list" where
  "kraken_quotes ids = body_quotes kraken_Decode \<lparr>kb_errors = [], kb_tickers = []\<rparr>
     (\<lambda>b. text_quotes (close_prices (kb_tickers b)))"

text \<open>Polymarket's response is for the market of the request, and names its tokens. Of a price of zero the
  source makes a minimal one.\<close>

definition polymarket_quotes :: "provider_ticker list \<Rightarrow> string \<Rightarrow> (string \<times> big_float) list" where
  "polymarket_quotes ids = body_quotes polymarket_Decode []
     (\<lambda>tokens. concat (map (\<lambda>t. map (\<lambda>d. (pt_off_chain_ticker t, NewFloat (td_price d)))
        (filter (\<lambda>d. \<exists>m. getMarketAndTokenFromTicker t = Inr (m, td_token_id d)) tokens)) ids))"

definition zero_price :: "big_float \<Rightarrow> bool" where
  "zero_price x = (case bf_val x of BZero _ \<Rightarrow> True | _ \<Rightarrow> False)"

definition zero_to_minimum :: "big_float \<Rightarrow> big_float" where
  "zero_to_minimum x = (if zero_price x then NewFloat priceAdjustmentMin else x)"

lemma token_price_adjusted: "token_price d = zero_to_minimum (NewFloat (td_price d))"
  by (simp add: token_price_def zero_to_minimum_def zero_price_def NewFloat_def split: big_val.split)

text \<open>The static source quotes the metadata of the tickers.\<close>

definition static_quotes :: "provider_ticker list \<Rightarrow> string \<Rightarrow> (string \<times> big_float) list" where
  "static_quotes ids body =
     concat (map (\<lambda>t. case MetaData_FromJSON (pt_json t) of None \<Rightarrow> [] | Some v \<Rightarrow> [(pt_off_chain_ticker t, NewFloat v)]) ids)"

section \<open>The sources meet the contract\<close>

lemma quoted_names:
  "quoted qs now c a \<Longrightarrow> cache_ok c \<Longrightarrow> gm_get (fst a) t = Some q \<Longrightarrow>
   \<exists>off x. (off, x) \<in> set qs \<and> same_name off t \<and> q = NewResult (Some x) now"
  by (fastforce simp: quoted_def cache_ok_def)

lemma no_prices [simp]: "gm_get (gr_resolved (NewGetResponseWithErr ids code)) t = None"
  by (simp add: NewGetResponseWithErr_def)

lemma text_answer_quoted:
  assumes "answer ids (fold_res f xs ([], [])) = Inr r" "cache_ok c" "gm_get (gr_resolved r) t = Some q"
    "\<And>x a a'. x \<in> set xs \<Longrightarrow> quoted qs now c a \<Longrightarrow> f x a = Inr a' \<Longrightarrow> quoted qs now c a'"
  shows "\<exists>off x. (off, x) \<in> set qs \<and> same_name off t \<and> q = NewResult (Some x) now"
proof -
  obtain a where a: "fold_res f xs ([], []) = Inr a" and r: "r = to_response (fold no_response ids a)"
    using assms(1) by (auto simp: answer_Inr)
  have "quoted qs now c a" by (rule fold_res_invariant [OF a]) (use assms(4) in auto)
  then have "quoted qs now c (fold no_response ids a)" by simp
  from quoted_names [OF this assms(2)] show ?thesis using assms(3) by (simp add: r)
qed

lemma answer_answers:
  assumes "answer ids l = Inr r"
  shows "covers ids r"
proof -
  obtain a where "r = to_response (fold no_response ids a)" using assms by (auto simp: answer_Inr)
  then show ?thesis using answered_fold_no_response [of ids a] unfolding answered_def covers_def by simp
qed

lemma covers_to_response: "covers ids (to_response a) \<longleftrightarrow> set ids \<subseteq> answered a"
  by (simp add: covers_def answered_def)

lemma with_body_covers:
  "with_body f zero ids resp parse = Inr r \<Longrightarrow> (\<And>v. parse v = Inr r \<Longrightarrow> covers ids r) \<Longrightarrow> covers ids r"
  by (elim with_body_cases) auto

interpretation binance: answering_source binance_source binance_quotes "\<lambda>x. x"
proof unfold_locales
  fix h :: api_handler and ids
  assume "cache_ok (ah_cache h)"
  then show "cache_ok (ah_cache (snd (sr_create_url binance_source ids h)))"
    by (auto simp: binance_source_def binance_CreateURL_def Let_def)
next
  fix h :: api_handler and now ids resp r t q
  assume cache: "cache_ok (ah_cache h)" and parse: "sr_parse_response binance_source now ids resp h = Inr r"
    and price: "gm_get (gr_resolved r) t = Some q"
  from parse show "\<exists>off x. (off, x) \<in> set (binance_quotes ids (body_text resp)) \<and> same_name off t \<and> q = NewResult (Some x) now"
    unfolding binance_source_def price_source.simps binance_ParseResponse_def
  proof (cases rule: with_body_cases)
    case (2 v)
    show ?thesis
      by (rule text_answer_quoted [OF 2(2) cache price])
        (auto simp: binance_entry_def binance_quotes_def body_quotes_def 2(1) split: option.splits
          elim!: quoted_put_text intro!: text_quotes_I)
  qed (use price in simp)
next
  fix now ids resp r and h :: api_handler
  assume "sr_parse_response binance_source now ids resp h = Inr r"
  then show "covers ids r"
    unfolding binance_source_def price_source.simps binance_ParseResponse_def
    by (elim with_body_covers) (rule answer_answers)
qed

interpretation bitstamp: answering_source bitstamp_source bitstamp_quotes "\<lambda>x. x"
proof unfold_locales
  fix h :: api_handler and ids
  assume "cache_ok (ah_cache h)"
  then show "cache_ok (ah_cache (snd (sr_create_url bitstamp_source ids h)))"
    by (auto simp: bitstamp_source_def bitstamp_CreateURL_def Let_def)
next
  fix h :: api_handler and now ids resp r t q
  assume cache: "cache_ok (ah_cache h)" and parse: "sr_parse_response bitstamp_source now ids resp h = Inr r"
    and price: "gm_get (gr_resolved r) t = Some q"
  from parse show "\<exists>off x. (off, x) \<in> set (bitstamp_quotes ids (body_text resp)) \<and> same_name off t \<and> q = NewResult (Some x) now"
    unfolding bitstamp_source_def price_source.simps bitstamp_ParseResponse_def
  proof (cases rule: with_body_cases)
    case (2 v)
    show ?thesis
      by (rule text_answer_quoted [OF 2(2) cache price])
        (auto simp: bitstamp_entry_def bitstamp_quotes_def body_quotes_def 2(1) split: option.splits
          elim!: quoted_put_text intro!: text_quotes_I)
  qed (use price in simp)
next
  fix now ids resp r and h :: api_handler
  assume "sr_parse_response bitstamp_source now ids resp h = Inr r"
  then show "covers ids r"
    unfolding bitstamp_source_def price_source.simps bitstamp_ParseResponse_def
    by (elim with_body_covers) (rule answer_answers)
qed

interpretation kraken: answering_source kraken_source kraken_quotes "\<lambda>x. x"
proof unfold_locales
  fix h :: api_handler and ids
  assume "cache_ok (ah_cache h)"
  then show "cache_ok (ah_cache (snd (sr_create_url kraken_source ids h)))"
    by (auto simp: kraken_source_def kraken_CreateURL_def Let_def)
next
  fix h :: api_handler and now ids resp r t q
  assume cache: "cache_ok (ah_cache h)" and parse: "sr_parse_response kraken_source now ids resp h = Inr r"
    and price: "gm_get (gr_resolved r) t = Some q"
  from parse show "\<exists>off x. (off, x) \<in> set (kraken_quotes ids (body_text resp)) \<and> same_name off t \<and> q = NewResult (Some x) now"
    unfolding kraken_source_def price_source.simps kraken_ParseResponse_def
  proof (cases rule: with_body_cases)
    case (2 v)
    then have "answer ids (fold_res (kraken_entry now (ah_cache h)) (kb_tickers v) ([], [])) = Inr r"
      using price by (auto split: if_splits)
    then show ?thesis
      by (rule text_answer_quoted [OF _ cache price])
        (auto simp: kraken_entry_def LastPrice_def kraken_quotes_def body_quotes_def 2(1) split: option.splits list.splits
          elim!: quoted_put_text intro!: text_quotes_I close_prices_I)
  qed (use price in simp)
next
  fix now ids resp r and h :: api_handler
  assume "sr_parse_response kraken_source now ids resp h = Inr r"
  then show "covers ids r"
    unfolding kraken_source_def price_source.simps kraken_ParseResponse_def
    by (elim with_body_covers) (auto split: if_splits intro: answer_answers)
qed

interpretation geckoterminal: answering_source geckoterminal_source geckoterminal_quotes "\<lambda>x. x"
proof unfold_locales
  fix h :: api_handler and ids
  assume "cache_ok (ah_cache h)"
  then show "cache_ok (ah_cache (snd (sr_create_url geckoterminal_source ids h)))"
    by (auto simp: geckoterminal_source_def geckoterminal_CreateURL_def Let_def)
next
  fix h :: api_handler and now ids resp r t q
  assume cache: "cache_ok (ah_cache h)" and parse: "sr_parse_response geckoterminal_source now ids resp h = Inr r"
    and price: "gm_get (gr_resolved r) t = Some q"
  from parse show "\<exists>off x. (off, x) \<in> set (geckoterminal_quotes ids (body_text resp)) \<and> same_name off t \<and> q = NewResult (Some x) now"
    unfolding geckoterminal_source_def price_source.simps geckoterminal_ParseResponse_def
  proof (cases rule: with_body_cases)
    case (2 v)
    then have "answer ids (fold_res (geckoterminal_entry now (ah_cache h)) (gt_token_prices v) ([], [])) = Inr r"
      using price by (auto split: if_splits sum.splits go_error.splits)
    then show ?thesis
      by (rule text_answer_quoted [OF _ cache price])
        (auto simp: geckoterminal_entry_def geckoterminal_quotes_def body_quotes_def 2(1) split: option.splits
          elim!: quoted_put_text intro!: text_quotes_I)
  qed (use price in simp)
next
  fix now ids resp r and h :: api_handler
  assume "sr_parse_response geckoterminal_source now ids resp h = Inr r"
  then show "covers ids r"
    unfolding geckoterminal_source_def price_source.simps geckoterminal_ParseResponse_def
    by (elim with_body_covers) (auto split: if_splits sum.splits go_error.splits intro: answer_answers)
qed

text \<open>A ticker of the request that is resolved by itself.\<close>

lemma one_price [simp]: "gm_get (gr_resolved (NewGetResponse [(t, q)] [])) u = (if u = t then Some q else None)"
  by (simp add: NewGetResponse_def gm_get_map_of)

lemma covers_one [simp, intro]: "covers [t] (NewGetResponse [(t, q)] [])"
  by (simp add: covers_def NewGetResponse_def gm_get_map_of)

lemma same_name_own [simp, intro]: "same_name (pt_off_chain_ticker t) t"
  by (simp add: same_name_def)

interpretation coinbase: answering_source coinbase_source coinbase_quotes "\<lambda>x. x"
proof unfold_locales
  fix h :: api_handler and ids
  assume "cache_ok (ah_cache h)"
  then show "cache_ok (ah_cache (snd (sr_create_url coinbase_source ids h)))"
    by (auto simp: coinbase_source_def coinbase_CreateURL_def split: list.splits)
next
  fix h :: api_handler and now ids resp r t q
  assume cache: "cache_ok (ah_cache h)" and parse: "sr_parse_response coinbase_source now ids resp h = Inr r"
    and price: "gm_get (gr_resolved r) t = Some q"
  from parse show "\<exists>off x. (off, x) \<in> set (coinbase_quotes ids (body_text resp)) \<and> same_name off t \<and> q = NewResult (Some x) now"
    unfolding coinbase_source_def price_source.simps coinbase_ParseResponse_def
    using price
    by (fastforce simp: coinbase_quotes_def body_quotes_def elim!: with_body_cases intro: text_quotes_I
        split: list.splits if_splits sum.splits go_error.splits)
next
  fix now ids resp r and h :: api_handler
  assume "sr_parse_response coinbase_source now ids resp h = Inr r"
  then show "covers ids r"
    unfolding coinbase_source_def price_source.simps coinbase_ParseResponse_def
    by (auto split: list.splits sum.splits go_error.splits elim!: with_body_cases)
qed

lemma coingecko_loop_quoted:
  assumes "set m \<subseteq> set n"
  shows "quoted (coingecko_pairs n) now c (fold (coingecko_entry now c) m ([], []))"
proof (rule fold_invariant [where Q = "\<lambda>e. e \<in> set n"])
  fix e a
  assume e: "e \<in> set n" and a: "quoted (coingecko_pairs n) now c a"
  have "quoted (coingecko_pairs n) now c (fold (coingecko_quote now c (fst e)) (snd e) a)"
  proof (rule fold_invariant [where Q = "\<lambda>q. q \<in> set (snd e)"])
    fix q b
    assume q: "q \<in> set (snd e)" and b: "quoted (coingecko_pairs n) now c b"
    have "(fst e @ CHR ''/'' # fst q, NewFloat (snd q)) \<in> set (coingecko_pairs n)"
      by (rule coingecko_pairs_I [of _ "snd e"]) (use e q in simp_all)
    with b show "quoted (coingecko_pairs n) now c (coingecko_quote now c (fst e) q b)"
      unfolding coingecko_quote_def coingecko_TickerSeparator_def
      by (cases q) (simp add: quoted_put_price split: option.split)
  qed (use a in auto)
  then show "quoted (coingecko_pairs n) now c (coingecko_entry now c e a)" by (simp add: coingecko_entry_def split_beta)
qed (use assms in auto)

lemma fold_answer_quoted:
  assumes "quoted qs now c a" "cache_ok c" "gm_get (gr_resolved (to_response a)) t = Some q"
  shows "\<exists>off x. (off, x) \<in> set qs \<and> same_name off t \<and> q = NewResult (Some x) now"
  using quoted_names [OF assms(1,2)] assms(3) by simp

interpretation coingecko: answering_source coingecko_source coingecko_quotes "\<lambda>x. x"
proof unfold_locales
  fix h :: api_handler and ids
  assume "cache_ok (ah_cache h)"
  then show "cache_ok (ah_cache (snd (sr_create_url coingecko_source ids h)))"
    by (auto simp: coingecko_source_def coingecko_CreateURL_def getUniqueBaseAndQuoteDenoms_def Let_def
        split: prod.split dest: base_and_quote_cache)
next
  fix h :: api_handler and now ids resp r t q
  assume cache: "cache_ok (ah_cache h)" and parse: "sr_parse_response coingecko_source now ids resp h = Inr r"
    and price: "gm_get (gr_resolved r) t = Some q"
  from parse show "\<exists>off x. (off, x) \<in> set (coingecko_quotes ids (body_text resp)) \<and> same_name off t \<and> q = NewResult (Some x) now"
    unfolding coingecko_source_def price_source.simps coingecko_ParseResponse_def
  proof (cases rule: with_body_cases)
    case (2 v)
    then have r: "r = to_response (fold coingecko_missing ids (fold (coingecko_entry now (ah_cache h)) v ([], [])))" by simp
    show ?thesis
      using fold_answer_quoted [OF _ cache price [unfolded r]] coingecko_loop_quoted [OF order_refl, of v now "ah_cache h"]
      by (simp add: coingecko_quotes_def body_quotes_def 2(1))
  qed (use price in simp)
next
  fix now ids resp r and h :: api_handler
  assume "sr_parse_response coingecko_source now ids resp h = Inr r"
  then show "covers ids r"
    unfolding coingecko_source_def price_source.simps coingecko_ParseResponse_def
    by (elim with_body_covers) (auto simp: covers_to_response answered_fold_missing)
qed

lemma coinmarketcap_loop_quoted:
  assumes "set m \<subseteq> set n"
  shows "quoted (coinmarketcap_pairs n) now c (fold (coinmarketcap_entry now c) m ([], []))"
proof (rule fold_invariant [where Q = "\<lambda>e. e \<in> set n"])
  fix e a
  assume mem: "e \<in> set n" and a: "quoted (coinmarketcap_pairs n) now c a"
  obtain i d where e: "e = (i, d)" by (rule prod.exhaust)
  have "quoted (coinmarketcap_pairs n) now c (put_price now t (NewFloat v) a)"
    if "FromOffChainTicker c i = Some t" "gm_get (cm_quote d) DefaultQuoteDenom = Some v" for t v
    by (rule quoted_put_price [OF a coinmarketcap_pairs_I [OF mem [unfolded e] that(2)] that(1)])
  with a show "quoted (coinmarketcap_pairs n) now c (coinmarketcap_entry now c e a)"
    by (simp add: coinmarketcap_entry_def e split: option.split)
qed (use assms in auto)

interpretation coinmarketcap: rest_source coinmarketcap_source coinmarketcap_quotes "\<lambda>x. x"
proof unfold_locales
  fix h :: api_handler and ids
  assume "cache_ok (ah_cache h)"
  then show "cache_ok (ah_cache (snd (sr_create_url coinmarketcap_source ids h)))"
    by (auto simp: coinmarketcap_source_def coinmarketcap_CreateURL_def Let_def)
next
  fix h :: api_handler and now ids resp r t q
  assume cache: "cache_ok (ah_cache h)" and parse: "sr_parse_response coinmarketcap_source now ids resp h = Inr r"
    and price: "gm_get (gr_resolved r) t = Some q"
  from parse show "\<exists>off x. (off, x) \<in> set (coinmarketcap_quotes ids (body_text resp)) \<and> same_name off t \<and> q = NewResult (Some x) now"
    unfolding coinmarketcap_source_def price_source.simps coinmarketcap_ParseResponse_def
  proof (cases rule: with_body_cases)
    case (2 v)
    then have r: "r = to_response (fold (coinmarketcap_entry now (ah_cache h)) (cr_data v) ([], []))"
      using price by (auto split: if_splits)
    show ?thesis
      using fold_answer_quoted [OF _ cache price [unfolded r]]
        coinmarketcap_loop_quoted [OF order_refl, of "cr_data v" now "ah_cache h"]
      by (simp add: coinmarketcap_quotes_def body_quotes_def 2(1))
  qed (use price in simp)
qed

lemma polymarket_parsed:
  assumes "polymarket_ParseResponse now ids resp h = Inr r"
  obtains code where "r = NewGetResponseWithErr ids code"
    | i m tok tokens d where "ids = [i]" "Decode_into polymarket_Decode [] (body_text resp) = Some tokens"
        "getMarketAndTokenFromTicker i = Inr (m, tok)" "d \<in> set tokens" "td_token_id d = tok"
        "r = NewGetResponse [(i, NewResult (Some (token_price d)) now)] []"
proof -
  show thesis
  proof (cases "\<exists>code. r = NewGetResponseWithErr ids code")
    case False
    then obtain i tokens where i: "ids = [i]" "Decode_into polymarket_Decode [] (body_text resp) = Some tokens"
      using assms by (auto simp: polymarket_ParseResponse_def with_body_def split: list.splits option.splits)
    with assms False obtain mt where mt: "getMarketAndTokenFromTicker i = Inr mt"
      by (cases "getMarketAndTokenFromTicker i") (auto simp: polymarket_ParseResponse_def with_body_def)
    obtain m tok where tok: "mt = (m, tok)" by (rule prod.exhaust)
    from assms False i mt tok obtain d where d: "find (\<lambda>token. td_token_id token = tok) tokens = Some d"
      by (cases "find (\<lambda>token. td_token_id token = tok) tokens") (auto simp: polymarket_ParseResponse_def with_body_def)
    from d have "d \<in> set tokens" "td_token_id d = tok" by (auto simp: find_Some_iff)
    with assms i mt tok d show thesis by (intro that(2)) (auto simp: polymarket_ParseResponse_def with_body_def)
  qed (use that(1) in blast)
qed

interpretation polymarket: answering_source polymarket_source polymarket_quotes zero_to_minimum
proof unfold_locales
  fix h :: api_handler and ids
  assume "cache_ok (ah_cache h)"
  then show "cache_ok (ah_cache (snd (sr_create_url polymarket_source ids h)))"
    by (auto simp: polymarket_source_def polymarket_CreateURL_def split: list.splits)
next
  fix h :: api_handler and now ids resp r t q
  assume parse: "sr_parse_response polymarket_source now ids resp h = Inr r" and price: "gm_get (gr_resolved r) t = Some q"
  from parse show "\<exists>off x. (off, x) \<in> set (polymarket_quotes ids (body_text resp)) \<and> same_name off t \<and>
      q = NewResult (Some (zero_to_minimum x)) now"
    unfolding polymarket_source_def price_source.simps
  proof (cases rule: polymarket_parsed)
    case (2 i m tok tokens d)
    then have "(pt_off_chain_ticker i, NewFloat (td_price d)) \<in> set (polymarket_quotes ids (body_text resp))"
      by (force simp: polymarket_quotes_def body_quotes_def)
    moreover have "t = i" "q = NewResult (Some (token_price d)) now" using price 2 by (auto split: if_splits)
    ultimately show ?thesis by (auto simp: token_price_adjusted)
  qed (use price in simp)
next
  fix now ids resp r and h :: api_handler
  assume "sr_parse_response polymarket_source now ids resp h = Inr r"
  then show "covers ids r"
    unfolding polymarket_source_def price_source.simps by (elim polymarket_parsed) auto
qed

lemma static_loop_quoted:
  assumes "set ts \<subseteq> set ids" "gm_get (fst (fold (static_entry now) ts ([], []))) t = Some q"
  shows "t \<in> set ids \<and> (\<exists>v. MetaData_FromJSON (pt_json t) = Some v \<and> q = NewResult (Some (NewFloat v)) now)"
proof -
  let ?P = "\<lambda>a :: price_answer. \<forall>t q. gm_get (fst a) t = Some q \<longrightarrow>
    t \<in> set ids \<and> (\<exists>v. MetaData_FromJSON (pt_json t) = Some v \<and> q = NewResult (Some (NewFloat v)) now)"
  have "?P (fold (static_entry now) ts ([], []))"
    by (rule fold_invariant [where Q = "\<lambda>t. t \<in> set ids"])
      (use assms(1) in \<open>auto simp: static_entry_def put_price_def put_code_def split: option.splits if_splits\<close>)
  with assms(2) show ?thesis by blast
qed

lemma answered_fold_static: "answered (fold (static_entry now) ts a) = set ts \<union> answered a"
  by (induction ts arbitrary: a) (auto simp: static_entry_def split: option.splits)

interpretation static: answering_source static_source static_quotes "\<lambda>x. x"
proof unfold_locales
  fix h :: api_handler and now ids resp r t q
  assume "sr_parse_response static_source now ids resp h = Inr r" "gm_get (gr_resolved r) t = Some q"
  then have "gm_get (fst (fold (static_entry now) ids ([], []))) t = Some q"
    by (auto simp: static_source_def static_ParseResponse_def)
  then obtain v where "t \<in> set ids" "MetaData_FromJSON (pt_json t) = Some v" "q = NewResult (Some (NewFloat v)) now"
    using static_loop_quoted [OF order_refl] by blast
  then show "\<exists>off x. (off, x) \<in> set (static_quotes ids (body_text resp)) \<and> same_name off t \<and> q = NewResult (Some x) now"
    by (intro exI [of _ "pt_off_chain_ticker t"]) (force simp: static_quotes_def)
next
  fix now ids resp r and h :: api_handler
  assume "sr_parse_response static_source now ids resp h = Inr r"
  then show "covers ids r"
    by (auto simp: static_source_def static_ParseResponse_def covers_to_response answered_fold_static)
qed (auto simp: static_source_def static_CreateURL_def)

section \<open>Requests of the chosen source\<close>

text \<open>What a body says to the source of a name, and a handler after earlier requests.\<close>

definition source_quotes :: "string \<Rightarrow> provider_ticker list \<Rightarrow> string \<Rightarrow> (string \<times> big_float) list" where
  "source_quotes name =
     (if name = binance_Name then binance_quotes else if name = bitstamp_Name then bitstamp_quotes
      else if name = coinbase_Name then coinbase_quotes else if name = coingecko_Name then coingecko_quotes
      else if name = coinmarketcap_Name then coinmarketcap_quotes
      else if name = geckoterminal_Name then geckoterminal_quotes else if name = kraken_Name then kraken_quotes
      else polymarket_quotes)"

definition source_adjust :: "string \<Rightarrow> big_float \<Rightarrow> big_float" where
  "source_adjust name = (if name = polymarket_Name then zero_to_minimum else (\<lambda>x. x))"

definition after_requests :: "price_source \<Rightarrow> provider_ticker list list \<Rightarrow> api_handler \<Rightarrow> api_handler" where
  "after_requests src reqs h = fold (\<lambda>ids h. snd (sr_create_url src ids h)) reqs h"

lemma checked_handler_cache: "checked_handler name api = Inr h \<Longrightarrow> ah_cache h = []"
  by (auto simp: checked_handler_def NewProviderTickers_def bind_res_Inr_iff split: if_splits)

lemma chosen_cases:
  assumes "APIQueryHandlerFactory cfg = Inr (DataHandler src h)"
  obtains (binance) "sc_name cfg = binance_Name" "src = binance_source"
    | (bitstamp) "sc_name cfg = bitstamp_Name" "src = bitstamp_source"
    | (coinbase) "sc_name cfg = coinbase_Name" "src = coinbase_source"
    | (coingecko) "sc_name cfg = coingecko_Name" "src = coingecko_source"
    | (coinmarketcap) "sc_name cfg = coinmarketcap_Name" "src = coinmarketcap_source"
    | (geckoterminal) "sc_name cfg = geckoterminal_Name" "src = geckoterminal_source"
    | (kraken) "sc_name cfg = kraken_Name" "src = kraken_source"
    | (polymarket) "sc_name cfg = polymarket_Name" "src = polymarket_source"
  using assms
  by (auto simp: APIQueryHandlerFactory_def choose_source_def Let_def data_handler_def bind_res_Inr_iff split: if_splits)

lemma chosen_cache: "APIQueryHandlerFactory cfg = Inr (DataHandler src h) \<Longrightarrow> ah_cache h = []"
  by (auto simp: APIQueryHandlerFactory_def choose_source_def Let_def data_handler_def bind_res_Inr_iff
      binance_NewAPIHandler_def bitstamp_NewAPIHandler_def coinbase_NewAPIHandler_def coingecko_NewAPIHandler_def
      coinmarketcap_NewAPIHandler_def geckoterminal_NewAPIHandler_def kraken_NewAPIHandler_def polymarket_NewAPIHandler_def
      split: if_splits dest: checked_handler_cache)

lemma source_names: "distinct [binance_Name, bitstamp_Name, coinbase_Name, coingecko_Name, coinmarketcap_Name,
    geckoterminal_Name, kraken_Name, polymarket_Name]"
  by code_simp

lemma source_quotes_names:
  "source_quotes binance_Name = binance_quotes" "source_quotes bitstamp_Name = bitstamp_quotes"
  "source_quotes coinbase_Name = coinbase_quotes" "source_quotes coingecko_Name = coingecko_quotes"
  "source_quotes coinmarketcap_Name = coinmarketcap_quotes" "source_quotes geckoterminal_Name = geckoterminal_quotes"
  "source_quotes kraken_Name = kraken_quotes" "source_quotes polymarket_Name = polymarket_quotes"
  unfolding source_quotes_def using source_names by auto

lemma source_adjust_names:
  "source_adjust binance_Name = (\<lambda>x. x)" "source_adjust bitstamp_Name = (\<lambda>x. x)"
  "source_adjust coinbase_Name = (\<lambda>x. x)" "source_adjust coingecko_Name = (\<lambda>x. x)"
  "source_adjust coinmarketcap_Name = (\<lambda>x. x)" "source_adjust geckoterminal_Name = (\<lambda>x. x)"
  "source_adjust kraken_Name = (\<lambda>x. x)" "source_adjust polymarket_Name = zero_to_minimum"
  unfolding source_adjust_def using source_names by auto

lemma chosen_source:
  assumes "APIQueryHandlerFactory cfg = Inr (DataHandler src h)"
  shows "ah_cache h = [] \<and> rest_source src (source_quotes (sc_name cfg)) (source_adjust (sc_name cfg)) \<and>
    (sc_name cfg \<noteq> coinmarketcap_Name \<longrightarrow>
      answering_source src (source_quotes (sc_name cfg)) (source_adjust (sc_name cfg)))"
  using assms
  by (cases rule: chosen_cases)
    (simp_all add: chosen_cache [OF assms] source_quotes_names source_adjust_names
      binance.answering_source_axioms bitstamp.answering_source_axioms coinbase.answering_source_axioms
      coingecko.answering_source_axioms geckoterminal.answering_source_axioms
      kraken.answering_source_axioms polymarket.answering_source_axioms
      binance.rest_source_axioms bitstamp.rest_source_axioms coinbase.rest_source_axioms coingecko.rest_source_axioms
      coinmarketcap.rest_source_axioms geckoterminal.rest_source_axioms kraken.rest_source_axioms
      polymarket.rest_source_axioms)

lemma after_requests_cache:
  assumes "rest_source src quotes adjust" "cache_ok (ah_cache h)"
  shows "cache_ok (ah_cache (after_requests src reqs h))"
  using assms(2) unfolding after_requests_def
  by (induction reqs arbitrary: h) (simp_all add: rest_source.keeps_cache [OF assms(1)])

subsection \<open>What is quoted is in the body\<close>

lemma text_quotes_body:
  assumes "(off, y) \<in> set (text_quotes ps)" "\<forall>p \<in> snd ` set ps. text_ok (body_leaves body) p"
  shows "y \<in> set (body_prices body)"
  using assms by (force simp: text_quotes_def intro: text_ok_body split: sum.splits)

lemma body_quotes_keeps:
  assumes "(off, y) \<in> set (body_quotes f zero qs body)" "keeps_leaves (body_leaves body) P f" "P zero"
  obtains v where "P v" "(off, y) \<in> set (qs v)"
proof (cases "Decode_into f zero body")
  case None
  with assms(1) show ?thesis by (simp add: body_quotes_def)
next
  case (Some v)
  with assms(1) show ?thesis using that [OF decode_keeps [OF assms(2,3) Some]] by (simp add: body_quotes_def)
qed

text \<open>What the decoders keep.\<close>

lemma keeps_check [simp]: "keeps_leaves L P (snd (check_field n f zero))"
  by (auto simp: keeps_leaves_def check_field_def)

lemma keeps_value: "(\<And>x y. g (put y x) = y) \<Longrightarrow>
    keeps_leaves L (\<lambda>d. number_ok L (g d)) (snd (json_field n into_float64 g put))"
  by (rule keeps_field [OF keeps_float]) simp_all

lemma keeps_binance: "keeps_leaves L (list_all (\<lambda>d. text_ok L (bd_price d))) binance_Decode"
  unfolding binance_Decode_def by (intro keeps_slice keeps_struct) (simp_all add: keeps_other keeps_text)

lemma keeps_bitstamp: "keeps_leaves L (list_all (\<lambda>d. text_ok L (md_last d))) bitstamp_Decode"
  unfolding bitstamp_Decode_def by (intro keeps_slice keeps_struct) (simp_all add: keeps_other keeps_text)

lemma keeps_coinbase: "keeps_leaves L (\<lambda>d. text_ok L (cd_amount d)) coinbase_Decode"
  unfolding coinbase_Decode_def coinbase_Data_def
  by (intro keeps_struct) (simp add: keeps_inner keeps_struct keeps_other keeps_text)

lemma keeps_coingecko: "keeps_leaves L (\<lambda>m. \<forall>qs \<in> snd ` set m. \<forall>v \<in> snd ` set qs. number_ok L v) coingecko_Decode"
  unfolding coingecko_Decode_def by (intro keeps_map keeps_float) (simp_all add: number_ok_def)

lemma keeps_coinmarketcap:
  "keeps_leaves L (\<lambda>r. \<forall>d \<in> snd ` set (cr_data r). \<forall>v \<in> snd ` set (cm_quote d). number_ok L v) coinmarketcap_Decode"
proof -
  have quote: "keeps_leaves L (number_ok L) coinmarketcap_Quote"
    unfolding coinmarketcap_Quote_def by (rule keeps_struct) (simp add: keeps_inner keeps_float)
  have "keeps_leaves L (\<lambda>d. \<forall>v \<in> snd ` set (cm_quote d). number_ok L v)
      (snd (json_field n (into_map coinmarketcap_Quote (BZero False)) cm_quote (\<lambda>x d. d\<lparr>cm_quote := x\<rparr>)))" for n
    by (rule keeps_field [OF keeps_map [OF quote]]) (simp_all add: number_ok_def)
  then have data: "keeps_leaves L (\<lambda>d. \<forall>v \<in> snd ` set (cm_quote d). number_ok L v) coinmarketcap_Data"
    unfolding coinmarketcap_Data_def by (intro keeps_struct) (simp add: keeps_other)
  have "keeps_leaves L (\<lambda>r. \<forall>d \<in> snd ` set (cr_data r). \<forall>v \<in> snd ` set (cm_quote d). number_ok L v)
      (snd (json_field n (into_map coinmarketcap_Data zero_coinmarketcap_data) cr_data (\<lambda>x r. r\<lparr>cr_data := x\<rparr>)))" for n
    by (rule keeps_field [OF keeps_map [OF data]]) (simp_all add: zero_coinmarketcap_data_def)
  then show ?thesis
    unfolding coinmarketcap_Decode_def by (intro keeps_struct) (simp add: keeps_other)
qed

lemma keeps_geckoterminal: "keeps_leaves L (\<lambda>d. \<forall>p \<in> snd ` set (gt_token_prices d). text_ok L p) geckoterminal_Decode"
proof -
  have "keeps_leaves L (\<lambda>m. \<forall>p \<in> snd ` set m. text_ok L p) (into_map into_string [])"
    by (rule keeps_map [OF keeps_string]) simp
  from keeps_inner [OF this] have "keeps_leaves L (\<lambda>m. \<forall>p \<in> snd ` set m. text_ok L p)
      (into_struct [json_field n (into_map into_string []) (\<lambda>m. m) (\<lambda>m _. m)])" for n
    by (intro keeps_struct) (simp only: list.pred_inject simp_thms)
  then have "keeps_leaves L (\<lambda>d. \<forall>p \<in> snd ` set (gt_token_prices d). text_ok L p) (snd (json_field k
      (into_struct [json_field n (into_map into_string []) (\<lambda>m. m) (\<lambda>m _. m)])
      gt_token_prices (\<lambda>x d. d\<lparr>gt_token_prices := x\<rparr>)))" for k n
    by (rule keeps_field) simp_all
  then have "keeps_leaves L (\<lambda>d. \<forall>p \<in> snd ` set (gt_token_prices d). text_ok L p) geckoterminal_Data"
    unfolding geckoterminal_Data_def by (intro keeps_struct) (simp add: keeps_other)
  from keeps_inner [OF this] show ?thesis
    unfolding geckoterminal_Decode_def by (intro keeps_struct) (simp only: list.pred_inject simp_thms)
qed

lemma keeps_kraken: "keeps_leaves L (\<lambda>b. \<forall>ps \<in> snd ` set (kb_tickers b). list_all (text_ok L) ps) kraken_Decode"
proof -
  have result: "keeps_leaves L (list_all (text_ok L)) kraken_TickerResult"
    unfolding kraken_TickerResult_def by (rule keeps_struct) (simp add: keeps_inner keeps_slice keeps_string)
  have "keeps_leaves L (\<lambda>b. \<forall>ps \<in> snd ` set (kb_tickers b). list_all (text_ok L) ps)
      (snd (json_field n (into_map kraken_TickerResult []) kb_tickers (\<lambda>x b. b\<lparr>kb_tickers := x\<rparr>)))" for n
    by (rule keeps_field [OF keeps_map [OF result]]) simp_all
  then show ?thesis
    unfolding kraken_Decode_def by (intro keeps_struct) (simp add: keeps_other)
qed

lemma keeps_polymarket: "keeps_leaves L (list_all (\<lambda>d. number_ok L (td_price d))) polymarket_Decode"
proof -
  have token: "keeps_leaves L (\<lambda>d. number_ok L (td_price d)) polymarket_TokenData"
    unfolding polymarket_TokenData_def by (rule keeps_struct) (simp add: keeps_other keeps_value)
  have "keeps_leaves L (list_all (\<lambda>d. number_ok L (td_price d))) (snd (json_field n (into_slice polymarket_TokenData
      \<lparr>td_token_id = [], td_outcome = [], td_price = BZero False\<rparr>) (\<lambda>ts. ts) (\<lambda>ts _. ts)))" for n
    by (rule keeps_inner [OF keeps_slice [OF token]]) (simp add: number_ok_def)
  then show ?thesis
    unfolding polymarket_Decode_def by (intro keeps_struct) simp
qed

text \<open>The prices of five sources are strings of the body; those of the other three are numbers, and zero where the
  body has none.\<close>

lemma quoted_strings_in_body:
  "(off, y) \<in> set (binance_quotes ids body) \<Longrightarrow> y \<in> set (body_prices body)"
  "(off, y) \<in> set (bitstamp_quotes ids body) \<Longrightarrow> y \<in> set (body_prices body)"
  "(off, y) \<in> set (coinbase_quotes ids body) \<Longrightarrow> y \<in> set (body_prices body)"
  "(off, y) \<in> set (geckoterminal_quotes ids body) \<Longrightarrow> y \<in> set (body_prices body)"
  "(off, y) \<in> set (kraken_quotes ids body) \<Longrightarrow> y \<in> set (body_prices body)"
  unfolding binance_quotes_def bitstamp_quotes_def coinbase_quotes_def geckoterminal_quotes_def kraken_quotes_def
  by ((erule body_quotes_keeps, rule keeps_binance keeps_bitstamp keeps_coinbase keeps_geckoterminal keeps_kraken,
      simp, elim text_quotes_body, force simp: list_all_iff close_prices_def split: list.splits)+)

lemma coinmarketcap_pairs_number:
  assumes "(off, y) \<in> set (coinmarketcap_pairs m)"
  obtains d v where "d \<in> snd ` set m" "v \<in> snd ` set (cm_quote d)" "y = NewFloat v"
proof -
  obtain d where d: "(off, d) \<in> set m"
      and y: "(off, y) \<in> set (case gm_get (cm_quote d) DefaultQuoteDenom of None \<Rightarrow> [] | Some v \<Rightarrow> [(off, NewFloat v)])"
    using assms by (auto simp: coinmarketcap_pairs_def split: option.splits)
  show thesis
  proof (cases "gm_get (cm_quote d) DefaultQuoteDenom")
    case None
    with y show ?thesis by simp
  next
    case (Some v)
    with d y gm_get_mem [OF Some] show ?thesis by (intro that [of d v]) force+
  qed
qed

lemma quoted_numbers_in_body:
  "(off, y) \<in> set (coingecko_quotes ids body) \<Longrightarrow> y = NewFloat (BZero False) \<or> y \<in> set (body_prices body)"
  "(off, y) \<in> set (coinmarketcap_quotes ids body) \<Longrightarrow> y = NewFloat (BZero False) \<or> y \<in> set (body_prices body)"
  "(off, y) \<in> set (polymarket_quotes ids body) \<Longrightarrow> y = NewFloat (BZero False) \<or> y \<in> set (body_prices body)"
  unfolding coingecko_quotes_def coinmarketcap_quotes_def polymarket_quotes_def
  subgoal
    by (erule body_quotes_keeps, rule keeps_coingecko)
      (fastforce simp: coingecko_pairs_def dest: number_ok_body)+
  subgoal
    by (erule body_quotes_keeps, rule keeps_coinmarketcap)
      (simp add: zero_coinmarketcap_response_def, elim coinmarketcap_pairs_number, use number_ok_body in blast)
  subgoal
    by (erule body_quotes_keeps, rule keeps_polymarket) (fastforce simp: list_all_iff dest: number_ok_body)+
  done

lemma source_quotes_in_body:
  assumes "APIQueryHandlerFactory cfg = Inr (DataHandler src h)" "(off, y) \<in> set (source_quotes (sc_name cfg) ids body)"
  shows "y \<in> set (body_prices body) \<or>
    sc_name cfg \<in> {coingecko_Name, coinmarketcap_Name, polymarket_Name} \<and> y = NewFloat (BZero False)"
  using assms
  by (cases rule: chosen_cases)
    (simp_all add: source_quotes_names quoted_strings_in_body, (drule quoted_numbers_in_body, blast)+)

text \<open>(C25) Whichever REST source the factory chose for a provider, and whatever it was asked before: what a
  request yields for a ticker is the price \<open>y\<close> that the body of the server's successful response states, read as
  this source's format says, under the ticker's off-chain name up to the case of letters (for the sources with
  one ticker per request, in the response to it), with the time of the parsing. There are two exceptions: of a price of zero
  Polymarket makes the minimum 0.0001, and CoinGecko, CoinMarketCap and Polymarket, which decode numbers,
  read a price that is absent or \<open>null\<close> as zero; any other \<open>y\<close> is a string or number of the body. And every ticker of
  the request gets a price or an error code, unless the source is CoinMarketCap.\<close>

theorem fetched_prices_were_served:
  assumes "APIQueryHandlerFactory cfg = Inr (DataHandler src h)"
    "Fetch (source_handler now src (after_requests src reqs h)) do_request ids = Inr r"
  shows "(\<forall>t q. gm_get (gr_resolved r) t = Some q \<longrightarrow>
      (\<exists>url resp off x y. do_request url = (Some resp, None) \<and> 200 \<le> hr_status resp \<and> hr_status resp < 300 \<and>
        (off, y) \<in> set (source_quotes (sc_name cfg) ids (body_text resp)) \<and>
        ToUpper off = ToUpper (pt_off_chain_ticker t) \<and>
        (y \<in> set (body_prices (body_text resp)) \<or>
          sc_name cfg \<in> {coingecko_Name, coinmarketcap_Name, polymarket_Name} \<and> y = NewFloat (BZero False)) \<and>
        q = NewResult (Some x) now \<and>
        (if sc_name cfg = polymarket_Name \<and> zero_price y then x = NewFloat priceAdjustmentMin else x = y))) \<and>
    (sc_name cfg \<noteq> coinmarketcap_Name \<longrightarrow>
      set ids \<subseteq> dom (gm_get (gr_resolved r)) \<union> dom (gm_get (gr_unresolved r)))"
proof (intro conjI allI impI)
  note src = chosen_source [OF assms(1)]
  then have cache: "cache_ok (ah_cache (after_requests src reqs h))"
    using after_requests_cache [of src "source_quotes (sc_name cfg)" "source_adjust (sc_name cfg)" h reqs] by simp
  show "set ids \<subseteq> dom (gm_get (gr_resolved r)) \<union> dom (gm_get (gr_unresolved r))"
    if "sc_name cfg \<noteq> coinmarketcap_Name"
    using src that answering_source.every_id_answered [OF _ assms(2)] unfolding covers_def by blast
  fix t q
  assume price: "gm_get (gr_resolved r) t = Some q"
  from src have rest: "rest_source src (source_quotes (sc_name cfg)) (source_adjust (sc_name cfg))" by blast
  obtain url resp off y where "do_request url = (Some resp, None)" "200 \<le> hr_status resp" "hr_status resp < 300"
      and y: "(off, y) \<in> set (source_quotes (sc_name cfg) ids (body_text resp))"
      and "same_name off t" "q = NewResult (Some (source_adjust (sc_name cfg) y)) now"
    using rest_source.fetched_prices_quoted [OF rest cache assms(2) price] by blast
  with source_quotes_in_body [OF assms(1) y]
  show "\<exists>url resp off x y. do_request url = (Some resp, None) \<and> 200 \<le> hr_status resp \<and> hr_status resp < 300 \<and>
        (off, y) \<in> set (source_quotes (sc_name cfg) ids (body_text resp)) \<and>
        ToUpper off = ToUpper (pt_off_chain_ticker t) \<and>
        (y \<in> set (body_prices (body_text resp)) \<or>
          sc_name cfg \<in> {coingecko_Name, coinmarketcap_Name, polymarket_Name} \<and> y = NewFloat (BZero False)) \<and>
        q = NewResult (Some x) now \<and>
        (if sc_name cfg = polymarket_Name \<and> zero_price y then x = NewFloat priceAdjustmentMin else x = y)"
    unfolding same_name_def source_adjust_def zero_to_minimum_def
    by (intro exI [of _ url] exI [of _ resp] exI [of _ off] exI [of _ "source_adjust (sc_name cfg) y"] exI [of _ y])
      (simp add: source_adjust_def zero_to_minimum_def)
qed

text \<open>A run of the Binance source.\<close>

definition binance_cfg :: source_config where
  "binance_cfg = \<lparr>sc_name = binance_Name,
     sc_api = zero_api_config\<lparr>ac_enabled := True, ac_timeout := 3, ac_interval := 1, ac_reconnect_timeout := 2, ac_max_queries := 1,
       ac_atomic := True, ac_endpoints := [\<lparr>ep_url = ''https://api.binance.com/api/v3/ticker/price?symbols=%s%s%s'',
         ep_authentication = \<lparr>au_api_key = [], au_api_key_header = []\<rparr>\<rparr>], ac_name := binance_Name\<rparr>,
     sc_websocket = zero_websocket_config, sc_type = ''price_provider''\<rparr>"

definition btc_usdt :: provider_ticker where
  "btc_usdt = NewProviderTicker ''BTCUSDT'' []"

definition exchange :: "string \<Rightarrow> http_response option \<times> go_error option" where
  "exchange url =
     (if url = ''https://api.binance.com/api/v3/ticker/price?symbols=%5B%22BTCUSDT%22%5D''
      then (Some \<lparr>hr_status = 200, hr_body = map (\<lambda>c. of_nat (of_char c)) ''[{\"symbol\": \"BTCUSDT\", \"price\": \"64000.5\"}]''\<rparr>, None)
      else (None, Some (Errorf ''no such page'')))"

definition binance_handler :: api_handler where
  "binance_handler = \<lparr>ah_api = sc_api binance_cfg, ah_cache = []\<rparr>"

lemma binance_chosen: "APIQueryHandlerFactory binance_cfg = Inr (DataHandler binance_source binance_handler)"
  by (simp add: APIQueryHandlerFactory_def SourceConfig_ValidateBasic_def APIConfig_ValidateBasic_def binance_cfg_def choose_source_def
     data_handler_def binance_NewAPIHandler_def checked_handler_def binance_handler_def zero_websocket_config_def zero_api_config_def Endpoint_ValidateBasic_def Authentication_ValidateBasic_def
     binance_Name_def NewProviderTickers_def Let_def)

lemma binance_answer: "Fetch (source_handler 7 binance_source (after_requests binance_source [] binance_handler)) exchange [btc_usdt] =
   Inr (NewGetResponse [(btc_usdt, NewResult (Some \<lparr>bf_prec = 64, bf_val = BFin (128001 / 2)\<rparr>) 7)] [])"
  by code_simp

theorem fetched_prices_were_served_witness:
  "\<exists>url resp off x. exchange url = (Some resp, None) \<and> 200 \<le> hr_status resp \<and> hr_status resp < 300 \<and>
     (off, x) \<in> set (source_quotes binance_Name [btc_usdt] (body_text resp)) \<and> x \<in> set (body_prices (body_text resp)) \<and>
     ToUpper off = ''BTCUSDT'' \<and> x = \<lparr>bf_prec = 64, bf_val = BFin (128001 / 2)\<rparr>"
proof -
  have name: "sc_name binance_cfg = binance_Name" by (simp add: binance_cfg_def)
  have up: "ToUpper (pt_off_chain_ticker btc_usdt) = ''BTCUSDT''" by code_simp
  have other: "binance_Name \<notin> {coingecko_Name, coinmarketcap_Name, polymarket_Name}" "binance_Name \<noteq> polymarket_Name"
    using source_names by auto
  note served = fetched_prices_were_served [OF binance_chosen binance_answer, unfolded name one_price, THEN conjunct1,
      rule_format, of btc_usdt, OF if_P [OF refl], unfolded up]
  from served other show ?thesis by (auto simp: NewResult_def)
qed

section \<open>Answers that are lost\<close>

definition ok_response :: "string \<Rightarrow> http_response" where
  "ok_response body = \<lparr>hr_status = 200, hr_body = map (\<lambda>c. of_nat (of_char c)) body\<rparr>"

text \<open>CoinMarketCap's handler says nothing about a ticker the response leaves out.\<close>

theorem coinmarketcap_forgets_tickers:
  "coinmarketcap_ParseResponse now ids (ok_response ''{\"data\": {}}'') h = Inr (NewGetResponse [] [])"
proof -
  have "Decode_into coinmarketcap_Decode zero_coinmarketcap_response (body_text (ok_response ''{\"data\": {}}'')) =
      Some zero_coinmarketcap_response"
    by code_simp
  then show ?thesis
    by (simp add: coinmarketcap_ParseResponse_def with_body_def zero_coinmarketcap_response_def to_response_def)
qed

text \<open>A Kraken result without close prices makes the parser panic, and no ticker of the request gets an answer.\<close>

definition two_pairs :: "provider_ticker list" where
  "two_pairs = [NewProviderTicker ''XBTUSD'' [], NewProviderTicker ''ETHUSD'' []]"

theorem kraken_empty_close_loses_answer:
  "subTask (source_handler now kraken_source \<lparr>ah_api = sc_api binance_cfg, ah_cache = []\<rparr>)
     (\<lambda>url. (Some (ok_response ''{\"error\": [], \"result\": {\"XBTUSD\": {}, \"ETHUSD\": {\"c\": [\"3000.1\"]}}}''), None))
     False two_pairs = None"
proof -
  let ?b = "ok_response ''{\"error\": [], \"result\": {\"XBTUSD\": {}, \"ETHUSD\": {\"c\": [\"3000.1\"]}}}''"
  have "Decode_into kraken_Decode \<lparr>kb_errors = [], kb_tickers = []\<rparr> (body_text ?b) =
      Some \<lparr>kb_errors = [], kb_tickers = [(''XBTUSD'', []), (''ETHUSD'', [''3000.1''])]\<rparr>"
    by code_simp
  moreover have "FromOffChainTicker (fold Add two_pairs []) ''XBTUSD'' = Some (NewProviderTicker ''XBTUSD'' [])"
    by code_simp
  ultimately have "kraken_ParseResponse now two_pairs ?b (cache_tickers two_pairs \<lparr>ah_api = sc_api binance_cfg, ah_cache = []\<rparr>) =
      Inl (Panic ''index out of range'')"
    by (simp add: kraken_ParseResponse_def with_body_def kraken_entry_def LastPrice_def answer_def)
  then show ?thesis
    by (simp add: subTask_def Fetch_def source_handler_def kraken_source_def kraken_CreateURL_def Let_def two_pairs_def
        NewProviderTicker_def endpoint_url_def cache_tickers_def binance_cfg_def ok_response_def kraken_Separator_def)
qed

end
