(* ===== verification/Json_Print_Facts.thy ===== *)
theory Json_Print_Facts
  imports Json_Print
begin

section \<open>The scanner\<close>

text \<open>A state in which the value before is complete: what ends a value ends it.\<close>

definition value_end :: "jstate \<Rightarrow> jparse list \<Rightarrow> bool" where
  "value_end st ps = (\<forall>c. c \<in> set '',}] '' \<longrightarrow> json_step st c = endValue c ps)"

text \<open>A state the scanner passes inside a text whose outermost value is still open.\<close>

definition still_open :: "jstate \<Rightarrow> bool" where
  "still_open st = (fst st \<noteq> JError \<and> fst st \<noteq> EndTop)"

fun stays_open :: "jstate \<Rightarrow> string \<Rightarrow> bool" where
  "stays_open st [] = True"
| "stays_open st (c # cs) = (still_open (json_step st c) \<and> stays_open (json_step st c) cs)"

lemma stays_open_append: "stays_open st (u @ v) = (stays_open st u \<and> stays_open (foldl json_step st u) v)"
  by (induction u arbitrary: st) auto

lemma first_value_append:
  "stays_open st u \<Longrightarrow> first_value st (u @ v) = map_option ((@) u) (first_value (foldl json_step st u) v)"
proof (induction u arbitrary: st)
  case Nil
  then show ?case by (cases "first_value st v") simp_all
next
  case (Cons c u)
  then show ?case
    by (cases "first_value (foldl json_step (json_step st c) u) v") (simp_all add: Let_def still_open_def)
qed

text \<open>What a text does from a state: it stays open and ends in a state.\<close>

definition scans :: "jstate \<Rightarrow> string \<Rightarrow> jstate \<Rightarrow> bool" where
  "scans st u st' = (foldl json_step st u = st' \<and> stays_open st u)"

lemma scans_Nil: "scans st [] st"
  by (simp add: scans_def)

lemma scans_append: "scans st u st' \<Longrightarrow> scans st' v st'' \<Longrightarrow> scans st (u @ v) st''"
  by (simp add: scans_def stays_open_append)

lemma scans_Cons: "json_step st c = st' \<Longrightarrow> still_open st' \<Longrightarrow> scans st' u st'' \<Longrightarrow> scans st (c # u) st''"
  by (simp add: scans_def)

lemma hex_digit_hex: "is_hex (hex_digit n)"
proof -
  have "list_all is_hex ''0123456789abcdef''" by code_simp
  then have "is_hex (''0123456789abcdef'' ! (n mod 16))" unfolding list_all_length by (elim allE impE) simp_all
  then show ?thesis by (simp only: hex_digit_def)
qed

lemma escape_char_cases:
  obtains (plain) "escape_char c = [c]" "c \<noteq> CHR 0x22" "c \<noteq> CHR 0x5C" "\<not> c < CHR '' ''"
  | (escaped) e where "escape_char c = [CHR 0x5C, e]" "(c, e) \<in> set short_escapes"
  | (unicode) "escape_char c = [CHR 0x5C, CHR ''u'', CHR ''0'', CHR ''0'', hex_digit (of_char c div 16), hex_digit (of_char c)]"
      "of_char c < (128 :: nat)"
proof (cases "map_of short_escapes c")
  case None
  have "map_of short_escapes (CHR 0x22) \<noteq> None" "map_of short_escapes (CHR 0x5C) \<noteq> None"
    by (simp_all add: short_escapes_def)
  with None have ne: "c \<noteq> CHR 0x22" "c \<noteq> CHR 0x5C" by metis+
  show thesis
  proof (cases "c < CHR '' '' \<or> c \<in> set ''<>&''")
    case True
    then have "of_char c < (128 :: nat)" by (auto simp: less_char_def)
    then show thesis using True None by (intro unicode) (simp_all only: escape_char_def option.case if_True)
  next
    case False
    then show thesis using None ne by (intro plain) (simp_all add: escape_char_def)
  qed
next
  case (Some e)
  from map_of_SomeD [OF this] Some show thesis by (intro escaped) (simp_all only: escape_char_def option.case)
qed

lemma short_escape:
  assumes "(c, e) \<in> set short_escapes"
  shows "json_step (InStringEsc, ps) e = (InString, ps)" "simple_escape e = c" "e \<noteq> CHR ''u''"
proof -
  have "list_all (\<lambda>(c, e). e \<in> {CHR ''b'', CHR ''f'', CHR ''n'', CHR ''r'', CHR ''t'', CHR 0x5C, CHR ''/'', CHR 0x22} \<and>
      simple_escape e = c \<and> e \<noteq> CHR ''u'') short_escapes"
    by code_simp
  from bspec [OF this [unfolded list_all_iff] assms]
  have "e \<in> {CHR ''b'', CHR ''f'', CHR ''n'', CHR ''r'', CHR ''t'', CHR 0x5C, CHR ''/'', CHR 0x22}"
      and e: "simple_escape e = c" "e \<noteq> CHR ''u''"
    unfolding prod.case by blast+
  then show "json_step (InStringEsc, ps) e = (InString, ps)" unfolding json_step.simps by (simp only: if_True)
  show "simple_escape e = c" "e \<noteq> CHR ''u''" by (fact e)+
qed

lemma scans_hex: "is_hex a \<Longrightarrow> n < 3 \<Longrightarrow> scans (EscU (Suc n), ps) u st \<Longrightarrow> scans (EscU n, ps) (a # u) st"
  by (rule scans_Cons) (simp_all add: still_open_def)

lemma scans_unicode:
  assumes "is_hex a" "is_hex b"
  shows "scans (InString, ps) [CHR 0x5C, CHR ''u'', CHR ''0'', CHR ''0'', a, b] (InString, ps)"
proof -
  have zero: "is_hex CHR ''0''" by code_simp
  have "scans (EscU (Suc (Suc (Suc 0))), ps) [b] (InString, ps)" using assms(2) by (simp add: scans_def still_open_def)
  then have "scans (EscU 0, ps) [CHR ''0'', CHR ''0'', a, b] (InString, ps)"
    using scans_hex [OF zero _ scans_hex [OF zero _ scans_hex [OF assms(1)]]] by simp
  then have "scans (InStringEsc, ps) [CHR ''u'', CHR ''0'', CHR ''0'', a, b] (InString, ps)"
    by (rule scans_Cons [rotated 2]) (simp_all add: still_open_def)
  then show ?thesis by (rule scans_Cons [rotated 2]) (simp_all add: still_open_def)
qed

lemma scans_escape_char: "scans (InString, ps) (escape_char c) (InString, ps)"
proof (cases c rule: escape_char_cases)
  case plain
  then have "json_step (InString, ps) c = (InString, ps)" by (simp only: json_step.simps if_False)
  then show ?thesis unfolding plain(1) by (simp add: scans_def still_open_def del: json_step.simps)
next
  case (escaped e)
  have "scans (InStringEsc, ps) [e] (InString, ps)"
    using short_escape(1) [OF escaped(2)] by (simp add: scans_def still_open_def del: json_step.simps)
  then show ?thesis unfolding escaped(1) by (rule scans_Cons [rotated 2]) (simp_all add: still_open_def)
next
  case unicode
  then show ?thesis by (simp only: scans_unicode hex_digit_hex)
qed

lemma scans_escape: "scans (InString, ps) (escape s) (InString, ps)"
  by (induction s) (auto simp: escape_def intro: scans_append [OF scans_escape_char] scans_Nil)

lemma scans_quoted: "scans (InString, ps) (escape s @ [CHR 0x22]) (EndValue, ps)"
  by (rule scans_append [OF scans_escape]) (simp add: scans_def still_open_def)

text \<open>From the states that expect a value, a key, or the end of the value before.\<close>

definition awaits_value :: "jstate \<Rightarrow> jparse list \<Rightarrow> bool" where
  "awaits_value st ps = (st = (BeginValue, ps) \<or> st = (BeginValueOrEmpty, ps))"

lemma awaits_step:
  assumes "awaits_value st ps" "c \<noteq> CHR '']''"
  shows "json_step st c = (if is_space c \<and> fst st = BeginValueOrEmpty then (BeginValueOrEmpty, ps) else beginValue c ps)"
  using assms by (auto simp: awaits_value_def)

lemma scans_string_value:
  assumes "awaits_value st ps"
  shows "scans st (quote_text s) (EndValue, ps)"
proof -
  have "json_step st (CHR 0x22) = (InString, ps)"
    using assms by (auto simp: awaits_value_def beginValue_def is_space_def)
  then show ?thesis unfolding quote_text_def by (rule scans_Cons [OF _ _ scans_quoted]) (simp add: still_open_def)
qed

text \<open>A value's text brings a state that awaits a value to one where it is complete.\<close>

definition scans_value :: "string \<Rightarrow> jparse list \<Rightarrow> bool" where
  "scans_value u ps = (\<forall>st. awaits_value st ps \<longrightarrow>
     value_end (foldl json_step st u) ps \<and> (ps \<noteq> [] \<longrightarrow> stays_open st u))"

lemma value_end_simps [simp]: "value_end (EndValue, ps) ps" "value_end (EndTop, []) []"
  by (simp_all add: value_end_def)

lemma value_end_pop: "value_end (pop (p # ps)) ps"
  by (cases ps) (simp_all add: pop_def)

lemma pop_open: "ps \<noteq> [] \<Longrightarrow> still_open (pop (p # ps))"
  by (cases ps) (simp_all add: pop_def still_open_def)

lemma scans_value_I:
  "(\<And>st. awaits_value st ps \<Longrightarrow> scans st u st') \<Longrightarrow> value_end st' ps \<Longrightarrow> scans_value u ps"
  by (auto simp: scans_value_def scans_def)

text \<open>After an opening bracket: the rest ends by the bracket that closes it.\<close>

definition scans_rest :: "jstate \<Rightarrow> string \<Rightarrow> jparse list \<Rightarrow> bool" where
  "scans_rest st u ps = (value_end (foldl json_step st u) ps \<and> (ps \<noteq> [] \<longrightarrow> stays_open st u))"

lemma scans_rest_value:
  assumes "scans_value u qs" "awaits_value st qs" "qs \<noteq> []"
    "\<And>st'. value_end st' qs \<Longrightarrow> scans_rest st' v ps"
  shows "scans_rest st (u @ v) ps"
proof -
  have "value_end (foldl json_step st u) qs" "stays_open st u"
    using assms(1-3) unfolding scans_value_def by blast+
  with assms(4) [of "foldl json_step st u"] show ?thesis by (simp add: scans_rest_def stays_open_append)
qed

lemma scans_rest_scans: "scans st u st' \<Longrightarrow> scans_rest st' v ps \<Longrightarrow> scans_rest st (u @ v) ps"
  by (auto simp: scans_rest_def scans_def stays_open_append)

lemma scans_rest_Cons:
  "json_step st c = st' \<Longrightarrow> still_open st' \<Longrightarrow> scans_rest st' u ps \<Longrightarrow> scans_rest st (c # u) ps"
  by (simp add: scans_rest_def)

lemma scans_rest_end: "json_step st c = pop (p # ps) \<Longrightarrow> scans_rest st [c] ps"
  by (simp add: scans_rest_def value_end_pop pop_open)

lemma scans_value_open:
  assumes "\<And>st. awaits_value st ps \<Longrightarrow> json_step st c = st'" "still_open st'" "scans_rest st' u ps"
  shows "scans_value (c # u) ps"
  unfolding scans_value_def
proof (intro allI impI)
  fix st
  assume "awaits_value st ps"
  from assms(1) [OF this] assms(2,3)
  show "value_end (foldl json_step st (c # u)) ps \<and> (ps \<noteq> [] \<longrightarrow> stays_open st (c # u))"
    by (simp add: scans_rest_def)
qed

lemma value_end_step: "value_end st ps \<Longrightarrow> c \<in> set '',}] '' \<Longrightarrow> json_step st c = endValue c ps"
  by (simp only: value_end_def)

lemma open_bracket:
  assumes "awaits_value st ps"
  shows "json_step st (CHR ''['') = push BeginValueOrEmpty ParseArrayValue ps"
    "json_step st (CHR ''{'') = push BeginStringOrEmpty ParseObjectKey ps"
  using assms by (auto simp: awaits_value_def beginValue_def is_space_def)

subsection \<open>Numbers\<close>

lemma scans_digits: "list_all is_digit w \<Longrightarrow> scans (Num1, ps) w (Num1, ps)"
  by (induction w) (auto simp: scans_def still_open_def)

lemma value_end_number: "value_end (Num1, ps) ps" "value_end (Num0, ps) ps"
  by (simp_all add: value_end_def num0_def is_digit_def)

text \<open>A state from which a digit begins a number.\<close>

definition starts_number :: "jstate \<Rightarrow> jparse list \<Rightarrow> bool" where
  "starts_number st ps = (\<forall>c. is_digit c \<longrightarrow> json_step st c = (if c = CHR ''0'' then Num0 else Num1, ps))"

lemma digit_other:
  assumes "is_digit c"
  shows "c \<noteq> CHR '' ''" "c \<noteq> CHR ''{''" "c \<noteq> CHR ''[''" "c \<noteq> CHR ''-''" "c \<noteq> CHR ''t''" "c \<noteq> CHR ''f''" "c \<noteq> CHR ''n''"
    "c \<noteq> CHR 0x22" "c \<noteq> CHR 0x09" "c \<noteq> CHR 0x0D" "c \<noteq> CHR 0x0A" "c \<noteq> CHR '']''"
  using assms by (auto simp: is_digit_def less_eq_char_def)

lemma starts_number_value:
  assumes "awaits_value st ps"
  shows "starts_number st ps"
proof -
  have b: "beginValue c ps = (if c = CHR ''0'' then Num0 else Num1, ps) \<and> \<not> is_space c" if "is_digit c" for c
  proof (cases "c = CHR ''0''")
    case True
    then show ?thesis by (simp add: beginValue_def is_space_def)
  next
    case False
    with digit_other [OF that] that show ?thesis by (simp add: beginValue_def is_space_def)
  qed
  have "json_step st c = (if c = CHR ''0'' then Num0 else Num1, ps)" if "is_digit c" for c
    using assms b [OF that] digit_other(12) [OF that] by (elim disjE [of "st = _"] awaits_value_def [THEN iffD1, THEN disjE]) simp_all
  then show ?thesis by (simp add: starts_number_def)
qed

lemma starts_number_neg: "starts_number (NumNeg, ps) ps"
  by (auto simp: starts_number_def)

lemma scans_unsigned:
  assumes "starts_number st ps" "unsigned_token w"
  shows "\<exists>st'. scans st w st' \<and> value_end st' ps"
proof (cases "w = ''0''")
  case True
  have "is_digit (CHR ''0'')" by (simp add: is_digit_def)
  with assms(1) have "json_step st (CHR ''0'') = (Num0, ps)" unfolding starts_number_def by auto
  then have "scans st w (Num0, ps)" by (simp add: True scans_def still_open_def)
  then show ?thesis using value_end_number(2) by blast
next
  case False
  then obtain c v where w: "w = c # v" "is_digit c" "c \<noteq> CHR ''0''" "list_all is_digit v"
    using assms(2) by (cases w) (auto simp: unsigned_token_def)
  from assms(1) w(2,3) have "json_step st c = (Num1, ps)" unfolding starts_number_def by auto
  then have "scans st w (Num1, ps)"
    unfolding w(1) by (rule scans_Cons [OF _ _ scans_digits [OF w(4)]]) (simp add: still_open_def)
  then show ?thesis using value_end_number(1) by blast
qed

lemma scans_int_token:
  assumes "int_token w"
  shows "scans_value w ps"
  unfolding scans_value_def
proof (intro allI impI)
  fix st
  assume st: "awaits_value st ps"
  have "\<exists>st'. scans st w st' \<and> value_end st' ps"
  proof (cases "take 1 w = ''-''")
    case True
    then obtain v where w: "w = CHR ''-'' # v" by (cases w) auto
    have "json_step st (CHR ''-'') = (NumNeg, ps)"
      using st by (auto simp: awaits_value_def beginValue_def is_space_def)
    then have step: "scans (NumNeg, ps) v st' \<Longrightarrow> scans st w st'" for st'
      unfolding w by (rule scans_Cons) (simp_all add: still_open_def)
    have "unsigned_token v" using assms by (simp add: w int_token_def)
    from scans_unsigned [OF starts_number_neg this] step show ?thesis by blast
  next
    case False
    then show ?thesis using scans_unsigned [OF starts_number_value [OF st]] assms by (auto simp: int_token_def)
  qed
  then show "value_end (foldl json_step st w) ps \<and> (ps \<noteq> [] \<longrightarrow> stays_open st w)" by (auto simp: scans_def)
qed

subsection \<open>Trees\<close>

lemma scans_word:
  assumes "w \<in> {''null'', ''true'', ''false''}"
  shows "scans_value w ps"
proof -
  have "scans st w (EndValue, ps)" if "awaits_value st ps" for st
    using that assms by (auto simp: awaits_value_def beginValue_def is_space_def scans_def still_open_def)
  then show ?thesis by (rule scans_value_I) simp_all
qed

lemma scans_key:
  assumes "st = (BeginStringOrEmpty, ParseObjectKey # ps) \<or> st = (BeginString, ParseObjectKey # ps)"
    "scans_rest (BeginValue, ParseObjectValue # ps) u ps"
  shows "scans_rest st (quote_text k @ CHR '':'' # u) ps"
proof (rule scans_rest_scans)
  have "json_step st (CHR 0x22) = (InString, ParseObjectKey # ps)"
    using assms(1) by (auto simp: beginString_def is_space_def)
  then show "scans st (quote_text k) (EndValue, ParseObjectKey # ps)"
    unfolding quote_text_def by (rule scans_Cons [OF _ _ scans_quoted]) (simp add: still_open_def)
  show "scans_rest (EndValue, ParseObjectKey # ps) (CHR '':'' # u) ps"
    by (rule scans_rest_Cons [OF _ _ assms(2)]) (simp_all add: is_space_def still_open_def)
qed

lemma push_ok: "length ps < 10000 \<Longrightarrow> push st p ps = (st, p # ps)"
  by (simp add: push_def maxNestingDepth_def)

lemma scans_print:
  "tree_ok n j \<Longrightarrow> n + length ps \<le> 10000 \<Longrightarrow> scans_value (print_json j) ps"
  "(\<And>j. j \<in> set js \<Longrightarrow> tree_ok n j) \<Longrightarrow> n + length ps < 10000 \<Longrightarrow> value_end st (ParseArrayValue # ps) \<Longrightarrow>
   scans_rest st (print_tail js) ps"
  "(\<And>kj. kj \<in> set ms \<Longrightarrow> tree_ok n (snd kj)) \<Longrightarrow> n + length ps < 10000 \<Longrightarrow> value_end st (ParseObjectValue # ps) \<Longrightarrow>
   scans_rest st (print_members ms) ps"
proof (induction j and js and ms arbitrary: n ps and n ps st and n ps st rule: print_json_print_tail_print_members.induct)
  case (4 s n ps)
  show ?case unfolding print_json.simps
    by (rule scans_value_I [where st' = "(EndValue, ps)"]) (simp_all add: scans_string_value)
next
  case (5 n ps)
  then show ?case unfolding print_json.simps
    by (intro scans_value_open [where st' = "(BeginValueOrEmpty, ParseArrayValue # ps)"] scans_rest_end)
      (simp_all add: open_bracket push_ok still_open_def is_space_def)
next
  case (6 j js n ps)
  then have "0 < n" "tree_ok (n - 1) j" "\<And>j. j \<in> set js \<Longrightarrow> tree_ok (n - 1) j" by auto
  then show ?case using "6.prems"(2) unfolding print_json.simps
    by (intro scans_value_open [where st' = "(BeginValueOrEmpty, ParseArrayValue # ps)"]
        scans_rest_value [where qs = "ParseArrayValue # ps"] "6.IH"(1) [of "n - 1"] "6.IH"(2) [of "n - 1"])
      (simp_all add: open_bracket push_ok still_open_def awaits_value_def)
next
  case (7 n ps)
  then show ?case unfolding print_json.simps
    by (intro scans_value_open [where st' = "(BeginStringOrEmpty, ParseObjectKey # ps)"] scans_rest_end)
      (simp_all add: open_bracket push_ok still_open_def is_space_def)
next
  case (8 k j ms n ps)
  then have "0 < n" "tree_ok (n - 1) j" "\<And>kj. kj \<in> set ms \<Longrightarrow> tree_ok (n - 1) (snd kj)" by auto
  then show ?case using "8.prems"(2) unfolding print_json.simps
    by (intro scans_value_open [where st' = "(BeginStringOrEmpty, ParseObjectKey # ps)"] scans_key
        scans_rest_value [where qs = "ParseObjectValue # ps"] "8.IH"(1) [of "n - 1"] "8.IH"(2) [of "n - 1"])
      (simp_all add: open_bracket push_ok still_open_def awaits_value_def)
next
  case (9 n ps st)
  then show ?case unfolding print_tail.simps
    by (intro scans_rest_end) (simp add: value_end_step is_space_def)
next
  case (10 j js n ps st)
  then show ?case unfolding print_tail.simps
    by (intro scans_rest_Cons [where st' = "(BeginValue, ParseArrayValue # ps)"]
        scans_rest_value [where qs = "ParseArrayValue # ps"] "10.IH"(1) [of n] "10.IH"(2) [of n])
      (simp_all add: value_end_step is_space_def still_open_def awaits_value_def)
next
  case (11 n ps st)
  then show ?case unfolding print_members.simps
    by (intro scans_rest_end) (simp add: value_end_step is_space_def)
next
  case (12 k j ms n ps st)
  then have "tree_ok n j" by force
  with 12 show ?case unfolding print_members.simps
    by (intro scans_rest_Cons [where st' = "(BeginString, ParseObjectKey # ps)"] scans_key
        scans_rest_value [where qs = "ParseObjectValue # ps"] "12.IH"(1) [of n] "12.IH"(2) [of n])
      (simp_all add: value_end_step is_space_def still_open_def awaits_value_def)
qed (simp_all add: scans_word scans_int_token)

section \<open>The lexer\<close>

text \<open>What follows a token: nothing, or a character that ends a word.\<close>

definition word_end :: "string \<Rightarrow> bool" where
  "word_end r = (r = [] \<or> is_space (hd r) \<or> is_punct (hd r))"

lemma lex_escape: "lex LexStr acc (escape s @ CHR 0x22 # r) = TStr (rev acc @ escape s) # lex LexOut [] r"
proof (induction s arbitrary: acc)
  case Nil
  then show ?case by (simp add: escape_def)
next
  case (Cons c s)
  have "lex LexStr acc (escape_char c @ u) = lex LexStr (rev (escape_char c) @ acc) u" for u
  proof (cases c rule: escape_char_cases)
    case plain
    then show ?thesis unfolding plain(1) by simp
  next
    case (escaped e)
    then show ?thesis by simp
  next
    case unicode
    have hex: "hex_digit n \<noteq> CHR 0x22" "hex_digit n \<noteq> CHR 0x5C" for n
      using hex_digit_hex [of n] by (auto simp: is_hex_def is_digit_def)
    show ?thesis unfolding unicode(1) by (simp add: hex)
  qed
  from this [of "escape s @ CHR 0x22 # r"] Cons show ?case by (simp add: escape_def)
qed

lemma lex_quote: "lex LexOut [] (quote_text s @ r) = TStr (escape s) # lex LexOut [] r"
  using lex_escape [of "[]" s r] by (simp add: quote_text_def)

lemma lex_word:
  assumes "list_all (\<lambda>c. \<not> is_space c \<and> \<not> is_punct c) w" "word_end r"
  shows "lex LexWord acc (w @ r) = TWord (rev acc @ w) # lex LexOut [] r"
  using assms(1)
proof (induction w arbitrary: acc)
  case Nil
  show ?case
  proof (cases r)
    case (Cons c cs)
    then have "is_space c \<or> is_punct c" using assms(2) by (simp add: word_end_def)
    moreover from this have "c \<noteq> CHR 0x22" by (auto simp: is_space_def is_punct_def)
    ultimately show ?thesis by (simp add: Cons)
  qed simp
qed simp

definition plain_word :: "string \<Rightarrow> bool" where
  "plain_word w = (w \<noteq> [] \<and> hd w \<noteq> CHR 0x22 \<and> list_all (\<lambda>c. \<not> is_space c \<and> \<not> is_punct c) w)"

lemma lex_plain_word: "plain_word w \<Longrightarrow> word_end r \<Longrightarrow> lex LexOut [] (w @ r) = TWord w # lex LexOut [] r"
  using lex_word [of "tl w" r "[hd w]"] by (cases w) (auto simp: plain_word_def)

lemma lex_punct: "is_punct c \<Longrightarrow> lex LexOut [] (c # r) = TPunct c # lex LexOut [] r"
  by (auto simp: is_punct_def lex_char_def)

lemma digit_plain: "is_digit c \<Longrightarrow> \<not> is_space c \<and> \<not> is_punct c \<and> c \<noteq> CHR 0x22"
  by (auto simp: is_digit_def is_space_def is_punct_def)

lemma unsigned_token_digits: "unsigned_token w \<Longrightarrow> w \<noteq> [] \<and> list_all is_digit w"
  by (auto simp: unsigned_token_def is_digit_def)

lemma int_token_plain:
  assumes "int_token w"
  shows "plain_word w \<and> word_value w = JNum w"
proof -
  have chars: "\<not> is_space c \<and> \<not> is_punct c \<and> c \<noteq> CHR 0x22 \<and> c \<noteq> CHR ''n'' \<and> c \<noteq> CHR ''t'' \<and> c \<noteq> CHR ''f''"
    if "is_digit c \<or> c = CHR ''-''" for c
    using that
  proof
    assume "is_digit c"
    with digit_plain [OF this] digit_other [OF this] show ?thesis by blast
  qed (simp add: is_space_def is_punct_def)
  have "\<exists>c v. w = c # v \<and> (is_digit c \<or> c = CHR ''-'') \<and> list_all is_digit v"
    using assms unsigned_token_digits [of w] unsigned_token_digits [of "drop 1 w"]
    by (cases w) (auto simp: int_token_def split: if_splits)
  then obtain c v where w: "w = c # v" "is_digit c \<or> c = CHR ''-''" "list_all is_digit v" by blast
  have "list_all (\<lambda>c. \<not> is_space c \<and> \<not> is_punct c) v" using w(3) chars unfolding list_all_iff by blast
  with chars [OF w(2)] show ?thesis by (simp add: w(1) plain_word_def word_value_def)
qed

subsection \<open>The tokens of a tree\<close>

function (sequential) tokens :: "json \<Rightarrow> json_token list" and tail_tokens :: "json list \<Rightarrow> json_token list"
  and member_tokens :: "(string \<times> json) list \<Rightarrow> json_token list" where
  "tokens JNull = [TWord ''null'']"
| "tokens (JBool b) = [TWord (if b then ''true'' else ''false'')]"
| "tokens (JNum w) = [TWord w]"
| "tokens (JStr s) = [TStr (escape s)]"
| "tokens (JArr []) = [TPunct CHR ''['', TPunct CHR '']'']"
| "tokens (JArr (j # js)) = TPunct CHR ''['' # tokens j @ tail_tokens js"
| "tokens (JObj []) = [TPunct CHR ''{'', TPunct CHR ''}'']"
| "tokens (JObj ((k, j) # ms)) = TPunct CHR ''{'' # TStr (escape k) # TPunct CHR '':'' # tokens j @ member_tokens ms"
| "tail_tokens [] = [TPunct CHR '']'']"
| "tail_tokens (j # js) = TPunct CHR '','' # tokens j @ tail_tokens js"
| "member_tokens [] = [TPunct CHR ''}'']"
| "member_tokens ((k, j) # ms) = TPunct CHR '','' # TStr (escape k) # TPunct CHR '':'' # tokens j @ member_tokens ms"
  by pat_completeness auto
termination
  by (relation "measure (\<lambda>x. case x of Inl j \<Rightarrow> size j | Inr (Inl js) \<Rightarrow> size_list size js
    | Inr (Inr ms) \<Rightarrow> size_list (size_prod (\<lambda>_. 0) size) ms)") auto

lemma punct_simps [simp]:
  "is_punct (CHR ''['')" "is_punct (CHR '']'')" "is_punct (CHR ''{'')" "is_punct (CHR ''}'')" "is_punct (CHR '':'')" "is_punct (CHR '','')"
  by (simp_all add: is_punct_def)

lemma print_tail_end: "word_end (print_tail js @ r)"
  by (cases js) (simp_all add: word_end_def)

lemma print_members_end: "word_end (print_members ms @ r)"
  by (cases ms) (auto simp: word_end_def)

lemmas tail_word_end = print_tail_end print_members_end

lemma plain_literals: "plain_word ''null''" "plain_word ''true''" "plain_word ''false''"
  by code_simp+

lemma lex_print:
  "tree_ok n j \<Longrightarrow> word_end r \<Longrightarrow> lex LexOut [] (print_json j @ r) = tokens j @ lex LexOut [] r"
  "(\<And>j. j \<in> set js \<Longrightarrow> tree_ok n j) \<Longrightarrow> lex LexOut [] (print_tail js @ r) = tail_tokens js @ lex LexOut [] r"
  "(\<And>kj. kj \<in> set ms \<Longrightarrow> tree_ok n (snd kj)) \<Longrightarrow> lex LexOut [] (print_members ms @ r) = member_tokens ms @ lex LexOut [] r"
proof (induction j and js and ms arbitrary: n r and n r and n r rule: print_json_print_tail_print_members.induct)
  case (1 n r)
  then show ?case using lex_plain_word [OF plain_literals(1)] by (simp del: lex.simps)
next
  case (2 b n r)
  then show ?case using lex_plain_word [OF plain_literals(2)] lex_plain_word [OF plain_literals(3)]
    by (cases b) (simp_all del: lex.simps)
next
  case (6 j js n r)
  then have "tree_ok (n - 1) j" "\<And>j. j \<in> set js \<Longrightarrow> tree_ok (n - 1) j" by auto
  with "6.IH"(1) "6.IH"(2) [of "n - 1"] show ?case by (simp add: lex_punct tail_word_end del: lex.simps)
next
  case (8 k j ms n r)
  then have "tree_ok (n - 1) j" "\<And>kj. kj \<in> set ms \<Longrightarrow> tree_ok (n - 1) (snd kj)" by auto
  with "8.IH"(1) "8.IH"(2) [of "n - 1"] show ?case by (simp add: lex_punct lex_quote tail_word_end del: lex.simps)
next
  case (10 j js n r)
  then have "tree_ok n j" "\<And>j. j \<in> set js \<Longrightarrow> tree_ok n j" by auto
  with "10.IH"(1) "10.IH"(2) [of n] show ?case by (simp add: lex_punct tail_word_end del: lex.simps)
next
  case (12 k j ms n r)
  then have "tree_ok n j" "\<And>kj. kj \<in> set ms \<Longrightarrow> tree_ok n (snd kj)" by force+
  with "12.IH"(1) "12.IH"(2) [of n] show ?case by (simp add: lex_punct lex_quote tail_word_end del: lex.simps)
qed (simp_all add: lex_punct lex_quote lex_plain_word int_token_plain tail_word_end del: lex.simps)

section \<open>Strings\<close>

lemma hex_val_digit: "hex_val (hex_digit n) = int (n mod 16)"
proof -
  have "list_all (\<lambda>n. hex_val (''0123456789abcdef'' ! n) = int n) [0..<16]" by code_simp
  then have "hex_val (''0123456789abcdef'' ! (n mod 16)) = int (n mod 16)"
    unfolding list_all_iff by (rule bspec) simp
  then show ?thesis by (simp only: hex_digit_def)
qed

lemma unquote_escape: "unquote (escape s) = s"
proof (induction s)
  case Nil
  then show ?case by (simp add: escape_def unquote.simps)
next
  case (Cons c s)
  have "unquote (escape_char c @ t) = c # unquote t" for t
  proof (cases c rule: escape_char_cases)
    case plain
    then show ?thesis unfolding plain(1) by (subst unquote.simps) simp
  next
    case (escaped e)
    from short_escape(2,3) [OF escaped(2)] show ?thesis unfolding escaped(1) by (subst unquote.simps) simp
  next
    case unicode
    let ?n = "of_char c :: nat"
    have zero: "hex_val (CHR ''0'') = 0" by code_simp
    have "?n div 16 mod 16 = ?n div 16" using unicode(2) by simp
    then have "code_unit [CHR ''0'', CHR ''0'', hex_digit (?n div 16), hex_digit ?n] = int (?n div 16) * 16 + int (?n mod 16)"
      by (simp add: code_unit_def zero hex_val_digit)
    also have "\<dots> = int (?n div 16 * 16 + ?n mod 16)" by (simp only: of_nat_add of_nat_mult of_nat_numeral)
    also have "\<dots> = int ?n" by (simp only: div_mult_mod_eq)
    finally have u: "code_unit [CHR ''0'', CHR ''0'', hex_digit (?n div 16), hex_digit ?n] = int ?n" .
    have "utf8 (int ?n) = [c]" using unicode(2) by (simp add: utf8_def)
    moreover have "\<not> 0xD800 \<le> int ?n" using unicode(2) by simp
    ultimately show ?thesis unfolding unicode(1) by (subst unquote.simps) (simp add: u del: of_char_of)
  qed
  from this [of "escape s"] Cons show ?case by (simp add: escape_def)
qed

section \<open>The tree again\<close>

text \<open>What the builder does with a complete value.\<close>

definition build_on :: "json \<Rightarrow> json_frame list \<Rightarrow> json_token list \<Rightarrow> json option" where
  "build_on v fs ts = (let (gs, x) = json_put v fs in case x of Some y \<Rightarrow> Some y | None \<Rightarrow> json_build ts gs)"

lemma word_literals: "word_value ''null'' = JNull" "word_value (if b then ''true'' else ''false'') = JBool b"
  by (simp_all add: word_value_def)

lemma build_tokens:
  "tree_ok n j \<Longrightarrow> json_build (tokens j @ ts) fs = build_on j fs ts"
  "(\<And>j. j \<in> set js \<Longrightarrow> tree_ok n j) \<Longrightarrow> json_build (tail_tokens js @ ts) (FArr vs # fs) = build_on (JArr (vs @ js)) fs ts"
  "(\<And>kj. kj \<in> set ms \<Longrightarrow> tree_ok n (snd kj)) \<Longrightarrow>
    json_build (member_tokens ms @ ts) (FObj xs None # fs) = build_on (JObj (xs @ ms)) fs ts"
proof (induction j and js and ms arbitrary: n ts fs and n ts vs fs and n ts xs fs rule: print_json_print_tail_print_members.induct)
  case (6 j js n ts fs)
  then have "tree_ok (n - 1) j" "\<And>j. j \<in> set js \<Longrightarrow> tree_ok (n - 1) j" by auto
  with "6.IH"(1) "6.IH"(2) [of "n - 1"] show ?case by (simp add: build_on_def)
next
  case (8 k j ms n ts fs)
  then have "tree_ok (n - 1) j" "\<And>kj. kj \<in> set ms \<Longrightarrow> tree_ok (n - 1) (snd kj)" by auto
  with "8.IH"(1) "8.IH"(2) [of "n - 1"] show ?case by (simp add: build_on_def unquote_escape)
next
  case (10 j js n ts vs fs)
  then have "tree_ok n j" "\<And>j. j \<in> set js \<Longrightarrow> tree_ok n j" by auto
  with "10.IH"(1) "10.IH"(2) [of n] show ?case by (simp add: build_on_def)
next
  case (12 k j ms n ts xs fs)
  then have "tree_ok n j" "\<And>kj. kj \<in> set ms \<Longrightarrow> tree_ok n (snd kj)" by force+
  with "12.IH"(1) "12.IH"(2) [of n] show ?case by (simp add: build_on_def unquote_escape)
qed (simp_all add: build_on_def unquote_escape json_close_def int_token_plain word_literals split: prod.split option.split)

theorem unmarshal_print:
  assumes "tree_ok 10000 j"
  shows "json_unmarshal (print_json j) = Some j"
proof -
  have "value_end (foldl json_step (BeginValue, []) (print_json j)) []"
    using scans_print(1) [OF assms, of "[]"] by (auto simp: scans_value_def awaits_value_def)
  then have "json_scan (print_json j)" by (simp add: json_scan_def value_end_def is_space_def)
  moreover have "lex LexOut [] (print_json j) = tokens j"
    using lex_print(1) [OF assms, of "[]"] by (simp add: word_end_def)
  moreover have "json_build (tokens j) [] = Some j"
    using build_tokens(1) [OF assms, of "[]" "[]"] by (simp add: build_on_def)
  ultimately show ?thesis by (simp add: json_unmarshal_def)
qed

text \<open>\<open>Decode\<close> stops at the bracket that closes the value, whatever follows.\<close>

lemma first_value_Cons:
  "json_step st c = st' \<Longrightarrow> still_open st' \<Longrightarrow> first_value st (c # u) = map_option ((#) c) (first_value st' u)"
  by (auto simp: Let_def still_open_def)

lemma first_value_tree:
  assumes "tree_ok n j" "n + length ps \<le> 10000" "awaits_value st ps" "ps \<noteq> []"
  shows "first_value st (print_json j @ u) = map_option ((@) (print_json j)) (first_value (foldl json_step st (print_json j)) u)"
    "value_end (foldl json_step st (print_json j)) ps"
  using scans_print(1) [OF assms(1,2)] assms(3,4) unfolding scans_value_def by (blast intro: first_value_append)+

lemma first_value_key:
  assumes "st = (BeginStringOrEmpty, [ParseObjectKey]) \<or> st = (BeginString, [ParseObjectKey])"
  shows "first_value st (quote_text k @ CHR '':'' # u) =
    map_option (\<lambda>v. quote_text k @ CHR '':'' # v) (first_value (BeginValue, [ParseObjectValue]) u)"
proof -
  have "json_step st (CHR 0x22) = (InString, [ParseObjectKey])" using assms by (auto simp: beginString_def is_space_def)
  then have "scans st (quote_text k) (EndValue, [ParseObjectKey])"
    unfolding quote_text_def by (rule scans_Cons [OF _ _ scans_quoted]) (simp add: still_open_def)
  then have "first_value st (quote_text k @ CHR '':'' # u) = map_option ((@) (quote_text k)) (first_value (EndValue, [ParseObjectKey]) (CHR '':'' # u))"
    using first_value_append [of st "quote_text k"] by (simp add: scans_def del: first_value.simps)
  also have "first_value (EndValue, [ParseObjectKey]) (CHR '':'' # u) = map_option ((#) (CHR '':'')) (first_value (BeginValue, [ParseObjectValue]) u)"
    by (rule first_value_Cons) (simp_all add: still_open_def is_space_def)
  finally show ?thesis by (simp add: option.map_comp comp_def)
qed

lemma first_value_tail:
  "(\<And>j. j \<in> set js \<Longrightarrow> tree_ok 9999 j) \<Longrightarrow> value_end st [ParseArrayValue] \<Longrightarrow>
   first_value st (print_tail js @ r) = Some (print_tail js)"
proof (induction js arbitrary: st)
  case Nil
  then have "json_step st (CHR '']'') = (EndTop, [])" by (simp add: value_end_step is_space_def pop_def)
  then show ?case by simp
next
  case (Cons j js)
  have "json_step st (CHR '','') = (BeginValue, [ParseArrayValue])" using Cons.prems(2) by (simp add: value_end_step is_space_def)
  moreover have "tree_ok 9999 j" using Cons.prems(1) by simp
  note t = first_value_tree [OF this, of "[ParseArrayValue]" "(BeginValue, [ParseArrayValue])"]
  ultimately show ?case using Cons.IH [OF _ t(2)] Cons.prems(1) t(1) [of "print_tail js @ r"]
    by (simp add: first_value_Cons [where st' = "(BeginValue, [ParseArrayValue])"] still_open_def awaits_value_def
        del: first_value.simps)
qed

lemma first_value_members:
  "(\<And>kj. kj \<in> set ms \<Longrightarrow> tree_ok 9999 (snd kj)) \<Longrightarrow> value_end st [ParseObjectValue] \<Longrightarrow>
   first_value st (print_members ms @ r) = Some (print_members ms)"
proof (induction ms arbitrary: st)
  case Nil
  then have "json_step st (CHR ''}'') = (EndTop, [])" by (simp add: value_end_step is_space_def pop_def)
  then show ?case by simp
next
  case (Cons kj ms)
  obtain k j where kj: "kj = (k, j)" by (cases kj)
  have "json_step st (CHR '','') = (BeginString, [ParseObjectKey])" using Cons.prems(2) by (simp add: value_end_step is_space_def)
  moreover have "tree_ok 9999 j" using Cons.prems(1) [of kj] by (simp add: kj)
  note t = first_value_tree [OF this, of "[ParseObjectValue]" "(BeginValue, [ParseObjectValue])"]
  ultimately show ?case using Cons.IH [OF _ t(2)] Cons.prems(1) t(1) [of "print_members ms @ r"]
    by (simp add: kj first_value_Cons [where st' = "(BeginString, [ParseObjectKey])"] first_value_key still_open_def
        awaits_value_def del: first_value.simps)
qed

definition is_container :: "json \<Rightarrow> bool" where
  "is_container j = (case j of JArr _ \<Rightarrow> True | JObj _ \<Rightarrow> True | _ \<Rightarrow> False)"

lemma first_value_print:
  assumes "tree_ok 10000 j" "is_container j"
  shows "first_value (BeginValue, []) (print_json j @ r) = Some (print_json j)"
proof (cases j)
  case (JArr js)
  have open1: "json_step (BeginValue, []) (CHR ''['') = (BeginValueOrEmpty, [ParseArrayValue])"
    by (simp add: beginValue_def is_space_def push_ok)
  show ?thesis
  proof (cases js)
    case Nil
    then show ?thesis using open1
      by (simp add: JArr first_value_Cons [where st' = "(BeginValueOrEmpty, [ParseArrayValue])"] still_open_def
          del: first_value.simps) (simp add: is_space_def pop_def)
  next
    case (Cons i ks)
    then have "tree_ok 9999 i" "\<And>j. j \<in> set ks \<Longrightarrow> tree_ok 9999 j" using assms(1) by (simp_all add: JArr)
    note t = first_value_tree [OF this(1), of "[ParseArrayValue]" "(BeginValueOrEmpty, [ParseArrayValue])"] and u = this(2)
    show ?thesis using first_value_tail [OF u t(2), where r = r] t(1) [of "print_tail ks @ r"] open1
      by (simp add: JArr Cons first_value_Cons [where st' = "(BeginValueOrEmpty, [ParseArrayValue])"] still_open_def
          awaits_value_def del: first_value.simps)
  qed
next
  case (JObj ms)
  have open1: "json_step (BeginValue, []) (CHR ''{'') = (BeginStringOrEmpty, [ParseObjectKey])"
    by (simp add: beginValue_def is_space_def push_ok)
  show ?thesis
  proof (cases ms)
    case Nil
    then show ?thesis using open1
      by (simp add: JObj first_value_Cons [where st' = "(BeginStringOrEmpty, [ParseObjectKey])"] still_open_def
          del: first_value.simps) (simp add: is_space_def pop_def)
  next
    case (Cons kj ns)
    obtain k i where kj: "kj = (k, i)" by (cases kj)
    then have "tree_ok 9999 i" "\<And>kj. kj \<in> set ns \<Longrightarrow> tree_ok 9999 (snd kj)" using assms(1) by (simp_all add: JObj Cons)
    note t = first_value_tree [OF this(1), of "[ParseObjectValue]" "(BeginValue, [ParseObjectValue])"] and u = this(2)
    show ?thesis using first_value_members [OF u t(2), where r = r] t(1) [of "print_members ns @ r"] open1
      by (simp add: JObj Cons kj first_value_Cons [where st' = "(BeginStringOrEmpty, [ParseObjectKey])"] first_value_key
          still_open_def awaits_value_def del: first_value.simps)
  qed
qed (use assms(2) in \<open>simp_all add: is_container_def\<close>)

theorem decode_print:
  assumes "tree_ok 10000 j" "is_container j"
  shows "json_decode (print_json j @ r) = Some j"
proof -
  have "\<exists>c u. print_json j = c # u \<and> (c = CHR ''['' \<or> c = CHR ''{'')"
    using assms(2) by (cases j rule: print_json.cases) (auto simp: is_container_def)
  then obtain c u where c: "print_json j = c # u" "c = CHR ''['' \<or> c = CHR ''{''" by blast
  have "lex LexOut [] (print_json j) = tokens j"
    using lex_print(1) [OF assms(1), of "[]"] by (simp add: word_end_def)
  moreover have "json_build (tokens j) [] = Some j"
    using build_tokens(1) [OF assms(1), of "[]" "[]"] by (simp add: build_on_def)
  moreover have "dropWhile is_space (print_json j @ r) = print_json j @ r"
    using c by (auto simp: is_space_def)
  moreover have "take 1 (print_json j @ r) = ''{'' \<or> take 1 (print_json j @ r) = ''[''" using c by auto
  ultimately show ?thesis unfolding json_decode_def Let_def by (simp add: first_value_print [OF assms])
qed

end
