(* ===== verification/Agex_Markets.thy ===== *)
theory Agex_Markets
  imports Api_Factory Json_Print Price_Service
begin

text \<open>
  \<open>providers/apis/agex\<close> and \<open>providers/apis/marketmap\<close>: where the sidecar gets its market map. The market
  parameters of an aGeX chain, and the research file in their form, are converted to markets; two fetchers
  combine or switch between sources. The checks of addresses by the Ethereum and Solana libraries and the
  conversion of a float out of the range of \<open>int32\<close> are arguments, as are gRPC, HTTP and the static market map
  of CoinMarketCap.
\<close>

section \<open>The parameters\<close>

record outside =
  out_is_hex_address :: "string \<Rightarrow> bool"
  out_is_public_key :: "string \<Rightarrow> bool"
  out_int32 :: "big_val \<Rightarrow> 32 word"

record market_param =
  ag_id :: "32 word"
  ag_pair :: string
  ag_exponent :: "32 word"
  ag_min_exchanges :: "32 word"
  ag_min_price_change_ppm :: "32 word"
  ag_exchange_config_json :: string

record exchange_config =
  xc_exchange_name :: string
  xc_ticker :: string
  xc_adjust_by_market :: string
  xc_invert :: bool

definition zero_market_param :: market_param where
  "zero_market_param = \<lparr>ag_id = 0, ag_pair = [], ag_exponent = 0, ag_min_exchanges = 0, ag_min_price_change_ppm = 0,
     ag_exchange_config_json = []\<rparr>"

definition zero_exchange_config :: exchange_config where
  "zero_exchange_config = \<lparr>xc_exchange_name = [], xc_ticker = [], xc_adjust_by_market = [], xc_invert = False\<rparr>"

definition into_market_param :: "market_param json_into" where
  "into_market_param = into_struct
     [json_field ''id'' into_uint32 ag_id (\<lambda>x p. p\<lparr>ag_id := x\<rparr>),
      json_field ''pair'' into_string ag_pair (\<lambda>x p. p\<lparr>ag_pair := x\<rparr>),
      json_field ''exponent'' into_int32 ag_exponent (\<lambda>x p. p\<lparr>ag_exponent := x\<rparr>),
      json_field ''min_exchanges'' into_uint32 ag_min_exchanges (\<lambda>x p. p\<lparr>ag_min_exchanges := x\<rparr>),
      json_field ''min_price_change_ppm'' into_uint32 ag_min_price_change_ppm (\<lambda>x p. p\<lparr>ag_min_price_change_ppm := x\<rparr>),
      json_field ''exchange_config_json'' into_string ag_exchange_config_json (\<lambda>x p. p\<lparr>ag_exchange_config_json := x\<rparr>)]"

text \<open>The response is a struct of one field, the parameters of the markets.\<close>

definition into_market_params :: "market_param list json_into" where
  "into_market_params = into_struct
     [json_field ''market_params'' (into_slice into_market_param zero_market_param) (\<lambda>ps. ps) (\<lambda>ps _. ps)]"

definition into_exchange_config :: "exchange_config json_into" where
  "into_exchange_config = into_struct
     [json_field ''exchangeName'' into_string xc_exchange_name (\<lambda>x c. c\<lparr>xc_exchange_name := x\<rparr>),
      json_field ''ticker'' into_string xc_ticker (\<lambda>x c. c\<lparr>xc_ticker := x\<rparr>),
      json_field ''adjustByMarket'' into_string xc_adjust_by_market (\<lambda>x c. c\<lparr>xc_adjust_by_market := x\<rparr>),
      json_field ''invert'' into_bool xc_invert (\<lambda>x c. c\<lparr>xc_invert := x\<rparr>)]"

text \<open>\<open>ExchangeConfigJson\<close> is a struct of one field, the exchanges.\<close>

definition into_exchange_configs :: "exchange_config list json_into" where
  "into_exchange_configs = into_struct
     [json_field ''exchanges'' (into_slice into_exchange_config zero_exchange_config) (\<lambda>cs. cs) (\<lambda>cs _. cs)]"

section \<open>Providers\<close>

definition ProviderMapping :: "(string, string) gomap" where
  "ProviderMapping =
     [(''Binance'', ''binance_ws''), (''BinanceUS'', ''binance_ws''), (''Bitfinex'', ''bitfinex_ws''),
      (''Kraken'', kraken_Name), (''Gate'', ''gate_ws''), (''Bitstamp'', bitstamp_Name), (''Bybit'', ''bybit_ws''),
      (''CryptoCom'', ''crypto_dot_com_ws''), (''Huobi'', ''huobi_ws''), (''Kucoin'', ''kucoin_ws''), (''Okx'', ''okx_ws''),
      (''Mexc'', ''mexc_ws''), (''CoinbasePro'', ''coinbase_ws''), (''TestVolatileExchange'', volatile_Name),
      (''Raydium'', raydium_Name), (''UniswapV3-Ethereum'', ''uniswapv3_api-ethereum''),
      (''UniswapV3-Base'', ''uniswapv3_api-base''), (coinmarketcap_Name, coinmarketcap_Name)]"

definition agex_Delimiter :: char where "agex_Delimiter = CHR ''-''"

subsection \<open>Uniswap\<close>

record pool_config =
  pl_address :: string
  pl_base_decimals :: int
  pl_quote_decimals :: int
  pl_invert :: bool

definition PoolConfig_ValidateBasic :: "outside \<Rightarrow> pool_config \<Rightarrow> unit res" where
  "PoolConfig_ValidateBasic out pc =
     (if \<not> out_is_hex_address out (pl_address pc) then Inl (Errorf ''pool address is not a valid ethereum address'')
      else if pl_base_decimals pc < 0 then Inl (Errorf ''base decimals must be non-negative'')
      else if pl_quote_decimals pc < 0 then Inl (Errorf ''quote decimals must be non-negative'')
      else Inr ())"

text \<open>How a valid configuration is written and read.\<close>

definition pool_json :: "pool_config \<Rightarrow> json" where
  "pool_json pc = JObj
     [(''address'', JStr (pl_address pc)), (''base_decimals'', JNum (nat_digits (pl_base_decimals pc))),
      (''quote_decimals'', JNum (nat_digits (pl_quote_decimals pc))), (''invert'', JBool (pl_invert pc))]"

definition into_pool_config :: "pool_config json_into" where
  "into_pool_config = into_struct
     [json_field ''address'' into_string pl_address (\<lambda>x c. c\<lparr>pl_address := x\<rparr>),
      json_field ''base_decimals'' into_int64 pl_base_decimals (\<lambda>x c. c\<lparr>pl_base_decimals := x\<rparr>),
      json_field ''quote_decimals'' into_int64 pl_quote_decimals (\<lambda>x c. c\<lparr>pl_quote_decimals := x\<rparr>),
      json_field ''invert'' into_bool pl_invert (\<lambda>x c. c\<lparr>pl_invert := x\<rparr>)]"

definition UniswapV3MetadataFromTicker :: "outside \<Rightarrow> string \<Rightarrow> bool \<Rightarrow> string res" where
  "UniswapV3MetadataFromTicker out tickr invert =
     (case split_on agex_Delimiter tickr of
        [address, base, quote] \<Rightarrow>
          bind_res (mapErr (Wrapf ''failed to parse base decimals'') (ParseInt64 base)) (\<lambda>baseDecimals.
          bind_res (mapErr (Wrapf ''failed to parse quote decimals'') (ParseInt64 quote)) (\<lambda>quoteDecimals.
          let pc = \<lparr>pl_address = address, pl_base_decimals = baseDecimals, pl_quote_decimals = quoteDecimals, pl_invert = invert\<rparr> in
          bind_res (PoolConfig_ValidateBasic out pc) (\<lambda>_. Inr (print_json (pool_json pc)))))
      | _ \<Rightarrow> Inl (Errorf ''expected 3 fields''))"

subsection \<open>Raydium\<close>

record vault_metadata =
  vm_token_vault_address :: string
  vm_token_decimals :: int

record raydium_metadata =
  rm_base_token_vault :: vault_metadata
  rm_quote_token_vault :: vault_metadata
  rm_amm_info_address :: string
  rm_open_orders_address :: string

definition vault_json :: "vault_metadata \<Rightarrow> json" where
  "vault_json v = JObj
     [(''token_vault_address'', JStr (vm_token_vault_address v)), (''token_decimals'', JNum (nat_digits (vm_token_decimals v)))]"

definition raydium_json :: "raydium_metadata \<Rightarrow> json" where
  "raydium_json m = JObj
     [(''base_token_vault'', vault_json (rm_base_token_vault m)), (''quote_token_vault'', vault_json (rm_quote_token_vault m)),
      (''amm_info_address'', JStr (rm_amm_info_address m)), (''open_orders_address'', JStr (rm_open_orders_address m))]"

definition into_vault :: "vault_metadata json_into" where
  "into_vault = into_struct
     [json_field ''token_vault_address'' into_string vm_token_vault_address (\<lambda>x v. v\<lparr>vm_token_vault_address := x\<rparr>),
      json_field ''token_decimals'' into_uint64 vm_token_decimals (\<lambda>x v. v\<lparr>vm_token_decimals := x\<rparr>)]"

definition into_raydium_metadata :: "raydium_metadata json_into" where
  "into_raydium_metadata = into_struct
     [json_field ''base_token_vault'' into_vault rm_base_token_vault (\<lambda>x m. m\<lparr>rm_base_token_vault := x\<rparr>),
      json_field ''quote_token_vault'' into_vault rm_quote_token_vault (\<lambda>x m. m\<lparr>rm_quote_token_vault := x\<rparr>),
      json_field ''amm_info_address'' into_string rm_amm_info_address (\<lambda>x m. m\<lparr>rm_amm_info_address := x\<rparr>),
      json_field ''open_orders_address'' into_string rm_open_orders_address (\<lambda>x m. m\<lparr>rm_open_orders_address := x\<rparr>)]"

definition zero_raydium_metadata :: raydium_metadata where
  "zero_raydium_metadata =
     (let v = \<lparr>vm_token_vault_address = [], vm_token_decimals = 0\<rparr> in
      \<lparr>rm_base_token_vault = v, rm_quote_token_vault = v, rm_amm_info_address = [], rm_open_orders_address = []\<rparr>)"

text \<open>What the Raydium fetcher does with the metadata of a ticker.\<close>

definition unmarshalMetadataJSON :: "string \<Rightarrow> raydium_metadata res" where
  "unmarshalMetadataJSON metadata =
     (case Unmarshal_into into_raydium_metadata zero_raydium_metadata metadata of
        None \<Rightarrow> Inl (Errorf ''json'') | Some m \<Rightarrow> Inr m)"

definition public_key :: "outside \<Rightarrow> string \<Rightarrow> unit res" where
  "public_key out s = (if out_is_public_key out s then Inr () else Inl (Errorf ''invalid public key''))"

definition TickerMetadata_ValidateBasic :: "outside \<Rightarrow> raydium_metadata \<Rightarrow> unit res" where
  "TickerMetadata_ValidateBasic out m =
     bind_res (public_key out (vm_token_vault_address (rm_base_token_vault m))) (\<lambda>_.
     bind_res (public_key out (vm_token_vault_address (rm_quote_token_vault m))) (\<lambda>_.
     bind_res (public_key out (rm_amm_info_address m)) (\<lambda>_.
     public_key out (rm_open_orders_address m))))"

definition RaydiumMetadataFromTicker :: "outside \<Rightarrow> string \<Rightarrow> string res" where
  "RaydiumMetadataFromTicker out tickr =
     (let fs = split_on agex_Delimiter tickr in
      if length fs < 8 then Inl (Errorf ''expected at least 6 fields'')
      else
        bind_res (mapErr (Wrapf ''failed to parse base token vault'') (public_key out (fs ! 2))) (\<lambda>_.
        bind_res (mapErr (Wrapf ''failed to parse quote token vault'') (public_key out (fs ! 4))) (\<lambda>_.
        bind_res (mapErr (Wrapf ''failed to parse base decimals'') (ParseUint64 (fs ! 3))) (\<lambda>baseDecimals.
        bind_res (mapErr (Wrapf ''failed to parse quote decimals'') (ParseUint64 (fs ! 5))) (\<lambda>quoteDecimals.
        bind_res (mapErr (Wrapf ''failed to parse open orders address'') (public_key out (fs ! 6))) (\<lambda>_.
        bind_res (mapErr (Wrapf ''failed to parse amm id address'') (public_key out (fs ! 7))) (\<lambda>_.
        Inr (print_json (raydium_json
          \<lparr>rm_base_token_vault = \<lparr>vm_token_vault_address = fs ! 2, vm_token_decimals = baseDecimals\<rparr>,
           rm_quote_token_vault = \<lparr>vm_token_vault_address = fs ! 4, vm_token_decimals = quoteDecimals\<rparr>,
           rm_amm_info_address = fs ! 7, rm_open_orders_address = fs ! 6\<rparr>)))))))))"

section \<open>Markets\<close>

definition CreateCurrencyPairFromPair :: "string \<Rightarrow> currency_pair res" where
  "CreateCurrencyPairFromPair pair =
     (case split_on agex_Delimiter pair of
        [base, quote] \<Rightarrow>
          let cp = NewCurrencyPair (ToUpper base) (ToUpper quote) in bind_res (ValidateBasic cp) (\<lambda>_. Inr cp)
      | _ \<Rightarrow> Inl (Errorf ''expected pair to have 2 elements''))"

text \<open>The exponent is an \<open>int32\<close>: its negation wraps, and the conversion to \<open>uint64\<close> extends the sign.\<close>

definition CreateTickerFromMarket :: "market_param \<Rightarrow> ticker res" where
  "CreateTickerFromMarket market =
     bind_res (CreateCurrencyPairFromPair (ag_pair market)) (\<lambda>cp.
     let t = \<lparr>tk_currency_pair = cp, tk_decimals = scast (- ag_exponent market),
              tk_min_provider_count = ucast (ag_min_exchanges market), tk_enabled = True, tk_metadata_json = []\<rparr> in
     bind_res (Ticker_ValidateBasic t) (\<lambda>_. Inr t))"

definition ConvertDenomByProvider :: "string \<Rightarrow> string \<Rightarrow> string res" where
  "ConvertDenomByProvider denom exchange =
     (if exchange = ''mexc_ws'' then Inr (filter (\<lambda>c. c \<noteq> CHR ''_'') denom)
      else if exchange = raydium_Name then
        (case split_on agex_Delimiter denom of
           base # quote # _ \<Rightarrow> Inr (CurrencyPair_String (NewCurrencyPair base quote))
         | _ \<Rightarrow> Inl (Errorf ''expected denom to have at least 2 fields''))
      else Inr denom)"

definition ExtractMetadata :: "outside \<Rightarrow> string \<Rightarrow> exchange_config \<Rightarrow> string res" where
  "ExtractMetadata out providerName cfg =
     (if take (length uniswapv3_BaseName) providerName = uniswapv3_BaseName
        then UniswapV3MetadataFromTicker out (xc_ticker cfg) (xc_invert cfg)
      else if providerName = raydium_Name then RaydiumMetadataFromTicker out (xc_ticker cfg)
      else Inr [])"

definition convert_exchange :: "outside \<Rightarrow> string \<Rightarrow> exchange_config \<Rightarrow> provider_config res" where
  "convert_exchange out exchange cfg =
     bind_res (if xc_adjust_by_market cfg = [] then Inr None
         else mapErr (Wrapf ''failed to create normalize by pair'')
           (bind_res (CreateCurrencyPairFromPair (xc_adjust_by_market cfg)) (\<lambda>cp. Inr (Some cp)))) (\<lambda>normalizeByPair.
     bind_res (mapErr (Wrapf ''failed to convert denom by provider'') (ConvertDenomByProvider (xc_ticker cfg) exchange)) (\<lambda>denom.
     bind_res (mapErr (Wrapf ''failed to extract metadata'') (ExtractMetadata out exchange cfg)) (\<lambda>metaData.
     Inr \<lparr>pc_name = exchange, pc_off_chain_ticker = denom, pc_normalize_by_pair = normalizeByPair,
          pc_invert = xc_invert cfg, pc_metadata_json = metaData\<rparr>)))"

fun convert_exchanges :: "outside \<Rightarrow> exchange_config list \<Rightarrow> exchange_config list \<Rightarrow> provider_config list res" where
  "convert_exchanges out seen [] = Inr []"
| "convert_exchanges out seen (cfg # cfgs) =
     (if cfg \<in> set seen then convert_exchanges out seen cfgs
      else case gm_get ProviderMapping (xc_exchange_name cfg) of
        None \<Rightarrow> convert_exchanges out (cfg # seen) cfgs
      | Some exchange \<Rightarrow>
          bind_res (convert_exchange out exchange cfg) (\<lambda>pc.
          bind_res (convert_exchanges out (cfg # seen) cfgs) (\<lambda>pcs. Inr (pc # pcs))))"

definition ConvertExchangeConfigJSON :: "outside \<Rightarrow> exchange_config list \<Rightarrow> provider_config list res" where
  "ConvertExchangeConfigJSON out exchanges = convert_exchanges out [] exchanges"

definition convert_market :: "outside \<Rightarrow> market_param \<Rightarrow> market res" where
  "convert_market out market =
     bind_res (mapErr (Wrapf ''failed to create ticker from market'') (CreateTickerFromMarket market)) (\<lambda>ticker.
     case Unmarshal_into into_exchange_configs [] (ag_exchange_config_json market) of
       None \<Rightarrow> Inl (Errorf ''failed to unmarshal exchange json config'')
     | Some exchanges \<Rightarrow>
         bind_res (mapErr (Wrapf ''failed to convert exchange config json'') (ConvertExchangeConfigJSON out exchanges)) (\<lambda>providers.
         Inr \<lparr>mk_ticker = ticker, mk_provider_configs = providers\<rparr>))"

fun convert_markets :: "outside \<Rightarrow> market_param list \<Rightarrow> market_map \<Rightarrow> market_map res" where
  "convert_markets out [] markets = Inr markets"
| "convert_markets out (p # ps) markets =
     bind_res (convert_market out p) (\<lambda>m. convert_markets out ps (gm_set (Ticker_String (mk_ticker m)) m markets))"

definition ConvertMarketParamsToMarketMap :: "outside \<Rightarrow> market_param list \<Rightarrow> market_map_response res" where
  "ConvertMarketParamsToMarketMap out params =
     bind_res (convert_markets out params []) (\<lambda>mm.
     Inr \<lparr>mr_market_map = mm, mr_last_updated = 0, mr_chain_id = []\<rparr>)"

section \<open>The handler of the parameters\<close>

type_synonym mm_answer = "(string, market_map_response option) get_response"

definition ErrorInvalidAPIChains :: int where "ErrorInvalidAPIChains = 6"
definition ErrorGRPCGeneral :: int where "ErrorGRPCGeneral = 15"

definition agex_Name :: string where "agex_Name = ''agex_api''"
definition SwitchOverAPIHandlerName :: string where "SwitchOverAPIHandlerName = ''agex_migration_api''"
definition ResearchAPIHandlerName :: string where "ResearchAPIHandlerName = ''agex_research_json_api''"
definition ResearchCMCAPIHandlerName :: string where "ResearchCMCAPIHandlerName = ''agex_research_coinmarketcap_api''"
definition agex_ChainID :: string where "agex_ChainID = ''agex-node''"
definition agex_Endpoint :: string where "agex_Endpoint = ''%s/agex-labs/prices/params/market?pagination.limit=10000''"

definition agex_NewAPIHandler :: "api_config \<Rightarrow> api_config res" where
  "agex_NewAPIHandler api =
     (if ac_name api \<noteq> agex_Name \<and> ac_name api \<noteq> SwitchOverAPIHandlerName then Inl (Errorf ''expected api config name'')
      else if \<not> ac_enabled api then Inl (Errorf ''api config is not enabled'')
      else bind_res (mapErr (Wrapf ''invalid api config'') (APIConfig_ValidateBasic api)) (\<lambda>_. Inr api))"

definition nth_endpoint :: "api_config \<Rightarrow> nat \<Rightarrow> string res" where
  "nth_endpoint api i =
     (if i < length (ac_endpoints api) then Inr (ep_url (ac_endpoints api ! i)) else Inl (Panic ''index out of range''))"

definition agex_CreateURL :: "api_config \<Rightarrow> string list \<Rightarrow> string res" where
  "agex_CreateURL api cids =
     (case cids of
        [_] \<Rightarrow> bind_res (nth_endpoint api 0) (\<lambda>url. Inr (Sprintf agex_Endpoint [url]))
      | _ \<Rightarrow> Inl (Errorf ''expected one chain''))"

definition agex_ParseResponse :: "outside \<Rightarrow> int \<Rightarrow> string list \<Rightarrow> http_response option \<Rightarrow> mm_answer" where
  "agex_ParseResponse out now cids resp =
     (case cids of
        [chain] \<Rightarrow>
          (case resp of
             None \<Rightarrow> NewGetResponseWithErr cids ErrorNoResponse
           | Some r \<Rightarrow>
               case Decode_into into_market_params [] (body_text r) of
                 None \<Rightarrow> NewGetResponseWithErr cids ErrorFailedToDecode
               | Some params \<Rightarrow>
                   case ConvertMarketParamsToMarketMap out params of
                     Inl _ \<Rightarrow> NewGetResponseWithErr cids ErrorUnknown
                   | Inr marketResp \<Rightarrow>
                       if \<not> is_ok (MarketMap_ValidateBasic (mr_market_map marketResp))
                       then NewGetResponseWithErr cids ErrorUnknown
                       else NewGetResponse [(chain, NewResult (Some marketResp) now)] [])
      | _ \<Rightarrow> NewGetResponseWithErr cids ErrorInvalidAPIChains)"

definition agex_handler :: "outside \<Rightarrow> int \<Rightarrow> api_config \<Rightarrow> (string, market_map_response option) api_data_handler" where
  "agex_handler out now api =
     \<lparr>dh_create_url = agex_CreateURL api,
      dh_parse_response = (\<lambda>cids resp. Inr (agex_ParseResponse out now cids (Some resp)))\<rparr>"

section \<open>The research file\<close>

record research_params =
  rs_id :: "32 word"
  rs_pair :: string
  rs_exponent :: big_val
  rs_min_exchanges :: "32 word"
  rs_min_price_change_ppm :: "32 word"
  rs_exchanges :: "exchange_config list"
  rs_cmc_id :: int

definition zero_research_params :: research_params where
  "zero_research_params = \<lparr>rs_id = 0, rs_pair = [], rs_exponent = BZero False, rs_min_exchanges = 0,
     rs_min_price_change_ppm = 0, rs_exchanges = [], rs_cmc_id = 0\<rparr>"

definition into_research_market :: "research_params json_into" where
  "into_research_market = into_struct
     [json_field ''id'' into_uint32 rs_id (\<lambda>x p. p\<lparr>rs_id := x\<rparr>),
      json_field ''ticker'' into_string rs_pair (\<lambda>x p. p\<lparr>rs_pair := x\<rparr>),
      json_field ''priceExponent'' into_float64 rs_exponent (\<lambda>x p. p\<lparr>rs_exponent := x\<rparr>),
      json_field ''minExchanges'' into_uint32 rs_min_exchanges (\<lambda>x p. p\<lparr>rs_min_exchanges := x\<rparr>),
      json_field ''minPriceChange'' into_uint32 rs_min_price_change_ppm (\<lambda>x p. p\<lparr>rs_min_price_change_ppm := x\<rparr>),
      json_field ''exchangeConfigJson'' (into_slice into_exchange_config zero_exchange_config) rs_exchanges
        (\<lambda>x p. p\<lparr>rs_exchanges := x\<rparr>)]"

definition into_research_meta :: "research_params json_into" where
  "into_research_meta = into_struct [json_field ''cmcId'' into_int64 rs_cmc_id (\<lambda>x p. p\<lparr>rs_cmc_id := x\<rparr>)]"

definition into_research :: "(string, research_params) gomap json_into" where
  "into_research = into_map (into_struct
     [json_field ''params'' into_research_market (\<lambda>p. p) (\<lambda>x _. x),
      json_field ''meta'' into_research_meta (\<lambda>p. p) (\<lambda>x _. x)]) zero_research_params"

text \<open>\<open>json.Marshal\<close> of the exchanges: empty fields are left out. A nil slice is written as an empty one.\<close>

definition exchange_json :: "exchange_config \<Rightarrow> json" where
  "exchange_json c = JObj
     ([(''exchangeName'', JStr (xc_exchange_name c)), (''ticker'', JStr (xc_ticker c))] @
      (if xc_adjust_by_market c = [] then [] else [(''adjustByMarket'', JStr (xc_adjust_by_market c))]) @
      (if xc_invert c then [(''invert'', JBool True)] else []))"

definition exchanges_json :: "exchange_config list \<Rightarrow> json" where
  "exchanges_json cs = JObj [(''exchanges'', JArr (map exchange_json cs))]"

definition int32_of_float :: "outside \<Rightarrow> big_val \<Rightarrow> 32 word" where
  "int32_of_float out v =
     (case v of
        BZero _ \<Rightarrow> 0
      | BInf _ \<Rightarrow> out_int32 out v
      | BFin r \<Rightarrow>
          let n = (if r < 0 then \<lceil>r\<rceil> else \<lfloor>r\<rfloor>) in
          if - (2 ^ 31) \<le> n \<and> n < 2 ^ 31 then word_of_int n else out_int32 out v)"

definition marketParamFromResearchJSONMarketParam :: "outside \<Rightarrow> bool \<Rightarrow> research_params \<Rightarrow> market_param" where
  "marketParamFromResearchJSONMarketParam out onlyCMC p =
     \<lparr>ag_id = rs_id p, ag_pair = rs_pair p, ag_exponent = int32_of_float out (rs_exponent p),
      ag_min_exchanges = (if onlyCMC then 1 else rs_min_exchanges p),
      ag_min_price_change_ppm = rs_min_price_change_ppm p,
      ag_exchange_config_json = print_json (exchanges_json
        (if onlyCMC
         then [zero_exchange_config\<lparr>xc_exchange_name := coinmarketcap_Name, xc_ticker := Int_String (Some (rs_cmc_id p))\<rparr>]
         else rs_exchanges p))\<rparr>"

definition researchJSONToQueryAllMarketsParamsResponse ::
    "outside \<Rightarrow> bool \<Rightarrow> (string, research_params) gomap \<Rightarrow> market_param list" where
  "researchJSONToQueryAllMarketsParamsResponse out onlyCMC research =
     map (marketParamFromResearchJSONMarketParam out onlyCMC)
       (filter (\<lambda>p. \<not> (onlyCMC \<and> rs_cmc_id p < 0)) (map snd research))"

record research_handler =
  rh_api :: api_config
  rh_url :: string
  rh_only_cmc :: bool

definition NewResearchAPIHandler :: "api_config \<Rightarrow> research_handler res" where
  "NewResearchAPIHandler api =
     (if ac_name api \<noteq> ResearchAPIHandlerName \<and> ac_name api \<noteq> ResearchCMCAPIHandlerName
        then Inl (Errorf ''expected api config name'')
      else if \<not> ac_enabled api then Inl (Errorf ''api config is not enabled'')
      else bind_res (mapErr (Wrapf ''invalid api config'') (APIConfig_ValidateBasic api)) (\<lambda>_.
           bind_res (nth_endpoint api 1) (\<lambda>url.
           Inr \<lparr>rh_api = api, rh_url = url, rh_only_cmc = (ac_name api = ResearchCMCAPIHandlerName)\<rparr>)))"

definition CheckEntryInArray :: "'a \<Rightarrow> 'a list \<Rightarrow> bool" where
  "CheckEntryInArray entry arr = (entry \<in> set arr)"

definition research_CreateURL :: "research_handler \<Rightarrow> string list \<Rightarrow> string res" where
  "research_CreateURL h cids =
     (if CheckEntryInArray agex_ChainID cids then Inr (rh_url h) else Inl (Errorf ''agex chain is not configured in request''))"

text \<open>The market map is not validated here.\<close>

definition research_ParseResponse :: "outside \<Rightarrow> int \<Rightarrow> research_handler \<Rightarrow> string list \<Rightarrow> http_response \<Rightarrow> mm_answer" where
  "research_ParseResponse out now h cids resp =
     (if \<not> CheckEntryInArray agex_ChainID cids then NewGetResponseWithErr cids ErrorInvalidAPIChains
      else case Decode_into into_research [] (body_text resp) of
        None \<Rightarrow> NewGetResponseWithErr cids ErrorFailedToDecode
      | Some research \<Rightarrow>
          case ConvertMarketParamsToMarketMap out (researchJSONToQueryAllMarketsParamsResponse out (rh_only_cmc h) research) of
            Inl _ \<Rightarrow> NewGetResponseWithErr cids ErrorFailedToDecode
          | Inr mm \<Rightarrow> NewGetResponse [(agex_ChainID, NewResult (Some mm) now)] [])"

definition research_handler_of :: "outside \<Rightarrow> int \<Rightarrow> research_handler \<Rightarrow> (string, market_map_response option) api_data_handler" where
  "research_handler_of out now h =
     \<lparr>dh_create_url = research_CreateURL h,
      dh_parse_response = (\<lambda>cids resp. Inr (research_ParseResponse out now h cids resp))\<rparr>"

section \<open>The fetchers\<close>

type_synonym mm_fetcher = "string list \<Rightarrow> mm_answer res"

text \<open>The two fetchers of \<open>MultiMarketMapRestAPIFetcher\<close> run side by side; a panic of one ends both.\<close>

definition merge_markets :: "market_map \<Rightarrow> market_map \<Rightarrow> market_map" where
  "merge_markets research mainnet =
     fold (\<lambda>(tickr, market) mm. if gm_get mm tickr = None then gm_set tickr market mm else mm) research mainnet"

definition cmc_market :: "market_map \<Rightarrow> string \<times> market \<Rightarrow> (string \<times> market) list" where
  "cmc_market static_markets = (\<lambda>(tickr, market0).
     let market = market0\<lparr>mk_ticker := (mk_ticker market0)\<lparr>tk_min_provider_count := 1\<rparr>\<rparr>;
         cmcs = filter (\<lambda>p. pc_name p = coinmarketcap_Name) (mk_provider_configs market) in
     if cmcs \<noteq> [] then [(tickr, market\<lparr>mk_provider_configs := [last cmcs]\<rparr>)]
     else case gm_get static_markets tickr of
       None \<Rightarrow> []
     | Some cmcMarket \<Rightarrow> [(tickr, market\<lparr>mk_provider_configs := mk_provider_configs cmcMarket\<rparr>)])"

definition only_cmc :: "market_map \<Rightarrow> market_map \<Rightarrow> market_map" where
  "only_cmc static_markets mm = concat (map (cmc_market static_markets) mm)"

definition resolved_map :: "(string, market_map_response option resolved_result) gomap \<Rightarrow> string \<Rightarrow> market_map_response res" where
  "resolved_map m chain =
     (case gm_get m chain of
        Some r \<Rightarrow> (case rr_value r of Some v \<Rightarrow> Inr v | None \<Rightarrow> Inl (Panic ''nil pointer dereference''))
      | None \<Rightarrow> Inl (Panic ''nil pointer dereference''))"

definition combine_responses :: "bool \<Rightarrow> market_map \<Rightarrow> string list \<Rightarrow> mm_answer \<Rightarrow> mm_answer \<Rightarrow> mm_answer res" where
  "combine_responses isCMCOnly static_markets cids mainnet research =
     (if gm_get (gr_unresolved mainnet) agex_ChainID \<noteq> None then Inr mainnet
      else if gm_get (gr_unresolved research) agex_ChainID \<noteq> None then Inr research
      else
        bind_res (resolved_map (gr_resolved mainnet) agex_ChainID) (\<lambda>main.
        bind_res (if gm_get (gr_resolved research) agex_ChainID = None then Inr (mr_market_map main)
            else bind_res (resolved_map (gr_resolved research) agex_ChainID) (\<lambda>r.
              Inr (merge_markets (mr_market_map r) (mr_market_map main)))) (\<lambda>merged.
        let mm = (if isCMCOnly then only_cmc static_markets merged else merged) in
        if \<not> is_ok (MarketMap_ValidateBasic mm) then Inr (NewGetResponseWithErr cids ErrorUnknown)
        else Inr (mainnet\<lparr>gr_resolved := map (\<lambda>(chain, r).
               if chain = agex_ChainID then (chain, r\<lparr>rr_value := Some (main\<lparr>mr_market_map := mm\<rparr>)\<rparr>) else (chain, r))
               (gr_resolved mainnet)\<rparr>))))"

definition multi_Fetch :: "bool \<Rightarrow> market_map \<Rightarrow> mm_fetcher \<Rightarrow> mm_fetcher \<Rightarrow> mm_fetcher" where
  "multi_Fetch isCMCOnly static_markets mainnetFetcher researchFetcher cids =
     bind_res (mainnetFetcher cids) (\<lambda>mainnet.
     bind_res (researchFetcher cids) (\<lambda>research.
     combine_responses isCMCOnly static_markets cids mainnet research))"

text \<open>\<open>SwitchOverFetcher\<close> keeps whether it has switched to the market map module.\<close>

definition switch_Fetch :: "mm_fetcher \<Rightarrow> mm_fetcher \<Rightarrow> string list \<Rightarrow> bool \<Rightarrow> mm_answer res \<times> bool" where
  "switch_Fetch pricesFetcher marketmapFetcher cids switched =
     (if switched then (marketmapFetcher cids, switched)
      else case marketmapFetcher cids of
        Inl e \<Rightarrow> (Inl e, switched)
      | Inr resp \<Rightarrow> if gr_resolved resp \<noteq> [] then (Inr resp, True) else (pricesFetcher cids, switched))"

text \<open>\<open>MarketMapFetcher\<close> asks the module of a node, with the answer of gRPC.\<close>

definition module_Fetch :: "int \<Rightarrow> market_map_response option res \<Rightarrow> mm_fetcher" where
  "module_Fetch now reply cids =
     (case cids of
        [chain] \<Rightarrow>
          (case reply of
             Inl (Panic p) \<Rightarrow> Inl (Panic p)
           | Inl _ \<Rightarrow> Inr (NewGetResponseWithErr cids ErrorGRPCGeneral)
           | Inr None \<Rightarrow> Inr (NewGetResponseWithErr cids ErrorGRPCGeneral)
           | Inr (Some resp) \<Rightarrow> Inr (NewGetResponse [(chain, NewResult (Some resp) now)] []))
      | _ \<Rightarrow> Inr (NewGetResponseWithErr cids ErrorInvalidAPIChains))"

section \<open>The sources of market maps\<close>

definition marketmap_Name :: string where "marketmap_Name = ''marketmap_api''"

text \<open>\<open>dial\<close> is whether gRPC makes a connection to a URL.\<close>

definition NewGRPCClientWithConn :: "api_config \<Rightarrow> api_config res" where
  "NewGRPCClientWithConn api =
     bind_res (APIConfig_ValidateBasic api) (\<lambda>_.
     if \<not> ac_enabled api then Inl (Errorf ''api is not enabled'') else Inr api)"

definition NewGRPCClient :: "(string \<Rightarrow> bool) \<Rightarrow> api_config \<Rightarrow> api_config res" where
  "NewGRPCClient dial api =
     (if ac_name api \<noteq> marketmap_Name then Inl (Errorf ''invalid api name'')
      else bind_res (nth_endpoint api 0) (\<lambda>url.
        if \<not> dial url then Inl (Errorf ''dial'') else NewGRPCClientWithConn api))"

definition NewMarketMapFetcher :: "(string \<Rightarrow> bool) \<Rightarrow> api_config \<Rightarrow> api_config res" where
  "NewMarketMapFetcher dial api =
     bind_res (mapErr (Wrapf ''invalid api config'') (APIConfig_ValidateBasic api)) (\<lambda>_.
     if ac_name api \<noteq> marketmap_Name then Inl (Errorf ''invalid api name'')
     else if \<not> ac_enabled api then Inl (Errorf ''api is not enabled'')
     else NewGRPCClient dial api)"

text \<open>The data handler is there: its checks of \<open>NewRestAPIFetcher\<close> are on the configuration.\<close>

definition rest_fetcher_ok :: "api_config \<Rightarrow> unit res" where
  "rest_fetcher_ok api = bind_res (NewRestAPIFetcher True (Some ()) True api) (\<lambda>_. Inr ())"

definition NewDefaultSwitchOverMarketMapFetcher :: "(string \<Rightarrow> bool) \<Rightarrow> api_config \<Rightarrow> api_config res" where
  "NewDefaultSwitchOverMarketMapFetcher dial api =
     (if ac_name api \<noteq> SwitchOverAPIHandlerName then Inl (Errorf ''expected api name'')
      else if length (ac_endpoints api) \<noteq> 2 then Inl (Errorf ''expected two endpoints'')
      else
        bind_res (agex_NewAPIHandler api) (\<lambda>h.
        bind_res (rest_fetcher_ok api) (\<lambda>_.
        bind_res (nth_endpoint api 1) (\<lambda>url.
        if \<not> dial url then Inl (Errorf ''dial'')
        else bind_res (NewGRPCClientWithConn api) (\<lambda>_. Inr h)))))"

definition DefaultAGEXResearchMarketMapFetcher :: "api_config \<Rightarrow> research_handler res" where
  "DefaultAGEXResearchMarketMapFetcher api =
     (if \<not> ac_enabled api then Inl (Errorf ''api is not enabled'')
      else
        bind_res (APIConfig_ValidateBasic api) (\<lambda>_.
        if length (ac_endpoints api) \<noteq> 2 then Inl (Errorf ''expected two endpoint'')
        else
          bind_res (NewResearchAPIHandler api) (\<lambda>h.
          bind_res (rest_fetcher_ok api) (\<lambda>_. Inr h))))"

datatype mm_source =
    ParamsSource api_config
  | SwitchSource api_config
  | ResearchSource research_handler
  | ModuleSource api_config

definition MarketMapProviderFactory :: "(string \<Rightarrow> bool) \<Rightarrow> source_config \<Rightarrow> (mm_source \<times> string) res" where
  "MarketMapProviderFactory dial cfg =
     bind_res (SourceConfig_ValidateBasic cfg) (\<lambda>_.
     let name = sc_name cfg; api = sc_api cfg in
     bind_res
       (if name = agex_Name
          then bind_res (agex_NewAPIHandler api) (\<lambda>h. bind_res (rest_fetcher_ok api) (\<lambda>_. Inr (ParamsSource h, agex_ChainID)))
        else if name = SwitchOverAPIHandlerName
          then bind_res (NewDefaultSwitchOverMarketMapFetcher dial api) (\<lambda>h. Inr (SwitchSource h, agex_ChainID))
        else if name = ResearchAPIHandlerName \<or> name = ResearchCMCAPIHandlerName
          then bind_res (DefaultAGEXResearchMarketMapFetcher api) (\<lambda>h. Inr (ResearchSource h, agex_ChainID))
        else bind_res (NewMarketMapFetcher dial api) (\<lambda>c. Inr (ModuleSource c, ''local-node''))) (\<lambda>src.
     bind_res (NewAPIQueryHandlerWithFetcher True api (Some ()) True) (\<lambda>_. Inr src)))"

text \<open>One fetch of a source: \<open>do_request\<close> is HTTP, \<open>reply\<close> the answer of the module over gRPC.\<close>

definition fetch_market_map ::
    "outside \<Rightarrow> int \<Rightarrow> market_map \<Rightarrow> (string \<Rightarrow> http_response option \<times> go_error option) \<Rightarrow> market_map_response option res \<Rightarrow>
     mm_source \<Rightarrow> string list \<Rightarrow> bool \<Rightarrow> mm_answer res \<times> bool" where
  "fetch_market_map out now static_markets do_request reply src cids switched =
     (case src of
        ParamsSource api \<Rightarrow> (Fetch (agex_handler out now api) do_request cids, switched)
      | SwitchSource api \<Rightarrow> switch_Fetch (Fetch (agex_handler out now api) do_request) (module_Fetch now reply) cids switched
      | ResearchSource h \<Rightarrow>
          (multi_Fetch (rh_only_cmc h) static_markets (Fetch (agex_handler out now (rh_api h)) do_request)
             (Fetch (research_handler_of out now h) do_request) cids, switched)
      | ModuleSource api \<Rightarrow> (module_Fetch now reply cids, switched))"

end
