(* ===== verification/Agex_Metadata.thy ===== *)
theory Agex_Metadata
  imports Agex_Markets Json_Print_Facts Price_Service_Properties Float_Text_Properties Marketmap_Validity
begin

text \<open>
  The metadata the conversion of an aGeX chain's parameters writes is what the DeFi fetchers read from it.
\<close>

section \<open>Metadata\<close>

lemma decimal_digit_is_digit: "decimal_digit c = is_digit c"
  by (auto simp: decimal_digit_def is_digit_def)

lemma nat_digits_head: "0 \<le> n \<Longrightarrow> nat_digits n = ''0'' \<or> hd (nat_digits n) \<noteq> CHR ''0''"
proof (induction n rule: nat_digits.induct)
  case (1 n)
  show ?case
  proof (cases "n < 10")
    case True
    have d: "of_char (char_of (48 + n) :: char) = (48 + n :: int)" using 1(2) True by (rule digit_char)
    have "n = 0" if "char_of (48 + n) = CHR ''0''"
    proof -
      have "(of_char (char_of (48 + n) :: char) :: int) = 48" by (simp only: that) simp
      with d show ?thesis by simp
    qed
    moreover have "nat_digits 0 = ''0''" by code_simp
    ultimately show ?thesis using True by (auto simp: nat_digits.simps [of n])
  next
    case False
    moreover from False have "0 < n div 10" by simp
    then have "nat_digits (n div 10) \<noteq> ''0''"
      using nat_digits_value [of "n div 10"] by (auto simp: decimal_value_def)
    moreover have "nat_digits (n div 10) \<noteq> []" using False nat_digits_value [of "n div 10"] by auto
    ultimately show ?thesis using 1 by (simp add: nat_digits.simps [of n])
  qed
qed

lemma nat_digits_token:
  assumes "0 \<le> n"
  shows "int_token (nat_digits n)" "list_all is_digit (nat_digits n)" "read_digits (nat_digits n) = n"
    "take 1 (nat_digits n) \<noteq> ''-''"
proof -
  from nat_digits_value [OF assms] have v: "nat_digits n \<noteq> []" "list_all is_digit (nat_digits n)" "decimal_value (nat_digits n) = n"
    by (simp_all add: decimal_digit_is_digit [abs_def])
  show minus: "take 1 (nat_digits n) \<noteq> ''-''" using v(1,2) by (cases "nat_digits n") (auto simp: is_digit_def)
  with v nat_digits_head [OF assms] show "int_token (nat_digits n)" by (auto simp: int_token_def unsigned_token_def)
  show "list_all is_digit (nat_digits n)" by (fact v)
  show "read_digits (nat_digits n) = n"
    using v(3) by (simp add: read_digits_def decimal_value_def digit_val_def foldl_conv_fold mult.commute add_diff_eq add.commute)
qed

lemma into_int_digits:
  "0 \<le> n \<Longrightarrow> n < 2 ^ 63 \<Longrightarrow> into_int64 (JNum (nat_digits n)) old = Some n"
  "0 \<le> n \<Longrightarrow> n < 2 ^ 64 \<Longrightarrow> into_uint64 (JNum (nat_digits n)) old = Some n"
  using nat_digits_token [of n] by (simp_all add: into_int64_def into_uint64_def)

lemma into_plain: "into_string (JStr s) old = Some s" "into_bool (JBool b) d = Some b"
  by (simp_all add: into_string_def into_bool_def)

lemmas into_read = into_struct_def json_field_def field_of_def into_int_digits into_plain

text \<open>What the fetcher of Uniswap reads from the metadata of a ticker.\<close>

definition zero_pool_config :: pool_config where
  "zero_pool_config = \<lparr>pl_address = [], pl_base_decimals = 0, pl_quote_decimals = 0, pl_invert = False\<rparr>"

definition read_pool_config :: "string \<Rightarrow> pool_config option" where
  "read_pool_config metadata = Unmarshal_into into_pool_config zero_pool_config metadata"

lemma pool_config_read:
  assumes "0 \<le> pl_base_decimals pc" "pl_base_decimals pc < 2 ^ 63" "0 \<le> pl_quote_decimals pc" "pl_quote_decimals pc < 2 ^ 63"
  shows "read_pool_config (print_json (pool_json pc)) = Some pc"
proof -
  have "tree_ok 10000 (pool_json pc)" using assms by (simp add: pool_json_def nat_digits_token)
  then have "json_unmarshal (print_json (pool_json pc)) = Some (pool_json pc)" by (rule unmarshal_print)
  moreover have "into_pool_config (pool_json pc) zero_pool_config = Some pc"
    using assms by (simp add: pool_json_def into_pool_config_def into_read)
  ultimately show ?thesis by (simp add: read_pool_config_def Unmarshal_into_def)
qed

lemma vault_read:
  "0 \<le> vm_token_decimals v \<Longrightarrow> vm_token_decimals v < 2 ^ 64 \<Longrightarrow> into_vault (vault_json v) w = Some v"
  by (simp add: vault_json_def into_vault_def into_read)

lemma raydium_metadata_read:
  assumes "0 \<le> vm_token_decimals (rm_base_token_vault m)" "vm_token_decimals (rm_base_token_vault m) < 2 ^ 64"
    "0 \<le> vm_token_decimals (rm_quote_token_vault m)" "vm_token_decimals (rm_quote_token_vault m) < 2 ^ 64"
  shows "unmarshalMetadataJSON (print_json (raydium_json m)) = Inr m"
proof -
  have "tree_ok 10000 (raydium_json m)" using assms by (simp add: raydium_json_def vault_json_def nat_digits_token)
  then have "json_unmarshal (print_json (raydium_json m)) = Some (raydium_json m)" by (rule unmarshal_print)
  moreover have "into_raydium_metadata (raydium_json m) zero_raydium_metadata = Some m"
    using assms by (simp add: raydium_json_def into_raydium_metadata_def into_read vault_read)
  ultimately show ?thesis by (simp add: unmarshalMetadataJSON_def Unmarshal_into_def)
qed

lemma digits_nonneg: "list_all is_digit s \<Longrightarrow> 0 \<le> read_digits s"
  using digits_onto_bounds [of s 0] by (simp add: read_digits_onto)

lemma ParseUint64_range: "ParseUint64 s = Inr n \<Longrightarrow> 0 \<le> n \<and> n < 2 ^ 64"
  by (auto simp: ParseUint64_def digits_nonneg split: if_splits)

lemma ParseInt64_range: "ParseInt64 s = Inr n \<Longrightarrow> - (2 ^ 63) \<le> n \<and> n < 2 ^ 63"
  unfolding ParseInt64_def Let_def by (auto split: if_split_asm)

end
