(* ===== verification/Agex_Properties.thy ===== *)
theory Agex_Properties
  imports Agex_Metadata Api_Properties
begin

text \<open>
  What the conversion of an aGeX chain's parameters guarantees: the markets it makes are well typed, down to the
  metadata of each provider; how the two sources of the research mode are merged; and that a switch of the source is
  final.
\<close>

section \<open>Types\<close>

definition metadata_typed :: "outside \<Rightarrow> provider_config \<Rightarrow> bool" where
  "metadata_typed out pc =
     (if take (length uniswapv3_BaseName) (pc_name pc) = uniswapv3_BaseName
      then (case read_pool_config (pc_metadata_json pc) of
              None \<Rightarrow> False | Some pool \<Rightarrow> is_ok (PoolConfig_ValidateBasic out pool) \<and> pl_invert pool = pc_invert pc)
      else if pc_name pc = raydium_Name
      then (case unmarshalMetadataJSON (pc_metadata_json pc) of
              Inl _ \<Rightarrow> False | Inr m \<Rightarrow> is_ok (TickerMetadata_ValidateBasic out m))
      else pc_metadata_json pc = [])"

definition provider_typed :: "outside \<Rightarrow> provider_config \<Rightarrow> bool" where
  "provider_typed out pc =
     (pc_name pc \<in> snd ` set ProviderMapping \<and>
      (case pc_normalize_by_pair pc of None \<Rightarrow> True | Some cp \<Rightarrow> is_ok (ValidateBasic cp)) \<and>
      metadata_typed out pc)"

definition market_typed :: "outside \<Rightarrow> string \<times> market \<Rightarrow> bool" where
  "market_typed out = (\<lambda>(tickr, m).
     tickr = Ticker_String (mk_ticker m) \<and> is_ok (Ticker_ValidateBasic (mk_ticker m)) \<and> tk_enabled (mk_ticker m) \<and>
     list_all (provider_typed out) (mk_provider_configs m))"

lemma uniswap_metadata_read:
  assumes "UniswapV3MetadataFromTicker out tickr invert = Inr md"
  obtains pool where "read_pool_config md = Some pool" "is_ok (PoolConfig_ValidateBasic out pool)" "pl_invert pool = invert"
proof -
  obtain a b q where s: "split_on agex_Delimiter tickr = [a, b, q]"
    using assms by (auto simp: UniswapV3MetadataFromTicker_def split: list.splits)
  then obtain db dq where p: "ParseInt64 b = Inr db" "ParseInt64 q = Inr dq"
    using assms by (cases "ParseInt64 b"; cases "ParseInt64 q") (auto simp: UniswapV3MetadataFromTicker_def)
  let ?pool = "\<lparr>pl_address = a, pl_base_decimals = db, pl_quote_decimals = dq, pl_invert = invert\<rparr>"
  have v: "PoolConfig_ValidateBasic out ?pool = Inr ()" and md: "md = print_json (pool_json ?pool)"
    using assms by (cases "PoolConfig_ValidateBasic out ?pool"; simp add: UniswapV3MetadataFromTicker_def s p)+
  have "0 \<le> db" "0 \<le> dq" using v by (auto simp: PoolConfig_ValidateBasic_def split: if_splits)
  then have "read_pool_config md = Some ?pool"
    unfolding md using ParseInt64_range [OF p(1)] ParseInt64_range [OF p(2)] by (intro pool_config_read) simp_all
  then show thesis by (rule that) (simp_all add: v)
qed

lemma raydium_metadata_typed:
  assumes "RaydiumMetadataFromTicker out tickr = Inr md"
  obtains m where "unmarshalMetadataJSON md = Inr m" "is_ok (TickerMetadata_ValidateBasic out m)"
proof -
  let ?fs = "split_on agex_Delimiter tickr"
  have len: "\<not> length ?fs < 8" using assms by (auto simp: RaydiumMetadataFromTicker_def)
  obtain db dq where p: "ParseUint64 (?fs ! 3) = Inr db" "ParseUint64 (?fs ! 5) = Inr dq"
      and k: "public_key out (?fs ! 2) = Inr ()" "public_key out (?fs ! 4) = Inr ()" "public_key out (?fs ! 6) = Inr ()"
        "public_key out (?fs ! 7) = Inr ()"
      and md: "md = print_json (raydium_json
          \<lparr>rm_base_token_vault = \<lparr>vm_token_vault_address = ?fs ! 2, vm_token_decimals = db\<rparr>,
           rm_quote_token_vault = \<lparr>vm_token_vault_address = ?fs ! 4, vm_token_decimals = dq\<rparr>,
           rm_amm_info_address = ?fs ! 7, rm_open_orders_address = ?fs ! 6\<rparr>)"
    using assms len by (auto simp: RaydiumMetadataFromTicker_def Let_def bind_res_Inr_iff)
  let ?m = "\<lparr>rm_base_token_vault = \<lparr>vm_token_vault_address = ?fs ! 2, vm_token_decimals = db\<rparr>,
           rm_quote_token_vault = \<lparr>vm_token_vault_address = ?fs ! 4, vm_token_decimals = dq\<rparr>,
           rm_amm_info_address = ?fs ! 7, rm_open_orders_address = ?fs ! 6\<rparr>"
  have "unmarshalMetadataJSON md = Inr ?m"
    unfolding md using ParseUint64_range [OF p(1)] ParseUint64_range [OF p(2)] by (intro raydium_metadata_read) simp_all
  moreover have "is_ok (TickerMetadata_ValidateBasic out ?m)" by (simp add: TickerMetadata_ValidateBasic_def k)
  ultimately show thesis by (rule that)
qed

lemma created_pair_ok: "CreateCurrencyPairFromPair p = Inr cp \<Longrightarrow> is_ok (ValidateBasic cp)"
  by (auto simp: CreateCurrencyPairFromPair_def Let_def bind_res_Inr_iff split: list.splits)

lemma extracted_metadata_typed:
  assumes "ExtractMetadata out exchange cfg = Inr md" "pc_name pc = exchange" "pc_metadata_json pc = md" "pc_invert pc = xc_invert cfg"
  shows "metadata_typed out pc"
proof (cases "take (length uniswapv3_BaseName) exchange = uniswapv3_BaseName")
  case True
  with assms(1) have "UniswapV3MetadataFromTicker out (xc_ticker cfg) (xc_invert cfg) = Inr md" by (simp add: ExtractMetadata_def)
  then show ?thesis by (rule uniswap_metadata_read) (simp add: metadata_typed_def assms True)
next
  case False
  show ?thesis
  proof (cases "exchange = raydium_Name")
    case True
    with assms(1) False have "RaydiumMetadataFromTicker out (xc_ticker cfg) = Inr md" by (simp add: ExtractMetadata_def)
    then show ?thesis by (rule raydium_metadata_typed) (use False True in \<open>simp add: metadata_typed_def assms\<close>)
  qed (use False assms in \<open>simp add: ExtractMetadata_def metadata_typed_def\<close>)
qed

lemma converted_provider_typed:
  assumes "convert_exchange out exchange cfg = Inr pc" "exchange \<in> snd ` set ProviderMapping"
  shows "provider_typed out pc"
proof -
  from assms(1) obtain np denom md where np: "np = None \<or> (\<exists>cp. np = Some cp \<and> CreateCurrencyPairFromPair (xc_adjust_by_market cfg) = Inr cp)"
      and md: "ExtractMetadata out exchange cfg = Inr md"
      and pc: "pc = \<lparr>pc_name = exchange, pc_off_chain_ticker = denom, pc_normalize_by_pair = np, pc_invert = xc_invert cfg,
        pc_metadata_json = md\<rparr>"
    by (auto simp: convert_exchange_def bind_res_Inr_iff split: if_splits)
  have "metadata_typed out pc" by (rule extracted_metadata_typed [OF md]) (simp_all add: pc)
  moreover have "case np of None \<Rightarrow> True | Some cp \<Rightarrow> is_ok (ValidateBasic cp)"
    using np created_pair_ok by (cases np) auto
  ultimately show ?thesis using assms(2) by (simp add: provider_typed_def pc)
qed

lemma converted_providers_typed:
  "convert_exchanges out seen cfgs = Inr pcs \<Longrightarrow> list_all (provider_typed out) pcs"
proof (induction out seen cfgs arbitrary: pcs rule: convert_exchanges.induct)
  case (2 out seen cfg cfgs)
  show ?case
  proof (cases "cfg \<in> set seen \<or> gm_get ProviderMapping (xc_exchange_name cfg) = None")
    case True
    then show ?thesis using 2 by (auto split: option.splits if_split_asm)
  next
    case False
    then obtain e where e: "cfg \<notin> set seen" "gm_get ProviderMapping (xc_exchange_name cfg) = Some e" by auto
    with 2(4) obtain pc rest where r: "convert_exchange out e cfg = Inr pc" "convert_exchanges out (cfg # seen) cfgs = Inr rest"
        "pcs = pc # rest"
      by (auto simp: bind_res_Inr_iff)
    have "e \<in> snd ` set ProviderMapping" using gm_get_mem [OF e(2)] by force
    with r(1) have "provider_typed out pc" by (rule converted_provider_typed)
    with 2(3) [OF e r(2)] r(3) show ?thesis by simp
  qed
qed simp

lemma converted_market_typed:
  "convert_market out p = Inr m \<Longrightarrow> market_typed out (Ticker_String (mk_ticker m), m)"
  by (auto simp: convert_market_def bind_res_Inr_iff market_typed_def CreateTickerFromMarket_def Let_def ConvertExchangeConfigJSON_def
      split: option.splits) (erule converted_providers_typed)

lemma set_gm_set: "set (gm_set k v m) \<subseteq> insert (k, v) (set m)"
  by (induction m) (auto simp: gm_set_def)

lemma typed_set:
  "list_all (market_typed out) mm \<Longrightarrow> market_typed out (k, m) \<Longrightarrow> list_all (market_typed out) (gm_set k m mm)"
  using set_gm_set [of k m mm] by (auto simp: list_all_iff)

lemma converted_markets_typed_onto:
  "convert_markets out ps markets = Inr mm \<Longrightarrow> list_all (market_typed out) markets \<and> gm_wf markets \<Longrightarrow>
     list_all (market_typed out) mm \<and> gm_wf mm"
  by (induction out ps markets rule: convert_markets.induct)
    (auto simp: bind_res_Inr_iff typed_set converted_market_typed)

text \<open>(C27) The markets converted from the parameters of a chain are well typed: each is kept under the string of its
  ticker, the ticker is valid and enabled, and each provider is one the sidecar knows, has a valid pair for
  normalization, and metadata that the provider itself decodes and accepts.\<close>

theorem converted_markets_typed:
  assumes "ConvertMarketParamsToMarketMap out params = Inr resp"
  shows "list_all (market_typed out) (mr_market_map resp) \<and> gm_wf (mr_market_map resp)"
  using assms converted_markets_typed_onto [of out params "[]"]
  by (auto simp: ConvertMarketParamsToMarketMap_def bind_res_Inr_iff gm_wf_def)

definition ex_outside :: outside where
  "ex_outside = \<lparr>out_is_hex_address = (\<lambda>s. take 2 s = ''0x''), out_is_public_key = (\<lambda>s. s \<noteq> []), out_int32 = (\<lambda>_. 0)\<rparr>"

definition ex_params :: "market_param list" where
  "ex_params = [zero_market_param\<lparr>ag_pair := ''weth-usd'', ag_exponent := - 6, ag_min_exchanges := 1,
     ag_exchange_config_json := print_json (exchanges_json
       [\<lparr>xc_exchange_name = ''UniswapV3-Ethereum'', xc_ticker = ''0x88e6-18-6'', xc_adjust_by_market = ''usdt-usd'', xc_invert = True\<rparr>,
        \<lparr>xc_exchange_name = ''Raydium'', xc_ticker = ''WETH-USDC-v1-9-v2-6-oo-amm'', xc_adjust_by_market = [], xc_invert = False\<rparr>,
        \<lparr>xc_exchange_name = ''Nowhere'', xc_ticker = ''WETHUSD'', xc_adjust_by_market = [], xc_invert = False\<rparr>])\<rparr>]"

theorem converted_markets_typed_witness:
  "case ConvertMarketParamsToMarketMap ex_outside ex_params of
     Inl _ \<Rightarrow> False
   | Inr resp \<Rightarrow> map fst (mr_market_map resp) = [''WETH/USD''] \<and> list_all (market_typed ex_outside) (mr_market_map resp)"
proof -
  have "is_ok (ConvertMarketParamsToMarketMap ex_outside ex_params)" by code_simp
  then obtain resp where r: "ConvertMarketParamsToMarketMap ex_outside ex_params = Inr resp" by (auto simp: is_ok_iff)
  have "(case ConvertMarketParamsToMarketMap ex_outside ex_params of
      Inl _ \<Rightarrow> [] | Inr resp \<Rightarrow> map fst (mr_market_map resp)) = [''WETH/USD'']" by code_simp
  with converted_markets_typed [OF r] r show ?thesis by simp
qed

section \<open>Merging\<close>

lemma gm_get_Cons: "gm_get ((k, v) # m) t = (if t = k then Some v else gm_get m t)"
  by (simp add: gm_get_def)

lemma gm_get_append: "gm_get (m @ n) t = (case gm_get m t of None \<Rightarrow> gm_get n t | Some v \<Rightarrow> Some v)"
  by (simp add: gm_get_def map_add_def split: option.split)

lemma merge_markets_get:
  "gm_get (merge_markets research mainnet) t = (case gm_get mainnet t of Some m \<Rightarrow> Some m | None \<Rightarrow> gm_get research t)"
proof (induction research arbitrary: mainnet)
  case (Cons tm research)
  obtain k m where tm: "tm = (k, m)" by (cases tm)
  have "merge_markets (tm # research) mainnet =
      merge_markets research (if gm_get mainnet k = None then gm_set k m mainnet else mainnet)"
    by (simp add: merge_markets_def tm)
  then show ?case using Cons.IH by (auto simp: tm gm_get_Cons split: option.splits)
qed (simp add: merge_markets_def split: option.split)

lemma merge_markets_wf: "gm_wf mainnet \<Longrightarrow> gm_wf (merge_markets research mainnet)"
  unfolding merge_markets_def by (induction research arbitrary: mainnet) auto

definition cmc_only_market :: "market_map \<Rightarrow> string \<Rightarrow> market \<Rightarrow> market option" where
  "cmc_only_market static_markets tickr m =
     (case filter (\<lambda>p. pc_name p = coinmarketcap_Name) (mk_provider_configs m) of
        [] \<Rightarrow> map_option (\<lambda>c. m\<lparr>mk_ticker := (mk_ticker m)\<lparr>tk_min_provider_count := 1\<rparr>,
                                mk_provider_configs := mk_provider_configs c\<rparr>) (gm_get static_markets tickr)
      | p # ps \<Rightarrow> Some (m\<lparr>mk_ticker := (mk_ticker m)\<lparr>tk_min_provider_count := 1\<rparr>,
                             mk_provider_configs := [last (p # ps)]\<rparr>))"

lemma only_cmc_get:
  "gm_wf mm \<Longrightarrow> gm_get (only_cmc static_markets mm) t = Option.bind (gm_get mm t) (cmc_only_market static_markets t)"
proof (induction mm)
  case (Cons tm mm)
  obtain k m where tm: "tm = (k, m)" by (cases tm)
  have here: "gm_get (cmc_market static_markets (k, m)) t = (if t = k then cmc_only_market static_markets k m else None)"
    by (auto simp: cmc_market_def cmc_only_market_def Let_def gm_get_Cons split: option.split list.split)
  have "gm_get mm k = None" "gm_wf mm" using Cons.prems by (auto simp: tm gm_wf_def gm_get_def map_of_eq_None_iff)
  with Cons.IH here show ?case
    by (cases "t = k") (simp_all add: tm only_cmc_def gm_get_append gm_get_Cons split: option.split)
qed (simp add: only_cmc_def)

text \<open>What the combined answer holds for a ticker.\<close>

definition combined_market :: "bool \<Rightarrow> market_map \<Rightarrow> market_map \<Rightarrow> market_map \<Rightarrow> string \<Rightarrow> market option" where
  "combined_market isCMCOnly static_markets mainnet research t =
     (let m = (case gm_get mainnet t of Some m \<Rightarrow> Some m | None \<Rightarrow> gm_get research t) in
      if isCMCOnly then Option.bind m (cmc_only_market static_markets t) else m)"

lemma gm_get_map_values: "gm_get (map (\<lambda>(k, v). if k = c then (k, f v) else (k, v)) m) c = map_option f (gm_get m c)"
  by (induction m) (auto simp: gm_get_Cons)

text \<open>(C28) When both sources answer, the combined answer holds for every ticker the market of the chain, or that of
  the research file where the chain has none; in the mode of CoinMarketCap only the provider of that name is left of
  each market, taken from its static market map where the market lacks it, and a market found in neither is gone. The
  answer is given only if the map is valid.\<close>

theorem combined_responses:
  assumes "gm_get (gr_unresolved mainnet) agex_ChainID = None" "gm_get (gr_unresolved research) agex_ChainID = None"
    "resolved_map (gr_resolved mainnet) agex_ChainID = Inr main" "resolved_map (gr_resolved research) agex_ChainID = Inr other"
    "gm_wf (mr_market_map main)"
  shows "\<exists>mm ans. combine_responses isCMCOnly static_markets cids mainnet research = Inr ans \<and>
     (\<forall>t. gm_get mm t = combined_market isCMCOnly static_markets (mr_market_map main) (mr_market_map other) t) \<and>
     (if is_ok (MarketMap_ValidateBasic mm)
      then resolved_map (gr_resolved ans) agex_ChainID = Inr (main\<lparr>mr_market_map := mm\<rparr>)
      else ans = NewGetResponseWithErr cids ErrorUnknown)"
proof -
  let ?merged = "merge_markets (mr_market_map other) (mr_market_map main)"
  let ?mm = "if isCMCOnly then only_cmc static_markets ?merged else ?merged"
  obtain r where r: "gm_get (gr_resolved mainnet) agex_ChainID = Some r"
    using assms(3) by (auto simp: resolved_map_def split: option.splits)
  obtain r' where r': "gm_get (gr_resolved research) agex_ChainID = Some r'"
    using assms(4) by (auto simp: resolved_map_def split: option.splits)
  have get: "gm_get ?mm t = combined_market isCMCOnly static_markets (mr_market_map main) (mr_market_map other) t" for t
    by (simp add: combined_market_def Let_def only_cmc_get merge_markets_wf [OF assms(5)] merge_markets_get)
  let ?ans = "mainnet\<lparr>gr_resolved := map (\<lambda>(chain, r).
      if chain = agex_ChainID then (chain, r\<lparr>rr_value := Some (main\<lparr>mr_market_map := ?mm\<rparr>)\<rparr>) else (chain, r))
      (gr_resolved mainnet)\<rparr>"
  have "combine_responses isCMCOnly static_markets cids mainnet research =
      Inr (if is_ok (MarketMap_ValidateBasic ?mm) then ?ans else NewGetResponseWithErr cids ErrorUnknown)"
    by (simp add: combine_responses_def assms(1-4) r' Let_def)
  moreover have "resolved_map (gr_resolved ?ans) agex_ChainID = Inr (main\<lparr>mr_market_map := ?mm\<rparr>)"
    by (simp add: resolved_map_def gm_get_map_values r)
  ultimately show ?thesis using get
    by (intro exI [of _ ?mm] exI [of _ "if is_ok (MarketMap_ValidateBasic ?mm) then ?ans else NewGetResponseWithErr cids ErrorUnknown"])
      (simp del: if_split split: if_split_asm)
qed

definition ex_market :: "string \<Rightarrow> market" where
  "ex_market provider = \<lparr>mk_ticker = NewTicker ''BTC'' ''USD'' 8 1 True,
     mk_provider_configs = [\<lparr>pc_name = provider, pc_off_chain_ticker = ''1'', pc_normalize_by_pair = None, pc_invert = False,
       pc_metadata_json = []\<rparr>]\<rparr>"

definition ex_answer :: "string \<Rightarrow> mm_answer" where
  "ex_answer provider = NewGetResponse [(agex_ChainID, NewResult (Some \<lparr>mr_market_map = [(''BTC/USD'', ex_market provider)],
     mr_last_updated = 0, mr_chain_id = []\<rparr>) 0)] []"

theorem combined_responses_witness:
  "\<exists>mm ans. combine_responses True [(''BTC/USD'', ex_market coinmarketcap_Name)] [agex_ChainID]
       (ex_answer kraken_Name) (ex_answer bitstamp_Name) = Inr ans \<and>
     gm_get mm ''BTC/USD'' = Some (ex_market coinmarketcap_Name) \<and>
     (if is_ok (MarketMap_ValidateBasic mm)
      then resolved_map (gr_resolved ans) agex_ChainID = Inr (\<lparr>mr_market_map = mm, mr_last_updated = 0, mr_chain_id = []\<rparr>)
      else ans = NewGetResponseWithErr [agex_ChainID] ErrorUnknown)"
proof -
  let ?resp = "\<lambda>p. \<lparr>mr_market_map = [(''BTC/USD'', ex_market p)], mr_last_updated = 0, mr_chain_id = []\<rparr>"
  have "gm_get (gr_unresolved (ex_answer p)) agex_ChainID = None" "resolved_map (gr_resolved (ex_answer p)) agex_ChainID = Inr (?resp p)"
    for p by (simp_all add: ex_answer_def resolved_map_def gm_get_Cons NewGetResponse_def NewResult_def)
  note a = this
  have "combined_market True [(''BTC/USD'', ex_market coinmarketcap_Name)] (mr_market_map (?resp kraken_Name))
      (mr_market_map (?resp bitstamp_Name)) ''BTC/USD'' = Some (ex_market coinmarketcap_Name)"
    by code_simp
  moreover have "gm_wf (mr_market_map (?resp kraken_Name))" by (simp add: gm_wf_def)
  from combined_responses [OF a(1) a(1) a(2) a(2) this]
  obtain mm ans where "combine_responses True [(''BTC/USD'', ex_market coinmarketcap_Name)] [agex_ChainID]
       (ex_answer kraken_Name) (ex_answer bitstamp_Name) = Inr ans"
    "\<forall>t. gm_get mm t = combined_market True [(''BTC/USD'', ex_market coinmarketcap_Name)] (mr_market_map (?resp kraken_Name))
      (mr_market_map (?resp bitstamp_Name)) t"
    "if is_ok (MarketMap_ValidateBasic mm) then resolved_map (gr_resolved ans) agex_ChainID = Inr (?resp kraken_Name\<lparr>mr_market_map := mm\<rparr>)
      else ans = NewGetResponseWithErr [agex_ChainID] ErrorUnknown"
    by blast
  ultimately show ?thesis by (intro exI [of _ mm] exI [of _ ans] conjI) (simp_all only: market_map_response.simps)
qed

theorem cmc_mode_leaves_cmc:
  assumes "\<And>t m. gm_get static_markets t = Some m \<Longrightarrow> list_all (\<lambda>p. pc_name p = coinmarketcap_Name) (mk_provider_configs m)"
    "combined_market True static_markets mainnet research t = Some m"
  shows "list_all (\<lambda>p. pc_name p = coinmarketcap_Name) (mk_provider_configs m)"
    "tk_min_provider_count (mk_ticker m) = 1"
proof -
  obtain n where n: "cmc_only_market static_markets t n = Some m"
    using assms(2) by (auto simp: combined_market_def Let_def bind_eq_Some_conv)
  let ?cmcs = "filter (\<lambda>p. pc_name p = coinmarketcap_Name) (mk_provider_configs n)"
  have "pc_name (last ?cmcs) = coinmarketcap_Name" if "?cmcs \<noteq> []" using last_in_set [OF that] by simp
  with n assms(1) show "list_all (\<lambda>p. pc_name p = coinmarketcap_Name) (mk_provider_configs m)"
    by (auto simp: cmc_only_market_def split: list.splits)
  show "tk_min_provider_count (mk_ticker m) = 1"
    using n by (auto simp: cmc_only_market_def split: list.splits)
qed

section \<open>The research file\<close>

lemma exchange_read: "into_exchange_config (exchange_json c) zero_exchange_config = Some c"
  by (cases c) (auto simp: exchange_json_def into_exchange_config_def zero_exchange_config_def into_read)

text \<open>The exchanges of a market of the research file, which are written as the JSON text of the chain's
  parameters, are read back from it by the conversion as they were, whatever strings they hold.\<close>

theorem research_exchanges_roundtrip:
  "Unmarshal_into into_exchange_configs [] (print_json (exchanges_json cs)) = Some cs"
proof -
  have "tree_ok 10000 (exchanges_json cs)" by (auto simp: exchanges_json_def exchange_json_def)
  then have "json_unmarshal (print_json (exchanges_json cs)) = Some (exchanges_json cs)" by (rule unmarshal_print)
  moreover have "into_all into_exchange_config zero_exchange_config (map exchange_json cs) [] = Some cs"
    by (induction cs) (simp_all add: exchange_read)
  ultimately show ?thesis
    by (simp add: Unmarshal_into_def exchanges_json_def into_exchange_configs_def into_slice_def into_read)
qed

section \<open>Switching over\<close>

theorem switch_over_is_final:
  assumes "switch_Fetch pricesFetcher marketmapFetcher cids switched = (r, switched')"
  shows "(switched \<longrightarrow> switched') \<and> (switched' \<longrightarrow> r = marketmapFetcher cids)"
  using assms by (auto simp: switch_Fetch_def split: sum.splits if_splits)

section \<open>What is delivered\<close>

text \<open>The maps an answer resolves are valid.\<close>

definition answer_valid :: "mm_answer \<Rightarrow> bool" where
  "answer_valid ans = list_all (\<lambda>(c, r). case rr_value r of
      None \<Rightarrow> True | Some resp \<Rightarrow> is_ok (MarketMap_ValidateBasic (mr_market_map resp))) (gr_resolved ans)"

lemma answer_valid_err [simp]: "answer_valid (NewGetResponseWithErr cids code)"
  by (simp add: answer_valid_def NewGetResponseWithErr_def)

lemma params_answer_valid: "Fetch (agex_handler out now api) do_request cids = Inr ans \<Longrightarrow> answer_valid ans"
  by (erule Fetch_cases)
    (auto simp: agex_handler_def agex_ParseResponse_def answer_valid_def NewGetResponse_def NewGetResponseWithErr_def NewResult_def
      split: list.splits option.splits sum.splits if_splits)

lemma research_unresolved_empty:
  assumes "Fetch (research_handler_of out now h) do_request cids = Inr ans" "gm_get (gr_unresolved ans) c \<noteq> None"
  shows "gr_resolved ans = []"
  using assms(1)
  by (rule Fetch_cases)
    (use assms(2) in \<open>auto simp: research_handler_of_def research_ParseResponse_def NewGetResponse_def NewGetResponseWithErr_def
      split: option.splits sum.splits if_splits\<close>)

lemma replaced_valid:
  assumes "answer_valid ans" "is_ok (MarketMap_ValidateBasic (mr_market_map resp))"
  shows "answer_valid (ans\<lparr>gr_resolved := map (\<lambda>(chain, r). if chain = c then (chain, r\<lparr>rr_value := Some resp\<rparr>) else (chain, r))
    (gr_resolved ans)\<rparr>)"
  using assms unfolding answer_valid_def
  by (auto simp: list.pred_map elim!: list.pred_mono_strong split: option.splits)

lemma combined_valid:
  assumes "combine_responses isCMCOnly static_markets cids mainnet research = Inr ans" "answer_valid mainnet"
    "gm_get (gr_unresolved research) agex_ChainID \<noteq> None \<Longrightarrow> gr_resolved research = []"
  shows "answer_valid ans"
proof (cases "gm_get (gr_unresolved mainnet) agex_ChainID \<noteq> None \<or> gm_get (gr_unresolved research) agex_ChainID \<noteq> None")
  case True
  with assms show ?thesis by (auto simp: combine_responses_def answer_valid_def split: if_splits)
next
  case False
  then obtain main merged where
      "(let mm = (if isCMCOnly then only_cmc static_markets merged else merged) in
        if \<not> is_ok (MarketMap_ValidateBasic mm) then Inr (NewGetResponseWithErr cids ErrorUnknown)
        else Inr (mainnet\<lparr>gr_resolved := map (\<lambda>(chain, r).
               if chain = agex_ChainID then (chain, r\<lparr>rr_value := Some (main\<lparr>mr_market_map := mm\<rparr>)\<rparr>) else (chain, r))
               (gr_resolved mainnet)\<rparr>)) = (Inr ans :: mm_answer res)"
    using assms(1) unfolding combine_responses_def
    by (simp only: bind_res_Inr_iff if_False de_Morgan_disj not_not simp_thms) blast
  then show ?thesis using assms(2) by (auto simp: Let_def replaced_valid split: if_split_asm)
qed

text \<open>(C26) A market map that a fetch delivers to the sidecar is valid, whichever source the configuration chose,
  before and after a switch, and whatever HTTP answers, provided the module of the chain keeps a valid map.\<close>

theorem delivered_map_valid:
  assumes "fetch_market_map out now static_markets do_request reply src cids switched = (Inr ans, switched')"
    "\<And>resp. reply = Inr (Some resp) \<Longrightarrow> is_ok (MarketMap_ValidateBasic (mr_market_map resp))"
    "(chain, r) \<in> set (gr_resolved ans)" "rr_value r = Some resp"
  shows "is_ok (MarketMap_ValidateBasic (mr_market_map resp))"
proof -
  have m: "answer_valid ans" if "module_Fetch now reply cids = Inr ans" for ans
    using that assms(2)
    by (auto simp: module_Fetch_def answer_valid_def NewGetResponse_def NewGetResponseWithErr_def NewResult_def
        split: list.splits sum.splits option.splits go_error.splits)
  have "answer_valid ans"
  proof (cases src)
    case (ParamsSource api)
    with assms(1) show ?thesis by (auto simp: fetch_market_map_def intro: params_answer_valid)
  next
    case (SwitchSource api)
    with assms(1) m show ?thesis
      by (auto simp: fetch_market_map_def switch_Fetch_def intro: params_answer_valid split: if_splits sum.splits)
  next
    case (ResearchSource h)
    with assms(1) show ?thesis
      by (auto simp: fetch_market_map_def multi_Fetch_def bind_res_Inr_iff intro: combined_valid params_answer_valid research_unresolved_empty)
  next
    case (ModuleSource api)
    with assms(1) m show ?thesis by (simp add: fetch_market_map_def)
  qed
  with assms(3,4) show ?thesis by (auto simp: answer_valid_def list_all_iff)
qed

definition ex_api :: api_config where
  "ex_api = \<lparr>ac_enabled = True, ac_timeout = 1, ac_interval = 1, ac_reconnect_timeout = 1, ac_max_queries = 1, ac_atomic = True,
     ac_endpoints = [\<lparr>ep_url = ''http://localhost:1317'', ep_authentication = \<lparr>au_api_key = [], au_api_key_header = []\<rparr>\<rparr>],
     ac_batch_size = 0, ac_name = agex_Name, ac_max_block_height_age = 0\<rparr>"

theorem delivered_map_valid_witness:
  "case fetch_market_map ex_outside 7 [] (\<lambda>_. (None, Some ErrNotFound))
      (Inr (Some \<lparr>mr_market_map = [(''BTC/USD'', ex_market kraken_Name)], mr_last_updated = 3, mr_chain_id = ''chain''\<rparr>))
      (SwitchSource ex_api) [agex_ChainID] False of
     (Inr ans, switched) \<Rightarrow> switched \<and> (case resolved_map (gr_resolved ans) agex_ChainID of
        Inr resp \<Rightarrow> map fst (mr_market_map resp) = [''BTC/USD''] \<and> is_ok (MarketMap_ValidateBasic (mr_market_map resp))
      | Inl _ \<Rightarrow> False)
   | _ \<Rightarrow> False"
proof -
  let ?map = "[(''BTC/USD'', ex_market kraken_Name)]"
  let ?fetch = "fetch_market_map ex_outside 7 [] (\<lambda>_. (None, Some ErrNotFound))
      (Inr (Some \<lparr>mr_market_map = ?map, mr_last_updated = 3, mr_chain_id = ''chain''\<rparr>)) (SwitchSource ex_api) [agex_ChainID] False"
  have ok: "is_ok (MarketMap_ValidateBasic ?map)" by code_simp
  have "(case ?fetch of (Inr ans, switched) \<Rightarrow> switched \<and> (case resolved_map (gr_resolved ans) agex_ChainID of
      Inr resp \<Rightarrow> map fst (mr_market_map resp) = [''BTC/USD''] | Inl _ \<Rightarrow> False) | _ \<Rightarrow> False)"
    by code_simp
  then obtain ans resp where f: "?fetch = (Inr ans, True)" and r: "resolved_map (gr_resolved ans) agex_ChainID = Inr resp"
      and k: "map fst (mr_market_map resp) = [''BTC/USD'']"
    by (auto split: prod.splits sum.splits)
  from r obtain v where "(agex_ChainID, v) \<in> set (gr_resolved ans)" "rr_value v = Some resp"
    by (auto simp: resolved_map_def dest: gm_get_mem split: option.splits)
  then have "is_ok (MarketMap_ValidateBasic (mr_market_map resp))"
    using delivered_map_valid [OF f] ok by fastforce
  with f r k show ?thesis by simp
qed

end
