(* ===== verification/Ws_Handler.thy ===== *)
theory Ws_Handler
  imports Api_Handler
begin

text \<open>
  \<open>providers/base/websocket/handlers\<close>: the connection of a websocket source and the query handler that dials,
  subscribes, reads and answers. The websocket library is an argument: what it answers to a call comes with the call.
  The messages of a run are a list of events in the order the handler meets them.
\<close>

section \<open>The connection\<close>

text \<open>\<open>conn\<close> is not nil.\<close>

record ws_conn =
  cn_cfg :: websocket_config
  cn_conn :: bool
  cn_pre_dial_hook :: "(websocket_config \<Rightarrow> websocket_config res) option"

definition NewWebSocketHandlerImpl ::
    "websocket_config \<Rightarrow> (websocket_config \<Rightarrow> websocket_config res) option \<Rightarrow> ws_conn res" where
  "NewWebSocketHandlerImpl cfg hook =
     bind_res (WebSocketConfig_ValidateBasic cfg) (\<lambda>_.
     Inr \<lparr>cn_cfg = cfg, cn_conn = False, cn_pre_dial_hook = hook\<rparr>)"

text \<open>\<open>dial\<close> is the error of the library for a URL, if any.\<close>

definition conn_Dial :: "(string \<Rightarrow> go_error option) \<Rightarrow> ws_conn \<Rightarrow> unit res \<times> ws_conn" where
  "conn_Dial dial h =
     (case (case cn_pre_dial_hook h of None \<Rightarrow> Inr (cn_cfg h) | Some hook \<Rightarrow> hook (cn_cfg h)) of
        Inl e \<Rightarrow> (Inl e, h)
      | Inr cfg \<Rightarrow>
          (case wc_endpoints cfg of
             [] \<Rightarrow> (Inl (Errorf ''no endpoints provided''), h\<lparr>cn_cfg := cfg\<rparr>)
           | e # _ \<Rightarrow>
               (case dial (ep_url e) of
                  Some err \<Rightarrow> (Inl err, h\<lparr>cn_cfg := cfg, cn_conn := False\<rparr>)
                | None \<Rightarrow> (Inr (), h\<lparr>cn_cfg := cfg, cn_conn := True\<rparr>))))"

definition conn_Read :: "(string, go_error) sum \<Rightarrow> ws_conn \<Rightarrow> (go_error, string) sum" where
  "conn_Read outcome h =
     (if \<not> cn_conn h then Inl (Errorf ''connection has not been established'')
      else case outcome of Inl m \<Rightarrow> Inr m | Inr e \<Rightarrow> Inl e)"

definition conn_Write :: "go_error option \<Rightarrow> string \<Rightarrow> ws_conn \<Rightarrow> unit res" where
  "conn_Write outcome message h =
     (if \<not> cn_conn h then Inl (Errorf ''connection has not been established'')
      else case outcome of Some e \<Rightarrow> Inl e | None \<Rightarrow> Inr ())"

definition conn_Close :: "go_error option \<Rightarrow> ws_conn \<Rightarrow> unit res" where
  "conn_Close outcome h =
     (if \<not> cn_conn h then Inl (Errorf ''connection has not been established'')
      else case outcome of Some e \<Rightarrow> Inl e | None \<Rightarrow> Inr ())"

definition conn_Copy :: "ws_conn \<Rightarrow> ws_conn" where
  "conn_Copy h = h\<lparr>cn_conn := False\<rparr>"

section \<open>The data handler\<close>

text \<open>A message is answered by a response, messages to send, or an error; a panic is an error \<open>Panic\<close>. The first
  argument is the time.\<close>

type_synonym ('k, 'v) handled = "('k, 'v) get_response \<times> string list \<times> go_error option"

record ('s, 'k, 'v) ws_data_handler =
  wd_handle_message :: "int \<Rightarrow> string \<Rightarrow> 's \<Rightarrow> ('k, 'v) handled \<times> 's"
  wd_create_messages :: "int \<Rightarrow> 'k list \<Rightarrow> 's \<Rightarrow> string list res \<times> 's"
  wd_heart_beat_messages :: "int \<Rightarrow> 's \<Rightarrow> string list res"

section \<open>The query handler\<close>

datatype ('k, 'v) ws_action =
    Dialled
  | Wrote string
  | CloseConn
  | Respond "('k, 'v) get_response"

definition ErrorWebsocketStartFail :: int where "ErrorWebsocketStartFail = 5"

definition join_err :: "string \<Rightarrow> go_error \<Rightarrow> go_error" where
  "join_err what e = wrap_err (Wrapf what) e"

definition ErrDialWithErr :: "go_error \<Rightarrow> go_error" where
  "ErrDialWithErr = join_err ''websocket connection handler failed to create connection''"
definition ErrCreateMessageWithErr :: "go_error \<Rightarrow> go_error" where
  "ErrCreateMessageWithErr = join_err ''websocket data handler failed to create messages''"
definition ErrWriteWithErr :: "go_error \<Rightarrow> go_error" where
  "ErrWriteWithErr = join_err ''websocket connection handler failed to write message''"
definition ErrReadWithErr :: "go_error \<Rightarrow> go_error" where
  "ErrReadWithErr = join_err ''websocket connection handler failed to read message''"
definition ErrCloseWithErr :: "go_error \<Rightarrow> go_error" where
  "ErrCloseWithErr = join_err ''websocket connection handler failed to close connection''"

text \<open>What the outside does in a run: the error of the dial, of each write of the first messages, whether the context
  is done after one of them, and the error of closing.\<close>

record ws_outside =
  wo_dial :: "go_error option"
  wo_write :: "nat \<Rightarrow> go_error option"
  wo_ctx_done :: "nat \<Rightarrow> bool"
  wo_close :: "go_error option"

definition close_result :: "ws_outside \<Rightarrow> unit res" where
  "close_result env = (case wo_close env of None \<Rightarrow> Inr () | Some e \<Rightarrow> Inl (ErrCloseWithErr e))"

text \<open>The loop over the first messages: the context is looked at between two writes.\<close>

fun send_initial :: "ws_outside \<Rightarrow> nat \<Rightarrow> string list \<Rightarrow> unit res \<times> ('k, 'v) ws_action list" where
  "send_initial env i [] = (Inr (), [])"
| "send_initial env i (m # ms) =
     (case wo_write env i of
        Some e \<Rightarrow> (Inl (ErrWriteWithErr e), [Wrote m])
      | None \<Rightarrow>
          if ms \<noteq> [] \<and> wo_ctx_done env i then (close_result env, [Wrote m, CloseConn])
          else let (r, as) = send_initial env (Suc i) ms in (r, Wrote m # as))"

text \<open>A panic of \<open>CreateMessages\<close> ends \<open>Start\<close>.\<close>

definition ws_start ::
    "('s, 'k, 'v) ws_data_handler \<Rightarrow> ws_outside \<Rightarrow> int \<Rightarrow> 'k list \<Rightarrow> 's \<Rightarrow> unit res \<times> ('k, 'v) ws_action list \<times> 's" where
  "ws_start dh env now ids s =
     (case wo_dial env of
        Some e \<Rightarrow> (Inl (ErrDialWithErr e), [Dialled], s)
      | None \<Rightarrow>
          (case wd_create_messages dh now ids s of
             (Inl e, t) \<Rightarrow> (Inl (ErrCreateMessageWithErr e), [Dialled], t)
           | (Inr messages, t) \<Rightarrow> let (r, as) = send_initial env 0 messages in (r, Dialled # as, t)))"

text \<open>Events of the loop: the context is done, a read fails, a message is read (with the time, and whether the context
  is done when its response is to be sent), or the other goroutine's ticker fires.\<close>

datatype ws_event =
    CtxDone
  | ReadFails go_error
  | Message int string bool
  | HeartBeat int

text \<open>No result: the loop waits for the next event. A panic is recovered and \<open>recv\<close> returns no error. No source fails
  to make its heartbeats. The goroutine of the heartbeats ends with the context that \<open>Start\<close> cancels after \<open>recv\<close> has returned; a
  heartbeat it writes on the connection that is already closed, before it notices that, only logs an error
  and is no event.\<close>

definition ctx_result :: "ws_outside \<Rightarrow> unit res" where
  "ctx_result env = bind_res (close_result env) (\<lambda>_. Inl (Errorf ''context canceled''))"

fun ws_recv ::
    "('s, 'k, 'v) ws_data_handler \<Rightarrow> websocket_config \<Rightarrow> ws_outside \<Rightarrow> int \<Rightarrow> ws_event list \<Rightarrow> 's \<Rightarrow>
     unit res option \<times> ('k, 'v) ws_action list \<times> 's" where
  "ws_recv dh cfg env readErrCount [] s = (None, [], s)"
| "ws_recv dh cfg env readErrCount (CtxDone # es) s = (Some (ctx_result env), [CloseConn], s)"
| "ws_recv dh cfg env readErrCount (ReadFails e # es) s =
     (if readErrCount + 1 < wc_max_read_error_count cfg then ws_recv dh cfg env (readErrCount + 1) es s
      else (Some (bind_res (close_result env) (\<lambda>_. Inl (ErrReadWithErr e))), [CloseConn], s))"
| "ws_recv dh cfg env readErrCount (Message now m done # es) s =
     (case wd_handle_message dh now m s of
        ((response, updateMessage, Some (Panic p)), t) \<Rightarrow> (Some (Inr ()), [], t)
      | ((response, updateMessage, Some e), t) \<Rightarrow> ws_recv dh cfg env readErrCount es t
      | ((response, updateMessage, None), t) \<Rightarrow>
          if done then (Some (bind_res (mapErr ErrCloseWithErr (close_result env)) (\<lambda>_. Inl (Errorf ''context canceled''))), [CloseConn], t)
          else let (r, as, u) = ws_recv dh cfg env readErrCount es t in
               (r, Respond response # map Wrote updateMessage @ as, u))"
| "ws_recv dh cfg env readErrCount (HeartBeat now # es) s =
     (let (r, as, u) = ws_recv dh cfg env readErrCount es s in
      (r, (if wc_ping_interval cfg > 0 then
             (case wd_heart_beat_messages dh now s of Inl e \<Rightarrow> [] | Inr msgs \<Rightarrow> map Wrote msgs) else []) @ as, u))"

definition ws_Start ::
    "('s, 'k, 'v) ws_data_handler \<Rightarrow> websocket_config \<Rightarrow> ws_outside \<Rightarrow> int \<Rightarrow> 'k list \<Rightarrow> ws_event list \<Rightarrow> 's \<Rightarrow>
     unit res option \<times> ('k, 'v) ws_action list \<times> 's" where
  "ws_Start dh cfg env now ids es s =
     (if ids = [] then (Some (Inr ()), [], s)
      else case ws_start dh env now ids s of
        (Inl (Panic p), as, t) \<Rightarrow> (Some (Inr ()), as, t)
      | (Inl e, as, t) \<Rightarrow>
          (Some (Inl (Wrapf ''failed to start connection'' e)), as @ [Respond (NewGetResponseWithErr ids ErrorWebsocketStartFail)], t)
      | (Inr (), as, t) \<Rightarrow> let (r, bs, u) = ws_recv dh cfg env 0 es t in (r, as @ bs, u))"

text \<open>\<open>NewWebSocketQueryHandler\<close>; the logger and the metrics are given.\<close>

definition NewWebSocketQueryHandler :: "websocket_config \<Rightarrow> 'd option \<Rightarrow> 'c option \<Rightarrow> (websocket_config \<times> 'd \<times> 'c) res" where
  "NewWebSocketQueryHandler cfg dataHandler connHandler =
     bind_res (mapErr (Wrapf ''invalid config'') (WebSocketConfig_ValidateBasic cfg)) (\<lambda>_.
     if \<not> wc_enabled cfg then Inl (Errorf ''websocket is not enabled'')
     else case dataHandler of
       None \<Rightarrow> Inl (Errorf ''websocket data handler is nil'')
     | Some d \<Rightarrow> (case connHandler of None \<Rightarrow> Inl (Errorf ''connection handler is nil'') | Some c \<Rightarrow> Inr (cfg, d, c)))"

end
