(* ===== verification/Ws_Sources.thy ===== *)
theory Ws_Sources
  imports Json_Print Api_Sources Ws_Handler Price_Service
begin

text \<open>
  \<open>providers/websockets\<close>: the data handlers of the websocket sources. Each makes the messages that subscribe to its
  tickers and turns a message it receives into a response, messages to send back, or an error. A handler reads the clock
  once for a message; times are in nanoseconds. The decompression of Huobi's messages, the text of a time, and the
  conversion of a float out of the range of \<open>int\<close> are arguments.
\<close>

section \<open>Strings\<close>

definition HasPrefix :: "string \<Rightarrow> string \<Rightarrow> bool" where
  "HasPrefix s p = (take (length p) s = p)"

fun Contains :: "string \<Rightarrow> string \<Rightarrow> bool" where
  "Contains [] p = (p = [])"
| "Contains (c # cs) p = (HasPrefix (c # cs) p \<or> Contains cs p)"

text \<open>\<open>strings.Split\<close> with a separator that is not empty.\<close>

function split_from :: "string \<Rightarrow> string \<Rightarrow> string \<Rightarrow> string list" where
  "split_from sep buf [] = [rev buf]"
| "split_from sep buf (c # cs) =
     (if sep \<noteq> [] \<and> HasPrefix (c # cs) sep then rev buf # split_from sep [] (drop (length sep) (c # cs))
      else split_from sep (c # buf) cs)"
  by pat_completeness auto
termination
  by (relation "measure (\<lambda>(sep, buf, s). length s)") (auto simp: Suc_le_eq diff_less_Suc simp flip: length_greater_0_conv)

definition Split :: "string \<Rightarrow> string \<Rightarrow> string list" where
  "Split s sep = split_from sep [] s"

definition int_text :: "int \<Rightarrow> string" where
  "int_text n = Int_String (Some n)"

section \<open>What the handlers share\<close>

record ws_handler =
  wh_ws :: websocket_config
  wh_cache :: provider_tickers

type_synonym price_handled = "(provider_ticker, big_float option) handled"

definition checked_ws :: "string \<Rightarrow> websocket_config \<Rightarrow> ws_handler res" where
  "checked_ws name ws =
     (if wc_name ws \<noteq> name then Inl (Errorf ''expected websocket config name'')
      else if \<not> wc_enabled ws then Inl (Errorf ''websocket config is not enabled'')
      else bind_res (mapErr (Wrapf ''invalid websocket config'') (WebSocketConfig_ValidateBasic ws)) (\<lambda>_.
           Inr \<lparr>wh_ws = ws, wh_cache = NewProviderTickers []\<rparr>))"

definition cache_all :: "provider_ticker list \<Rightarrow> 'a ws_handler_scheme \<Rightarrow> 'a ws_handler_scheme" where
  "cache_all tickers h = h\<lparr>wh_cache := fold Add tickers (wh_cache h)\<rparr>"

text \<open>The batches of the subscriptions. The constructors refuse a size below one.\<close>

definition ws_batches :: "websocket_config \<Rightarrow> 'a list \<Rightarrow> 'a list list res" where
  "ws_batches ws xs =
     (let m = wc_max_subscriptions_per_batch ws in
      if m < 1 then Inl (Panic ''makeslice: len out of range'')
      else Inr (map (\<lambda>i. take (nat m) (drop (i * nat m) xs)) [0..<(length xs + nat m - 1) div nat m]))"

text \<open>One message for each batch, none of which may be empty.\<close>

definition batch_messages :: "websocket_config \<Rightarrow> ('a list \<Rightarrow> json) \<Rightarrow> 'a list \<Rightarrow> string list res" where
  "batch_messages ws msg xs =
     (if xs = [] then Inl (Errorf ''no instruments specified'')
      else bind_res (ws_batches ws xs) (\<lambda>bs. Inr (map (\<lambda>b. print_json (msg b)) bs)))"

definition strings_json :: "string list \<Rightarrow> json" where
  "strings_json ss = JArr (map JStr ss)"

definition ws_empty :: price_response where
  "ws_empty = NewGetResponse [] []"

definition handled_err :: "go_error \<Rightarrow> price_handled" where
  "handled_err e = (ws_empty, [], Some e)"

definition handled_nothing :: price_handled where
  "handled_nothing = (ws_empty, [], None)"

definition handled_messages :: "string list res \<Rightarrow> price_handled" where
  "handled_messages r = (case r of Inl e \<Rightarrow> handled_err e | Inr msgs \<Rightarrow> (ws_empty, msgs, None))"

definition ws_price :: "int \<Rightarrow> provider_ticker \<Rightarrow> big_float \<Rightarrow> price_response" where
  "ws_price now ticker x = NewGetResponse [(ticker, NewResult (Some x) now)] []"

definition one_code :: "int \<Rightarrow> provider_ticker \<Rightarrow> price_response" where
  "one_code code ticker = NewGetResponse [] [(ticker, code)]"

definition one_unchanged :: "int \<Rightarrow> provider_ticker \<Rightarrow> price_response" where
  "one_unchanged now ticker =
     NewGetResponse [(ticker, NewResultWithCode (Some (NewFloat (BZero False))) now ResponseCodeUnchanged)] []"

text \<open>A price text is the price of the ticker, or an error beside the code of the ticker.\<close>

definition handled_price :: "int \<Rightarrow> provider_ticker \<Rightarrow> string \<Rightarrow> price_handled" where
  "handled_price now ticker price =
     (case Float64StringToBigFloat price of
        Inl e \<Rightarrow> (one_code ErrorFailedToParsePrice ticker, [], Some e)
      | Inr x \<Rightarrow> (ws_price now ticker x, [], None))"

definition handled_lookup :: "provider_tickers \<Rightarrow> string \<Rightarrow> (provider_ticker \<Rightarrow> price_handled) \<Rightarrow> price_handled" where
  "handled_lookup cache off k =
     (case FromOffChainTicker cache off of None \<Rightarrow> handled_err (Errorf ''unknown ticker'') | Some ticker \<Rightarrow> k ticker)"

text \<open>A message that does not decode is an error.\<close>

definition decoded :: "'a json_into \<Rightarrow> 'a \<Rightarrow> string \<Rightarrow> ('a \<Rightarrow> price_handled) \<Rightarrow> price_handled" where
  "decoded f zero message k =
     (case Unmarshal_into f zero message of None \<Rightarrow> handled_err (Errorf ''failed to unmarshal message'') | Some x \<Rightarrow> k x)"

text \<open>A value of type \<open>any\<close>: every number must be in the range of \<open>float64\<close>; \<open>null\<close> is nil.\<close>

function (sequential) any_ok :: "json \<Rightarrow> bool" where
  "any_ok (JNum w) = (ParseFloat w \<noteq> None)"
| "any_ok (JArr js) = (\<forall>j \<in> set js. any_ok j)"
| "any_ok (JObj ms) = (\<forall>kj \<in> set ms. any_ok (snd kj))"
| "any_ok j = True"
  by pat_completeness auto
termination
  by (relation "measure size") (auto intro!: le_imp_less_Suc elim: size_list_estimation')

definition into_interface :: "json option json_into" where
  "into_interface j old = (if any_ok j then Some (if j = JNull then None else Some j) else None)"

definition into_interfaces :: "json list json_into" where
  "into_interfaces j old = (case j of JArr js \<Rightarrow> if list_all any_ok js then Some js else None | JNull \<Rightarrow> Some [] | _ \<Rightarrow> None)"

section \<open>Binance\<close>

definition binance_ws_Name :: string where "binance_ws_Name = ''binance_ws''"
definition SubscribeMethod :: string where "SubscribeMethod = ''SUBSCRIBE''"
definition AggregateTradeStream :: string where "AggregateTradeStream = ''aggTrade''"
definition TickerStream :: string where "TickerStream = ''ticker''"
definition binance_ws_Separator :: char where "binance_ws_Separator = CHR ''@''"

record binance_ws = ws_handler +
  bw_message_ids :: "(64 word, string list) gomap"
  bw_next_id :: "64 word"

record binance_subscribed =
  bs_result :: "json option"
  bs_id :: int

definition zero_binance_subscribed :: binance_subscribed where
  "zero_binance_subscribed = \<lparr>bs_result = None, bs_id = 0\<rparr>"

definition into_binance_subscribed :: "binance_subscribed json_into" where
  "into_binance_subscribed = into_struct
     [json_field ''result'' into_interface bs_result (\<lambda>x m. m\<lparr>bs_result := x\<rparr>),
      json_field ''id'' into_int64 bs_id (\<lambda>x m. m\<lparr>bs_id := x\<rparr>)]"

definition binance_IsEmpty :: "binance_subscribed \<Rightarrow> bool" where
  "binance_IsEmpty m = (bs_id m = 0 \<and> bs_result m = None)"

definition into_binance_stream :: "string json_into" where
  "into_binance_stream = into_struct [json_field ''stream'' into_string (\<lambda>s. s) (\<lambda>x _. x)]"

definition GetStreamType :: "string \<Rightarrow> string" where
  "GetStreamType stream = (case split_on binance_ws_Separator stream of [_, t] \<Rightarrow> t | _ \<Rightarrow> [])"

text \<open>A symbol and a price, as several sources have them.\<close>

record symbol_price =
  sp_symbol :: string
  sp_price :: string

definition zero_symbol_price :: symbol_price where
  "zero_symbol_price = \<lparr>sp_symbol = [], sp_price = []\<rparr>"

definition into_symbol_price :: "string \<Rightarrow> string \<Rightarrow> symbol_price json_into" where
  "into_symbol_price symbol price = into_struct
     [json_field symbol into_string sp_symbol (\<lambda>x d. d\<lparr>sp_symbol := x\<rparr>),
      json_field price into_string sp_price (\<lambda>x d. d\<lparr>sp_price := x\<rparr>)]"

definition into_binance_trade :: "symbol_price json_into" where
  "into_binance_trade = into_struct [json_field ''data'' (into_symbol_price ''s'' ''p'') (\<lambda>d. d) (\<lambda>x _. x)]"

record binance_tick = symbol_price +
  bk_close_time :: int

definition zero_binance_tick :: binance_tick where
  "zero_binance_tick = \<lparr>sp_symbol = [], sp_price = [], bk_close_time = 0\<rparr>"

definition into_binance_tick :: "binance_tick json_into" where
  "into_binance_tick = into_struct [json_field ''data'' (into_struct
     [json_field ''s'' into_string sp_symbol (\<lambda>x d. d\<lparr>sp_symbol := x\<rparr>),
      json_field ''c'' into_string sp_price (\<lambda>x d. d\<lparr>sp_price := x\<rparr>),
      json_field ''C'' into_int64 bk_close_time (\<lambda>x d. d\<lparr>bk_close_time := x\<rparr>)]) (\<lambda>d. d) (\<lambda>x _. x)]"

definition binance_GenerateID :: "binance_ws \<Rightarrow> 64 word \<times> binance_ws" where
  "binance_GenerateID h = (bw_next_id h + 1, h\<lparr>bw_next_id := bw_next_id h + 1\<rparr>)"

definition SetIDForInstruments :: "64 word \<Rightarrow> string list \<Rightarrow> binance_ws \<Rightarrow> binance_ws" where
  "SetIDForInstruments i instruments h = h\<lparr>bw_message_ids := gm_set i instruments (bw_message_ids h)\<rparr>"

definition binance_streams :: "string list \<Rightarrow> string list" where
  "binance_streams batch = concat (map (\<lambda>instrument.
     [ToLower instrument @ binance_ws_Separator # AggregateTradeStream,
      ToLower instrument @ binance_ws_Separator # TickerStream]) batch)"

definition binance_subscribe_json :: "64 word \<Rightarrow> string list \<Rightarrow> json" where
  "binance_subscribe_json i batch = JObj
     [(''method'', JStr SubscribeMethod), (''params'', strings_json (binance_streams batch)), (''id'', JNum (int_text (sint i)))]"

fun binance_subscribe :: "string list list \<Rightarrow> binance_ws \<Rightarrow> string list \<times> binance_ws" where
  "binance_subscribe [] h = ([], h)"
| "binance_subscribe (batch # bs) h =
     (let (i, h1) = binance_GenerateID h;
          (msgs, h2) = binance_subscribe bs (SetIDForInstruments i batch h1) in
      (print_json (binance_subscribe_json i batch) # msgs, h2))"

definition binance_NewSubscribeRequestMessage :: "string list \<Rightarrow> binance_ws \<Rightarrow> string list res \<times> binance_ws" where
  "binance_NewSubscribeRequestMessage instruments h =
     (if instruments = [] then (Inl (Errorf ''no instruments to subscribe to''), h)
      else case ws_batches (wh_ws h) instruments of
        Inl e \<Rightarrow> (Inl e, h)
      | Inr bs \<Rightarrow> let (msgs, h') = binance_subscribe bs h in (Inr msgs, h'))"

definition binance_parse :: "int \<Rightarrow> string \<Rightarrow> string \<Rightarrow> binance_ws \<Rightarrow> price_handled" where
  "binance_parse now off price h = handled_lookup (wh_cache h) off (\<lambda>ticker. handled_price now ticker price)"

definition binance_stream :: "int \<Rightarrow> string \<Rightarrow> binance_ws \<Rightarrow> price_handled" where
  "binance_stream now message h =
     decoded into_binance_stream [] message (\<lambda>stream.
       if GetStreamType stream = TickerStream
       then decoded into_binance_tick zero_binance_tick message (\<lambda>d. binance_parse now (sp_symbol d) (sp_price d) h)
       else if GetStreamType stream = AggregateTradeStream
       then decoded into_binance_trade zero_symbol_price message (\<lambda>d. binance_parse now (sp_symbol d) (sp_price d) h)
       else handled_err (Errorf ''unknown stream type''))"

definition binance_HandleMessage :: "int \<Rightarrow> string \<Rightarrow> binance_ws \<Rightarrow> price_handled \<times> binance_ws" where
  "binance_HandleMessage now message h =
     (case Unmarshal_into into_binance_subscribed zero_binance_subscribed message of
        Some msg \<Rightarrow>
          if binance_IsEmpty msg then (binance_stream now message h, h)
          else (case gm_get (bw_message_ids h) (word_of_int (bs_id msg)) of
            None \<Rightarrow> (handled_err (Errorf ''failed to find instruments for message ID''), h)
          | Some instruments \<Rightarrow>
              if bs_result msg \<noteq> None
              then (let (r, h') = binance_NewSubscribeRequestMessage instruments h in (handled_messages r, h'))
              else (handled_nothing, h))
      | None \<Rightarrow> (binance_stream now message h, h))"

definition binance_CreateMessages :: "int \<Rightarrow> provider_ticker list \<Rightarrow> binance_ws \<Rightarrow> string list res \<times> binance_ws" where
  "binance_CreateMessages now tickers h =
     binance_NewSubscribeRequestMessage (map pt_off_chain_ticker tickers) (cache_all tickers h)"

text \<open>The first id is random.\<close>

definition binance_NewWebSocketDataHandler :: "64 word \<Rightarrow> websocket_config \<Rightarrow> binance_ws res" where
  "binance_NewWebSocketDataHandler random ws =
     bind_res (checked_ws binance_ws_Name ws) (\<lambda>h.
     Inr \<lparr>wh_ws = wh_ws h, wh_cache = wh_cache h, bw_message_ids = [], bw_next_id = random + 1\<rparr>)"

definition binance_Copy :: "64 word \<Rightarrow> binance_ws \<Rightarrow> binance_ws" where
  "binance_Copy random h = h\<lparr>wh_cache := NewProviderTickers [], bw_message_ids := [], bw_next_id := random + 1\<rparr>"

definition no_heartbeats :: "int \<Rightarrow> 's \<Rightarrow> string list res" where
  "no_heartbeats now h = Inr []"

section \<open>Bitfinex\<close>

definition bitfinex_ws_Name :: string where "bitfinex_ws_Name = ''bitfinex_ws''"
definition EventSubscribe :: string where "EventSubscribe = ''subscribe''"
definition EventSubscribed :: string where "EventSubscribed = ''subscribed''"
definition EventError :: string where "EventError = ''error''"
definition ChannelTicker :: string where "ChannelTicker = ''ticker''"
definition IDHeartbeat :: string where "IDHeartbeat = ''hb''"

record bitfinex_ws = ws_handler +
  bf_channel_map :: "(int, provider_ticker) gomap"

definition into_event :: "string json_into" where
  "into_event = into_struct [json_field ''event'' into_string (\<lambda>s. s) (\<lambda>x _. x)]"

record bitfinex_subscribed =
  fs_event :: string
  fs_channel :: string
  fs_channel_id :: int
  fs_pair :: string

definition zero_bitfinex_subscribed :: bitfinex_subscribed where
  "zero_bitfinex_subscribed = \<lparr>fs_event = [], fs_channel = [], fs_channel_id = 0, fs_pair = []\<rparr>"

definition into_bitfinex_subscribed :: "bitfinex_subscribed json_into" where
  "into_bitfinex_subscribed = into_struct
     [json_field ''event'' into_string fs_event (\<lambda>x m. m\<lparr>fs_event := x\<rparr>),
      json_field ''channel'' into_string fs_channel (\<lambda>x m. m\<lparr>fs_channel := x\<rparr>),
      json_field ''chanId'' into_int64 fs_channel_id (\<lambda>x m. m\<lparr>fs_channel_id := x\<rparr>),
      json_field ''pair'' into_string fs_pair (\<lambda>x m. m\<lparr>fs_pair := x\<rparr>)]"

record bitfinex_error =
  fe_event :: string
  fe_msg :: string
  fe_code :: int

definition into_bitfinex_error :: "bitfinex_error json_into" where
  "into_bitfinex_error = into_struct
     [json_field ''event'' into_string fe_event (\<lambda>x m. m\<lparr>fe_event := x\<rparr>),
      json_field ''msg'' into_string fe_msg (\<lambda>x m. m\<lparr>fe_msg := x\<rparr>),
      json_field ''code'' into_int64 fe_code (\<lambda>x m. m\<lparr>fe_code := x\<rparr>)]"

definition bitfinex_Error :: "int \<Rightarrow> go_error" where
  "bitfinex_Error e =
     (if e = 10000 then Errorf ''unknown event'' else if e = 10001 then Errorf ''unknown pair''
      else if e = 10305 then Errorf ''limit of open channels reached'' else if e = 10400 then Errorf ''subscribed failed''
      else if e = 104001 then Errorf ''not subscribed'' else Errorf ''unknown error type'')"

definition bitfinex_subscribe_json :: "string \<Rightarrow> json" where
  "bitfinex_subscribe_json symbol = JObj
     [(''event'', JStr EventSubscribe), (''channel'', JStr ChannelTicker), (''symbol'', JStr symbol)]"

definition bitfinex_updateChannelMap :: "int \<Rightarrow> string \<Rightarrow> bitfinex_ws \<Rightarrow> price_handled \<times> bitfinex_ws" where
  "bitfinex_updateChannelMap channelID off h =
     (case FromOffChainTicker (wh_cache h) off of
        None \<Rightarrow> (handled_err (Errorf ''unknown ticker''), h)
      | Some ticker \<Rightarrow> (handled_nothing, h\<lparr>bf_channel_map := gm_set channelID ticker (bf_channel_map h)\<rparr>))"

text \<open>\<open>int(f)\<close> of a \<open>float64\<close>, by an argument where the language leaves it open.\<close>

definition int_of_float :: "(big_val \<Rightarrow> int) \<Rightarrow> big_val \<Rightarrow> int" where
  "int_of_float out v =
     (case v of
        BZero _ \<Rightarrow> 0
      | BInf _ \<Rightarrow> out v
      | BFin r \<Rightarrow> let n = (if r < 0 then \<lceil>r\<rceil> else \<lfloor>r\<rfloor>) in if - (2 ^ 63) \<le> n \<and> n < 2 ^ 63 then n else out v)"

definition type_assertion :: price_handled where
  "type_assertion = handled_err (Panic ''interface conversion'')"

definition bitfinex_payload :: "int \<Rightarrow> provider_ticker \<Rightarrow> json \<Rightarrow> price_handled" where
  "bitfinex_payload now ticker j =
     (if j = JStr IDHeartbeat then handled_nothing
      else case j of
        JArr dataArr \<Rightarrow>
          if length dataArr \<noteq> 10 then (one_code ErrorInvalidResponse ticker, [], Some (Errorf ''unknown data''))
          else (case dataArr ! 6 of
            JNum w \<Rightarrow> (case ParseFloat w of None \<Rightarrow> type_assertion | Some v \<Rightarrow> (ws_price now ticker (NewFloat v), [], None))
          | _ \<Rightarrow> type_assertion)
      | _ \<Rightarrow> (one_code ErrorInvalidResponse ticker, [], Some (Errorf ''unknown data'')))"

definition bitfinex_handleStream :: "(big_val \<Rightarrow> int) \<Rightarrow> int \<Rightarrow> string \<Rightarrow> bitfinex_ws \<Rightarrow> price_handled" where
  "bitfinex_handleStream out now message h =
     decoded into_interfaces [] message (\<lambda>baseStream.
       case baseStream of
         [c, payload] \<Rightarrow>
           (case c of
              JNum w \<Rightarrow>
                (case ParseFloat w of
                   None \<Rightarrow> type_assertion
                 | Some v \<Rightarrow>
                     case gm_get (bf_channel_map h) (int_of_float out v) of
                       None \<Rightarrow> handled_err (Errorf ''received stream for unknown channel id'')
                     | Some ticker \<Rightarrow> bitfinex_payload now ticker payload)
            | _ \<Rightarrow> type_assertion)
       | _ \<Rightarrow> handled_err (Errorf ''invalid length of stream data received''))"

definition bitfinex_HandleMessage :: "(big_val \<Rightarrow> int) \<Rightarrow> int \<Rightarrow> string \<Rightarrow> bitfinex_ws \<Rightarrow> price_handled \<times> bitfinex_ws" where
  "bitfinex_HandleMessage out now message h =
     (case Unmarshal_into into_event [] message of
        None \<Rightarrow> (bitfinex_handleStream out now message h, h)
      | Some event \<Rightarrow>
          if event = EventSubscribed then
            (case Unmarshal_into into_bitfinex_subscribed zero_bitfinex_subscribed message of
               None \<Rightarrow> (handled_err (Errorf ''failed to unmarshal subscribe response message''), h)
             | Some m \<Rightarrow> bitfinex_updateChannelMap (fs_channel_id m) (fs_pair m) h)
          else if event = EventError then
            (decoded into_bitfinex_error \<lparr>fe_event = [], fe_msg = [], fe_code = 0\<rparr> message
               (\<lambda>m. handled_err (bitfinex_Error (fe_code m))), h)
          else (handled_err (Errorf ''unknown message''), h))"

definition bitfinex_CreateMessages :: "int \<Rightarrow> provider_ticker list \<Rightarrow> bitfinex_ws \<Rightarrow> string list res \<times> bitfinex_ws" where
  "bitfinex_CreateMessages now tickers h =
     (Inr (map (\<lambda>t. print_json (bitfinex_subscribe_json (pt_off_chain_ticker t))) tickers), cache_all tickers h)"

definition bitfinex_NewWebSocketDataHandler :: "websocket_config \<Rightarrow> bitfinex_ws res" where
  "bitfinex_NewWebSocketDataHandler ws =
     bind_res (checked_ws bitfinex_ws_Name ws) (\<lambda>h. Inr \<lparr>wh_ws = wh_ws h, wh_cache = wh_cache h, bf_channel_map = []\<rparr>)"

definition bitfinex_Copy :: "bitfinex_ws \<Rightarrow> bitfinex_ws" where
  "bitfinex_Copy h = h\<lparr>wh_cache := NewProviderTickers [], bf_channel_map := []\<rparr>"

section \<open>Bitstamp\<close>

definition bitstamp_ws_Name :: string where "bitstamp_ws_Name = ''bitstamp_ws''"
definition bitstamp_TickerChannel :: string where "bitstamp_TickerChannel = ''live_trades_''"
definition HeartbeatEvent :: string where "HeartbeatEvent = ''bts:heartbeat''"
definition SubscriptionEvent :: string where "SubscriptionEvent = ''bts:subscribe''"
definition SubscriptionSucceededEvent :: string where "SubscriptionSucceededEvent = ''bts:subscription_succeeded''"
definition ReconnectEvent :: string where "ReconnectEvent = ''bts:request_reconnect''"
definition TradeEvent :: string where "TradeEvent = ''trade''"

record bitstamp_trade =
  bt_event :: string
  bt_channel :: string
  bt_price_str :: string
  bt_data_channel :: string

definition zero_bitstamp_trade :: bitstamp_trade where
  "zero_bitstamp_trade = \<lparr>bt_event = [], bt_channel = [], bt_price_str = [], bt_data_channel = []\<rparr>"

definition into_bitstamp_trade :: "bitstamp_trade json_into" where
  "into_bitstamp_trade = into_struct
     [json_field ''event'' into_string bt_event (\<lambda>x m. m\<lparr>bt_event := x\<rparr>),
      json_field ''channel'' into_string bt_channel (\<lambda>x m. m\<lparr>bt_channel := x\<rparr>),
      json_field ''data'' (into_struct
        [json_field ''price_str'' into_string bt_price_str (\<lambda>x m. m\<lparr>bt_price_str := x\<rparr>),
         json_field ''channel'' into_string bt_data_channel (\<lambda>x m. m\<lparr>bt_data_channel := x\<rparr>)]) (\<lambda>m. m) (\<lambda>x _. x)]"

text \<open>The response to a subscription: its event and its channel.\<close>

definition into_bitstamp_subscription :: "(string \<times> string) json_into" where
  "into_bitstamp_subscription = into_struct
     [json_field ''event'' into_string fst (\<lambda>x (e, c). (x, c)), json_field ''channel'' into_string snd (\<lambda>x (e, c). (e, x))]"

definition bitstamp_subscribe_json :: "string \<Rightarrow> json" where
  "bitstamp_subscribe_json channel = JObj
     [(''event'', JStr SubscriptionEvent), (''data'', JObj [(''channel'', JStr channel)])]"

definition bitstamp_event_message :: "string \<Rightarrow> string list res" where
  "bitstamp_event_message event = Inr [print_json (JObj [(''event'', JStr event)])]"

definition bitstamp_parseTickerMessage :: "int \<Rightarrow> bitstamp_trade \<Rightarrow> ws_handler \<Rightarrow> price_handled" where
  "bitstamp_parseTickerMessage now m h =
     (if \<not> HasPrefix (bt_channel m) bitstamp_TickerChannel then handled_err (Errorf ''invalid ticker message'')
      else case Split (bt_channel m) bitstamp_TickerChannel of
        [_, off] \<Rightarrow> handled_lookup (wh_cache h) off (\<lambda>ticker. handled_price now ticker (bt_price_str m))
      | _ \<Rightarrow> handled_err (Errorf ''invalid ticker message length''))"

definition bitstamp_HandleMessage :: "int \<Rightarrow> string \<Rightarrow> ws_handler \<Rightarrow> price_handled \<times> ws_handler" where
  "bitstamp_HandleMessage now message h =
     (decoded into_event [] message (\<lambda>event.
        if event = HeartbeatEvent then handled_nothing
        else if event = ReconnectEvent then handled_messages (bitstamp_event_message ReconnectEvent)
        else if event = SubscriptionSucceededEvent
        then decoded into_bitstamp_subscription ([], []) message (\<lambda>_. handled_nothing)
        else if event = TradeEvent
        then decoded into_bitstamp_trade zero_bitstamp_trade message (\<lambda>m. bitstamp_parseTickerMessage now m h)
        else handled_err (Errorf ''unknown event type'')), h)"

definition bitstamp_CreateMessages :: "int \<Rightarrow> provider_ticker list \<Rightarrow> ws_handler \<Rightarrow> string list res \<times> ws_handler" where
  "bitstamp_CreateMessages now tickers h =
     (let channels = map (\<lambda>t. bitstamp_TickerChannel @ pt_off_chain_ticker t) tickers in
      (if channels = [] then Inl (Errorf ''no instruments provided'')
       else Inr (map (\<lambda>c. print_json (bitstamp_subscribe_json c)) channels), cache_all tickers h))"

definition bitstamp_HeartBeatMessages :: "int \<Rightarrow> ws_handler \<Rightarrow> string list res" where
  "bitstamp_HeartBeatMessages now h = bitstamp_event_message HeartbeatEvent"

definition plain_Copy :: "ws_handler \<Rightarrow> ws_handler" where
  "plain_Copy h = h\<lparr>wh_cache := NewProviderTickers []\<rparr>"

section \<open>Bybit\<close>

definition bybit_ws_Name :: string where "bybit_ws_Name = ''bybit_ws''"
definition OperationSubscribe :: string where "OperationSubscribe = ''subscribe''"
definition OperationPing :: string where "OperationPing = ''ping''"
definition bybit_TickerChannel :: string where "bybit_TickerChannel = ''tickers''"

record bybit_response =
  br_success :: bool
  br_ret_msg :: string
  br_conn_id :: string
  br_op :: string

definition zero_bybit_response :: bybit_response where
  "zero_bybit_response = \<lparr>br_success = False, br_ret_msg = [], br_conn_id = [], br_op = []\<rparr>"

definition bybit_response_fields :: "(string \<times> 'a bybit_response_scheme json_into) list" where
  "bybit_response_fields =
     [json_field ''success'' into_bool br_success (\<lambda>x m. m\<lparr>br_success := x\<rparr>),
      json_field ''ret_msg'' into_string br_ret_msg (\<lambda>x m. m\<lparr>br_ret_msg := x\<rparr>),
      json_field ''conn_id'' into_string br_conn_id (\<lambda>x m. m\<lparr>br_conn_id := x\<rparr>),
      json_field ''op'' into_string br_op (\<lambda>x m. m\<lparr>br_op := x\<rparr>)]"

definition into_bybit_response :: "bybit_response json_into" where
  "into_bybit_response = into_struct bybit_response_fields"

record bybit_subscription = bybit_response +
  br_req_id :: string

definition zero_bybit_subscription :: bybit_subscription where
  "zero_bybit_subscription = \<lparr>br_success = False, br_ret_msg = [], br_conn_id = [], br_op = [], br_req_id = []\<rparr>"

definition into_bybit_subscription :: "bybit_subscription json_into" where
  "into_bybit_subscription = into_struct
     (bybit_response_fields @ [json_field ''req_id'' into_string br_req_id (\<lambda>x m. m\<lparr>br_req_id := x\<rparr>)])"

record bybit_update = symbol_price +
  bu_topic :: string

definition zero_bybit_update :: bybit_update where
  "zero_bybit_update = \<lparr>sp_symbol = [], sp_price = [], bu_topic = []\<rparr>"

definition into_bybit_update :: "bybit_update json_into" where
  "into_bybit_update = into_struct
     [json_field ''topic'' into_string bu_topic (\<lambda>x m. m\<lparr>bu_topic := x\<rparr>),
      json_field ''data'' (into_struct
        [json_field ''symbol'' into_string sp_symbol (\<lambda>x m. m\<lparr>sp_symbol := x\<rparr>),
         json_field ''lastPrice'' into_string sp_price (\<lambda>x m. m\<lparr>sp_price := x\<rparr>)]) (\<lambda>m. m) (\<lambda>x _. x)]"

definition bybit_request_json :: "string \<Rightarrow> string \<Rightarrow> (string \<times> json) list \<Rightarrow> json" where
  "bybit_request_json req_id op rest = JObj ([(''req_id'', JStr req_id), (''op'', JStr op)] @ rest)"

definition bybit_parseSubscriptionResponse :: "bybit_subscription \<Rightarrow> price_handled" where
  "bybit_parseSubscriptionResponse resp =
     (if br_op resp = OperationSubscribe \<and> br_success resp then handled_nothing
      else if br_op resp = OperationSubscribe then handled_err (Errorf ''received error message'')
      else handled_err (Errorf ''unable to parse message''))"

text \<open>A price that does not parse is no error here: its code is returned.\<close>

definition code_without_error :: "price_handled \<Rightarrow> price_handled" where
  "code_without_error = (\<lambda>(r, msgs, e). (r, msgs, case e of Some (Panic p) \<Rightarrow> Some (Panic p) | _ \<Rightarrow> None))"

definition bybit_parseTickerUpdate :: "int \<Rightarrow> bybit_update \<Rightarrow> ws_handler \<Rightarrow> price_handled" where
  "bybit_parseTickerUpdate now resp h =
     (if \<not> Contains (bu_topic resp) bybit_TickerChannel then handled_err (Errorf ''invalid topic'')
      else handled_lookup (wh_cache h) (sp_symbol resp) (\<lambda>ticker. code_without_error (handled_price now ticker (sp_price resp))))"

definition bybit_HandleMessage :: "int \<Rightarrow> string \<Rightarrow> ws_handler \<Rightarrow> price_handled \<times> ws_handler" where
  "bybit_HandleMessage now message h =
     (decoded into_bybit_response zero_bybit_response message (\<lambda>base.
        if br_op base = OperationSubscribe
        then decoded into_bybit_subscription zero_bybit_subscription message bybit_parseSubscriptionResponse
        else if br_op base = OperationPing then handled_nothing
        else decoded into_bybit_update zero_bybit_update message (\<lambda>u. bybit_parseTickerUpdate now u h)), h)"

definition bybit_CreateMessages :: "int \<Rightarrow> provider_ticker list \<Rightarrow> ws_handler \<Rightarrow> string list res \<times> ws_handler" where
  "bybit_CreateMessages now tickers h =
     (batch_messages (wh_ws h) (\<lambda>b. bybit_request_json [] OperationSubscribe [(''args'', strings_json b)])
        (map (\<lambda>t. bybit_TickerChannel @ CHR ''.'' # pt_off_chain_ticker t) tickers), cache_all tickers h)"

definition bybit_HeartBeatMessages :: "(int \<Rightarrow> string) \<Rightarrow> int \<Rightarrow> ws_handler \<Rightarrow> string list res" where
  "bybit_HeartBeatMessages time_text now h = Inr [print_json (bybit_request_json (time_text now) OperationPing [])]"

end
