(* ===== verification/Ws_Exchanges.thy ===== *)
theory Ws_Exchanges
  imports Ws_Sources
begin

text \<open>
  \<open>providers/websockets\<close>, continued: Coinbase, Crypto.com, Gate, Huobi, Kraken, Kucoin, MEXC and OKX.
\<close>

section \<open>Coinbase\<close>

definition coinbase_ws_Name :: string where "coinbase_ws_Name = ''coinbase_ws''"
definition coinbase_SubscribeMessage :: string where "coinbase_SubscribeMessage = ''subscribe''"
definition coinbase_SubscriptionsMessage :: string where "coinbase_SubscriptionsMessage = ''subscriptions''"
definition coinbase_TickerMessage :: string where "coinbase_TickerMessage = ''ticker''"
definition coinbase_HeartbeatMessage :: string where "coinbase_HeartbeatMessage = ''heartbeat''"
definition ErrorNoExistingPrice :: int where "ErrorNoExistingPrice = 16"

record coinbase_ws = ws_handler +
  cw_sequence :: "(provider_ticker, int) gomap"
  cw_trade_ids :: "(provider_ticker, int) gomap"

definition into_type :: "string json_into" where
  "into_type = into_struct [json_field ''type'' into_string (\<lambda>s. s) (\<lambda>x _. x)]"

text \<open>The response to a subscription: its type, and for each channel its name and products.\<close>

definition into_coinbase_channel :: "(string \<times> string list) json_into" where
  "into_coinbase_channel = into_struct
     [json_field ''name'' into_string fst (\<lambda>x (n, ps). (x, ps)),
      json_field ''product_ids'' (into_slice into_string []) snd (\<lambda>x (n, ps). (n, x))]"

definition into_coinbase_subscriptions :: "(string \<times> (string \<times> string list) list) json_into" where
  "into_coinbase_subscriptions = into_struct
     [json_field ''type'' into_string fst (\<lambda>x (t, cs). (x, cs)),
      json_field ''channels'' (into_slice into_coinbase_channel ([], [])) snd (\<lambda>x (t, cs). (t, x))]"

record coinbase_tick =
  ct_type :: string
  ct_sequence :: int
  ct_ticker :: string
  ct_price :: string
  ct_trade_id :: int

definition zero_coinbase_tick :: coinbase_tick where
  "zero_coinbase_tick = \<lparr>ct_type = [], ct_sequence = 0, ct_ticker = [], ct_price = [], ct_trade_id = 0\<rparr>"

definition into_coinbase_tick :: "coinbase_tick json_into" where
  "into_coinbase_tick = into_struct
     [json_field ''type'' into_string ct_type (\<lambda>x m. m\<lparr>ct_type := x\<rparr>),
      json_field ''sequence'' into_int64 ct_sequence (\<lambda>x m. m\<lparr>ct_sequence := x\<rparr>),
      json_field ''product_id'' into_string ct_ticker (\<lambda>x m. m\<lparr>ct_ticker := x\<rparr>),
      json_field ''price'' into_string ct_price (\<lambda>x m. m\<lparr>ct_price := x\<rparr>),
      json_field ''trade_id'' into_int64 ct_trade_id (\<lambda>x m. m\<lparr>ct_trade_id := x\<rparr>)]"

record coinbase_beat =
  cb_type :: string
  cb_sequence :: int
  cb_last_trade_id :: int
  cb_ticker :: string

definition zero_coinbase_beat :: coinbase_beat where
  "zero_coinbase_beat = \<lparr>cb_type = [], cb_sequence = 0, cb_last_trade_id = 0, cb_ticker = []\<rparr>"

definition into_coinbase_beat :: "coinbase_beat json_into" where
  "into_coinbase_beat = into_struct
     [json_field ''type'' into_string cb_type (\<lambda>x m. m\<lparr>cb_type := x\<rparr>),
      json_field ''sequence'' into_int64 cb_sequence (\<lambda>x m. m\<lparr>cb_sequence := x\<rparr>),
      json_field ''last_trade_id'' into_int64 cb_last_trade_id (\<lambda>x m. m\<lparr>cb_last_trade_id := x\<rparr>),
      json_field ''product_id'' into_string cb_ticker (\<lambda>x m. m\<lparr>cb_ticker := x\<rparr>)]"

definition coinbase_subscribe_json :: "string list \<Rightarrow> json" where
  "coinbase_subscribe_json batch = JObj
     [(''type'', JStr coinbase_SubscribeMessage), (''product_ids'', strings_json batch),
      (''channels'', strings_json [coinbase_TickerMessage, coinbase_HeartbeatMessage])]"

definition coinbase_checkSequenceNumber :: "provider_ticker \<Rightarrow> int \<Rightarrow> coinbase_ws \<Rightarrow> unit res \<times> coinbase_ws" where
  "coinbase_checkSequenceNumber ticker sequence h =
     (let newer = (Inr (), h\<lparr>cw_sequence := gm_set ticker sequence (cw_sequence h)\<rparr>) in
      case gm_get (cw_sequence h) ticker of
        None \<Rightarrow> newer
      | Some observed \<Rightarrow> if observed \<le> sequence then newer else (Inl (Errorf ''received out of order ticker response message''), h))"

definition coinbase_parseTicker :: "int \<Rightarrow> coinbase_tick \<Rightarrow> coinbase_ws \<Rightarrow> price_handled \<times> coinbase_ws" where
  "coinbase_parseTicker now m h =
     (case FromOffChainTicker (wh_cache h) (ct_ticker m) of
        None \<Rightarrow> (handled_err (Errorf ''got response for an unsupported market''), h)
      | Some ticker \<Rightarrow>
          (case coinbase_checkSequenceNumber ticker (ct_sequence m) h of
             (Inl e, h') \<Rightarrow> ((one_code ErrorInvalidResponse ticker, [], Some e), h')
           | (Inr (), h') \<Rightarrow>
               (handled_price now ticker (ct_price m),
                case Float64StringToBigFloat (ct_price m) of
                  Inl _ \<Rightarrow> h'
                | Inr _ \<Rightarrow> h'\<lparr>cw_trade_ids := gm_set ticker (ct_trade_id m) (cw_trade_ids h')\<rparr>)))"

definition coinbase_parseHeartbeat :: "int \<Rightarrow> coinbase_beat \<Rightarrow> coinbase_ws \<Rightarrow> price_handled \<times> coinbase_ws" where
  "coinbase_parseHeartbeat now m h =
     (case FromOffChainTicker (wh_cache h) (cb_ticker m) of
        None \<Rightarrow> (handled_err (Errorf ''got response for an unsupported trade ID''), h)
      | Some ticker \<Rightarrow>
          (case coinbase_checkSequenceNumber ticker (cb_sequence m) h of
             (Inl e, h') \<Rightarrow> ((one_code ErrorInvalidResponse ticker, [], Some e), h')
           | (Inr (), h') \<Rightarrow>
               ((if gm_get (cw_trade_ids h') ticker = Some (cb_last_trade_id m) then one_unchanged now ticker
                 else one_code ErrorNoExistingPrice ticker, [], None), h')))"

definition coinbase_HandleMessage :: "int \<Rightarrow> string \<Rightarrow> coinbase_ws \<Rightarrow> price_handled \<times> coinbase_ws" where
  "coinbase_HandleMessage now message h =
     (case Unmarshal_into into_type [] message of
        None \<Rightarrow> (handled_err (Errorf ''failed to unmarshal message''), h)
      | Some t \<Rightarrow>
          if t = coinbase_SubscriptionsMessage
          then (decoded into_coinbase_subscriptions ([], []) message (\<lambda>_. handled_nothing), h)
          else if t = coinbase_TickerMessage then
            (case Unmarshal_into into_coinbase_tick zero_coinbase_tick message of
               None \<Rightarrow> (handled_err (Errorf ''failed to unmarshal ticker message''), h)
             | Some m \<Rightarrow> coinbase_parseTicker now m h)
          else if t = coinbase_HeartbeatMessage then
            (case Unmarshal_into into_coinbase_beat zero_coinbase_beat message of
               None \<Rightarrow> (handled_err (Errorf ''failed to unmarshal heartbeat message''), h)
             | Some m \<Rightarrow> coinbase_parseHeartbeat now m h)
          else (handled_err (Errorf ''invalid message type''), h))"

definition coinbase_CreateMessages :: "int \<Rightarrow> provider_ticker list \<Rightarrow> coinbase_ws \<Rightarrow> string list res \<times> coinbase_ws" where
  "coinbase_CreateMessages now tickers h =
     (batch_messages (wh_ws h) coinbase_subscribe_json (map pt_off_chain_ticker tickers), cache_all tickers h)"

definition coinbase_NewWebSocketDataHandler :: "websocket_config \<Rightarrow> coinbase_ws res" where
  "coinbase_NewWebSocketDataHandler ws =
     bind_res (checked_ws coinbase_ws_Name ws) (\<lambda>h.
     Inr \<lparr>wh_ws = wh_ws h, wh_cache = wh_cache h, cw_sequence = [], cw_trade_ids = []\<rparr>)"

definition coinbase_Copy :: "coinbase_ws \<Rightarrow> coinbase_ws" where
  "coinbase_Copy h = h\<lparr>wh_cache := NewProviderTickers [], cw_sequence := [], cw_trade_ids := []\<rparr>"

section \<open>Crypto.com\<close>

definition crypto_ws_Name :: string where "crypto_ws_Name = ''crypto_dot_com_ws''"
definition InstrumentMethod :: string where "InstrumentMethod = ''subscribe''"
definition HeartBeatRequestMethod :: string where "HeartBeatRequestMethod = ''public/heartbeat''"
definition HeartBeatResponseMethod :: string where "HeartBeatResponseMethod = ''public/respond-heartbeat''"
definition crypto_TickerChannel :: string where "crypto_TickerChannel = ''ticker.%s''"

record crypto_message =
  cr_id :: int
  cr_method :: string
  cr_instruments :: "symbol_price list"
  cr_code :: int

definition zero_crypto_message :: crypto_message where
  "zero_crypto_message = \<lparr>cr_id = 0, cr_method = [], cr_instruments = [], cr_code = 0\<rparr>"

definition into_crypto_message :: "crypto_message json_into" where
  "into_crypto_message = into_struct
     [json_field ''id'' into_int64 cr_id (\<lambda>x m. m\<lparr>cr_id := x\<rparr>),
      json_field ''method'' into_string cr_method (\<lambda>x m. m\<lparr>cr_method := x\<rparr>),
      json_field ''result'' (into_struct
        [json_field ''data'' (into_slice (into_symbol_price ''i'' ''a'') zero_symbol_price) cr_instruments
           (\<lambda>x m. m\<lparr>cr_instruments := x\<rparr>)]) (\<lambda>m. m) (\<lambda>x _. x),
      json_field ''code'' into_int64 cr_code (\<lambda>x m. m\<lparr>cr_code := x\<rparr>)]"

definition crypto_heartbeat_json :: "int \<Rightarrow> json" where
  "crypto_heartbeat_json i = JObj [(''id'', JNum (int_text i)), (''method'', JStr HeartBeatResponseMethod)]"

definition crypto_subscribe_json :: "string list \<Rightarrow> json" where
  "crypto_subscribe_json batch = JObj [(''method'', JStr InstrumentMethod), (''params'', JObj [(''channels'', strings_json batch)])]"

text \<open>The loop of Crypto.com and OKX over the entries of a message: unknown names are skipped.\<close>

definition ws_entry :: "int \<Rightarrow> provider_tickers \<Rightarrow> symbol_price \<Rightarrow> price_answer \<Rightarrow> price_answer res" where
  "ws_entry now cache d a =
     (case FromOffChainTicker cache (sp_symbol d) of None \<Rightarrow> Inr a | Some ticker \<Rightarrow> put_text now ticker (sp_price d) a)"

definition handled_entries :: "int \<Rightarrow> provider_tickers \<Rightarrow> symbol_price list \<Rightarrow> price_handled" where
  "handled_entries now cache ds =
     (case fold_res (ws_entry now cache) ds ([], []) of
        Inl e \<Rightarrow> handled_err e
      | Inr a \<Rightarrow> (to_response a, [], None))"

definition crypto_HandleMessage :: "int \<Rightarrow> string \<Rightarrow> ws_handler \<Rightarrow> price_handled \<times> ws_handler" where
  "crypto_HandleMessage now message h =
     (decoded into_crypto_message zero_crypto_message message (\<lambda>m.
        if cr_code m \<noteq> 0 then handled_err (Errorf ''got unexpected error code'')
        else if cr_method m = HeartBeatRequestMethod
        then (ws_empty, [print_json (crypto_heartbeat_json (cr_id m))], None)
        else if cr_method m = InstrumentMethod
        then (if cr_instruments m = [] then handled_err (Errorf ''no instrument data was returned'')
              else handled_entries now (wh_cache h) (cr_instruments m))
        else handled_err (Errorf ''unknown method'')), h)"

definition crypto_CreateMessages :: "int \<Rightarrow> provider_ticker list \<Rightarrow> ws_handler \<Rightarrow> string list res \<times> ws_handler" where
  "crypto_CreateMessages now tickers h =
     (batch_messages (wh_ws h) crypto_subscribe_json
        (map (\<lambda>t. Sprintf crypto_TickerChannel [pt_off_chain_ticker t]) tickers), cache_all tickers h)"

section \<open>Gate\<close>

definition gate_ws_Name :: string where "gate_ws_Name = ''gate_ws''"
definition ChannelTickers :: string where "ChannelTickers = ''spot.tickers''"
definition EventUpdate :: string where "EventUpdate = ''update''"
definition StatusSuccess :: string where "StatusSuccess = ''success''"

definition gate_Error :: "int \<Rightarrow> go_error" where
  "gate_Error e =
     (if e = 1 then Errorf ''invalid body in request'' else if e = 2 then Errorf ''invalid argument in request''
      else if e = 3 then Errorf ''server side error'' else Errorf ''unknown error'')"

record gate_base =
  gb_time :: int
  gb_channel :: string
  gb_event :: string

definition gate_base_fields :: "(string \<times> 'a gate_base_scheme json_into) list" where
  "gate_base_fields =
     [json_field ''time'' into_int64 gb_time (\<lambda>x m. m\<lparr>gb_time := x\<rparr>),
      json_field ''channel'' into_string gb_channel (\<lambda>x m. m\<lparr>gb_channel := x\<rparr>),
      json_field ''event'' into_string gb_event (\<lambda>x m. m\<lparr>gb_event := x\<rparr>)]"

definition into_gate_base :: "gate_base json_into" where
  "into_gate_base = into_struct gate_base_fields"

record gate_subscription = gate_base +
  gb_id :: int
  gb_code :: int
  gb_message :: string
  gb_status :: string

definition zero_gate_subscription :: gate_subscription where
  "zero_gate_subscription = \<lparr>gb_time = 0, gb_channel = [], gb_event = [], gb_id = 0, gb_code = 0, gb_message = [], gb_status = []\<rparr>"

definition into_gate_subscription :: "gate_subscription json_into" where
  "into_gate_subscription = into_struct (gate_base_fields @
     [json_field ''id'' into_int64 gb_id (\<lambda>x m. m\<lparr>gb_id := x\<rparr>),
      json_field ''error'' (into_struct
        [json_field ''code'' into_int64 gb_code (\<lambda>x m. m\<lparr>gb_code := x\<rparr>),
         json_field ''message'' into_string gb_message (\<lambda>x m. m\<lparr>gb_message := x\<rparr>)]) (\<lambda>m. m) (\<lambda>x _. x),
      json_field ''result'' (into_struct
        [json_field ''status'' into_string gb_status (\<lambda>x m. m\<lparr>gb_status := x\<rparr>)]) (\<lambda>m. m) (\<lambda>x _. x)])"

record gate_stream = gate_base +
  gs_pair :: string
  gs_last :: string

definition zero_gate_stream :: gate_stream where
  "zero_gate_stream = \<lparr>gb_time = 0, gb_channel = [], gb_event = [], gs_pair = [], gs_last = []\<rparr>"

definition into_gate_stream :: "gate_stream json_into" where
  "into_gate_stream = into_struct (gate_base_fields @
     [json_field ''result'' (into_struct
        [json_field ''currency_pair'' into_string gs_pair (\<lambda>x m. m\<lparr>gs_pair := x\<rparr>),
         json_field ''last'' into_string gs_last (\<lambda>x m. m\<lparr>gs_last := x\<rparr>)]) (\<lambda>m. m) (\<lambda>x _. x)])"

text \<open>\<open>Second()\<close> of a time in UTC.\<close>

definition second_of :: "int \<Rightarrow> int" where
  "second_of now = now div 10 ^ 9 mod 60"

definition gate_subscribe_json :: "int \<Rightarrow> string list \<Rightarrow> json" where
  "gate_subscribe_json now batch = JObj
     [(''time'', JNum (int_text (second_of now))), (''channel'', JStr ChannelTickers), (''event'', JStr EventSubscribe),
      (''id'', JNum (int_text (second_of now))), (''payload'', strings_json batch)]"

definition gate_parseSubscribeResponse :: "gate_subscription \<Rightarrow> price_handled" where
  "gate_parseSubscribeResponse m =
     (if gb_message m \<noteq> [] then handled_err (gate_Error (gb_code m))
      else if gb_status m \<noteq> StatusSuccess then handled_err (Errorf ''subscription was not successful'')
      else handled_nothing)"

definition gate_parseTickerStream :: "int \<Rightarrow> gate_stream \<Rightarrow> ws_handler \<Rightarrow> price_handled" where
  "gate_parseTickerStream now m h =
     (if gb_channel m \<noteq> ChannelTickers then handled_err (Errorf ''invalid channel'')
      else handled_lookup (wh_cache h) (gs_pair m) (\<lambda>ticker. handled_price now ticker (gs_last m)))"

definition gate_HandleMessage :: "int \<Rightarrow> string \<Rightarrow> ws_handler \<Rightarrow> price_handled \<times> ws_handler" where
  "gate_HandleMessage now message h =
     (decoded into_gate_base \<lparr>gb_time = 0, gb_channel = [], gb_event = []\<rparr> message (\<lambda>base.
        if gb_event base = EventSubscribe
        then decoded into_gate_subscription zero_gate_subscription message gate_parseSubscribeResponse
        else if gb_event base = EventUpdate
        then decoded into_gate_stream zero_gate_stream message (\<lambda>m. gate_parseTickerStream now m h)
        else handled_err (Errorf ''unknown message type'')), h)"

definition gate_CreateMessages :: "int \<Rightarrow> provider_ticker list \<Rightarrow> ws_handler \<Rightarrow> string list res \<times> ws_handler" where
  "gate_CreateMessages now tickers h =
     (batch_messages (wh_ws h) (gate_subscribe_json now) (map pt_off_chain_ticker tickers), cache_all tickers h)"

section \<open>Huobi\<close>

definition huobi_ws_Name :: string where "huobi_ws_Name = ''huobi_ws''"
definition marketTickerFormatString :: string where "marketTickerFormatString = ''market.%s.ticker''"
definition StatusOk :: string where "StatusOk = ''ok''"

definition subFromSymbol :: "string \<Rightarrow> string" where
  "subFromSymbol symbol = Sprintf marketTickerFormatString [symbol]"

definition symbolFromSub :: "string \<Rightarrow> string" where
  "symbolFromSub sub = (case split_on CHR ''.'' sub of [_, symbol, _] \<Rightarrow> symbol | _ \<Rightarrow> [])"

definition into_ping :: "int json_into" where
  "into_ping = into_struct [json_field ''ping'' into_int64 (\<lambda>n. n) (\<lambda>x _. x)]"

record huobi_subscription =
  hs_id :: string
  hs_status :: string
  hs_subbed :: string

definition zero_huobi_subscription :: huobi_subscription where
  "zero_huobi_subscription = \<lparr>hs_id = [], hs_status = [], hs_subbed = []\<rparr>"

definition into_huobi_subscription :: "huobi_subscription json_into" where
  "into_huobi_subscription = into_struct
     [json_field ''id'' into_string hs_id (\<lambda>x m. m\<lparr>hs_id := x\<rparr>),
      json_field ''status'' into_string hs_status (\<lambda>x m. m\<lparr>hs_status := x\<rparr>),
      json_field ''subbed'' into_string hs_subbed (\<lambda>x m. m\<lparr>hs_subbed := x\<rparr>)]"

record huobi_stream =
  ht_channel :: string
  ht_last_price :: big_val

definition zero_huobi_stream :: huobi_stream where
  "zero_huobi_stream = \<lparr>ht_channel = [], ht_last_price = BZero False\<rparr>"

definition into_huobi_stream :: "huobi_stream json_into" where
  "into_huobi_stream = into_struct
     [json_field ''ch'' into_string ht_channel (\<lambda>x m. m\<lparr>ht_channel := x\<rparr>),
      json_field ''tick'' (into_struct
        [json_field ''lastPrice'' into_float64 ht_last_price (\<lambda>x m. m\<lparr>ht_last_price := x\<rparr>)]) (\<lambda>m. m) (\<lambda>x _. x)]"

definition huobi_pong_json :: "int \<Rightarrow> json" where
  "huobi_pong_json n = JObj [(''pong'', JNum (int_text n))]"

definition huobi_subscribe_json :: "string \<Rightarrow> json" where
  "huobi_subscribe_json symbol = JObj [(''sub'', JStr (subFromSymbol symbol)), (''id'', JStr symbol)]"

definition huobi_parseSubscriptionResponse :: "huobi_subscription \<Rightarrow> price_handled" where
  "huobi_parseSubscriptionResponse m =
     (if hs_status m \<noteq> StatusOk
      then (ws_empty, [print_json (huobi_subscribe_json (symbolFromSub (hs_subbed m)))], None)
      else if symbolFromSub (hs_subbed m) = [] then handled_err (Errorf ''invalid ticker returned'')
      else handled_nothing)"

definition huobi_parseTickerStream :: "int \<Rightarrow> huobi_stream \<Rightarrow> ws_handler \<Rightarrow> price_handled" where
  "huobi_parseTickerStream now m h =
     (let off = symbolFromSub (ht_channel m) in
      if off = [] then handled_err (Errorf ''incorrectly formatted stream'')
      else handled_lookup (wh_cache h) off (\<lambda>ticker. (ws_price now ticker (NewFloat (ht_last_price m)), [], None)))"

definition huobi_HandleMessage :: "(string \<Rightarrow> string res) \<Rightarrow> int \<Rightarrow> string \<Rightarrow> ws_handler \<Rightarrow> price_handled \<times> ws_handler" where
  "huobi_HandleMessage gunzip now message h =
     (case gunzip message of
        Inl e \<Rightarrow> (handled_err e, h)
      | Inr text \<Rightarrow>
          let ping = Unmarshal_into into_ping 0 text;
              sub = Unmarshal_into into_huobi_subscription zero_huobi_subscription text;
              tick = Unmarshal_into into_huobi_stream zero_huobi_stream text in
          (if ping \<noteq> None \<and> the ping \<noteq> 0
           then (NoPriceChangeResponse now (wh_cache h), [print_json (huobi_pong_json (the ping))], None)
           else if sub \<noteq> None \<and> hs_id (the sub) \<noteq> [] then huobi_parseSubscriptionResponse (the sub)
           else if tick \<noteq> None \<and> ht_channel (the tick) \<noteq> [] then huobi_parseTickerStream now (the tick) h
           else handled_err (Errorf ''unknown message''), h))"

definition huobi_CreateMessages :: "int \<Rightarrow> provider_ticker list \<Rightarrow> ws_handler \<Rightarrow> string list res \<times> ws_handler" where
  "huobi_CreateMessages now tickers h =
     (if tickers = [] then (Inl (Errorf ''no tickers to subscribe to''), h)
      else (Inr (map (\<lambda>t. print_json (huobi_subscribe_json (pt_off_chain_ticker t))) tickers), cache_all tickers h))"

section \<open>Kraken\<close>

definition kraken_ws_Name :: string where "kraken_ws_Name = ''kraken_ws''"
definition SystemStatusEvent :: string where "SystemStatusEvent = ''systemStatus''"
definition kraken_HeartbeatEvent :: string where "kraken_HeartbeatEvent = ''heartbeat''"
definition SubscriptionStatusEvent :: string where "SubscriptionStatusEvent = ''subscriptionStatus''"
definition SubscribeEvent :: string where "SubscribeEvent = ''subscribe''"
definition OnlineStatus :: string where "OnlineStatus = ''online''"
definition SubscribedStatus :: string where "SubscribedStatus = ''subscribed''"
definition ErrorStatus :: string where "ErrorStatus = ''error''"
definition kraken_TickerChannel :: string where "kraken_TickerChannel = ''ticker''"

record kraken_system =
  ks_connection_id :: int
  ks_event :: string
  ks_status :: string
  ks_version :: string

definition into_kraken_system :: "kraken_system json_into" where
  "into_kraken_system = into_struct
     [json_field ''connectionID'' into_uint64 ks_connection_id (\<lambda>x m. m\<lparr>ks_connection_id := x\<rparr>),
      json_field ''event'' into_string ks_event (\<lambda>x m. m\<lparr>ks_event := x\<rparr>),
      json_field ''status'' into_string ks_status (\<lambda>x m. m\<lparr>ks_status := x\<rparr>),
      json_field ''version'' into_string ks_version (\<lambda>x m. m\<lparr>ks_version := x\<rparr>)]"

record kraken_subscription =
  ku_channel_id :: int
  ku_channel_name :: string
  ku_event :: string
  ku_pair :: string
  ku_status :: string
  ku_name :: string
  ku_error :: string

definition into_kraken_subscription :: "kraken_subscription json_into" where
  "into_kraken_subscription = into_struct
     [json_field ''channelID'' into_uint64 ku_channel_id (\<lambda>x m. m\<lparr>ku_channel_id := x\<rparr>),
      json_field ''channelName'' into_string ku_channel_name (\<lambda>x m. m\<lparr>ku_channel_name := x\<rparr>),
      json_field ''event'' into_string ku_event (\<lambda>x m. m\<lparr>ku_event := x\<rparr>),
      json_field ''pair'' into_string ku_pair (\<lambda>x m. m\<lparr>ku_pair := x\<rparr>),
      json_field ''status'' into_string ku_status (\<lambda>x m. m\<lparr>ku_status := x\<rparr>),
      json_field ''subscription'' (into_struct
        [json_field ''name'' into_string ku_name (\<lambda>x m. m\<lparr>ku_name := x\<rparr>)]) (\<lambda>m. m) (\<lambda>x _. x),
      json_field ''errorMessage'' into_string ku_error (\<lambda>x m. m\<lparr>ku_error := x\<rparr>)]"

record kraken_ticker =
  kt_channel_id :: int
  kt_prices :: "string list"
  kt_channel_name :: string
  kt_pair :: string

definition into_kraken_data :: "string list json_into" where
  "into_kraken_data = into_struct [json_field ''p'' (into_slice into_string []) (\<lambda>p. p) (\<lambda>x _. x)]"

definition kraken_subscribe_json :: "string list \<Rightarrow> json" where
  "kraken_subscribe_json batch = JObj
     [(''event'', JStr SubscribeEvent), (''pair'', strings_json batch),
      (''subscription'', JObj [(''name'', JStr kraken_TickerChannel)])]"

definition kraken_subscribe :: "string list \<Rightarrow> ws_handler \<Rightarrow> string list res" where
  "kraken_subscribe instruments h = batch_messages (wh_ws h) kraken_subscribe_json instruments"

definition kraken_parseBaseMessage :: "string \<Rightarrow> string \<Rightarrow> ws_handler \<Rightarrow> price_handled" where
  "kraken_parseBaseMessage message event h =
     (if event = SystemStatusEvent
      then decoded into_kraken_system \<lparr>ks_connection_id = 0, ks_event = [], ks_status = [], ks_version = []\<rparr> message (\<lambda>m.
        if ks_status m \<noteq> OnlineStatus then handled_err (Errorf ''invalid system status'') else handled_nothing)
      else if event = kraken_HeartbeatEvent then handled_nothing
      else if event = SubscriptionStatusEvent
      then decoded into_kraken_subscription \<lparr>ku_channel_id = 0, ku_channel_name = [], ku_event = [], ku_pair = [], ku_status = [],
          ku_name = [], ku_error = []\<rparr> message (\<lambda>m.
        if ku_status m = SubscribedStatus then handled_nothing
        else if ku_status m = ErrorStatus then handled_messages (kraken_subscribe [ku_pair m] h)
        else handled_err (Errorf ''unknown subscription status''))
      else handled_err (Errorf ''received unknown event''))"

text \<open>A message of four values, each decoded into its own type.\<close>

definition DecodeTickerResponseMessage :: "string \<Rightarrow> kraken_ticker option" where
  "DecodeTickerResponseMessage message =
     (case json_unmarshal message of
        Some (JArr [c, d, n, p]) \<Rightarrow>
          Option.bind (into_int64 c 0) (\<lambda>channelID.
          Option.bind (into_kraken_data d []) (\<lambda>prices.
          Option.bind (into_string n []) (\<lambda>name.
          Option.bind (into_string p []) (\<lambda>pair.
          Some \<lparr>kt_channel_id = channelID, kt_prices = prices, kt_channel_name = name, kt_pair = pair\<rparr>))))
      | _ \<Rightarrow> None)"

definition kraken_parseTickerMessage :: "int \<Rightarrow> kraken_ticker \<Rightarrow> ws_handler \<Rightarrow> price_handled" where
  "kraken_parseTickerMessage now m h =
     (if kt_channel_name m \<noteq> kraken_TickerChannel then handled_err (Errorf ''invalid channel'')
      else handled_lookup (wh_cache h) (kt_pair m) (\<lambda>ticker.
        case kt_prices m of
          [today, _] \<Rightarrow> handled_price now ticker today
        | _ \<Rightarrow> handled_err (Errorf ''invalid price update length'')))"

definition kraken_HandleMessage :: "int \<Rightarrow> string \<Rightarrow> ws_handler \<Rightarrow> price_handled \<times> ws_handler" where
  "kraken_HandleMessage now message h =
     (case Unmarshal_into into_event [] message of
        Some event \<Rightarrow> kraken_parseBaseMessage message event h
      | None \<Rightarrow>
          (case DecodeTickerResponseMessage message of
             None \<Rightarrow> handled_err (Errorf ''failed to decode ticker response message'')
           | Some m \<Rightarrow> kraken_parseTickerMessage now m h), h)"

definition kraken_CreateMessages :: "int \<Rightarrow> provider_ticker list \<Rightarrow> ws_handler \<Rightarrow> string list res \<times> ws_handler" where
  "kraken_CreateMessages now tickers h = (kraken_subscribe (map pt_off_chain_ticker tickers) h, cache_all tickers h)"

end
