(* ===== verification/Ws_Factory.thy ===== *)
theory Ws_Factory
  imports Ws_Exchanges Api_Handler Oracle_Config
begin

text \<open>
  \<open>providers/websockets\<close>, the last three sources: Kucoin with its hook that fetches the credentials of a connection,
  MEXC and OKX; and \<open>providers/factories/oracle/websocket.go\<close>, which chooses the handler of a source by its name.
\<close>

section \<open>Kucoin\<close>

definition kucoin_ws_Name :: string where "kucoin_ws_Name = ''kucoin_ws''"
definition BulletPublicEndpoint :: string where "BulletPublicEndpoint = ''/api/v1/bullet-public''"
definition SuccessCode :: string where "SuccessCode = ''200000''"
definition WebSocketProtocol :: string where "WebSocketProtocol = ''websocket''"
definition WSSEndpoint :: string where "WSSEndpoint = ''%s?token=%s''"
definition WelcomeMessage :: string where "WelcomeMessage = ''welcome''"
definition PingMessage :: string where "PingMessage = ''ping''"
definition PongMessage :: string where "PongMessage = ''pong''"
definition kucoin_SubscribeMessage :: string where "kucoin_SubscribeMessage = ''subscribe''"
definition AckMessage :: string where "AckMessage = ''ack''"
definition kucoin_Message :: string where "kucoin_Message = ''message''"
definition TickerTopic :: string where "TickerTopic = ''/market/ticker:''"
definition TickerSubject :: string where "TickerSubject = ''trade.ticker''"

record instance_server =
  is_endpoint :: string
  is_encrypt :: bool
  is_protocol :: string
  is_ping_interval :: int
  is_ping_timeout :: int

definition zero_instance_server :: instance_server where
  "zero_instance_server = \<lparr>is_endpoint = [], is_encrypt = False, is_protocol = [], is_ping_interval = 0, is_ping_timeout = 0\<rparr>"

record bullet_response =
  bl_code :: string
  bl_token :: string
  bl_servers :: "instance_server list"

definition zero_bullet_response :: bullet_response where
  "zero_bullet_response = \<lparr>bl_code = [], bl_token = [], bl_servers = []\<rparr>"

definition into_instance_server :: "instance_server json_into" where
  "into_instance_server = into_struct
     [json_field ''endpoint'' into_string is_endpoint (\<lambda>x m. m\<lparr>is_endpoint := x\<rparr>),
      json_field ''encrypt'' into_bool is_encrypt (\<lambda>x m. m\<lparr>is_encrypt := x\<rparr>),
      json_field ''protocol'' into_string is_protocol (\<lambda>x m. m\<lparr>is_protocol := x\<rparr>),
      json_field ''pingInterval'' into_int64 is_ping_interval (\<lambda>x m. m\<lparr>is_ping_interval := x\<rparr>),
      json_field ''pingTimeout'' into_int64 is_ping_timeout (\<lambda>x m. m\<lparr>is_ping_timeout := x\<rparr>)]"

definition into_bullet_response :: "bullet_response json_into" where
  "into_bullet_response = into_struct
     [json_field ''code'' into_string bl_code (\<lambda>x m. m\<lparr>bl_code := x\<rparr>),
      json_field ''data'' (into_struct
        [json_field ''token'' into_string bl_token (\<lambda>x m. m\<lparr>bl_token := x\<rparr>),
         json_field ''instanceServers'' (into_slice into_instance_server zero_instance_server) bl_servers
           (\<lambda>x m. m\<lparr>bl_servers := x\<rparr>)]) (\<lambda>m. m) (\<lambda>x _. x)]"

definition fetchCredentials ::
    "api_config \<Rightarrow> (string \<Rightarrow> http_response option \<times> go_error option) \<Rightarrow> bullet_response res" where
  "fetchCredentials cfg do_request =
     (case ac_endpoints cfg of
        [] \<Rightarrow> Inl (Errorf ''no endpoints provided'')
      | e # _ \<Rightarrow>
          (case do_request (ep_url e @ BulletPublicEndpoint) of
             (_, Some err) \<Rightarrow> Inl err
           | (None, None) \<Rightarrow> Inl (Panic ''nil pointer dereference'')
           | (Some resp, None) \<Rightarrow>
               if hr_status resp \<noteq> 200 then Inl (Errorf ''http request for credentials failed'')
               else case Decode_into into_bullet_response zero_bullet_response (body_text resp) of
                 None \<Rightarrow> Inl (Errorf ''json'') | Some r \<Rightarrow> Inr r))"

text \<open>A number of milliseconds as a duration, an \<open>int64\<close> of nanoseconds.\<close>

definition milliseconds :: "int \<Rightarrow> int" where
  "milliseconds n = sint (word_of_int n * word_of_int (10 ^ 6) :: 64 word)"

definition kucoin_PreDialHook ::
    "api_config \<Rightarrow> (string \<Rightarrow> http_response option \<times> go_error option) \<Rightarrow> websocket_config \<Rightarrow> websocket_config res" where
  "kucoin_PreDialHook api do_request cfg =
     bind_res (fetchCredentials api do_request) (\<lambda>resp.
     if bl_code resp \<noteq> SuccessCode then Inl (Errorf ''failed to fetch token and URL from Kucoin'')
     else if bl_servers resp = [] then Inl (Errorf ''no instance servers returned'')
     else case find (\<lambda>s. is_protocol s = WebSocketProtocol) (bl_servers resp) of
       None \<Rightarrow> Inl (Errorf ''no instance servers support the protocol'')
     | Some server \<Rightarrow>
         Inr (cfg\<lparr>wc_endpoints := [\<lparr>ep_url = Sprintf WSSEndpoint [is_endpoint server, bl_token resp],
                                    ep_authentication = \<lparr>au_api_key = [], au_api_key_header = []\<rparr>\<rparr>],
                  wc_ping_interval := milliseconds (is_ping_interval server),
                  wc_read_timeout := milliseconds (is_ping_timeout server)\<rparr>))"

record kucoin_ws = ws_handler +
  kw_sequences :: "(provider_ticker, int) gomap"

definition into_kucoin_base :: "(string \<times> string) json_into" where
  "into_kucoin_base = into_struct
     [json_field ''id'' into_string fst (\<lambda>x (i, t). (x, t)), json_field ''type'' into_string snd (\<lambda>x (i, t). (i, x))]"

record kucoin_tick =
  kc_type :: string
  kc_topic :: string
  kc_subject :: string
  kc_sequence :: string
  kc_price :: string

definition zero_kucoin_tick :: kucoin_tick where
  "zero_kucoin_tick = \<lparr>kc_type = [], kc_topic = [], kc_subject = [], kc_sequence = [], kc_price = []\<rparr>"

definition into_kucoin_tick :: "kucoin_tick json_into" where
  "into_kucoin_tick = into_struct
     [json_field ''type'' into_string kc_type (\<lambda>x m. m\<lparr>kc_type := x\<rparr>),
      json_field ''topic'' into_string kc_topic (\<lambda>x m. m\<lparr>kc_topic := x\<rparr>),
      json_field ''subject'' into_string kc_subject (\<lambda>x m. m\<lparr>kc_subject := x\<rparr>),
      json_field ''data'' (into_struct
        [json_field ''sequence'' into_string kc_sequence (\<lambda>x m. m\<lparr>kc_sequence := x\<rparr>),
         json_field ''price'' into_string kc_price (\<lambda>x m. m\<lparr>kc_price := x\<rparr>)]) (\<lambda>m. m) (\<lambda>x _. x)]"

definition kucoin_subscribe_json :: "int \<Rightarrow> string list \<Rightarrow> json" where
  "kucoin_subscribe_json now batch = JObj
     [(''id'', JNum (int_text now)), (''type'', JStr kucoin_SubscribeMessage), (''topic'', JStr (TickerTopic @ join_with CHR '','' batch)),
      (''privateChannel'', JBool False), (''response'', JBool False)]"

definition kucoin_parseTicker :: "int \<Rightarrow> kucoin_tick \<Rightarrow> kucoin_ws \<Rightarrow> price_handled \<times> kucoin_ws" where
  "kucoin_parseTicker now m h =
     (if kc_subject m \<noteq> TickerSubject then (handled_err (Errorf ''received unsupported channel''), h)
      else case Split (kc_topic m) TickerTopic of
        [_, off] \<Rightarrow>
          (case FromOffChainTicker (wh_cache h) off of
             None \<Rightarrow> (handled_err (Errorf ''market not found for ticker''), h)
           | Some ticker \<Rightarrow>
               (case ParseInt64 (kc_sequence m) of
                  Inl e \<Rightarrow> ((one_code ErrorInvalidResponse ticker, [], Some e), h)
                | Inr sequence \<Rightarrow>
                    let seen = gm_get (kw_sequences h) ticker in
                    if seen = None \<or> the seen < sequence
                    then (handled_price now ticker (kc_price m), h\<lparr>kw_sequences := gm_set ticker sequence (kw_sequences h)\<rparr>)
                    else ((one_code ErrorInvalidResponse ticker, [], Some (Errorf ''received out of order ticker response message'')), h)))
      | _ \<Rightarrow> (handled_err (Errorf ''invalid ticker data''), h))"

definition kucoin_HandleMessage :: "int \<Rightarrow> string \<Rightarrow> kucoin_ws \<Rightarrow> price_handled \<times> kucoin_ws" where
  "kucoin_HandleMessage now message h =
     (case Unmarshal_into into_kucoin_base ([], []) message of
        None \<Rightarrow> (handled_err (Errorf ''json''), h)
      | Some (_, t) \<Rightarrow>
          if t = WelcomeMessage then (handled_nothing, h)
          else if t = PongMessage then ((NoPriceChangeResponse now (wh_cache h), [], None), h)
          else if t = AckMessage then (handled_nothing, h)
          else if t = kucoin_Message then
            (case Unmarshal_into into_kucoin_tick zero_kucoin_tick message of
               None \<Rightarrow> (handled_err (Errorf ''failed to unmarshal ticker response message''), h)
             | Some m \<Rightarrow> kucoin_parseTicker now m h)
          else (handled_err (Errorf ''invalid message type''), h))"

definition kucoin_CreateMessages :: "int \<Rightarrow> provider_ticker list \<Rightarrow> kucoin_ws \<Rightarrow> string list res \<times> kucoin_ws" where
  "kucoin_CreateMessages now tickers h =
     (batch_messages (wh_ws h) (kucoin_subscribe_json now) (map pt_off_chain_ticker tickers), cache_all tickers h)"

text \<open>\<open>Unix()\<close> counts the seconds.\<close>

definition kucoin_HeartBeatMessages :: "int \<Rightarrow> kucoin_ws \<Rightarrow> string list res" where
  "kucoin_HeartBeatMessages now h =
     Inr [print_json (JObj [(''id'', JStr (int_text (now div 10 ^ 9))), (''type'', JStr PingMessage)])]"

definition kucoin_NewWebSocketDataHandler :: "websocket_config \<Rightarrow> kucoin_ws res" where
  "kucoin_NewWebSocketDataHandler ws =
     bind_res (checked_ws kucoin_ws_Name ws) (\<lambda>h. Inr \<lparr>wh_ws = wh_ws h, wh_cache = wh_cache h, kw_sequences = []\<rparr>)"

definition kucoin_Copy :: "kucoin_ws \<Rightarrow> kucoin_ws" where
  "kucoin_Copy h = h\<lparr>wh_cache := NewProviderTickers [], kw_sequences := []\<rparr>"

section \<open>MEXC\<close>

definition mexc_ws_Name :: string where "mexc_ws_Name = ''mexc_ws''"
definition mexc_MaxSubscriptionsPerConnection :: nat where "mexc_MaxSubscriptionsPerConnection = 20"
definition SubscriptionMethod :: string where "SubscriptionMethod = ''SUBSCRIPTION''"
definition PingMethod :: string where "PingMethod = ''PING''"
definition PongMethod :: string where "PongMethod = ''PONG''"
definition MiniTickerChannel :: string where "MiniTickerChannel = ''spot@public.miniTicker.v3.api@''"
definition ErrorInvalidWebSocketTopic :: int where "ErrorInvalidWebSocketTopic = 11"

record mexc_base =
  xb_id :: int
  xb_code :: int
  xb_message :: string

definition into_mexc_base :: "mexc_base json_into" where
  "into_mexc_base = into_struct
     [json_field ''id'' into_int64 xb_id (\<lambda>x m. m\<lparr>xb_id := x\<rparr>),
      json_field ''code'' into_int64 xb_code (\<lambda>x m. m\<lparr>xb_code := x\<rparr>),
      json_field ''msg'' into_string xb_message (\<lambda>x m. m\<lparr>xb_message := x\<rparr>)]"

definition mexc_IsEmpty :: "mexc_base \<Rightarrow> bool" where
  "mexc_IsEmpty m = (xb_id m = 0 \<and> xb_code m = 0 \<and> xb_message m = [])"

record mexc_tick = symbol_price +
  xt_channel :: string

definition zero_mexc_tick :: mexc_tick where
  "zero_mexc_tick = \<lparr>sp_symbol = [], sp_price = [], xt_channel = []\<rparr>"

definition into_mexc_tick :: "mexc_tick json_into" where
  "into_mexc_tick = into_struct
     [json_field ''c'' into_string xt_channel (\<lambda>x m. m\<lparr>xt_channel := x\<rparr>),
      json_field ''d'' (into_struct
        [json_field ''s'' into_string sp_symbol (\<lambda>x m. m\<lparr>sp_symbol := x\<rparr>),
         json_field ''p'' into_string sp_price (\<lambda>x m. m\<lparr>sp_price := x\<rparr>)]) (\<lambda>m. m) (\<lambda>x _. x)]"

definition mexc_subscribe_json :: "string list \<Rightarrow> json" where
  "mexc_subscribe_json batch = JObj [(''method'', JStr SubscriptionMethod), (''params'', strings_json batch)]"

definition mexc_parseTicker :: "int \<Rightarrow> mexc_tick \<Rightarrow> ws_handler \<Rightarrow> price_handled" where
  "mexc_parseTicker now m h =
     handled_lookup (wh_cache h) (sp_symbol m) (\<lambda>ticker.
       if \<not> HasPrefix (xt_channel m) MiniTickerChannel
       then (one_code ErrorInvalidWebSocketTopic ticker, [], Some (Errorf ''invalid channel''))
       else handled_price now ticker (sp_price m))"

definition mexc_HandleMessage :: "int \<Rightarrow> string \<Rightarrow> ws_handler \<Rightarrow> price_handled \<times> ws_handler" where
  "mexc_HandleMessage now message h =
     (decoded into_mexc_base \<lparr>xb_id = 0, xb_code = 0, xb_message = []\<rparr> message (\<lambda>m.
        if mexc_IsEmpty m then decoded into_mexc_tick zero_mexc_tick message (\<lambda>d. mexc_parseTicker now d h)
        else if HasPrefix (xb_message m) MiniTickerChannel then handled_nothing
        else if xb_message m = PongMethod then handled_nothing
        else handled_err (Errorf ''invalid message type'')), h)"

definition mexc_instrument :: "provider_ticker \<Rightarrow> string" where
  "mexc_instrument t = MiniTickerChannel @ ToUpper (pt_off_chain_ticker t) @ ''@UTC+8''"

definition mexc_CreateMessages :: "int \<Rightarrow> provider_ticker list \<Rightarrow> ws_handler \<Rightarrow> string list res \<times> ws_handler" where
  "mexc_CreateMessages now tickers h =
     (if mexc_MaxSubscriptionsPerConnection < length tickers
      then (Inl (Errorf ''cannot subscribe to more tickers per connection''), h)
      else (batch_messages (wh_ws h) mexc_subscribe_json (map mexc_instrument tickers), cache_all tickers h))"

definition mexc_HeartBeatMessages :: "int \<Rightarrow> ws_handler \<Rightarrow> string list res" where
  "mexc_HeartBeatMessages now h =
     Inr [print_json (JObj [(''id'', JNum (int_text 0)), (''code'', JNum (int_text 0)), (''msg'', JStr PingMethod)])]"

section \<open>OKX\<close>

definition okx_ws_Name :: string where "okx_ws_Name = ''okx_ws''"
definition okx_TickersChannel :: string where "okx_TickersChannel = ''tickers''"
definition ExpectedErrorPrefix :: string where "ExpectedErrorPrefix = ''Invalid request: ''"

record okx_topic =
  ot_channel :: string
  ot_instrument :: string

definition zero_okx_topic :: okx_topic where
  "zero_okx_topic = \<lparr>ot_channel = [], ot_instrument = []\<rparr>"

definition into_okx_topic :: "okx_topic json_into" where
  "into_okx_topic = into_struct
     [json_field ''channel'' into_string ot_channel (\<lambda>x m. m\<lparr>ot_channel := x\<rparr>),
      json_field ''instId'' into_string ot_instrument (\<lambda>x m. m\<lparr>ot_instrument := x\<rparr>)]"

text \<open>A slice that is written again: nil is written as \<open>null\<close>.\<close>

definition into_okx_topics :: "okx_topic list option json_into" where
  "into_okx_topics j old =
     (if j = JNull then Some None
      else map_option Some (into_slice into_okx_topic zero_okx_topic j (case old of None \<Rightarrow> [] | Some ts \<Rightarrow> ts)))"

record okx_request =
  or_op :: string
  or_args :: "okx_topic list option"

definition into_okx_request :: "okx_request json_into" where
  "into_okx_request = into_struct
     [json_field ''op'' into_string or_op (\<lambda>x m. m\<lparr>or_op := x\<rparr>),
      json_field ''args'' into_okx_topics or_args (\<lambda>x m. m\<lparr>or_args := x\<rparr>)]"

record okx_response =
  os_args :: okx_topic
  os_event :: string
  os_conn_id :: string
  os_code :: string
  os_message :: string

definition zero_okx_response :: okx_response where
  "zero_okx_response = \<lparr>os_args = zero_okx_topic, os_event = [], os_conn_id = [], os_code = [], os_message = []\<rparr>"

definition into_okx_response :: "okx_response json_into" where
  "into_okx_response = into_struct
     [json_field ''arg'' into_okx_topic os_args (\<lambda>x m. m\<lparr>os_args := x\<rparr>),
      json_field ''event'' into_string os_event (\<lambda>x m. m\<lparr>os_event := x\<rparr>),
      json_field ''connId'' into_string os_conn_id (\<lambda>x m. m\<lparr>os_conn_id := x\<rparr>),
      json_field ''code'' into_string os_code (\<lambda>x m. m\<lparr>os_code := x\<rparr>),
      json_field ''msg'' into_string os_message (\<lambda>x m. m\<lparr>os_message := x\<rparr>)]"

record okx_tickers =
  ox_args :: okx_topic
  ox_data :: "symbol_price list"

definition into_okx_tickers :: "okx_tickers json_into" where
  "into_okx_tickers = into_struct
     [json_field ''arg'' into_okx_topic ox_args (\<lambda>x m. m\<lparr>ox_args := x\<rparr>),
      json_field ''data'' (into_slice (into_symbol_price ''instId'' ''last'') zero_symbol_price) ox_data (\<lambda>x m. m\<lparr>ox_data := x\<rparr>)]"

definition okx_topic_json :: "okx_topic \<Rightarrow> json" where
  "okx_topic_json t = JObj [(''channel'', JStr (ot_channel t)), (''instId'', JStr (ot_instrument t))]"

definition okx_request_json :: "okx_request \<Rightarrow> json" where
  "okx_request_json r = JObj [(''op'', JStr (or_op r)), (''args'', case or_args r of None \<Rightarrow> JNull | Some ts \<Rightarrow> JArr (map okx_topic_json ts))]"

definition okx_parseSubscribeResponse :: "okx_response \<Rightarrow> price_handled" where
  "okx_parseSubscribeResponse m =
     (if os_event m = EventSubscribe then handled_nothing
      else case Split (os_message m) ExpectedErrorPrefix of
        [_, text] \<Rightarrow> decoded into_okx_request \<lparr>or_op = [], or_args = None\<rparr> text (\<lambda>r.
          (ws_empty, [print_json (okx_request_json r)], None))
      | _ \<Rightarrow> handled_err (Errorf ''unable to parse subscription message from message''))"

definition okx_parseTicker :: "int \<Rightarrow> okx_tickers \<Rightarrow> ws_handler \<Rightarrow> price_handled" where
  "okx_parseTicker now m h =
     (if ot_channel (ox_args m) \<noteq> okx_TickersChannel then handled_err (Errorf ''invalid channel'')
      else handled_entries now (wh_cache h) (ox_data m))"

definition okx_HandleMessage :: "int \<Rightarrow> string \<Rightarrow> ws_handler \<Rightarrow> price_handled \<times> ws_handler" where
  "okx_HandleMessage now message h =
     (decoded into_event [] message (\<lambda>event.
        if event = EventSubscribe \<or> event = EventError
        then decoded into_okx_response zero_okx_response message okx_parseSubscribeResponse
        else if event = []
        then decoded into_okx_tickers \<lparr>ox_args = zero_okx_topic, ox_data = []\<rparr> message (\<lambda>m. okx_parseTicker now m h)
        else handled_err (Errorf ''unknown message type'')), h)"

definition okx_CreateMessages :: "int \<Rightarrow> provider_ticker list \<Rightarrow> ws_handler \<Rightarrow> string list res \<times> ws_handler" where
  "okx_CreateMessages now tickers h =
     (batch_messages (wh_ws h) (\<lambda>b. okx_request_json \<lparr>or_op = OperationSubscribe, or_args = Some b\<rparr>)
        (map (\<lambda>t. \<lparr>ot_channel = okx_TickersChannel, ot_instrument = pt_off_chain_ticker t\<rparr>) tickers), cache_all tickers h)"

section \<open>The handlers as values of the interface\<close>

text \<open>The outside: the decompression of \<open>gzip\<close>, the text of a time, the conversion of a float out of range to \<open>int\<close>.\<close>

record ws_library =
  wl_gunzip :: "string \<Rightarrow> string res"
  wl_time_text :: "int \<Rightarrow> string"
  wl_int :: "big_val \<Rightarrow> int"

type_synonym 's price_data_handler = "('s, provider_ticker, big_float option) ws_data_handler"

definition binance_data_handler :: "binance_ws price_data_handler" where
  "binance_data_handler = \<lparr>wd_handle_message = binance_HandleMessage, wd_create_messages = binance_CreateMessages,
     wd_heart_beat_messages = no_heartbeats\<rparr>"

definition bitfinex_data_handler :: "ws_library \<Rightarrow> bitfinex_ws price_data_handler" where
  "bitfinex_data_handler lib = \<lparr>wd_handle_message = bitfinex_HandleMessage (wl_int lib), wd_create_messages = bitfinex_CreateMessages,
     wd_heart_beat_messages = no_heartbeats\<rparr>"

definition bitstamp_data_handler :: "ws_handler price_data_handler" where
  "bitstamp_data_handler = \<lparr>wd_handle_message = bitstamp_HandleMessage, wd_create_messages = bitstamp_CreateMessages,
     wd_heart_beat_messages = bitstamp_HeartBeatMessages\<rparr>"

definition bybit_data_handler :: "ws_library \<Rightarrow> ws_handler price_data_handler" where
  "bybit_data_handler lib = \<lparr>wd_handle_message = bybit_HandleMessage, wd_create_messages = bybit_CreateMessages,
     wd_heart_beat_messages = bybit_HeartBeatMessages (wl_time_text lib)\<rparr>"

definition coinbase_data_handler :: "coinbase_ws price_data_handler" where
  "coinbase_data_handler = \<lparr>wd_handle_message = coinbase_HandleMessage, wd_create_messages = coinbase_CreateMessages,
     wd_heart_beat_messages = no_heartbeats\<rparr>"

definition crypto_data_handler :: "ws_handler price_data_handler" where
  "crypto_data_handler = \<lparr>wd_handle_message = crypto_HandleMessage, wd_create_messages = crypto_CreateMessages,
     wd_heart_beat_messages = no_heartbeats\<rparr>"

definition gate_data_handler :: "ws_handler price_data_handler" where
  "gate_data_handler = \<lparr>wd_handle_message = gate_HandleMessage, wd_create_messages = gate_CreateMessages,
     wd_heart_beat_messages = no_heartbeats\<rparr>"

definition huobi_data_handler :: "ws_library \<Rightarrow> ws_handler price_data_handler" where
  "huobi_data_handler lib = \<lparr>wd_handle_message = huobi_HandleMessage (wl_gunzip lib), wd_create_messages = huobi_CreateMessages,
     wd_heart_beat_messages = no_heartbeats\<rparr>"

definition kraken_data_handler :: "ws_handler price_data_handler" where
  "kraken_data_handler = \<lparr>wd_handle_message = kraken_HandleMessage, wd_create_messages = kraken_CreateMessages,
     wd_heart_beat_messages = no_heartbeats\<rparr>"

definition kucoin_data_handler :: "kucoin_ws price_data_handler" where
  "kucoin_data_handler = \<lparr>wd_handle_message = kucoin_HandleMessage, wd_create_messages = kucoin_CreateMessages,
     wd_heart_beat_messages = kucoin_HeartBeatMessages\<rparr>"

definition mexc_data_handler :: "ws_handler price_data_handler" where
  "mexc_data_handler = \<lparr>wd_handle_message = mexc_HandleMessage, wd_create_messages = mexc_CreateMessages,
     wd_heart_beat_messages = mexc_HeartBeatMessages\<rparr>"

definition okx_data_handler :: "ws_handler price_data_handler" where
  "okx_data_handler = \<lparr>wd_handle_message = okx_HandleMessage, wd_create_messages = okx_CreateMessages,
     wd_heart_beat_messages = no_heartbeats\<rparr>"

section \<open>The factory\<close>

datatype plain_source = BitstampWs | BybitWs | CryptoWs | GateWs | HuobiWs | KrakenWs | MexcWs | OkxWs

datatype ws_source =
    BinanceSource binance_ws
  | BitfinexSource bitfinex_ws
  | CoinbaseSource coinbase_ws
  | KucoinSource kucoin_ws
  | PlainSource plain_source ws_handler

text \<open>The sources whose handler has no state but its cache.\<close>

definition plain_sources :: "(string, plain_source) gomap" where
  "plain_sources = [(bitstamp_ws_Name, BitstampWs), (bybit_ws_Name, BybitWs), (crypto_ws_Name, CryptoWs), (gate_ws_Name, GateWs),
     (huobi_ws_Name, HuobiWs), (kraken_ws_Name, KrakenWs), (mexc_ws_Name, MexcWs), (okx_ws_Name, OkxWs)]"

definition choose_ws_source :: "64 word \<Rightarrow> string \<Rightarrow> websocket_config \<Rightarrow> ws_source res" where
  "choose_ws_source random name ws =
     (if name = binance_ws_Name then bind_res (binance_NewWebSocketDataHandler random ws) (\<lambda>h. Inr (BinanceSource h))
      else if name = bitfinex_ws_Name then bind_res (bitfinex_NewWebSocketDataHandler ws) (\<lambda>h. Inr (BitfinexSource h))
      else if name = coinbase_ws_Name then bind_res (coinbase_NewWebSocketDataHandler ws) (\<lambda>h. Inr (CoinbaseSource h))
      else if name = kucoin_ws_Name then bind_res (kucoin_NewWebSocketDataHandler ws) (\<lambda>h. Inr (KucoinSource h))
      else case gm_get plain_sources name of
        Some src \<Rightarrow> bind_res (checked_ws name ws) (\<lambda>h. Inr (PlainSource src h))
      | None \<Rightarrow> Inl (Errorf ''unknown provider''))"

text \<open>Only Kucoin has a hook before the dial; \<open>do_request\<close> is its HTTP client.\<close>

definition WebSocketQueryHandlerFactory ::
    "64 word \<Rightarrow> (string \<Rightarrow> http_response option \<times> go_error option) \<Rightarrow> source_config \<Rightarrow> (websocket_config \<times> ws_source \<times> ws_conn) res" where
  "WebSocketQueryHandlerFactory random do_request cfg =
     bind_res (SourceConfig_ValidateBasic cfg) (\<lambda>_.
     bind_res (choose_ws_source random (sc_name cfg) (sc_websocket cfg)) (\<lambda>src.
     bind_res (NewWebSocketHandlerImpl (sc_websocket cfg)
       (if sc_name cfg = kucoin_ws_Name then Some (kucoin_PreDialHook (sc_api cfg) do_request) else None)) (\<lambda>conn.
     NewWebSocketQueryHandler (sc_websocket cfg) (Some src) (Some conn))))"

text \<open>A run of the query handler of a source: what it sends, writes and returns.\<close>

definition plain_data_handler :: "ws_library \<Rightarrow> plain_source \<Rightarrow> ws_handler price_data_handler" where
  "plain_data_handler lib src = (case src of
     BitstampWs \<Rightarrow> bitstamp_data_handler | BybitWs \<Rightarrow> bybit_data_handler lib | CryptoWs \<Rightarrow> crypto_data_handler
   | GateWs \<Rightarrow> gate_data_handler | HuobiWs \<Rightarrow> huobi_data_handler lib | KrakenWs \<Rightarrow> kraken_data_handler
   | MexcWs \<Rightarrow> mexc_data_handler | OkxWs \<Rightarrow> okx_data_handler)"

type_synonym price_action = "(provider_ticker, big_float option) ws_action"

definition run_source ::
    "ws_library \<Rightarrow> websocket_config \<Rightarrow> ws_outside \<Rightarrow> int \<Rightarrow> provider_ticker list \<Rightarrow> ws_event list \<Rightarrow> ws_source \<Rightarrow>
     unit res option \<times> price_action list" where
  "run_source lib cfg env now ids es src =
     (case src of
        BinanceSource h \<Rightarrow> let (r, as, _) = ws_Start binance_data_handler cfg env now ids es h in (r, as)
      | BitfinexSource h \<Rightarrow> let (r, as, _) = ws_Start (bitfinex_data_handler lib) cfg env now ids es h in (r, as)
      | CoinbaseSource h \<Rightarrow> let (r, as, _) = ws_Start coinbase_data_handler cfg env now ids es h in (r, as)
      | KucoinSource h \<Rightarrow> let (r, as, _) = ws_Start kucoin_data_handler cfg env now ids es h in (r, as)
      | PlainSource p h \<Rightarrow> let (r, as, _) = ws_Start (plain_data_handler lib p) cfg env now ids es h in (r, as))"

text \<open>The run of what the factory made, whose dial calls the hook.\<close>

definition run_query_handler ::
    "ws_library \<Rightarrow> (string \<Rightarrow> go_error option) \<Rightarrow> ws_outside \<Rightarrow> int \<Rightarrow> provider_ticker list \<Rightarrow> ws_event list \<Rightarrow>
     websocket_config \<times> ws_source \<times> ws_conn \<Rightarrow> unit res option \<times> price_action list" where
  "run_query_handler lib dial env now ids es = (\<lambda>(cfg, src, conn).
     run_source lib cfg (env\<lparr>wo_dial := (case fst (conn_Dial dial conn) of Inl e \<Rightarrow> Some e | Inr _ \<Rightarrow> None)\<rparr>) now ids es src)"

end
