(* ===== verification/Ws_Facts.thy ===== *)
theory Ws_Facts
  imports Ws_Factory Json_Print_Facts Agex_Metadata Api_Source_Properties Json_Leaves
begin

text \<open>
  The shapes of the answers of the data handlers of websocket sources.
\<close>

section \<open>Answers of the handlers\<close>

definition unchanged_at :: "int \<Rightarrow> big_float option resolved_result" where
  "unchanged_at now = NewResultWithCode (Some (NewFloat (BZero False))) now ResponseCodeUnchanged"

text \<open>A response is about the tickers \<open>T\<close>: each has the price that the message quotes under its name, up to the
  case of letters, or is said not to have changed.\<close>

definition answers :: "provider_ticker set \<Rightarrow> (string \<times> big_float) list \<Rightarrow> int \<Rightarrow> price_response \<Rightarrow> bool" where
  "answers T qs now r =
     (\<forall>t q. gm_get (gr_resolved r) t = Some q \<longrightarrow> t \<in> T \<and>
       (q = unchanged_at now \<or> (\<exists>off x. (off, x) \<in> set qs \<and> same_name off t \<and> q = NewResult (Some x) now)))"

definition handled_ok :: "provider_ticker set \<Rightarrow> (string \<times> big_float) list \<Rightarrow> int \<Rightarrow> price_handled \<Rightarrow> bool" where
  "handled_ok T qs now hr = (snd (snd hr) = None \<longrightarrow> answers T qs now (fst hr))"

definition cached :: "provider_tickers \<Rightarrow> provider_ticker set \<Rightarrow> bool" where
  "cached c T = (snd ` set c \<subseteq> T \<and> cache_ok c)"

lemma cached_lookup: "cached c T \<Longrightarrow> FromOffChainTicker c off = Some t \<Longrightarrow> t \<in> T \<and> same_name off t"
  by (force simp: cached_def cache_ok_def FromOffChainTicker_def dest: gm_get_mem)

lemma gm_set_range: "snd ` set (gm_set k v m) \<subseteq> insert v (snd ` set m)"
  using gm_set_values [of m "\<lambda>x. x \<in> insert v (snd ` set m)" v k] by blast

lemma gm_set_within: "snd ` set m \<subseteq> T \<Longrightarrow> v \<in> T \<Longrightarrow> snd ` set (gm_set k v m) \<subseteq> T"
  by (rule order_trans [OF gm_set_range]) simp

lemma cached_Nil [simp]: "cached [] T"
  by (simp add: cached_def cache_ok_empty)

lemma cached_mono: "cached c S \<Longrightarrow> S \<subseteq> T \<Longrightarrow> cached c T"
  by (auto simp: cached_def)

lemma cached_Add: "cached c T \<Longrightarrow> t \<in> T \<Longrightarrow> cached (Add t c) T"
proof -
  assume c: "cached c T" and t: "t \<in> T"
  then have "snd ` set (Add t c) \<subseteq> T"
    unfolding Add_def by (intro gm_set_within) (simp_all add: cached_def)
  with c cache_ok_Add show ?thesis by (simp add: cached_def)
qed

lemma cached_fold: "cached c T \<Longrightarrow> set ts \<subseteq> T \<Longrightarrow> cached (fold Add ts c) T"
  by (induction ts arbitrary: c) (auto intro: cached_Add)

lemma cached_all [simp]: "wh_cache (cache_all ts h) = fold Add ts (wh_cache h)"
  by (simp add: cache_all_def)

text \<open>A group of rules that go through a handler.\<close>

lemma handled_ok_err [simp, intro]: "handled_ok T qs now (handled_err e)" "handled_ok T qs now (r, msgs, Some e)"
  by (simp_all add: handled_ok_def handled_err_def)

lemma handled_ok_empty [simp, intro]: "handled_ok T qs now (ws_empty, msgs, e)" "handled_ok T qs now handled_nothing"
  "handled_ok T qs now (handled_messages r)" "handled_ok T qs now (one_code code t, msgs, e)"
  by (simp_all add: handled_ok_def answers_def ws_empty_def handled_nothing_def handled_messages_def handled_err_def one_code_def
      NewGetResponse_def split: sum.split)

lemma handled_ok_unchanged [simp]: "t \<in> T \<Longrightarrow> handled_ok T qs now (one_unchanged now t, msgs, e)"
  by (simp add: handled_ok_def answers_def one_unchanged_def NewGetResponse_def gm_get_map_of unchanged_at_def split: if_splits)

lemma handled_ok_ws_price:
  "t \<in> T \<Longrightarrow> same_name off t \<Longrightarrow> (off, x) \<in> set qs \<Longrightarrow> handled_ok T qs now (ws_price now t x, msgs, e)"
  by (auto simp: handled_ok_def answers_def ws_price_def NewGetResponse_def gm_get_map_of split: if_splits)

lemma handled_ok_price:
  "t \<in> T \<Longrightarrow> same_name off t \<Longrightarrow> (\<And>x. Float64StringToBigFloat p = Inr x \<Longrightarrow> (off, x) \<in> set qs) \<Longrightarrow>
   handled_ok T qs now (handled_price now t p)"
  by (auto simp: handled_price_def intro: handled_ok_ws_price split: sum.split)

text \<open>A price that is not parsed is no error of Bybit; its response has a code and no price.\<close>

lemma handled_ok_price_code:
  assumes "t \<in> T" "same_name off t" "\<And>x. Float64StringToBigFloat p = Inr x \<Longrightarrow> (off, x) \<in> set qs"
  shows "handled_ok T qs now (code_without_error (handled_price now t p))"
proof (cases "Float64StringToBigFloat p")
  case (Inl e)
  then show ?thesis by (simp add: handled_price_def code_without_error_def)
next
  case (Inr x)
  with assms show ?thesis by (auto simp: handled_price_def code_without_error_def intro: handled_ok_ws_price)
qed

lemma handled_ok_lookup:
  "cached c T \<Longrightarrow> (\<And>t. t \<in> T \<Longrightarrow> same_name off t \<Longrightarrow> handled_ok T qs now (k t)) \<Longrightarrow>
   handled_ok T qs now (handled_lookup c off k)"
  by (auto simp: handled_lookup_def dest: cached_lookup split: option.split)

lemma handled_ok_decoded:
  "(\<And>x. Unmarshal_into f zero m = Some x \<Longrightarrow> handled_ok T qs now (k x)) \<Longrightarrow> handled_ok T qs now (decoded f zero m k)"
  by (auto simp: decoded_def split: option.split)

lemma no_change_step:
  "\<forall>t q. gm_get m t = Some q \<longrightarrow> t \<in> T \<and> q = u \<Longrightarrow> snd ` set c \<subseteq> T \<Longrightarrow>
   gm_get (fst (fold (\<lambda>(_, ticker) (resolved, seen).
     if ticker \<in> set seen then (resolved, seen) else (gm_set ticker u resolved, ticker # seen)) c (m, seen))) t = Some q \<Longrightarrow>
   t \<in> T \<and> q = u"
proof (induction c arbitrary: m seen)
  case (Cons kt c)
  obtain k s where kt: "kt = (k, s)" by (cases kt)
  show ?case
  proof (cases "s \<in> set seen")
    case True
    with Cons.IH [of m seen] Cons.prems show ?thesis by (simp add: kt)
  next
    case False
    have "\<forall>t q. gm_get (gm_set s u m) t = Some q \<longrightarrow> t \<in> T \<and> q = u" using Cons.prems(1,2) by (simp add: kt)
    with False Cons.IH [of "gm_set s u m" "s # seen"] Cons.prems(2,3) show ?thesis by (simp add: kt)
  qed
qed simp

lemma answers_no_change: "cached c T \<Longrightarrow> answers T qs now (NoPriceChangeResponse now c)"
  using no_change_step [of "[]" T "unchanged_at now" c "[]"]
  unfolding answers_def NoPriceChangeResponse_def cached_def unchanged_at_def NewFloat_def NewGetResponse_def get_response.simps
  by simp

lemma handled_ok_no_change: "cached c T \<Longrightarrow> handled_ok T qs now (NoPriceChangeResponse now c, msgs, e)"
  by (simp add: handled_ok_def answers_no_change)

text \<open>The prices so far are quoted by the message under the names of cached tickers.\<close>

definition entries_ok :: "provider_ticker set \<Rightarrow> (string \<times> big_float) list \<Rightarrow> int \<Rightarrow> price_answer \<Rightarrow> bool" where
  "entries_ok T qs now a = answers T qs now (to_response a)"

lemma entries_ok_code: "entries_ok T qs now a \<Longrightarrow> entries_ok T qs now (put_code code t a)"
  by (cases a) (simp add: entries_ok_def answers_def to_response_def NewGetResponse_def put_code_def)

lemma entries_ok_price:
  "entries_ok T qs now a \<Longrightarrow> t \<in> T \<Longrightarrow> same_name off t \<Longrightarrow> (off, x) \<in> set qs \<Longrightarrow> entries_ok T qs now (put_price now t x a)"
  by (cases a) (simp add: entries_ok_def answers_def to_response_def NewGetResponse_def put_price_def, blast)

lemma entries_ok_put:
  "put_text now t p a = Inr a' \<Longrightarrow> entries_ok T qs now a \<Longrightarrow> t \<in> T \<Longrightarrow> same_name off t \<Longrightarrow>
   (\<And>x. Float64StringToBigFloat p = Inr x \<Longrightarrow> (off, x) \<in> set qs) \<Longrightarrow> entries_ok T qs now a'"
  by (auto simp: put_text_def intro: entries_ok_code entries_ok_price split: sum.splits go_error.splits)

lemma handled_ok_entries:
  assumes c: "cached c T" and p: "\<And>d x. d \<in> set ds \<Longrightarrow> Float64StringToBigFloat (sp_price d) = Inr x \<Longrightarrow> (sp_symbol d, x) \<in> set qs"
  shows "handled_ok T qs now (handled_entries now c ds)"
proof (cases "fold_res (ws_entry now c) ds ([], [])")
  case (Inr a)
  have "entries_ok T qs now a"
  proof (rule fold_res_invariant [OF Inr])
    show "entries_ok T qs now ([], [])" by (simp add: entries_ok_def answers_def to_response_def NewGetResponse_def)
    fix d s s'
    assume d: "d \<in> set ds" and s: "entries_ok T qs now s" and put: "ws_entry now c d s = Inr s'"
    show "entries_ok T qs now s'"
    proof (cases "FromOffChainTicker c (sp_symbol d)")
      case None
      with put s show ?thesis by (simp add: ws_entry_def)
    next
      case (Some t)
      with put have "put_text now t (sp_price d) s = Inr s'" by (simp add: ws_entry_def)
      from entries_ok_put [OF this s] cached_lookup [OF c Some] p [OF d] show ?thesis by blast
    qed
  qed
  then show ?thesis by (simp add: handled_entries_def Inr handled_ok_def entries_ok_def)
qed (simp add: handled_entries_def)

end
