(* ===== verification/Ws_Said.thy ===== *)
theory Ws_Said
  imports Ws_Facts
begin

text \<open>
  What a message of each websocket source says, in the format of the exchange: the names it quotes, as the exchange
  writes them, each with its price. Every quoted price is a string or a number of the message.
\<close>

section \<open>Quotations\<close>

definition text_said :: "'a json_into \<Rightarrow> 'a \<Rightarrow> ('a \<Rightarrow> (string \<times> big_float) list) \<Rightarrow> string \<Rightarrow> (string \<times> big_float) list" where
  "text_said f zero qs m = (case Unmarshal_into f zero m of None \<Rightarrow> [] | Some v \<Rightarrow> qs v)"

text \<open>The name and the price of an entry.\<close>

definition entry_said :: "'a symbol_price_scheme list \<Rightarrow> (string \<times> big_float) list" where
  "entry_said ds = text_quotes (map (\<lambda>d. (sp_symbol d, sp_price d)) ds)"

text \<open>Binance's message names its stream; in a ticker the last price has the key \<open>c\<close>, in a trade \<open>p\<close>.\<close>

definition binance_said :: "string \<Rightarrow> (string \<times> big_float) list" where
  "binance_said m =
     text_said into_binance_stream [] (\<lambda>stream.
       if GetStreamType stream = TickerStream then text_said into_binance_tick zero_binance_tick (\<lambda>d. entry_said [d]) m
       else if GetStreamType stream = AggregateTradeStream
       then text_said into_binance_trade zero_symbol_price (\<lambda>d. entry_said [d]) m
       else []) m"

text \<open>Bitstamp's channel ends with the name.\<close>

definition bitstamp_said :: "string \<Rightarrow> (string \<times> big_float) list" where
  "bitstamp_said = text_said into_bitstamp_trade zero_bitstamp_trade (\<lambda>d.
     case Split (bt_channel d) bitstamp_TickerChannel of [_, off] \<Rightarrow> text_quotes [(off, bt_price_str d)] | _ \<Rightarrow> [])"

definition bybit_said :: "string \<Rightarrow> (string \<times> big_float) list" where
  "bybit_said = text_said into_bybit_update zero_bybit_update (\<lambda>d. entry_said [d])"

definition coinbase_said :: "string \<Rightarrow> (string \<times> big_float) list" where
  "coinbase_said = text_said into_coinbase_tick zero_coinbase_tick (\<lambda>d. text_quotes [(ct_ticker d, ct_price d)])"

definition crypto_said :: "string \<Rightarrow> (string \<times> big_float) list" where
  "crypto_said = text_said into_crypto_message zero_crypto_message (\<lambda>d. entry_said (cr_instruments d))"

definition gate_said :: "string \<Rightarrow> (string \<times> big_float) list" where
  "gate_said = text_said into_gate_stream zero_gate_stream (\<lambda>d. text_quotes [(gs_pair d, gs_last d)])"

text \<open>Huobi compresses its messages; the name is the middle part of the channel, and the price is a number, zero in a
  message without one.\<close>

definition huobi_said :: "(string \<Rightarrow> string res) \<Rightarrow> string \<Rightarrow> (string \<times> big_float) list" where
  "huobi_said gunzip m =
     (case gunzip m of
        Inl _ \<Rightarrow> []
      | Inr plain \<Rightarrow> text_said into_huobi_stream zero_huobi_stream (\<lambda>d.
          case split_on CHR ''.'' (ht_channel d) of [_, off, _] \<Rightarrow> [(off, NewFloat (ht_last_price d))] | _ \<Rightarrow> []) plain)"

text \<open>Of Kraken's two prices the first is today's.\<close>

definition kraken_said :: "string \<Rightarrow> (string \<times> big_float) list" where
  "kraken_said m =
     (case DecodeTickerResponseMessage m of
        None \<Rightarrow> []
      | Some d \<Rightarrow> (case kt_prices d of [today, _] \<Rightarrow> text_quotes [(kt_pair d, today)] | _ \<Rightarrow> []))"

text \<open>Kucoin's topic ends with the name.\<close>

definition kucoin_said :: "string \<Rightarrow> (string \<times> big_float) list" where
  "kucoin_said = text_said into_kucoin_tick zero_kucoin_tick (\<lambda>d.
     case Split (kc_topic d) TickerTopic of [_, off] \<Rightarrow> text_quotes [(off, kc_price d)] | _ \<Rightarrow> [])"

definition mexc_said :: "string \<Rightarrow> (string \<times> big_float) list" where
  "mexc_said = text_said into_mexc_tick zero_mexc_tick (\<lambda>d. entry_said [d])"

definition okx_said :: "string \<Rightarrow> (string \<times> big_float) list" where
  "okx_said = text_said into_okx_tickers \<lparr>ox_args = zero_okx_topic, ox_data = []\<rparr> (\<lambda>d. entry_said (ox_data d))"

text \<open>Bitfinex announces a channel for each pair; a message of the stream has the number of its channel and ten
  values, of which the seventh is the last price. The pairs are those announced for the channel by earlier messages.\<close>

definition bitfinex_announced :: "int \<Rightarrow> string \<Rightarrow> string list" where
  "bitfinex_announced c m =
     (if Unmarshal_into into_event [] m = Some EventSubscribed then
        (case Unmarshal_into into_bitfinex_subscribed zero_bitfinex_subscribed m of
           None \<Rightarrow> []
         | Some d \<Rightarrow> if fs_channel_id d = c then [fs_pair d] else [])
      else [])"

definition bitfinex_said :: "(big_val \<Rightarrow> int) \<Rightarrow> string list \<Rightarrow> string \<Rightarrow> (string \<times> big_float) list" where
  "bitfinex_said out earlier = text_said into_interfaces [] (\<lambda>base.
     case base of
       [JNum w, JArr xs] \<Rightarrow>
         if length xs \<noteq> 10 then []
         else (case (ParseFloat w, xs ! 6) of
           (Some v, JNum p) \<Rightarrow>
             (case ParseFloat p of
                None \<Rightarrow> []
              | Some x \<Rightarrow> map (\<lambda>off. (off, NewFloat x)) (concat (map (bitfinex_announced (int_of_float out v)) earlier)))
         | _ \<Rightarrow> [])
     | _ \<Rightarrow> [])"

section \<open>Every quoted price is in the message\<close>

lemma text_said_keeps:
  assumes "(off, y) \<in> set (text_said f zero qs m)" "keeps_leaves (text_leaves m) P f" "P zero"
  obtains v where "P v" "(off, y) \<in> set (qs v)"
proof (cases "Unmarshal_into f zero m")
  case None
  with assms(1) show ?thesis by (simp add: text_said_def)
next
  case (Some v)
  with assms(1) show ?thesis using that [OF unmarshal_keeps [OF assms(2,3) Some]] by (simp add: text_said_def)
qed

lemma text_quotes_text:
  assumes "(off, y) \<in> set (text_quotes ps)" "\<forall>p \<in> snd ` set ps. text_ok (text_leaves m) p"
  shows "y \<in> set (text_prices m)"
  using assms by (force simp: text_quotes_def intro: text_ok_price split: sum.splits)

lemma entry_said_text:
  "(off, y) \<in> set (entry_said ds) \<Longrightarrow> list_all (\<lambda>d. text_ok (text_leaves m) (sp_price d)) ds \<Longrightarrow> y \<in> set (text_prices m)"
  unfolding entry_said_def by (erule text_quotes_text) (auto simp: list_all_iff)

lemma quote_text: "(off, y) \<in> set (text_quotes [(n, p)]) \<Longrightarrow> text_ok (text_leaves m) p \<Longrightarrow> y \<in> set (text_prices m)"
  by (erule text_quotes_text) simp

subsection \<open>What the decoders keep\<close>

lemma keeps_symbol_price: "keeps_leaves L (\<lambda>d. text_ok L (sp_price d)) (into_symbol_price a b)"
  unfolding into_symbol_price_def by (rule keeps_struct) (simp add: keeps_other keeps_text)

lemma keeps_bitstamp_trade: "keeps_leaves L (\<lambda>d. text_ok L (bt_price_str d)) into_bitstamp_trade"
  unfolding into_bitstamp_trade_def by (rule keeps_struct) (simp add: keeps_other keeps_text keeps_inner keeps_struct)

lemma keeps_bybit_update: "keeps_leaves L (\<lambda>d. text_ok L (sp_price d)) into_bybit_update"
  unfolding into_bybit_update_def by (rule keeps_struct) (simp add: keeps_other keeps_text keeps_inner keeps_struct)

lemma keeps_mexc_tick: "keeps_leaves L (\<lambda>d. text_ok L (sp_price d)) into_mexc_tick"
  unfolding into_mexc_tick_def by (rule keeps_struct) (simp add: keeps_other keeps_text keeps_inner keeps_struct)

lemma keeps_gate_stream: "keeps_leaves L (\<lambda>d. text_ok L (gs_last d)) into_gate_stream"
  unfolding into_gate_stream_def gate_base_fields_def
  by (rule keeps_struct) (simp add: keeps_other keeps_text keeps_inner keeps_struct)

lemma keeps_prices:
  "(\<And>x y. g (put y x) = y) \<Longrightarrow>
   keeps_leaves L (\<lambda>d. list_all (\<lambda>d. text_ok L (sp_price d)) (g d))
     (snd (json_field n (into_slice (into_symbol_price a b) zero_symbol_price) g put))"
  by (rule keeps_field [OF keeps_slice [OF keeps_symbol_price]]) (simp_all add: zero_symbol_price_def)

lemma keeps_crypto_message:
  "keeps_leaves L (\<lambda>m. list_all (\<lambda>d. text_ok L (sp_price d)) (cr_instruments m)) into_crypto_message"
  unfolding into_crypto_message_def by (rule keeps_struct) (simp add: keeps_other keeps_prices keeps_inner keeps_struct)

lemma keeps_okx_tickers: "keeps_leaves L (\<lambda>m. list_all (\<lambda>d. text_ok L (sp_price d)) (ox_data m)) into_okx_tickers"
  unfolding into_okx_tickers_def by (rule keeps_struct) (simp add: keeps_other keeps_prices)

lemma keeps_huobi_stream: "keeps_leaves L (\<lambda>m. number_ok L (ht_last_price m)) into_huobi_stream"
  unfolding into_huobi_stream_def
  by (rule keeps_struct) (simp add: keeps_other keeps_field [OF keeps_float] keeps_inner keeps_struct)

lemma keeps_binance_trade: "keeps_leaves L (\<lambda>d. text_ok L (sp_price d)) into_binance_trade"
  unfolding into_binance_trade_def by (rule keeps_struct) (simp add: keeps_symbol_price keeps_inner)

lemma keeps_binance_tick: "keeps_leaves L (\<lambda>d. text_ok L (sp_price d)) into_binance_tick"
  unfolding into_binance_tick_def by (rule keeps_struct) (simp add: keeps_other keeps_text keeps_inner keeps_struct)

lemma keeps_coinbase_tick: "keeps_leaves L (\<lambda>d. text_ok L (ct_price d)) into_coinbase_tick"
  unfolding into_coinbase_tick_def by (rule keeps_struct) (simp add: keeps_other keeps_text)

lemma keeps_kucoin_tick: "keeps_leaves L (\<lambda>d. text_ok L (kc_price d)) into_kucoin_tick"
  unfolding into_kucoin_tick_def by (rule keeps_struct) (simp add: keeps_other keeps_text keeps_inner keeps_struct)

text \<open>The four values of a ticker of Kraken.\<close>

lemma keeps_kraken_data: "keeps_leaves L (list_all (text_ok L)) into_kraken_data"
  unfolding into_kraken_data_def by (rule keeps_struct) (simp add: keeps_inner keeps_slice keeps_string)

lemma kraken_ticker_prices:
  assumes "DecodeTickerResponseMessage m = Some k"
  shows "list_all (text_ok (text_leaves m)) (kt_prices k)"
proof -
  from assms obtain c d n p ps where j: "json_unmarshal m = Some (JArr [c, d, n, p])" and ps: "into_kraken_data d [] = Some ps" "kt_prices k = ps"
    by (auto simp: DecodeTickerResponseMessage_def bind_eq_Some_conv split: option.splits json.splits list.splits)
  from j have "set (leaves d) \<subseteq> text_leaves m" by (auto simp: text_leaves_def)
  from keeps_leavesD [OF keeps_kraken_data ps(1) this] show ?thesis by (simp add: ps(2))
qed

subsection \<open>The sources\<close>

lemma said_in_text:
  "(off, y) \<in> set (bitstamp_said m) \<Longrightarrow> y \<in> set (text_prices m)"
  "(off, y) \<in> set (bybit_said m) \<Longrightarrow> y \<in> set (text_prices m)"
  "(off, y) \<in> set (coinbase_said m) \<Longrightarrow> y \<in> set (text_prices m)"
  "(off, y) \<in> set (crypto_said m) \<Longrightarrow> y \<in> set (text_prices m)"
  "(off, y) \<in> set (gate_said m) \<Longrightarrow> y \<in> set (text_prices m)"
  "(off, y) \<in> set (kucoin_said m) \<Longrightarrow> y \<in> set (text_prices m)"
  "(off, y) \<in> set (mexc_said m) \<Longrightarrow> y \<in> set (text_prices m)"
  "(off, y) \<in> set (okx_said m) \<Longrightarrow> y \<in> set (text_prices m)"
  unfolding bitstamp_said_def bybit_said_def coinbase_said_def crypto_said_def gate_said_def kucoin_said_def
    mexc_said_def okx_said_def
  subgoal by (erule text_said_keeps, rule keeps_bitstamp_trade)
    (auto simp: zero_bitstamp_trade_def elim: quote_text split: list.splits)
  subgoal by (erule text_said_keeps, rule keeps_bybit_update) (auto simp: zero_bybit_update_def elim: entry_said_text)
  subgoal by (erule text_said_keeps, rule keeps_coinbase_tick) (auto simp: zero_coinbase_tick_def elim: quote_text)
  subgoal by (erule text_said_keeps, rule keeps_crypto_message) (auto simp: zero_crypto_message_def elim: entry_said_text)
  subgoal by (erule text_said_keeps, rule keeps_gate_stream) (auto simp: zero_gate_stream_def elim: quote_text)
  subgoal by (erule text_said_keeps, rule keeps_kucoin_tick)
    (auto simp: zero_kucoin_tick_def elim: quote_text split: list.splits)
  subgoal by (erule text_said_keeps, rule keeps_mexc_tick) (auto simp: zero_mexc_tick_def elim: entry_said_text)
  subgoal by (erule text_said_keeps, rule keeps_okx_tickers) (auto elim: entry_said_text)
  done

lemma binance_said_in_text:
  assumes "(off, y) \<in> set (binance_said m)"
  shows "y \<in> set (text_prices m)"
proof -
  have "y \<in> set (text_prices m)" if "(off, y) \<in> set (text_said into_binance_tick zero_binance_tick (\<lambda>d. entry_said [d]) m)"
    using that by (rule text_said_keeps [OF _ keeps_binance_tick]) (auto simp: zero_binance_tick_def elim: entry_said_text)
  moreover have "y \<in> set (text_prices m)" if "(off, y) \<in> set (text_said into_binance_trade zero_symbol_price (\<lambda>d. entry_said [d]) m)"
    using that by (rule text_said_keeps [OF _ keeps_binance_trade]) (auto simp: zero_symbol_price_def elim: entry_said_text)
  ultimately show ?thesis
    using assms unfolding binance_said_def
    by (cases "Unmarshal_into into_binance_stream [] m") (auto simp: text_said_def [of into_binance_stream] split: if_splits)
qed

lemma kraken_said_in_text:
  assumes "(off, y) \<in> set (kraken_said m)"
  shows "y \<in> set (text_prices m)"
proof (cases "DecodeTickerResponseMessage m")
  case None
  with assms show ?thesis by (simp add: kraken_said_def)
next
  case (Some k)
  with assms kraken_ticker_prices [OF Some] show ?thesis
    by (auto simp: kraken_said_def elim!: quote_text dest!: sym [where s = "[a, b]" for a b] split: list.splits)
qed

lemma huobi_said_in_text:
  assumes "gunzip m = Inr plain" "(off, y) \<in> set (huobi_said gunzip m)"
  shows "y = NewFloat (BZero False) \<or> y \<in> set (text_prices plain)"
proof -
  have said: "(off, y) \<in> set (text_said into_huobi_stream zero_huobi_stream (\<lambda>d.
      case split_on CHR ''.'' (ht_channel d) of [_, off, _] \<Rightarrow> [(off, NewFloat (ht_last_price d))] | _ \<Rightarrow> []) plain)"
    using assms by (simp add: huobi_said_def)
  show ?thesis
  proof (rule text_said_keeps [OF said keeps_huobi_stream])
    show "number_ok (text_leaves plain) (ht_last_price zero_huobi_stream)" by (simp add: zero_huobi_stream_def number_ok_def)
    fix d
    assume d: "number_ok (text_leaves plain) (ht_last_price d)"
      and "(off, y) \<in> set (case split_on CHR ''.'' (ht_channel d) of [_, off, _] \<Rightarrow> [(off, NewFloat (ht_last_price d))] | _ \<Rightarrow> [])"
    then have "y = NewFloat (ht_last_price d)" by (auto split: list.splits)
    with number_ok_price [OF d] show ?thesis by blast
  qed
qed

lemma float_leaf: "JNum w \<in> text_leaves m \<Longrightarrow> ParseFloat w = Some v \<Longrightarrow> NewFloat v \<in> set (text_prices m)"
  by (rule text_prices_leaf [of "JNum w"]) (simp_all add: leaf_price_def)

lemma interfaces_pair: "Unmarshal_into into_interfaces [] m = Some [c, j] \<Longrightarrow> set (leaves j) \<subseteq> text_leaves m"
  by (auto simp: Unmarshal_into_def into_interfaces_def text_leaves_def split: option.splits json.splits if_splits)

lemma bitfinex_said_cases:
  assumes "(off, y) \<in> set (bitfinex_said out earlier m)"
  obtains w xs v p x e where "Unmarshal_into into_interfaces [] m = Some [JNum w, JArr xs]" "length xs = 10" "ParseFloat w = Some v"
    "xs ! 6 = JNum p" "ParseFloat p = Some x" "y = NewFloat x" "e \<in> set earlier" "off \<in> set (bitfinex_announced (int_of_float out v) e)"
  using assms
  by (auto simp: bitfinex_said_def text_said_def dest!: sym [where s = "Some a" for a] sym [where s = "JNum a" for a]
      split: option.splits list.splits json.splits if_splits)

lemma bitfinex_said_in_text:
  assumes "(off, y) \<in> set (bitfinex_said out earlier m)"
  shows "y \<in> set (text_prices m)"
  using assms
proof (cases rule: bitfinex_said_cases)
  case (1 w xs v p x e)
  have "JNum p \<in> set xs" using 1(2,4) nth_mem [of 6 xs] by simp
  then have "JNum p \<in> text_leaves m" using interfaces_pair [OF 1(1)] leaves_element [of "JNum p" xs] by auto
  with 1(5,6) float_leaf show ?thesis by blast
qed

end
