(* ===== verification/Ws_Contract.thy ===== *)
theory Ws_Contract
  imports Ws_Said
begin

text \<open>
  The contract of the websocket sources as a locale: what a data handler answers is about the tickers it was told of, with
  prices of the message it read. The client of the contract is the query handler; each source meets it.
\<close>

section \<open>Runs\<close>

lemma recv_message:
  assumes "wd_handle_message dh now m s = ((a, ms, er), u)"
  shows "ws_recv dh cfg env n (Message now m d # es) s =
    (case er of
       Some e \<Rightarrow> if \<exists>p. e = Panic p then (Some (Inr ()), [], u) else ws_recv dh cfg env n es u
     | None \<Rightarrow>
         if d then (Some (bind_res (mapErr ErrCloseWithErr (close_result env)) (\<lambda>_. Inl (Errorf ''context canceled''))), [CloseConn], u)
         else let (r, as, v) = ws_recv dh cfg env n es u in (r, Respond a # map Wrote ms @ as, v))"
proof (cases er)
  case (Some e)
  then show ?thesis using assms by (cases e) simp_all
qed (simp add: assms)

lemma start_fails:
  assumes "ids \<noteq> []" "ws_start dh env now ids s = (Inl e, as, t)"
  shows "ws_Start dh cfg env now ids es s =
    (if \<exists>p. e = Panic p then (Some (Inr ()), as, t)
     else (Some (Inl (Wrapf ''failed to start connection'' e)), as @ [Respond (NewGetResponseWithErr ids ErrorWebsocketStartFail)], t))"
  using assms by (cases e) (simp_all add: ws_Start_def)

lemma start_succeeds:
  "ids \<noteq> [] \<Longrightarrow> ws_start dh env now ids s = (Inr v, as, t) \<Longrightarrow>
   ws_Start dh cfg env now ids es s = (let (r, bs, u) = ws_recv dh cfg env 0 es t in (r, as @ bs, u))"
  by (cases v) (simp add: ws_Start_def case_unit_Unity)

lemma start_without_ids: "ws_Start dh cfg env now [] es s = (Some (Inr ()), [], s)"
  by (simp add: ws_Start_def)

lemma send_initial_no_response: "send_initial env i ms = (r, as) \<Longrightarrow> Respond resp \<notin> set as"
  by (induction env i ms arbitrary: r as rule: send_initial.induct) (auto split: option.splits if_splits prod.splits)

text \<open>The messages read so far.\<close>

definition received :: "ws_event list \<Rightarrow> string list" where
  "received es = concat (map (\<lambda>e. case e of Message _ m _ \<Rightarrow> [m] | _ \<Rightarrow> []) es)"

lemma received_simps [simp]:
  "received [] = []" "received (Message now m d # es) = m # received es" "received (CtxDone # es) = received es"
  "received (ReadFails err # es) = received es" "received (HeartBeat now # es) = received es"
  by (simp_all add: received_def)

lemma received_Cons: "received (e # es) = received [e] @ received es"
  by (simp add: received_def)

section \<open>The contract\<close>

text \<open>\<open>quotes earlier m\<close> is what a message says, where that may depend on the earlier ones of the connection;
  \<open>knows s T earlier\<close>: the state knows no tickers but \<open>T\<close>, and what else it has is from the earlier messages.\<close>

locale price_stream =
  fixes dh :: "('s, provider_ticker, big_float option) ws_data_handler"
    and quotes :: "string list \<Rightarrow> string \<Rightarrow> (string \<times> big_float) list"
    and knows :: "'s \<Rightarrow> provider_ticker set \<Rightarrow> string list \<Rightarrow> bool"
  assumes subscribes: "knows s T earlier \<Longrightarrow> knows (snd (wd_create_messages dh now ids s)) (T \<union> set ids) earlier"
    and keeps: "knows s T earlier \<Longrightarrow> knows (snd (wd_handle_message dh now m s)) T (earlier @ [m])"
    and responds: "knows s T earlier \<Longrightarrow> handled_ok T (quotes earlier m) now (fst (wd_handle_message dh now m s))"

begin

lemma recv_responses:
  "ws_recv dh cfg env n es s = (r, as, t) \<Longrightarrow> knows s T earlier \<Longrightarrow> Respond resp \<in> set as \<Longrightarrow>
   \<exists>es1 now m es2. es = es1 @ Message now m False # es2 \<and> answers T (quotes (earlier @ received es1) m) now resp"
proof (induction es arbitrary: n s r as t earlier)
  case (Cons e es)
  have later: ?case if "es = es1 @ Message now m False # es2"
      "answers T (quotes (earlier' @ received es1) m) now resp" "earlier' = earlier @ received [e]" for es1 now m es2 earlier'
    using that by (intro exI [of _ "e # es1"] exI [of _ now] exI [of _ m] exI [of _ es2])
      (simp add: received_Cons [of e es1])
  show ?case
  proof (cases e)
    case CtxDone
    with Cons.prems show ?thesis by auto
  next
    case (ReadFails err)
    with Cons.prems have "ws_recv dh cfg env (n + 1) es s = (r, as, t)" by (auto split: if_splits)
    from Cons.IH [OF this Cons.prems(2,3)] obtain es1 now m es2 where
      "es = es1 @ Message now m False # es2" "answers T (quotes (earlier @ received es1) m) now resp" by blast
    then show ?thesis by (rule later) (simp add: ReadFails)
  next
    case (Message now m d)
    obtain a ms er u where h: "wd_handle_message dh now m s = ((a, ms, er), u)" by (metis prod.collapse)
    have k: "knows u T (earlier @ [m])" using keeps [OF Cons.prems(2), of now m] by (simp add: h)
    obtain r' as' t' where tail: "ws_recv dh cfg env n es u = (r', as', t')" by (metis prod.collapse)
    have "answers T (quotes earlier m) now a" if "er = None"
      using responds [OF Cons.prems(2), of m now] that by (simp add: h handled_ok_def)
    then have sent: "er = None \<Longrightarrow> \<not> d \<Longrightarrow> resp = a \<Longrightarrow> ?thesis"
      unfolding Message by (intro exI [of _ "[]"] exI [of _ now] exI [of _ m] exI [of _ es]) simp
    have tl: ?thesis if resp: "Respond resp \<in> set as'"
    proof -
      from Cons.IH [OF tail k resp] obtain es1 now' m' es2 where
        "es = es1 @ Message now' m' False # es2" "answers T (quotes ((earlier @ [m]) @ received es1) m') now' resp" by blast
      then show ?thesis by (rule later) (simp add: Message)
    qed
    from Cons.prems(1,3) tl sent tail show ?thesis
      by (auto simp: Message recv_message [OF h] simp del: ws_recv.simps(4) split: option.splits if_splits)
  next
    case (HeartBeat now)
    obtain r' as' t' where tail: "ws_recv dh cfg env n es s = (r', as', t')" by (metis prod.collapse)
    have "Respond resp \<in> set as'"
      using Cons.prems(1,3) tail by (auto simp: HeartBeat split: sum.splits if_splits)
    from Cons.IH [OF tail Cons.prems(2) this] obtain es1 now' m es2 where
      "es = es1 @ Message now' m False # es2" "answers T (quotes (earlier @ received es1) m) now' resp" by blast
    then show ?thesis by (rule later) (simp add: HeartBeat)
  qed
qed simp

lemma run_responses:
  assumes run: "ws_Start dh cfg env now ids es s = (r, as, t)" and k: "knows s {} []" and resp: "Respond resp \<in> set as"
  shows "resp = NewGetResponseWithErr ids ErrorWebsocketStartFail \<or>
    (\<exists>es1 now m es2. es = es1 @ Message now m False # es2 \<and> answers (set ids) (quotes (received es1) m) now resp)"
proof -
  obtain st as0 u where start: "ws_start dh env now ids s = (st, as0, u)" by (metis prod.collapse)
  have none: "Respond resp \<notin> set as0"
    using start by (auto simp: ws_start_def split: option.splits prod.splits sum.splits dest: send_initial_no_response)
  have k2: "knows u (set ids) []" if "st = Inr ()"
    using start that subscribes [OF k, of now ids] by (auto simp: ws_start_def split: option.splits prod.splits sum.splits)
  show ?thesis
  proof (cases "ids = []")
    case False
    show ?thesis
    proof (cases st)
      case (Inl e)
      from start_fails [OF False start [unfolded Inl]] run resp none show ?thesis by (auto split: if_splits)
    next
      case (Inr v)
      obtain r' bs w where rest: "ws_recv dh cfg env 0 es u = (r', bs, w)" by (metis prod.collapse)
      from start_succeeds [OF False start [unfolded Inr]] run resp none have "Respond resp \<in> set bs" by (auto simp: rest)
      with recv_responses [OF rest k2] Inr show ?thesis by simp
    qed
  qed (use run resp in \<open>simp add: start_without_ids\<close>)
qed

end

section \<open>Subscriptions\<close>

text \<open>A message names a ticker: its name is part of a string of it, in any case of letters.\<close>

definition mentions :: "string \<Rightarrow> string \<Rightarrow> bool" where
  "mentions m off =
     (case json_unmarshal m of
        None \<Rightarrow> False
      | Some j \<Rightarrow> list_ex (\<lambda>l. case l of JStr s \<Rightarrow> Contains (ToUpper s) (ToUpper off) | _ \<Rightarrow> False) (leaves j))"

lemma sent_initial:
  "send_initial env i ms = (Inr v, as) \<Longrightarrow> m \<in> set ms \<Longrightarrow> Wrote m \<in> set as \<or> CloseConn \<in> set as"
  by (induction env i ms arbitrary: v as rule: send_initial.induct) (auto split: option.splits if_splits prod.splits)

locale subscribing_stream = price_stream +
  assumes asks: "wd_create_messages dh now ids s = (Inr ms, s') \<Longrightarrow> t \<in> set ids \<Longrightarrow> \<exists>m \<in> set ms. mentions m (pt_off_chain_ticker t)"

begin

lemma run_subscribes:
  assumes run: "ws_Start dh cfg env now ids es s = (None, as, t)" and mem: "tk \<in> set ids"
  shows "CloseConn \<in> set as \<or> (\<exists>m. Wrote m \<in> set as \<and> mentions m (pt_off_chain_ticker tk))"
proof -
  obtain st as0 u where start: "ws_start dh env now ids s = (st, as0, u)" by (metis prod.collapse)
  from mem have ne: "ids \<noteq> []" by auto
  show ?thesis
  proof (cases st)
    case (Inl e)
    from start_fails [OF ne start [unfolded Inl]] run show ?thesis by (simp split: if_splits)
  next
    case (Inr v)
    obtain r' bs w where rest: "ws_recv dh cfg env 0 es u = (r', bs, w)" by (metis prod.collapse)
    from start_succeeds [OF ne start [unfolded Inr]] run have as: "as = as0 @ bs" by (simp add: rest)
    from start Inr obtain ms bs0 where ms: "wd_create_messages dh now ids s = (Inr ms, u)" "send_initial env 0 ms = (Inr v, bs0)"
        "as0 = Dialled # bs0"
      by (auto simp: ws_start_def split: option.splits prod.splits sum.splits)
    obtain m where "m \<in> set ms" "mentions m (pt_off_chain_ticker tk)" using asks [OF ms(1) mem] by blast
    with sent_initial [OF ms(2)] show ?thesis by (auto simp: as ms(3))
  qed
qed

end

end
