(* ===== verification/Ws_Streams.thy ===== *)
theory Ws_Streams
  imports Ws_Contract
begin

text \<open>
  The twelve websocket sources meet the contract: what a handler makes of a message is what the message says.
\<close>

section \<open>The sources whose handler has no state but its cache\<close>

definition knows :: "ws_handler \<Rightarrow> provider_ticker set \<Rightarrow> string list \<Rightarrow> bool" where
  "knows h T earlier = cached (wh_cache h) T"

lemma cached_union [simp, intro]: "cached c T \<Longrightarrow> cached (fold Add ids c) (T \<union> set ids)"
  by (blast intro: cached_fold cached_mono)

lemma cached_more [simp, intro]: "cached c T \<Longrightarrow> cached c (T \<union> S)"
  by (blast intro: cached_mono)

lemma entry_I: "d \<in> set ds \<Longrightarrow> Float64StringToBigFloat (sp_price d) = Inr x \<Longrightarrow> (sp_symbol d, x) \<in> set (entry_said ds)"
  unfolding entry_said_def by (rule text_quotes_I) auto

text \<open>The rules for a decoded entry, and for a list of them.\<close>

lemma decoded_entry:
  "Unmarshal_into f zero m = Some d \<Longrightarrow> t \<in> T \<Longrightarrow> same_name (sp_symbol d) t \<Longrightarrow>
   handled_ok T (text_said f zero (\<lambda>d. entry_said [d]) m) now (handled_price now t (sp_price d))"
  by (rule handled_ok_price) (auto simp: text_said_def intro: entry_I)

lemma decoded_entry_code:
  "Unmarshal_into f zero m = Some d \<Longrightarrow> t \<in> T \<Longrightarrow> same_name (sp_symbol d) t \<Longrightarrow>
   handled_ok T (text_said f zero (\<lambda>d. entry_said [d]) m) now (code_without_error (handled_price now t (sp_price d)))"
  by (rule handled_ok_price_code) (auto simp: text_said_def intro: entry_I)

lemma decoded_entries:
  "Unmarshal_into f zero m = Some d \<Longrightarrow> cached c T \<Longrightarrow>
   handled_ok T (text_said f zero (\<lambda>d. entry_said (g d)) m) now (handled_entries now c (g d))"
  by (rule handled_ok_entries) (auto simp: text_said_def intro: entry_I)

lemma decoded_quote:
  "Unmarshal_into f zero m = Some d \<Longrightarrow> qs d = text_quotes [(off, p)] \<Longrightarrow> t \<in> T \<Longrightarrow> same_name off t \<Longrightarrow>
   handled_ok T (text_said f zero qs m) now (handled_price now t p)"
  by (rule handled_ok_price) (auto simp: text_said_def intro: text_quotes_I)

lemmas handler_rules = handled_ok_decoded handled_ok_lookup

interpretation bitstamp_feed: price_stream bitstamp_data_handler "\<lambda>_. bitstamp_said" knows
proof unfold_locales
  have price: "handled_ok T (bitstamp_said m) now (handled_price now t (bt_price_str d))"
    if "Unmarshal_into into_bitstamp_trade zero_bitstamp_trade m = Some d" "Split (bt_channel d) bitstamp_TickerChannel = [a, off]"
      "t \<in> T" "same_name off t" for T m now t a off d
    unfolding bitstamp_said_def by (rule decoded_quote [OF that(1) _ that(3,4)]) (simp only: that(2) list.case)
  show "knows h T earlier \<Longrightarrow> handled_ok T (bitstamp_said m) now (fst (wd_handle_message bitstamp_data_handler now m h))"
    for h T earlier m now
    by (auto simp: knows_def bitstamp_data_handler_def bitstamp_HandleMessage_def bitstamp_parseTickerMessage_def
        intro!: handler_rules price split: list.split)
qed (simp_all add: knows_def bitstamp_data_handler_def bitstamp_HandleMessage_def bitstamp_CreateMessages_def)

interpretation bybit_feed: price_stream "bybit_data_handler lib" "\<lambda>_. bybit_said" knows
proof unfold_locales
  show "knows h T earlier \<Longrightarrow> handled_ok T (bybit_said m) now (fst (wd_handle_message (bybit_data_handler lib) now m h))"
    for h T earlier m now
    by (auto simp: knows_def bybit_data_handler_def bybit_HandleMessage_def bybit_parseTickerUpdate_def bybit_said_def
        bybit_parseSubscriptionResponse_def intro!: handler_rules decoded_entry_code)
qed (simp_all add: knows_def bybit_data_handler_def bybit_HandleMessage_def bybit_CreateMessages_def)

interpretation crypto_feed: price_stream crypto_data_handler "\<lambda>_. crypto_said" knows
proof unfold_locales
  show "knows h T earlier \<Longrightarrow> handled_ok T (crypto_said m) now (fst (wd_handle_message crypto_data_handler now m h))"
    for h T earlier m now
    by (auto simp: knows_def crypto_data_handler_def crypto_HandleMessage_def crypto_said_def
        intro!: handler_rules decoded_entries)
qed (simp_all add: knows_def crypto_data_handler_def crypto_HandleMessage_def crypto_CreateMessages_def)

interpretation gate_feed: price_stream gate_data_handler "\<lambda>_. gate_said" knows
proof unfold_locales
  show "knows h T earlier \<Longrightarrow> handled_ok T (gate_said m) now (fst (wd_handle_message gate_data_handler now m h))"
    for h T earlier m now
    by (auto simp: knows_def gate_data_handler_def gate_HandleMessage_def gate_parseTickerStream_def gate_said_def
        gate_parseSubscribeResponse_def intro!: handler_rules elim!: decoded_quote)
qed (simp_all add: knows_def gate_data_handler_def gate_HandleMessage_def gate_CreateMessages_def)

interpretation kraken_feed: price_stream kraken_data_handler "\<lambda>_. kraken_said" knows
proof unfold_locales
  have price: "handled_ok T (kraken_said m) now (handled_price now t today)"
    if "DecodeTickerResponseMessage m = Some d" "kt_prices d = [today, p]" "t \<in> T" "same_name (kt_pair d) t" for T m now t today d p
    using that by (intro handled_ok_price) (auto simp: kraken_said_def intro: text_quotes_I)
  show "knows h T earlier \<Longrightarrow> handled_ok T (kraken_said m) now (fst (wd_handle_message kraken_data_handler now m h))"
    for h T earlier m now
    by (auto simp: knows_def kraken_data_handler_def kraken_HandleMessage_def kraken_parseTickerMessage_def kraken_parseBaseMessage_def
        intro!: handler_rules price split: option.split list.split)
qed (simp_all add: knows_def kraken_data_handler_def kraken_HandleMessage_def kraken_CreateMessages_def)

interpretation mexc_feed: price_stream mexc_data_handler "\<lambda>_. mexc_said" knows
proof unfold_locales
  show "knows h T earlier \<Longrightarrow> handled_ok T (mexc_said m) now (fst (wd_handle_message mexc_data_handler now m h))"
    for h T earlier m now
    by (auto simp: knows_def mexc_data_handler_def mexc_HandleMessage_def mexc_parseTicker_def mexc_said_def
        intro!: handler_rules decoded_entry)
qed (simp_all add: knows_def mexc_data_handler_def mexc_HandleMessage_def mexc_CreateMessages_def)

interpretation okx_feed: price_stream okx_data_handler "\<lambda>_. okx_said" knows
proof unfold_locales
  show "knows h T earlier \<Longrightarrow> handled_ok T (okx_said m) now (fst (wd_handle_message okx_data_handler now m h))"
    for h T earlier m now
    by (auto simp: knows_def okx_data_handler_def okx_HandleMessage_def okx_parseTicker_def okx_parseSubscribeResponse_def okx_said_def
        intro!: handler_rules decoded_entries split: list.split)
qed (simp_all add: knows_def okx_data_handler_def okx_HandleMessage_def okx_CreateMessages_def)

interpretation huobi_feed: price_stream "huobi_data_handler lib" "\<lambda>_. huobi_said (wl_gunzip lib)" knows
proof unfold_locales
  show "knows h T earlier \<Longrightarrow> handled_ok T (huobi_said (wl_gunzip lib) m) now (fst (wd_handle_message (huobi_data_handler lib) now m h))"
    for h T earlier m now
  proof (cases "wl_gunzip lib m")
    case (Inr plain)
    assume k: "knows h T earlier"
    have "handled_ok T (huobi_said (wl_gunzip lib) m) now (ws_price now t (NewFloat (ht_last_price d)), [], None)"
      if "Unmarshal_into into_huobi_stream zero_huobi_stream plain = Some d" "symbolFromSub (ht_channel d) \<noteq> []"
        "t \<in> T" "same_name (symbolFromSub (ht_channel d)) t" for d t
    proof (rule handled_ok_ws_price [OF that(3,4)])
      show "(symbolFromSub (ht_channel d), NewFloat (ht_last_price d)) \<in> set (huobi_said (wl_gunzip lib) m)"
        using that(2) unfolding huobi_said_def Inr sum.case
        by (auto simp: text_said_def that(1) symbolFromSub_def split: list.splits)
    qed
    with k show ?thesis
      by (auto simp: knows_def huobi_data_handler_def huobi_HandleMessage_def Inr huobi_parseTickerStream_def
          huobi_parseSubscriptionResponse_def Let_def handled_ok_no_change intro!: handled_ok_lookup)
  qed (simp add: huobi_data_handler_def huobi_HandleMessage_def)
qed (auto simp: knows_def huobi_data_handler_def huobi_HandleMessage_def huobi_CreateMessages_def Let_def split: sum.splits)

section \<open>The sources with more state\<close>

definition knows_binance :: "binance_ws \<Rightarrow> provider_ticker set \<Rightarrow> string list \<Rightarrow> bool" where
  "knows_binance h T earlier = cached (wh_cache h) T"

lemma binance_subscribe_cache: "binance_subscribe bs h = (ms, h') \<Longrightarrow> wh_cache h' = wh_cache h"
  by (induction bs h arbitrary: ms h' rule: binance_subscribe.induct)
    (auto simp: binance_GenerateID_def SetIDForInstruments_def Let_def split: prod.splits)

lemma binance_request_cache: "binance_NewSubscribeRequestMessage is h = (r, h') \<Longrightarrow> wh_cache h' = wh_cache h"
  by (auto simp: binance_NewSubscribeRequestMessage_def split: sum.splits prod.splits if_splits dest: binance_subscribe_cache)

lemma binance_stream_ok:
  assumes c: "cached (wh_cache h) T"
  shows "handled_ok T (binance_said m) now (binance_stream now m h)"
  unfolding binance_stream_def
proof (rule handled_ok_decoded)
  fix stream
  assume stream: "Unmarshal_into into_binance_stream [] m = Some stream"
  have said: "binance_said m =
      (if GetStreamType stream = TickerStream then text_said into_binance_tick zero_binance_tick (\<lambda>d. entry_said [d]) m
       else if GetStreamType stream = AggregateTradeStream
       then text_said into_binance_trade zero_symbol_price (\<lambda>d. entry_said [d]) m else [])"
    by (simp add: binance_said_def text_said_def [of into_binance_stream] stream)
  show "handled_ok T (binance_said m) now
      (if GetStreamType stream = TickerStream
       then decoded into_binance_tick zero_binance_tick m (\<lambda>d. binance_parse now (sp_symbol d) (sp_price d) h)
       else if GetStreamType stream = AggregateTradeStream
       then decoded into_binance_trade zero_symbol_price m (\<lambda>d. binance_parse now (sp_symbol d) (sp_price d) h)
       else handled_err (Errorf ''unknown stream type''))"
    using c unfolding said binance_parse_def by (auto intro!: handler_rules decoded_entry)
qed

interpretation binance_feed: price_stream binance_data_handler "\<lambda>_. binance_said" knows_binance
proof unfold_locales
  show "knows_binance h T earlier \<Longrightarrow> handled_ok T (binance_said m) now (fst (wd_handle_message binance_data_handler now m h))"
    for h T earlier m now
    by (auto simp: knows_binance_def binance_data_handler_def binance_HandleMessage_def binance_stream_ok split: option.split prod.split)
  show "knows_binance h T earlier \<Longrightarrow> knows_binance (snd (wd_handle_message binance_data_handler now m h)) T (earlier @ [m])"
    for h T earlier m now
    by (auto simp: knows_binance_def binance_data_handler_def binance_HandleMessage_def dest!: binance_request_cache
        split: option.split prod.split)
  show "knows_binance h T earlier \<Longrightarrow> knows_binance (snd (wd_create_messages binance_data_handler now ids h)) (T \<union> set ids) earlier"
    for h T earlier ids now
    by (cases "binance_NewSubscribeRequestMessage (map pt_off_chain_ticker ids) (cache_all ids h)")
      (auto simp: knows_binance_def binance_data_handler_def binance_CreateMessages_def dest!: binance_request_cache)
qed

text \<open>Every channel of Bitfinex's map was announced by an earlier message under the name of its ticker.\<close>

definition knows_bitfinex :: "bitfinex_ws \<Rightarrow> provider_ticker set \<Rightarrow> string list \<Rightarrow> bool" where
  "knows_bitfinex h T earlier \<longleftrightarrow> cached (wh_cache h) T \<and>
     (\<forall>c t. gm_get (bf_channel_map h) c = Some t \<longrightarrow> t \<in> T \<and>
       (\<exists>e \<in> set earlier. \<exists>off \<in> set (bitfinex_announced c e). same_name off t))"

lemma bitfinex_payload_ok:
  assumes "t \<in> T" "same_name off t"
    "\<And>js w x. j = JArr js \<Longrightarrow> length js = 10 \<Longrightarrow> js ! 6 = JNum w \<Longrightarrow> ParseFloat w = Some x \<Longrightarrow> (off, NewFloat x) \<in> set qs"
  shows "handled_ok T qs now (bitfinex_payload now t j)"
  using assms
  by (auto simp: bitfinex_payload_def type_assertion_def split: json.split option.split intro: handled_ok_ws_price)

lemma bitfinex_stream_ok:
  assumes "knows_bitfinex h T earlier"
  shows "handled_ok T (bitfinex_said out earlier m) now (bitfinex_handleStream out now m h)"
proof -
  have "handled_ok T (bitfinex_said out earlier m) now (bitfinex_payload now t j)"
    if base: "Unmarshal_into into_interfaces [] m = Some [JNum w, j]" "ParseFloat w = Some v"
      and get: "gm_get (bf_channel_map h) (int_of_float out v) = Some t" for w j v t
  proof -
    obtain e off where t: "t \<in> T" "same_name off t" and e: "e \<in> set earlier" "off \<in> set (bitfinex_announced (int_of_float out v) e)"
      using assms get unfolding knows_bitfinex_def by blast
    from t show ?thesis
    proof (rule bitfinex_payload_ok)
      fix js p x
      assume j: "j = JArr js" "length js = 10" "js ! 6 = JNum p" "ParseFloat p = Some x"
      show "(off, NewFloat x) \<in> set (bitfinex_said out earlier m)"
        using e by (auto simp: bitfinex_said_def text_said_def base j)
    qed
  qed
  then show ?thesis
    by (auto simp: bitfinex_handleStream_def decoded_def type_assertion_def split: option.split json.split list.split)
qed

lemma bitfinex_announced_more:
  "knows_bitfinex h T earlier \<Longrightarrow> knows_bitfinex h T (earlier @ [m])"
  by (fastforce simp: knows_bitfinex_def)

lemma bitfinex_update_knows:
  assumes k: "knows_bitfinex h T earlier" and a: "off \<in> set (bitfinex_announced c m)"
  shows "knows_bitfinex (snd (bitfinex_updateChannelMap c off h)) T (earlier @ [m])"
proof (cases "FromOffChainTicker (wh_cache h) off")
  case None
  with bitfinex_announced_more [OF k] show ?thesis by (simp add: bitfinex_updateChannelMap_def)
next
  case (Some t)
  have "t \<in> T" "same_name off t" using cached_lookup [OF _ Some] k by (auto simp: knows_bitfinex_def)
  with a bitfinex_announced_more [OF k] show ?thesis
    by (auto simp: knows_bitfinex_def bitfinex_updateChannelMap_def Some split: if_splits)
qed

interpretation bitfinex_feed: price_stream "bitfinex_data_handler lib" "bitfinex_said (wl_int lib)" knows_bitfinex
proof unfold_locales
  show "knows_bitfinex h T earlier \<Longrightarrow>
      handled_ok T (bitfinex_said (wl_int lib) earlier m) now (fst (wd_handle_message (bitfinex_data_handler lib) now m h))"
    for h T earlier m now
    by (auto simp: bitfinex_data_handler_def bitfinex_HandleMessage_def bitfinex_stream_ok bitfinex_updateChannelMap_def
        intro!: handled_ok_decoded split: option.split)
  show "knows_bitfinex h T earlier \<Longrightarrow> knows_bitfinex (snd (wd_handle_message (bitfinex_data_handler lib) now m h)) T (earlier @ [m])"
    for h T earlier m now
    by (auto simp: bitfinex_data_handler_def bitfinex_HandleMessage_def bitfinex_announced_def bitfinex_announced_more
        intro!: bitfinex_update_knows split: option.split)
qed (auto simp: knows_bitfinex_def bitfinex_data_handler_def bitfinex_CreateMessages_def cache_all_def)

definition knows_coinbase :: "coinbase_ws \<Rightarrow> provider_ticker set \<Rightarrow> string list \<Rightarrow> bool" where
  "knows_coinbase h T earlier = cached (wh_cache h) T"

lemma sequence_cache: "coinbase_checkSequenceNumber t n h = (r, h') \<Longrightarrow> wh_cache h' = wh_cache h"
  by (auto simp: coinbase_checkSequenceNumber_def Let_def split: option.splits if_splits)

lemma coinbase_ticker_some:
  assumes "FromOffChainTicker (wh_cache h) (ct_ticker k) = Some t" "coinbase_checkSequenceNumber t (ct_sequence k) h = (r, h')"
  shows "coinbase_parseTicker now k h =
    (case r of
       Inl e \<Rightarrow> ((one_code ErrorInvalidResponse t, [], Some e), h')
     | Inr u \<Rightarrow> (handled_price now t (ct_price k),
         case Float64StringToBigFloat (ct_price k) of
           Inl _ \<Rightarrow> h' | Inr _ \<Rightarrow> h'\<lparr>cw_trade_ids := gm_set t (ct_trade_id k) (cw_trade_ids h')\<rparr>))"
  unfolding coinbase_parseTicker_def assms option.case prod.case
  by (cases r) (simp_all only: sum.case old.unit.case case_unit_Unity)

lemma coinbase_beat_some:
  assumes "FromOffChainTicker (wh_cache h) (cb_ticker k) = Some t" "coinbase_checkSequenceNumber t (cb_sequence k) h = (r, h')"
  shows "coinbase_parseHeartbeat now k h =
    (case r of
       Inl e \<Rightarrow> ((one_code ErrorInvalidResponse t, [], Some e), h')
     | Inr u \<Rightarrow> ((if gm_get (cw_trade_ids h') t = Some (cb_last_trade_id k) then one_unchanged now t
         else one_code ErrorNoExistingPrice t, [], None), h'))"
  unfolding coinbase_parseHeartbeat_def assms option.case prod.case
  by (cases r) (simp_all only: sum.case old.unit.case case_unit_Unity)

lemma coinbase_ticker_cache: "wh_cache (snd (coinbase_parseTicker now k h)) = wh_cache h"
proof (cases "FromOffChainTicker (wh_cache h) (ct_ticker k)")
  case (Some t)
  obtain r h' where s: "coinbase_checkSequenceNumber t (ct_sequence k) h = (r, h')" by (metis prod.collapse)
  from sequence_cache [OF s] show ?thesis
    unfolding coinbase_ticker_some [OF Some s] by (cases r; cases "Float64StringToBigFloat (ct_price k)"; simp)
qed (simp add: coinbase_parseTicker_def)

lemma coinbase_ticker_ok:
  assumes c: "cached (wh_cache h) T" and d: "Unmarshal_into into_coinbase_tick zero_coinbase_tick m = Some k"
  shows "handled_ok T (coinbase_said m) now (fst (coinbase_parseTicker now k h))"
proof (cases "FromOffChainTicker (wh_cache h) (ct_ticker k)")
  case (Some t)
  obtain r h' where s: "coinbase_checkSequenceNumber t (ct_sequence k) h = (r, h')" by (metis prod.collapse)
  have "handled_ok T (coinbase_said m) now (handled_price now t (ct_price k))"
    unfolding coinbase_said_def by (rule decoded_quote [OF d refl]) (use cached_lookup [OF c Some] in simp_all)
  then show ?thesis
    unfolding coinbase_ticker_some [OF Some s] by (cases r; cases "Float64StringToBigFloat (ct_price k)"; simp)
qed (simp add: coinbase_parseTicker_def)

lemma coinbase_beat_ok:
  assumes c: "cached (wh_cache h) T"
  shows "handled_ok T qs now (fst (coinbase_parseHeartbeat now k h)) \<and> wh_cache (snd (coinbase_parseHeartbeat now k h)) = wh_cache h"
proof (cases "FromOffChainTicker (wh_cache h) (cb_ticker k)")
  case (Some t)
  obtain r h' where s: "coinbase_checkSequenceNumber t (cb_sequence k) h = (r, h')" by (metis prod.collapse)
  from cached_lookup [OF c Some] sequence_cache [OF s] show ?thesis
    unfolding coinbase_beat_some [OF Some s] by (cases r; simp)
qed (simp add: coinbase_parseHeartbeat_def)

lemma coinbase_handles:
  assumes "cached (wh_cache h) T"
  shows "handled_ok T (coinbase_said m) now (fst (coinbase_HandleMessage now m h)) \<and>
    wh_cache (snd (coinbase_HandleMessage now m h)) = wh_cache h"
  using coinbase_ticker_ok [OF assms] coinbase_beat_ok [OF assms]
  by (simp add: coinbase_HandleMessage_def handled_ok_decoded coinbase_ticker_cache split: option.split)

interpretation coinbase_feed: price_stream coinbase_data_handler "\<lambda>_. coinbase_said" knows_coinbase
  by unfold_locales (use coinbase_handles in \<open>auto simp: knows_coinbase_def coinbase_data_handler_def coinbase_CreateMessages_def\<close>)

definition knows_kucoin :: "kucoin_ws \<Rightarrow> provider_ticker set \<Rightarrow> string list \<Rightarrow> bool" where
  "knows_kucoin h T earlier = cached (wh_cache h) T"

interpretation kucoin_feed: price_stream kucoin_data_handler "\<lambda>_. kucoin_said" knows_kucoin
proof unfold_locales
  show "knows_kucoin h T earlier \<Longrightarrow> knows_kucoin (snd (wd_handle_message kucoin_data_handler now m h)) T (earlier @ [m])"
    for h T earlier m now
    by (auto simp: knows_kucoin_def kucoin_data_handler_def kucoin_HandleMessage_def kucoin_parseTicker_def Let_def
        split: option.split sum.split list.split)
  have price: "handled_ok T (kucoin_said m) now (handled_price now t (kc_price d))"
    if "Unmarshal_into into_kucoin_tick zero_kucoin_tick m = Some d" "Split (kc_topic d) TickerTopic = [a, off]"
      "cached c T" "FromOffChainTicker c off = Some t" for T m now t a off d c
    unfolding kucoin_said_def
    by (rule decoded_quote [OF that(1) _ conjunct1 [OF cached_lookup [OF that(3,4)]] conjunct2 [OF cached_lookup [OF that(3,4)]]])
      (simp only: that(2) list.case)
  show "knows_kucoin h T earlier \<Longrightarrow> handled_ok T (kucoin_said m) now (fst (wd_handle_message kucoin_data_handler now m h))"
    for h T earlier m now
    by (auto simp: knows_kucoin_def kucoin_data_handler_def kucoin_HandleMessage_def kucoin_parseTicker_def Let_def
        handled_ok_no_change intro!: price split: option.split sum.split list.split)
qed (simp add: knows_kucoin_def kucoin_data_handler_def kucoin_CreateMessages_def)

end
