(* ===== verification/Ws_Asks.thy ===== *)
theory Ws_Asks
  imports Ws_Streams
begin

text \<open>
  What the websocket sources ask for: the messages they send first name every ticker they were given.
\<close>

section \<open>Names in messages\<close>

declare print_json.simps [simp del]

lemma HasPrefix_append [simp]: "HasPrefix (p @ s) p"
  by (simp add: HasPrefix_def)

lemma Contains_append: "Contains (a @ p @ b) p"
proof (induction a)
  case Nil
  show ?case by (cases "p @ b") (simp_all, metis HasPrefix_append)
qed simp

declare ToUpper_append [simp]

lemma ToUpper_ToUpper [simp]: "ToUpper (ToUpper s) = ToUpper s"
  by (simp add: ToUpper_def)

lemma mentions_print:
  assumes "tree_ok 10000 j" "JStr (a @ w @ b) \<in> set (leaves j)" "ToUpper w = ToUpper off"
  shows "mentions (print_json j) off"
  using assms Contains_append [of "ToUpper a" "ToUpper off" "ToUpper b"]
  by (force simp: mentions_def unmarshal_print list_ex_iff)

lemma int_text_token [simp]: "int_token (int_text n)"
proof (cases "n < 0")
  case True
  with nat_digits_token [of "- n"] show ?thesis by (simp add: int_text_def Int_String_def int_token_def)
next
  case False
  with nat_digits_token [of n] show ?thesis by (simp add: int_text_def Int_String_def)
qed

lemma strings_json_ok [simp]: "0 < n \<Longrightarrow> tree_ok n (strings_json ss)"
  by (simp add: strings_json_def)

lemma strings_json_leaves [simp]: "set (leaves (strings_json ss)) = JStr ` set ss"
  by (auto simp: strings_json_def)

section \<open>Batches\<close>

lemma batches_prefix: "concat (map (\<lambda>i. take m (drop (i * m) xs)) [0..<k]) = take (k * m) xs"
  by (induction k) (simp_all add: take_add add.commute [of m])

lemma ws_batches_concat:
  assumes "ws_batches ws xs = Inr bs"
  shows "concat bs = xs"
proof -
  let ?m = "nat (wc_max_subscriptions_per_batch ws)"
  let ?k = "(length xs + ?m - 1) div ?m"
  from assms have m: "0 < ?m" and bs: "bs = map (\<lambda>i. take ?m (drop (i * ?m) xs)) [0..<?k]"
    by (auto simp: ws_batches_def Let_def split: if_splits)
  have "length xs \<le> ?k * ?m"
  proof -
    have "?k * ?m + (length xs + ?m - 1) mod ?m = length xs + ?m - 1" by (rule div_mult_mod_eq)
    moreover have "(length xs + ?m - 1) mod ?m < ?m" using m by simp
    ultimately show ?thesis using m by linarith
  qed
  then show ?thesis by (simp add: bs batches_prefix)
qed

lemma batch_with:
  assumes "batch_messages ws msg xs = Inr ms" "x \<in> set xs"
  shows "\<exists>b. x \<in> set b \<and> print_json (msg b) \<in> set ms"
proof -
  from assms obtain bs where bs: "ws_batches ws xs = Inr bs" "ms = map (\<lambda>b. print_json (msg b)) bs"
    by (auto simp: batch_messages_def bind_res_Inr_iff split: if_splits)
  from ws_batches_concat [OF bs(1)] assms(2) obtain b where "b \<in> set bs" "x \<in> set b" by (metis UN_E set_concat)
  with bs(2) show ?thesis by auto
qed

lemma batch_mentions:
  assumes "batch_messages ws msg xs = Inr ms" "x \<in> set xs"
    "\<And>b. x \<in> set b \<Longrightarrow> tree_ok 10000 (msg b) \<and> JStr (l @ w @ r) \<in> set (leaves (msg b))" "ToUpper w = ToUpper off"
  shows "\<exists>m \<in> set ms. mentions m off"
  using batch_with [OF assms(1,2)] assms(3,4) mentions_print by blast

lemma each_mentions:
  assumes "t \<in> set ids" "tree_ok 10000 (msg t) \<and> JStr (l @ w @ r) \<in> set (leaves (msg t))" "ToUpper w = ToUpper off"
  shows "\<exists>m \<in> set (map (\<lambda>t. print_json (msg t)) ids). mentions m off"
  using assms mentions_print by fastforce

section \<open>The sources\<close>

interpretation bitfinex_asks: subscribing_stream "bitfinex_data_handler lib" "bitfinex_said (wl_int lib)" knows_bitfinex
proof unfold_locales
  fix now ids s ms s' t
  assume "wd_create_messages (bitfinex_data_handler lib) now ids s = (Inr ms, s')" "t \<in> set ids"
  then show "\<exists>m \<in> set ms. mentions m (pt_off_chain_ticker t)"
    using each_mentions [of t ids "\<lambda>t. bitfinex_subscribe_json (pt_off_chain_ticker t)" "[]" "pt_off_chain_ticker t" "[]"]
    by (auto simp: bitfinex_data_handler_def bitfinex_CreateMessages_def bitfinex_subscribe_json_def)
qed

interpretation bitstamp_asks: subscribing_stream bitstamp_data_handler "\<lambda>_. bitstamp_said" knows
proof unfold_locales
  fix now ids s ms s' t
  assume "wd_create_messages bitstamp_data_handler now ids s = (Inr ms, s')" "t \<in> set ids"
  then show "\<exists>m \<in> set ms. mentions m (pt_off_chain_ticker t)"
    using each_mentions [of t ids "\<lambda>t. bitstamp_subscribe_json (bitstamp_TickerChannel @ pt_off_chain_ticker t)"
      bitstamp_TickerChannel "pt_off_chain_ticker t" "[]"]
    by (auto simp: bitstamp_data_handler_def bitstamp_CreateMessages_def bitstamp_subscribe_json_def Let_def split: if_splits)
qed

interpretation huobi_asks: subscribing_stream "huobi_data_handler lib" "\<lambda>_. huobi_said (wl_gunzip lib)" knows
proof unfold_locales
  fix now ids s ms s' t
  assume "wd_create_messages (huobi_data_handler lib) now ids s = (Inr ms, s')" "t \<in> set ids"
  then show "\<exists>m \<in> set ms. mentions m (pt_off_chain_ticker t)"
    using each_mentions [of t ids "\<lambda>t. huobi_subscribe_json (pt_off_chain_ticker t)" "[]" "pt_off_chain_ticker t" "[]"]
    by (auto simp: huobi_data_handler_def huobi_CreateMessages_def huobi_subscribe_json_def split: if_splits)
qed

text \<open>A source whose batches are lists of names.\<close>

lemma names_mention:
  assumes "batch_messages ws msg (map f ids) = Inr ms" "t \<in> set ids" "f t = l @ w @ r" "ToUpper w = ToUpper (pt_off_chain_ticker t)"
    "\<And>b. tree_ok 10000 (msg b)" "\<And>b. JStr ` set b \<subseteq> set (leaves (msg b))"
  shows "\<exists>m \<in> set ms. mentions m (pt_off_chain_ticker t)"
proof (rule batch_mentions [OF assms(1) _ _ assms(4)])
  show "f t \<in> set (map f ids)" using assms(2) by simp
  show "f t \<in> set b \<Longrightarrow> tree_ok 10000 (msg b) \<and> JStr (l @ w @ r) \<in> set (leaves (msg b))" for b
    using assms(3,5,6) by (metis image_subset_iff)
qed

interpretation bybit_asks: subscribing_stream "bybit_data_handler lib" "\<lambda>_. bybit_said" knows
proof unfold_locales
  fix now ids s ms s' t
  assume "wd_create_messages (bybit_data_handler lib) now ids s = (Inr ms, s')" "t \<in> set ids"
  then show "\<exists>m \<in> set ms. mentions m (pt_off_chain_ticker t)"
    by (auto simp: bybit_data_handler_def bybit_CreateMessages_def bybit_request_json_def
      elim!: names_mention [where l = "bybit_TickerChannel @ ''.''" and w = "pt_off_chain_ticker t" and r = "[]"])
qed

interpretation coinbase_asks: subscribing_stream coinbase_data_handler "\<lambda>_. coinbase_said" knows_coinbase
proof unfold_locales
  fix now ids s ms s' t
  assume "wd_create_messages coinbase_data_handler now ids s = (Inr ms, s')" "t \<in> set ids"
  then show "\<exists>m \<in> set ms. mentions m (pt_off_chain_ticker t)"
    by (auto simp: coinbase_data_handler_def coinbase_CreateMessages_def coinbase_subscribe_json_def
      elim!: names_mention [where l = "[]" and w = "pt_off_chain_ticker t" and r = "[]"])
qed

interpretation crypto_asks: subscribing_stream crypto_data_handler "\<lambda>_. crypto_said" knows
proof unfold_locales
  fix now ids s ms s' t
  assume "wd_create_messages crypto_data_handler now ids s = (Inr ms, s')" "t \<in> set ids"
  then show "\<exists>m \<in> set ms. mentions m (pt_off_chain_ticker t)"
    by (auto simp: crypto_data_handler_def crypto_CreateMessages_def crypto_subscribe_json_def crypto_TickerChannel_def
      elim!: names_mention [where l = "''ticker.''" and w = "pt_off_chain_ticker t" and r = "[]"])
qed

interpretation gate_asks: subscribing_stream gate_data_handler "\<lambda>_. gate_said" knows
proof unfold_locales
  fix now ids s ms s' t
  assume "wd_create_messages gate_data_handler now ids s = (Inr ms, s')" "t \<in> set ids"
  then show "\<exists>m \<in> set ms. mentions m (pt_off_chain_ticker t)"
    by (auto simp: gate_data_handler_def gate_CreateMessages_def gate_subscribe_json_def
      elim!: names_mention [where l = "[]" and w = "pt_off_chain_ticker t" and r = "[]"])
qed

interpretation kraken_asks: subscribing_stream kraken_data_handler "\<lambda>_. kraken_said" knows
proof unfold_locales
  fix now ids s ms s' t
  assume "wd_create_messages kraken_data_handler now ids s = (Inr ms, s')" "t \<in> set ids"
  then show "\<exists>m \<in> set ms. mentions m (pt_off_chain_ticker t)"
    by (auto simp: kraken_data_handler_def kraken_CreateMessages_def kraken_subscribe_def kraken_subscribe_json_def
      elim!: names_mention [where l = "[]" and w = "pt_off_chain_ticker t" and r = "[]"])
qed

interpretation mexc_asks: subscribing_stream mexc_data_handler "\<lambda>_. mexc_said" knows
proof unfold_locales
  fix now ids s ms s' t
  assume "wd_create_messages mexc_data_handler now ids s = (Inr ms, s')" "t \<in> set ids"
  then show "\<exists>m \<in> set ms. mentions m (pt_off_chain_ticker t)"
    by (auto simp: mexc_data_handler_def mexc_CreateMessages_def mexc_subscribe_json_def mexc_instrument_def split: if_splits
      elim!: names_mention [where l = MiniTickerChannel and w = "ToUpper (pt_off_chain_ticker t)" and r = "''@UTC+8''"])
qed

text \<open>The other sources make the strings of a batch in their own way.\<close>

interpretation okx_asks: subscribing_stream okx_data_handler "\<lambda>_. okx_said" knows
proof unfold_locales
  fix now ids s ms s' and t :: provider_ticker
  let ?w = "pt_off_chain_ticker t"
  let ?topic = "\<lparr>ot_channel = okx_TickersChannel, ot_instrument = ?w\<rparr>"
  assume "wd_create_messages okx_data_handler now ids s = (Inr ms, s')" "t \<in> set ids"
  then obtain b where b: "?topic \<in> set b" "print_json (okx_request_json \<lparr>or_op = OperationSubscribe, or_args = Some b\<rparr>) \<in> set ms"
    by (auto simp: okx_data_handler_def okx_CreateMessages_def dest!: batch_with [where x = ?topic])
  have "mentions (print_json (okx_request_json \<lparr>or_op = OperationSubscribe, or_args = Some b\<rparr>)) ?w"
    using b(1) by (intro mentions_print [where a = "[]" and w = ?w and b = "[]"])
      (auto simp: okx_request_json_def okx_topic_json_def intro!: bexI [of _ ?topic])
  with b(2) show "\<exists>m \<in> set ms. mentions m ?w" by blast
qed

lemma join_with_mem: "w \<in> set ws \<Longrightarrow> \<exists>a b. join_with c ws = a @ w @ b"
proof (induction c ws rule: join_with.induct)
  case (2 c v)
  then show ?case by (metis append_Nil append_Nil2 list.set_cases set_ConsD list.distinct(1) empty_iff list.set(1) join_with.simps(2))
next
  case (3 c v u us)
  show ?case
  proof (cases "w = v")
    case True
    then show ?thesis by (metis append_Nil join_with.simps(3))
  next
    case False
    with 3 obtain a b where "join_with c (u # us) = a @ w @ b" by auto
    then have "join_with c (v # u # us) = (v @ c # a) @ w @ b" by simp
    then show ?thesis by blast
  qed
qed simp

interpretation kucoin_asks: subscribing_stream kucoin_data_handler "\<lambda>_. kucoin_said" knows_kucoin
proof unfold_locales
  fix now ids s ms s' and t :: provider_ticker
  let ?w = "pt_off_chain_ticker t"
  assume "wd_create_messages kucoin_data_handler now ids s = (Inr ms, s')" "t \<in> set ids"
  then obtain b where b: "?w \<in> set b" "print_json (kucoin_subscribe_json now b) \<in> set ms"
    by (auto simp: kucoin_data_handler_def kucoin_CreateMessages_def dest!: batch_with [where x = ?w])
  from join_with_mem [OF b(1)] obtain l r where "join_with CHR '','' b = l @ ?w @ r" by blast
  then have "mentions (print_json (kucoin_subscribe_json now b)) ?w"
    by (intro mentions_print [where a = "TickerTopic @ l" and w = ?w and b = r]) (simp_all add: kucoin_subscribe_json_def)
  with b(2) show "\<exists>m \<in> set ms. mentions m ?w" by blast
qed

lemma binance_subscribe_all:
  "binance_subscribe bs h = (ms, h') \<Longrightarrow> b \<in> set bs \<Longrightarrow> \<exists>i. print_json (binance_subscribe_json i b) \<in> set ms"
proof (induction bs arbitrary: h ms)
  case (Cons c bs)
  then obtain i k ns where "binance_subscribe bs k = (ns, h')" "ms = print_json (binance_subscribe_json i c) # ns"
    by (auto simp: Let_def split: prod.splits)
  with Cons.IH Cons.prems(2) show ?case by (auto intro: exI [of _ i])
qed simp

interpretation binance_asks: subscribing_stream binance_data_handler "\<lambda>_. binance_said" knows_binance
proof unfold_locales
  fix now ids s ms s' and t :: provider_ticker
  let ?w = "pt_off_chain_ticker t"
  assume "wd_create_messages binance_data_handler now ids s = (Inr ms, s')" and t: "t \<in> set ids"
  then obtain bs h where bs: "ws_batches (wh_ws (cache_all ids s)) (map pt_off_chain_ticker ids) = Inr bs" "binance_subscribe bs h = (ms, s')"
    by (auto simp: binance_data_handler_def binance_CreateMessages_def binance_NewSubscribeRequestMessage_def
        split: if_splits sum.splits prod.splits)
  from ws_batches_concat [OF bs(1)] t have "?w \<in> set (concat bs)" by simp
  then obtain b where b: "b \<in> set bs" "?w \<in> set b" by auto
  from binance_subscribe_all [OF bs(2) b(1)] obtain i where i: "print_json (binance_subscribe_json i b) \<in> set ms" by blast
  have "mentions (print_json (binance_subscribe_json i b)) ?w"
    using b(2) by (intro mentions_print [where a = "[]" and w = "ToLower ?w" and b = "binance_ws_Separator # TickerStream"])
      (auto simp: binance_subscribe_json_def binance_streams_def)
  with i show "\<exists>m \<in> set ms. mentions m ?w" by blast
qed

end
