(* ===== verification/Ws_Properties.thy ===== *)
theory Ws_Properties
  imports Ws_Asks
begin

text \<open>
  What a run of the query handler of a websocket source does, whichever source the factory chose: where the prices it sends
  come from, what it asks the exchange for, and how it ends.
\<close>

section \<open>What the factory makes\<close>

definition fresh_source :: "ws_source \<Rightarrow> bool" where
  "fresh_source src =
     (case src of
        BinanceSource h \<Rightarrow> wh_cache h = []
      | BitfinexSource h \<Rightarrow> wh_cache h = [] \<and> bf_channel_map h = []
      | CoinbaseSource h \<Rightarrow> wh_cache h = []
      | KucoinSource h \<Rightarrow> wh_cache h = []
      | PlainSource p h \<Rightarrow> wh_cache h = [])"

lemma checked_ws_cache: "checked_ws name ws = Inr h \<Longrightarrow> wh_cache h = []"
  by (auto simp: checked_ws_def NewProviderTickers_def bind_res_Inr_iff split: if_splits)

lemma chosen_fresh: "choose_ws_source random name ws = Inr src \<Longrightarrow> fresh_source src"
  by (auto simp: choose_ws_source_def fresh_source_def binance_NewWebSocketDataHandler_def bitfinex_NewWebSocketDataHandler_def
      coinbase_NewWebSocketDataHandler_def kucoin_NewWebSocketDataHandler_def bind_res_Inr_iff dest: checked_ws_cache
      split: if_splits option.splits)

lemma factory_fresh:
  "WebSocketQueryHandlerFactory random do_request cfg = Inr (ws, src, conn) \<Longrightarrow> fresh_source src \<and> ws = sc_websocket cfg"
  by (auto simp: WebSocketQueryHandlerFactory_def NewWebSocketQueryHandler_def bind_res_Inr_iff dest: chosen_fresh split: if_splits)

text \<open>What a message says to a source, and its text, which Huobi compresses.\<close>

definition stream_said :: "ws_library \<Rightarrow> ws_source \<Rightarrow> string list \<Rightarrow> string \<Rightarrow> (string \<times> big_float) list" where
  "stream_said lib src earlier m =
     (case src of
        BinanceSource _ \<Rightarrow> binance_said m
      | BitfinexSource _ \<Rightarrow> bitfinex_said (wl_int lib) earlier m
      | CoinbaseSource _ \<Rightarrow> coinbase_said m
      | KucoinSource _ \<Rightarrow> kucoin_said m
      | PlainSource p _ \<Rightarrow>
          (case p of
             BitstampWs \<Rightarrow> bitstamp_said m | BybitWs \<Rightarrow> bybit_said m | CryptoWs \<Rightarrow> crypto_said m
           | GateWs \<Rightarrow> gate_said m | HuobiWs \<Rightarrow> huobi_said (wl_gunzip lib) m | KrakenWs \<Rightarrow> kraken_said m
           | MexcWs \<Rightarrow> mexc_said m | OkxWs \<Rightarrow> okx_said m))"

definition is_huobi :: "ws_source \<Rightarrow> bool" where
  "is_huobi src = (case src of PlainSource HuobiWs _ \<Rightarrow> True | _ \<Rightarrow> False)"

definition message_text :: "ws_library \<Rightarrow> ws_source \<Rightarrow> string \<Rightarrow> string" where
  "message_text lib src m =
     (if is_huobi src then (case wl_gunzip lib m of Inl _ \<Rightarrow> [] | Inr plain \<Rightarrow> plain) else m)"

lemma stream_said_text:
  assumes "(off, y) \<in> set (stream_said lib src earlier m)"
  shows "y \<in> set (text_prices (message_text lib src m)) \<or> is_huobi src \<and> y = NewFloat (BZero False)"
proof (cases src)
  case (PlainSource p h)
  show ?thesis
  proof (cases p)
    case HuobiWs
    show ?thesis
    proof (cases "wl_gunzip lib m")
      case (Inl e)
      with assms show ?thesis by (simp add: stream_said_def PlainSource HuobiWs huobi_said_def)
    next
      case (Inr plain)
      with assms huobi_said_in_text [of "wl_gunzip lib" m plain off y, OF Inr] show ?thesis
        by (auto simp: stream_said_def PlainSource HuobiWs is_huobi_def message_text_def)
    qed
  qed (use assms said_in_text kraken_said_in_text in \<open>simp_all add: stream_said_def PlainSource is_huobi_def message_text_def\<close>)
qed (use assms said_in_text binance_said_in_text bitfinex_said_in_text in
    \<open>simp_all add: stream_said_def is_huobi_def message_text_def\<close>)

lemma plain_responses:
  assumes "ws_Start (plain_data_handler lib p) cfg env now ids es h = (r, as, t)" "wh_cache h = []" "Respond resp \<in> set as"
  shows "resp = NewGetResponseWithErr ids ErrorWebsocketStartFail \<or>
    (\<exists>es1 now m es2. es = es1 @ Message now m False # es2 \<and>
      answers (set ids) (stream_said lib (PlainSource p h) (received es1) m) now resp)"
  using assms bitstamp_feed.run_responses [of cfg env now ids es h r as t resp] bybit_feed.run_responses [of lib cfg env now ids es h r as t resp]
    crypto_feed.run_responses [of cfg env now ids es h r as t resp] gate_feed.run_responses [of cfg env now ids es h r as t resp]
    huobi_feed.run_responses [of lib cfg env now ids es h r as t resp] kraken_feed.run_responses [of cfg env now ids es h r as t resp]
    mexc_feed.run_responses [of cfg env now ids es h r as t resp] okx_feed.run_responses [of cfg env now ids es h r as t resp]
  by (cases p) (simp_all add: plain_data_handler_def knows_def stream_said_def)

lemma source_responses:
  assumes run: "run_source lib cfg env now ids es src = (r, as)" and fresh: "fresh_source src" and resp: "Respond resp \<in> set as"
  shows "resp = NewGetResponseWithErr ids ErrorWebsocketStartFail \<or>
    (\<exists>es1 now m es2. es = es1 @ Message now m False # es2 \<and> answers (set ids) (stream_said lib src (received es1) m) now resp)"
proof (cases src)
  case (BinanceSource h)
  with run obtain t where "ws_Start binance_data_handler cfg env now ids es h = (r, as, t)" by (auto simp: run_source_def split: prod.splits)
  from binance_feed.run_responses [OF this _ resp] fresh show ?thesis by (simp add: BinanceSource fresh_source_def stream_said_def knows_binance_def)
next
  case (BitfinexSource h)
  with run obtain t where "ws_Start (bitfinex_data_handler lib) cfg env now ids es h = (r, as, t)"
    by (auto simp: run_source_def split: prod.splits)
  from bitfinex_feed.run_responses [OF this _ resp] fresh show ?thesis
    by (simp add: BitfinexSource fresh_source_def stream_said_def knows_bitfinex_def)
next
  case (CoinbaseSource h)
  with run obtain t where "ws_Start coinbase_data_handler cfg env now ids es h = (r, as, t)" by (auto simp: run_source_def split: prod.splits)
  from coinbase_feed.run_responses [OF this _ resp] fresh show ?thesis
    by (simp add: CoinbaseSource fresh_source_def stream_said_def knows_coinbase_def)
next
  case (KucoinSource h)
  with run obtain t where "ws_Start kucoin_data_handler cfg env now ids es h = (r, as, t)" by (auto simp: run_source_def split: prod.splits)
  from kucoin_feed.run_responses [OF this _ resp] fresh show ?thesis
    by (simp add: KucoinSource fresh_source_def stream_said_def knows_kucoin_def)
next
  case (PlainSource p h)
  with run obtain t where "ws_Start (plain_data_handler lib p) cfg env now ids es h = (r, as, t)"
    by (auto simp: run_source_def split: prod.splits)
  from plain_responses [OF this _ resp] fresh show ?thesis by (simp add: PlainSource fresh_source_def)
qed

lemma run_query_handler_source:
  "run_query_handler lib dial env now ids es (ws, src, conn) = (r, as) \<Longrightarrow> \<exists>env. run_source lib ws env now ids es src = (r, as)"
  by (auto simp: run_query_handler_def)

lemma failed_resolves_nothing [simp]: "gm_get (gr_resolved (NewGetResponseWithErr ids code)) t = None"
  by (simp add: NewGetResponseWithErr_def)

text \<open>A run of the Bitstamp source: it subscribes, reads a trade, and a read fails.\<close>

definition bitstamp_ws_config :: source_config where
  "bitstamp_ws_config = \<lparr>sc_name = bitstamp_ws_Name, sc_api = zero_api_config,
     sc_websocket = zero_websocket_config\<lparr>wc_enabled := True, wc_max_buffer_size := 1, wc_reconnection_timeout := 1,
       wc_endpoints := [\<lparr>ep_url = ''wss://ws.bitstamp.net'', ep_authentication = \<lparr>au_api_key = [], au_api_key_header = []\<rparr>\<rparr>],
       wc_name := bitstamp_ws_Name, wc_handshake_timeout := 1, wc_read_timeout := 1, wc_write_timeout := 1,
       wc_max_read_error_count := 2, wc_max_subscriptions_per_connection := 1, wc_max_subscriptions_per_batch := 1\<rparr>, sc_type = ''price_provider''\<rparr>"

definition calm :: ws_outside where
  "calm = \<lparr>wo_dial = None, wo_write = (\<lambda>_. None), wo_ctx_done = (\<lambda>_. False), wo_close = None\<rparr>"

definition any_library :: ws_library where
  "any_library = \<lparr>wl_gunzip = Inr, wl_time_text = int_text, wl_int = (\<lambda>_. 0)\<rparr>"

definition btcusd :: provider_ticker where
  "btcusd = NewProviderTicker ''btcusd'' []"

definition one_trade :: "ws_event list" where
  "one_trade = [Message 7 ''{\"event\":\"trade\",\"channel\":\"live_trades_btcusd\",\"data\":{\"price_str\":\"64000.5\"}}'' False,
     ReadFails (Errorf ''timeout'')]"

definition bitstamp_handler :: ws_handler where
  "bitstamp_handler = \<lparr>wh_ws = sc_websocket bitstamp_ws_config, wh_cache = []\<rparr>"

definition bitstamp_conn :: ws_conn where
  "bitstamp_conn = \<lparr>cn_cfg = sc_websocket bitstamp_ws_config, cn_conn = False, cn_pre_dial_hook = None\<rparr>"

lemma bitstamp_made:
  "WebSocketQueryHandlerFactory 0 (\<lambda>_. (None, None)) bitstamp_ws_config =
     Inr (sc_websocket bitstamp_ws_config, PlainSource BitstampWs bitstamp_handler, bitstamp_conn)"
proof -
  have "SourceConfig_ValidateBasic bitstamp_ws_config = Inr ()" "WebSocketConfig_ValidateBasic (sc_websocket bitstamp_ws_config) = Inr ()"
    "choose_ws_source 0 (sc_name bitstamp_ws_config) (sc_websocket bitstamp_ws_config) = Inr (PlainSource BitstampWs bitstamp_handler)"
    "sc_name bitstamp_ws_config \<noteq> kucoin_ws_Name" "wc_enabled (sc_websocket bitstamp_ws_config)"
    by code_simp+
  then show ?thesis
    by (simp add: WebSocketQueryHandlerFactory_def NewWebSocketHandlerImpl_def NewWebSocketQueryHandler_def bitstamp_conn_def)
qed

definition trade_price :: big_float where
  "trade_price = \<lparr>bf_prec = 64, bf_val = BFin (128001 / 2)\<rparr>"

definition bitstamp_actions :: "price_action list" where
  "bitstamp_actions = [Dialled, Wrote ''{\"event\":\"bts:subscribe\",\"data\":{\"channel\":\"live_trades_btcusd\"}}'',
     Respond (NewGetResponse [(btcusd, NewResult (Some trade_price) 7)] [])]"

lemma bitstamp_run:
  "run_query_handler any_library (\<lambda>_. None) calm 5 [btcusd] one_trade
     (sc_websocket bitstamp_ws_config, PlainSource BitstampWs bitstamp_handler, bitstamp_conn) = (None, bitstamp_actions)"
  by code_simp

text \<open>(C29) Whichever websocket source the factory chose for a provider, and whatever the exchange sends: what a run of its
  query handler responds for a ticker is about a ticker of the run and follows from one message that was read, with the
  time of that message. Either it says that the price has not changed, or it is the price \<open>x\<close> which that message, read as this
  source's format says, quotes under the ticker's off-chain name up to the case of letters (at Bitfinex, whose messages name a
  channel, under the pair an earlier message of the run announced for it). That price is a
  string or a number of the message; only a message of Huobi without a price quotes zero.\<close>

theorem websocket_prices_were_sent:
  assumes "WebSocketQueryHandlerFactory random do_request cfg = Inr (ws, src, conn)"
    and "run_query_handler lib dial env now ids es (ws, src, conn) = (r, as)"
    and "Respond resp \<in> set as" and "gm_get (gr_resolved resp) t = Some q"
  shows "t \<in> set ids \<and> (\<exists>es1 now m es2. es = es1 @ Message now m False # es2 \<and>
    (q = NewResultWithCode (Some (NewFloat (BZero False))) now ResponseCodeUnchanged \<or>
     (\<exists>off x. (off, x) \<in> set (stream_said lib src (received es1) m) \<and>
        ToUpper off = ToUpper (pt_off_chain_ticker t) \<and> q = NewResult (Some x) now \<and>
        (x \<in> set (text_prices (message_text lib src m)) \<or> is_huobi src \<and> x = NewFloat (BZero False)))))"
proof -
  obtain env' where "run_source lib ws env' now ids es src = (r, as)" using run_query_handler_source [OF assms(2)] by blast
  from source_responses [OF this _ assms(3)] factory_fresh [OF assms(1)] assms(4)
  obtain es1 now m es2 where m: "es = es1 @ Message now m False # es2"
      and "answers (set ids) (stream_said lib src (received es1) m) now resp"
    by (metis failed_resolves_nothing option.distinct(1))
  then have t: "t \<in> set ids" and "q = unchanged_at now \<or>
      (\<exists>off x. (off, x) \<in> set (stream_said lib src (received es1) m) \<and> same_name off t \<and> q = NewResult (Some x) now)"
    using assms(4) unfolding answers_def by blast+
  with m stream_said_text [of _ _ lib src "received es1" m] show ?thesis
    unfolding unchanged_at_def same_name_def by blast
qed

theorem websocket_prices_were_sent_witness:
  "\<exists>es1 now m es2. one_trade = es1 @ Message now m False # es2 \<and>
     (\<exists>off x. (off, x) \<in> set (stream_said any_library (PlainSource BitstampWs bitstamp_handler) (received es1) m) \<and>
       ToUpper off = ''BTCUSD'' \<and> x \<in> set (text_prices m) \<and> NewResult (Some trade_price) 7 = NewResult (Some x) now)"
proof -
  let ?q = "NewResult (Some trade_price) 7" and ?r = "NewGetResponse [(btcusd, NewResult (Some trade_price) 7)] []"
  have "Respond ?r \<in> set bitstamp_actions" by (simp add: bitstamp_actions_def)
  moreover have "gm_get (gr_resolved ?r) btcusd = Some ?q" by (simp add: NewGetResponse_def gm_get_map_of)
  moreover have "?q \<noteq> NewResultWithCode (Some (NewFloat (BZero False))) now ResponseCodeUnchanged" for now
    by (simp add: NewResult_def NewResultWithCode_def trade_price_def NewFloat_def)
  moreover have "ToUpper (pt_off_chain_ticker btcusd) = ''BTCUSD''" by code_simp
  moreover have "\<not> is_huobi (PlainSource BitstampWs bitstamp_handler)" by (simp add: is_huobi_def)
  moreover from this have "message_text any_library (PlainSource BitstampWs bitstamp_handler) m = m" for m
    by (simp add: message_text_def)
  ultimately show ?thesis using websocket_prices_were_sent [OF bitstamp_made bitstamp_run] by metis
qed

section \<open>What a run asks for\<close>

lemma plain_subscribes:
  assumes "ws_Start (plain_data_handler lib p) cfg env now ids es h = (None, as, t)" "tk \<in> set ids"
  shows "CloseConn \<in> set as \<or> (\<exists>m. Wrote m \<in> set as \<and> mentions m (pt_off_chain_ticker tk))"
  using assms bitstamp_asks.run_subscribes [of cfg env now ids es h as t tk] bybit_asks.run_subscribes [of lib cfg env now ids es h as t tk]
    crypto_asks.run_subscribes [of cfg env now ids es h as t tk] gate_asks.run_subscribes [of cfg env now ids es h as t tk]
    huobi_asks.run_subscribes [of lib cfg env now ids es h as t tk] kraken_asks.run_subscribes [of cfg env now ids es h as t tk]
    mexc_asks.run_subscribes [of cfg env now ids es h as t tk] okx_asks.run_subscribes [of cfg env now ids es h as t tk]
  by (cases p) (simp_all add: plain_data_handler_def)

lemma source_subscribes:
  assumes run: "run_source lib cfg env now ids es src = (None, as)" and mem: "tk \<in> set ids"
  shows "CloseConn \<in> set as \<or> (\<exists>m. Wrote m \<in> set as \<and> mentions m (pt_off_chain_ticker tk))"
proof (cases src)
  case (BinanceSource h)
  with run show ?thesis by (auto simp: run_source_def split: prod.splits dest: binance_asks.run_subscribes [OF _ mem])
next
  case (BitfinexSource h)
  with run show ?thesis by (auto simp: run_source_def split: prod.splits dest: bitfinex_asks.run_subscribes [OF _ mem])
next
  case (CoinbaseSource h)
  with run show ?thesis by (auto simp: run_source_def split: prod.splits dest: coinbase_asks.run_subscribes [OF _ mem])
next
  case (KucoinSource h)
  with run show ?thesis by (auto simp: run_source_def split: prod.splits dest: kucoin_asks.run_subscribes [OF _ mem])
next
  case (PlainSource p h)
  with run show ?thesis by (auto simp: run_source_def split: prod.splits dest: plain_subscribes [OF _ mem])
qed

text \<open>(C30) A run that is still receiving has written, for every ticker it was given, a message that names it, unless it had
  already closed its connection because the context was done between two writes.\<close>

theorem every_ticker_subscribed:
  assumes "run_query_handler lib dial env now ids es qh = (None, as)" and "t \<in> set ids"
  shows "CloseConn \<in> set as \<or> (\<exists>m. Wrote m \<in> set as \<and> mentions m (pt_off_chain_ticker t))"
proof -
  obtain ws src conn where "qh = (ws, src, conn)" by (metis prod.collapse)
  with assms(1) run_query_handler_source [of lib dial env now ids es ws src conn] obtain e where
    "run_source lib ws e now ids es src = (None, as)" by blast
  then show ?thesis using assms(2) by (rule source_subscribes)
qed

theorem every_ticker_subscribed_witness:
  "\<exists>m. Wrote m \<in> set bitstamp_actions \<and> mentions m ''btcusd''"
proof -
  have "btcusd \<in> set [btcusd]" "CloseConn \<notin> set bitstamp_actions" "pt_off_chain_ticker btcusd = ''btcusd''"
    by (simp_all add: bitstamp_actions_def btcusd_def NewProviderTicker_def)
  with every_ticker_subscribed [OF bitstamp_run, of btcusd] show ?thesis by simp
qed

section \<open>How a run ends\<close>

definition failed_reads :: "ws_event list \<Rightarrow> nat" where
  "failed_reads es = length (filter (\<lambda>e. case e of ReadFails _ \<Rightarrow> True | _ \<Rightarrow> False) es)"

lemma failed_reads_simps [simp]:
  "failed_reads [] = 0" "failed_reads (CtxDone # es) = failed_reads es" "failed_reads (ReadFails e # es) = Suc (failed_reads es)"
  "failed_reads (Message now m d # es) = failed_reads es" "failed_reads (HeartBeat now # es) = failed_reads es"
  by (simp_all add: failed_reads_def)

text \<open>A run that goes on has not lost too many reads; a run that ended with an error closed its connection last.\<close>

definition run_ends :: "int \<Rightarrow> int \<Rightarrow> ws_event list \<Rightarrow> unit res option \<Rightarrow> ('k, 'v) ws_action list \<Rightarrow> bool" where
  "run_ends limit n es r as =
     (case r of
        None \<Rightarrow> CtxDone \<notin> set es \<and> (failed_reads es = 0 \<or> n + int (failed_reads es) < limit)
      | Some (Inl e) \<Rightarrow> as \<noteq> [] \<and> last as = CloseConn
      | Some (Inr u) \<Rightarrow> True)"

lemma recv_ends: "ws_recv dh cfg env n es s = (r, as, t) \<Longrightarrow> run_ends (wc_max_read_error_count cfg) n es r as"
proof (induction es arbitrary: n s r as t)
  case Nil
  then show ?case by (auto simp: run_ends_def)
next
  case (Cons e es)
  show ?case
  proof (cases e)
    case CtxDone
    with Cons.prems show ?thesis by (auto simp: run_ends_def ctx_result_def split: option.split sum.split)
  next
    case (ReadFails err)
    with Cons.prems Cons.IH [of "n + 1" s r as t] show ?thesis
      by (auto simp: run_ends_def split: option.split sum.split if_splits)
  next
    case (Message now m d)
    obtain a ms er u where h: "wd_handle_message dh now m s = ((a, ms, er), u)" by (metis prod.collapse)
    obtain r' as' t' where tail: "ws_recv dh cfg env n es u = (r', as', t')" by (metis prod.collapse)
    from Cons.prems Cons.IH [OF tail] tail show ?thesis
      by (auto simp: Message recv_message [OF h] run_ends_def simp del: ws_recv.simps(4) split: option.splits sum.splits if_splits)
  next
    case (HeartBeat now)
    obtain r' as' t' where tail: "ws_recv dh cfg env n es s = (r', as', t')" by (metis prod.collapse)
    with Cons.IH [OF tail] Cons.prems show ?thesis
      by (auto simp: HeartBeat run_ends_def split: option.splits sum.splits if_splits)
  qed
qed

lemma start_ends:
  assumes run: "ws_Start dh cfg env now ids es s = (r, as, t)"
  shows "case r of
      None \<Rightarrow> CtxDone \<notin> set es \<and> (failed_reads es = 0 \<or> int (failed_reads es) < wc_max_read_error_count cfg)
    | Some (Inl e) \<Rightarrow> as \<noteq> [] \<and> last as \<in> {CloseConn, Respond (NewGetResponseWithErr ids ErrorWebsocketStartFail)}
    | Some (Inr u) \<Rightarrow> True"
proof (cases "ids = []")
  case True
  with run show ?thesis by (auto simp: start_without_ids)
next
  case False
  obtain st as0 u where start: "ws_start dh env now ids s = (st, as0, u)" by (metis prod.collapse)
  show ?thesis
  proof (cases st)
    case (Inl e)
    from start_fails [OF False start [unfolded Inl]] run show ?thesis by (auto split: if_splits)
  next
    case (Inr v)
    obtain r' bs w where rest: "ws_recv dh cfg env 0 es u = (r', bs, w)" by (metis prod.collapse)
    from start_succeeds [OF False start [unfolded Inr]] run recv_ends [OF rest] show ?thesis
      by (auto simp: rest run_ends_def split: option.splits sum.splits)
  qed
qed

text \<open>(C31) How a run ends: one that is still receiving has not met the end of its context and has lost fewer reads than the
  configuration allows, over its whole life; one that returned an error closed the connection last, or reported that the
  start failed for all its tickers.\<close>

theorem websocket_run_ends:
  assumes "run_query_handler lib dial env now ids es (ws, src, conn) = (r, as)"
  shows "case r of
      None \<Rightarrow> CtxDone \<notin> set es \<and> (failed_reads es = 0 \<or> int (failed_reads es) < wc_max_read_error_count ws)
    | Some (Inl e) \<Rightarrow> as \<noteq> [] \<and> last as \<in> {CloseConn, Respond (NewGetResponseWithErr ids ErrorWebsocketStartFail)}
    | Some (Inr u) \<Rightarrow> True"
proof -
  from run_query_handler_source [OF assms] obtain e where run: "run_source lib ws e now ids es src = (r, as)" by blast
  show ?thesis using run by (cases src) (auto simp: run_source_def split: prod.splits dest: start_ends)
qed

theorem websocket_run_ends_witness:
  "CtxDone \<notin> set one_trade \<and> failed_reads one_trade = 1 \<and> wc_max_read_error_count (sc_websocket bitstamp_ws_config) = 2 \<and>
     (failed_reads one_trade = 0 \<or> int (failed_reads one_trade) < wc_max_read_error_count (sc_websocket bitstamp_ws_config))"
  using websocket_run_ends [OF bitstamp_run] by (simp add: one_trade_def bitstamp_ws_config_def)

end
