(* ===== verification/Spec2Isabelle.thy ===== *)
theory Spec2Isabelle
  imports Prelude Kv_Store Currency_Pair Marketmap_Facts Oracle_Behaviour Oracle_Properties Oracle_Genesis Marketmap_Keeper Marketmap_Msg Marketmap_Behaviour Marketmap_Chain Marketmap_Reach Marketmap_Properties Marketmap_Validity Marketmap_Maps Vote_Weighted Median_Facts Median_Properties Abci_Types Strategy Strategy_Properties Vote_Aggregator Vote_Extension Vote_Facts Vote_Properties Extension_Properties Proposals Proposal_Properties Preblock Preblock_Properties Big_Float Float_Facts Index_Aggregator Index_Facts Index_Properties Oracle_Config Base_Provider Provider_Lifecycle Provider_Properties Api_Handler Api_Properties Price_Interface Sidecar Sidecar_Properties Sidecar_Updates Sidecar_Reach Price_Service Price_Service_Properties Vote_Codec Vote_Codec_Properties Float_Text Float_Text_Properties Json_Value Api_Sources Api_Factory Api_Source_Properties Json_Print Json_Print_Facts Agex_Markets Agex_Metadata Agex_Properties
  Json_Leaves Ws_Handler Ws_Sources Ws_Exchanges Ws_Factory Ws_Said Ws_Facts Ws_Contract Ws_Streams Ws_Asks Ws_Properties
begin

text \<open>
  A verification library of orynx, a price oracle for Cosmos SDK chains. A sidecar process fetches the
  prices of markets from exchanges and serves their medians; the validators of the chain read them, vote on
  them in vote extensions, and the chain writes the stake-weighted medians of the votes into its state. The
  definitions are translated from the Go sources function by function and keep their names (a prefix such as
  \<open>oracle_\<close> or \<open>mm_\<close> where two packages share one); each theory opens with what it holds.

  \<^bold>\<open>The program and the theories.\<close>

  Foundations. \<open>Prelude\<close>: errors, panics and results (\<open>res\<close>), computations that thread a store and may fail
  (\<open>comp\<close>). \<open>Kv_Store\<close>: the collections store with the laws of a map as a locale, and Go maps as lists in the
  order a loop visits them. \<open>Go_Strings\<close>, \<open>Go_Json\<close>: what the code uses of \<open>strings\<close> and of the check of
  \<open>encoding/json\<close>. \<open>Big_Float\<close>: \<open>math/big.Float\<close> as used by \<open>pkg/math/math.go\<close>, exactly, with precision,
  rounding, signed zeros and infinities. \<open>Currency_Pair\<close>: \<open>pkg/types/currency_pair.go\<close>.

  The two modules. \<open>Marketmap_Types\<close>, \<open>Marketmap_Keeper\<close>, \<open>Marketmap_Msg\<close>: \<open>x/marketmap\<close>, the map of markets
  the chain keeps, with its authorities, hooks, genesis and queries. \<open>Oracle_Keeper\<close>: \<open>x/oracle\<close>, the pairs with
  their ids, prices and nonces. A chain state holds both stores, since the messages of the first write the
  second through hooks.

  The application (ABCI++). \<open>Vote_Extension\<close>: \<open>abci/ve\<close>, which asks the oracle client and extends, verifies and
  validates votes. \<open>Strategy\<close>: how pairs and prices are encoded in a vote. \<open>Proposals\<close>: \<open>abci/proposals\<close>, which
  puts the pruned commit in front of the transactions and checks it. \<open>Vote_Aggregator\<close>, \<open>Vote_Weighted\<close>: the
  decoding of the votes, the stake-weighted median and the writing of prices. \<open>Preblock\<close>: the pre-blocker that
  does so in a block. \<open>Vote_Codec\<close>: the protobuf bytes of a vote extension, written and read. \<open>Abci_Types\<close>:
  constants, errors and the gob form of integers.

  The sidecar. \<open>Oracle_Config\<close>: its configuration. \<open>Base_Provider\<close>: a provider with its data and options.
  \<open>Provider_Lifecycle\<close>: the goroutines of \<open>Start\<close>. \<open>Api_Handler\<close>: the batches of requests. \<open>Index_Aggregator\<close>:
  \<open>pkg/math/oracle\<close>, the medians of the providers' prices. \<open>Sidecar\<close>: \<open>oracle\<close>, which owns the providers and the
  aggregator, ticks and takes market maps. \<open>Price_Service\<close>: the server of the sidecar and the clients of the
  application.

  The sources of the sidecar. \<open>Json_Value\<close>, \<open>Json_Print\<close>: how \<open>encoding/json\<close> reads a text into Go values and
  writes it. \<open>Float_Text\<close>: prices as decimal text and as \<open>float64\<close>. \<open>Api_Sources\<close>, \<open>Api_Factory\<close>: the REST sources
  and the factory that picks one by its name (\<open>providers/apis\<close>, \<open>providers/factories\<close>). \<open>Ws_Handler\<close>: the connection
  of a websocket source and the query handler that dials, subscribes, reads and answers
  (\<open>providers/base/websocket\<close>); \<open>Ws_Sources\<close>, \<open>Ws_Exchanges\<close>, \<open>Ws_Factory\<close>: the twelve data handlers it runs and
  their factory. \<open>Agex_Markets\<close>, \<open>Agex_Metadata\<close>: where the market map comes from (\<open>providers/apis/agex\<close>,
  \<open>providers/apis/marketmap\<close>), by the conversion of another chain's parameters.

  \<^bold>\<open>State and interaction.\<close> A record stands for a struct; an operation takes the state and returns a result with
  the new state, every early return and panic being a branch. Operations that run under a mutex are one step.
  Where goroutines interleave, an inductive step relation says so: \<open>life_step\<close> for the calls of \<open>Start\<close> of one
  provider (the head of the loop and the end of a fetch are each one step of a few statements),
  and a list of events for the messages, failures and heartbeats of a websocket run,
  \<open>sidecar_step\<close> for the oracle (where a provider moves by the steps of \<open>life_step\<close> other than updates,
  \<open>goroutine_step\<close>), and the step relations of the two modules over their messages. A tick reads
  the clock once. The order of a Go map is the order of the list; theorems on the result of a loop over a map
  hold for every list, and several say that the order does not matter.

  \<^bold>\<open>Interfaces.\<close> The locales \<open>kv_map\<close> (the store), \<open>id_keeper\<close> (what a strategy relies on in
  \<open>x/oracle\<close>) and \<open>price_aggregator\<close> (what a tick relies on in the aggregator) state what their clients
  rely on, and are interpreted on the definitions of \<open>Kv_Store\<close>, \<open>Oracle_Keeper\<close> and \<open>Index_Aggregator\<close>. \<open>rest_source\<close> and
  \<open>answering_source\<close> (what a request relies on in a REST source: what its bodies quote and what it makes of a quoted price) are interpreted on each of the sources in
  \<open>Api_Source_Properties\<close>; \<open>price_stream\<close> and \<open>subscribing_stream\<close> (what the websocket query handler relies on in a data
  handler: what a message quotes, given the messages before it, \<open>Ws_Contract\<close>) on each of the twelve in \<open>Ws_Streams\<close> and \<open>Ws_Asks\<close>.

  \<^bold>\<open>What the lemmas show.\<close> The facts theories (\<open>Oracle_Facts\<close>, \<open>Oracle_Behaviour\<close>, \<open>Marketmap_Facts\<close>,
  \<open>Marketmap_Behaviour\<close>, \<open>Median_Facts\<close>, \<open>Vote_Facts\<close>, \<open>Float_Facts\<close>, \<open>Index_Facts\<close>, \<open>Json_Print_Facts\<close>,
  \<open>Ws_Facts\<close>, and \<open>Json_Leaves\<close> and \<open>Ws_Said\<close> on what a text contains and what a websocket message
  quotes) say what each operation
  returns and writes; the properties theories rest on them:
  \<^item> from the providers to the application: \<open>Index_Properties\<close> (a round of aggregation, majorities),
    \<open>Sidecar_Properties\<close>, \<open>Sidecar_Updates\<close>, \<open>Sidecar_Reach\<close> (ticks, market map updates, reachable states),
    \<open>Provider_Properties\<close>, \<open>Api_Properties\<close> (goroutines, batches), \<open>Price_Service_Properties\<close> (what is served);
  \<^item> from the exchanges to the providers: \<open>Float_Text_Properties\<close> (the accuracy of a price text),
    \<open>Api_Source_Properties\<close>, \<open>Ws_Properties\<close> (which price of an answer of the exchange a
    provider gets for which ticker, and the sources that read an absent price as zero), \<open>Agex_Properties\<close> (a
    fetched market map is valid and well typed);
  \<^item> from the application to the chain: \<open>Extension_Properties\<close>, \<open>Proposal_Properties\<close>, \<open>Vote_Properties\<close>,
    \<open>Median_Properties\<close>, \<open>Strategy_Properties\<close>, \<open>Preblock_Properties\<close>, \<open>Vote_Codec_Properties\<close>;
  \<^item> the modules: \<open>Oracle_Properties\<close> (runs of the keeper from genesis and the ids they hand out), \<open>Oracle_Genesis\<close>, \<open>Marketmap_Properties\<close>, \<open>Marketmap_Validity\<close>,
    \<open>Marketmap_Maps\<close>, \<open>Marketmap_Chain\<close>, \<open>Marketmap_Reach\<close>.

  \<^bold>\<open>Bounds.\<close> No definition runs on fuel: loops are structural recursions or have a termination proof. Ids, nonces, counters and decimals are 64-bit words; durations and sizes that the code only compares are
  integers. \<open>round_ready K\<close> bounds the exponents of the prices of a round by \<open>K\<close>, where \<open>2 * K + 200\<close> fits the
  32-bit exponent of \<open>big.Float\<close>: any price of an exchange does.

  \<^bold>\<open>Parameters.\<close> What is not code under \<open>src/\<close> is an argument or, where it is a container of the SDK's
  \<open>collections\<close> (map, indexed map, item, sequence), taken at its documented behaviour on the store of \<open>Kv_Store\<close>.
  Arguments are the application's handlers, signatures and the
  keys of validators, the consumer chain's validator store, compressors, SHA-256, gRPC, HTTP, websockets,
  gzip, viper and the clock; the address checks of the Ethereum and Solana libraries; the conversion to an integer of a
  float out of its range, which the language leaves open; the static market map of CoinMarketCap, a file of data.

  \<^bold>\<open>Not modelled.\<close> Logs, metrics other than those whose status codes a handler's behaviour depends on, and
  events; reading and writing files; command lines and dependency injection; generated code other than the
  message types and the codec of the vote extension; the sources on decentralised exchanges, which are clients of
  generated contract bindings; the volatile source, a cosine of \<open>float64\<close> for tests; strings outside ASCII where their
  case is mapped or where they are escaped in JSON. \<open>sort.SliceStable\<close> is given the order the
  comparison of \<open>SortBigFloats\<close> leads to on unequal floats: equal ones are interchangeable.
\<close>

end
